(* ===== verification/Prelude.thy ===== *)
theory Prelude
  imports Complex_Main "HOL-Library.AList" "HOL-Library.Char_ord"
    "HOL-Library.List_Lexorder" "HOL-Library.Product_Lexorder"
begin

text \<open>
  Shared material of the development: the exceptions of the Python code as a datatype,
  text operations on ASCII strings (a Python \<open>str\<close> is a \<open>string\<close>; the program's
  identifiers, addresses and amounts are ASCII), numerals in base ten and sixteen, the
  error-result combinator, and tables of rows as SQLite keeps them.
\<close>

named_theorems table_simps \<open>reading a table after an update or an insertion\<close>
named_theorems text_simps \<open>facts on text operations\<close>

section \<open>Instants\<close>

text \<open>
  A float that is a time: a rational, or the infinity that \<open>float("inf")\<close> gives. Times are
  compared with the operators of a linear order.
\<close>

datatype instant = At rat | Forever

instantiation instant :: linorder
begin

fun less_eq_instant :: "instant \<Rightarrow> instant \<Rightarrow> bool" where
  "less_eq_instant (At a) (At b) = (a \<le> b)"
| "less_eq_instant _ Forever = True"
| "less_eq_instant Forever (At _) = False"

definition less_instant :: "instant \<Rightarrow> instant \<Rightarrow> bool" where
  "less_instant a b = (a \<le> b \<and> \<not> b \<le> a)"

instance
proof
  fix a b c :: instant
  show "a \<le> a" by (cases a) simp_all
  show "a \<le> b \<Longrightarrow> b \<le> c \<Longrightarrow> a \<le> c" by (cases a; cases b; cases c) simp_all
  show "a \<le> b \<Longrightarrow> b \<le> a \<Longrightarrow> a = b" by (cases a; cases b) simp_all
  show "a \<le> b \<or> b \<le> a" by (cases a; cases b) auto
qed (rule less_instant_def)

end

lemma instant_simps [simp]: "At a < At b \<longleftrightarrow> a < b" "max (At a) (At b) = At (max a b)"
  by (auto simp: less_instant_def max_def)

section \<open>Exceptions\<close>

text \<open>
  One constructor per exception class the modelled code raises or catches. The text is the
  message. \<open>ConfigError\<close>, \<open>LifiError\<close>, \<open>EthereumGasDeferred\<close> and \<open>LifiRequestLimit\<close> are subclasses of
  \<open>ValueError\<close>, as are those of the route execution; \<open>StageDeadlineExceeded\<close> is one of \<open>TimeoutError\<close>.
  \<open>HttpStatusError\<close> carries the status, the method and the URL.
\<close>

datatype exn =
    ValueError string
  | ConfigError string
  | LifiError string
  | KeyError
  | TypeError
  | AssertionError
  | InvalidOperation
  | RpcError string
  | TimeoutError string
  | StageDeadlineExceeded string
  | AmbiguousBroadcast string
  | EthereumGasDeferred string
  | DispatchWait rat
  | LifiRequestLimit string string "instant option"
  | JobInProgress string "instant option"
  | TransportError string
  | GroupLossLimitExceeded string
  | DepositNotSeen string
  | DepositSettlementFailed string
  | UnsignedRoutePreparationExhausted rat
  | InvalidUnsignedRouteCandidate string
  | HttpStatusError int string string
  | OtherError string

text \<open>The \<open>except\<close> clauses of the code, by class.\<close>

fun is_value_error :: "exn \<Rightarrow> bool" where
  "is_value_error (ValueError _) = True"
| "is_value_error (ConfigError _) = True"
| "is_value_error (LifiError _) = True"
| "is_value_error (EthereumGasDeferred _) = True"
| "is_value_error (LifiRequestLimit _ _ _) = True"
| "is_value_error (JobInProgress _ _) = True"
| "is_value_error (GroupLossLimitExceeded _) = True"
| "is_value_error (DepositNotSeen _) = True"
| "is_value_error (DepositSettlementFailed _) = True"
| "is_value_error (UnsignedRoutePreparationExhausted _) = True"
| "is_value_error (InvalidUnsignedRouteCandidate _) = True"
| "is_value_error _ = False"

fun is_timeout_error :: "exn \<Rightarrow> bool" where
  "is_timeout_error (TimeoutError _) = True"
| "is_timeout_error (StageDeadlineExceeded _) = True"
| "is_timeout_error _ = False"

fun is_rpc_error :: "exn \<Rightarrow> bool" where
  "is_rpc_error (RpcError _) = True"
| "is_rpc_error _ = False"

fun is_deadline :: "exn \<Rightarrow> bool" where
  "is_deadline (StageDeadlineExceeded _) = True"
| "is_deadline _ = False"

type_synonym 'a result = "exn + 'a"

definition bind_result :: "'a result \<Rightarrow> ('a \<Rightarrow> 'b result) \<Rightarrow> 'b result" where
  "bind_result r f = (case r of Inl e \<Rightarrow> Inl e | Inr x \<Rightarrow> f x)"

lemma bind_result_simps [simp]:
  "bind_result (Inl e) f = Inl e"
  "bind_result (Inr x) f = f x"
  by (simp_all add: bind_result_def)

lemma bind_result_Inr [simp]:
  "bind_result r f = Inr y \<longleftrightarrow> (\<exists>x. r = Inr x \<and> f x = Inr y)"
  by (cases r) auto

lemma bind_result_Inl:
  "bind_result r f = Inl e \<longleftrightarrow> r = Inl e \<or> (\<exists>x. r = Inr x \<and> f x = Inl e)"
  by (cases r) auto

text \<open>A loop that collects results, or checks, up to the first exception.\<close>

fun map_results :: "('a \<Rightarrow> 'b result) \<Rightarrow> 'a list \<Rightarrow> 'b list result" where
  "map_results f [] = Inr []"
| "map_results f (x # xs) = bind_result (f x) (\<lambda>y. bind_result (map_results f xs) (\<lambda>ys. Inr (y # ys)))"

fun check_each :: "('a \<Rightarrow> unit result) \<Rightarrow> 'a list \<Rightarrow> unit result" where
  "check_each f [] = Inr ()"
| "check_each f (x # xs) = bind_result (f x) (\<lambda>_. check_each f xs)"

lemma check_each_Inr: "check_each f xs = Inr u \<longleftrightarrow> (\<forall>x \<in> set xs. f x = Inr ())"
  by (induction xs) auto

lemma map_results_set: "map_results f xs = Inr ys \<Longrightarrow> y \<in> set ys \<Longrightarrow> \<exists>x \<in> set xs. f x = Inr y"
  by (induction xs arbitrary: ys) auto

lemma map_results_length: "map_results f xs = Inr ys \<Longrightarrow> length ys = length xs"
  by (induction xs arbitrary: ys) auto

text \<open>A check that raises when its condition fails to hold.\<close>

definition require :: "bool \<Rightarrow> exn \<Rightarrow> unit result" where
  "require b e = (if b then Inr () else Inl e)"

lemma require_simps [simp]:
  "require b e = Inr u \<longleftrightarrow> b"
  "require b e = Inl e' \<longleftrightarrow> \<not> b \<and> e = e'"
  "require True e = Inr ()" "require False e = Inl e"
  by (auto simp: require_def)

section \<open>ASCII text\<close>

definition code_of :: "char \<Rightarrow> nat" where
  "code_of c = of_char c"

definition lower_char :: "char \<Rightarrow> char" where
  "lower_char c = (if 65 \<le> code_of c \<and> code_of c \<le> 90 then char_of (code_of c + 32) else c)"

definition upper_char :: "char \<Rightarrow> char" where
  "upper_char c = (if 97 \<le> code_of c \<and> code_of c \<le> 122 then char_of (code_of c - 32) else c)"

definition lower :: "string \<Rightarrow> string" where
  "lower s = map lower_char s"

definition upper :: "string \<Rightarrow> string" where
  "upper s = map upper_char s"

definition starts_with :: "string \<Rightarrow> string \<Rightarrow> bool" where
  "starts_with p s \<longleftrightarrow> take (length p) s = p"

text \<open>The \<open>in\<close> operator on strings: some suffix starts with the pattern.\<close>

fun contains :: "string \<Rightarrow> string \<Rightarrow> bool" where
  "contains p [] = (p = [])"
| "contains p (c # s) = (starts_with p (c # s) \<or> contains p s)"

definition is_digit :: "char \<Rightarrow> bool" where
  "is_digit c \<longleftrightarrow> 48 \<le> code_of c \<and> code_of c \<le> 57"

definition is_hex :: "char \<Rightarrow> bool" where
  "is_hex c \<longleftrightarrow> is_digit c \<or> (65 \<le> code_of c \<and> code_of c \<le> 70)
     \<or> (97 \<le> code_of c \<and> code_of c \<le> 102)"

lemma code_of_bound: "code_of c < 256"
proof -
  have "of_char c = (of_char c mod 256 :: nat)"
    by (metis char_of_char of_char_of)
  then show ?thesis unfolding code_of_def
    by (metis mod_less_divisor zero_less_numeral)
qed

lemma code_of_char_of [simp]: "code_of (char_of n) = n mod 256"
  by (simp add: code_of_def)

lemma char_of_code_of [simp]: "char_of (code_of c) = c"
  by (simp add: code_of_def)

lemma lower_char_idem [simp]: "lower_char (lower_char c) = lower_char c"
  by (auto simp: lower_char_def)

lemma lower_idem [simp, text_simps]: "lower (lower s) = lower s"
  by (simp add: lower_def)

lemma length_lower [simp, text_simps]: "length (lower s) = length s"
  by (simp add: lower_def)

lemma lower_eq_Nil [simp, text_simps]: "lower s = [] \<longleftrightarrow> s = []"
  by (simp add: lower_def)

lemma lower_Cons [simp]: "lower (c # s) = lower_char c # lower s"
  by (simp add: lower_def)

lemma lower_Nil [simp]: "lower [] = []"
  by (simp add: lower_def)

lemma starts_with_append [simp, text_simps]: "starts_with p (p @ s)"
  by (simp add: starts_with_def)

lemma starts_withE: "starts_with p s \<Longrightarrow> \<exists>t. s = p @ t"
  unfolding starts_with_def by (metis append_take_drop_id)

lemma contains_append [text_simps]: "contains p (s @ p @ t)"
proof (induction s)
  case Nil
  have "starts_with p (p @ t)" by simp
  then show ?case by (cases "p @ t") (simp_all add: starts_with_def)
qed simp

text \<open>\<open>sep.join(texts)\<close>\<close>

fun join_texts :: "string \<Rightarrow> string list \<Rightarrow> string" where
  "join_texts sep [] = []"
| "join_texts sep [x] = x"
| "join_texts sep (x # y # ys) = x @ sep @ join_texts sep (y # ys)"

section \<open>Numerals in text\<close>

text \<open>\<open>str(n)\<close> for a non-negative integer, and \<open>int(s)\<close> for a string of digits.\<close>

definition digit_char :: "nat \<Rightarrow> char" where
  "digit_char d = char_of (48 + d)"

definition digit_val :: "char \<Rightarrow> nat" where
  "digit_val c = code_of c - 48"

fun nat_text :: "nat \<Rightarrow> string" where
  "nat_text n = (if n < 10 then [digit_char n] else nat_text (n div 10) @ [digit_char (n mod 10)])"

declare nat_text.simps [simp del]

definition digits_val :: "string \<Rightarrow> nat" where
  "digits_val s = foldl (\<lambda>a c. 10 * a + digit_val c) 0 s"

definition int_text :: "int \<Rightarrow> string" where
  "int_text i = (if i < 0 then CHR ''-'' # nat_text (nat (- i)) else nat_text (nat i))"

definition all_digits :: "string \<Rightarrow> bool" where
  "all_digits s \<longleftrightarrow> s \<noteq> [] \<and> list_all is_digit s"

lemma digit_val_char [simp]: "d < 10 \<Longrightarrow> digit_val (digit_char d) = d"
  by (simp add: digit_val_def digit_char_def)

lemma is_digit_char [simp]: "d < 10 \<Longrightarrow> is_digit (digit_char d)"
  by (simp add: is_digit_def digit_char_def)

lemma digits_val_Nil [simp]: "digits_val [] = 0"
  by (simp add: digits_val_def)

lemma digits_val_snoc [simp]: "digits_val (s @ [c]) = 10 * digits_val s + digit_val c"
  by (simp add: digits_val_def)

lemma digits_val_append: "digits_val (s @ t) = digits_val s * 10 ^ length t + digits_val t"
proof (induction t rule: rev_induct)
  case (snoc c t)
  have "digits_val (s @ t @ [c]) = 10 * digits_val (s @ t) + digit_val c"
    using digits_val_snoc [of "s @ t" c] by simp
  with snoc show ?case by (simp add: algebra_simps)
qed simp

lemma digits_val_nat_text [simp]: "digits_val (nat_text n) = n"
proof (induction n rule: nat_text.induct)
  case (1 n)
  show ?case
  proof (cases "n < 10")
    case True
    then show ?thesis
      by (simp add: nat_text.simps [of n] digits_val_def)
  next
    case False
    with 1 show ?thesis by (simp add: nat_text.simps [of n])
  qed
qed

lemma nat_text_digits [simp]: "list_all is_digit (nat_text n)"
proof (induction n rule: nat_text.induct)
  case (1 n)
  then show ?case by (cases "n < 10") (simp_all add: nat_text.simps [of n])
qed

lemma nat_text_nonempty [simp]: "nat_text n \<noteq> []"
  by (simp add: nat_text.simps [of n])

lemma all_digits_nat_text [simp]: "all_digits (nat_text n)"
  by (simp add: all_digits_def)

lemma nat_text_inj [simp]: "nat_text m = nat_text n \<longleftrightarrow> m = n"
  by (metis digits_val_nat_text)

text \<open>Hexadecimal numerals: \<open>int(s, 16)\<close> for a string of hex digits, \<open>hex(n)[2:]\<close>.\<close>

definition hex_val :: "char \<Rightarrow> nat" where
  "hex_val c = (if is_digit c then code_of c - 48
     else if code_of c \<le> 70 then code_of c - 55 else code_of c - 87)"

definition hexes_val :: "string \<Rightarrow> nat" where
  "hexes_val s = foldl (\<lambda>a c. 16 * a + hex_val c) 0 s"

definition hex_char :: "nat \<Rightarrow> char" where
  "hex_char d = (if d < 10 then char_of (48 + d) else char_of (87 + d))"

fun hex_text :: "nat \<Rightarrow> string" where
  "hex_text n = (if n < 16 then [hex_char n] else hex_text (n div 16) @ [hex_char (n mod 16)])"

declare hex_text.simps [simp del]

lemma hex_val_char [simp]: "d < 16 \<Longrightarrow> hex_val (hex_char d) = d"
  by (auto simp: hex_val_def hex_char_def is_digit_def)

lemma is_hex_char [simp]: "d < 16 \<Longrightarrow> is_hex (hex_char d)"
  by (auto simp: is_hex_def hex_char_def is_digit_def)

lemma hexes_val_Nil [simp]: "hexes_val [] = 0"
  by (simp add: hexes_val_def)

lemma hexes_val_snoc [simp]: "hexes_val (s @ [c]) = 16 * hexes_val s + hex_val c"
  by (simp add: hexes_val_def)

lemma hexes_val_hex_text [simp]: "hexes_val (hex_text n) = n"
proof (induction n rule: hex_text.induct)
  case (1 n)
  show ?case
  proof (cases "n < 16")
    case True
    then show ?thesis by (simp add: hex_text.simps [of n] hexes_val_def)
  next
    case False
    with 1 show ?thesis by (simp add: hex_text.simps [of n])
  qed
qed

lemma hex_text_hexes [simp]: "list_all is_hex (hex_text n)"
proof (induction n rule: hex_text.induct)
  case (1 n)
  then show ?case by (cases "n < 16") (simp_all add: hex_text.simps [of n])
qed

lemma hex_text_nonempty [simp]: "hex_text n \<noteq> []"
  by (simp add: hex_text.simps [of n])

text \<open>\<open>s.rjust(n, "0")\<close>.\<close>

definition rjust0 :: "nat \<Rightarrow> string \<Rightarrow> string" where
  "rjust0 n s = replicate (n - length s) (CHR ''0'') @ s"

lemma length_rjust0: "length s \<le> n \<Longrightarrow> length (rjust0 n s) = n"
  by (simp add: rjust0_def)

text \<open>The regular expression \<open>0x[0-9a-fA-F]{n}\<close>, matched in full.\<close>

definition hex_of_length :: "nat \<Rightarrow> string \<Rightarrow> bool" where
  "hex_of_length n s \<longleftrightarrow>
     starts_with ''0x'' s \<and> length s = n + 2 \<and> list_all is_hex (drop 2 s)"

definition is_address :: "string \<Rightarrow> bool" where
  "is_address s = hex_of_length 40 s"

section \<open>Tables\<close>

text \<open>
  A SQLite table is the list of its rows in rowid order. An \<open>INTEGER PRIMARY KEY\<close> that is
  not given is one more than the largest one in use. \<open>UPDATE ... WHERE\<close> rewrites the rows
  that satisfy a condition, a \<open>SELECT\<close> of one row finds the first.
\<close>

definition next_rowid :: "('r \<Rightarrow> nat) \<Rightarrow> 'r list \<Rightarrow> nat" where
  "next_rowid rid rows = Suc (fold max (map rid rows) 0)"

definition update_where :: "('r \<Rightarrow> bool) \<Rightarrow> ('r \<Rightarrow> 'r) \<Rightarrow> 'r list \<Rightarrow> 'r list" where
  "update_where P f rows = map (\<lambda>r. if P r then f r else r) rows"

definition select_one :: "('r \<Rightarrow> bool) \<Rightarrow> 'r list \<Rightarrow> 'r option" where
  "select_one P rows = List.find P rows"

definition select_last :: "('r \<Rightarrow> bool) \<Rightarrow> 'r list \<Rightarrow> 'r option" where
  "select_last P rows = List.find P (rev rows)"

lemma fold_max_ge: "x \<in> set xs \<or> x \<le> (m::nat) \<Longrightarrow> x \<le> fold max xs m"
proof (induction xs arbitrary: m)
  case (Cons y ys)
  have "x \<in> set ys \<or> x \<le> max y m" using Cons.prems by auto
  then show ?case using Cons.IH by simp
qed simp

lemma next_rowid_fresh: "r \<in> set rows \<Longrightarrow> rid r < next_rowid rid rows"
  unfolding next_rowid_def by (rule le_imp_less_Suc, rule fold_max_ge) simp

lemma next_rowid_new: "next_rowid rid rows \<notin> rid ` set rows"
proof
  assume "next_rowid rid rows \<in> rid ` set rows"
  then obtain r where "r \<in> set rows" and eq: "next_rowid rid rows = rid r" by auto
  then have "rid r < next_rowid rid rows" by (intro next_rowid_fresh)
  with eq show False by simp
qed

lemma next_rowid_pos [simp]: "0 < next_rowid rid rows"
  by (simp add: next_rowid_def)

lemma find_cong_set: "(\<And>x. x \<in> set xs \<Longrightarrow> P x = Q x) \<Longrightarrow> List.find P xs = List.find Q xs"
  by (induction xs) auto

lemma find_map_cond:
  "(\<And>x. P (f x) = Q x) \<Longrightarrow> List.find P (map f xs) = map_option f (List.find Q xs)"
  by (induction xs) auto

lemma find_append:
  "List.find P (xs @ ys) = (case List.find P xs of None \<Rightarrow> List.find P ys | Some x \<Rightarrow> Some x)"
  by (induction xs) auto

lemma select_one_SomeD [dest?]: "select_one P rows = Some r \<Longrightarrow> r \<in> set rows \<and> P r"
  unfolding select_one_def by (auto simp: find_Some_iff)

lemma select_last_SomeD [dest?]: "select_last P rows = Some r \<Longrightarrow> r \<in> set rows \<and> P r"
  unfolding select_last_def by (auto simp: find_Some_iff)
    (metis nth_mem set_rev length_rev)

lemma select_one_None_iff [table_simps]: "select_one P rows = None \<longleftrightarrow> (\<forall>r \<in> set rows. \<not> P r)"
  unfolding select_one_def by (auto simp: find_None_iff)

lemma select_last_None_iff [table_simps]: "select_last P rows = None \<longleftrightarrow> (\<forall>r \<in> set rows. \<not> P r)"
  unfolding select_last_def by (auto simp: find_None_iff)

lemma select_last_snoc [table_simps]:
  "select_last P (rows @ [r]) = (if P r then Some r else select_last P rows)"
  by (simp add: select_last_def)

lemma select_one_snoc [table_simps]:
  "select_one P (rows @ [r]) =
     (case select_one P rows of None \<Rightarrow> (if P r then Some r else None) | Some x \<Rightarrow> Some x)"
  by (simp add: select_one_def find_append split: option.split)

lemma set_update_where [table_simps]:
  "set (update_where P f rows) = (\<lambda>r. if P r then f r else r) ` set rows"
  by (simp add: update_where_def)

lemma length_update_where [simp, table_simps]: "length (update_where P f rows) = length rows"
  by (simp add: update_where_def)

lemma map_update_where [table_simps]:
  "(\<And>r. g (f r) = g r) \<Longrightarrow> map g (update_where P f rows) = map g rows"
  by (simp add: update_where_def)

lemma select_one_update_where [table_simps]:
  assumes "\<And>r. Q (f r) = Q r"
  shows "select_one Q (update_where P f rows)
    = map_option (\<lambda>r. if P r then f r else r) (select_one Q rows)"
  unfolding select_one_def update_where_def
  by (rule find_map_cond) (simp add: assms)

lemma select_last_update_where [table_simps]:
  assumes "\<And>r. Q (f r) = Q r"
  shows "select_last Q (update_where P f rows)
    = map_option (\<lambda>r. if P r then f r else r) (select_last Q rows)"
  unfolding select_last_def update_where_def rev_map
  by (rule find_map_cond) (simp add: assms)

lemma select_one_distinct:
  assumes "distinct (map rid rows)" and "r \<in> set rows"
  shows "select_one (\<lambda>x. rid x = rid r) rows = Some r"
  using assms unfolding select_one_def by (induction rows) (auto simp: rev_image_eqI)

lemma distinct_filter_one: "distinct (map f xs) \<Longrightarrow> length (filter (\<lambda>x. f x = a) xs) \<le> 1"
proof (induction xs)
  case (Cons x xs)
  have "filter (\<lambda>y. f y = a) xs = []" if "f x = a"
    using Cons.prems that by (auto simp: filter_empty_conv rev_image_eqI)
  with Cons show ?case by auto
qed simp

text \<open>An upsert on a table keyed by its primary key, kept as an association list.\<close>

lemma map_of_AList_update [simp, table_simps]:
  "map_of (AList.update k v al) k' = (if k' = k then Some v else map_of al k')"
  by (simp add: update_conv')

end
