(* ===== verification/Py_Decimal.thy ===== *)
theory Py_Decimal
  imports Prelude
begin

text \<open>
  Python's \<open>decimal.Decimal\<close> as far as the program uses it: parsing, comparison, sums,
  products and quotients in a context of a given precision with rounding half to even,
  \<open>normalize\<close>, \<open>adjusted\<close> and \<open>format(d, "f")\<close>. Arithmetic is on finite numbers only:
  the program tests \<open>is_finite\<close> before it calculates. The exponent limits of the
  context (999999 either way) are not modelled.
\<close>

named_theorems dec_simps \<open>values of decimal operations\<close>

section \<open>Numbers\<close>

text \<open>\<open>Fin neg coeff expo\<close> is \<open>(-1)^neg * coeff * 10^expo\<close>, as \<open>as_tuple()\<close> shows it.\<close>

datatype fdec = Fin (negative: bool) (coeff: nat) (expo: int)

datatype decimal = Number fdec | Infinite bool | NaN

definition ndigits :: "nat \<Rightarrow> nat" where
  "ndigits n = length (nat_text n)"

definition scoeff :: "bool \<Rightarrow> nat \<Rightarrow> int" where
  "scoeff s c = (if s then - int c else int c)"

definition dec_value :: "fdec \<Rightarrow> rat" where
  "dec_value d = of_int (scoeff (negative d) (coeff d)) * 10 powi expo d"

definition dec_of_int :: "int \<Rightarrow> fdec" where
  "dec_of_int i = Fin (i < 0) (nat \<bar>i\<bar>) 0"

definition adjusted :: "fdec \<Rightarrow> int" where
  "adjusted d = expo d + int (ndigits (coeff d)) - 1"

definition dec_nonzero :: "fdec \<Rightarrow> bool" where
  "dec_nonzero d \<longleftrightarrow> coeff d \<noteq> 0"

definition dec_neg :: "fdec \<Rightarrow> fdec" where
  "dec_neg d = Fin (\<not> negative d) (coeff d) (expo d)"

text \<open>The signed coefficient at a smaller exponent.\<close>

definition aligned :: "fdec \<Rightarrow> int \<Rightarrow> int" where
  "aligned d m = scoeff (negative d) (coeff d) * 10 ^ nat (expo d - m)"

definition dec_less :: "fdec \<Rightarrow> fdec \<Rightarrow> bool" where
  "dec_less a b = (let m = min (expo a) (expo b) in aligned a m < aligned b m)"

definition dec_le :: "fdec \<Rightarrow> fdec \<Rightarrow> bool" where
  "dec_le a b = (let m = min (expo a) (expo b) in aligned a m \<le> aligned b m)"

definition dec_eq :: "fdec \<Rightarrow> fdec \<Rightarrow> bool" where
  "dec_eq a b = (let m = min (expo a) (expo b) in aligned a m = aligned b m)"

definition dec_max :: "fdec \<Rightarrow> fdec \<Rightarrow> fdec" where
  "dec_max a b = (if dec_less a b then b else a)"

section \<open>Rounding and arithmetic in a context of precision p\<close>

definition round_half_even :: "nat \<Rightarrow> nat \<Rightarrow> nat" where
  "round_half_even c k =
     (let q = c div 10 ^ k; r = c mod 10 ^ k
      in if 10 ^ k < 2 * r \<or> (2 * r = 10 ^ k \<and> odd q) then Suc q else q)"

definition dec_fix :: "nat \<Rightarrow> fdec \<Rightarrow> fdec" where
  "dec_fix p d =
     (if ndigits (coeff d) \<le> p then d
      else let k = ndigits (coeff d) - p; q = round_half_even (coeff d) k
           in if p < ndigits q then Fin (negative d) (q div 10) (expo d + int k + 1)
              else Fin (negative d) q (expo d + int k))"

definition exact_add :: "fdec \<Rightarrow> fdec \<Rightarrow> fdec" where
  "exact_add a b =
     (let m = min (expo a) (expo b); z = aligned a m + aligned b m
      in Fin (z < 0 \<or> (z = 0 \<and> negative a \<and> negative b)) (nat \<bar>z\<bar>) m)"

definition exact_mul :: "fdec \<Rightarrow> fdec \<Rightarrow> fdec" where
  "exact_mul a b = Fin (negative a \<noteq> negative b) (coeff a * coeff b) (expo a + expo b)"

definition dec_add :: "nat \<Rightarrow> fdec \<Rightarrow> fdec \<Rightarrow> fdec" where
  "dec_add p a b = dec_fix p (exact_add a b)"

definition dec_mul :: "nat \<Rightarrow> fdec \<Rightarrow> fdec \<Rightarrow> fdec" where
  "dec_mul p a b = dec_fix p (exact_mul a b)"

definition dec_sub :: "nat \<Rightarrow> fdec \<Rightarrow> fdec \<Rightarrow> fdec" where
  "dec_sub p a b = dec_add p a (dec_neg b)"

text \<open>
  Division: \<open>p + 1\<close> or more digits of the quotient, a sticky last digit when it is not
  exact, trailing zeros removed towards the ideal exponent when it is.
\<close>

function drop_zeros_to :: "int \<Rightarrow> nat \<Rightarrow> int \<Rightarrow> nat \<times> int" where
  "drop_zeros_to ideal c e =
     (if e < ideal \<and> c mod 10 = 0 then drop_zeros_to ideal (c div 10) (e + 1) else (c, e))"
  by pat_completeness auto
termination
  by (relation "measure (\<lambda>(ideal, c, e). nat (ideal - e))") auto

declare drop_zeros_to.simps [simp del]

definition dec_div :: "nat \<Rightarrow> fdec \<Rightarrow> fdec \<Rightarrow> fdec result" where
  "dec_div p a b =
     (if coeff b = 0 then Inl InvalidOperation
      else let s = (negative a \<noteq> negative b) in
        if coeff a = 0 then Inr (Fin s 0 (expo a - expo b))
        else
          let shift = int (ndigits (coeff b)) - int (ndigits (coeff a)) + int p + 1;
              e = expo a - expo b - shift;
              n = (if 0 \<le> shift then coeff a * 10 ^ nat shift else coeff a);
              m = (if 0 \<le> shift then coeff b else coeff b * 10 ^ nat (- shift));
              q = n div m; r = n mod m
          in if r \<noteq> 0
             then Inr (dec_fix p (Fin s (if q mod 5 = 0 then Suc q else q) e))
             else let (q', e') = drop_zeros_to (expo a - expo b) q e
                  in Inr (dec_fix p (Fin s q' e')))"

function strip_zeros :: "nat \<Rightarrow> int \<Rightarrow> nat \<times> int" where
  "strip_zeros c e = (if c \<noteq> 0 \<and> c mod 10 = 0 then strip_zeros (c div 10) (e + 1) else (c, e))"
  by pat_completeness auto
termination
  by (relation "measure (\<lambda>(c, e). c)") auto

declare strip_zeros.simps [simp del]

definition normalize :: "nat \<Rightarrow> fdec \<Rightarrow> fdec" where
  "normalize p d =
     (let f = dec_fix p d in
      if coeff f = 0 then Fin (negative f) 0 0
      else let (c, e) = strip_zeros (coeff f) (expo f) in Fin (negative f) c e)"

text \<open>The precision of the default context.\<close>

definition default_prec :: nat where
  "default_prec = 28"

section \<open>Text\<close>

definition is_space :: "char \<Rightarrow> bool" where
  "is_space c \<longleftrightarrow> (9 \<le> code_of c \<and> code_of c \<le> 13) \<or> (28 \<le> code_of c \<and> code_of c \<le> 32)"

definition strip :: "string \<Rightarrow> string" where
  "strip s = rev (dropWhile is_space (rev (dropWhile is_space s)))"

definition take_sign :: "string \<Rightarrow> bool \<times> string" where
  "take_sign s = (case s of
      [] \<Rightarrow> (False, [])
    | c # t \<Rightarrow> if c = CHR ''-'' then (True, t) else if c = CHR ''+'' then (False, t)
               else (False, s))"

definition parse_exponent :: "string \<Rightarrow> int option" where
  "parse_exponent s =
     (case take_sign s of (neg, t) \<Rightarrow>
        if all_digits t then Some (if neg then - int (digits_val t) else int (digits_val t))
        else None)"

definition parse_number :: "bool \<Rightarrow> string \<Rightarrow> fdec option" where
  "parse_number neg b =
     (let i = takeWhile is_digit b; r = dropWhile is_digit b;
          (f, r') = (case r of
              [] \<Rightarrow> ([], r)
            | c # t \<Rightarrow> if c = CHR ''.'' then (takeWhile is_digit t, dropWhile is_digit t)
                       else ([], r))
      in if i @ f = [] then None
         else case r' of
             [] \<Rightarrow> Some (Fin neg (digits_val (i @ f)) (- int (length f)))
           | c # t \<Rightarrow>
               if c = CHR ''e'' then
                 map_option (\<lambda>x. Fin neg (digits_val (i @ f)) (x - int (length f)))
                   (parse_exponent t)
               else None)"

text \<open>\<open>Decimal(text)\<close>; \<open>None\<close> is the \<open>InvalidOperation\<close> of a text that is no number.\<close>

definition parse_decimal :: "string \<Rightarrow> decimal option" where
  "parse_decimal text =
     (let s = lower (filter (\<lambda>c. c \<noteq> CHR ''_'') (strip text)); (neg, b) = take_sign s
      in if b = ''inf'' \<or> b = ''infinity'' then Some (Infinite neg)
         else if starts_with ''nan'' b \<and> list_all is_digit (drop 3 b) then Some NaN
         else if starts_with ''snan'' b \<and> list_all is_digit (drop 4 b) then Some NaN
         else map_option Number (parse_number neg b))"

definition format_digits :: "string \<Rightarrow> int \<Rightarrow> string" where
  "format_digits ds e =
     (let left = e + int (length ds) in
      if left < 0 then ''0.'' @ replicate (nat (- left)) (CHR ''0'') @ ds
      else if int (length ds) < left then ds @ replicate (nat (left - int (length ds))) (CHR ''0'')
      else (if left = 0 then ''0'' else take (nat left) ds)
             @ (if drop (nat left) ds = [] then [] else CHR ''.'' # drop (nat left) ds))"

text \<open>\<open>format(d, "f")\<close>.\<close>

definition format_f :: "fdec \<Rightarrow> string" where
  "format_f d =
     (if negative d then ''-'' else [])
       @ format_digits (nat_text (coeff d)) (if coeff d = 0 \<and> 0 < expo d then 0 else expo d)"

section \<open>Digits and magnitudes\<close>

lemma ndigits_pos [simp]: "0 < ndigits n"
  by (simp add: ndigits_def)

lemma ndigits_rec: "ndigits n = (if n < 10 then 1 else Suc (ndigits (n div 10)))"
  by (simp add: ndigits_def nat_text.simps [of n])

lemma less_ndigits: "n < 10 ^ ndigits n"
proof (induction n rule: nat_text.induct)
  case (1 n)
  show ?case
  proof (cases "n < 10")
    case False
    with 1 have "n div 10 < 10 ^ ndigits (n div 10)" by simp
    then have "n < 10 * 10 ^ ndigits (n div 10)" by simp
    with False show ?thesis by (simp add: ndigits_rec [of n])
  qed (simp add: ndigits_rec [of n])
qed

lemma ndigits_le: "0 < n \<Longrightarrow> 10 ^ (ndigits n - 1) \<le> n"
proof (induction n rule: nat_text.induct)
  case (1 n)
  show ?case
  proof (cases "n < 10")
    case False
    with 1 have IH: "10 ^ (ndigits (n div 10) - 1) \<le> n div 10" by simp
    have "(10 :: nat) ^ (ndigits n - 1) = 10 * 10 ^ (ndigits (n div 10) - 1)"
      using False power_Suc [of "10 :: nat" "ndigits (n div 10) - 1"]
      by (simp add: ndigits_rec [of n])
    also have "\<dots> \<le> 10 * (n div 10)" using IH by simp
    also have "\<dots> \<le> n" by simp
    finally show ?thesis .
  qed (use 1 in \<open>simp add: ndigits_rec [of n]\<close>)
qed

lemma ndigits_le_iff: "0 < p \<Longrightarrow> ndigits n \<le> p \<longleftrightarrow> n < 10 ^ p"
proof
  assume p: "0 < p" and lt: "n < 10 ^ p"
  show "ndigits n \<le> p"
  proof (cases "n = 0")
    case True
    with p show ?thesis by (simp add: ndigits_rec)
  next
    case False
    then have "(10 :: nat) ^ (ndigits n - 1) < 10 ^ p"
      using ndigits_le lt by (meson le_less_trans neq0_conv)
    then have "ndigits n - 1 < p" by (simp add: power_less_imp_less_exp)
    then show ?thesis by simp
  qed
next
  assume "ndigits n \<le> p"
  then have "(10 :: nat) ^ ndigits n \<le> 10 ^ p" by (simp add: power_increasing)
  with less_ndigits show "n < 10 ^ p" by (meson less_le_trans)
qed

lemma ndigits_0 [simp]: "ndigits 0 = 1"
  by (simp add: ndigits_rec)

section \<open>Values\<close>

lemma dec_value_Fin [dec_simps]: "dec_value (Fin s c e) = of_int (scoeff s c) * 10 powi e"
  by (simp add: dec_value_def)

lemma scoeff_of_int: "scoeff (z < 0 \<or> (z = 0 \<and> b)) (nat \<bar>z\<bar>) = z"
  by (auto simp: scoeff_def)

lemma dec_value_of_int [simp, dec_simps]: "dec_value (dec_of_int i) = of_int i"
  by (auto simp: dec_of_int_def dec_value_def scoeff_def)

lemma dec_value_neg [simp, dec_simps]: "dec_value (dec_neg d) = - dec_value d"
  by (simp add: dec_value_def dec_neg_def scoeff_def)

lemma dec_value_aligned:
  assumes "m \<le> expo d"
  shows "dec_value d = of_int (aligned d m) * 10 powi m"
proof -
  have "(10 :: rat) powi expo d = 10 ^ nat (expo d - m) * 10 powi m"
    using assms power_int_add [of "10 :: rat" "expo d - m" m]
    by (simp add: power_int_def)
  then show ?thesis by (simp add: dec_value_def aligned_def)
qed

lemma dec_compare_values:
  "dec_less a b \<longleftrightarrow> dec_value a < dec_value b"
  "dec_le a b \<longleftrightarrow> dec_value a \<le> dec_value b"
  "dec_eq a b \<longleftrightarrow> dec_value a = dec_value b"
proof -
  let ?m = "min (expo a) (expo b)"
  have "dec_value a = of_int (aligned a ?m) * 10 powi ?m"
    and "dec_value b = of_int (aligned b ?m) * 10 powi ?m"
    by (rule dec_value_aligned; simp)+
  then show "dec_less a b \<longleftrightarrow> dec_value a < dec_value b"
    "dec_le a b \<longleftrightarrow> dec_value a \<le> dec_value b"
    "dec_eq a b \<longleftrightarrow> dec_value a = dec_value b"
    by (simp_all add: dec_less_def dec_le_def dec_eq_def Let_def)
qed

lemma dec_value_max [dec_simps]: "dec_value (dec_max a b) = max (dec_value a) (dec_value b)"
  by (auto simp: dec_max_def dec_compare_values)

lemma dec_value_exact_add [simp, dec_simps]:
  "dec_value (exact_add a b) = dec_value a + dec_value b"
proof -
  let ?m = "min (expo a) (expo b)"
  have "dec_value a = of_int (aligned a ?m) * 10 powi ?m"
    and "dec_value b = of_int (aligned b ?m) * 10 powi ?m"
    by (rule dec_value_aligned; simp)+
  then show ?thesis
    by (simp add: exact_add_def Let_def dec_value_Fin scoeff_of_int algebra_simps)
qed

lemma dec_value_exact_mul [simp, dec_simps]:
  "dec_value (exact_mul a b) = dec_value a * dec_value b"
  by (auto simp: exact_mul_def dec_value_def scoeff_def power_int_add)

lemma dec_nonzero_value: "dec_nonzero d \<longleftrightarrow> dec_value d \<noteq> 0"
  by (auto simp: dec_nonzero_def dec_value_def scoeff_def)

section \<open>When rounding changes nothing\<close>

lemma dec_fix_fits [simp]: "ndigits (coeff d) \<le> p \<Longrightarrow> dec_fix p d = d"
  by (simp add: dec_fix_def)

lemma round_half_even_multiple: "round_half_even (q * 10 ^ k) k = q"
  by (simp add: round_half_even_def Let_def)

text \<open>A number that has at most \<open>p\<close> digits at some exponent keeps its value.\<close>

lemma dec_fix_exact:
  assumes p: "0 < p" and v: "dec_value d = of_int z * 10 powi m" and z: "\<bar>z\<bar> < 10 ^ p"
  shows "dec_value (dec_fix p d) = dec_value d"
proof (cases "ndigits (coeff d) \<le> p")
  case False
  obtain s c e where d: "d = Fin s c e" by (cases d)
  from False d have big: "p < ndigits c" by simp
  then have c0: "0 < c" using p by (cases "c = 0") simp_all
  from big have "(10 :: nat) ^ p \<le> 10 ^ (ndigits c - 1)" by (intro power_increasing) auto
  then have c_ge: "10 ^ p \<le> c" using ndigits_le [OF c0] by (rule order_trans)
  have abs1: "\<bar>dec_value d\<bar> = of_int (int c) * 10 powi e"
    by (simp add: d dec_value_def scoeff_def abs_mult power_int_abs)
  have abs2: "\<bar>dec_value d\<bar> = of_int \<bar>z\<bar> * 10 powi m"
    by (simp add: v abs_mult power_int_abs)
  from abs1 abs2 have eq: "of_int (int c) * (10 :: rat) powi e = of_int \<bar>z\<bar> * 10 powi m"
    by simp
  have zc: "\<bar>z\<bar> < int c"
  proof -
    have "int (10 ^ p) \<le> int c" using c_ge by (simp only: of_nat_le_iff)
    moreover have "int (10 ^ p) = 10 ^ p" by simp
    ultimately show ?thesis using z by linarith
  qed
  have em: "e < m"
  proof (rule ccontr)
    assume "\<not> e < m"
    then have "(10 :: rat) powi m \<le> 10 powi e" by (intro power_int_increasing) auto
    then have "of_int \<bar>z\<bar> * (10 :: rat) powi m \<le> of_int \<bar>z\<bar> * 10 powi e"
      by (intro mult_left_mono) simp_all
    also have "\<dots> < of_int (int c) * 10 powi e"
      using zc by (intro mult_strict_right_mono) (simp_all only: of_int_less_iff zero_less_power_int zero_less_numeral)
    finally have "of_int \<bar>z\<bar> * (10 :: rat) powi m < of_int (int c) * 10 powi e" .
    with eq show False by simp
  qed
  define n where "n = nat (m - e)"
  have "(10 :: rat) powi m = 10 ^ n * 10 powi e"
    using em power_int_add [of "10 :: rat" "m - e" e] by (simp add: n_def power_int_def)
  with eq have "(of_int (int c) :: rat) = of_int (\<bar>z\<bar> * 10 ^ n)" by simp
  then have cz: "int c = \<bar>z\<bar> * 10 ^ n" by (simp only: of_int_eq_iff)
  define y where "y = nat \<bar>z\<bar>"
  have cy: "c = y * 10 ^ n" and yp: "y < 10 ^ p"
  proof -
    have "int c = int (y * 10 ^ n)" using cz by (simp add: y_def)
    then show "c = y * 10 ^ n" by (simp only: of_nat_eq_iff)
    have "int y < int (10 ^ p)" using z by (simp add: y_def del: nat_abs_int_diff)
    then show "y < 10 ^ p" by (simp only: of_nat_less_iff)
  qed
  from yp have "c < 10 ^ (p + n)" by (simp add: cy power_add)
  then have "ndigits c \<le> p + n" by (subst ndigits_le_iff) (use p in auto)
  then have kn: "ndigits c - p \<le> n" by linarith
  define k where "k = ndigits c - p"
  define j where "j = n - k"
  define q where "q = y * 10 ^ j"
  have nk: "n = j + k" using kn by (simp add: j_def k_def)
  have cq: "c = q * 10 ^ k" unfolding cy q_def nk by (simp add: power_add)
  have "c < 10 ^ (p + k)" using less_ndigits [of c] big by (simp add: k_def)
  then have "q * 10 ^ k < 10 ^ p * 10 ^ k" unfolding cq power_add .
  then have "q < 10 ^ p" by simp
  then have nq: "ndigits q \<le> p" using p by (subst ndigits_le_iff)
  have rq: "round_half_even c k = q" unfolding cq by (rule round_half_even_multiple)
  have "dec_fix p d = Fin s q (e + int k)"
    using big nq by (simp add: dec_fix_def d k_def [symmetric] rq)
  moreover have "dec_value (Fin s q (e + int k)) = dec_value d"
    unfolding d cq by (simp add: dec_value_def scoeff_def power_int_add power_int_of_nat)
  ultimately show ?thesis by simp
qed simp

lemma dec_add_exact:
  assumes "0 < p" and "dec_value a + dec_value b = of_int z * 10 powi m" and "\<bar>z\<bar> < 10 ^ p"
  shows "dec_value (dec_add p a b) = dec_value a + dec_value b"
  using dec_fix_exact [of p "exact_add a b" z m] assms by (simp add: dec_add_def)

lemma dec_mul_exact:
  assumes "ndigits (coeff a) + ndigits (coeff b) \<le> p"
  shows "dec_value (dec_mul p a b) = dec_value a * dec_value b"
proof -
  have "coeff a * coeff b < 10 ^ ndigits (coeff a) * 10 ^ ndigits (coeff b)"
    by (intro mult_strict_mono less_ndigits) simp_all
  also have "\<dots> \<le> 10 ^ p" using assms by (simp add: power_add [symmetric] power_increasing)
  finally have "ndigits (coeff a * coeff b) \<le> p"
    using assms ndigits_pos [of "coeff a"] by (subst ndigits_le_iff) linarith+
  then show ?thesis
    by (simp add: dec_mul_def) (simp add: exact_mul_def flip: dec_value_exact_mul)
qed

section \<open>Printing and parsing\<close>


lemma digit_char_facts:
  assumes "is_digit c"
  shows "lower_char c = c" "\<not> is_space c" "c \<noteq> CHR ''_''" "c \<noteq> CHR ''-''" "c \<noteq> CHR ''+''"
    "c \<noteq> CHR ''.''" "c \<noteq> CHR ''i''" "c \<noteq> CHR ''n''" "c \<noteq> CHR ''s''"
  using assms by (auto simp: is_digit_def lower_char_def is_space_def code_of_def)

definition plain_text :: "bool \<Rightarrow> string \<Rightarrow> string \<Rightarrow> string" where
  "plain_text s i f = (if s then ''-'' else []) @ i @ (if f = [] then [] else CHR ''.'' # f)"

lemma plain_chars:
  assumes "list_all is_digit i" "list_all is_digit f" "c \<in> set (plain_text s i f)"
  shows "lower_char c = c" "\<not> is_space c" "c \<noteq> CHR ''_''"
proof -
  have "is_digit c \<or> c = CHR ''-'' \<or> c = CHR ''.''"
    using assms by (auto simp: plain_text_def list_all_iff split: if_splits)
  then show "lower_char c = c" "\<not> is_space c" "c \<noteq> CHR ''_''"
    using digit_char_facts [of c] by (auto simp: lower_char_def is_space_def code_of_def)
qed

lemma strip_no_space: "(\<And>c. c \<in> set t \<Longrightarrow> \<not> is_space c) \<Longrightarrow> strip t = t"
  unfolding strip_def
  by (metis dropWhile_eq_self_iff hd_in_set list.set_sel(1) rev_rev_ident set_rev)

lemma takeWhile_digits:
  assumes "list_all is_digit i"
  shows "takeWhile is_digit (i @ CHR ''.'' # f) = i" "dropWhile is_digit (i @ CHR ''.'' # f) = CHR ''.'' # f"
    "takeWhile is_digit i = i" "dropWhile is_digit i = []"
  using assms by (induction i) (auto simp: is_digit_def code_of_def)

lemma parse_number_plain:
  assumes "all_digits i" "list_all is_digit f"
  shows "parse_number s (i @ (if f = [] then [] else CHR ''.'' # f))
    = Some (Fin s (digits_val (i @ f)) (- int (length f)))"
proof -
  have i: "list_all is_digit i" "i \<noteq> []" using assms by (auto simp: all_digits_def)
  note tw = takeWhile_digits [OF i(1)] takeWhile_digits(3,4) [OF assms(2)]
  show ?thesis
  proof (cases "f = []")
    case True
    then show ?thesis using i by (simp add: parse_number_def tw)
  next
    case False
    then show ?thesis using i by (simp add: parse_number_def Let_def tw)
  qed
qed

lemma parse_plain:
  assumes i: "all_digits i" and f: "list_all is_digit f"
  shows "parse_decimal (plain_text s i f)
    = Some (Number (Fin s (digits_val (i @ f)) (- int (length f))))"
proof -
  let ?t = "plain_text s i f" and ?b = "i @ (if f = [] then [] else CHR ''.'' # f)"
  from i have di: "list_all is_digit i" by (simp add: all_digits_def)
  note pc = plain_chars [OF di f]
  have "strip ?t = ?t" using pc(2) by (intro strip_no_space) auto
  moreover have "filter (\<lambda>c. c \<noteq> CHR ''_'') ?t = ?t" using pc(3) by (intro filter_True) auto
  moreover have "lower ?t = ?t" unfolding lower_def using pc(1) by (intro map_idI)
  ultimately have s1: "lower (filter (\<lambda>c. c \<noteq> CHR ''_'') (strip ?t)) = ?t" by simp
  obtain a i' where i': "i = a # i'" and a: "is_digit a"
    using i by (cases i) (auto simp: all_digits_def)
  note ac = digit_char_facts [OF a]
  have s2: "take_sign ?t = (s, ?b)"
    using ac by (auto simp: plain_text_def take_sign_def i')
  have s3: "?b \<noteq> ''inf''" "?b \<noteq> ''infinity''" "\<not> starts_with ''nan'' ?b"
    "\<not> starts_with ''snan'' ?b"
    using ac by (auto simp: i' starts_with_def)
  show ?thesis
    unfolding parse_decimal_def s1 Let_def s2 prod.case
    using s3 parse_number_plain [OF i f, of s] by simp
qed

lemma digits_val_zeros [simp]: "digits_val (replicate n (CHR ''0'')) = 0"
  by (induction n) (simp_all add: replicate_append_same [symmetric] digit_val_def code_of_def)

lemma list_all_digit_zeros [simp]: "list_all is_digit (replicate n (CHR ''0''))"
  by (simp add: list_all_iff is_digit_def code_of_def)

lemma format_digits_plain:
  assumes ds: "all_digits ds"
  obtains i f where "format_digits ds e = i @ (if f = [] then [] else CHR ''.'' # f)"
    "all_digits i" "list_all is_digit f"
    "of_nat (digits_val (i @ f)) * (10::rat) powi (- int (length f)) = of_nat (digits_val ds) * 10 powi e"
proof -
  have zero: "all_digits ''0''" "digits_val ''0'' = 0" "is_digit (CHR ''0'')"
    by (simp_all add: all_digits_def is_digit_def code_of_def digits_val_def digit_val_def)
  let ?l = "e + int (length ds)"
  have dd: "list_all is_digit ds" "ds \<noteq> []" using ds by (auto simp: all_digits_def)
  consider "?l < 0" | "int (length ds) < ?l" | "?l = 0" | "0 < ?l" "?l \<le> int (length ds)" by linarith
  then show thesis
  proof cases
    case 1
    let ?f = "replicate (nat (- ?l)) (CHR ''0'') @ ds"
    have "digits_val (''0'' @ ?f) = digits_val ds"
      by (metis add_0 digits_val_append digits_val_zeros mult_0 zero(2))
    moreover have "- int (length ?f) = e" using 1 by simp
    ultimately show thesis
      using that [of "''0''" ?f] 1 dd zero by (simp add: format_digits_def)
  next
    case 2
    let ?i = "ds @ replicate (nat (?l - int (length ds))) (CHR ''0'')"
    have "digits_val ?i = digits_val ds * 10 ^ nat e"
      by (simp add: digits_val_append)
    moreover have "(10::rat) powi e = 10 ^ nat e" using 2 by (simp add: power_int_def)
    ultimately show thesis
      using that [of ?i "[]"] 2 dd by (simp add: format_digits_def all_digits_def)
  next
    case 3
    then have "digits_val (''0'' @ ds) = digits_val ds"
      by (metis add_0 digits_val_append mult_0 zero(2))
    then show thesis
      using that [of "''0''" ds] 3 dd zero by (simp add: format_digits_def add_eq_0_iff)
  next
    case 4
    let ?i = "take (nat ?l) ds" and ?f = "drop (nat ?l) ds"
    have "all_digits ?i" using 4 dd by (auto simp: all_digits_def list_all_iff dest: in_set_takeD)
    moreover have "list_all is_digit ?f" using dd by (auto simp: list_all_iff dest: in_set_dropD)
    moreover have "- int (length ?f) = e" using 4 by (simp add: of_nat_diff)
    ultimately show thesis
      using that [of ?i ?f] 4 by (simp add: format_digits_def Let_def)
  qed
qed

lemma parse_format_f:
  obtains d' where "parse_decimal (format_f d) = Some (Number d')" "dec_value d' = dec_value d"
    "negative d' = negative d"
proof -
  let ?e = "if coeff d = 0 \<and> 0 < expo d then 0 else expo d"
  obtain i f where f1: "format_digits (nat_text (coeff d)) ?e = i @ (if f = [] then [] else CHR ''.'' # f)"
    and f2: "all_digits i" "list_all is_digit f"
    and f3: "of_nat (digits_val (i @ f)) * (10::rat) powi (- int (length f)) = of_nat (coeff d) * 10 powi ?e"
    using format_digits_plain [of "nat_text (coeff d)" ?e] by auto
  have ff: "format_f d = plain_text (negative d) i f"
    by (simp add: format_f_def plain_text_def f1)
  have "parse_decimal (format_f d)
      = Some (Number (Fin (negative d) (digits_val (i @ f)) (- int (length f))))"
    unfolding ff by (rule parse_plain) (use f2 in auto)
  moreover have "dec_value (Fin (negative d) (digits_val (i @ f)) (- int (length f))) = dec_value d"
  proof -
    have "of_nat (coeff d) * (10::rat) powi ?e = of_nat (coeff d) * 10 powi expo d" by simp
    with f3 show ?thesis by (cases "negative d") (simp_all add: dec_value_def scoeff_def)
  qed
  ultimately show thesis using that by auto
qed


section \<open>Normalization\<close>

lemma strip_zeros_value:
  "strip_zeros c e = (c', e') \<Longrightarrow> of_nat c' * (10::rat) powi e' = of_nat c * 10 powi e"
proof (induction c e arbitrary: c' e' rule: strip_zeros.induct)
  case (1 c e)
  show ?case
  proof (cases "c \<noteq> 0 \<and> c mod 10 = 0")
    case True
    then have rec: "strip_zeros (c div 10) (e + 1) = (c', e')"
      using "1.prems" by (simp add: strip_zeros.simps [of c])
    have "of_nat c' * (10::rat) powi e' = of_nat (c div 10) * 10 powi (e + 1)"
      by (rule "1.IH" [OF True rec])
    also have "\<dots> = of_nat (10 * (c div 10)) * 10 powi e"
      by (simp add: power_int_add)
    also have "10 * (c div 10) = c" using True by presburger
    finally show ?thesis .
  next
    case False
    with "1.prems" show ?thesis by (simp add: strip_zeros.simps [of c] split: if_splits)
  qed
qed

lemma normalize_value: "dec_value (normalize p d) = dec_value (dec_fix p d)"
proof (cases "coeff (dec_fix p d) = 0")
  case True
  then show ?thesis by (simp add: normalize_def dec_value_def scoeff_def)
next
  case False
  obtain c e where ce: "strip_zeros (coeff (dec_fix p d)) (expo (dec_fix p d)) = (c, e)" by fastforce
  with False show ?thesis
    using strip_zeros_value [OF ce]
    by (simp add: normalize_def Let_def dec_value_def scoeff_def)
qed

lemma normalize_negative [simp]: "negative (normalize p d) = negative d"
  by (auto simp: normalize_def dec_fix_def Let_def split: prod.split)

section \<open>Representable values\<close>

text \<open>The values that some decimal of at most \<open>p\<close> digits has.\<close>

definition representable :: "nat \<Rightarrow> rat \<Rightarrow> bool" where
  "representable p v \<longleftrightarrow> (\<exists>z m. v = of_int z * 10 powi m \<and> \<bar>z\<bar> < 10 ^ p)"

lemma dec_fix_round:
  assumes p: "0 < p" and big: "p < ndigits (coeff d)"
  defines "k \<equiv> ndigits (coeff d) - p"
  defines "q \<equiv> round_half_even (coeff d) k"
  shows "dec_value (dec_fix p d) = of_int (scoeff (negative d) q) * 10 powi (expo d + int k)"
    and "10 ^ (p - 1) \<le> coeff d div 10 ^ k" "coeff d div 10 ^ k < 10 ^ p"
    and "coeff d div 10 ^ k \<le> q" "q \<le> Suc (coeff d div 10 ^ k)"
    and "representable p (dec_value (dec_fix p d))"
proof -
  let ?c = "coeff d"
  have nk: "ndigits ?c = p + k" using big by (simp add: k_def)
  then have "?c < 10 ^ p * 10 ^ k" using less_ndigits [of ?c] by (simp add: power_add)
  then show lt: "?c div 10 ^ k < 10 ^ p" by (simp add: less_mult_imp_div_less)
  have "0 < ?c" using big p by (cases "?c = 0") simp_all
  then have "10 ^ (p + k - 1) \<le> ?c" using ndigits_le [of ?c] nk by simp
  then have "10 ^ (p - 1) * 10 ^ k \<le> ?c" using p by (simp flip: power_add)
  then show ge: "10 ^ (p - 1) \<le> ?c div 10 ^ k" by (simp add: less_eq_div_iff_mult_less_eq)
  show qs: "?c div 10 ^ k \<le> q" "q \<le> Suc (?c div 10 ^ k)"
    by (simp_all add: q_def round_half_even_def Let_def)
  show eq: "dec_value (dec_fix p d) = of_int (scoeff (negative d) q) * 10 powi (expo d + int k)"
  proof (cases "p < ndigits q")
    case True
    then have "10 ^ p \<le> q" using ndigits_le_iff [OF p, of q] by simp
    with qs lt have q: "q = 10 ^ p" by simp
    define w where "w = (10::nat) ^ (p - 1)"
    have w: "q = 10 * w" using p by (simp add: q w_def flip: power_Suc)
    then have w2: "q div 10 = w" by simp
    have "dec_fix p d = Fin (negative d) w (expo d + int k + 1)"
      using True big w2 by (simp add: dec_fix_def k_def q_def Let_def)
    then show ?thesis by (simp add: dec_value_def w scoeff_def power_int_add)
  next
    case False
    then show ?thesis using big by (simp add: dec_fix_def k_def q_def Let_def dec_value_def)
  qed
  show "representable p (dec_value (dec_fix p d))"
  proof (cases "q < 10 ^ p")
    case True
    then have "int q < int (10 ^ p)" by (simp only: of_nat_less_iff)
    then have "\<bar>scoeff (negative d) q\<bar> < 10 ^ p" by (simp add: scoeff_def)
    then show ?thesis unfolding eq representable_def by blast
  next
    case False
    with qs lt have q: "q = 10 ^ p" by simp
    have "\<bar>scoeff (negative d) 1\<bar> < 10 ^ p" using p by (simp add: scoeff_def)
    moreover have "of_int (scoeff (negative d) q) * 10 powi (expo d + int k)
        = (of_int (scoeff (negative d) 1) * 10 powi (expo d + int k + int p) :: rat)"
      by (simp add: q scoeff_def power_int_add)
    ultimately show ?thesis unfolding eq representable_def by blast
  qed
qed

lemma representable_coeff: "ndigits (coeff d) \<le> p \<Longrightarrow> representable p (dec_value d)"
proof -
  assume "ndigits (coeff d) \<le> p"
  moreover from this have "0 < p" using ndigits_pos [of "coeff d"] by linarith
  ultimately have "coeff d < 10 ^ p" by (simp add: ndigits_le_iff)
  then have "int (coeff d) < int (10 ^ p)" by (simp only: of_nat_less_iff)
  then have "\<bar>scoeff (negative d) (coeff d)\<bar> < 10 ^ p" by (simp add: scoeff_def)
  then show ?thesis unfolding representable_def dec_value_def by blast
qed

lemma representable_fix: "0 < p \<Longrightarrow> representable p (dec_value (dec_fix p d))"
  using dec_fix_round(6) [of p d] representable_coeff [of d p] by (cases "p < ndigits (coeff d)") auto

lemma representable_mono: "representable p v \<Longrightarrow> p \<le> q \<Longrightarrow> representable q v"
proof -
  assume "representable p v" "p \<le> q"
  moreover from this have "(10 :: int) ^ p \<le> 10 ^ q" by (simp add: power_increasing)
  ultimately show "representable q v"
    unfolding representable_def by (metis order_less_le_trans)
qed

lemma dec_fix_representable: "0 < p \<Longrightarrow> representable p (dec_value d) \<Longrightarrow> dec_value (dec_fix p d) = dec_value d"
  unfolding representable_def using dec_fix_exact by blast

text \<open>Rounding does not pass below a representable lower bound.\<close>

lemma dec_fix_ge:
  assumes p: "0 < p" and v: "representable p v" "0 < v" "v \<le> dec_value d"
  shows "v \<le> dec_value (dec_fix p d)"
proof (cases "p < ndigits (coeff d)")
  case True
  define k where "k = ndigits (coeff d) - p"
  define q0 where "q0 = coeff d div 10 ^ k"
  define x where "x = expo d + int k"
  note round = dec_fix_round [OF p True, folded k_def, folded q0_def x_def]
  have pos: "\<not> negative d"
  proof
    assume "negative d"
    then have "dec_value d \<le> 0" by (simp add: dec_value_def scoeff_def)
    with v(2,3) show False by simp
  qed
  have F: "of_nat q0 * 10 powi x \<le> dec_value (dec_fix p d)"
    using round(1,4) pos by (simp add: scoeff_def)
  obtain z m where zm: "v = of_int z * 10 powi m" "\<bar>z\<bar> < 10 ^ p"
    using v(1) by (auto simp: representable_def)
  have "coeff d < Suc q0 * 10 ^ k"
    unfolding q0_def using dividend_less_div_times [of "10 ^ k" "coeff d"] by simp
  then have "(of_nat (coeff d) :: rat) < of_nat (Suc q0 * 10 ^ k)" by (simp only: of_nat_less_iff)
  then have "of_nat (coeff d) * 10 powi expo d < of_nat (Suc q0 * 10 ^ k) * (10 :: rat) powi expo d"
    by (rule mult_strict_right_mono) simp
  then have "dec_value d < of_nat (Suc q0) * 10 powi x"
    using pos by (simp add: dec_value_def scoeff_def x_def power_int_add algebra_simps)
  with v(3) have upper: "v < of_nat (Suc q0) * 10 powi x" by simp
  have "v \<le> of_nat q0 * 10 powi x"
  proof (cases "x \<le> m")
    case True
    define w where "w = z * 10 ^ nat (m - x)"
    have w: "v = of_int w * 10 powi x"
      using True power_int_add [of "10 :: rat" "m - x" x] by (simp add: zm(1) w_def power_int_def)
    with upper have "of_int w * (10 :: rat) powi x < of_int (int (Suc q0)) * 10 powi x" by simp
    then have "(of_int w :: rat) < of_int (int (Suc q0))"
      by (rule mult_right_less_imp_less) simp
    then have "w \<le> int q0" by (simp only: of_int_less_iff)
    then have "(of_int w :: rat) \<le> of_int (int q0)" by (simp only: of_int_le_iff)
    then show ?thesis unfolding w by (intro mult_right_mono) simp_all
  next
    case False
    then have "(10 :: rat) powi (int p + m) \<le> 10 powi (int (p - 1) + x)"
      using p by (intro power_int_increasing) auto
    then have le: "(10 :: rat) ^ p * 10 powi m \<le> 10 ^ (p - 1) * 10 powi x"
      by (simp add: power_int_add)
    have "(of_int z :: rat) \<le> of_int (10 ^ p)" using zm(2) by (simp only: of_int_le_iff)
    then have "v \<le> 10 ^ p * 10 powi m" unfolding zm(1) by (intro mult_right_mono) simp_all
    also note le
    also have "(10 :: rat) ^ (p - 1) * 10 powi x \<le> of_nat q0 * 10 powi x"
      using round(2) by (intro mult_right_mono)
        (metis of_nat_le_iff of_nat_numeral of_nat_power, simp)
    finally show ?thesis .
  qed
  with F show ?thesis by simp
next
  case False
  with v show ?thesis by simp
qed

lemma dec_fix_pos:
  assumes p: "0 < p" and v: "0 < dec_value d"
  shows "0 < dec_value (dec_fix p d)"
proof -
  have power: "(0 :: rat) < 10 powi expo d" by simp
  have "0 < (of_int (scoeff (negative d) (coeff d)) :: rat)"
    using v power unfolding dec_value_def by (simp only: zero_less_mult_pos2)
  then have c: "1 \<le> scoeff (negative d) (coeff d)" by simp
  then have "1 * 10 powi expo d \<le> of_int (scoeff (negative d) (coeff d)) * (10 powi expo d :: rat)"
    by (intro mult_right_mono) simp_all
  then have "(10 powi expo d :: rat) \<le> dec_value d" by (simp add: dec_value_def)
  moreover have "representable p (10 powi expo d)"
    using p unfolding representable_def
    by (intro exI [of _ "1 :: int"] exI [of _ "expo d"]) simp
  ultimately have "(10 powi expo d :: rat) \<le> dec_value (dec_fix p d)"
    using p by (intro dec_fix_ge) simp_all
  moreover have "(0 :: rat) < 10 powi expo d" by simp
  ultimately show ?thesis by linarith
qed

end
