(* ===== verification/Checkpoints.thy ===== *)
theory Checkpoints
  imports Py_Decimal
begin

text \<open>
  Python values as the journal's checkpoints hold them, and the key-free JSON snapshots
  of \<open>route_checkpoints.py\<close>: \<open>encode\<close> turns a value into JSON, drops callables and
  secrets, and refuses anything else; \<open>decode\<close> rebuilds the value.

  A dict is an association list; its order is not observable through equality or
  lookups, so the key sorting of \<open>json.dumps(..., sort_keys=True)\<close> is left out. JSON text
  itself is not modelled: a stored snapshot is the JSON value. A dataclass instance is its
  class name with its fields, a \<open>datetime\<close> its ISO text, a \<open>timedelta\<close> its seconds, a
  finite \<open>float\<close> the rational it denotes.
\<close>

named_theorems checkpoint_simps \<open>encoding and decoding of checkpoint values\<close>

section \<open>Values\<close>

datatype pyval =
    PNone
  | PBool bool
  | PInt int
  | PFloat rat
  | PStr string
  | PDecimal decimal
  | PDatetime string
  | PTimedelta rat
  | PTuple "pyval list"
  | PList "pyval list"
  | PDict "(string \<times> pyval) list"
  | PData string "(string \<times> pyval) list"
  | PNamespace "(string \<times> pyval) list"
  | PFunction
  | POther string

type_synonym pydict = "(string \<times> pyval) list"

text \<open>Attributes of the Python object model the code relies on.\<close>

fun py_truthy :: "pyval \<Rightarrow> bool" where
  "py_truthy PNone = False"
| "py_truthy (PBool b) = b"
| "py_truthy (PInt i) = (i \<noteq> 0)"
| "py_truthy (PFloat q) = (q \<noteq> 0)"
| "py_truthy (PStr s) = (s \<noteq> [])"
| "py_truthy (PDecimal (Number d)) = dec_nonzero d"
| "py_truthy (PTuple xs) = (xs \<noteq> [])"
| "py_truthy (PList xs) = (xs \<noteq> [])"
| "py_truthy (PDict d) = (d \<noteq> [])"
| "py_truthy (PTimedelta q) = (q \<noteq> 0)"
| "py_truthy _ = True"

text \<open>The value of a number; \<open>True == 1 == 1.0 == Decimal(1)\<close> in Python.\<close>

fun py_number :: "pyval \<Rightarrow> rat option" where
  "py_number (PBool b) = Some (if b then 1 else 0)"
| "py_number (PInt i) = Some (of_int i)"
| "py_number (PFloat q) = Some q"
| "py_number (PDecimal (Number d)) = Some (dec_value d)"
| "py_number _ = None"

text \<open>Equality of Python values.\<close>

fun py_eq :: "pyval \<Rightarrow> pyval \<Rightarrow> bool"
  and py_eq_list :: "pyval list \<Rightarrow> pyval list \<Rightarrow> bool"
  and py_sub_items :: "pydict \<Rightarrow> pydict \<Rightarrow> bool" where
  "py_eq (PTuple xs) y = (case y of PTuple ys \<Rightarrow> py_eq_list xs ys | _ \<Rightarrow> False)"
| "py_eq (PList xs) y = (case y of PList ys \<Rightarrow> py_eq_list xs ys | _ \<Rightarrow> False)"
| "py_eq (PDict d) y = (case y of
      PDict d' \<Rightarrow> length d = length d' \<and> py_sub_items d d' | _ \<Rightarrow> False)"
| "py_eq (PNamespace d) y = (case y of
      PNamespace d' \<Rightarrow> length d = length d' \<and> py_sub_items d d' | _ \<Rightarrow> False)"
| "py_eq (PData n d) y = (case y of
      PData n' d' \<Rightarrow> n = n' \<and> length d = length d' \<and> py_sub_items d d' | _ \<Rightarrow> False)"
| "py_eq PNone y = (y = PNone)"
| "py_eq (PStr s) y = (y = PStr s)"
| "py_eq (PDatetime s) y = (y = PDatetime s)"
| "py_eq (PTimedelta q) y = (y = PTimedelta q)"
| "py_eq (PDecimal NaN) y = False"
| "py_eq (PDecimal (Infinite s)) y = (y = PDecimal (Infinite s))"
| "py_eq PFunction y = (y = PFunction)"
| "py_eq (POther s) y = (y = POther s)"
| "py_eq x y = (py_number x = py_number y)"
| "py_eq_list [] ys = (ys = [])"
| "py_eq_list (x # xs) ys = (case ys of [] \<Rightarrow> False | y # ys' \<Rightarrow> py_eq x y \<and> py_eq_list xs ys')"
| "py_sub_items [] d = True"
| "py_sub_items ((k, x) # items) d =
     ((case map_of d k of None \<Rightarrow> False | Some y \<Rightarrow> py_eq x y) \<and> py_sub_items items d)"

text \<open>\<open>d.get(key)\<close> with the key absent as \<open>None\<close>, and \<open>d.get(key, default)\<close>.\<close>

definition get_default :: "pydict \<Rightarrow> string \<Rightarrow> pyval \<Rightarrow> pyval" where
  "get_default d k v = (case map_of d k of None \<Rightarrow> v | Some x \<Rightarrow> x)"

definition get :: "pydict \<Rightarrow> string \<Rightarrow> pyval" where
  "get d k = get_default d k PNone"

text \<open>
  \<open>str(x)\<close> of a scalar. Where the code applies it to a checkpoint field, the field holds
  a string, a number or nothing; the text of a container is not modelled.
\<close>

fun py_str :: "pyval \<Rightarrow> string" where
  "py_str (PStr s) = s"
| "py_str PNone = ''None''"
| "py_str (PBool b) = (if b then ''True'' else ''False'')"
| "py_str (PInt i) = int_text i"
| "py_str _ = ''<value>''"

section \<open>The text of a Decimal\<close>

text \<open>\<open>str(d)\<close>: plain notation for small exponents, scientific notation otherwise.\<close>

definition dec_str :: "fdec \<Rightarrow> string" where
  "dec_str d =
     (let ds = nat_text (coeff d); left = expo d + int (length ds);
          plain = (expo d \<le> 0 \<and> - 6 < left); dot = (if plain then left else 1);
          body = (if dot \<le> 0 then ''0.'' @ replicate (nat (- dot)) (CHR ''0'') @ ds
                  else if int (length ds) \<le> dot
                  then ds @ replicate (nat (dot - int (length ds))) (CHR ''0'')
                  else take (nat dot) ds @ CHR ''.'' # drop (nat dot) ds);
          x = (if left = dot then []
               else CHR ''E'' # (if left - dot < 0 then ''-'' else ''+'')
                      @ nat_text (nat \<bar>left - dot\<bar>))
      in (if negative d then ''-'' else []) @ body @ x)"

fun decimal_str :: "decimal \<Rightarrow> string" where
  "decimal_str (Number d) = dec_str d"
| "decimal_str (Infinite s) = (if s then ''-Infinity'' else ''Infinity'')"
| "decimal_str NaN = ''NaN''"

section \<open>Encoding\<close>

definition secret_keys :: "string list" where
  "secret_keys = [''private_key'', ''secret_key'', ''api_key'', ''passphrase'']"

text \<open>The dataclasses of the four modules that \<open>_TYPES\<close> collects.\<close>

definition snapshot_types :: "string list" where
  "snapshot_types =
     [''ConsolidationCandidate'', ''GroupAdmission'', ''LifiRouteRequest'', ''LifiGasCost'',
      ''LifiFeeCost'', ''LifiBridgeAction'', ''LifiStepEvidence'', ''LifiPriceEvidence'',
      ''LifiRouteEvidence'', ''LifiRoute'', ''TransactionRequest'', ''AssetIdentity'',
      ''Token'', ''Network'', ''Catalog'', ''QuotePrice'', ''FeeQuote'', ''RouteValuation'']"

definition is_callable :: "pyval \<Rightarrow> bool" where
  "is_callable v \<longleftrightarrow> v = PFunction"

definition unsupported :: "string \<Rightarrow> exn" where
  "unsupported t = ValueError (''unsupported route checkpoint value: '' @ t)"

fun encode :: "pyval \<Rightarrow> pyval result"
  and encode_list :: "pyval list \<Rightarrow> pyval list result"
  and encode_items :: "pydict \<Rightarrow> pydict result"
  and encode_fields :: "pydict \<Rightarrow> pydict result" where
  "encode PNone = Inr PNone"
| "encode (PStr s) = Inr (PStr s)"
| "encode (PInt i) = Inr (PInt i)"
| "encode (PFloat q) = Inr (PFloat q)"
| "encode (PBool b) = Inr (PBool b)"
| "encode (PDecimal d) = Inr (PDict [(''$decimal'', PStr (decimal_str d))])"
| "encode (PDatetime s) = Inr (PDict [(''$datetime'', PStr s)])"
| "encode (PTimedelta q) = Inr (PDict [(''$timedelta'', PFloat q)])"
| "encode (PTuple xs) =
     bind_result (encode_list xs) (\<lambda>ys. Inr (PDict [(''$tuple'', PList ys)]))"
| "encode (PList xs) = bind_result (encode_list xs) (\<lambda>ys. Inr (PList ys))"
| "encode (PDict d) = bind_result (encode_items d) (\<lambda>e. Inr (PDict e))"
| "encode (PData n d) =
     (if n \<in> set snapshot_types
      then bind_result (encode_fields d)
             (\<lambda>e. Inr (PDict [(''$type'', PStr n), (''fields'', PDict e)]))
      else Inl (unsupported n))"
| "encode (PNamespace d) =
     bind_result (encode_items d) (\<lambda>e. Inr (PDict [(''$namespace'', PDict e)]))"
| "encode PFunction = Inl (unsupported ''function'')"
| "encode (POther t) = Inl (unsupported t)"
| "encode_list [] = Inr []"
| "encode_list (x # xs) =
     bind_result (encode x) (\<lambda>y. bind_result (encode_list xs) (\<lambda>ys. Inr (y # ys)))"
| "encode_items [] = Inr []"
| "encode_items ((k, x) # items) =
     (if is_callable x \<or> k \<in> set secret_keys then encode_items items
      else bind_result (encode x)
             (\<lambda>y. bind_result (encode_items items) (\<lambda>ys. Inr ((k, y) # ys))))"
| "encode_fields [] = Inr []"
| "encode_fields ((k, x) # items) =
     bind_result (encode x) (\<lambda>y. bind_result (encode_fields items) (\<lambda>ys. Inr ((k, y) # ys)))"

section \<open>Decoding\<close>

text \<open>The reserved keys, tested in the order of the code.\<close>

datatype tag = TDecimal pyval | TDatetime pyval | TTimedelta pyval | TTuple pyval
  | TNamespace pyval | TType pyval | TPlain

definition tag_of :: "pydict \<Rightarrow> tag" where
  "tag_of d =
     (case map_of d ''$decimal'' of Some v \<Rightarrow> TDecimal v | None \<Rightarrow>
      case map_of d ''$datetime'' of Some v \<Rightarrow> TDatetime v | None \<Rightarrow>
      case map_of d ''$timedelta'' of Some v \<Rightarrow> TTimedelta v | None \<Rightarrow>
      case map_of d ''$tuple'' of Some v \<Rightarrow> TTuple v | None \<Rightarrow>
      case map_of d ''$namespace'' of Some v \<Rightarrow> TNamespace v | None \<Rightarrow>
      case map_of d ''$type'' of Some v \<Rightarrow> TType v | None \<Rightarrow> TPlain)"

definition decode_decimal :: "pyval \<Rightarrow> pyval result" where
  "decode_decimal v = (case v of
      PStr s \<Rightarrow> (case parse_decimal s of
          None \<Rightarrow> Inl InvalidOperation | Some x \<Rightarrow> Inr (PDecimal x))
    | PInt i \<Rightarrow> Inr (PDecimal (Number (dec_of_int i)))
    | _ \<Rightarrow> Inl TypeError)"

definition seconds_of :: "pyval \<Rightarrow> pyval result" where
  "seconds_of v = (case v of
      PFloat q \<Rightarrow> Inr (PTimedelta q) | PInt i \<Rightarrow> Inr (PTimedelta (of_int i)) | _ \<Rightarrow> Inl TypeError)"

lemma size_of_item: "(k, v) \<in> set d \<Longrightarrow> size v < size (PDict d)"
  by (induction d) auto

lemma map_of_size: "map_of d k = Some v \<Longrightarrow> size v < size (PDict d)"
  by (rule size_of_item [OF map_of_SomeD])

lemma tag_of_value:
  "tag_of d = TDecimal v \<Longrightarrow> map_of d ''$decimal'' = Some v"
  "tag_of d = TTuple v \<Longrightarrow> map_of d ''$tuple'' = Some v"
  "tag_of d = TNamespace v \<Longrightarrow> map_of d ''$namespace'' = Some v"
  by (simp_all add: tag_of_def split: option.splits)

lemma tag_of_size [termination_simp]:
  "tag_of d = TTuple (PList xs) \<Longrightarrow> size_list size xs < size (PDict d)"
  "tag_of d = TNamespace v \<Longrightarrow> size v < size (PDict d)"
  using tag_of_value(2,3) [THEN map_of_size] by fastforce+

lemma size_items_le [termination_simp]:
  "size_list (\<lambda>p. size (snd p)) d \<le> size_list (size_prod (\<lambda>x. 0) size) (d :: pydict)"
  by (induction d) auto

function (sequential) decode :: "pyval \<Rightarrow> pyval result"
  and decode_list :: "pyval list \<Rightarrow> pyval list result"
  and decode_items :: "pydict \<Rightarrow> pydict result" where
  "decode (PList xs) = bind_result (decode_list xs) (\<lambda>ys. Inr (PList ys))"
| "decode (PDict d) = (case tag_of d of
      TDecimal v \<Rightarrow> decode_decimal v
    | TDatetime v \<Rightarrow> (case v of PStr s \<Rightarrow> Inr (PDatetime s) | _ \<Rightarrow> Inl TypeError)
    | TTimedelta v \<Rightarrow> seconds_of v
    | TTuple v \<Rightarrow> (case v of
          PList xs \<Rightarrow> bind_result (decode_list xs) (\<lambda>ys. Inr (PTuple ys)) | _ \<Rightarrow> Inl TypeError)
    | TNamespace v \<Rightarrow> bind_result (decode v) (\<lambda>w.
        (case w of PDict fs \<Rightarrow> Inr (PNamespace fs) | _ \<Rightarrow> Inl TypeError))
    | TType v \<Rightarrow>
        (case v of
           PStr n \<Rightarrow> if n \<in> set snapshot_types
             then (case map_of d ''fields'' of
                 None \<Rightarrow> Inl KeyError
               | Some f \<Rightarrow> bind_result (decode f) (\<lambda>w.
                   (case w of PDict fs \<Rightarrow> Inr (PData n fs) | _ \<Rightarrow> Inl TypeError)))
             else Inl KeyError
         | _ \<Rightarrow> Inl KeyError)
    | TPlain \<Rightarrow> bind_result (decode_items d) (\<lambda>e. Inr (PDict e)))"
| "decode v = Inr v"
| "decode_list [] = Inr []"
| "decode_list (x # xs) =
     bind_result (decode x) (\<lambda>y. bind_result (decode_list xs) (\<lambda>ys. Inr (y # ys)))"
| "decode_items [] = Inr []"
| "decode_items ((k, x) # items) =
     bind_result (decode x) (\<lambda>y. bind_result (decode_items items) (\<lambda>ys. Inr ((k, y) # ys)))"
  by pat_completeness auto
termination
  by (relation "measure (case_sum size (case_sum (size_list size) (size_list (\<lambda>p. size (snd p)))))")
    (auto dest: map_of_size tag_of_size intro: le_less_trans [OF size_items_le])



section \<open>Round trip\<close>

lemma parse_number_sci:
  assumes i: "all_digits i" and f: "list_all is_digit f" and x: "all_digits x"
  shows "parse_number s (i @ (if f = [] then [] else CHR ''.'' # f) @ CHR ''e'' # (if n then ''-'' else ''+'') @ x)
    = Some (Fin s (digits_val (i @ f)) ((if n then - int (digits_val x) else int (digits_val x)) - int (length f)))"
proof -
  have i': "list_all is_digit i" "i \<noteq> []" using i by (auto simp: all_digits_def)
  have e: "\<not> is_digit CHR ''e''" "\<not> is_digit CHR ''.''" by (simp_all add: is_digit_def code_of_def)
  have tw: "takeWhile is_digit (i @ t) = i @ takeWhile is_digit t"
    "dropWhile is_digit (i @ t) = dropWhile is_digit t" for t
    using i'(1) by (induction i) auto
  have twf: "takeWhile is_digit (f @ t) = f @ takeWhile is_digit t"
    "dropWhile is_digit (f @ t) = dropWhile is_digit t" for t
    using f by (induction f) auto
  show ?thesis
    using i'(2) x e by (auto simp: parse_number_def Let_def tw twf parse_exponent_def take_sign_def)
qed

lemma lower_char_marks [simp]:
  "lower_char CHR ''E'' = CHR ''e''" "lower_char CHR ''-'' = CHR ''-''"
  "lower_char CHR ''+'' = CHR ''+''" "lower_char CHR ''.'' = CHR ''.''"
  by code_simp+

lemma parse_sci:
  assumes i: "all_digits i" and f: "list_all is_digit f" and x: "all_digits x"
  shows "parse_decimal ((if s then ''-'' else []) @ i @ (if f = [] then [] else CHR ''.'' # f)
      @ CHR ''E'' # (if n then ''-'' else ''+'') @ x)
    = Some (Number (Fin s (digits_val (i @ f))
        ((if n then - int (digits_val x) else int (digits_val x)) - int (length f))))"
    (is "parse_decimal ?t = _")
proof -
  let ?m = "i @ (if f = [] then [] else CHR ''.'' # f)"
  let ?b = "i @ (if f = [] then [] else CHR ''.'' # f) @ CHR ''e'' # (if n then ''-'' else ''+'') @ x"
  have d: "\<And>c. c \<in> set ?t \<Longrightarrow> is_digit c \<or> c \<in> {CHR ''-'', CHR ''+'', CHR ''.'', CHR ''E''}"
    using i f x by (auto simp: all_digits_def list_all_iff split: if_splits)
  have sp: "\<not> is_space c" "c \<noteq> CHR ''_''" if "c \<in> set ?t" for c
    using d [OF that] digit_char_facts [of c] by (auto simp: is_space_def code_of_def)
  have "strip ?t = ?t" using sp(1) by (intro strip_no_space) auto
  moreover have "filter (\<lambda>c. c \<noteq> CHR ''_'') ?t = ?t" using sp(2) by (intro filter_True) auto
  moreover have "map lower_char g = g" if "list_all is_digit g" for g
    using that digit_char_facts(1) by (intro map_idI) (auto simp: list_all_iff)
  then have "lower ?t = (if s then ''-'' else []) @ ?b"
    using i f x by (simp add: lower_def all_digits_def)
  ultimately have s1: "lower (filter (\<lambda>c. c \<noteq> CHR ''_'') (strip ?t)) = (if s then ''-'' else []) @ ?b"
    by simp
  obtain a i' where i': "i = a # i'" and a: "is_digit a"
    using i by (cases i) (auto simp: all_digits_def)
  note ac = digit_char_facts [OF a]
  have s2: "take_sign ((if s then ''-'' else []) @ ?b) = (s, ?b)"
    using ac by (auto simp: take_sign_def i')
  have s3: "?b \<noteq> ''inf''" "?b \<noteq> ''infinity''" "\<not> starts_with ''nan'' ?b"
    "\<not> starts_with ''snan'' ?b"
    using ac by (auto simp: i' starts_with_def)
  show ?thesis
    unfolding parse_decimal_def s1 Let_def s2 prod.case
    using s3 parse_number_sci [OF i f x, of s n] by simp
qed

lemma all_digits_zero: "all_digits ''0''"
  by (simp add: all_digits_def is_digit_def code_of_def)

lemma digits_val_0_append [simp]: "digits_val (CHR ''0'' # s) = digits_val s"
  using digits_val_append [of "''0''" s] by (simp add: digits_val_def digit_val_def code_of_def)

lemma parse_dec_str: "parse_decimal (dec_str d) = Some (Number d)"
proof -
  let ?ds = "nat_text (coeff d)" and ?l = "expo d + int (length (nat_text (coeff d)))"
  have dd: "list_all is_digit ?ds" "?ds \<noteq> []" "all_digits ?ds" by simp_all
  have len: "0 < length ?ds" using dd(2) by blast
  show ?thesis
  proof (cases "expo d \<le> 0 \<and> - 6 < ?l")
    case plain: True
    consider "?l \<le> 0" | "0 < ?l" "expo d = 0" | "0 < ?l" "expo d < 0" using plain by linarith
    then show ?thesis
    proof cases
      case 1
      let ?f = "replicate (nat (- ?l)) (CHR ''0'') @ ?ds"
      have "dec_str d = plain_text (negative d) ''0'' ?f"
        using 1 plain by (simp add: dec_str_def plain_text_def Let_def)
      moreover have "digits_val (''0'' @ ?f) = coeff d" by (simp add: digits_val_append)
      moreover have "- int (length ?f) = expo d" using 1 by simp
      ultimately show ?thesis
        using parse_plain [of "''0''" ?f "negative d"] dd all_digits_zero by simp
    next
      case 2
      have "dec_str d = plain_text (negative d) ?ds []"
        using 2 plain by (simp add: dec_str_def plain_text_def)
      then show ?thesis using parse_plain [of ?ds "[]" "negative d"] 2 dd by (cases d) simp
    next
      case 3
      let ?i = "take (nat ?l) ?ds" and ?f = "drop (nat ?l) ?ds"
      have "dec_str d = plain_text (negative d) ?i ?f"
        using 3 plain by (simp add: dec_str_def plain_text_def Let_def)
      moreover have "all_digits ?i" using 3 dd by (auto simp: all_digits_def list_all_iff dest: in_set_takeD)
      moreover have "list_all is_digit ?f" using dd by (auto simp: list_all_iff dest: in_set_dropD)
      moreover have "- int (length ?f) = expo d" using 3 by (simp add: of_nat_diff)
      ultimately show ?thesis using parse_plain [of ?i ?f "negative d"] 3 by simp
    qed
  next
    case False
    then have l1: "?l \<noteq> 1" using len by linarith
    let ?i = "take 1 ?ds" and ?f = "drop 1 ?ds" and ?n = "?l - 1 < 0"
    let ?x = "nat_text (nat \<bar>?l - 1\<bar>)"
    have i: "all_digits ?i" using dd by (auto simp: all_digits_def list_all_iff dest: in_set_takeD)
    have f: "list_all is_digit ?f" using dd by (auto simp: list_all_iff dest: in_set_dropD)
    have "dec_str d = (if negative d then ''-'' else []) @ ?i
        @ (if ?f = [] then [] else CHR ''.'' # ?f) @ CHR ''E'' # (if ?n then ''-'' else ''+'') @ ?x"
      unfolding dec_str_def Let_def using len l1 False
      by (cases "length ?ds \<le> 1") (auto simp: le_Suc_eq)
    moreover have "(if ?n then - int (digits_val ?x) else int (digits_val ?x)) - int (length ?f) = expo d"
    proof -
      have "int (length ?f) = int (length ?ds) - 1" using len by (simp add: of_nat_diff Suc_le_eq)
      then show ?thesis by auto
    qed
    ultimately show ?thesis
      using parse_sci [OF i f, of ?x "negative d" ?n] by simp
  qed
qed

lemma parse_decimal_str: "parse_decimal (decimal_str x) = Some x"
proof (cases x)
  case (Number d)
  then show ?thesis by (simp add: parse_dec_str)
next
  case (Infinite s)
  have "parse_decimal (decimal_str (Infinite True)) = Some (Infinite True)"
    "parse_decimal (decimal_str (Infinite False)) = Some (Infinite False)" by code_simp+
  with Infinite show ?thesis by (cases s) simp_all
next
  case NaN
  moreover have "parse_decimal (decimal_str NaN) = Some NaN" by code_simp
  ultimately show ?thesis by simp
qed




definition reserved_keys :: "string list" where
  "reserved_keys =
     [''$decimal'', ''$datetime'', ''$timedelta'', ''$tuple'', ''$namespace'', ''$type'']"

text \<open>
  The values that a snapshot can hold without loss: no callables, no secret or reserved
  dict keys, only known dataclasses.
\<close>

definition plain_keys :: "pydict \<Rightarrow> bool" where
  "plain_keys d \<longleftrightarrow> list_all (\<lambda>k. k \<notin> set reserved_keys) (map fst d)"

definition public_items :: "pydict \<Rightarrow> bool" where
  "public_items d \<longleftrightarrow> list_all (\<lambda>(k, x). k \<notin> set secret_keys \<and> x \<noteq> PFunction) d"

fun storable :: "pyval \<Rightarrow> bool"
  and storable_list :: "pyval list \<Rightarrow> bool"
  and storable_items :: "pydict \<Rightarrow> bool" where
  "storable (PTuple xs) = storable_list xs"
| "storable (PList xs) = storable_list xs"
| "storable (PDict d) = (plain_keys d \<and> public_items d \<and> storable_items d)"
| "storable (PNamespace d) = (plain_keys d \<and> public_items d \<and> storable_items d)"
| "storable (PData n d) = (n \<in> set snapshot_types \<and> plain_keys d \<and> storable_items d)"
| "storable PFunction = False"
| "storable (POther t) = False"
| "storable v = True"
| "storable_list [] = True"
| "storable_list (x # xs) = (storable x \<and> storable_list xs)"
| "storable_items [] = True"
| "storable_items ((k, x) # items) = (storable x \<and> storable_items items)"

lemma plain_keys_cong: "map fst e = map fst d \<Longrightarrow> plain_keys d \<Longrightarrow> plain_keys e"
  by (simp add: plain_keys_def)

lemma tag_of_plain: "plain_keys d \<Longrightarrow> tag_of d = TPlain"
proof -
  assume "plain_keys d"
  then have "map_of d k = None" if "k \<in> set reserved_keys" for k
    using that by (fastforce simp: plain_keys_def list_all_iff map_of_eq_None_iff)
  then show ?thesis by (simp add: tag_of_def reserved_keys_def)
qed

lemma tag_of_single:
  "tag_of [(''$decimal'', v)] = TDecimal v" "tag_of [(''$datetime'', v)] = TDatetime v"
  "tag_of [(''$timedelta'', v)] = TTimedelta v" "tag_of [(''$tuple'', v)] = TTuple v"
  "tag_of [(''$namespace'', v)] = TNamespace v"
  "tag_of [(''$type'', v), (''fields'', w)] = TType v"
  by (simp_all add: tag_of_def)

lemma round_trip:
  "storable v \<Longrightarrow> \<exists>j. encode v = Inr j \<and> decode j = Inr v"
  "storable_list xs \<Longrightarrow> \<exists>js. encode_list xs = Inr js \<and> decode_list js = Inr xs"
  "storable_items d \<Longrightarrow> (\<exists>e. encode_fields d = Inr e \<and> decode_items e = Inr d \<and> map fst e = map fst d)
     \<and> (public_items d \<longrightarrow> (\<exists>e. encode_items d = Inr e \<and> decode_items e = Inr d \<and> map fst e = map fst d))"
proof (induction v and xs and d rule: storable_storable_list_storable_items.induct)
  case (3 d)
  then obtain e where e: "encode_items d = Inr e" "decode_items e = Inr d" "map fst e = map fst d" by auto
  have "plain_keys e" using 3 by (intro plain_keys_cong [OF e(3)]) simp
  with e show ?case by (simp add: tag_of_plain)
next
  case (4 d)
  then obtain e where e: "encode_items d = Inr e" "decode_items e = Inr d" "map fst e = map fst d" by auto
  have "plain_keys e" using 4 by (intro plain_keys_cong [OF e(3)]) simp
  with e show ?case by (simp add: tag_of_plain tag_of_single)
next
  case (5 n d)
  then obtain e where e: "encode_fields d = Inr e" "decode_items e = Inr d" "map fst e = map fst d" by auto
  have "plain_keys e" using 5 by (intro plain_keys_cong [OF e(3)]) simp
  with 5 e show ?case by (simp add: tag_of_plain tag_of_single)
qed (auto simp: tag_of_single decode_decimal_def seconds_of_def parse_decimal_str public_items_def is_callable_def)


section \<open>No secret reaches a snapshot\<close>

text \<open>The dict keys that occur anywhere in a JSON value.\<close>

fun json_keys :: "pyval \<Rightarrow> string set"
  and json_keys_list :: "pyval list \<Rightarrow> string set"
  and json_keys_items :: "pydict \<Rightarrow> string set" where
  "json_keys (PList xs) = json_keys_list xs"
| "json_keys (PDict d) = json_keys_items d"
| "json_keys v = {}"
| "json_keys_list [] = {}"
| "json_keys_list (x # xs) = json_keys x \<union> json_keys_list xs"
| "json_keys_items [] = {}"
| "json_keys_items ((k, x) # items) = insert k (json_keys x \<union> json_keys_items items)"

text \<open>The field names of the dataclass instances that occur in a value.\<close>

fun field_names :: "pyval \<Rightarrow> string set"
  and field_names_list :: "pyval list \<Rightarrow> string set"
  and field_names_items :: "pydict \<Rightarrow> string set" where
  "field_names (PTuple xs) = field_names_list xs"
| "field_names (PList xs) = field_names_list xs"
| "field_names (PDict d) = field_names_items d"
| "field_names (PNamespace d) = field_names_items d"
| "field_names (PData n d) = set (map fst d) \<union> field_names_items d"
| "field_names v = {}"
| "field_names_list [] = {}"
| "field_names_list (x # xs) = field_names x \<union> field_names_list xs"
| "field_names_items [] = {}"
| "field_names_items ((k, x) # items) = field_names x \<union> field_names_items items"

lemma reserved_not_secret:
  "''$decimal'' \<notin> set secret_keys" "''$datetime'' \<notin> set secret_keys"
  "''$timedelta'' \<notin> set secret_keys" "''$tuple'' \<notin> set secret_keys"
  "''$namespace'' \<notin> set secret_keys" "''$type'' \<notin> set secret_keys"
  "''fields'' \<notin> set secret_keys"
  by (simp_all add: secret_keys_def)

lemma encode_keys:
  "encode v = Inr j \<Longrightarrow> json_keys j \<inter> set secret_keys \<subseteq> field_names v"
  "encode_list xs = Inr js \<Longrightarrow> json_keys_list js \<inter> set secret_keys \<subseteq> field_names_list xs"
  "encode_items d = Inr e \<Longrightarrow> json_keys_items e \<inter> set secret_keys \<subseteq> field_names_items d"
  "encode_fields d = Inr f \<Longrightarrow>
     json_keys_items f \<inter> set secret_keys \<subseteq> set (map fst d) \<union> field_names_items d"
proof (induction v and xs and d and d arbitrary: j and js and e and f
    rule: encode_encode_list_encode_items_encode_fields.induct)
  case (12 n d)
  then show ?case by (auto simp: reserved_not_secret split: if_splits)
next
  case (19 k x items)
  then show ?case by (auto split: if_splits)
next
  case (21 k x items)
  then show ?case by (auto)
qed (auto simp: reserved_not_secret)


section \<open>Properties\<close>

text \<open>
  C11: A snapshot loses nothing: a value made of scalars, decimals, times, tuples, lists,
  dicts without secret or reserved keys, namespaces and known dataclasses is encoded, and
  decoding the stored JSON gives back that very value, decimals with their exponent.
\<close>

theorem checkpoint_round_trip:
  assumes "storable v"
  shows "\<exists>j. encode v = Inr j \<and> decode j = Inr v"
  using assms by (rule round_trip(1))

theorem checkpoint_round_trip_witness:
  "\<exists>j. encode (PDict [(''target'', PData ''AssetIdentity'' [(''chain_id'', PInt 1)]),
       (''loss'', PDecimal (Number (Fin False 150 (- 2)))), (''ids'', PTuple [PStr ''a''])]) = Inr j
    \<and> decode j = Inr (PDict [(''target'', PData ''AssetIdentity'' [(''chain_id'', PInt 1)]),
       (''loss'', PDecimal (Number (Fin False 150 (- 2)))), (''ids'', PTuple [PStr ''a''])])"
  by (rule checkpoint_round_trip)
    (simp add: plain_keys_def public_items_def reserved_keys_def secret_keys_def snapshot_types_def)

text \<open>
  A snapshot is key-free: whatever value is encoded, \<open>private_key\<close>, \<open>secret_key\<close>,
  \<open>api_key\<close> and \<open>passphrase\<close> are the key of no dict at any depth of the stored JSON,
  unless a dataclass of the program has a field of that name.
\<close>

theorem snapshot_key_free:
  assumes "encode v = Inr j" and "field_names v \<inter> set secret_keys = {}"
  shows "json_keys j \<inter> set secret_keys = {}"
  using encode_keys(1) [OF assms(1)] assms(2) by blast

theorem snapshot_key_free_witness:
  "json_keys (PDict [(''wallet'', PDict [(''address'', PStr ''0x1'')])]) \<inter> set secret_keys = {}"
proof -
  have "encode (PDict [(''wallet'', PDict [(''address'', PStr ''0x1''), (''private_key'', PStr ''k'')]),
      (''api_key'', PStr ''s'')]) = Inr (PDict [(''wallet'', PDict [(''address'', PStr ''0x1'')])])"
    by (simp add: secret_keys_def is_callable_def)
  then show ?thesis by (rule snapshot_key_free) simp
qed

end
