(* ===== verification/Journal_Tables.thy ===== *)
theory Journal_Tables
  imports Checkpoints
begin

text \<open>
  The tables of the journal (\<open>journal.py\<close>): rows, the transition tables of groups,
  positions and steps, and the validators of texts and amounts. The bookkeeping columns
  \<open>created_at\<close> and \<open>updated_at\<close> are left out: no code of the journal reads them.
\<close>

section \<open>Transition tables\<close>

definition group_states :: "string list" where
  "group_states =
     [''planned'', ''active'', ''deposit_pending'', ''gas_deferred'', ''completed'',
      ''manual_review_after_swap'', ''manual_review_group_threshold_exceeded'',
      ''manual_review_group_halted'']"

definition group_transitions :: "(string \<times> string list) list" where
  "group_transitions =
     [(''planned'', [''active'', ''gas_deferred'', ''completed'', ''manual_review_after_swap'',
        ''manual_review_group_threshold_exceeded'', ''manual_review_group_halted'']),
      (''active'', [''deposit_pending'', ''gas_deferred'', ''completed'',
        ''manual_review_after_swap'', ''manual_review_group_threshold_exceeded'',
        ''manual_review_group_halted'']),
      (''deposit_pending'', [''active'', ''completed'', ''deposit_pending'',
        ''manual_review_group_halted'']),
      (''gas_deferred'', [''active'', ''gas_deferred'']),
      (''completed'', []), (''manual_review_after_swap'', []),
      (''manual_review_group_threshold_exceeded'', []), (''manual_review_group_halted'', [])]"

definition position_transitions :: "(string \<times> string list) list" where
  "position_transitions =
     [(''planned'', [''gas_deferred'', ''swap_submitted'', ''direct_deposit_submitted'',
        ''source_asset_converted_bridge_pending'', ''completed'', ''manual_review_after_swap'',
        ''manual_review_group_threshold_exceeded'', ''manual_review_group_halted'',
        ''manual_review'', ''bridge_submitted'']),
      (''swap_submitted'', [''source_asset_converted_bridge_pending'',
        ''manual_review_after_swap'', ''manual_review_group_threshold_exceeded'',
        ''manual_review_group_halted'', ''manual_review'']),
      (''source_asset_converted_bridge_pending'', [''completed'', ''deposit_pending'',
        ''requote_required'', ''bridge_submitted'', ''manual_review_after_swap'',
        ''manual_review_group_threshold_exceeded'', ''manual_review_group_halted'',
        ''manual_review'']),
      (''requote_required'', [''bridge_submitted'', ''manual_review_after_swap'',
        ''manual_review_group_threshold_exceeded'']),
      (''bridge_submitted'', [''source_asset_converted_bridge_pending'', ''deposit_pending'',
        ''bridge_timeout'', ''completed'', ''manual_review_after_swap'',
        ''manual_review_group_threshold_exceeded'', ''manual_review_group_halted'',
        ''manual_review'']),
      (''bridge_timeout'', [''requote_required'', ''completed'', ''manual_review_after_swap'',
        ''manual_review_group_halted'']),
      (''direct_deposit_submitted'', [''deposit_pending'', ''gas_deferred'', ''completed'',
        ''manual_review_group_threshold_exceeded'', ''manual_review_group_halted'',
        ''manual_review'']),
      (''deposit_pending'', [''completed'', ''manual_review'']),
      (''gas_deferred'', [''direct_deposit_submitted'', ''bridge_submitted'',
        ''swap_submitted'', ''manual_review'', ''gas_deferred'']),
      (''completed'', []), (''manual_review_after_swap'', []),
      (''manual_review_group_threshold_exceeded'', []), (''manual_review_group_halted'', []),
      (''manual_review'', [])]"

definition step_transitions :: "(string \<times> string list) list" where
  "step_transitions =
     [(''planned'', [''submitted'', ''failed'', ''manual_review'']),
      (''submitted'', [''confirmed'', ''deposit_seen'', ''reverted'', ''failed'',
        ''bridge_timeout'', ''manual_review'']),
      (''deposit_seen'', [''credited'', ''manual_review'', ''failed'']),
      (''confirmed'', [''awaiting_bridge'', ''credited'', ''completed'', ''bridge_timeout'',
        ''manual_review'']),
      (''awaiting_bridge'', [''credited'', ''bridge_timeout'', ''manual_review'']),
      (''bridge_timeout'', [''requote_required'', ''credited'', ''manual_review'']),
      (''requote_required'', [''submitted'', ''manual_review'']),
      (''credited'', []), (''completed'', []), (''reverted'', []), (''failed'', []),
      (''manual_review'', [])]"

text \<open>\<open>TABLE.get(current, set())\<close>, and the check \<open>state != current and state not in ...\<close>.\<close>

definition successors :: "(string \<times> string list) list \<Rightarrow> string \<Rightarrow> string list" where
  "successors table s = (case map_of table s of None \<Rightarrow> [] | Some ts \<Rightarrow> ts)"

definition may_move :: "(string \<times> string list) list \<Rightarrow> string \<Rightarrow> string \<Rightarrow> bool" where
  "may_move table s t \<longleftrightarrow> t = s \<or> t \<in> set (successors table s)"

definition terminal :: "(string \<times> string list) list \<Rightarrow> string \<Rightarrow> bool" where
  "terminal table s \<longleftrightarrow> successors table s = []"

section \<open>Rows\<close>

record op_row =
  o_id :: nat
  o_wallet :: string
  o_action :: string
  o_state :: string
  o_tx_hash :: "string option"
  o_approval :: "string option"
  o_deposit_status :: "string option"
  o_reason :: "string option"

record group_row =
  g_id :: nat
  g_key :: string
  g_wallet :: string
  g_chain :: int
  g_budget_pct :: string
  g_source_usd :: string
  g_projected_usd :: "string option"
  g_projected_pct :: "string option"
  g_realized_usd :: string
  g_state :: string
  g_reason :: "string option"

record position_row =
  p_id :: nat
  p_key :: string
  p_wallet :: string
  p_group :: "nat option"
  p_source_asset :: "string option"
  p_source_amount :: "string option"
  p_actual_asset :: "string option"
  p_actual_balance :: "string option"
  p_loss_usd :: "string option"
  p_reason :: "string option"
  p_state :: string

record step_row =
  s_id :: nat
  s_position :: nat
  s_key :: string
  s_nonce :: int
  s_state :: string
  s_calldata :: string
  s_payload :: string
  s_tx_hash :: "string option"
  s_attempts :: nat
  s_receipt :: "string option"
  s_finality :: "int option"
  s_baseline :: "int option"
  s_delta :: "int option"
  s_baseline_text :: "string option"
  s_delta_text :: "string option"
  s_timeout_report :: "string option"

record event_row =
  e_id :: nat
  e_position :: nat
  e_type :: string
  e_old_route :: string
  e_old_hash :: string
  e_new_route :: string
  e_new_hash :: string
  e_amount :: string
  e_asset :: string
  e_reason :: "string option"

record journal =
  operations :: "op_row list"
  groups :: "group_row list"
  positions :: "position_row list"
  steps :: "step_row list"
  events :: "event_row list"
  checkpoints :: "((nat \<times> string) \<times> pyval) list"

definition empty_journal :: journal where
  "empty_journal = \<lparr>operations = [], groups = [], positions = [], steps = [], events = [],
     checkpoints = []\<rparr>"

text \<open>\<open>COALESCE(?, column)\<close> with the new value first, and \<open>COALESCE(column, ?)\<close>.\<close>

definition coalesce :: "'a option \<Rightarrow> 'a option \<Rightarrow> 'a option" where
  "coalesce a b = (case a of None \<Rightarrow> b | Some x \<Rightarrow> Some x)"

text \<open>
  \<open>s LIKE pattern\<close>: \<open>%\<close> stands for any text, \<open>_\<close> for one character, ASCII letters
  match in either case.
\<close>

fun sql_like :: "string \<Rightarrow> string \<Rightarrow> bool" where
  "sql_like [] s = (s = [])"
| "sql_like (p # ps) [] = (p = CHR ''%'' \<and> sql_like ps [])"
| "sql_like (p # ps) (c # s) =
     (if p = CHR ''%'' then sql_like ps (c # s) \<or> sql_like (p # ps) s
      else (p = CHR ''_'' \<or> lower_char p = lower_char c) \<and> sql_like ps s)"

section \<open>Validators\<close>

definition not_finite_decimal :: "string \<Rightarrow> exn" where
  "not_finite_decimal field = ValueError (field @ '' must be a finite non-negative decimal'')"

text \<open>\<open>Decimal(value)\<close>: \<open>None\<close> for another type, \<open>Some None\<close> for a text that is no number.\<close>

fun to_decimal :: "pyval \<Rightarrow> decimal option option" where
  "to_decimal (PStr s) = Some (parse_decimal s)"
| "to_decimal (PDecimal d) = Some (Some d)"
| "to_decimal _ = None"

definition decimal_text :: "pyval \<Rightarrow> string \<Rightarrow> string result" where
  "decimal_text value field =
     (case to_decimal value of
        None \<Rightarrow> Inl (ValueError (field @ '' must be an exact decimal string''))
      | Some None \<Rightarrow> Inl (not_finite_decimal field)
      | Some (Some x) \<Rightarrow>
          (case x of
             Number d \<Rightarrow>
               if dec_less d (dec_of_int 0) then Inl (not_finite_decimal field)
               else Inr (if dec_nonzero d then format_f (normalize default_prec d) else ''0'')
           | _ \<Rightarrow> Inl (not_finite_decimal field)))"

definition raw_amount_text :: "pyval \<Rightarrow> string \<Rightarrow> string result" where
  "raw_amount_text value field =
     (case value of
        PStr s \<Rightarrow>
          if all_digits s then Inr (nat_text (digits_val s))
          else Inl (ValueError (field @ '' must be a non-negative integer''))
      | PInt i \<Rightarrow>
          if i < 0 then Inl (ValueError (field @ '' must be a non-negative integer''))
          else Inr (int_text i)
      | _ \<Rightarrow> Inl (ValueError (field @ '' must be a non-negative integer'')))"

text \<open>The optional amounts of the callers: \<open>None\<close> is passed through.\<close>

definition optional_amount :: "pyval option \<Rightarrow> string \<Rightarrow> string option result" where
  "optional_amount value field =
     (case value of None \<Rightarrow> Inr None
      | Some v \<Rightarrow> bind_result (raw_amount_text v field) (\<lambda>t. Inr (Some t)))"

definition require_sha256 :: "string \<Rightarrow> string \<Rightarrow> unit result" where
  "require_sha256 value field =
     require (length value = 64 \<and> list_all is_hex value)
       (ValueError (field @ '' must be a 32-byte SHA-256 hex digest''))"

definition sqlite_integer :: "string \<Rightarrow> int option" where
  "sqlite_integer value =
     (if digits_val value \<le> 2 ^ 63 - 1 then Some (int (digits_val value)) else None)"

text \<open>
  \<open>Decimal(text)\<close> of a money column: the journal writes finite decimals only, with at
  most 80 significant digits, the precision of its sums.
\<close>

definition number_of :: "string \<Rightarrow> fdec result" where
  "number_of t = (case parse_decimal t of Some (Number d) \<Rightarrow> Inr d | _ \<Rightarrow> Inl InvalidOperation)"

definition text_value :: "string \<Rightarrow> rat" where
  "text_value t = (case number_of t of Inr d \<Rightarrow> dec_value d | Inl _ \<Rightarrow> 0)"

definition money_prec :: nat where
  "money_prec = 80"

definition money_text :: "string \<Rightarrow> bool" where
  "money_text t \<longleftrightarrow> (case number_of t of
      Inr d \<Rightarrow> 0 \<le> dec_value d \<and> representable money_prec (dec_value d) | Inl _ \<Rightarrow> False)"

section \<open>Facts on the validators\<close>

lemma may_move_refl [simp]: "may_move t s s"
  by (simp add: may_move_def)

lemma number_of_format_f:
  obtains d' where "number_of (format_f d) = Inr d'" "dec_value d' = dec_value d"
proof -
  obtain d' where "parse_decimal (format_f d) = Some (Number d')" "dec_value d' = dec_value d"
    by (rule parse_format_f)
  then show thesis by (intro that [of d']) (simp_all add: number_of_def)
qed

lemma text_value_format_f [simp]: "text_value (format_f d) = dec_value d"
  and money_text_format_f [simp]:
    "money_text (format_f d) \<longleftrightarrow> 0 \<le> dec_value d \<and> representable money_prec (dec_value d)"
proof -
  obtain d' where "number_of (format_f d) = Inr d'" "dec_value d' = dec_value d"
    by (rule number_of_format_f)
  then show "text_value (format_f d) = dec_value d"
    "money_text (format_f d) \<longleftrightarrow> 0 \<le> dec_value d \<and> representable money_prec (dec_value d)"
    by (simp_all add: text_value_def money_text_def)
qed

lemma text_value_zero [simp]: "text_value ''0'' = 0" "money_text ''0''"
proof -
  have "number_of ''0'' = Inr (Fin False 0 0)" by code_simp
  moreover have "representable money_prec 0"
    using representable_coeff [of "Fin False 0 0" money_prec]
    by (simp add: dec_value_def scoeff_def money_prec_def)
  ultimately show "text_value ''0'' = 0" "money_text ''0''"
    by (simp_all add: text_value_def money_text_def dec_value_def scoeff_def)
qed

lemma money_textE:
  assumes "money_text t"
  obtains d where "number_of t = Inr d" "dec_value d = text_value t" "0 \<le> text_value t"
    "representable money_prec (text_value t)"
  using assms by (auto simp: money_text_def text_value_def split: sum.splits)

lemma money_text_nonneg: "money_text t \<Longrightarrow> 0 \<le> text_value t"
  by (erule money_textE) simp

lemma decimal_textE:
  assumes "decimal_text v f = Inr t"
  obtains d where "to_decimal v = Some (Some (Number d))" "0 \<le> dec_value d"
    "text_value t = dec_value (dec_fix default_prec d)"
    "t = (if dec_nonzero d then format_f (normalize default_prec d) else ''0'')"
proof -
  obtain d where d: "to_decimal v = Some (Some (Number d))" "\<not> dec_less d (dec_of_int 0)"
    and t: "t = (if dec_nonzero d then format_f (normalize default_prec d) else ''0'')"
    using assms by (auto simp: decimal_text_def split: option.splits decimal.splits if_splits)
  have nn: "0 \<le> dec_value d" using d(2) by (simp add: dec_compare_values)
  have "text_value t = dec_value (dec_fix default_prec d)"
  proof (cases "dec_nonzero d")
    case True
    with t show ?thesis by (simp add: normalize_value)
  next
    case False
    then have "dec_fix default_prec d = d"
      by (simp add: dec_nonzero_def default_prec_def)
    with False t show ?thesis by (simp add: dec_nonzero_value)
  qed
  with that d(1) nn t show thesis by blast
qed

lemma dec_value_nonneg: "\<not> negative d \<or> coeff d = 0 \<Longrightarrow> 0 \<le> dec_value d"
  by (auto simp: dec_value_def scoeff_def)

lemma dec_value_nonneg_iff: "0 \<le> dec_value d \<longleftrightarrow> \<not> negative d \<or> coeff d = 0"
proof -
  have "\<not> (10 :: rat) powi expo d \<le> 0" by (simp add: not_le)
  then show ?thesis by (auto simp: dec_value_def scoeff_def zero_le_mult_iff)
qed

lemma dec_fix_negative [simp]: "negative (dec_fix p d) = negative d"
  by (simp add: dec_fix_def Let_def)

lemma dec_fix_nonneg: "0 \<le> dec_value d \<Longrightarrow> 0 < p \<Longrightarrow> 0 \<le> dec_value (dec_fix p d)"
  by (cases "coeff d = 0") (auto simp: dec_value_nonneg_iff)

lemma decimal_text_money: "decimal_text v f = Inr t \<Longrightarrow> money_text t"
proof (erule decimal_textE)
  fix d assume nn: "0 \<le> dec_value d"
    and t: "t = (if dec_nonzero d then format_f (normalize default_prec d) else ''0'')"
  have "0 \<le> dec_value (normalize default_prec d)"
    using dec_fix_nonneg [OF nn, of default_prec] by (simp add: normalize_value default_prec_def)
  moreover have "representable money_prec (dec_value (normalize default_prec d))"
    using representable_mono [OF representable_fix [of default_prec d], of money_prec]
    by (simp add: normalize_value default_prec_def money_prec_def)
  ultimately show "money_text t" using t by simp
qed

end
