(* ===== verification/Journal.thy ===== *)
theory Journal
  imports Journal_Tables
begin

text \<open>
  The operations of the class \<open>Journal\<close> (\<open>journal.py\<close>), in the order of the file. An
  operation that reads only takes the journal and returns a value or an exception; one
  that writes also returns the new journal. Where the code raises, nothing has been
  written before, or the transaction is rolled back, so the exception carries no journal.
  The operations that also account losses of legacy conversions are in \<open>Source_Cost\<close>, the
  recovery of a wrapped-ether continuation in \<open>Weth_Continuation\<close>.
\<close>

named_theorems journal_defs \<open>definitions of the journal operations\<close>

section \<open>Row updates\<close>

definition upd_operation :: "(op_row \<Rightarrow> bool) \<Rightarrow> (op_row \<Rightarrow> op_row) \<Rightarrow> journal \<Rightarrow> journal" where
  "upd_operation P f j = j\<lparr>operations := update_where P f (operations j)\<rparr>"

definition upd_group :: "nat \<Rightarrow> (group_row \<Rightarrow> group_row) \<Rightarrow> journal \<Rightarrow> journal" where
  "upd_group i f j = j\<lparr>groups := update_where (\<lambda>g. g_id g = i) f (groups j)\<rparr>"

definition upd_position :: "nat \<Rightarrow> (position_row \<Rightarrow> position_row) \<Rightarrow> journal \<Rightarrow> journal" where
  "upd_position i f j = j\<lparr>positions := update_where (\<lambda>p. p_id p = i) f (positions j)\<rparr>"

definition upd_step :: "nat \<Rightarrow> (step_row \<Rightarrow> step_row) \<Rightarrow> journal \<Rightarrow> journal" where
  "upd_step i f j = j\<lparr>steps := update_where (\<lambda>s. s_id s = i) f (steps j)\<rparr>"

definition set_group_state :: "nat \<Rightarrow> string \<Rightarrow> journal \<Rightarrow> journal" where
  "set_group_state i s j = upd_group i (\<lambda>g. g\<lparr>g_state := s\<rparr>) j"

definition set_position_state :: "nat \<Rightarrow> string \<Rightarrow> journal \<Rightarrow> journal" where
  "set_position_state i s j = upd_position i (\<lambda>p. p\<lparr>p_state := s\<rparr>) j"

section \<open>Operations table\<close>

definition create_operation :: "string \<Rightarrow> string \<Rightarrow> journal \<Rightarrow> nat \<times> journal" where
  "create_operation wallet action j =
     (let i = next_rowid o_id (operations j)
      in (i, j\<lparr>operations := operations j @
            [\<lparr>o_id = i, o_wallet = lower wallet, o_action = action, o_state = ''planned'',
              o_tx_hash = None, o_approval = None, o_deposit_status = None, o_reason = None\<rparr>]\<rparr>))"

definition update_operation ::
  "nat \<Rightarrow> string \<Rightarrow> string option \<Rightarrow> string option \<Rightarrow> string option \<Rightarrow> string option
     \<Rightarrow> string list \<Rightarrow> journal \<Rightarrow> journal" where
  "update_operation i state tx_hash status reason approval unless_states j =
     upd_operation
       (\<lambda>o'. o_id o' = i \<and> (unless_states = [] \<or> o_state o' \<notin> set unless_states))
       (\<lambda>o'. o'\<lparr>o_state := state, o_tx_hash := coalesce tx_hash (o_tx_hash o'),
          o_approval := coalesce approval (o_approval o'),
          o_deposit_status := coalesce status (o_deposit_status o'),
          o_reason := coalesce reason (o_reason o')\<rparr>) j"

definition settled_operation_states :: "string list" where
  "settled_operation_states = [''deferred'', ''approval_completed_route_deferred'']"

definition record_transaction :: "nat \<Rightarrow> string \<Rightarrow> journal \<Rightarrow> journal" where
  "record_transaction i tx_hash j =
     update_operation i ''submitted'' (Some tx_hash) None None None settled_operation_states j"

definition record_deposit_status :: "nat \<Rightarrow> string \<Rightarrow> string option \<Rightarrow> journal \<Rightarrow> journal" where
  "record_deposit_status i status reason j =
     update_operation i (if status = ''success'' then ''completed'' else ''deposit_pending'')
       None (Some status) reason None settled_operation_states j"

definition record_deferred :: "nat \<Rightarrow> string \<Rightarrow> journal \<Rightarrow> journal" where
  "record_deferred i reason j = update_operation i ''deferred'' None None (Some reason) None [] j"

definition record_approval_hash :: "nat \<Rightarrow> string \<Rightarrow> journal \<Rightarrow> journal" where
  "record_approval_hash i approval j =
     update_operation i ''submitted'' None None None (Some approval) [] j"

definition record_approval_completed_route_deferred ::
  "nat \<Rightarrow> string \<Rightarrow> string \<Rightarrow> journal \<Rightarrow> journal" where
  "record_approval_completed_route_deferred i approval reason j =
     update_operation i ''approval_completed_route_deferred'' None None (Some reason)
       (Some approval) [] j"

definition operation :: "journal \<Rightarrow> nat \<Rightarrow> op_row result" where
  "operation j i = (case select_one (\<lambda>o'. o_id o' = i) (operations j) of
      None \<Rightarrow> Inl KeyError | Some r \<Rightarrow> Inr r)"

section \<open>Groups: creation and lookup\<close>

definition get_or_create_group ::
  "string \<Rightarrow> string \<Rightarrow> int \<Rightarrow> pyval \<Rightarrow> pyval \<Rightarrow> journal \<Rightarrow> (group_row \<times> journal) result" where
  "get_or_create_group key wallet chain budget_pct source_usd j =
     bind_result (decimal_text budget_pct ''loss budget'') (\<lambda>budget.
     bind_result (decimal_text source_usd ''group source USD'') (\<lambda>source.
     if key = [] \<or> wallet = [] \<or> chain \<le> 0
     then Inl (ValueError ''invalid route group identity'')
     else if text_value budget \<le> 0 \<or> 100 < text_value budget \<or> text_value source \<le> 0
     then Inl (ValueError ''invalid route group valuation'')
     else
       let w = lower wallet;
           new = \<lparr>g_id = next_rowid g_id (groups j), g_key = key, g_wallet = w, g_chain = chain,
             g_budget_pct = budget, g_source_usd = source, g_projected_usd = None,
             g_projected_pct = None, g_realized_usd = ''0'', g_state = ''planned'',
             g_reason = None\<rparr>
       in case select_one (\<lambda>g. g_key g = key) (groups j) of
            None \<Rightarrow> Inr (new, j\<lparr>groups := groups j @ [new]\<rparr>)
          | Some g \<Rightarrow>
              if g_wallet g \<noteq> w \<or> g_chain g \<noteq> chain \<or> g_budget_pct g \<noteq> budget
                 \<or> g_source_usd g \<noteq> source
              then Inl (ValueError ''conflicting route group identity or budget'')
              else Inr (g, j)))"

definition group :: "journal \<Rightarrow> nat \<Rightarrow> group_row result" where
  "group j i = (case select_one (\<lambda>g. g_id g = i) (groups j) of
      None \<Rightarrow> Inl KeyError | Some g \<Rightarrow> Inr g)"

definition group_rows :: "journal \<Rightarrow> nat \<Rightarrow> position_row list" where
  "group_rows j i = filter (\<lambda>p. p_group p = Some i) (positions j)"

definition group_positions :: "journal \<Rightarrow> nat \<Rightarrow> position_row list" where
  "group_positions j i = sort_key p_id (group_rows j i)"

section \<open>Positions, steps and checkpoints: lookup\<close>

definition position :: "journal \<Rightarrow> nat \<Rightarrow> position_row result" where
  "position j i = (case select_one (\<lambda>p. p_id p = i) (positions j) of
      None \<Rightarrow> Inl KeyError | Some p \<Rightarrow> Inr p)"

definition step :: "journal \<Rightarrow> nat \<Rightarrow> step_row result" where
  "step j i = (case select_one (\<lambda>s. s_id s = i) (steps j) of
      None \<Rightarrow> Inl KeyError | Some s \<Rightarrow> Inr s)"

definition latest_step :: "journal \<Rightarrow> nat \<Rightarrow> string \<Rightarrow> step_row option" where
  "latest_step j pid key = select_last (\<lambda>s. s_position s = pid \<and> s_key s = key) (steps j)"

definition position_steps :: "journal \<Rightarrow> nat \<Rightarrow> step_row list" where
  "position_steps j pid = filter (\<lambda>s. s_position s = pid) (steps j)"

definition position_events :: "journal \<Rightarrow> nat \<Rightarrow> event_row list" where
  "position_events j pid = rev (filter (\<lambda>e. e_position e = pid) (events j))"

definition checkpoint :: "journal \<Rightarrow> nat \<Rightarrow> string \<Rightarrow> pyval option result" where
  "checkpoint j pid key =
     (case map_of (checkpoints j) (pid, key) of
        None \<Rightarrow> Inr None
      | Some payload \<Rightarrow> bind_result (decode payload) (\<lambda>v. Inr (Some v)))"

text \<open>\<open>self.checkpoint(...) or {}\<close>, read with \<open>.get\<close>.\<close>

definition checkpoint_dict :: "journal \<Rightarrow> nat \<Rightarrow> string \<Rightarrow> pydict result" where
  "checkpoint_dict j pid key =
     bind_result (checkpoint j pid key) (\<lambda>c. case c of
        None \<Rightarrow> Inr []
      | Some v \<Rightarrow> if \<not> py_truthy v then Inr []
          else (case v of PDict d \<Rightarrow> Inr d | _ \<Rightarrow> Inl (OtherError ''AttributeError'')))"

definition put_checkpoint :: "nat \<Rightarrow> string \<Rightarrow> pyval \<Rightarrow> journal \<Rightarrow> journal" where
  "put_checkpoint pid key payload j =
     j\<lparr>checkpoints := AList.update (pid, key) payload (checkpoints j)\<rparr>"

definition save_checkpoint :: "nat \<Rightarrow> string \<Rightarrow> pyval \<Rightarrow> journal \<Rightarrow> journal result" where
  "save_checkpoint pid key payload j =
     bind_result (encode payload) (\<lambda>e. Inr (put_checkpoint pid key e j))"

definition tx_present :: "step_row \<Rightarrow> bool" where
  "tx_present s \<longleftrightarrow> (case s_tx_hash s of None \<Rightarrow> False | Some h \<Rightarrow> h \<noteq> [])"

definition approval_step :: "step_row \<Rightarrow> bool" where
  "approval_step s = sql_like ''approval:%'' (s_key s)"

definition has_broadcast :: "journal \<Rightarrow> nat \<Rightarrow> bool" where
  "has_broadcast j pid = list_ex (\<lambda>s. s_tx_hash s \<noteq> None) (position_steps j pid)"

definition has_asset_intent :: "journal \<Rightarrow> nat \<Rightarrow> bool" where
  "has_asset_intent j pid = list_ex (\<lambda>s. \<not> approval_step s) (position_steps j pid)"

definition has_asset_broadcast :: "journal \<Rightarrow> nat \<Rightarrow> bool" where
  "has_asset_broadcast j pid =
     list_ex (\<lambda>s. s_tx_hash s \<noteq> None \<and> \<not> approval_step s) (position_steps j pid)"

definition has_confirmed_defi_exit :: "journal \<Rightarrow> nat \<Rightarrow> bool result" where
  "has_confirmed_defi_exit j pid =
     bind_result (position j pid) (\<lambda>p.
       if \<not> starts_with ''defi:'' (p_key p) then Inr False
       else Inr (list_ex (\<lambda>s. s_key s = ''defi_withdraw'') (position_steps j pid)
         \<and> list_all (\<lambda>s. (s_key s = ''defi_withdraw'' \<or> starts_with ''approval:'' (s_key s))
              \<and> s_tx_hash s \<noteq> None \<and> s_state s = ''confirmed''
              \<and> s_receipt s = Some ''confirmed''
              \<and> (case s_finality s of None \<Rightarrow> False | Some b \<Rightarrow> 0 < b))
            (position_steps j pid)))"

definition unresolved_direct_deposit ::
  "journal \<Rightarrow> string \<Rightarrow> int \<Rightarrow> string \<Rightarrow> nat \<Rightarrow> (nat \<times> string option) option" where
  "unresolved_direct_deposit j wallet chain asset exclude =
     map_option (\<lambda>s. (s_position s, s_tx_hash s))
       (select_last (\<lambda>s. s_key s = ''direct_deposit'' \<and> s_tx_hash s \<noteq> None
          \<and> list_ex (\<lambda>p. p_id p = s_position s \<and> p_wallet p = lower wallet
               \<and> p_source_asset p = Some (lower asset) \<and> p_id p \<noteq> exclude
               \<and> p_state p \<noteq> ''completed''
               \<and> list_ex (\<lambda>g. p_group p = Some (g_id g) \<and> g_chain g = chain) (groups j))
             (positions j))
         (steps j))"

section \<open>Reactivation of halted groups\<close>

definition reactivate_known_direct_deposit ::
  "nat \<Rightarrow> string \<Rightarrow> journal \<Rightarrow> bool \<times> journal" where
  "reactivate_known_direct_deposit gid key j =
     (case group_rows j gid of
        [p] \<Rightarrow>
          if p_key p \<noteq> key then (False, j)
          else if p_state p \<notin> {''manual_review'', ''deposit_pending''} then (False, j)
          else (case latest_step j (p_id p) ''direct_deposit'' of
              None \<Rightarrow> (False, j)
            | Some s \<Rightarrow>
                if \<not> tx_present s \<or> s_state s \<in> {''failed'', ''reverted''} then (False, j)
                else (True, set_group_state gid ''deposit_pending''
                       (set_position_state (p_id p) ''deposit_pending'' j)))
      | _ \<Rightarrow> (False, j))"

definition text_or_empty :: "string option \<Rightarrow> string" where
  "text_or_empty t = (case t of None \<Rightarrow> [] | Some s \<Rightarrow> s)"

definition reactivate_legacy_gas_deferral ::
  "nat \<Rightarrow> string \<Rightarrow> journal \<Rightarrow> bool \<times> journal" where
  "reactivate_legacy_gas_deferral gid key j =
     (case group_rows j gid of
        [p] \<Rightarrow>
          if p_key p \<noteq> key then (False, j)
          else if p_state p \<noteq> ''manual_review''
            \<or> \<not> starts_with ''ethereum_gas_deferred:'' (text_or_empty (p_reason p)) then (False, j)
          else if has_broadcast j (p_id p) then (False, j)
          else (True, set_group_state gid ''gas_deferred''
                 (set_position_state (p_id p) ''gas_deferred'' j))
      | _ \<Rightarrow> (False, j))"

text \<open>\<open>route_preparation.py\<close>: the one preparation failure eligible for a fresh quote.\<close>

definition step_transaction_url :: string where
  "step_transaction_url = ''https://li.quest/v1/advanced/stepTransaction''"

definition legacy_preparation_rejection :: string where
  "legacy_preparation_rejection =
     ''Client error '' @ [CHR 0x27] @ ''422 Unprocessable Entity'' @ [CHR 0x27] @ '' for url ''
     @ [CHR 0x27] @ step_transaction_url @ [CHR 0x27, CHR 0x0A]
     @ ''For more information check: https://developer.mozilla.org/en-US/docs/Web/HTTP/Status/422''"

definition is_route_preparation_retry_reason :: "string option \<Rightarrow> bool" where
  "is_route_preparation_retry_reason reason \<longleftrightarrow>
     reason \<in> {Some ''route_preparation_rejected'', Some legacy_preparation_rejection,
       Some ''requote_required:missing_gas_estimate''}"

text \<open>\<open>any(...)\<close> and \<open>all(...)\<close> with a test that may raise, left to right.\<close>

fun all_result :: "('a \<Rightarrow> bool result) \<Rightarrow> 'a list \<Rightarrow> bool result" where
  "all_result f [] = Inr True"
| "all_result f (x # xs) = bind_result (f x) (\<lambda>b. if b then all_result f xs else Inr False)"

definition completed_route_credit_verified :: "journal \<Rightarrow> nat \<Rightarrow> bool result" where
  "completed_route_credit_verified j pid =
     bind_result (checkpoint_dict j pid ''route_deposit'') (\<lambda>context.
     bind_result (checkpoint_dict j pid ''bitget_credit'') (\<lambda>credit.
     Inr (case get context ''target'' of
        PDict target \<Rightarrow>
          get credit ''status'' = PStr ''success''
          \<and> list_all (\<lambda>field. case get context field of
                PStr expected \<Rightarrow> expected \<noteq> []
                  \<and> lower (py_str (get_default credit field (PStr []))) = lower expected
              | _ \<Rightarrow> False) [''tx_hash'', ''recipient'']
          \<and> list_all (\<lambda>field. py_truthy (get target field)
                \<and> py_eq (get credit field) (get target field)) [''coin'', ''chain'']
          \<and> (case (get context ''step_key'', get context ''source_hash'') of
               (PStr step_key, PStr source_hash) \<Rightarrow>
                 source_hash \<noteq> []
                 \<and> (case latest_step j pid step_key of
                      None \<Rightarrow> False
                    | Some s \<Rightarrow> lower (text_or_empty (s_tx_hash s)) = lower source_hash)
             | _ \<Rightarrow> False)
      | _ \<Rightarrow> False)))"

definition retry_reasons :: "string list" where
  "retry_reasons =
     [''requote_required:stale_price'', ''native_gas_reserve_unstable'',
      ''requote_required:fee_cap_changed'', ''requote_required:target_minimum_changed'']"

definition unsigned_retry_reason :: "journal \<Rightarrow> group_row \<Rightarrow> position_row list \<Rightarrow> bool result" where
  "unsigned_retry_reason j g rows =
     (if g_reason g = Some ''execution_error:ValueError'' \<and> length rows = 1
      then bind_result (checkpoint_dict j (p_id (hd rows)) ''execution_failure'') (\<lambda>proof.
        Inr (get proof ''phase'' = PStr ''legacy_fee_cap_revalidation''
           \<and> get proof ''reason'' = PStr ''requote_required:fee_cap_changed''))
      else Inr (g_reason g \<in> Some ` set retry_reasons
                \<or> is_route_preparation_retry_reason (g_reason g)))"

definition optional_str :: "string option \<Rightarrow> pyval" where
  "optional_str t = (case t of None \<Rightarrow> PNone | Some s \<Rightarrow> PStr s)"

definition replan_position :: "group_row \<Rightarrow> position_row \<Rightarrow> journal \<Rightarrow> journal" where
  "replan_position g p j =
     upd_position (p_id p) (\<lambda>r. r\<lparr>p_state := ''planned'', p_reason := None\<rparr>)
       (put_checkpoint (p_id p) ''automatic_retry''
          (PDict [(''reason'', optional_str (g_reason g)), (''recovered_from'', PStr (g_state g))]) j)"

definition reactivate_unsigned_retry_group ::
  "nat \<Rightarrow> string set \<Rightarrow> journal \<Rightarrow> (bool \<times> journal) result" where
  "reactivate_unsigned_retry_group gid position_keys j =
     bind_result (group j gid) (\<lambda>g.
     let rows = group_rows j gid; unfinished = filter (\<lambda>p. p_state p \<noteq> ''completed'') rows in
     bind_result (unsigned_retry_reason j g rows) (\<lambda>retry.
     if g_state g \<noteq> ''manual_review_group_halted'' \<or> \<not> retry \<or> rows = []
        \<or> set (map p_key rows) \<noteq> position_keys \<or> unfinished = []
     then Inr (False, j)
     else bind_result
       (all_result (\<lambda>p. completed_route_credit_verified j (p_id p))
          (filter (\<lambda>p. p_state p = ''completed'') rows)) (\<lambda>verified.
       if \<not> verified
          \<or> list_ex (\<lambda>p. p_state p \<notin> {''manual_review'', ''manual_review_group_halted''}
               \<or> p_reason p \<noteq> g_reason g \<or> has_asset_intent j (p_id p)) unfinished
       then Inr (False, j)
       else Inr (True, upd_group gid (\<lambda>r. r\<lparr>g_state := ''active'', g_reason := None\<rparr>)
              (fold (replan_position g) unfinished j)))))"

section \<open>Groups: projections, losses and states\<close>

definition record_group_projection ::
  "nat \<Rightarrow> pyval \<Rightarrow> pyval \<Rightarrow> journal \<Rightarrow> journal result" where
  "record_group_projection gid loss_usd loss_pct j =
     bind_result (decimal_text loss_usd ''projected group loss'') (\<lambda>loss.
     bind_result (decimal_text loss_pct ''projected group loss percent'') (\<lambda>pct.
     bind_result (group j gid) (\<lambda>g.
     if g_state g \<notin> {''planned'', ''active''}
     then Inl (ValueError ''cannot update a terminal route group projection'')
     else Inr (upd_group gid
            (\<lambda>r. r\<lparr>g_projected_usd := Some loss, g_projected_pct := Some pct\<rparr>) j))))"

definition record_group_realized_loss :: "nat \<Rightarrow> pyval \<Rightarrow> journal \<Rightarrow> journal result" where
  "record_group_realized_loss gid realized j =
     bind_result (decimal_text realized ''realised group loss'') (\<lambda>loss.
     bind_result (group j gid) (\<lambda>g.
     bind_result (number_of loss) (\<lambda>new.
     bind_result (number_of (g_realized_usd g)) (\<lambda>old.
     if dec_less new old then Inl (ValueError ''realised group loss cannot move backwards'')
     else if g_state g \<notin> {''planned'', ''active'', ''deposit_pending''}
     then Inl (ValueError ''cannot update a terminal route group realised loss'')
     else Inr (upd_group gid (\<lambda>r. r\<lparr>g_realized_usd := loss\<rparr>) j)))))"

definition record_group_state :: "nat \<Rightarrow> string \<Rightarrow> string option \<Rightarrow> journal \<Rightarrow> journal result" where
  "record_group_state gid state reason j =
     bind_result (group j gid) (\<lambda>g.
     if state \<notin> set group_states then Inl (ValueError ''invalid route group state'')
     else if \<not> may_move group_transitions (g_state g) state
     then Inl (ValueError (''invalid group transition: '' @ g_state g @ '' -> '' @ state))
     else Inr (upd_group gid
            (\<lambda>r. r\<lparr>g_state := state, g_reason := coalesce reason (g_reason r)\<rparr>) j))"

section \<open>Positions: creation and states\<close>

definition conflicts :: "'a option \<Rightarrow> 'a option \<Rightarrow> bool" where
  "conflicts expected stored \<longleftrightarrow> expected \<noteq> None \<and> stored \<noteq> expected"

definition get_or_create_position ::
  "string \<Rightarrow> string \<Rightarrow> nat option \<Rightarrow> string option \<Rightarrow> pyval option \<Rightarrow> journal
     \<Rightarrow> (position_row \<times> journal) result" where
  "get_or_create_position key wallet gid asset amount j =
     (if key = [] \<or> wallet = [] then Inl (ValueError ''position key and wallet are required'')
      else bind_result (optional_amount amount ''source amount'') (\<lambda>source_amount.
        let new = \<lparr>p_id = next_rowid p_id (positions j), p_key = key, p_wallet = lower wallet,
              p_group = gid, p_source_asset = asset, p_source_amount = source_amount,
              p_actual_asset = None, p_actual_balance = None, p_loss_usd = None,
              p_reason = None, p_state = ''planned''\<rparr>
        in case select_one (\<lambda>p. p_key p = key) (positions j) of
             None \<Rightarrow> Inr (new, j\<lparr>positions := positions j @ [new]\<rparr>)
           | Some p \<Rightarrow>
               if conflicts gid (p_group p) \<or> conflicts asset (p_source_asset p)
                  \<or> conflicts source_amount (p_source_amount p)
               then Inl (ValueError ''conflicting durable route position'')
               else Inr (p, j)))"

definition record_position_state ::
  "nat \<Rightarrow> string \<Rightarrow> string option \<Rightarrow> pyval option \<Rightarrow> string option \<Rightarrow> journal \<Rightarrow> journal result" where
  "record_position_state pid state actual_asset actual_balance reason j =
     bind_result (position j pid) (\<lambda>p.
     if state \<notin> set (map fst position_transitions)
     then Inl (ValueError ''invalid route position state'')
     else if \<not> may_move position_transitions (p_state p) state
     then Inl (ValueError (''invalid position transition: '' @ p_state p @ '' -> '' @ state))
     else bind_result (optional_amount actual_balance ''actual balance'') (\<lambda>raw.
       Inr (upd_position pid
         (\<lambda>r. r\<lparr>p_state := state, p_actual_asset := coalesce actual_asset (p_actual_asset r),
            p_actual_balance := coalesce raw (p_actual_balance r),
            p_reason := coalesce reason (p_reason r)\<rparr>) j)))"

section \<open>Requotes\<close>

definition new_event ::
  "nat \<Rightarrow> string \<Rightarrow> string \<Rightarrow> string \<Rightarrow> string \<Rightarrow> string \<Rightarrow> string \<Rightarrow> string \<Rightarrow> string option
     \<Rightarrow> journal \<Rightarrow> nat \<times> journal" where
  "new_event pid kind old_route old_hash new_route new_hash amount asset reason j =
     (let i = next_rowid e_id (events j)
      in (i, j\<lparr>events := events j @
            [\<lparr>e_id = i, e_position = pid, e_type = kind, e_old_route = old_route,
              e_old_hash = lower old_hash, e_new_route = new_route, e_new_hash = lower new_hash,
              e_amount = amount, e_asset = asset, e_reason = reason\<rparr>]\<rparr>))"

definition record_requote_after_swap ::
  "nat \<Rightarrow> string \<Rightarrow> string \<Rightarrow> string \<Rightarrow> string \<Rightarrow> pyval \<Rightarrow> string \<Rightarrow> string option \<Rightarrow> journal
     \<Rightarrow> (nat \<times> journal) result" where
  "record_requote_after_swap pid old_route old_hash new_route new_hash input asset reason j =
     bind_result (position j pid) (\<lambda>p.
     if old_route = [] \<or> new_route = [] \<or> asset = []
     then Inl (ValueError ''requote evidence identity is incomplete'')
     else bind_result (require_sha256 old_hash ''old payload hash'') (\<lambda>_.
     bind_result (require_sha256 new_hash ''new payload hash'') (\<lambda>_.
     bind_result (raw_amount_text input ''requote input amount'') (\<lambda>amount.
     if amount = ''0'' then Inl (ValueError ''requote input amount must be positive'')
     else if p_state p \<notin> {''source_asset_converted_bridge_pending'', ''bridge_timeout''}
     then Inl (ValueError ''requote_after_swap requires a settled source swap'')
     else if list_ex (\<lambda>e. e_position e = pid \<and> e_type e = ''requote_after_swap'') (events j)
     then Inl (ValueError ''only one post-swap bridge requote is permitted'')
     else if ''requote_required'' \<notin> set (successors position_transitions (p_state p))
     then Inl (ValueError ''position cannot enter requote_required'')
     else
       let (i, j') = new_event pid ''requote_after_swap'' old_route old_hash new_route new_hash
             amount asset reason j
       in Inr (i, upd_position pid
            (\<lambda>r. r\<lparr>p_state := ''requote_required'', p_actual_asset := Some asset,
               p_actual_balance := Some amount, p_reason := coalesce reason (p_reason r)\<rparr>) j')))))"

definition record_requote_after_bridge ::
  "nat \<Rightarrow> string \<Rightarrow> string \<Rightarrow> string \<Rightarrow> string \<Rightarrow> pyval \<Rightarrow> string \<Rightarrow> journal
     \<Rightarrow> (nat \<times> journal) result" where
  "record_requote_after_bridge pid old_route old_hash new_route new_hash input asset j =
     bind_result (position j pid) (\<lambda>p.
     if old_route = [] \<or> new_route = [] \<or> asset = []
     then Inl (ValueError ''dependent requote evidence identity is incomplete'')
     else bind_result (require_sha256 old_hash ''old payload hash'') (\<lambda>_.
     bind_result (require_sha256 new_hash ''new payload hash'') (\<lambda>_.
     bind_result (raw_amount_text input ''dependent requote input amount'') (\<lambda>amount.
     if amount = ''0'' then Inl (ValueError ''dependent requote input amount must be positive'')
     else Inr (new_event pid ''requote_after_bridge'' old_route old_hash new_route new_hash
            amount (lower asset) None j)))))"

section \<open>Steps\<close>

definition transition_step :: "nat \<Rightarrow> string \<Rightarrow> journal \<Rightarrow> journal result" where
  "transition_step sid state j =
     bind_result (step j sid) (\<lambda>s.
     if state \<notin> set (map fst step_transitions)
     then Inl (ValueError ''invalid route step state'')
     else if \<not> may_move step_transitions (s_state s) state
     then Inl (ValueError (''invalid route step transition: '' @ s_state s @ '' -> '' @ state))
     else Inr (upd_step sid (\<lambda>r. r\<lparr>s_state := state\<rparr>) j))"

definition insert_step :: "nat \<Rightarrow> string \<Rightarrow> int \<Rightarrow> string \<Rightarrow> string \<Rightarrow> journal \<Rightarrow> journal" where
  "insert_step pid key nonce calldata payload j =
     (if list_ex (\<lambda>s. s_position s = pid \<and> s_key s = key \<and> s_nonce s = nonce) (steps j) then j
      else j\<lparr>steps := steps j @
        [\<lparr>s_id = next_rowid s_id (steps j), s_position = pid, s_key = key, s_nonce = nonce,
          s_state = ''planned'', s_calldata = calldata, s_payload = payload, s_tx_hash = None,
          s_attempts = 0, s_receipt = None, s_finality = None, s_baseline = None,
          s_delta = None, s_baseline_text = None, s_delta_text = None,
          s_timeout_report = None\<rparr>]\<rparr>)"

definition find_step :: "journal \<Rightarrow> nat \<Rightarrow> string \<Rightarrow> int \<Rightarrow> step_row option" where
  "find_step j pid key nonce =
     select_one (\<lambda>s. s_position s = pid \<and> s_key s = key \<and> s_nonce s = nonce) (steps j)"

definition record_step_intent ::
  "nat \<Rightarrow> string \<Rightarrow> int \<Rightarrow> string \<Rightarrow> string \<Rightarrow> string option \<Rightarrow> journal
     \<Rightarrow> (step_row \<times> journal) result" where
  "record_step_intent pid key nonce calldata payload tx_hash j =
     (if key = [] \<or> nonce < 0 \<or> calldata = [] \<or> payload = []
      then Inl (ValueError ''invalid durable step intent'')
      else
        let j1 = insert_step pid key nonce calldata payload j in
        case find_step j1 pid key nonce of
          None \<Rightarrow> Inl AssertionError
        | Some row \<Rightarrow>
            if s_calldata row \<noteq> calldata \<or> s_payload row \<noteq> payload
            then Inl (ValueError ''conflicting durable step intent'')
            else
              bind_result
                (case tx_hash of
                   None \<Rightarrow> Inr j1
                 | Some h \<Rightarrow>
                     (case s_tx_hash row of
                        Some h' \<Rightarrow>
                          if h' \<noteq> h then Inl (ValueError ''conflicting durable transaction hash'')
                          else Inr j1
                      | None \<Rightarrow>
                          bind_result (transition_step (s_id row) ''submitted'' j1) (\<lambda>j2.
                            Inr (upd_step (s_id row) (\<lambda>r. r\<lparr>s_tx_hash := Some h\<rparr>) j2))))
                (\<lambda>j3. bind_result (step j3 (s_id row)) (\<lambda>s. Inr (s, j3))))"

definition record_broadcast_attempt :: "nat \<Rightarrow> string \<Rightarrow> journal \<Rightarrow> journal result" where
  "record_broadcast_attempt sid tx_hash j =
     bind_result (transition_step sid ''submitted'' j) (\<lambda>j1.
       Inr (upd_step sid (\<lambda>r. r\<lparr>s_tx_hash := coalesce (s_tx_hash r) (Some tx_hash),
              s_attempts := s_attempts r + 1\<rparr>) j1))"

definition record_receipt :: "nat \<Rightarrow> string \<Rightarrow> int option \<Rightarrow> journal \<Rightarrow> journal result" where
  "record_receipt sid status finality j =
     bind_result (transition_step sid status j) (\<lambda>j1.
       Inr (upd_step sid (\<lambda>r. r\<lparr>s_receipt := Some status, s_finality := finality\<rparr>) j1))"

definition record_balance_baseline :: "nat \<Rightarrow> pyval \<Rightarrow> pyval \<Rightarrow> journal \<Rightarrow> journal result" where
  "record_balance_baseline sid balance delta j =
     bind_result (raw_amount_text balance ''balance baseline'') (\<lambda>baseline.
     bind_result (raw_amount_text delta ''expected balance delta'') (\<lambda>expected.
       Inr (upd_step sid (\<lambda>r. r\<lparr>s_baseline := coalesce (s_baseline r) (sqlite_integer baseline),
              s_delta := coalesce (s_delta r) (sqlite_integer expected),
              s_baseline_text := coalesce (s_baseline_text r) (Some baseline),
              s_delta_text := coalesce (s_delta_text r) (Some expected)\<rparr>) j)))"

definition record_timeout_report :: "nat \<Rightarrow> string \<Rightarrow> journal \<Rightarrow> journal result" where
  "record_timeout_report sid report j =
     bind_result (transition_step sid ''bridge_timeout'' j) (\<lambda>j1.
       Inr (upd_step sid (\<lambda>r. r\<lparr>s_timeout_report := Some report\<rparr>) j1))"

definition record_step_state :: "nat \<Rightarrow> string \<Rightarrow> journal \<Rightarrow> journal result" where
  "record_step_state sid state j = transition_step sid state j"

section \<open>Counts\<close>

definition count_states :: "string list \<Rightarrow> (string \<times> nat) list" where
  "count_states xs = map (\<lambda>s. (s, count_list xs s)) (remdups xs)"

definition route_step_state_counts :: "journal \<Rightarrow> (string \<times> nat) list" where
  "route_step_state_counts j = count_states (map s_state (steps j))"

definition route_group_state_counts :: "journal \<Rightarrow> (string \<times> nat) list" where
  "route_group_state_counts j = count_states (map g_state (groups j))"

definition route_position_state_counts :: "journal \<Rightarrow> (string \<times> nat) list" where
  "route_position_state_counts j = count_states (map p_state (positions j))"

definition route_reason_counts :: "journal \<Rightarrow> (string \<times> nat) list" where
  "route_reason_counts j =
     (let reasons = List.map_filter p_reason (positions j)
      in map (\<lambda>r. (r, count_list reasons r)) (sort (remdups reasons)))"

end
