(* ===== verification/Journal_Facts.thy ===== *)
theory Journal_Facts
  imports Journal
begin

text \<open>
  What every operation of the journal keeps: the well-formedness of the tables
  (\<open>journal_ok\<close>), and the evolution of rows (\<open>journal_evolves\<close>): rows are never removed,
  their identity never changes, a transaction hash is written once, the losses of
  positions only grow, states move along the transition tables. Both are combined in \<open>sound\<close>, a
  preorder on journals that the lemmas of this theory establish operation by operation.
  The realised loss of a group does not move backwards (\<open>losses_grow\<close>) except where the
  cumulative accounting of \<open>Source_Cost\<close> rounds its sums at 80 digits.
\<close>

named_theorems sound_intros \<open>operations of the journal that are sound\<close>

section \<open>Evolving tables\<close>

definition rows_evolve :: "('r \<Rightarrow> 'r \<Rightarrow> bool) \<Rightarrow> 'r list \<Rightarrow> 'r list \<Rightarrow> bool" where
  "rows_evolve R xs ys \<longleftrightarrow> length xs \<le> length ys \<and> list_all2 R xs (take (length xs) ys)"

text \<open>A relation between an earlier and a later version of a row.\<close>

locale row_evolution =
  fixes R :: "'r \<Rightarrow> 'r \<Rightarrow> bool"
  assumes row_refl: "R r r"
    and row_trans: "R r s \<Longrightarrow> R s t \<Longrightarrow> R r t"
begin

lemma evolve_refl: "rows_evolve R xs xs"
  by (simp add: rows_evolve_def list_all2_same row_refl)

lemma evolve_append: "rows_evolve R xs (xs @ ys)"
  by (simp add: rows_evolve_def list_all2_same row_refl)

lemma evolve_update:
  assumes "\<And>r. r \<in> set xs \<Longrightarrow> P r \<Longrightarrow> R r (f r)"
  shows "rows_evolve R xs (update_where P f xs)"
  using assms by (auto simp: rows_evolve_def update_where_def list_all2_conv_all_nth row_refl)

lemma evolve_nth:
  assumes "rows_evolve R xs ys" and "i < length xs"
  shows "i < length ys" and "R (xs ! i) (ys ! i)"
  using assms by (auto simp: rows_evolve_def list_all2_conv_all_nth)

lemma evolve_trans:
  assumes "rows_evolve R xs ys" and "rows_evolve R ys zs"
  shows "rows_evolve R xs zs"
proof -
  have len: "length xs \<le> length ys" "length ys \<le> length zs"
    using assms by (simp_all add: rows_evolve_def)
  have "R (xs ! i) (zs ! i)" if i: "i < length xs" for i
    using evolve_nth [OF assms(1) i] evolve_nth(2) [OF assms(2)] row_trans by blast
  with len show ?thesis by (simp add: rows_evolve_def list_all2_conv_all_nth)
qed

lemma evolve_row:
  assumes "rows_evolve R xs ys" and "r \<in> set xs"
  shows "\<exists>s \<in> set ys. R r s"
  using assms evolve_nth by (metis in_set_conv_nth nth_mem)

end

section \<open>Evolution of operations, groups, positions and steps\<close>

text \<open>A hash an operation has is replaced at most, never taken back.\<close>

definition op_evolves :: "op_row \<Rightarrow> op_row \<Rightarrow> bool" where
  "op_evolves a b \<longleftrightarrow>
     o_id b = o_id a \<and> o_wallet b = o_wallet a \<and> o_action b = o_action a
     \<and> (o_tx_hash b = None \<longrightarrow> o_tx_hash a = None)
     \<and> (o_approval b = None \<longrightarrow> o_approval a = None)"

definition group_evolves :: "group_row \<Rightarrow> group_row \<Rightarrow> bool" where
  "group_evolves g h \<longleftrightarrow>
     g_id h = g_id g \<and> g_key h = g_key g \<and> g_wallet h = g_wallet g \<and> g_chain h = g_chain g
     \<and> g_budget_pct h = g_budget_pct g \<and> g_source_usd h = g_source_usd g"

text \<open>An accounted loss stays accounted and does not shrink.\<close>

definition loss_le :: "string option \<Rightarrow> string option \<Rightarrow> bool" where
  "loss_le a b \<longleftrightarrow> (case a of None \<Rightarrow> True
     | Some t \<Rightarrow> (case b of None \<Rightarrow> False | Some u \<Rightarrow> text_value t \<le> text_value u))"

definition position_evolves :: "position_row \<Rightarrow> position_row \<Rightarrow> bool" where
  "position_evolves p q \<longleftrightarrow>
     p_id q = p_id p \<and> p_key q = p_key p \<and> p_wallet q = p_wallet p \<and> p_group q = p_group p
     \<and> p_source_asset q = p_source_asset p \<and> p_source_amount q = p_source_amount p
     \<and> loss_le (p_loss_usd p) (p_loss_usd q)"

definition write_once :: "'a option \<Rightarrow> 'a option \<Rightarrow> bool" where
  "write_once a b \<longleftrightarrow> a \<noteq> None \<longrightarrow> b = a"

definition step_evolves :: "step_row \<Rightarrow> step_row \<Rightarrow> bool" where
  "step_evolves s t \<longleftrightarrow>
     s_id t = s_id s \<and> s_position t = s_position s \<and> s_key t = s_key s \<and> s_nonce t = s_nonce s
     \<and> s_calldata t = s_calldata s \<and> s_payload t = s_payload s
     \<and> write_once (s_tx_hash s) (s_tx_hash t)
     \<and> write_once (s_baseline_text s) (s_baseline_text t)
     \<and> write_once (s_delta_text s) (s_delta_text t)
     \<and> s_attempts s \<le> s_attempts t
     \<and> (may_move step_transitions)\<^sup>*\<^sup>* (s_state s) (s_state t)"

lemma write_once_simps [simp]:
  "write_once a a" "write_once None b" "write_once (Some x) b \<longleftrightarrow> b = Some x"
  "write_once a (coalesce a b)"
  by (auto simp: write_once_def coalesce_def split: option.split)

lemma loss_le_simps [simp]:
  "loss_le a a" "loss_le None b" "loss_le (Some t) (Some u) \<longleftrightarrow> text_value t \<le> text_value u"
  by (auto simp: loss_le_def split: option.split)

lemma loss_le_trans: "loss_le a b \<Longrightarrow> loss_le b c \<Longrightarrow> loss_le a c"
  by (auto simp: loss_le_def split: option.splits)

lemma write_once_trans: "write_once a b \<Longrightarrow> write_once b c \<Longrightarrow> write_once a c"
  by (auto simp: write_once_def)

interpretation oe: row_evolution op_evolves
  by unfold_locales (auto simp: op_evolves_def)

interpretation ge: row_evolution group_evolves
  by unfold_locales (auto simp: group_evolves_def)

interpretation pe: row_evolution position_evolves
  by unfold_locales (auto simp: position_evolves_def intro: loss_le_trans)

interpretation se: row_evolution step_evolves
  by unfold_locales (auto simp: step_evolves_def intro: write_once_trans rtranclp_trans)

definition journal_evolves :: "journal \<Rightarrow> journal \<Rightarrow> bool" where
  "journal_evolves j k \<longleftrightarrow>
     rows_evolve op_evolves (operations j) (operations k)
     \<and> rows_evolve group_evolves (groups j) (groups k)
     \<and> rows_evolve position_evolves (positions j) (positions k)
     \<and> rows_evolve step_evolves (steps j) (steps k)
     \<and> (\<exists>es. events k = events j @ es)
     \<and> fst ` set (checkpoints j) \<subseteq> fst ` set (checkpoints k)"

lemma journal_evolves_refl: "journal_evolves j j"
  by (simp add: journal_evolves_def oe.evolve_refl ge.evolve_refl pe.evolve_refl se.evolve_refl)

lemma journal_evolves_trans:
  "journal_evolves j k \<Longrightarrow> journal_evolves k l \<Longrightarrow> journal_evolves j l"
  by (auto simp: journal_evolves_def intro: oe.evolve_trans ge.evolve_trans pe.evolve_trans se.evolve_trans)

section \<open>Well-formed journals\<close>

definition group_ok :: "group_row \<Rightarrow> bool" where
  "group_ok g \<longleftrightarrow> g_state g \<in> set group_states \<and> money_text (g_realized_usd g)
     \<and> 0 < text_value (g_source_usd g)
     \<and> 0 < text_value (g_budget_pct g) \<and> text_value (g_budget_pct g) \<le> 100"

definition position_ok :: "position_row \<Rightarrow> bool" where
  "position_ok p \<longleftrightarrow> p_state p \<in> set (map fst position_transitions)
     \<and> (case p_loss_usd p of None \<Rightarrow> True | Some t \<Rightarrow> money_text t)"

text \<open>A planned step has no hash, and a broadcast was attempted under a saved hash only.\<close>

definition step_ok :: "step_row \<Rightarrow> bool" where
  "step_ok s \<longleftrightarrow> s_state s \<in> set (map fst step_transitions) \<and> 0 \<le> s_nonce s
     \<and> (s_state s = ''planned'' \<longrightarrow> s_tx_hash s = None)
     \<and> (0 < s_attempts s \<longrightarrow> s_tx_hash s \<noteq> None)"

definition step_identity :: "step_row \<Rightarrow> nat \<times> string \<times> int" where
  "step_identity s = (s_position s, s_key s, s_nonce s)"

definition swap_requotes :: "journal \<Rightarrow> nat list" where
  "swap_requotes j = map e_position (filter (\<lambda>e. e_type e = ''requote_after_swap'') (events j))"

definition keys_ok :: "journal \<Rightarrow> bool" where
  "keys_ok j \<longleftrightarrow> distinct (map o_id (operations j))
     \<and> distinct (map g_id (groups j)) \<and> distinct (map g_key (groups j))
     \<and> distinct (map p_id (positions j)) \<and> distinct (map p_key (positions j))
     \<and> distinct (map s_id (steps j)) \<and> distinct (map step_identity (steps j))
     \<and> distinct (map e_id (events j)) \<and> distinct (swap_requotes j)
     \<and> distinct (map fst (checkpoints j))"

definition journal_ok :: "journal \<Rightarrow> bool" where
  "journal_ok j \<longleftrightarrow> keys_ok j \<and> list_all group_ok (groups j)
     \<and> list_all position_ok (positions j) \<and> list_all step_ok (steps j)"

lemma empty_journal_ok: "journal_ok empty_journal"
  by (simp add: journal_ok_def keys_ok_def empty_journal_def swap_requotes_def)

definition sound :: "journal \<Rightarrow> journal \<Rightarrow> bool" where
  "sound j k \<longleftrightarrow> (journal_ok j \<longrightarrow> journal_ok k \<and> journal_evolves j k)"

lemma soundI: "(journal_ok j \<Longrightarrow> journal_ok k \<and> journal_evolves j k) \<Longrightarrow> sound j k"
  by (simp add: sound_def)

lemma sound_refl [simp, sound_intros]: "sound j j"
  by (simp add: sound_def journal_evolves_refl)

lemma sound_trans [trans]: "sound j k \<Longrightarrow> sound k l \<Longrightarrow> sound j l"
  by (auto simp: sound_def intro: journal_evolves_trans)

section \<open>Row writes\<close>

lemma sound_upd_operation [sound_intros]:
  assumes "\<And>r. op_evolves r (f r)"
  shows "sound j (upd_operation P f j)"
proof (rule soundI)
  assume ok: "journal_ok j"
  let ?os = "update_where P f (operations j)"
  have "map o_id ?os = map o_id (operations j)"
    using assms by (auto simp: update_where_def op_evolves_def)
  moreover have "rows_evolve op_evolves (operations j) ?os"
    by (rule oe.evolve_update) (rule assms)
  ultimately show "journal_ok (upd_operation P f j) \<and> journal_evolves j (upd_operation P f j)"
    using ok by (simp add: upd_operation_def journal_ok_def keys_ok_def swap_requotes_def
        journal_evolves_def ge.evolve_refl pe.evolve_refl se.evolve_refl)
qed

lemma sound_upd_group:
  assumes "\<And>g. g \<in> set (groups j) \<Longrightarrow> g_id g = i \<Longrightarrow> group_ok g \<Longrightarrow> journal_ok j
    \<Longrightarrow> group_ok (f g) \<and> group_evolves g (f g)"
  shows "sound j (upd_group i f j)"
proof (rule soundI)
  assume ok: "journal_ok j"
  let ?gs = "update_where (\<lambda>g. g_id g = i) f (groups j)"
  have rows: "group_ok (f g)" "group_evolves g (f g)" if "g \<in> set (groups j)" "g_id g = i" for g
    using assms [OF that] ok that by (auto simp: journal_ok_def list_all_iff)
  have "map g_id ?gs = map g_id (groups j)" "map g_key ?gs = map g_key (groups j)"
    using rows(2) by (auto simp: update_where_def group_evolves_def)
  moreover have "list_all group_ok ?gs"
    using ok rows(1) by (auto simp: journal_ok_def list_all_iff set_update_where)
  moreover have "rows_evolve group_evolves (groups j) ?gs"
    by (rule ge.evolve_update) (use rows in auto)
  ultimately show "journal_ok (upd_group i f j) \<and> journal_evolves j (upd_group i f j)"
    using ok by (simp add: upd_group_def journal_ok_def keys_ok_def swap_requotes_def
        journal_evolves_def oe.evolve_refl pe.evolve_refl se.evolve_refl)
qed

lemma sound_upd_position:
  assumes "\<And>p. p \<in> set (positions j) \<Longrightarrow> p_id p = i \<Longrightarrow> position_ok p \<Longrightarrow> journal_ok j
    \<Longrightarrow> position_ok (f p) \<and> position_evolves p (f p)"
  shows "sound j (upd_position i f j)"
proof (rule soundI)
  assume ok: "journal_ok j"
  let ?ps = "update_where (\<lambda>p. p_id p = i) f (positions j)"
  have rows: "position_ok (f p)" "position_evolves p (f p)"
    if "p \<in> set (positions j)" "p_id p = i" for p
    using assms [OF that] ok that by (auto simp: journal_ok_def list_all_iff)
  have "map p_id ?ps = map p_id (positions j)" "map p_key ?ps = map p_key (positions j)"
    using rows(2) by (auto simp: update_where_def position_evolves_def)
  moreover have "list_all position_ok ?ps"
    using ok rows(1) by (auto simp: journal_ok_def list_all_iff set_update_where)
  moreover have "rows_evolve position_evolves (positions j) ?ps"
    by (rule pe.evolve_update) (use rows in auto)
  ultimately show "journal_ok (upd_position i f j) \<and> journal_evolves j (upd_position i f j)"
    using ok by (simp add: upd_position_def journal_ok_def keys_ok_def swap_requotes_def
        journal_evolves_def oe.evolve_refl ge.evolve_refl se.evolve_refl)
qed

lemma sound_upd_step:
  assumes "\<And>s. s \<in> set (steps j) \<Longrightarrow> s_id s = i \<Longrightarrow> step_ok s \<Longrightarrow> journal_ok j
    \<Longrightarrow> step_ok (f s) \<and> step_evolves s (f s)"
  shows "sound j (upd_step i f j)"
proof (rule soundI)
  assume ok: "journal_ok j"
  let ?ss = "update_where (\<lambda>s. s_id s = i) f (steps j)"
  have rows: "step_ok (f s)" "step_evolves s (f s)" if "s \<in> set (steps j)" "s_id s = i" for s
    using assms [OF that] ok that by (auto simp: journal_ok_def list_all_iff)
  have "map s_id ?ss = map s_id (steps j)" "map step_identity ?ss = map step_identity (steps j)"
    using rows(2) by (auto simp: update_where_def step_evolves_def step_identity_def)
  moreover have "list_all step_ok ?ss"
    using ok rows(1) by (auto simp: journal_ok_def list_all_iff set_update_where)
  moreover have "rows_evolve step_evolves (steps j) ?ss"
    by (rule se.evolve_update) (use rows in auto)
  ultimately show "journal_ok (upd_step i f j) \<and> journal_evolves j (upd_step i f j)"
    using ok by (simp add: upd_step_def journal_ok_def keys_ok_def swap_requotes_def
        journal_evolves_def oe.evolve_refl ge.evolve_refl pe.evolve_refl)
qed

lemma sound_put_checkpoint [sound_intros]: "sound j (put_checkpoint pid key v j)"
  by (simp add: sound_def put_checkpoint_def journal_ok_def keys_ok_def swap_requotes_def
      distinct_update dom_update subset_insertI journal_evolves_def oe.evolve_refl ge.evolve_refl pe.evolve_refl se.evolve_refl)

lemma sound_set_group_state [sound_intros]:
  assumes "s \<in> set group_states"
  shows "sound j (set_group_state i s j)"
  unfolding set_group_state_def using assms
  by (intro sound_upd_group) (auto simp: group_ok_def group_evolves_def)

lemma sound_set_position_state [sound_intros]:
  assumes "s \<in> set (map fst position_transitions)"
  shows "sound j (set_position_state i s j)"
  unfolding set_position_state_def using assms
  by (intro sound_upd_position) (auto simp: position_ok_def position_evolves_def)

section \<open>Row insertions\<close>

lemma distinct_new_row:
  "distinct (map rid rows) \<Longrightarrow> distinct (map rid rows @ [next_rowid rid rows])"
  using next_rowid_new [of rid rows] by auto

lemma sound_insert_group:
  assumes "g_id g = next_rowid g_id (groups j)" "group_ok g"
    "select_one (\<lambda>h. g_key h = g_key g) (groups j) = None"
  shows "sound j (j\<lparr>groups := groups j @ [g]\<rparr>)"
proof (rule soundI)
  assume ok: "journal_ok j"
  have "distinct (map g_id (groups j @ [g]))"
    using ok distinct_new_row [of g_id "groups j"] assms(1) by (simp add: journal_ok_def keys_ok_def)
  moreover have "distinct (map g_key (groups j @ [g]))"
    using ok assms(3) by (auto simp: journal_ok_def keys_ok_def select_one_None_iff)
  ultimately show "journal_ok (j\<lparr>groups := groups j @ [g]\<rparr>)
      \<and> journal_evolves j (j\<lparr>groups := groups j @ [g]\<rparr>)"
    using ok assms(2) by (simp add: journal_ok_def keys_ok_def swap_requotes_def
        journal_evolves_def oe.evolve_refl ge.evolve_append pe.evolve_refl se.evolve_refl)
qed

lemma sound_insert_position:
  assumes "p_id p = next_rowid p_id (positions j)" "position_ok p"
    "select_one (\<lambda>h. p_key h = p_key p) (positions j) = None"
  shows "sound j (j\<lparr>positions := positions j @ [p]\<rparr>)"
proof (rule soundI)
  assume ok: "journal_ok j"
  have "distinct (map p_id (positions j @ [p]))"
    using ok distinct_new_row [of p_id "positions j"] assms(1) by (simp add: journal_ok_def keys_ok_def)
  moreover have "distinct (map p_key (positions j @ [p]))"
    using ok assms(3) by (auto simp: journal_ok_def keys_ok_def select_one_None_iff)
  ultimately show "journal_ok (j\<lparr>positions := positions j @ [p]\<rparr>)
      \<and> journal_evolves j (j\<lparr>positions := positions j @ [p]\<rparr>)"
    using ok assms(2) by (simp add: journal_ok_def keys_ok_def swap_requotes_def
        journal_evolves_def oe.evolve_refl ge.evolve_refl pe.evolve_append se.evolve_refl)
qed

lemma sound_insert_step [sound_intros]:
  assumes "0 \<le> nonce"
  shows "sound j (insert_step pid key nonce calldata payload j)"
proof (cases "list_ex (\<lambda>s. s_position s = pid \<and> s_key s = key \<and> s_nonce s = nonce) (steps j)")
  case True
  then show ?thesis by (simp add: insert_step_def)
next
  case False
  show ?thesis
  proof (rule soundI)
    assume ok: "journal_ok j"
    define s where "s = \<lparr>s_id = next_rowid s_id (steps j), s_position = pid, s_key = key,
          s_nonce = nonce, s_state = ''planned'', s_calldata = calldata, s_payload = payload,
          s_tx_hash = None, s_attempts = 0, s_receipt = None, s_finality = None,
          s_baseline = None, s_delta = None, s_baseline_text = None, s_delta_text = None,
          s_timeout_report = None\<rparr>"
    have ins: "insert_step pid key nonce calldata payload j = j\<lparr>steps := steps j @ [s]\<rparr>"
      using False by (simp add: insert_step_def s_def)
    have "distinct (map s_id (steps j @ [s]))"
      using ok distinct_new_row [of s_id "steps j"]
      by (simp add: journal_ok_def keys_ok_def s_def)
    moreover have "distinct (map step_identity (steps j @ [s]))"
      using ok False by (auto simp: journal_ok_def keys_ok_def step_identity_def s_def list_ex_iff)
    moreover have "step_ok s"
      using assms by (simp add: step_ok_def s_def step_transitions_def)
    ultimately show "journal_ok (insert_step pid key nonce calldata payload j)
        \<and> journal_evolves j (insert_step pid key nonce calldata payload j)"
      using ok unfolding ins
      by (simp add: journal_ok_def keys_ok_def swap_requotes_def
          journal_evolves_def oe.evolve_refl ge.evolve_refl pe.evolve_refl se.evolve_append)
  qed
qed

lemma sound_new_event:
  assumes "new_event pid kind a b c d amount asset reason j = (i, k)"
    and "kind = ''requote_after_swap'' \<Longrightarrow>
      \<not> list_ex (\<lambda>e. e_position e = pid \<and> e_type e = ''requote_after_swap'') (events j)"
  shows "sound j k"
proof (rule soundI)
  assume ok: "journal_ok j"
  obtain e where k: "k = j\<lparr>events := events j @ [e]\<rparr>" and e: "e_id e = next_rowid e_id (events j)"
    "e_position e = pid" "e_type e = kind"
    using assms(1) by (auto simp: new_event_def Let_def)
  have "distinct (map e_id (events j @ [e]))"
    using ok distinct_new_row [of e_id "events j"] e(1) by (simp add: journal_ok_def keys_ok_def)
  moreover have "distinct (swap_requotes k)"
    using ok assms(2) e(2,3)
    by (auto simp: journal_ok_def keys_ok_def swap_requotes_def k list_ex_iff)
  ultimately show "journal_ok k \<and> journal_evolves j k"
    using ok by (simp add: k journal_ok_def keys_ok_def
        journal_evolves_def oe.evolve_refl ge.evolve_refl pe.evolve_refl se.evolve_refl)
qed

section \<open>Operations of the operations table\<close>

lemma sound_create_operation [sound_intros]: "sound j (snd (create_operation wallet action j))"
proof (rule soundI)
  assume ok: "journal_ok j"
  have "distinct (map o_id (operations j) @ [next_rowid o_id (operations j)])"
    using ok by (intro distinct_new_row) (simp add: journal_ok_def keys_ok_def)
  with ok show "journal_ok (snd (create_operation wallet action j))
      \<and> journal_evolves j (snd (create_operation wallet action j))"
    by (simp add: create_operation_def Let_def journal_ok_def keys_ok_def swap_requotes_def
        journal_evolves_def oe.evolve_append ge.evolve_refl pe.evolve_refl se.evolve_refl)
qed

lemma sound_update_operation [sound_intros]: "sound j (update_operation i s t d r a u j)"
  unfolding update_operation_def
  by (rule sound_upd_operation) (auto simp: op_evolves_def coalesce_def split: option.splits)

lemmas operation_updates =
  record_transaction_def record_deposit_status_def record_deferred_def record_approval_hash_def
  record_approval_completed_route_deferred_def

section \<open>Group operations\<close>

lemma sound_get_or_create_group [sound_intros]:
  assumes "get_or_create_group key wallet chain budget source j = Inr (g, k)"
  shows "sound j k"
proof (cases "select_one (\<lambda>g. g_key g = key) (groups j)")
  case None
  from assms None obtain b s where "\<not> text_value b \<le> 0" "\<not> 100 < text_value b"
      "\<not> text_value s \<le> 0"
    and k: "k = j\<lparr>groups := groups j @ [g]\<rparr>"
    and g: "g = \<lparr>g_id = next_rowid g_id (groups j), g_key = key, g_wallet = lower wallet,
      g_chain = chain, g_budget_pct = b, g_source_usd = s, g_projected_usd = None,
      g_projected_pct = None, g_realized_usd = ''0'', g_state = ''planned'', g_reason = None\<rparr>"
    by (auto simp: get_or_create_group_def Let_def split: if_splits)
  then show ?thesis unfolding k using None
    by (intro sound_insert_group) (simp_all add: group_ok_def group_states_def not_le not_less)
next
  case (Some h)
  with assms have "k = j"
    by (auto simp: get_or_create_group_def Let_def split: if_splits)
  then show ?thesis by simp
qed

lemma sound_record_group_projection [sound_intros]:
  "record_group_projection gid loss pct j = Inr k \<Longrightarrow> sound j k"
  by (auto simp: record_group_projection_def group_ok_def group_evolves_def
      split: if_splits intro!: sound_upd_group)

text \<open>With distinct ids, the row an operation has read is the row it writes.\<close>

lemma group_unique:
  assumes "journal_ok j" "group j i = Inr g" "h \<in> set (groups j)" "g_id h = i"
  shows "h = g"
  using assms select_one_distinct [of g_id "groups j" h]
  by (auto simp: group_def journal_ok_def keys_ok_def split: option.splits)

lemma position_unique:
  assumes "journal_ok j" "position j i = Inr p" "q \<in> set (positions j)" "p_id q = i"
  shows "q = p"
  using assms select_one_distinct [of p_id "positions j" q]
  by (auto simp: position_def journal_ok_def keys_ok_def split: option.splits)

lemma step_unique:
  assumes "journal_ok j" "step j i = Inr s" "t \<in> set (steps j)" "s_id t = i"
  shows "t = s"
  using assms select_one_distinct [of s_id "steps j" t]
  by (auto simp: step_def journal_ok_def keys_ok_def split: option.splits)

lemma groupD: "group j i = Inr g \<Longrightarrow> g \<in> set (groups j) \<and> g_id g = i"
  by (auto simp: group_def split: option.splits dest: select_one_SomeD)

lemma positionD: "position j i = Inr p \<Longrightarrow> p \<in> set (positions j) \<and> p_id p = i"
  by (auto simp: position_def split: option.splits dest: select_one_SomeD)

lemma stepD: "step j i = Inr s \<Longrightarrow> s \<in> set (steps j) \<and> s_id s = i"
  by (auto simp: step_def split: option.splits dest: select_one_SomeD)

lemma number_of_value: "number_of t = Inr d \<Longrightarrow> text_value t = dec_value d"
  by (simp add: text_value_def)

lemma sound_record_group_realized_loss [sound_intros]:
  assumes "record_group_realized_loss gid v j = Inr k"
  shows "sound j k"
proof -
  from assms obtain t g new old where t: "decimal_text v ''realised group loss'' = Inr t"
    and g: "group j gid = Inr g" and "number_of t = Inr new" "number_of (g_realized_usd g) = Inr old"
      "\<not> dec_less new old"
    and k: "k = upd_group gid (\<lambda>r. r\<lparr>g_realized_usd := t\<rparr>) j"
    by (auto simp: record_group_realized_loss_def split: if_splits)
  then have "text_value (g_realized_usd g) \<le> text_value t"
    by (simp add: number_of_value dec_compare_values)
  then show ?thesis unfolding k
    using decimal_text_money [OF t] group_unique [OF _ g]
    by (intro sound_upd_group) (auto simp: group_ok_def group_evolves_def)
qed

lemma sound_record_group_state [sound_intros]:
  "record_group_state gid state reason j = Inr k \<Longrightarrow> sound j k"
  by (auto simp: record_group_state_def group_ok_def group_evolves_def
      split: if_splits intro!: sound_upd_group)

section \<open>Position operations\<close>

lemma sound_get_or_create_position [sound_intros]:
  assumes "get_or_create_position key wallet gid asset amount j = Inr (p, k)"
  shows "sound j k"
proof (cases "select_one (\<lambda>p. p_key p = key) (positions j)")
  case None
  with assms have k: "k = j\<lparr>positions := positions j @ [p]\<rparr>"
    and p: "p_id p = next_rowid p_id (positions j)" "p_key p = key" "p_state p = ''planned''"
      "p_loss_usd p = None"
    by (auto simp: get_or_create_position_def Let_def split: if_splits)
  show ?thesis unfolding k using None p
    by (intro sound_insert_position) (simp_all add: position_ok_def position_transitions_def)
next
  case (Some h)
  with assms have "k = j"
    by (auto simp: get_or_create_position_def Let_def split: if_splits)
  then show ?thesis by simp
qed

lemma sound_record_position_state [sound_intros]:
  "record_position_state pid state asset balance reason j = Inr k \<Longrightarrow> sound j k"
  by (auto simp: record_position_state_def position_ok_def position_evolves_def image_iff Bex_def
      split: if_splits intro!: sound_upd_position)

section \<open>Requotes\<close>

lemma sound_record_requote_after_swap [sound_intros]:
  assumes "record_requote_after_swap pid a b c d input asset reason j = Inr (i, k)"
  shows "sound j k"
proof -
  from assms obtain amount j' where
    ev: "new_event pid ''requote_after_swap'' a b c d amount asset reason j = (i, j')"
    and no: "\<not> list_ex (\<lambda>e. e_position e = pid \<and> e_type e = ''requote_after_swap'') (events j)"
    and k: "k = upd_position pid
            (\<lambda>r. r\<lparr>p_state := ''requote_required'', p_actual_asset := Some asset,
               p_actual_balance := Some amount, p_reason := coalesce reason (p_reason r)\<rparr>) j'"
    by (auto simp: record_requote_after_swap_def split: if_splits prod.splits)
  have "sound j j'" by (rule sound_new_event [OF ev no])
  also have "sound j' k" unfolding k
    by (intro sound_upd_position)
      (auto simp: position_ok_def position_evolves_def position_transitions_def)
  finally show ?thesis .
qed

lemma sound_record_requote_after_bridge [sound_intros]:
  "record_requote_after_bridge pid a b c d input asset j = Inr (i, k) \<Longrightarrow> sound j k"
  by (auto simp: record_requote_after_bridge_def split: if_splits elim!: sound_new_event)

section \<open>Reading a row after a write\<close>

lemma position_upd_position [table_simps]:
  assumes "\<And>p. p_id (f p) = p_id p"
  shows "position (upd_position i f j) n
    = (case position j n of Inl e \<Rightarrow> Inl e | Inr p \<Rightarrow> Inr (if n = i then f p else p))"
proof -
  have "select_one (\<lambda>p. p_id p = n) (update_where (\<lambda>p. p_id p = i) f (positions j))
      = map_option (\<lambda>p. if p_id p = i then f p else p) (select_one (\<lambda>p. p_id p = n) (positions j))"
    by (rule select_one_update_where) (simp add: assms)
  then show ?thesis
    by (auto simp: position_def upd_position_def split: option.splits dest: select_one_SomeD)
qed

lemma group_upd_group [table_simps]:
  assumes "\<And>g. g_id (f g) = g_id g"
  shows "group (upd_group i f j) n
    = (case group j n of Inl e \<Rightarrow> Inl e | Inr g \<Rightarrow> Inr (if n = i then f g else g))"
proof -
  have "select_one (\<lambda>g. g_id g = n) (update_where (\<lambda>g. g_id g = i) f (groups j))
      = map_option (\<lambda>g. if g_id g = i then f g else g) (select_one (\<lambda>g. g_id g = n) (groups j))"
    by (rule select_one_update_where) (simp add: assms)
  then show ?thesis
    by (auto simp: group_def upd_group_def split: option.splits dest: select_one_SomeD)
qed

lemma lookup_other [simp, table_simps]:
  "position (upd_group i f j) n = position j n" "group (upd_position i f' j) n = group j n"
  "checkpoint (upd_group i f j) n key = checkpoint j n key"
  "checkpoint (upd_position i f' j) n key = checkpoint j n key"
  "position (put_checkpoint m key v j) n = position j n"
  "group (put_checkpoint m key v j) n = group j n"
  by (simp_all add: position_def group_def checkpoint_def upd_group_def upd_position_def
      put_checkpoint_def)

section \<open>Step operations\<close>

lemma step_upd_step [table_simps]:
  assumes "\<And>s. s_id (f s) = s_id s"
  shows "step (upd_step i f j) n
    = (case step j n of Inl e \<Rightarrow> Inl e | Inr s \<Rightarrow> Inr (if n = i then f s else s))"
proof -
  have "select_one (\<lambda>s. s_id s = n) (update_where (\<lambda>s. s_id s = i) f (steps j))
      = map_option (\<lambda>s. if s_id s = i then f s else s) (select_one (\<lambda>s. s_id s = n) (steps j))"
    by (rule select_one_update_where) (simp add: assms)
  then show ?thesis
    by (auto simp: step_def upd_step_def split: option.splits dest: select_one_SomeD)
qed

lemma transition_stepE:
  assumes "transition_step sid state j = Inr k"
  obtains s where "step j sid = Inr s" "state \<in> set (map fst step_transitions)"
    "may_move step_transitions (s_state s) state"
    "k = upd_step sid (\<lambda>r. r\<lparr>s_state := state\<rparr>) j"
  using assms by (auto simp: transition_step_def split: if_splits)

lemma never_back_to_planned: "may_move step_transitions s ''planned'' \<Longrightarrow> s = ''planned''"
  by (auto simp: may_move_def successors_def step_transitions_def split: if_splits)

lemma sound_transition_step [sound_intros]:
  assumes "transition_step sid state j = Inr k"
  shows "sound j k"
proof (rule transition_stepE [OF assms])
  fix s assume s: "step j sid = Inr s" "state \<in> set (map fst step_transitions)"
    "may_move step_transitions (s_state s) state"
    and k: "k = upd_step sid (\<lambda>r. r\<lparr>s_state := state\<rparr>) j"
  show "sound j k" unfolding k
  proof (rule sound_upd_step)
    fix t assume "t \<in> set (steps j)" "s_id t = sid" "step_ok t" "journal_ok j"
    with step_unique [OF _ s(1)] have t: "t = s" "step_ok s" by auto
    show "step_ok (t\<lparr>s_state := state\<rparr>) \<and> step_evolves t (t\<lparr>s_state := state\<rparr>)"
      using s(2,3) t never_back_to_planned by (auto simp: step_ok_def step_evolves_def)
  qed
qed

lemma sound_transition_then:
  assumes tr: "transition_step sid state j = Inr j1" and state: "state \<noteq> ''planned''"
    and f: "\<And>s. s_state s = state \<Longrightarrow> step_ok s \<Longrightarrow> step_ok (f s) \<and> step_evolves s (f s)"
  shows "sound j (upd_step sid f j1)"
proof -
  have "sound j j1" by (rule sound_transition_step [OF tr])
  also have "sound j1 (upd_step sid f j1)"
  proof (rule sound_upd_step)
    fix s assume s: "s \<in> set (steps j1)" "s_id s = sid" "step_ok s"
    from tr have "j1 = upd_step sid (\<lambda>r. r\<lparr>s_state := state\<rparr>) j"
      by (elim transition_stepE)
    with s(1) have "s \<in> (\<lambda>r. if s_id r = sid then r\<lparr>s_state := state\<rparr> else r) ` set (steps j)"
      by (simp add: upd_step_def set_update_where)
    then obtain x where x: "s = (if s_id x = sid then x\<lparr>s_state := state\<rparr> else x)"
      by blast
    have "s_state s = state"
      using s(2) unfolding x by (simp split: if_splits)
    with f s(3) show "step_ok (f s) \<and> step_evolves s (f s)" by blast
  qed
  finally show ?thesis .
qed

lemma sound_record_broadcast_attempt [sound_intros]:
  "record_broadcast_attempt sid h j = Inr k \<Longrightarrow> sound j k"
  by (auto simp: record_broadcast_attempt_def step_ok_def step_evolves_def coalesce_def
      write_once_def split: option.splits intro!: sound_transition_then [where state = "''submitted''"])

lemma sound_record_receipt [sound_intros]:
  assumes "record_receipt sid status finality j = Inr k"
  shows "sound j k"
proof -
  from assms obtain j1 where tr: "transition_step sid status j = Inr j1"
    and k: "k = upd_step sid (\<lambda>r. r\<lparr>s_receipt := Some status, s_finality := finality\<rparr>) j1"
    by (auto simp: record_receipt_def)
  have "sound j j1" by (rule sound_transition_step [OF tr])
  also have "sound j1 k" unfolding k
    by (intro sound_upd_step) (auto simp: step_ok_def step_evolves_def)
  finally show ?thesis .
qed

lemma sound_record_balance_baseline [sound_intros]:
  "record_balance_baseline sid b d j = Inr k \<Longrightarrow> sound j k"
  by (auto simp: record_balance_baseline_def step_ok_def step_evolves_def
      intro!: sound_upd_step)

lemma sound_record_timeout_report [sound_intros]:
  assumes "record_timeout_report sid report j = Inr k"
  shows "sound j k"
proof -
  from assms obtain j1 where tr: "transition_step sid ''bridge_timeout'' j = Inr j1"
    and k: "k = upd_step sid (\<lambda>r. r\<lparr>s_timeout_report := Some report\<rparr>) j1"
    by (auto simp: record_timeout_report_def)
  have "sound j j1" by (rule sound_transition_step [OF tr])
  also have "sound j1 k" unfolding k
    by (intro sound_upd_step) (auto simp: step_ok_def step_evolves_def)
  finally show ?thesis .
qed

lemma sound_record_step_state [sound_intros]:
  "record_step_state sid state j = Inr k \<Longrightarrow> sound j k"
  by (simp add: record_step_state_def sound_transition_step)

lemma sound_record_step_intent [sound_intros]:
  assumes "record_step_intent pid key nonce calldata payload tx j = Inr (s, k)"
  shows "sound j k"
proof -
  let ?j1 = "insert_step pid key nonce calldata payload j"
  from assms have nonce: "0 \<le> nonce" by (auto simp: record_step_intent_def split: if_splits)
  obtain row where row: "find_step ?j1 pid key nonce = Some row"
    using assms by (auto simp: record_step_intent_def Let_def split: if_splits option.splits)
  have one: "sound j ?j1" by (rule sound_insert_step [OF nonce])
  from assms row consider "k = ?j1"
    | h j2 where "transition_step (s_id row) ''submitted'' ?j1 = Inr j2" "s_tx_hash row = None"
        "k = upd_step (s_id row) (\<lambda>r. r\<lparr>s_tx_hash := Some h\<rparr>) j2"
    by (auto simp: record_step_intent_def Let_def split: if_splits option.splits)
  then show ?thesis
  proof cases
    case 1
    with one show ?thesis by simp
  next
    case (2 h j2)
    have "sound ?j1 k"
    proof (rule soundI)
      assume ok: "journal_ok ?j1"
      have mem: "row \<in> set (steps ?j1)" using row by (auto simp: find_step_def dest: select_one_SomeD)
      obtain r where r: "step ?j1 (s_id row) = Inr r"
        and j2: "j2 = upd_step (s_id row) (\<lambda>r. r\<lparr>s_state := ''submitted''\<rparr>) ?j1"
        by (rule transition_stepE [OF 2(1)])
      have only: "t = row" if "t \<in> set (steps ?j1)" "s_id t = s_id row" for t
        using step_unique [OF ok r] that mem by metis
      have "sound j2 k" unfolding 2(3)
      proof (rule sound_upd_step)
        fix t assume t: "t \<in> set (steps j2)" "s_id t = s_id row" "step_ok t"
        from t(1,2) obtain x where x: "x \<in> set (steps ?j1)" "s_id x = s_id row"
          and tx: "t = x\<lparr>s_state := ''submitted''\<rparr>"
          by (auto simp: j2 upd_step_def set_update_where split: if_splits)
        have "s_state t = ''submitted''" "s_tx_hash t = None"
          using only [OF x] 2(2) tx by simp_all
        with t(3) show "step_ok (t\<lparr>s_tx_hash := Some h\<rparr>) \<and> step_evolves t (t\<lparr>s_tx_hash := Some h\<rparr>)"
          by (simp add: step_ok_def step_evolves_def)
      qed
      with sound_transition_step [OF 2(1)] ok show "journal_ok k \<and> journal_evolves ?j1 k"
        using sound_trans sound_def by blast
    qed
    with one show ?thesis by (rule sound_trans)
  qed
qed

section \<open>Reactivation and checkpoints\<close>

lemma sound_save_checkpoint [sound_intros]: "save_checkpoint pid key v j = Inr k \<Longrightarrow> sound j k"
  by (auto simp: save_checkpoint_def sound_put_checkpoint)

lemma sound_two_states:
  assumes "s \<in> set group_states" "t \<in> set (map fst position_transitions)"
  shows "sound j (set_group_state i s (set_position_state p t j))"
  using assms sound_trans sound_set_group_state sound_set_position_state by blast

lemma sound_reactivate_known_direct_deposit [sound_intros]:
  "reactivate_known_direct_deposit gid key j = (b, k) \<Longrightarrow> sound j k"
  by (auto simp: reactivate_known_direct_deposit_def group_states_def position_transitions_def
      split: list.splits if_splits option.splits intro!: sound_two_states)

lemma sound_reactivate_legacy_gas_deferral [sound_intros]:
  "reactivate_legacy_gas_deferral gid key j = (b, k) \<Longrightarrow> sound j k"
  by (auto simp: reactivate_legacy_gas_deferral_def group_states_def position_transitions_def
      split: list.splits if_splits intro!: sound_two_states)

lemma sound_fold: "(\<And>x k. sound k (f x k)) \<Longrightarrow> sound j (fold f xs j)"
proof (induction xs arbitrary: j)
  case (Cons x xs)
  have "sound j (f x j)" by (rule Cons.prems)
  also have "sound (f x j) (fold f xs (f x j))" using Cons by blast
  finally show ?case by simp
qed simp

lemma sound_replan_position [sound_intros]: "sound j (replan_position g p j)"
proof -
  let ?j1 = "put_checkpoint (p_id p) ''automatic_retry''
          (PDict [(''reason'', optional_str (g_reason g)), (''recovered_from'', PStr (g_state g))]) j"
  have "sound j ?j1" by (rule sound_put_checkpoint)
  also have "sound ?j1 (replan_position g p j)"
    unfolding replan_position_def
    by (intro sound_upd_position)
      (auto simp: position_ok_def position_evolves_def position_transitions_def)
  finally show ?thesis .
qed

lemma sound_reactivate_unsigned_retry_group [sound_intros]:
  assumes "reactivate_unsigned_retry_group gid keys j = Inr (b, k)"
  shows "sound j k"
proof -
  from assms consider "k = j" | g rows where
    "k = upd_group gid (\<lambda>r. r\<lparr>g_state := ''active'', g_reason := None\<rparr>)
           (fold (replan_position g) rows j)"
    by (auto simp: reactivate_unsigned_retry_group_def Let_def split: if_splits)
  then show ?thesis
  proof cases
    case (2 g rows)
    have "sound j (fold (replan_position g) rows j)"
      by (rule sound_fold) (rule sound_replan_position)
    also have "sound (fold (replan_position g) rows j) k"
      unfolding 2 by (intro sound_upd_group) (auto simp: group_ok_def group_evolves_def group_states_def)
    finally show ?thesis .
  qed simp
qed

section \<open>Intents and the latest step of a key\<close>

lemma identity_unique:
  assumes "journal_ok j" "s \<in> set (steps j)" "t \<in> set (steps j)" "step_identity s = step_identity t"
  shows "s = t"
  using assms by (auto simp: journal_ok_def keys_ok_def distinct_map inj_on_def)

lemma recorded_step:
  assumes run: "record_step_intent pid key nonce calldata payload tx j = Inr (s, k)"
    and ok: "journal_ok j"
  shows "s \<in> set (steps k) \<and> s_position s = pid \<and> s_key s = key \<and> s_nonce s = nonce
    \<and> s_calldata s = calldata \<and> s_payload s = payload \<and> step k (s_id s) = Inr s
    \<and> (\<forall>h. tx = Some h \<longrightarrow> s_tx_hash s = Some h)"
proof -
  let ?j1 = "insert_step pid key nonce calldata payload j"
  from run have nonce: "0 \<le> nonce" by (auto simp: record_step_intent_def split: if_splits)
  have ok1: "journal_ok ?j1" using sound_insert_step [OF nonce] ok by (auto simp: sound_def)
  obtain row where row: "find_step ?j1 pid key nonce = Some row"
    using run by (auto simp: record_step_intent_def Let_def split: if_splits option.splits)
  then have mem: "row \<in> set (steps ?j1)" "s_position row = pid" "s_key row = key" "s_nonce row = nonce"
    by (auto simp: find_step_def dest: select_one_SomeD)
  have digests: "s_calldata row = calldata" "s_payload row = payload"
    using run row by (auto simp: record_step_intent_def Let_def split: if_splits)
  have here: "step ?j1 (s_id row) = Inr row"
    using select_one_distinct [of s_id "steps ?j1" row] ok1 mem(1)
    by (simp add: step_def journal_ok_def keys_ok_def)
  from run row digests consider "k = ?j1" "step k (s_id row) = Inr s" "\<forall>h. tx = Some h \<longrightarrow> s_tx_hash row = Some h"
    | h j2 where "tx = Some h" "transition_step (s_id row) ''submitted'' ?j1 = Inr j2"
        "k = upd_step (s_id row) (\<lambda>r. r\<lparr>s_tx_hash := Some h\<rparr>) j2" "step k (s_id row) = Inr s"
    by (auto simp: record_step_intent_def Let_def split: if_splits option.splits)
  then show ?thesis
  proof cases
    case 1
    with here mem digests show ?thesis by (auto dest: stepD)
  next
    case (2 h j2)
    then have j2: "j2 = upd_step (s_id row) (\<lambda>r. r\<lparr>s_state := ''submitted''\<rparr>) ?j1"
      by (auto elim: transition_stepE)
    have "step k (s_id row) = Inr (row\<lparr>s_state := ''submitted'', s_tx_hash := Some h\<rparr>)"
      using here by (simp add: 2(3) j2 step_upd_step)
    with 2(1,4) mem digests show ?thesis by (auto dest: stepD)
  qed
qed

lemma latest_identity:
  "map_option step_identity (latest_step j pid key)
     = select_last (\<lambda>(p, k, n). p = pid \<and> k = key) (map step_identity (steps j))"
  unfolding latest_step_def select_last_def rev_map
  by (subst find_map_cond [where Q = "\<lambda>s. s_position s = pid \<and> s_key s = key"])
    (simp_all add: step_identity_def)

lemma upd_step_identities:
  assumes "\<And>s. step_identity (f s) = step_identity s"
  shows "map step_identity (steps (upd_step i f j)) = map step_identity (steps j)"
  using assms by (simp add: upd_step_def map_update_where)

lemma intent_identities:
  assumes "record_step_intent pid key nonce calldata payload tx j = Inr (s, k)"
  shows "map step_identity (steps k)
    = map step_identity (steps (insert_step pid key nonce calldata payload j))"
proof -
  let ?j1 = "insert_step pid key nonce calldata payload j"
  from assms obtain row where "find_step ?j1 pid key nonce = Some row"
    by (auto simp: record_step_intent_def Let_def split: if_splits option.splits)
  with assms consider "k = ?j1"
    | h j2 where "transition_step (s_id row) ''submitted'' ?j1 = Inr j2"
        "k = upd_step (s_id row) (\<lambda>r. r\<lparr>s_tx_hash := Some h\<rparr>) j2"
    by (auto simp: record_step_intent_def Let_def split: if_splits option.splits)
  then show ?thesis
  proof cases
    case (2 h j2)
    then show ?thesis
      by (auto simp: upd_step_identities step_identity_def elim!: transition_stepE)
  qed simp
qed

text \<open>
  The intent of the only nonce a key has been used with becomes the key's latest step.
\<close>

lemma intent_latest:
  assumes ok: "journal_ok j"
    and run: "record_step_intent pid key nonce calldata payload (Some h) j = Inr (s, k)"
    and aligned: "\<forall>r. latest_step j pid key = Some r \<longrightarrow> s_nonce r = nonce"
  shows "\<exists>r. latest_step k pid key = Some r \<and> s_nonce r = nonce \<and> s_tx_hash r = Some h"
proof -
  have okk: "journal_ok k" using sound_record_step_intent [OF run] ok by (simp add: sound_def)
  note s = recorded_step [OF run ok]
  have "map_option step_identity (latest_step k pid key) = Some (pid, key, nonce)"
  proof (cases "list_ex (\<lambda>s. s_position s = pid \<and> s_key s = key \<and> s_nonce s = nonce) (steps j)")
    case True
    then have "latest_step j pid key \<noteq> None"
      by (auto simp: latest_step_def select_last_None_iff list_ex_iff)
    then obtain r where r: "latest_step j pid key = Some r" by blast
    then have "step_identity r = (pid, key, nonce)"
      using aligned by (auto simp: step_identity_def latest_step_def dest: select_last_SomeD)
    with r True show ?thesis
      using latest_identity [of j pid key]
      by (simp add: latest_identity intent_identities [OF run] insert_step_def)
  next
    case False
    then show ?thesis
      by (simp add: latest_identity intent_identities [OF run] insert_step_def
          select_last_snoc step_identity_def)
  qed
  then obtain r where r: "latest_step k pid key = Some r" "step_identity r = (pid, key, nonce)"
    by auto
  then have "r \<in> set (steps k)" by (auto simp: latest_step_def dest: select_last_SomeD)
  with identity_unique [OF okk] s r(2) have "r = s" by (auto simp: step_identity_def)
  with r s show ?thesis by blast
qed

lemma latest_upd_step:
  assumes "\<And>s. s_position (f s) = s_position s \<and> s_key (f s) = s_key s"
  shows "latest_step (upd_step i f j) pid key
    = map_option (\<lambda>s. if s_id s = i then f s else s) (latest_step j pid key)"
  unfolding latest_step_def upd_step_def
  by (simp add: select_last_update_where assms)

end
