(* ===== verification/Py_Values.thy ===== *)
theory Py_Values
  imports Checkpoints
begin

text \<open>
  The Python object protocol the code applies to decoded values: attribute and item
  access, \<open>int(x)\<close>, \<open>Decimal(x)\<close>, \<open>isinstance\<close> tests and what \<open>json.dumps\<close> accepts.
\<close>

definition attribute_error :: exn where
  "attribute_error = OtherError ''AttributeError''"

definition index_error :: exn where
  "index_error = OtherError ''IndexError''"

section \<open>Access\<close>

text \<open>A value used as a dict: \<open>x.get(...)\<close> on anything else raises.\<close>

definition as_dict :: "pyval \<Rightarrow> pydict result" where
  "as_dict v = (case v of PDict d \<Rightarrow> Inr d | _ \<Rightarrow> Inl attribute_error)"

definition is_dict :: "pyval \<Rightarrow> bool" where
  "is_dict v = (case v of PDict _ \<Rightarrow> True | _ \<Rightarrow> False)"

text \<open>\<open>d[k]\<close> on a value: only a dict has text keys.\<close>

definition item :: "pyval \<Rightarrow> string \<Rightarrow> pyval result" where
  "item v k = (case v of
      PDict d \<Rightarrow> (case map_of d k of None \<Rightarrow> Inl KeyError | Some x \<Rightarrow> Inr x)
    | _ \<Rightarrow> Inl TypeError)"

definition get_item :: "pyval \<Rightarrow> string \<Rightarrow> pyval \<Rightarrow> pyval result" where
  "get_item v k x = bind_result (as_dict v) (\<lambda>d. Inr (get_default d k x))"

definition get_attr :: "pyval \<Rightarrow> string \<Rightarrow> pyval result" where
  "get_attr v k = (case v of
      PData _ d \<Rightarrow> (case map_of d k of None \<Rightarrow> Inl attribute_error | Some x \<Rightarrow> Inr x)
    | PNamespace d \<Rightarrow> (case map_of d k of None \<Rightarrow> Inl attribute_error | Some x \<Rightarrow> Inr x)
    | _ \<Rightarrow> Inl attribute_error)"

text \<open>The elements a \<open>for\<close> loop visits; a text or dict there does not occur in the program.\<close>

definition elements :: "pyval \<Rightarrow> pyval list result" where
  "elements v = (case v of PList xs \<Rightarrow> Inr xs | PTuple xs \<Rightarrow> Inr xs | _ \<Rightarrow> Inl TypeError)"

definition nth_item :: "pyval \<Rightarrow> nat \<Rightarrow> pyval result" where
  "nth_item v n = bind_result (elements v) (\<lambda>xs.
     if n < length xs then Inr (xs ! n) else Inl index_error)"

definition lower_of :: "pyval \<Rightarrow> string result" where
  "lower_of v = (case v of PStr s \<Rightarrow> Inr (lower s) | _ \<Rightarrow> Inl attribute_error)"

text \<open>\<open>isinstance(x, int)\<close>: a bool is an int.\<close>

definition is_int :: "pyval \<Rightarrow> bool" where
  "is_int v = (case v of PInt _ \<Rightarrow> True | PBool _ \<Rightarrow> True | _ \<Rightarrow> False)"

definition is_str :: "pyval \<Rightarrow> bool" where
  "is_str v = (case v of PStr _ \<Rightarrow> True | _ \<Rightarrow> False)"

section \<open>Numbers\<close>

text \<open>
  \<open>int(text)\<close>: white space around, one sign, decimal digits with single underscores
  between them.
\<close>

fun underscored :: "(char \<Rightarrow> bool) \<Rightarrow> string \<Rightarrow> bool" where
  "underscored P [] = False"
| "underscored P [c] = P c"
| "underscored P (c # d # s) =
     (P c \<and> (if d = CHR ''_'' then underscored P s else underscored P (d # s)))"

definition parse_int :: "string \<Rightarrow> int option" where
  "parse_int text =
     (case take_sign (strip text) of (neg, t) \<Rightarrow>
        if underscored is_digit t
        then let n = int (digits_val (filter (\<lambda>c. c \<noteq> CHR ''_'') t))
             in Some (if neg then - n else n)
        else None)"

definition truncate_rat :: "rat \<Rightarrow> int" where
  "truncate_rat q = (if q < 0 then - \<lfloor>- q\<rfloor> else \<lfloor>q\<rfloor>)"

definition py_int :: "pyval \<Rightarrow> int result" where
  "py_int v = (case v of
      PInt i \<Rightarrow> Inr i
    | PBool b \<Rightarrow> Inr (if b then 1 else 0)
    | PFloat q \<Rightarrow> Inr (truncate_rat q)
    | PDecimal (Number d) \<Rightarrow> Inr (truncate_rat (dec_value d))
    | PDecimal NaN \<Rightarrow> Inl (ValueError ''cannot convert NaN to integer'')
    | PDecimal (Infinite _) \<Rightarrow> Inl (OtherError ''OverflowError'')
    | PStr s \<Rightarrow> (case parse_int s of
        None \<Rightarrow> Inl (ValueError ''invalid literal for int()'') | Some i \<Rightarrow> Inr i)
    | _ \<Rightarrow> Inl TypeError)"

text \<open>
  \<open>Decimal(float)\<close> is the exact value: the denominator of a float is a power of two, so
  some power of ten clears it. The search ends at the first one that does.
\<close>

fun clear_denominator :: "nat \<Rightarrow> nat \<Rightarrow> rat \<Rightarrow> fdec" where
  "clear_denominator 0 k q = Fin (q < 0) (nat \<lfloor>\<bar>q\<bar>\<rfloor>) (- int k)"
| "clear_denominator (Suc n) k q =
     (if \<bar>q\<bar> = of_int \<lfloor>\<bar>q\<bar>\<rfloor> then Fin (q < 0) (nat \<lfloor>\<bar>q\<bar>\<rfloor>) (- int k)
      else clear_denominator n (Suc k) (10 * q))"

text \<open>A double has at most 1074 fractional binary digits.\<close>

definition decimal_of_float :: "rat \<Rightarrow> fdec" where
  "decimal_of_float q = clear_denominator 1074 0 q"

text \<open>\<open>Decimal(x)\<close>.\<close>

definition py_decimal :: "pyval \<Rightarrow> decimal result" where
  "py_decimal v = (case v of
      PDecimal d \<Rightarrow> Inr d
    | PInt i \<Rightarrow> Inr (Number (dec_of_int i))
    | PBool b \<Rightarrow> Inr (Number (dec_of_int (if b then 1 else 0)))
    | PFloat q \<Rightarrow> Inr (Number (decimal_of_float q))
    | PStr s \<Rightarrow> (case parse_decimal s of None \<Rightarrow> Inl InvalidOperation | Some d \<Rightarrow> Inr d)
    | _ \<Rightarrow> Inl TypeError)"

section \<open>JSON\<close>

text \<open>What \<open>json.dumps\<close> writes without \<open>encode\<close>; a tuple becomes a list.\<close>

fun json_value :: "pyval \<Rightarrow> pyval result"
  and json_list :: "pyval list \<Rightarrow> pyval list result"
  and json_items :: "pydict \<Rightarrow> pydict result" where
  "json_value (PList xs) = bind_result (json_list xs) (\<lambda>ys. Inr (PList ys))"
| "json_value (PTuple xs) = bind_result (json_list xs) (\<lambda>ys. Inr (PList ys))"
| "json_value (PDict d) = bind_result (json_items d) (\<lambda>e. Inr (PDict e))"
| "json_value PNone = Inr PNone"
| "json_value (PBool b) = Inr (PBool b)"
| "json_value (PInt i) = Inr (PInt i)"
| "json_value (PFloat q) = Inr (PFloat q)"
| "json_value (PStr s) = Inr (PStr s)"
| "json_value v = Inl TypeError"
| "json_list [] = Inr []"
| "json_list (x # xs) =
     bind_result (json_value x) (\<lambda>y. bind_result (json_list xs) (\<lambda>ys. Inr (y # ys)))"
| "json_items [] = Inr []"
| "json_items ((k, x) # items) =
     bind_result (json_value x) (\<lambda>y. bind_result (json_items items) (\<lambda>ys. Inr ((k, y) # ys)))"

section \<open>Facts\<close>

lemma digits_underscored: "all_digits t \<Longrightarrow> underscored is_digit t"
proof (induction is_digit t rule: underscored.induct)
  case (3 c d s)
  then have "is_digit d" by (simp add: all_digits_def)
  then have "d \<noteq> CHR ''_''" by (rule digit_char_facts)
  with 3 show ?case by (simp add: all_digits_def)
qed (simp_all add: all_digits_def)

lemma parse_int_digits:
  assumes "all_digits t"
  shows "parse_int t = Some (int (digits_val t))"
proof -
  have d: "is_digit c" if "c \<in> set t" for c
    using assms that by (auto simp: all_digits_def list_all_iff)
  have "strip t = t" by (rule strip_no_space) (use d digit_char_facts in blast)
  moreover have "filter (\<lambda>c. c \<noteq> CHR ''_'') t = t"
    by (rule filter_True) (use d digit_char_facts in blast)
  moreover have "take_sign t = (False, t)"
    using assms digit_char_facts by (cases t) (auto simp: take_sign_def all_digits_def)
  ultimately show ?thesis using digits_underscored [OF assms] by (simp add: parse_int_def)
qed

lemma py_int_text [simp]: "py_int (PStr (nat_text n)) = Inr (int n)"
  by (simp add: py_int_def parse_int_digits)

end
