(* ===== verification/Source_Cost.thy ===== *)
theory Source_Cost
  imports Journal_Facts Py_Values
begin

text \<open>
  The loss accounting of source conversions: \<open>source_cost_provenance.py\<close>, which finds the
  costs an older version of the program has written, and the operations of \<open>journal.py\<close>
  that charge a conversion's cost to a position and its group exactly once:
  \<open>checkpoint_source_conversion\<close>, \<open>_adopt_legacy_source_cost\<close>,
  \<open>_account_cumulative_position_loss\<close>, \<open>account_position_loss\<close>. Sums run in a context of
  80 digits (\<open>money_prec\<close>). A \<open>Decimal\<close> given as a sign-digits-exponent tuple does not
  occur in a checkpoint and is not read as a number.
\<close>

section \<open>Legacy costs\<close>

definition ambiguous :: exn where
  "ambiguous = ValueError ''legacy_source_cost_accounting_ambiguous''"

definition money :: "pyval \<Rightarrow> fdec result" where
  "money v = (case v of
      PNone \<Rightarrow> Inl ambiguous
    | PBool _ \<Rightarrow> Inl ambiguous
    | PFloat _ \<Rightarrow> Inl ambiguous
    | _ \<Rightarrow> (case py_decimal v of
          Inr (Number d) \<Rightarrow> if dec_less d (dec_of_int 0) then Inl ambiguous else Inr d
        | _ \<Rightarrow> Inl ambiguous))"

text \<open>\<open>journal.checkpoint(a) or journal.checkpoint(b)\<close>.\<close>

definition checkpoint_or :: "journal \<Rightarrow> nat \<Rightarrow> string \<Rightarrow> string \<Rightarrow> pyval option result" where
  "checkpoint_or j pid a b =
     bind_result (checkpoint j pid a) (\<lambda>c. case c of
        None \<Rightarrow> checkpoint j pid b
      | Some v \<Rightarrow> if py_truthy v then Inr (Some v) else checkpoint j pid b)"

definition target_identified :: "pyval \<Rightarrow> bool" where
  "target_identified v = (case v of
      PDict t \<Rightarrow> py_truthy (get t ''asset_id'') \<and> is_int (get t ''chain_id'') | _ \<Rightarrow> False)"

definition terminal_remaining_cost :: "journal \<Rightarrow> position_row \<Rightarrow> fdec result" where
  "terminal_remaining_cost j p =
     bind_result (checkpoint_dict j (p_id p) ''route_deposit'') (\<lambda>context.
     if p_state p \<noteq> ''completed'' \<or> \<not> target_identified (get context ''target'')
     then Inl ambiguous
     else bind_result (completed_route_credit_verified j (p_id p)) (\<lambda>verified.
     if \<not> verified then Inl ambiguous
     else bind_result (checkpoint_or j (p_id p) ''bridge_prepared'' ''prepared'') (\<lambda>prepared.
     case prepared of
       None \<Rightarrow> Inl ambiguous
     | Some v \<Rightarrow> bind_result (as_dict v) (\<lambda>d.
         if \<not> py_eq (get d ''target'') (get context ''target'')
            \<or> \<not> py_eq (get d ''deposit_address'') (get context ''recipient'')
            \<or> lower (py_str (get_default d ''wallet'' (PStr []))) \<noteq> p_wallet p
         then Inl ambiguous
         else money (get context ''realized_loss_usd'')))))"

definition loss_of :: "pyval \<Rightarrow> fdec result" where
  "loss_of v = bind_result (as_dict v) (\<lambda>d. money (get d ''realized_loss_usd''))"

definition finished_cost :: "journal \<Rightarrow> position_row \<Rightarrow> fdec result" where
  "finished_cost j p =
     bind_result (terminal_remaining_cost j p) (\<lambda>amount.
     bind_result (checkpoint j (p_id p) ''swap_result'') (\<lambda>source. case source of
        None \<Rightarrow> Inr (dec_add money_prec amount (dec_of_int 0))
      | Some s \<Rightarrow> bind_result (loss_of s) (\<lambda>m. Inr (dec_add money_prec amount m))))"

definition sibling_cost :: "journal \<Rightarrow> position_row \<Rightarrow> fdec result" where
  "sibling_cost j p =
     (case p_loss_usd p of
        Some t \<Rightarrow>
          bind_result (money (PStr t)) (\<lambda>amount.
          bind_result (checkpoint j (p_id p) ''swap_result'') (\<lambda>source. case source of
             None \<Rightarrow> Inr amount
           | Some s \<Rightarrow>
               bind_result (checkpoint j (p_id p) ''source_cost_provenance'') (\<lambda>provenance.
               if provenance \<noteq> None then Inr amount
               else if p_state p \<noteq> ''completed'' then Inl ambiguous
               else bind_result (loss_of s) (\<lambda>m. Inr (dec_add money_prec amount m)))))
      | None \<Rightarrow>
          if p_state p = ''planned'' \<and> position_steps j (p_id p) = []
          then bind_result (checkpoint j (p_id p) ''swap_result'') (\<lambda>source.
               if source \<noteq> None then finished_cost j p
               else bind_result (checkpoint j (p_id p) ''route_deposit'') (\<lambda>deposit.
               if deposit \<noteq> None then finished_cost j p else Inr (dec_of_int 0)))
          else finished_cost j p)"

fun sum_costs :: "journal \<Rightarrow> position_row list \<Rightarrow> fdec \<Rightarrow> fdec result" where
  "sum_costs j [] acc = Inr acc"
| "sum_costs j (p # ps) acc =
     bind_result (sibling_cost j p) (\<lambda>c. sum_costs j ps (dec_add money_prec acc c))"

text \<open>The proof that \<open>legacy_baseline\<close> returns, as the fields of its dict.\<close>

record cost_proof =
  c_source :: string
  c_cumulative :: string
  c_before :: string
  c_after :: string
  c_legacy :: pyval

definition proof_payload :: "cost_proof \<Rightarrow> pydict" where
  "proof_payload c =
     [(''version'', PInt 2), (''origin'', PStr ''legacy_adoption''),
      (''source_loss_usd'', PStr (c_source c)),
      (''cumulative_loss_usd'', PStr (c_cumulative c)),
      (''group_loss_before_usd'', PStr (c_before c)),
      (''group_loss_after_usd'', PStr (c_after c)),
      (''legacy_remaining_loss_usd'', c_legacy c)]"

definition remaining_options ::
  "journal \<Rightarrow> position_row \<Rightarrow> pyval option \<Rightarrow> fdec list result" where
  "remaining_options j p deposit =
     (case p_loss_usd p of
        Some t \<Rightarrow> bind_result (money (PStr t)) (\<lambda>own. Inr [own])
      | None \<Rightarrow>
          (case deposit of
             Some v \<Rightarrow> bind_result (loss_of v) (\<lambda>m.
               Inr (if dec_eq m (dec_of_int 0) then [dec_of_int 0] else [dec_of_int 0, m]))
           | None \<Rightarrow>
               if list_ex (\<lambda>s. \<not> sql_like ''swap_to_native:%'' (s_key s)) (position_steps j (p_id p))
               then Inl ambiguous else Inr [dec_of_int 0]))"

definition event_charged :: "pyval \<Rightarrow> event_row \<Rightarrow> bool result" where
  "event_charged result e =
     (if e_type e \<noteq> ''requote_after_swap'' then Inr False
      else bind_result (item result ''actual_asset_id'') (\<lambda>a. Inr (py_eq a (PStr (e_asset e)))))"

fun any_event_charged :: "pyval \<Rightarrow> event_row list \<Rightarrow> bool result" where
  "any_event_charged result [] = Inr False"
| "any_event_charged result (e # es) =
     bind_result (event_charged result e) (\<lambda>b.
     bind_result (any_event_charged result es) (\<lambda>c. Inr (b \<or> c)))"

definition charged_proof :: "journal \<Rightarrow> position_row \<Rightarrow> pyval \<Rightarrow> bool result" where
  "charged_proof j p result =
     bind_result
       (if p_state p \<noteq> ''source_asset_converted_bridge_pending'' then Inr False
        else bind_result (item result ''actual_asset_id'') (\<lambda>a.
          if \<not> py_eq (optional_str (p_actual_asset p)) a then Inr False
          else bind_result (item result ''actual_balance_raw'') (\<lambda>b.
            Inr (py_eq (optional_str (p_actual_balance p)) b))))
       (\<lambda>c. bind_result (any_event_charged result (position_events j (p_id p))) (\<lambda>e. Inr (c \<or> e)))"

definition combinations ::
  "fdec \<Rightarrow> fdec list \<Rightarrow> fdec \<Rightarrow> fdec \<Rightarrow> bool \<Rightarrow> (bool \<times> fdec) list" where
  "combinations others options source paid proven =
     [(charged, remaining). charged \<leftarrow> [False, True], remaining \<leftarrow> options,
        dec_eq (dec_add money_prec (dec_add money_prec others remaining)
                  (if charged then source else dec_of_int 0)) paid
        \<and> (\<not> proven \<or> charged)]"

definition position_group :: "journal \<Rightarrow> position_row \<Rightarrow> group_row result" where
  "position_group j p = (case p_group p of None \<Rightarrow> Inl KeyError | Some i \<Rightarrow> group j i)"

definition only_combination ::
  "fdec \<Rightarrow> fdec \<Rightarrow> pyval \<Rightarrow> (bool \<times> fdec) list \<Rightarrow> cost_proof result" where
  "only_combination source paid legacy found =
     (case found of
       [(charged, remaining)] \<Rightarrow>
         Inr \<lparr>c_source = format_f source,
           c_cumulative = format_f (dec_add money_prec source remaining),
           c_before = format_f paid,
           c_after = format_f (dec_add money_prec paid (if charged then dec_of_int 0 else source)),
           c_legacy = legacy\<rparr>
     | _ \<Rightarrow> Inl ambiguous)"

definition legacy_baseline :: "journal \<Rightarrow> nat \<Rightarrow> pyval \<Rightarrow> cost_proof result" where
  "legacy_baseline j pid result =
     bind_result (position j pid) (\<lambda>p.
     bind_result (loss_of result) (\<lambda>source.
     bind_result (position_group j p) (\<lambda>g.
     bind_result (money (PStr (g_realized_usd g))) (\<lambda>paid.
     let rows = group_rows j (g_id g) in
     if list_ex (\<lambda>r. p_wallet r \<noteq> p_wallet p) rows then Inl ambiguous
     else bind_result (sum_costs j (filter (\<lambda>r. p_id r \<noteq> pid) rows) (dec_of_int 0)) (\<lambda>others.
     bind_result (checkpoint j pid ''route_deposit'') (\<lambda>deposit.
     bind_result (remaining_options j p deposit) (\<lambda>options.
     bind_result (charged_proof j p result) (\<lambda>proven.
     bind_result (checkpoint_dict j pid ''route_deposit'') (\<lambda>context.
     only_combination source paid (get context ''realized_loss_usd'')
       (combinations others options source paid proven))))))))))"

section \<open>Accounting\<close>

definition write_source_provenance :: "nat \<Rightarrow> pydict \<Rightarrow> journal \<Rightarrow> journal result" where
  "write_source_provenance pid payload j =
     bind_result (json_value (PDict payload))
       (\<lambda>v. Inr (put_checkpoint pid ''source_cost_provenance'' v j))"

text \<open>\<open>format(Decimal(x) + d, "f")\<close>, \<open>x\<close> not known to be finite.\<close>

definition sum_text :: "decimal \<Rightarrow> fdec \<Rightarrow> string" where
  "sum_text x d = (case x of
      Number a \<Rightarrow> format_f (dec_add money_prec a d)
    | Infinite s \<Rightarrow> if s then ''-Infinity'' else ''Infinity''
    | NaN \<Rightarrow> ''NaN'')"

definition adopt_deposit :: "nat \<Rightarrow> string \<Rightarrow> journal \<Rightarrow> journal result" where
  "adopt_deposit pid source j =
     bind_result (checkpoint j pid ''route_deposit'') (\<lambda>c. case c of
        None \<Rightarrow> Inr j
      | Some v \<Rightarrow>
          bind_result (item v ''realized_loss_usd'') (\<lambda>old.
          bind_result (py_decimal old) (\<lambda>x.
          bind_result (number_of source) (\<lambda>s.
          bind_result (as_dict v) (\<lambda>d.
          bind_result (encode (PDict (AList.update ''loss_accounting_version'' (PInt 2)
              (AList.update ''realized_loss_usd'' (PStr (sum_text x s)) d)))) (\<lambda>e.
          Inr (put_checkpoint pid ''route_deposit'' e j)))))))"

definition adopt_legacy_source_cost ::
  "nat \<Rightarrow> pyval \<Rightarrow> journal \<Rightarrow> (cost_proof \<times> journal) result" where
  "adopt_legacy_source_cost pid result j =
     bind_result (legacy_baseline j pid result) (\<lambda>c.
     bind_result (position j pid) (\<lambda>p.
     let j1 = upd_position pid (\<lambda>r. r\<lparr>p_loss_usd := Some (c_cumulative c)\<rparr>) j;
         j2 = (case p_group p of None \<Rightarrow> j1
               | Some g \<Rightarrow> upd_group g (\<lambda>r. r\<lparr>g_realized_usd := c_after c\<rparr>) j1)
     in bind_result (adopt_deposit pid (c_source c) j2) (\<lambda>j3.
        bind_result (write_source_provenance pid (proof_payload c) j3) (\<lambda>j4. Inr (c, j4)))))"

definition stored_loss :: "position_row \<Rightarrow> string" where
  "stored_loss p = (case p_loss_usd p of None \<Rightarrow> ''0'' | Some t \<Rightarrow> if t = [] then ''0'' else t)"

definition account_cumulative_position_loss ::
  "nat \<Rightarrow> string \<Rightarrow> journal \<Rightarrow> (string \<times> journal) result" where
  "account_cumulative_position_loss pid loss j =
     bind_result (position j pid) (\<lambda>p.
     bind_result (position_group j p) (\<lambda>g.
     bind_result (number_of (stored_loss p)) (\<lambda>previous.
     bind_result (number_of loss) (\<lambda>x.
     bind_result (number_of (g_realized_usd g)) (\<lambda>realized.
     let current = dec_max previous x;
         total = dec_sub money_prec (dec_add money_prec realized current) previous
     in Inr (format_f total,
          upd_group (g_id g) (\<lambda>r. r\<lparr>g_realized_usd := format_f total\<rparr>)
            (upd_position pid (\<lambda>r. r\<lparr>p_loss_usd := Some (format_f current)\<rparr>) j)))))))"

definition invalid_conversion :: exn where
  "invalid_conversion = ValueError ''invalid confirmed source conversion''"

definition check_conversion :: "pydict \<Rightarrow> unit result" where
  "check_conversion result =
     (if get result ''state'' \<notin> {PStr ''confirmed'', PStr ''completed''}
         \<or> get result ''actual_asset_id'' \<noteq> PStr ''native''
      then Inl invalid_conversion
      else bind_result (item (PDict result) ''actual_balance_raw'') (\<lambda>b.
        bind_result (py_int b) (\<lambda>n. require (0 < n) invalid_conversion)))"

definition adopt_existing ::
  "nat \<Rightarrow> pydict \<Rightarrow> pyval option \<Rightarrow> pyval option \<Rightarrow> journal \<Rightarrow> journal result" where
  "adopt_existing pid result existing provenance j =
     (case existing of
        None \<Rightarrow> Inr j
      | Some v \<Rightarrow>
          bind_result
            (if provenance = None
             then bind_result (adopt_legacy_source_cost pid v j) (\<lambda>r. Inr (snd r)) else Inr j)
            (\<lambda>j1. if py_eq v (PDict result) then Inr j1
                  else Inl (ValueError ''source conversion result cannot change'')))"

definition first_provenance ::
  "nat \<Rightarrow> pyval option \<Rightarrow> string \<Rightarrow> string \<Rightarrow> journal \<Rightarrow> journal result" where
  "first_provenance pid existing loss after j =
     (if existing = None then write_source_provenance pid
        [(''version'', PInt 2), (''origin'', PStr ''atomic_conversion''),
         (''source_loss_usd'', PStr loss), (''cumulative_loss_usd'', PStr loss),
         (''group_loss_after_usd'', PStr after)] j
      else Inr j)"

definition convert_position :: "nat \<Rightarrow> pyval \<Rightarrow> journal \<Rightarrow> journal" where
  "convert_position pid balance j = upd_position pid
     (\<lambda>r. r\<lparr>p_state := ''source_asset_converted_bridge_pending'',
        p_actual_asset := Some ''native'', p_actual_balance := Some (py_str balance)\<rparr>) j"

definition checkpoint_source_conversion ::
  "nat \<Rightarrow> pydict \<Rightarrow> journal \<Rightarrow> (string \<times> journal) result" where
  "checkpoint_source_conversion pid result j =
     bind_result (item (PDict result) ''realized_loss_usd'') (\<lambda>cost.
     bind_result (decimal_text cost ''source conversion loss'') (\<lambda>loss.
     bind_result (check_conversion result) (\<lambda>_.
     bind_result (checkpoint j pid ''swap_result'') (\<lambda>existing.
     bind_result (checkpoint j pid ''source_cost_provenance'') (\<lambda>provenance.
     bind_result (adopt_existing pid result existing provenance j) (\<lambda>j1.
     bind_result (encode (PDict result)) (\<lambda>e.
     bind_result (account_cumulative_position_loss pid loss
        (if existing = None then put_checkpoint pid ''swap_result'' e j1 else j1)) (\<lambda>r.
     bind_result (first_provenance pid existing loss (fst r) (snd r)) (\<lambda>j3.
     bind_result (item (PDict result) ''actual_balance_raw'') (\<lambda>b.
     Inr (fst r, convert_position pid b j3)))))))))))"

text \<open>
  The loss to account for a position with a saved conversion: one without provenance is
  adopted first, and then a report of the old remaining cost is completed by the source's.
\<close>

definition adopted_loss :: "string \<Rightarrow> cost_proof \<Rightarrow> string result" where
  "adopted_loss loss c =
     (if py_eq (c_legacy c) (PStr loss)
      then bind_result (number_of loss) (\<lambda>x.
           bind_result (number_of (c_source c)) (\<lambda>s. Inr (format_f (dec_add money_prec x s))))
      else Inr loss)"

definition converted_loss ::
  "nat \<Rightarrow> pyval \<Rightarrow> string \<Rightarrow> journal \<Rightarrow> (string \<times> journal) result" where
  "converted_loss pid swap loss j =
     bind_result (checkpoint j pid ''source_cost_provenance'') (\<lambda>provenance.
     if provenance \<noteq> None then Inr (loss, j)
     else bind_result (adopt_legacy_source_cost pid swap j) (\<lambda>r.
          bind_result (adopted_loss loss (fst r)) (\<lambda>l. Inr (l, snd r))))"

definition account_first_loss :: "nat \<Rightarrow> string \<Rightarrow> journal \<Rightarrow> (string \<times> journal) result" where
  "account_first_loss pid loss j =
     bind_result (position j pid) (\<lambda>p.
     case p_group p of
       None \<Rightarrow> Inl (ValueError ''position has no route group'')
     | Some gid \<Rightarrow>
         bind_result (group j gid) (\<lambda>g.
         if p_loss_usd p \<noteq> None then Inr (g_realized_usd g, j)
         else bind_result (number_of (g_realized_usd g)) (\<lambda>realized.
           bind_result (number_of loss) (\<lambda>x.
           let total = dec_add money_prec realized x
           in Inr (format_f total,
                upd_group gid (\<lambda>r. r\<lparr>g_realized_usd := format_f total\<rparr>)
                  (upd_position pid (\<lambda>r. r\<lparr>p_loss_usd := Some loss\<rparr>) j))))))"

definition account_position_loss :: "nat \<Rightarrow> pyval \<Rightarrow> journal \<Rightarrow> (string \<times> journal) result" where
  "account_position_loss pid cost j =
     bind_result (decimal_text cost ''position realised loss'') (\<lambda>loss.
     bind_result (checkpoint j pid ''swap_result'') (\<lambda>swap. case swap of
       Some s \<Rightarrow> bind_result (converted_loss pid s loss j)
                   (\<lambda>r. account_cumulative_position_loss pid (fst r) (snd r))
     | None \<Rightarrow> account_first_loss pid loss j))"

section \<open>Soundness of the accounting\<close>

lemma sound_given_ok: "(journal_ok j \<Longrightarrow> sound j k) \<Longrightarrow> sound j k"
  by (simp add: sound_def)

lemma position_okD: "journal_ok j \<Longrightarrow> position j i = Inr p \<Longrightarrow> position_ok p"
  by (auto simp: journal_ok_def list_all_iff dest: positionD)

lemma group_okD: "journal_ok j \<Longrightarrow> group j i = Inr g \<Longrightarrow> group_ok g"
  by (auto simp: journal_ok_def list_all_iff dest: groupD)

lemma position_groupD:
  "position_group j p = Inr g \<Longrightarrow> p_group p = Some (g_id g) \<and> group j (g_id g) = Inr g"
  by (auto simp: position_group_def split: option.splits dest: groupD)

lemma moneyD: "money v = Inr d \<Longrightarrow> 0 \<le> dec_value d"
  by (auto simp: money_def dec_compare_values split: pyval.splits sum.splits decimal.splits if_splits)

lemma money_number: "number_of t = Inr d \<Longrightarrow> money_text t \<Longrightarrow> 0 \<le> dec_value d \<and> representable money_prec (dec_value d)"
  by (auto simp: money_text_def)

lemma money_sum:
  assumes "0 \<le> dec_value a" "0 \<le> dec_value b"
  shows "0 \<le> dec_value (dec_add money_prec a b)" "money_text (format_f (dec_add money_prec a b))"
proof -
  show "0 \<le> dec_value (dec_add money_prec a b)"
    using assms unfolding dec_add_def by (intro dec_fix_nonneg) (simp_all add: money_prec_def)
  then show "money_text (format_f (dec_add money_prec a b))"
    by (simp add: dec_add_def representable_fix money_prec_def)
qed

text \<open>A sum is not below a summand that fits the precision.\<close>

lemma money_sum_ge:
  assumes "0 \<le> dec_value a" "0 \<le> dec_value b" "representable money_prec (dec_value b)"
  shows "dec_value b \<le> dec_value (dec_add money_prec a b)"
proof (cases "dec_value b = 0")
  case True
  then show ?thesis using money_sum [OF assms(1,2)] by simp
next
  case False
  with assms show ?thesis
    unfolding dec_add_def by (intro dec_fix_ge) (simp_all add: money_prec_def)
qed

lemma money_difference:
  assumes "0 \<le> dec_value b" "dec_value b \<le> dec_value a"
  shows "money_text (format_f (dec_sub money_prec a b))"
proof -
  have "0 \<le> dec_value (dec_sub money_prec a b)"
    using assms unfolding dec_sub_def dec_add_def
    by (intro dec_fix_nonneg) (simp_all add: money_prec_def)
  then show ?thesis by (simp add: dec_sub_def dec_add_def representable_fix money_prec_def)
qed

text \<open>The writes that every accounting operation consists of.\<close>

definition charge :: "nat \<Rightarrow> string \<Rightarrow> nat \<Rightarrow> string \<Rightarrow> journal \<Rightarrow> journal" where
  "charge pid loss gid realized j =
     upd_group gid (\<lambda>r. r\<lparr>g_realized_usd := realized\<rparr>)
       (upd_position pid (\<lambda>r. r\<lparr>p_loss_usd := Some loss\<rparr>) j)"

lemma sound_charge:
  assumes p: "position j pid = Inr p" and loss: "money_text loss" "loss_le (p_loss_usd p) (Some loss)"
    and realized: "money_text realized"
  shows "sound j (charge pid loss gid realized j)"
proof -
  let ?j1 = "upd_position pid (\<lambda>r. r\<lparr>p_loss_usd := Some loss\<rparr>) j"
  have "sound j ?j1"
  proof (rule sound_upd_position)
    fix q assume "q \<in> set (positions j)" "p_id q = pid" "position_ok q" "journal_ok j"
    with position_unique [OF _ p] loss
    show "position_ok (q\<lparr>p_loss_usd := Some loss\<rparr>) \<and> position_evolves q (q\<lparr>p_loss_usd := Some loss\<rparr>)"
      by (auto simp: position_ok_def position_evolves_def)
  qed
  also have "sound ?j1 (charge pid loss gid realized j)"
    unfolding charge_def using realized
    by (intro sound_upd_group) (auto simp: group_ok_def group_evolves_def)
  finally show ?thesis .
qed

lemma stored_loss_facts:
  assumes "position_ok p" "number_of (stored_loss p) = Inr d"
  shows "0 \<le> dec_value d" "representable money_prec (dec_value d)"
    "loss_le (p_loss_usd p) (Some t) \<longleftrightarrow> p_loss_usd p = None \<or> dec_value d \<le> text_value t"
proof -
  have "number_of [] = Inl InvalidOperation" by code_simp
  then have empty: "\<not> money_text []" by (simp add: money_text_def)
  have m: "money_text (stored_loss p)"
    using assms(1) by (auto simp: position_ok_def stored_loss_def split: option.splits)
  then show "0 \<le> dec_value d" "representable money_prec (dec_value d)"
    using money_number [OF assms(2)] by simp_all
  have "text_value (stored_loss p) = dec_value d" using assms(2) by (rule number_of_value)
  then show "loss_le (p_loss_usd p) (Some t) \<longleftrightarrow> p_loss_usd p = None \<or> dec_value d \<le> text_value t"
    using assms(1) empty
    by (auto simp: stored_loss_def position_ok_def loss_le_def split: option.splits if_splits)
qed

lemma account_cumulativeE:
  assumes "account_cumulative_position_loss pid loss j = Inr (t, k)"
  obtains p g previous x realized where "position j pid = Inr p" "position_group j p = Inr g"
    "number_of (stored_loss p) = Inr previous" "number_of loss = Inr x"
    "number_of (g_realized_usd g) = Inr realized"
    "t = format_f (dec_sub money_prec (dec_add money_prec realized (dec_max previous x)) previous)"
    "k = charge pid (format_f (dec_max previous x)) (g_id g) t j"
  using assms by (auto simp: account_cumulative_position_loss_def charge_def Let_def)

lemma sound_account_cumulative:
  assumes run: "account_cumulative_position_loss pid loss j = Inr (t, k)" and loss: "money_text loss"
  shows "sound j k"
proof (rule sound_given_ok)
  assume ok: "journal_ok j"
  obtain p g previous x realized where p: "position j pid = Inr p" and g: "position_group j p = Inr g"
    and prev: "number_of (stored_loss p) = Inr previous" and x: "number_of loss = Inr x"
    and r: "number_of (g_realized_usd g) = Inr realized"
    and t: "t = format_f (dec_sub money_prec (dec_add money_prec realized (dec_max previous x)) previous)"
    and k: "k = charge pid (format_f (dec_max previous x)) (g_id g) t j"
    by (rule account_cumulativeE [OF run])
  note stored = stored_loss_facts [OF position_okD [OF ok p] prev]
  note xs = money_number [OF x loss]
  have rs: "0 \<le> dec_value realized"
    using group_okD [OF ok] position_groupD [OF g] money_number [OF r] by (auto simp: group_ok_def)
  have max: "0 \<le> dec_value (dec_max previous x)" "dec_value previous \<le> dec_value (dec_max previous x)"
    "representable money_prec (dec_value (dec_max previous x))"
    using stored xs by (auto simp: dec_value_max max_def)
  have "dec_value previous \<le> dec_value (dec_add money_prec realized (dec_max previous x))"
    using max(2) money_sum_ge [OF rs max(1,3)] by simp
  then have "money_text t" unfolding t using stored(1) by (intro money_difference)
  then show "sound j k" unfolding k
    using max stored(3) by (intro sound_charge [OF p]) simp_all
qed

lemma sound_write_source_provenance:
  "write_source_provenance pid payload j = Inr k \<Longrightarrow> sound j k"
  by (auto simp: write_source_provenance_def sound_put_checkpoint)

lemma sound_adopt_deposit: "adopt_deposit pid d j = Inr k \<Longrightarrow> sound j k"
  by (auto simp: adopt_deposit_def sound_put_checkpoint split: option.splits)

lemma combinationsD:
  "(c, r) \<in> set (combinations others options source paid proven) \<Longrightarrow> r \<in> set options"
  by (auto simp: combinations_def)

lemma remaining_optionsD:
  assumes "remaining_options j p deposit = Inr options" "r \<in> set options"
  shows "0 \<le> dec_value r" "p_loss_usd p = Some t \<Longrightarrow> money (PStr t) = Inr r"
  using assms by (auto simp: remaining_options_def loss_of_def
      split: option.splits if_splits dest: moneyD)

lemma only_combinationE:
  assumes "only_combination source paid legacy found = Inr c"
  obtains charged remaining where "(charged, remaining) \<in> set found"
    "c_source c = format_f source" "c_cumulative c = format_f (dec_add money_prec source remaining)"
    "c_after c = format_f (dec_add money_prec paid (if charged then dec_of_int 0 else source))"
proof -
  from assms obtain charged remaining where "found = [(charged, remaining)]"
    by (auto simp: only_combination_def split: list.splits prod.splits)
  with assms show thesis by (intro that [of charged remaining]) (auto simp: only_combination_def)
qed

lemma legacy_baselineE:
  assumes "legacy_baseline j pid result = Inr c"
  obtains p g source paid remaining charged where "position j pid = Inr p" "position_group j p = Inr g"
    "0 \<le> dec_value source" "0 \<le> dec_value paid" "0 \<le> dec_value remaining"
    "\<forall>t. p_loss_usd p = Some t \<longrightarrow> money (PStr t) = Inr remaining"
    "c_source c = format_f source" "c_cumulative c = format_f (dec_add money_prec source remaining)"
    "c_after c = format_f (dec_add money_prec paid (if charged then dec_of_int 0 else source))"
proof -
  from assms obtain p g source paid legacy options deposit others proven where
    p: "position j pid = Inr p" and g: "position_group j p = Inr g"
    and s: "loss_of result = Inr source" and paid: "money (PStr (g_realized_usd g)) = Inr paid"
    and o: "remaining_options j p deposit = Inr options"
    and only: "only_combination source paid legacy (combinations others options source paid proven) = Inr c"
    by (auto simp: legacy_baseline_def Let_def split: if_splits)
  obtain charged remaining where "(charged, remaining) \<in> set (combinations others options source paid proven)"
    and c: "c_source c = format_f source" "c_cumulative c = format_f (dec_add money_prec source remaining)"
      "c_after c = format_f (dec_add money_prec paid (if charged then dec_of_int 0 else source))"
    by (rule only_combinationE [OF only])
  then have "remaining \<in> set options" by (intro combinationsD)
  note opt = remaining_optionsD [OF o this]
  have "0 \<le> dec_value source" using s by (auto simp: loss_of_def dest: moneyD)
  with p g moneyD [OF paid] opt c show thesis by (intro that [of p g source paid remaining charged]) auto
qed

lemma money_text_number: "money (PStr t) = Inr d \<Longrightarrow> number_of t = Inr d"
  by (auto simp: money_def py_decimal_def number_of_def split: option.splits sum.splits decimal.splits if_splits)

lemma sound_adopt_legacy_source_cost:
  assumes run: "adopt_legacy_source_cost pid result j = Inr (c, k)"
  shows "sound j k"
proof (rule sound_given_ok)
  assume ok: "journal_ok j"
  from run have base: "legacy_baseline j pid result = Inr c"
    by (auto simp: adopt_legacy_source_cost_def Let_def)
  obtain p g source paid remaining charged where p: "position j pid = Inr p"
    and g: "position_group j p = Inr g"
    and nn: "0 \<le> dec_value source" "0 \<le> dec_value paid" "0 \<le> dec_value remaining"
    and own: "\<forall>t. p_loss_usd p = Some t \<longrightarrow> money (PStr t) = Inr remaining"
    and "c_source c = format_f source"
    and c: "c_cumulative c = format_f (dec_add money_prec source remaining)"
      "c_after c = format_f (dec_add money_prec paid (if charged then dec_of_int 0 else source))"
    by (rule legacy_baselineE [OF base])
  let ?j2 = "charge pid (c_cumulative c) (g_id g) (c_after c) j"
  from run p position_groupD [OF g] obtain j3 where j3: "adopt_deposit pid (c_source c) ?j2 = Inr j3"
    and k: "write_source_provenance pid (proof_payload c) j3 = Inr k"
    by (auto simp: adopt_legacy_source_cost_def Let_def charge_def base)
  have "loss_le (p_loss_usd p) (Some (c_cumulative c))"
  proof (cases "p_loss_usd p")
    case (Some t)
    with own have "money (PStr t) = Inr remaining" by blast
    then have n: "number_of t = Inr remaining" by (rule money_text_number)
    moreover have "money_text t" using position_okD [OF ok p] Some by (simp add: position_ok_def)
    ultimately have "representable money_prec (dec_value remaining)" by (simp add: money_number)
    with nn have "dec_value remaining \<le> text_value (c_cumulative c)"
      unfolding c by (simp add: money_sum_ge)
    with Some n show ?thesis by (simp add: number_of_value)
  qed simp
  moreover have "money_text (c_cumulative c)" "money_text (c_after c)"
    unfolding c using nn by (intro money_sum(2); simp)+
  ultimately have "sound j ?j2" by (intro sound_charge [OF p])
  also have "sound ?j2 j3" using j3 by (rule sound_adopt_deposit)
  also have "sound j3 k" using k by (rule sound_write_source_provenance)
  finally show "sound j k" .
qed

lemma adopted_source_nonneg:
  assumes "adopt_legacy_source_cost pid result j = Inr (c, k)" "number_of (c_source c) = Inr s"
  shows "0 \<le> dec_value s"
proof -
  from assms(1) have base: "legacy_baseline j pid result = Inr c"
    by (auto simp: adopt_legacy_source_cost_def Let_def)
  then obtain source where "0 \<le> dec_value source" "c_source c = format_f source"
    by (elim legacy_baselineE)
  then show ?thesis using number_of_value [OF assms(2)] by simp
qed

lemma sound_adopt_existing: "adopt_existing pid result existing provenance j = Inr k \<Longrightarrow> sound j k"
  by (auto simp: adopt_existing_def sound_adopt_legacy_source_cost split: option.splits if_splits)

lemma sound_first_provenance: "first_provenance pid existing loss after j = Inr k \<Longrightarrow> sound j k"
  by (auto simp: first_provenance_def sound_write_source_provenance split: if_splits)

lemma sound_convert_position: "sound j (convert_position pid b j)"
  unfolding convert_position_def
  by (intro sound_upd_position)
    (auto simp: position_ok_def position_evolves_def position_transitions_def)

lemma sound_checkpoint_source_conversion [sound_intros]:
  assumes "checkpoint_source_conversion pid result j = Inr (t, k)"
  shows "sound j k"
proof -
  from assms obtain cost loss existing provenance j1 e j2 j3 b where
    loss: "decimal_text cost ''source conversion loss'' = Inr loss"
    and j1: "adopt_existing pid result existing provenance j = Inr j1"
    and acc: "account_cumulative_position_loss pid loss
      (if existing = None then put_checkpoint pid ''swap_result'' e j1 else j1) = Inr (t, j2)"
    and j3: "first_provenance pid existing loss t j2 = Inr j3"
    and k: "k = convert_position pid b j3"
    unfolding checkpoint_source_conversion_def by auto
  have "sound j j1" by (rule sound_adopt_existing [OF j1])
  also have "sound j1 (if existing = None then put_checkpoint pid ''swap_result'' e j1 else j1)"
    by (simp add: sound_put_checkpoint)
  also have "sound \<dots> j2"
    by (rule sound_account_cumulative [OF acc]) (rule decimal_text_money [OF loss])
  also have "sound j2 j3" by (rule sound_first_provenance [OF j3])
  also have "sound j3 k" unfolding k by (rule sound_convert_position)
  finally show ?thesis .
qed

lemma adopted_loss_money:
  assumes "adopted_loss loss c = Inr l" "money_text loss"
    and "\<And>s. number_of (c_source c) = Inr s \<Longrightarrow> 0 \<le> dec_value s"
  shows "money_text l"
  using assms by (auto simp: adopted_loss_def money_number intro!: money_sum(2) split: if_splits)

lemma converted_lossD:
  assumes "converted_loss pid s loss j = Inr (l, k)" "money_text loss"
  shows "sound j k" "money_text l"
  using assms adopted_loss_money adopted_source_nonneg sound_adopt_legacy_source_cost
  by (auto simp: converted_loss_def split: if_splits)

lemma sound_account_first_loss:
  assumes run: "account_first_loss pid loss j = Inr (t, k)" and loss: "money_text loss"
  shows "sound j k"
proof (rule sound_given_ok)
  assume ok: "journal_ok j"
  from run obtain p gid g where p: "position j pid = Inr p" and g: "group j gid = Inr g"
    and cases: "k = j \<or> (\<exists>r x. p_loss_usd p = None \<and> number_of (g_realized_usd g) = Inr r
      \<and> number_of loss = Inr x \<and> k = charge pid loss gid (format_f (dec_add money_prec r x)) j)"
    by (auto simp: account_first_loss_def charge_def Let_def split: option.splits if_splits)
  from cases show "sound j k"
  proof (elim disjE exE conjE)
    fix r x assume none: "p_loss_usd p = None" and r: "number_of (g_realized_usd g) = Inr r"
      and x: "number_of loss = Inr x"
      and k: "k = charge pid loss gid (format_f (dec_add money_prec r x)) j"
    have "0 \<le> dec_value r" "0 \<le> dec_value x"
      using money_number [OF r] money_number [OF x loss] group_okD [OF ok g] by (auto simp: group_ok_def)
    then show ?thesis unfolding k using none loss
      by (intro sound_charge [OF p] money_sum(2)) simp_all
  qed simp
qed

lemma sound_account_position_loss [sound_intros]:
  assumes "account_position_loss pid cost j = Inr (t, k)"
  shows "sound j k"
proof -
  from assms obtain loss swap where loss: "decimal_text cost ''position realised loss'' = Inr loss"
    and cases: "account_first_loss pid loss j = Inr (t, k)
      \<or> (\<exists>s l j1. converted_loss pid s loss j = Inr (l, j1)
           \<and> account_cumulative_position_loss pid l j1 = Inr (t, k))"
    unfolding account_position_loss_def by (auto split: option.splits) blast
  note m = decimal_text_money [OF loss]
  from cases show ?thesis
  proof (elim disjE exE conjE)
    fix s l j1 assume c: "converted_loss pid s loss j = Inr (l, j1)"
      and a: "account_cumulative_position_loss pid l j1 = Inr (t, k)"
    have "sound j j1" "money_text l" using converted_lossD [OF c m] by simp_all
    with sound_account_cumulative [OF a] show "sound j k" by (blast intro: sound_trans)
  qed (rule sound_account_first_loss [OF _ m])
qed

section \<open>Costs are counted once and exactly\<close>

definition settled :: "journal \<Rightarrow> nat \<Rightarrow> string \<Rightarrow> bool" where
  "settled k pid t \<longleftrightarrow> (\<exists>p g i. position k pid = Inr p \<and> p_group p = Some i \<and> p_loss_usd p \<noteq> None
     \<and> group k i = Inr g \<and> g_realized_usd g = t)"

lemma settled_first_loss: "settled k pid t \<Longrightarrow> account_first_loss pid l k = Inr (t, k)"
  by (auto simp: settled_def account_first_loss_def)

lemma first_loss_cases:
  assumes "account_first_loss pid l j = Inr (t, k)"
  obtains "k = j" "settled j pid t"
    | p i g where "position j pid = Inr p" "p_group p = Some i" "group j i = Inr g"
      "k = upd_group i (\<lambda>r. r\<lparr>g_realized_usd := t\<rparr>) (upd_position pid (\<lambda>r. r\<lparr>p_loss_usd := Some l\<rparr>) j)"
  using assms by (auto simp: account_first_loss_def settled_def Let_def split: option.splits if_splits)

lemma first_loss_settled:
  assumes "account_first_loss pid l j = Inr (t, k)"
  shows "account_first_loss pid m k = Inr (t, k)"
  using assms
proof (cases rule: first_loss_cases)
  case (2 p i g)
  then have "settled k pid t" by (auto simp: settled_def table_simps)
  then show ?thesis by (rule settled_first_loss)
qed (simp add: settled_first_loss)

lemma first_loss_checkpoint:
  "account_first_loss pid l j = Inr (t, k) \<Longrightarrow> checkpoint k n key = checkpoint j n key"
  by (erule first_loss_cases) simp_all

text \<open>
  Without a saved conversion, \<open>account_position_loss\<close> charges a position once: after a
  first call has succeeded, any later call with a valid amount returns the group total of
  the first and changes nothing.
\<close>

theorem loss_counted_once:
  assumes "account_position_loss pid a j = Inr (t, k)" and "checkpoint j pid ''swap_result'' = Inr None"
    and "decimal_text b ''position realised loss'' = Inr loss"
  shows "account_position_loss pid b k = Inr (t, k)"
proof -
  from assms(1,2) obtain l where "account_first_loss pid l j = Inr (t, k)"
    by (auto simp: account_position_loss_def)
  then have "account_first_loss pid loss k = Inr (t, k)" "checkpoint k pid ''swap_result'' = Inr None"
    using first_loss_settled first_loss_checkpoint assms(2) by metis+
  with assms(3) show ?thesis by (simp add: account_position_loss_def)
qed

definition one_position_journal :: journal where
  "one_position_journal = empty_journal
     \<lparr>groups := [\<lparr>g_id = 1, g_key = ''k'', g_wallet = ''0xw'', g_chain = 1, g_budget_pct = ''5'',
        g_source_usd = ''100'', g_projected_usd = None, g_projected_pct = None,
        g_realized_usd = ''0.25'', g_state = ''active'', g_reason = None\<rparr>],
      positions := [\<lparr>p_id = 1, p_key = ''k:p'', p_wallet = ''0xw'', p_group = Some 1,
        p_source_asset = None, p_source_amount = None, p_actual_asset = None,
        p_actual_balance = None, p_loss_usd = None, p_reason = None, p_state = ''planned''\<rparr>]\<rparr>"

lemma one_position_facts:
  "\<exists>p g. position one_position_journal 1 = Inr p \<and> p_group p = Some 1 \<and> p_loss_usd p = None
    \<and> group one_position_journal 1 = Inr g \<and> g_realized_usd g = ''0.25''"
  "checkpoint one_position_journal 1 ''swap_result'' = Inr None"
  by (simp_all add: one_position_journal_def empty_journal_def position_def group_def select_one_def
      checkpoint_def)

lemma loss_counted_once_witness:
  "\<exists>k. account_position_loss 1 (PStr ''1.50'') one_position_journal = Inr (''1.75'', k)
     \<and> account_position_loss 1 (PStr ''2'') k = Inr (''1.75'', k)"
proof -
  have a: "decimal_text (PStr ''1.50'') ''position realised loss'' = Inr ''1.5''" by code_simp
  have b: "decimal_text (PStr ''2'') ''position realised loss'' = Inr ''2''" by code_simp
  have n: "number_of ''0.25'' = Inr (Fin False 25 (- 2))" "number_of ''1.5'' = Inr (Fin False 15 (- 1))"
    by code_simp+
  have t: "format_f (dec_add money_prec (Fin False 25 (- 2)) (Fin False 15 (- 1))) = ''1.75''"
    by code_simp
  obtain k where "account_position_loss 1 (PStr ''1.50'') one_position_journal = Inr (''1.75'', k)"
    using one_position_facts
    by (auto simp: account_position_loss_def account_first_loss_def a n t Let_def)
  with loss_counted_once [OF this one_position_facts(2) b] show ?thesis by blast
qed

text \<open>
  Amounts that are multiples of one power of ten and stay below \<open>4 * 10^79\<close> of it: sums of
  two of them need no rounding.
\<close>

definition on_scale :: "int \<Rightarrow> rat \<Rightarrow> bool" where
  "on_scale m v \<longleftrightarrow> (\<exists>z. v = of_int z * 10 powi m \<and> \<bar>z\<bar> < 4 * 10 ^ 79)"

lemma on_scale_sum:
  assumes "on_scale m (dec_value a)" "on_scale m (dec_value b)"
  shows "dec_value (dec_add money_prec a b) = dec_value a + dec_value b"
proof -
  obtain y z where "dec_value a = of_int y * 10 powi m" "\<bar>y\<bar> < 4 * 10 ^ 79"
    and "dec_value b = of_int z * 10 powi m" "\<bar>z\<bar> < 4 * 10 ^ 79"
    using assms by (auto simp: on_scale_def)
  moreover from this have "\<bar>y + z\<bar> < 10 ^ money_prec" by (simp add: money_prec_def)
  ultimately show ?thesis
    by (intro dec_add_exact [of _ _ _ "y + z" m]) (simp_all add: money_prec_def distrib_right)
qed

lemma on_scale_neg: "on_scale m (- v) \<longleftrightarrow> on_scale m v"
proof -
  have "on_scale m (- v)" if v: "on_scale m v" for v
  proof -
    obtain z where "v = of_int z * 10 powi m" "\<bar>z\<bar> < 4 * 10 ^ 79"
      using v by (auto simp: on_scale_def)
    then show ?thesis unfolding on_scale_def by (intro exI [of _ "- z"]) simp
  qed
  from this [of v] this [of "- v"] show ?thesis by auto
qed

lemma on_scale_int: "\<bar>z\<bar> < 4 * 10 ^ 79 \<Longrightarrow> on_scale m (of_int z * 10 powi m)"
  unfolding on_scale_def by blast

lemma on_scale_max: "on_scale m (dec_value a) \<Longrightarrow> on_scale m (dec_value b) \<Longrightarrow> on_scale m (dec_value (dec_max a b))"
  by (simp add: dec_value_max max_def)

lemma charge_frame:
  assumes "position j pid = Inr p" "group j gid = Inr g"
  shows "position (charge pid u gid t j) pid = Inr (p\<lparr>p_loss_usd := Some u\<rparr>)"
    "group (charge pid u gid t j) gid = Inr (g\<lparr>g_realized_usd := t\<rparr>)"
    "i \<noteq> pid \<Longrightarrow> position (charge pid u gid t j) i = position j i"
    "n \<noteq> gid \<Longrightarrow> group (charge pid u gid t j) n = group j n"
  and charge_keeps: "steps (charge pid u gid t j) = steps j" "events (charge pid u gid t j) = events j"
    "checkpoints (charge pid u gid t j) = checkpoints j" "operations (charge pid u gid t j) = operations j"
  using assms by (simp_all add: charge_def table_simps split: sum.split)
    (simp_all add: upd_group_def upd_position_def)

text \<open>
  C8: \<open>_account_cumulative_position_loss\<close> charges the group with the increase of the
  position's loss: its row then holds the returned total, the old total and the increase,
  without rounding, when the amounts are multiples of one power of ten within 80 digits
  (\<open>on_scale\<close>). The position's row holds the larger of its old and its reported loss, and
  no other row changes.
\<close>

theorem cumulative_loss_exact:
  assumes run: "account_cumulative_position_loss pid loss j = Inr (t, k)"
    and p: "position j pid = Inr p" and g: "position_group j p = Inr g"
    and scale: "on_scale m (text_value (g_realized_usd g))" "on_scale m (text_value (stored_loss p))"
      "on_scale m (text_value loss)"
      "on_scale m (text_value (g_realized_usd g) + max (text_value (stored_loss p)) (text_value loss))"
  shows "text_value t = text_value (g_realized_usd g)
      + (max (text_value (stored_loss p)) (text_value loss) - text_value (stored_loss p))
    \<and> group k (g_id g) = Inr (g\<lparr>g_realized_usd := t\<rparr>)
    \<and> (\<exists>u. position k pid = Inr (p\<lparr>p_loss_usd := Some u\<rparr>)
        \<and> text_value u = max (text_value (stored_loss p)) (text_value loss))
    \<and> (\<forall>i. i \<noteq> g_id g \<longrightarrow> group k i = group j i) \<and> (\<forall>i. i \<noteq> pid \<longrightarrow> position k i = position j i)
    \<and> steps k = steps j \<and> events k = events j \<and> checkpoints k = checkpoints j \<and> operations k = operations j"
proof (rule account_cumulativeE [OF run])
  fix p' g' previous x realized
  assume "position j pid = Inr p'" "position_group j p' = Inr g'"
    and prev: "number_of (stored_loss p') = Inr previous" and x: "number_of loss = Inr x"
    and r: "number_of (g_realized_usd g') = Inr realized"
    and t: "t = format_f (dec_sub money_prec (dec_add money_prec realized (dec_max previous x)) previous)"
    and k: "k = charge pid (format_f (dec_max previous x)) (g_id g') t j"
  with p g have eq: "p' = p" "g' = g" by auto
  note vals = number_of_value [OF prev, unfolded eq] number_of_value [OF x]
    number_of_value [OF r, unfolded eq]
  note scale' = scale [unfolded vals]
  have sum: "dec_value (dec_add money_prec realized (dec_max previous x))
      = dec_value realized + dec_value (dec_max previous x)"
    using scale' by (intro on_scale_sum [of m] on_scale_max)
  have "on_scale m (dec_value (dec_neg previous))"
    using scale'(2) by (simp add: on_scale_neg)
  with sum scale'(4) have "text_value t = dec_value realized
      + (max (dec_value previous) (dec_value x) - dec_value previous)"
    by (simp add: t dec_sub_def on_scale_sum [of m] dec_value_max)
  moreover have "group j (g_id g) = Inr g"
    using g by (auto simp: position_group_def dest: groupD split: option.splits)
  note charge_frame [OF p this, where u = "format_f (dec_max previous x)" and t = t]
  ultimately show ?thesis
    unfolding k eq
    by (simp add: vals charge_keeps) (rule exI [of _ "format_f (dec_max previous x)"], simp add: dec_value_max)
qed

lemma cumulative_loss_exact_witness:
  "\<exists>k. account_cumulative_position_loss 1 ''1.5'' one_position_journal = Inr (''1.75'', k)
     \<and> text_value ''1.75'' = text_value ''0.25'' + (max (text_value ''0'') (text_value ''1.5'') - text_value ''0'')
     \<and> map_sum id g_realized_usd (group k 1) = Inr ''1.75''"
proof -
  have num: "number_of ''0.25'' = Inr (Fin False 25 (- 2))" "number_of ''0'' = Inr (Fin False 0 0)"
    "number_of ''1.5'' = Inr (Fin False 15 (- 1))" by code_simp+
  have val: "text_value ''0.25'' = of_int 25 * 10 powi (- 2)" "text_value ''0'' = of_int 0 * 10 powi (- 2)"
    "text_value ''1.5'' = of_int 150 * 10 powi (- 2)"
    by (simp_all add: number_of_value [OF num(1)] number_of_value [OF num(2)]
        number_of_value [OF num(3)] dec_value_def scoeff_def power_int_def power2_eq_square)
  have t: "format_f (dec_sub money_prec (dec_add money_prec (Fin False 25 (- 2))
      (dec_max (Fin False 0 0) (Fin False 15 (- 1)))) (Fin False 0 0)) = ''1.75''"
    by code_simp
  obtain p g where p: "position one_position_journal 1 = Inr p" and pg: "p_group p = Some 1"
    and none: "p_loss_usd p = None" and g: "group one_position_journal 1 = Inr g"
    and r: "g_realized_usd g = ''0.25''"
    using one_position_facts by blast
  have stored: "stored_loss p = ''0''" and pg': "position_group one_position_journal p = Inr g"
    using none pg g by (simp_all add: stored_loss_def position_group_def)
  obtain k where run: "account_cumulative_position_loss 1 ''1.5'' one_position_journal = Inr (''1.75'', k)"
    using p pg' r num t by (auto simp: account_cumulative_position_loss_def stored Let_def)
  have "g_id g = 1" using g groupD by blast
  then have "text_value ''1.75'' = text_value ''0.25'' + (max (text_value ''0'') (text_value ''1.5'') - text_value ''0'')
      \<and> group k 1 = Inr (g\<lparr>g_realized_usd := ''1.75''\<rparr>)"
    using cumulative_loss_exact [OF run p pg', of "- 2"]
    unfolding stored r val by (auto simp: on_scale_def max_def power_int_def
        intro: exI [of _ "25 :: int"] exI [of _ "150 :: int"] exI [of _ "175 :: int"] exI [of _ "0 :: int"])
  with run show ?thesis by (intro exI [of _ k]) simp
qed

end
