(* ===== verification/Weth.thy ===== *)
theory Weth
  imports Py_Values
begin

text \<open>
  Withdrawals of canonical wrapped ether (\<open>weth.py\<close>): the route a local unwrap stands for
  and the validation of its step before the fixed \<open>withdraw(uint256)\<close> calldata is made,
  and the padded gas reserve of \<open>weth_continuation.py\<close>. The SHA-256 that names a route is a
  parameter: no check reads it.
\<close>

section \<open>Lazy disjunctions\<close>

text \<open>\<open>a or b or ...\<close> where a test may raise: later tests run only when earlier ones fail.\<close>

fun any_result :: "bool result list \<Rightarrow> bool result" where
  "any_result [] = Inr False"
| "any_result (r # rs) = bind_result r (\<lambda>b. if b then Inr True else any_result rs)"

lemma any_result_False: "any_result rs = Inr False \<longleftrightarrow> (\<forall>r \<in> set rs. r = Inr False)"
  by (induction rs) (auto split: if_splits)

section \<open>Contracts and requests\<close>

definition weth_contract :: "int \<Rightarrow> string option" where
  "weth_contract chain =
     (if chain = 1 then Some ''0xc02aaa39b223fe8d0a0e5c4f27ead9083c756cc2''
      else if chain = 10 \<or> chain = 8453 then Some ''0x4200000000000000000000000000000000000006''
      else None)"

definition weth_withdraw_tool :: string where
  "weth_withdraw_tool = ''canonical-weth-withdraw''"

definition native_address :: string where
  "native_address = ''0x0000000000000000000000000000000000000000''"

text \<open>\<open>WETH_CONTRACTS.get(x)\<close> for a value: keys are equal as numbers.\<close>

definition contract_of :: "pyval \<Rightarrow> string option" where
  "contract_of v = (case py_number v of
      None \<Rightarrow> None
    | Some q \<Rightarrow> if q = of_int \<lfloor>q\<rfloor> then weth_contract \<lfloor>q\<rfloor> else None)"

text \<open>The fields of \<open>LifiRouteRequest\<close> that a withdrawal reads.\<close>

record unwrap_request =
  u_from_chain :: int
  u_to_chain :: int
  u_from_token :: string
  u_to_token :: string
  u_from :: string
  u_to :: string
  u_amount :: string

definition is_unwrap_request :: "unwrap_request \<Rightarrow> bool" where
  "is_unwrap_request r \<longleftrightarrow>
     u_from_chain r = u_to_chain r
     \<and> weth_contract (u_from_chain r) = Some (lower (u_from_token r))
     \<and> lower (u_to_token r) = native_address
     \<and> lower (u_from r) = lower (u_to r)"

definition unwrap_token :: "int \<Rightarrow> string \<Rightarrow> string \<Rightarrow> pyval" where
  "unwrap_token chain address price =
     PDict [(''chainId'', PInt chain), (''address'', PStr address), (''decimals'', PInt 18),
       (''priceUSD'', PStr price)]"

definition unwrap_step :: "string \<Rightarrow> unwrap_request \<Rightarrow> int \<Rightarrow> string \<Rightarrow> string \<Rightarrow> string \<Rightarrow> pydict" where
  "unwrap_step identifier r amount contract source_price native_price =
     (let chain = u_from_chain r; a = PStr (int_text amount);
          action = [(''fromChainId'', PInt chain), (''toChainId'', PInt chain),
            (''fromToken'', unwrap_token chain contract source_price),
            (''toToken'', unwrap_token chain native_address native_price),
            (''fromAmount'', a), (''fromAddress'', PStr (u_from r)), (''toAddress'', PStr (u_to r))];
          estimate = [(''fromAmount'', a), (''toAmount'', a), (''toAmountMin'', a),
            (''gasCosts'', PList []), (''feeCosts'', PList [])]
      in [(''id'', PStr identifier), (''type'', PStr ''protocol''), (''tool'', PStr weth_withdraw_tool),
          (''action'', PDict action), (''estimate'', PDict estimate)])"

definition unwrap_route_payload ::
  "(int \<times> int \<times> string \<Rightarrow> string) \<Rightarrow> unwrap_request \<Rightarrow> string \<Rightarrow> string \<Rightarrow> pydict result" where
  "unwrap_route_payload digest r source_price native_price =
     bind_result (py_int (PStr (u_amount r))) (\<lambda>amount.
     if \<not> is_unwrap_request r \<or> \<not> (0 < amount \<and> amount < 2 ^ 256)
     then Inl (ValueError ''invalid canonical WETH withdrawal request'')
     else case weth_contract (u_from_chain r) of
       None \<Rightarrow> Inl KeyError
     | Some contract \<Rightarrow>
         let a = PStr (int_text amount);
             identifier = digest (u_from_chain r, amount, lower (u_from r));
             step = unwrap_step identifier r amount contract source_price native_price
         in Inr [(''id'', PStr identifier), (''fromAmount'', a), (''toAmount'', a),
              (''toAmountMin'', a), (''steps'', PList [PDict step])])"

section \<open>Validation of a withdrawal step\<close>

definition empty_dict :: pyval where
  "empty_dict = PDict []"

definition nested :: "pydict \<Rightarrow> string \<Rightarrow> pydict result" where
  "nested d k = as_dict (get_default d k empty_dict)"

definition int_field :: "pydict \<Rightarrow> string \<Rightarrow> int result" where
  "int_field d k = py_int (get_default d k (PStr ''0''))"

definition differs :: "pyval \<Rightarrow> pyval \<Rightarrow> bool result" where
  "differs a b = Inr (\<not> py_eq a b)"

definition withdraw_tests ::
  "pydict \<Rightarrow> pydict \<Rightarrow> pydict \<Rightarrow> pydict \<Rightarrow> pydict \<Rightarrow> int \<Rightarrow> string option \<Rightarrow> bool result list" where
  "withdraw_tests s action source destination estimate amount contract =
     (let chain = get action ''fromChainId'' in
      [differs (get s ''tool'') (PStr weth_withdraw_tool), differs (get s ''type'') (PStr ''protocol''),
       Inr (contract = None), differs (get action ''toChainId'') chain,
       differs (get source ''chainId'') chain, differs (get destination ''chainId'') chain,
       bind_result (lower_of (get_default source ''address'' (PStr [])))
         (\<lambda>a. Inr (Some a \<noteq> contract)),
       differs (get source ''decimals'') (PInt 18), differs (get destination ''decimals'') (PInt 18),
       bind_result (lower_of (get_default destination ''address'' (PStr [])))
         (\<lambda>a. Inr (a \<noteq> native_address)),
       Inr (\<not> is_str (get action ''fromAddress'')),
       bind_result (lower_of (get action ''fromAddress''))
         (\<lambda>a. Inr (a \<noteq> lower (py_str (get_default action ''toAddress'' (PStr []))))),
       Inr (\<not> (0 < amount \<and> amount < 2 ^ 256)),
       bind_result (int_field estimate ''toAmount'') (\<lambda>n. Inr (n \<noteq> amount)),
       bind_result (int_field estimate ''toAmountMin'') (\<lambda>n. Inr (n \<noteq> amount)),
       Inr (py_truthy (get estimate ''approvalAddress'')), Inr (py_truthy (get estimate ''feeCosts'')),
       Inr (py_truthy (get s ''includedSteps'')), Inr (py_truthy (get s ''steps'')),
       Inr (py_truthy (get s ''substeps''))])"

definition withdraw_selector :: string where
  "withdraw_selector = ''0x2e1a7d4d''"

definition withdraw_transaction_fields :: "pydict \<Rightarrow> (pyval \<times> string \<times> string) result" where
  "withdraw_transaction_fields s =
     bind_result (nested s ''action'') (\<lambda>action.
     bind_result (nested action ''fromToken'') (\<lambda>source.
     bind_result (nested action ''toToken'') (\<lambda>destination.
     bind_result (int_field action ''fromAmount'') (\<lambda>amount.
     bind_result (nested s ''estimate'') (\<lambda>estimate.
     let chain = get action ''fromChainId''; contract = contract_of chain in
     bind_result (any_result (withdraw_tests s action source destination estimate amount contract))
       (\<lambda>bad. case contract of
          Some c \<Rightarrow> if bad then Inl (ValueError ''invalid canonical WETH withdrawal step'')
                    else Inr (chain, c, withdraw_selector @ rjust0 64 (hex_text (nat amount)))
        | None \<Rightarrow> Inl (ValueError ''invalid canonical WETH withdrawal step'')))))))"

section \<open>The gas reserve of a continuation\<close>

text \<open>The fields of a signed-transaction request and of a wallet that the reserve reads.\<close>

record reserve_request =
  q_chain :: int
  q_to :: string
  q_data :: string
  q_value :: int
  q_max_fee :: int
  q_fee_cap :: "int option"

record reserve_wallet =
  w_public :: string
  w_deposit :: string

definition is_caught :: "exn \<Rightarrow> bool" where
  "is_caught e \<longleftrightarrow> e \<in> {KeyError, TypeError, attribute_error, index_error} \<or> is_value_error e"

definition int_item :: "pyval \<Rightarrow> string \<Rightarrow> int result" where
  "int_item v k = bind_result (item v k) py_int"

definition lower_item :: "pyval \<Rightarrow> string \<Rightarrow> string result" where
  "lower_item v k = bind_result (item v k) lower_of"

definition item_differs :: "pyval \<Rightarrow> string \<Rightarrow> pyval \<Rightarrow> bool result" where
  "item_differs v k x = bind_result (item v k) (\<lambda>y. Inr (\<not> py_eq y x))"

definition reserve_tests ::
  "pydict \<Rightarrow> pyval \<Rightarrow> reserve_request \<Rightarrow> reserve_wallet \<Rightarrow> int \<Rightarrow> int \<Rightarrow> pyval \<Rightarrow> pyval list
     \<Rightarrow> pyval list \<Rightarrow> int \<Rightarrow> int \<Rightarrow> bool result list" where
  "reserve_tests entry marker q w chain amount target step_list raw_steps direct_cap minimum =
     (let e = PDict entry in
      [Inr (\<not> py_truthy (get entry ''automatic_requote'')), Inr (\<not> py_truthy (get entry ''local_unwrap'')),
       Inr (\<not> is_callable (get entry ''_check_group_loss'')),
       item_differs e ''asset_id'' (case weth_contract chain of None \<Rightarrow> PNone | Some a \<Rightarrow> PStr a),
       item_differs e ''decimals'' (PInt 18), Inr (length step_list \<noteq> 1),
       item_differs (hd step_list) ''kind'' (PStr ''unwrap_to_native''), Inr (length raw_steps \<noteq> 1),
       bind_result (lower_item marker ''wallet'') (\<lambda>a. Inr (a \<noteq> lower (w_public w))),
       bind_result (lower_item marker ''recipient'') (\<lambda>a. Inr (a \<noteq> lower (w_deposit w))),
       item_differs marker ''chain_id'' (PInt chain),
       bind_result (int_item marker ''amount_raw'') (\<lambda>n. Inr (n \<noteq> amount)),
       item_differs marker ''target'' target,
       bind_result (item target ''coin'') (\<lambda>c. bind_result (item target ''chain_id'') (\<lambda>n.
         bind_result (item target ''asset_id'') (\<lambda>a. bind_result (item target ''decimals'') (\<lambda>d.
           Inr (\<not> py_eq (PTuple [c, n, a, d])
                  (PTuple [PStr ''ETH'', PInt chain, PStr ''native'', PInt 18])))))),
       bind_result (item target ''chain'') (\<lambda>c. Inr (\<not> py_truthy c)),
       Inr (minimum \<le> 0), Inr (direct_cap \<le> 0),
       Inr (case q_fee_cap q of None \<Rightarrow> True
          | Some cap \<Rightarrow> cap \<le> 0 \<or> cap < q_max_fee q \<or> amount - cap - 3 * direct_cap < minimum)])"

definition check_reserve ::
  "pydict \<Rightarrow> pyval \<Rightarrow> reserve_request \<Rightarrow> reserve_wallet \<Rightarrow> unit result" where
  "check_reserve entry marker q w =
     (let e = PDict entry; invalid = ValueError ''invalid proof'' in
      bind_result (int_item e ''chain_id'') (\<lambda>chain.
      bind_result (int_item e ''raw_balance'') (\<lambda>amount.
      bind_result (item e ''target'') (\<lambda>target.
      bind_result (bind_result (item e ''steps'') elements) (\<lambda>step_list.
      bind_result (if step_list = [] then Inl index_error else item (hd step_list) ''_live_route'') (\<lambda>route.
      bind_result (bind_result (get_attr route ''raw_steps'') elements) (\<lambda>raw_steps.
      bind_result (bind_result (item e ''reservations'')
          (\<lambda>r. int_item r ''final_deposit_native_gas_cap_raw'')) (\<lambda>direct_cap.
      bind_result (int_item target ''minimum_raw'') (\<lambda>minimum.
      bind_result (any_result (reserve_tests entry marker q w chain amount target step_list raw_steps
          direct_cap minimum)) (\<lambda>bad.
      if bad then Inl invalid
      else bind_result (as_dict (hd raw_steps)) (\<lambda>raw.
      bind_result (withdraw_transaction_fields raw) (\<lambda>(c, to, data).
      bind_result (any_result
          [Inr (\<not> py_eq (PTuple [PInt (q_chain q), PStr (lower (q_to q)), PStr (lower (q_data q))])
                 (PTuple [c, PStr to, PStr data])),
           Inr (q_value q \<noteq> 0),
           bind_result (bind_result (item (PDict raw) ''action'') (\<lambda>a. lower_item a ''fromAddress''))
             (\<lambda>a. Inr (a \<noteq> lower (w_public w)))]) (\<lambda>changed.
      if changed then Inl (ValueError ''changed canonical transaction'') else Inr ())))))))))))))"

definition withdrawal_reserve ::
  "pydict \<Rightarrow> reserve_request \<Rightarrow> reserve_wallet \<Rightarrow> int option result" where
  "withdrawal_reserve entry q w =
     (let marker = get entry ''canonical_continuation'' in
      if marker = PNone \<or> py_eq (get entry ''status'') (PStr ''direct_deposit'') then Inr None
      else case check_reserve entry marker q w of
        Inl e \<Rightarrow> if is_caught e then Inl (ValueError ''canonical_continuation_reserve_proof_invalid'')
                 else Inl e
      | Inr _ \<Rightarrow> (case q_fee_cap q of
            None \<Rightarrow> Inl (ValueError ''canonical_continuation_reserve_proof_invalid'')
          | Some cap \<Rightarrow> Inr (Some ((cap * 12 + 9) div 10))))"

section \<open>Properties\<close>

lemma py_int_int_text [simp]: "0 \<le> i \<Longrightarrow> py_int (PStr (int_text i)) = Inr i"
  by (simp add: int_text_def)

text \<open>
  C10: the route payload made for a valid unwrap request passes the withdrawal's validation,
  and the transaction it stands for calls the canonical contract of the chain with exactly
  the requested amount.
\<close>

theorem unwrap_payload_valid:
  assumes "unwrap_route_payload digest r source_price native_price = Inr payload"
  shows "\<exists>s contract amount. get payload ''steps'' = PList [PDict s]
     \<and> weth_contract (u_from_chain r) = Some contract \<and> py_int (PStr (u_amount r)) = Inr amount
     \<and> withdraw_transaction_fields s
        = Inr (PInt (u_from_chain r), contract, ''0x2e1a7d4d'' @ rjust0 64 (hex_text (nat amount)))"
proof -
  from assms obtain amount contract where a: "py_int (PStr (u_amount r)) = Inr amount"
    and r: "is_unwrap_request r" "0 < amount" "amount < 2 ^ 256"
    and c: "weth_contract (u_from_chain r) = Some contract"
    and p: "get payload ''steps'' = PList [PDict
      (unwrap_step (digest (u_from_chain r, amount, lower (u_from r))) r amount contract
        source_price native_price)]"
    by (auto simp: unwrap_route_payload_def Let_def get_def get_default_def split: if_splits option.splits)
  have low: "lower contract = contract" "lower native_address = native_address"
    using c by (auto simp: weth_contract_def native_address_def lower_def split: if_splits; code_simp)+
  have "contract_of (PInt (u_from_chain r)) = Some contract"
    using c by (simp add: contract_of_def)
  then have "withdraw_transaction_fields
      (unwrap_step (digest (u_from_chain r, amount, lower (u_from r))) r amount contract
        source_price native_price)
      = Inr (PInt (u_from_chain r), contract, ''0x2e1a7d4d'' @ rjust0 64 (hex_text (nat amount)))"
    using r low c
    by (simp add: withdraw_transaction_fields_def unwrap_step_def Let_def nested_def get_default_def
        as_dict_def int_field_def withdraw_tests_def get_def differs_def unwrap_token_def lower_of_def
        is_str_def empty_dict_def withdraw_selector_def is_unwrap_request_def)
  with a c p show ?thesis by blast
qed

definition sample_unwrap :: unwrap_request where
  "sample_unwrap = \<lparr>u_from_chain = 10, u_to_chain = 10,
     u_from_token = ''0x4200000000000000000000000000000000000006'',
     u_to_token = ''0x0000000000000000000000000000000000000000'', u_from = ''0xA1'', u_to = ''0xa1'',
     u_amount = ''26''\<rparr>"

lemma unwrap_payload_valid_witness:
  "\<exists>payload s. unwrap_route_payload (\<lambda>_. ''id'') sample_unwrap ''3000'' ''3000'' = Inr payload
     \<and> get payload ''steps'' = PList [PDict s]
     \<and> withdraw_transaction_fields s
        = Inr (PInt 10, ''0x4200000000000000000000000000000000000006'',
            ''0x2e1a7d4d'' @ replicate 62 (CHR ''0'') @ ''1a'')"
proof -
  have amount: "py_int (PStr ''26'') = Inr 26" by code_simp
  have request: "is_unwrap_request sample_unwrap" by code_simp
  have contract: "weth_contract 10 = Some ''0x4200000000000000000000000000000000000006''"
    by (simp add: weth_contract_def)
  have data: "rjust0 64 (hex_text (nat 26)) = replicate 62 (CHR ''0'') @ ''1a''" by code_simp
  have "\<exists>payload. unwrap_route_payload (\<lambda>_. ''id'') sample_unwrap ''3000'' ''3000'' = Inr payload"
    using request amount contract by (simp add: unwrap_route_payload_def sample_unwrap_def Let_def)
  then obtain payload where p: "unwrap_route_payload (\<lambda>_. ''id'') sample_unwrap ''3000'' ''3000'' = Inr payload"
    by blast
  have fields: "u_from_chain sample_unwrap = 10" "u_amount sample_unwrap = ''26''"
    by (simp_all add: sample_unwrap_def)
  from unwrap_payload_valid [OF p, unfolded fields contract amount] p data show ?thesis by auto
qed

end
