(* ===== verification/Weth_Continuation.thy ===== *)
theory Weth_Continuation
  imports Source_Cost Weth
begin

text \<open>
  The recovery of a bridge whose wrapped-ether delivery was credited but whose unsigned
  continuation halted for gas: \<open>unsigned_delivery\<close> of \<open>weth_continuation.py\<close> correlates the
  saved intent, the delivery and the child; \<open>reactivate_unsigned_weth_continuation\<close> of
  \<open>journal.py\<close> reactivates the group when the losses fit its budget.
\<close>

section \<open>The proof of an unsigned delivery\<close>

record delivery_proof =
  v_progress_key :: string
  v_step_key :: string
  v_source_hash :: string
  v_delivery :: pyval
  v_child :: pydict

definition weth_text :: "string option \<Rightarrow> pyval" where
  "weth_text = optional_str"

definition attr_path :: "pyval \<Rightarrow> string list \<Rightarrow> pyval result" where
  "attr_path v path = fold (\<lambda>k r. bind_result r (\<lambda>x. get_attr x k)) path (Inr v)"

definition delivery_tests ::
  "pydict \<Rightarrow> pyval \<Rightarrow> pydict \<Rightarrow> pyval \<Rightarrow> step_row \<Rightarrow> position_row \<Rightarrow> group_row \<Rightarrow> pyval
     \<Rightarrow> pyval \<Rightarrow> int \<Rightarrow> string option \<Rightarrow> bool result list" where
  "delivery_tests prepared delivery child source saved p g child_group chain amount asset =
     (let a = weth_text asset; c = PDict child; wallet = lower (p_wallet p) in
      [Inr (asset = None), item_differs delivery ''asset_id'' a, item_differs delivery ''decimals'' (PInt 18),
       Inr (amount \<le> 0), Inr (s_state saved \<noteq> ''credited''), Inr (\<not> tx_present saved),
       item_differs delivery ''source_hash'' (optional_str (s_tx_hash saved)),
       bind_result (item delivery ''tx_hash'') (\<lambda>h. Inr (\<not> py_truthy h)),
       bind_result (attr_path source [''source'', ''chain_id'']) (\<lambda>x. Inr (\<not> py_eq x (PInt (g_chain g)))),
       bind_result (attr_path source [''source'', ''contract_address''])
         (\<lambda>x. Inr (\<not> py_eq x (optional_str (p_source_asset p)))),
       bind_result (attr_path source [''destination'', ''chain_id'']) (\<lambda>x.
         bind_result (attr_path source [''destination'', ''contract_address'']) (\<lambda>y.
         bind_result (attr_path source [''destination'', ''decimals'']) (\<lambda>z.
           Inr (\<not> py_eq (PTuple [x, y, z]) (PTuple [chain, a, PInt 18]))))),
       bind_result (get_attr source ''recipient'') (\<lambda>x. Inr (lower (py_str x) \<noteq> wallet)),
       bind_result (lower_item delivery ''recipient'') (\<lambda>x. Inr (x \<noteq> wallet)),
       bind_result (lower_item c ''wallet'') (\<lambda>x. Inr (x \<noteq> wallet)),
       differs (get child ''deposit_address'') (get prepared ''deposit_address''),
       bind_result (item c ''chain_id'') (\<lambda>x. bind_result (item c ''asset_id'') (\<lambda>y.
         bind_result (item c ''decimals'') (\<lambda>z. bind_result (int_item c ''raw_balance'') (\<lambda>n.
           Inr (\<not> py_eq (PTuple [x, y, z, PInt n]) (PTuple [chain, a, PInt 18, PInt amount])))))),
       differs (get child ''_actual_asset_id'') a,
       bind_result (int_field child ''_actual_balance_raw'') (\<lambda>n. Inr (n \<noteq> amount)),
       Inr (p_actual_asset p \<noteq> asset),
       bind_result (py_int (optional_str (p_actual_balance p))) (\<lambda>n. Inr (n \<noteq> amount)),
       item_differs child_group ''key'' (PStr (g_key g)),
       item_differs child_group ''source_usd'' (PStr (g_source_usd g)),
       item_differs child_group ''max_route_loss_pct'' (PStr (g_budget_pct g)),
       differs (get child ''target'') (get prepared ''target''),
       Inr (py_truthy (get child ''canonical_continuation''))])"

definition correlate ::
  "journal \<Rightarrow> position_row \<Rightarrow> pydict \<Rightarrow> string \<Rightarrow> string \<Rightarrow> pyval \<Rightarrow> pyval \<Rightarrow> pydict \<Rightarrow> step_row
     \<Rightarrow> delivery_proof option result" where
  "correlate j p prepared key progress_key source delivery child saved =
     bind_result (item delivery ''chain_id'') (\<lambda>chain.
     bind_result (int_item delivery ''amount_raw'') (\<lambda>amount.
     let asset = contract_of chain in
     bind_result (position_group j p) (\<lambda>g.
     bind_result (item (PDict child) ''group'') (\<lambda>child_group.
     bind_result (any_result (delivery_tests prepared delivery child source saved p g child_group
         chain amount asset)) (\<lambda>bad.
     if bad \<or> list_ex (\<lambda>s. s_key s \<noteq> key) (position_steps j (p_id p)) then Inr None
     else Inr (Some \<lparr>v_progress_key = progress_key, v_step_key = key,
         v_source_hash = text_or_empty (s_tx_hash saved), v_delivery = delivery, v_child = child\<rparr>))))))"

text \<open>An exception of the classes the code catches skips the step.\<close>

definition skip_caught :: "delivery_proof option result \<Rightarrow> delivery_proof option result" where
  "skip_caught r = (case r of
      Inl e \<Rightarrow> if e \<noteq> index_error \<and> is_caught e then Inr None else Inl e | Inr x \<Rightarrow> Inr x)"

definition correlate_saved ::
  "journal \<Rightarrow> position_row \<Rightarrow> pydict \<Rightarrow> string \<Rightarrow> string \<Rightarrow> pyval \<Rightarrow> pyval option \<Rightarrow> pyval
     \<Rightarrow> step_row option \<Rightarrow> delivery_proof option result" where
  "correlate_saved j p prepared key progress_key source delivery child saved =
     (case (delivery, child, saved) of
        (Some d, PDict c, Some s) \<Rightarrow>
          if \<not> py_truthy d then Inr None
          else skip_caught (correlate j p prepared key progress_key source d c s)
      | _ \<Rightarrow> Inr None)"

definition delivery_of_source ::
  "journal \<Rightarrow> position_row \<Rightarrow> pydict \<Rightarrow> string \<Rightarrow> nat \<Rightarrow> pyval \<Rightarrow> delivery_proof option result" where
  "delivery_of_source j p prepared route_id index source =
     (let key = ''bridge:'' @ route_id @ '':'' @ nat_text index;
          progress_key = ''route:bridge:'' @ route_id in
      bind_result (checkpoint j (p_id p) (''bridge_delivery:'' @ key)) (\<lambda>delivery.
      bind_result (checkpoint_dict j (p_id p) progress_key) (\<lambda>progress.
      correlate_saved j p prepared key progress_key source delivery (get progress ''continuation'')
        (latest_step j (p_id p) key))))"

fun first_some :: "('a \<Rightarrow> 'b option result) \<Rightarrow> 'a list \<Rightarrow> 'b option result" where
  "first_some f [] = Inr None"
| "first_some f (x # xs) = bind_result (f x) (\<lambda>r. case r of
      None \<Rightarrow> first_some f xs | Some y \<Rightarrow> Inr (Some y))"

fun main_steps :: "pyval list \<Rightarrow> pyval list result" where
  "main_steps [] = Inr []"
| "main_steps (s # ss) =
     bind_result (get_attr s ''is_substep'') (\<lambda>b.
     bind_result (main_steps ss) (\<lambda>rest. Inr (if py_truthy b then rest else s # rest)))"

definition delivery_of_step ::
  "journal \<Rightarrow> position_row \<Rightarrow> pydict \<Rightarrow> pyval \<Rightarrow> delivery_proof option result" where
  "delivery_of_step j p prepared s =
     bind_result (as_dict s) (\<lambda>d.
     let route = get d ''_live_route'' in
     if \<not> py_eq (get d ''kind'') (PStr ''bridge'') \<or> route = PNone then Inr None
     else bind_result (bind_result (attr_path route [''evidence'', ''steps'']) elements) (\<lambda>evidence.
       bind_result (main_steps evidence) (\<lambda>normalized.
       bind_result (get_attr route ''route_id'') (\<lambda>route_id.
       first_some (\<lambda>(i, source). delivery_of_source j p prepared (py_str route_id) i source)
         (enumerate 0 (butlast normalized))))))"

definition unsigned_delivery :: "journal \<Rightarrow> nat \<Rightarrow> delivery_proof option result" where
  "unsigned_delivery j pid =
     bind_result (position j pid) (\<lambda>p.
     bind_result (checkpoint_dict j pid ''prepared'') (\<lambda>prepared.
     if \<not> py_truthy (get prepared ''automatic_requote'') then Inr None
     else bind_result (elements (get_default prepared ''steps'' (PList []))) (\<lambda>items.
       first_some (delivery_of_step j p prepared) items)))"

section \<open>Reactivation\<close>

definition gas_reserve_reason :: string where
  "gas_reserve_reason = ''insufficient native balance for gas reserve:''"

text \<open>
  \<open>accrued + paid <= source * pct / 100\<close> in the default context; the division by 100 has a
  non-zero divisor.
\<close>

definition fits_budget :: "group_row \<Rightarrow> fdec \<Rightarrow> bool result" where
  "fits_budget g accrued =
     bind_result (number_of (g_source_usd g)) (\<lambda>source.
     bind_result (number_of (g_budget_pct g)) (\<lambda>pct.
     bind_result (dec_div default_prec (dec_mul default_prec source pct) (dec_of_int 100)) (\<lambda>budget.
     bind_result (number_of (g_realized_usd g)) (\<lambda>paid.
     Inr (\<not> dec_less accrued (dec_of_int 0)
        \<and> \<not> dec_less budget (dec_add default_prec accrued paid))))))"

definition recovery_payload :: "group_row \<Rightarrow> string \<Rightarrow> delivery_proof \<Rightarrow> pydict" where
  "recovery_payload g reason v =
     [(''reason'', PStr reason), (''source_hash'', PStr (v_source_hash v)),
      (''progress_key'', PStr (v_progress_key v)), (''delivery'', v_delivery v),
      (''original_budget_pct'', PStr (g_budget_pct g)),
      (''original_source_usd'', PStr (g_source_usd g)),
      (''paid_group_loss_usd'', PStr (g_realized_usd g))]"

definition recoverable :: "journal \<Rightarrow> group_row \<Rightarrow> string set \<Rightarrow> position_row option" where
  "recoverable j g keys =
     (let rows = group_rows j (g_id g); reason = text_or_empty (g_reason g) in
      case filter (\<lambda>p. p_state p \<noteq> ''completed'') rows of
        [p] \<Rightarrow>
          if g_state g \<noteq> ''manual_review_group_halted'' \<or> \<not> starts_with gas_reserve_reason reason
             \<or> set (map p_key rows) \<noteq> keys \<or> p_state p \<noteq> ''manual_review''
             \<or> p_reason p \<noteq> Some reason \<or> p_loss_usd p \<noteq> None
          then None else Some p
      | _ \<Rightarrow> None)"

definition recover_continuation ::
  "group_row \<Rightarrow> nat \<Rightarrow> delivery_proof \<Rightarrow> journal \<Rightarrow> journal result" where
  "recover_continuation g pid v j =
     bind_result (json_value (PDict (recovery_payload g (text_or_empty (g_reason g)) v))) (\<lambda>e.
     Inr (upd_group (g_id g) (\<lambda>r. r\<lparr>g_state := ''active'', g_reason := None\<rparr>)
            (upd_position pid (\<lambda>r. r\<lparr>p_state := ''bridge_submitted'', p_reason := None\<rparr>)
              (put_checkpoint pid ''canonical_recovery'' e j))))"

definition recover_within_budget ::
  "group_row \<Rightarrow> nat \<Rightarrow> delivery_proof \<Rightarrow> journal \<Rightarrow> (bool \<times> journal) result" where
  "recover_within_budget g pid v j =
     (case decimal_text (get (v_child v) ''_realized_loss_before_current_usd'')
             ''accrued continuation loss'' of
        Inl _ \<Rightarrow> Inr (False, j)
      | Inr t \<Rightarrow>
          bind_result (number_of t) (\<lambda>accrued.
          bind_result (fits_budget g accrued) (\<lambda>ok.
          if \<not> ok then Inr (False, j)
          else bind_result (recover_continuation g pid v j) (\<lambda>k. Inr (True, k)))))"

definition reactivate_unsigned_weth_continuation ::
  "nat \<Rightarrow> string set \<Rightarrow> journal \<Rightarrow> (bool \<times> journal) result" where
  "reactivate_unsigned_weth_continuation gid keys j =
     bind_result (group j gid) (\<lambda>g.
     case recoverable j g keys of
       None \<Rightarrow> Inr (False, j)
     | Some p \<Rightarrow>
         bind_result (unsigned_delivery j (p_id p)) (\<lambda>found. case found of
           None \<Rightarrow> Inr (False, j)
         | Some v \<Rightarrow> recover_within_budget g (p_id p) v j))"

section \<open>Facts\<close>

lemma sound_recover_continuation: "recover_continuation g pid v j = Inr k \<Longrightarrow> sound j k"
proof -
  assume "recover_continuation g pid v j = Inr k"
  then obtain e where k: "k = upd_group (g_id g) (\<lambda>r. r\<lparr>g_state := ''active'', g_reason := None\<rparr>)
      (upd_position pid (\<lambda>r. r\<lparr>p_state := ''bridge_submitted'', p_reason := None\<rparr>)
        (put_checkpoint pid ''canonical_recovery'' e j))"
    by (auto simp: recover_continuation_def)
  let ?j1 = "put_checkpoint pid ''canonical_recovery'' e j"
  have "sound j ?j1" by (rule sound_put_checkpoint)
  also have "sound ?j1 (upd_position pid (\<lambda>r. r\<lparr>p_state := ''bridge_submitted'', p_reason := None\<rparr>) ?j1)"
    by (intro sound_upd_position)
      (auto simp: position_ok_def position_evolves_def position_transitions_def)
  also have "sound \<dots> k" unfolding k
    by (intro sound_upd_group) (auto simp: group_ok_def group_evolves_def group_states_def)
  finally show ?thesis .
qed

lemma recover_within_budgetE:
  assumes "recover_within_budget g pid v j = Inr (b, k)"
  obtains "\<not> b" "k = j"
    | t accrued where "b"
      "decimal_text (get (v_child v) ''_realized_loss_before_current_usd'')
         ''accrued continuation loss'' = Inr t"
      "number_of t = Inr accrued" "fits_budget g accrued = Inr True"
      "recover_continuation g pid v j = Inr k"
proof (cases "decimal_text (get (v_child v) ''_realized_loss_before_current_usd'')
    ''accrued continuation loss''")
  case (Inl e)
  with assms that(1) show thesis by (auto simp: recover_within_budget_def)
next
  case (Inr t)
  with assms obtain accrued ok where "number_of t = Inr accrued" "fits_budget g accrued = Inr ok"
    "(if \<not> ok then Inr (False, j) else bind_result (recover_continuation g pid v j) (\<lambda>k. Inr (True, k)))
      = Inr (b, k)"
    by (auto simp: recover_within_budget_def)
  with that Inr show thesis by (cases ok) auto
qed

lemma weth_recovery_cases:
  assumes "reactivate_unsigned_weth_continuation gid keys j = Inr (b, k)"
  obtains "\<not> b" "k = j"
    | g p v where "group j gid = Inr g" "recoverable j g keys = Some p"
      "unsigned_delivery j (p_id p) = Inr (Some v)" "recover_within_budget g (p_id p) v j = Inr (b, k)"
proof -
  from assms obtain g where g: "group j gid = Inr g"
    by (auto simp: reactivate_unsigned_weth_continuation_def)
  show thesis
  proof (cases "recoverable j g keys")
    case None
    with assms g that(1) show thesis by (auto simp: reactivate_unsigned_weth_continuation_def)
  next
    case (Some p)
    with assms g obtain found where f: "unsigned_delivery j (p_id p) = Inr found"
      by (auto simp: reactivate_unsigned_weth_continuation_def)
    with assms g Some that show thesis
      by (cases found) (auto simp: reactivate_unsigned_weth_continuation_def)
  qed
qed

lemma sound_reactivate_unsigned_weth_continuation [sound_intros]:
  assumes "reactivate_unsigned_weth_continuation gid keys j = Inr (b, k)"
  shows "sound j k"
  using assms
  by (elim weth_recovery_cases recover_within_budgetE)
    (simp_all add: sound_recover_continuation)

lemma first_someD: "first_some f xs = Inr (Some y) \<Longrightarrow> \<exists>x \<in> set xs. f x = Inr (Some y)"
  by (induction xs) (auto split: option.splits)

lemma skip_caught_Some: "skip_caught r = Inr (Some v) \<longleftrightarrow> r = Inr (Some v)"
  by (auto simp: skip_caught_def split: sum.split)

text \<open>What a found delivery guarantees about the journal.\<close>

lemma unsigned_deliveryE:
  assumes "unsigned_delivery j pid = Inr (Some v)"
  obtains p saved where "position j pid = Inr p" "latest_step j pid (v_step_key v) = Some saved"
    "s_state saved = ''credited''" "s_tx_hash saved = Some (v_source_hash v)" "v_source_hash v \<noteq> []"
    "\<forall>s \<in> set (position_steps j pid). s_key s = v_step_key v"
proof -
  from assms obtain p prepared items where p: "position j pid = Inr p"
    and "first_some (delivery_of_step j p prepared) items = Inr (Some v)"
    by (auto simp: unsigned_delivery_def split: if_splits)
  then obtain s where "delivery_of_step j p prepared s = Inr (Some v)"
    by (blast dest: first_someD)
  then obtain route_id sources where
    "first_some (\<lambda>(i, source). delivery_of_source j p prepared route_id i source) sources = Inr (Some v)"
    by (auto simp: delivery_of_step_def Let_def split: if_splits)
  then obtain i source where "delivery_of_source j p prepared route_id i source = Inr (Some v)"
    by (auto dest!: first_someD)
  then obtain key progress delivery child where
    "correlate_saved j p prepared key progress source delivery child (latest_step j (p_id p) key)
      = Inr (Some v)"
    by (auto simp: delivery_of_source_def Let_def)
  then obtain d child saved where saved: "latest_step j (p_id p) key = Some saved"
    and c: "correlate j p prepared key progress source d child saved = Inr (Some v)"
    by (auto simp: correlate_saved_def skip_caught_Some
        split: option.splits pyval.splits if_splits)
  from c have v: "v_step_key v = key" "v_source_hash v = text_or_empty (s_tx_hash saved)"
      "s_state saved = ''credited''" "tx_present saved"
      "\<forall>s \<in> set (position_steps j (p_id p)). s_key s = key"
    by (auto simp: correlate_def Let_def any_result_False delivery_tests_def list_ex_iff split: if_splits)
  then show thesis
    using saved positionD [OF p] p
    by (intro that [of p saved]) (auto simp: tx_present_def text_or_empty_def split: option.splits)
qed

end
