(* ===== verification/Journal_Machine.thy ===== *)
theory Journal_Machine
  imports Weth_Continuation
begin

text \<open>
  The journal as a state machine: one rule per operation of the class \<open>Journal\<close> that
  writes, for any arguments a caller may pass. A call that raises leaves the journal as it
  was and is no step. Every journal that an empty database can reach is well-formed, and
  rows only evolve.
\<close>

section \<open>Steps\<close>

inductive jstep :: "journal \<Rightarrow> journal \<Rightarrow> bool" where
  create_operation: "create_operation wallet action j = (i, k) \<Longrightarrow> jstep j k"
| transaction: "jstep j (record_transaction i h j)"
| deposit_status: "jstep j (record_deposit_status i status reason j)"
| deferred: "jstep j (record_deferred i text j)"
| approval_hash: "jstep j (record_approval_hash i h j)"
| approval_route_deferred: "jstep j (record_approval_completed_route_deferred i h text j)"
| create_group: "get_or_create_group key wallet chain budget source j = Inr (g, k) \<Longrightarrow> jstep j k"
| direct_deposit: "reactivate_known_direct_deposit gid key j = (b, k) \<Longrightarrow> jstep j k"
| legacy_deferral: "reactivate_legacy_gas_deferral gid key j = (b, k) \<Longrightarrow> jstep j k"
| retry_group: "reactivate_unsigned_retry_group gid keys j = Inr (b, k) \<Longrightarrow> jstep j k"
| weth_continuation: "reactivate_unsigned_weth_continuation gid keys j = Inr (b, k) \<Longrightarrow> jstep j k"
| group_projection: "record_group_projection gid loss pct j = Inr k \<Longrightarrow> jstep j k"
| realized_loss: "record_group_realized_loss gid loss j = Inr k \<Longrightarrow> jstep j k"
| source_conversion: "checkpoint_source_conversion pid result j = Inr (t, k) \<Longrightarrow> jstep j k"
| position_loss: "account_position_loss pid loss j = Inr (t, k) \<Longrightarrow> jstep j k"
| group_state: "record_group_state gid state reason j = Inr k \<Longrightarrow> jstep j k"
| create_position: "get_or_create_position key wallet gid' asset amount j = Inr (p, k) \<Longrightarrow> jstep j k"
| position_state: "record_position_state pid state asset balance reason j = Inr k \<Longrightarrow> jstep j k"
| requote_swap:
    "record_requote_after_swap pid r h r' h' input a reason j = Inr (i, k) \<Longrightarrow> jstep j k"
| requote_bridge: "record_requote_after_bridge pid r h r' h' input a j = Inr (i, k) \<Longrightarrow> jstep j k"
| step_intent: "record_step_intent pid key nonce calldata payload tx j = Inr (s, k) \<Longrightarrow> jstep j k"
| broadcast: "record_broadcast_attempt sid h j = Inr k \<Longrightarrow> jstep j k"
| receipt: "record_receipt sid status finality j = Inr k \<Longrightarrow> jstep j k"
| baseline: "record_balance_baseline sid bal delta j = Inr k \<Longrightarrow> jstep j k"
| timeout: "record_timeout_report sid report j = Inr k \<Longrightarrow> jstep j k"
| step_state: "record_step_state sid state j = Inr k \<Longrightarrow> jstep j k"
| checkpoint: "save_checkpoint pid key v j = Inr k \<Longrightarrow> jstep j k"

definition reachable :: "journal \<Rightarrow> bool" where
  "reachable j \<longleftrightarrow> jstep\<^sup>*\<^sup>* empty_journal j"

lemma jstep_sound: "jstep j k \<Longrightarrow> sound j k"
proof (induction rule: jstep.induct)
  case (create_operation wallet action j i k)
  then show ?case using sound_create_operation [of j wallet action] by simp
qed (simp_all add: operation_updates sound_update_operation, (blast intro: sound_intros)+)

lemma jsteps_sound: "jstep\<^sup>*\<^sup>* j k \<Longrightarrow> sound j k"
  by (induction rule: rtranclp_induct) (auto intro: sound_trans jstep_sound)

lemma jsteps_evolve: "jstep\<^sup>*\<^sup>* j k \<Longrightarrow> journal_ok j \<Longrightarrow> journal_evolves j k"
  using jsteps_sound by (auto simp: sound_def)

text \<open>The same invariant, stated without the relation for use below.\<close>

lemma reachable_journal_ok: "reachable j \<Longrightarrow> journal_ok j"
  using jsteps_sound [of empty_journal j] empty_journal_ok
  by (simp add: reachable_def sound_def)

lemma reachable_step_ok: "reachable j \<Longrightarrow> s \<in> set (steps j) \<Longrightarrow> step_ok s"
  using reachable_journal_ok by (auto simp: journal_ok_def list_all_iff)

lemma reachable_trans: "reachable j \<Longrightarrow> jstep\<^sup>*\<^sup>* j k \<Longrightarrow> reachable k"
  by (simp add: reachable_def)

lemma reachable_step: "reachable j \<Longrightarrow> jstep j k \<Longrightarrow> reachable k"
  by (simp add: reachable_def rtranclp.rtrancl_into_rtrancl)

lemma reachable_empty: "reachable empty_journal"
  by (simp add: reachable_def)

section \<open>A concrete run\<close>

text \<open>
  A position is created, its step's intent saved without a hash, a broadcast attempted,
  a receipt recorded.
\<close>

definition sample_position :: journal where
  "sample_position =
     snd (projr (get_or_create_position ''g:usdc'' ''0xAB'' None (Some ''0xusdc'') None empty_journal))"

definition sample_planned :: journal where
  "sample_planned =
     snd (projr (record_step_intent 1 ''bridge:r:0'' 7 ''c0'' ''d0'' None sample_position))"

definition sample_submitted :: journal where
  "sample_submitted = projr (record_broadcast_attempt 1 ''0xh'' sample_planned)"

definition sample_confirmed :: journal where
  "sample_confirmed = projr (record_receipt 1 ''confirmed'' (Some 12) sample_submitted)"

lemma sample_run:
  "get_or_create_position ''g:usdc'' ''0xAB'' None (Some ''0xusdc'') None empty_journal
     = Inr (hd (positions sample_position), sample_position)"
  "record_step_intent 1 ''bridge:r:0'' 7 ''c0'' ''d0'' None sample_position
     = Inr (hd (steps sample_planned), sample_planned)"
  "record_broadcast_attempt 1 ''0xh'' sample_planned = Inr sample_submitted"
  "record_receipt 1 ''confirmed'' (Some 12) sample_submitted = Inr sample_confirmed"
  by code_simp+

lemma sample_reachable:
  "reachable sample_position" "reachable sample_planned" "reachable sample_submitted"
  "reachable sample_confirmed" "jstep\<^sup>*\<^sup>* sample_submitted sample_confirmed"
proof -
  have p: "reachable sample_position"
    using reachable_empty sample_run(1) by (blast intro: reachable_step jstep.create_position)
  have q: "reachable sample_planned"
    using p sample_run(2) by (blast intro: reachable_step jstep.step_intent)
  have s: "reachable sample_submitted"
    using q sample_run(3) by (blast intro: reachable_step jstep.broadcast)
  have c: "jstep sample_submitted sample_confirmed"
    using sample_run(4) by (blast intro: jstep.receipt)
  show "reachable sample_position" "reachable sample_planned" "reachable sample_submitted"
    "reachable sample_confirmed" "jstep\<^sup>*\<^sup>* sample_submitted sample_confirmed"
    using p q s c reachable_step by auto
qed

end
