(* ===== verification/Journal_Properties.thy ===== *)
theory Journal_Properties
  imports Journal_Machine
begin

text \<open>
  What the journal guarantees to its callers, over every run of the program: rows persist
  and evolve, transaction hashes are written once, an intent is durable and unique per
  nonce, a position is requoted once after its swap, amounts are stored exactly.
\<close>

section \<open>Invariants of every reachable journal\<close>

text \<open>
  C1: every journal that the operations can reach from an empty database is well-formed:
  primary keys, group and position keys, step identities and checkpoint keys are unique,
  states are known states, money columns hold non-negative amounts, a planned step has no
  transaction hash, and a broadcast was attempted under a saved hash only.
\<close>

theorem reachable_well_formed: "reachable j \<Longrightarrow> journal_ok j"
  by (rule reachable_journal_ok)

lemma reachable_well_formed_witness: "journal_ok sample_confirmed"
  by (rule reachable_well_formed) (rule sample_reachable)

text \<open>
  C7: along any run no row of any table is removed and rows keep their identity: operations keep
  wallet and action, and a hash of theirs that is set stays set; the losses of positions only grow,
  the attempts of steps are not taken back, balance baselines are written once, step states follow
  the transition table, events are only appended, and a checkpoint that is saved stays under its
  key.
\<close>

theorem rows_persist: "reachable j \<Longrightarrow> jstep\<^sup>*\<^sup>* j k \<Longrightarrow> journal_evolves j k"
  by (rule jsteps_evolve [OF _ reachable_journal_ok])

lemma rows_persist_witness: "journal_evolves sample_submitted sample_confirmed"
  by (rule rows_persist) (rule sample_reachable)+

lemma steps_evolve:
  assumes "reachable j" "jstep\<^sup>*\<^sup>* j k" "s \<in> set (steps j)"
  obtains t where "t \<in> set (steps k)" "step_evolves s t"
proof -
  have "rows_evolve step_evolves (steps j) (steps k)"
    using jsteps_evolve [OF assms(2) reachable_journal_ok [OF assms(1)]]
    by (simp add: journal_evolves_def)
  from se.evolve_row [OF this assms(3)] that show thesis by blast
qed

text \<open>
  C4: a transaction hash that the journal holds for a step is never erased or replaced, in
  any continuation of the run; the step keeps its nonce, calldata and payload digests.
\<close>

theorem hash_written_once:
  assumes "reachable j" "jstep\<^sup>*\<^sup>* j k" "s \<in> set (steps j)" "s_tx_hash s = Some h"
  shows "\<exists>t \<in> set (steps k). s_id t = s_id s \<and> s_tx_hash t = Some h \<and> s_nonce t = s_nonce s
    \<and> s_calldata t = s_calldata s \<and> s_payload t = s_payload s"
proof -
  obtain t where "t \<in> set (steps k)" "step_evolves s t" by (rule steps_evolve [OF assms(1-3)])
  with assms(4) show ?thesis by (auto simp: step_evolves_def)
qed

lemma sample_hash:
  "hd (steps sample_submitted) \<in> set (steps sample_submitted)"
  "s_tx_hash (hd (steps sample_submitted)) = Some ''0xh''" "s_id (hd (steps sample_submitted)) = 1"
  by code_simp+

lemma hash_written_once_witness:
  "\<exists>t \<in> set (steps sample_confirmed). s_id t = 1 \<and> s_tx_hash t = Some ''0xh''"
  using hash_written_once [OF sample_reachable(3,5) sample_hash(1,2)] sample_hash(3) by auto

text \<open>
  In every reachable journal a broadcast has been attempted only for a step whose
  transaction hash is durable, and a step still planned has none.
\<close>

theorem attempt_has_durable_hash:
  assumes "reachable j" "s \<in> set (steps j)"
  shows "(0 < s_attempts s \<longrightarrow> s_tx_hash s \<noteq> None) \<and> (s_state s = ''planned'' \<longrightarrow> s_tx_hash s = None)"
  using reachable_step_ok [OF assms] by (simp add: step_ok_def)

lemma attempt_has_durable_hash_witness:
  "0 < s_attempts (hd (steps sample_submitted)) \<and> s_tx_hash (hd (steps sample_submitted)) \<noteq> None"
proof -
  have "0 < s_attempts (hd (steps sample_submitted))" by code_simp
  with attempt_has_durable_hash [OF sample_reachable(3) sample_hash(1)] show ?thesis by blast
qed

text \<open>
  A reachable journal holds at most one step per position, step key and nonce, hence at
  most one transaction hash for it.
\<close>

theorem one_step_per_nonce:
  assumes "reachable j" "s \<in> set (steps j)" "t \<in> set (steps j)"
    and "s_position s = s_position t" "s_key s = s_key t" "s_nonce s = s_nonce t"
  shows "s = t"
  using assms by (intro identity_unique [OF reachable_journal_ok]) (simp_all add: step_identity_def)

lemma one_step_per_nonce_witness: "last (steps sample_confirmed) = hd (steps sample_confirmed)"
proof -
  have "steps sample_confirmed \<noteq> []" by code_simp
  then have mem: "last (steps sample_confirmed) \<in> set (steps sample_confirmed)"
    "hd (steps sample_confirmed) \<in> set (steps sample_confirmed)" by simp_all
  show ?thesis by (rule one_step_per_nonce [OF sample_reachable(4) mem]) code_simp+
qed

text \<open>
  No run requotes the bridge of a position more than once after its source swap.
\<close>

theorem single_swap_requote:
  assumes "reachable j"
  shows "length (filter (\<lambda>e. e_position e = pid \<and> e_type e = ''requote_after_swap'') (events j)) \<le> 1"
proof -
  let ?es = "filter (\<lambda>e. e_type e = ''requote_after_swap'') (events j)"
  have "distinct (map e_position ?es)"
    using reachable_journal_ok [OF assms] by (simp add: journal_ok_def keys_ok_def swap_requotes_def)
  then have "length (filter (\<lambda>e. e_position e = pid) ?es) \<le> 1"
    by (rule distinct_filter_one)
  moreover have "filter (\<lambda>e. e_position e = pid) ?es
      = filter (\<lambda>e. e_position e = pid \<and> e_type e = ''requote_after_swap'') (events j)"
    by (simp add: conj_commute)
  ultimately show ?thesis by simp
qed

lemma single_swap_requote_witness:
  "length (filter (\<lambda>e. e_position e = 1 \<and> e_type e = ''requote_after_swap'') (events sample_confirmed)) \<le> 1"
  by (rule single_swap_requote) (rule sample_reachable)

lemma terminal_moves:
  "(may_move step_transitions)\<^sup>*\<^sup>* a b \<Longrightarrow> terminal step_transitions a \<Longrightarrow> b = a"
  by (induction rule: rtranclp_induct) (auto simp: may_move_def terminal_def)

text \<open>
  A step that has reached a final state (credited, completed, reverted, failed or under
  manual review) stays in it forever.
\<close>

theorem final_step_state:
  assumes "reachable j" "jstep\<^sup>*\<^sup>* j k" "s \<in> set (steps j)" "terminal step_transitions (s_state s)"
  shows "\<exists>t \<in> set (steps k). s_id t = s_id s \<and> s_state t = s_state s"
proof -
  obtain t where "t \<in> set (steps k)" "step_evolves s t" by (rule steps_evolve [OF assms(1-3)])
  with assms(4) terminal_moves show ?thesis by (auto simp: step_evolves_def)
qed

definition sample_reverted :: journal where
  "sample_reverted = projr (record_receipt 1 ''reverted'' (Some 12) sample_submitted)"

lemma sample_reverted_facts:
  "record_receipt 1 ''reverted'' (Some 12) sample_submitted = Inr sample_reverted"
  "hd (steps sample_reverted) \<in> set (steps sample_reverted)"
  "s_state (hd (steps sample_reverted)) = ''reverted''" "terminal step_transitions ''reverted''"
  by code_simp+

lemma final_step_state_witness:
  "\<exists>t \<in> set (steps sample_reverted). s_state t = ''reverted''"
proof -
  have "reachable sample_reverted"
    using sample_reachable(3) sample_reverted_facts(1) by (blast intro: reachable_step jstep.receipt)
  from final_step_state [OF this rtranclp.rtrancl_refl sample_reverted_facts(2)]
  show ?thesis using sample_reverted_facts(3,4) by auto
qed

section \<open>Intents\<close>

text \<open>
  Recording a step intent is idempotent: repeating the call that has succeeded returns
  the same row and changes nothing.
\<close>

theorem step_intent_idempotent:
  assumes "reachable j" and run: "record_step_intent pid key nonce calldata payload tx j = Inr (s, k)"
  shows "record_step_intent pid key nonce calldata payload tx k = Inr (s, k)"
proof -
  note ok = reachable_journal_ok [OF assms(1)]
  have okk: "journal_ok k" using sound_record_step_intent [OF run] ok by (simp add: sound_def)
  note s = recorded_step [OF run ok]
  have args: "key \<noteq> []" "0 \<le> nonce" "calldata \<noteq> []" "payload \<noteq> []"
    using run by (auto simp: record_step_intent_def split: if_splits)
  have ins: "insert_step pid key nonce calldata payload k = k"
    using s by (auto simp: insert_step_def list_ex_iff)
  have "find_step k pid key nonce \<noteq> None"
    using s by (auto simp: find_step_def select_one_None_iff)
  then obtain t where t: "find_step k pid key nonce = Some t" by blast
  then have "t \<in> set (steps k)" "step_identity t = step_identity s"
    using s by (auto simp: find_step_def step_identity_def dest: select_one_SomeD)
  with identity_unique [OF okk] s have "t = s" by blast
  with t ins s args show ?thesis
    by (cases tx) (auto simp: record_step_intent_def Let_def)
qed

lemma step_intent_idempotent_witness:
  "record_step_intent 1 ''bridge:r:0'' 7 ''c0'' ''d0'' None sample_planned
     = Inr (hd (steps sample_planned), sample_planned)"
  by (rule step_intent_idempotent [OF sample_reachable(1) sample_run(2)])

text \<open>
  An intent whose calldata or signed payload differs from the durable one for the same
  position, step key and nonce is refused, as is a different transaction hash.
\<close>

theorem conflicting_intent_refused:
  assumes "find_step j pid key nonce = Some r" "key \<noteq> []" "0 \<le> nonce" "calldata \<noteq> []" "payload \<noteq> []"
  shows "(s_calldata r \<noteq> calldata \<or> s_payload r \<noteq> payload
      \<longrightarrow> record_step_intent pid key nonce calldata payload tx j
          = Inl (ValueError ''conflicting durable step intent''))
    \<and> (s_calldata r = calldata \<and> s_payload r = payload \<and> s_tx_hash r = Some h \<and> h' \<noteq> h
      \<longrightarrow> record_step_intent pid key nonce calldata payload (Some h') j
          = Inl (ValueError ''conflicting durable transaction hash''))"
proof -
  have "insert_step pid key nonce calldata payload j = j"
    using assms(1) by (auto simp: insert_step_def list_ex_iff find_step_def dest: select_one_SomeD)
  with assms show ?thesis by (auto simp: record_step_intent_def Let_def)
qed

lemma conflicting_intent_refused_witness:
  "record_step_intent 1 ''bridge:r:0'' 7 ''c1'' ''d0'' None sample_planned
     = Inl (ValueError ''conflicting durable step intent'')"
proof -
  have "find_step sample_planned 1 ''bridge:r:0'' 7 = Some (hd (steps sample_planned))"
    "s_calldata (hd (steps sample_planned)) = ''c0''" by code_simp+
  from conflicting_intent_refused [OF this(1), of "''c1''" "''d0''"] this(2) show ?thesis by simp
qed

section \<open>Groups\<close>

text \<open>
  \<open>record_group_state\<close> never moves a group that is completed or halted for manual review:
  any other state is refused for such a group.
\<close>

theorem halted_group_stays:
  assumes "group j gid = Inr g" "terminal group_transitions (g_state g)" "state \<noteq> g_state g"
  shows "\<exists>message. record_group_state gid state reason j = Inl (ValueError message)"
  using assms by (auto simp: record_group_state_def may_move_def terminal_def)

lemma halted_group_stays_witness:
  "\<exists>message. record_group_state 1 ''active'' None
      (set_group_state 1 ''completed'' one_position_journal) = Inl (ValueError message)"
  by (rule halted_group_stays [where g = "(hd (groups one_position_journal))\<lparr>g_state := ''completed''\<rparr>"])
    code_simp+








text \<open>
  The recovery of a wrapped-ether continuation reactivates a group only for a bridge
  whose credited step is the position's only intent and carries a transaction hash, with
  no loss accounted yet for the position; the position then waits for its bridge again.
\<close>

lemma weth_recovery_correlated:
  assumes "reactivate_unsigned_weth_continuation gid keys j = Inr (True, k)"
  shows "\<exists>p saved. p \<in> set (group_rows j gid) \<and> p_state p = ''manual_review'' \<and> p_loss_usd p = None
    \<and> latest_step j (p_id p) (s_key saved) = Some saved \<and> s_state saved = ''credited'' \<and> tx_present saved
    \<and> (\<forall>s \<in> set (position_steps j (p_id p)). s_key s = s_key saved)
    \<and> (\<exists>q. position k (p_id p) = Inr q \<and> p_state q = ''bridge_submitted'')"
proof -
  from assms obtain g p v where g: "group j gid = Inr g" and rec: "recoverable j g keys = Some p"
    and d: "unsigned_delivery j (p_id p) = Inr (Some v)"
    and w: "recover_within_budget g (p_id p) v j = Inr (True, k)"
    by (auto elim: weth_recovery_cases)
  have f: "filter (\<lambda>p. p_state p \<noteq> ''completed'') (group_rows j (g_id g)) = [p]"
    and p: "p_state p = ''manual_review''" "p_loss_usd p = None"
    using rec by (auto simp: recoverable_def Let_def split: list.splits if_splits)
  have "p \<in> set (filter (\<lambda>p. p_state p \<noteq> ''completed'') (group_rows j (g_id g)))"
    unfolding f by simp
  with groupD [OF g] have mem: "p \<in> set (group_rows j gid)" by simp
  obtain q saved where q: "position j (p_id p) = Inr q"
    and s: "latest_step j (p_id p) (v_step_key v) = Some saved" "s_state saved = ''credited''"
      "s_tx_hash saved = Some (v_source_hash v)" "v_source_hash v \<noteq> []"
      "\<forall>s \<in> set (position_steps j (p_id p)). s_key s = v_step_key v"
    by (rule unsigned_deliveryE [OF d])
  have key: "s_key saved = v_step_key v" using s(1) by (auto simp: latest_step_def dest: select_last_SomeD)
  from w have "recover_continuation g (p_id p) v j = Inr k" by (auto elim: recover_within_budgetE)
  then have "position k (p_id p) = Inr (q\<lparr>p_state := ''bridge_submitted'', p_reason := None\<rparr>)"
    using q by (auto simp: recover_continuation_def table_simps)
  with mem p s key show ?thesis by (intro exI [of _ p] exI [of _ saved]) (simp add: tx_present_def)
qed

section \<open>Amounts\<close>

text \<open>
  An amount of at most 28 significant digits is stored exactly: the validated text
  denotes the same number.
\<close>

theorem decimal_text_exact:
  assumes "to_decimal v = Some (Some (Number d))" "0 \<le> dec_value d" "ndigits (coeff d) \<le> 28"
  shows "\<exists>t. decimal_text v field = Inr t \<and> text_value t = dec_value d"
proof -
  have fits: "dec_fix default_prec d = d" using assms(3) by (simp add: default_prec_def)
  have "\<not> dec_less d (dec_of_int 0)" using assms(2) by (simp add: dec_compare_values)
  then obtain t where t: "decimal_text v field = Inr t"
    using assms(1) by (auto simp: decimal_text_def)
  from decimal_textE [OF this] assms(1) fits have "text_value t = dec_value d" by auto
  with t show ?thesis by blast
qed

lemma parse_sample: "to_decimal (PStr ''12.500'') = Some (Some (Number (Fin False 12500 (- 3))))"
  using parse_plain [of "''12''" "''500''" False]
  by (simp add: plain_text_def all_digits_def is_digit_def code_of_def digits_val_def digit_val_def)

lemma decimal_text_exact_witness:
  "\<exists>t. decimal_text (PStr ''12.500'') ''loss'' = Inr t \<and> text_value t = dec_value (Fin False 12500 (- 3))"
  by (rule decimal_text_exact [OF parse_sample]) (simp_all add: dec_value_def scoeff_def ndigits_rec)

lemma parse_long:
  "parse_decimal ''1.00000000000000000000000000001''
     = Some (Number (Fin False 100000000000000000000000000001 (- 29)))"
  using parse_plain [of "''1''" "''00000000000000000000000000001''" False]
  by (simp add: plain_text_def all_digits_def is_digit_def code_of_def digits_val_def digit_val_def)

text \<open>
  A longer amount is not refused but rounded to 28 significant digits: a loss of
  \<open>1.00000000000000000000000000001\<close> is stored as \<open>1\<close>.
\<close>

theorem decimal_text_rounds:
  "decimal_text (PStr ''1.00000000000000000000000000001'') ''position realised loss'' = Inr ''1''"
proof -
  have n: "ndigits 100000000000000000000000000001 = 30" by (simp add: ndigits_rec)
  have f: "dec_fix 28 (Fin False 100000000000000000000000000001 (- 29))
      = Fin False 1000000000000000000000000000 (- 27)"
    by (simp add: dec_fix_def n round_half_even_def Let_def ndigits_rec)
  have "normalize default_prec (Fin False 100000000000000000000000000001 (- 29)) = Fin False 1 0"
    by (simp add: normalize_def default_prec_def f strip_zeros.simps)
  moreover have "format_f (Fin False 1 0) = ''1''" by code_simp
  ultimately show ?thesis
    by (simp add: decimal_text_def parse_long dec_nonzero_def dec_compare_values dec_value_def
        scoeff_def dec_of_int_def)
qed

end
