(* ===== verification/Effects.thy ===== *)
theory Effects
  imports Py_Values
begin

text \<open>
  Operations that change state and may raise: an action takes a state and returns a result
  and the new state. An exception keeps the state written before it, as in the code.
\<close>

type_synonym ('s, 'a) action = "'s \<Rightarrow> 'a result \<times> 's"

definition give :: "'a \<Rightarrow> ('s, 'a) action" where
  "give x s = (Inr x, s)"

definition throw :: "exn \<Rightarrow> ('s, 'a) action" where
  "throw e s = (Inl e, s)"

definition bind_act :: "('s, 'a) action \<Rightarrow> ('a \<Rightarrow> ('s, 'b) action) \<Rightarrow> ('s, 'b) action" where
  "bind_act m f s = (case m s of (Inl e, t) \<Rightarrow> (Inl e, t) | (Inr x, t) \<Rightarrow> f x t)"

text \<open>A pure computation, and \<open>try: m except: h\<close>.\<close>

definition lift :: "'a result \<Rightarrow> ('s, 'a) action" where
  "lift r s = (r, s)"

definition handle :: "('s, 'a) action \<Rightarrow> (exn \<Rightarrow> ('s, 'a) action) \<Rightarrow> ('s, 'a) action" where
  "handle m h s = (case m s of (Inl e, t) \<Rightarrow> h e t | (Inr x, t) \<Rightarrow> (Inr x, t))"

text \<open>\<open>try: m except: h else: k\<close>.\<close>

definition try_else ::
  "('s, 'a) action \<Rightarrow> (exn \<Rightarrow> ('s, 'b) action) \<Rightarrow> ('a \<Rightarrow> ('s, 'b) action) \<Rightarrow> ('s, 'b) action" where
  "try_else m h k s = (case m s of (Inl e, t) \<Rightarrow> h e t | (Inr x, t) \<Rightarrow> k x t)"

lemma act_simps [simp]:
  "give x s = (Inr x, s)" "throw e s = (Inl e, s)" "lift r s = (r, s)"
  by (simp_all add: give_def throw_def lift_def)

lemma bind_act_Inr [simp]:
  "bind_act m f s = (Inr y, t) \<longleftrightarrow> (\<exists>x u. m s = (Inr x, u) \<and> f x u = (Inr y, t))"
  by (auto simp: bind_act_def split: prod.splits sum.splits)

lemma bind_act_eq: "m s = (Inr x, t) \<Longrightarrow> bind_act m f s = f x t"
  "m s = (Inl e, t) \<Longrightarrow> bind_act m f s = (Inl e, t)"
  by (simp_all add: bind_act_def)

lemma bind_lift [simp]:
  "bind_act (lift (Inr x)) f s = f x s" "bind_act (lift (Inl e)) f s = (Inl e, s)"
  "bind_act (give x) f s = f x s" "bind_act (throw e) f s = (Inl e, s)"
  by (simp_all add: bind_act_def)

lemma bind_act_assoc: "bind_act (bind_act m f) g = bind_act m (\<lambda>x. bind_act (f x) g)"
  by (rule ext) (simp add: bind_act_def split: prod.split sum.split)

lemma bind_give [simp]: "bind_act (give x) f = f x" "bind_act m give = m"
  by (rule ext, simp add: bind_act_def split: prod.split sum.split)+

text \<open>
  What holds of the states along an action: a preorder that every part keeps is kept by the
  whole, whatever exceptions occur.
\<close>

definition keeps :: "('s \<Rightarrow> 's \<Rightarrow> bool) \<Rightarrow> ('s, 'a) action \<Rightarrow> bool" where
  "keeps R m \<longleftrightarrow> (\<forall>s. R s (snd (m s)))"

lemma keeps_bind:
  assumes "\<And>s t u. R s t \<Longrightarrow> R t u \<Longrightarrow> R s u" "keeps R m" "\<And>x. keeps R (f x)"
  shows "keeps R (bind_act m f)"
  using assms unfolding keeps_def bind_act_def
  by (auto split: prod.splits sum.splits) (metis snd_conv)+

lemma keeps_handle:
  assumes "\<And>s t u. R s t \<Longrightarrow> R t u \<Longrightarrow> R s u" "keeps R m" "\<And>e. keeps R (h e)"
  shows "keeps R (handle m h)"
  using assms unfolding keeps_def handle_def
  by (auto split: prod.splits sum.splits) (metis snd_conv)+

lemma keeps_try_else:
  assumes "\<And>s t u. R s t \<Longrightarrow> R t u \<Longrightarrow> R s u" "keeps R m" "\<And>e. keeps R (h e)" "\<And>x. keeps R (k x)"
  shows "keeps R (try_else m h k)"
  using assms unfolding keeps_def try_else_def
  by (auto split: prod.splits sum.splits) (metis snd_conv)+

lemma keeps_pure:
  assumes "\<And>s. R s s"
  shows "keeps R (lift r)" "keeps R (give x)" "keeps R (throw e)"
  using assms by (simp_all add: keeps_def)

section \<open>Conditions before and after an action\<close>

definition ensures ::
  "('s \<Rightarrow> bool) \<Rightarrow> ('s, 'a) action \<Rightarrow> ('a \<Rightarrow> 's \<Rightarrow> bool) \<Rightarrow> ('s \<Rightarrow> bool) \<Rightarrow> bool" where
  "ensures P m Q E \<longleftrightarrow> (\<forall>w. P w \<longrightarrow> (case m w of (Inl e, v) \<Rightarrow> E v | (Inr x, v) \<Rightarrow> Q x v))"

lemma ensuresI:
  assumes "\<And>w e v. P w \<Longrightarrow> m w = (Inl e, v) \<Longrightarrow> E v" "\<And>w x v. P w \<Longrightarrow> m w = (Inr x, v) \<Longrightarrow> Q x v"
  shows "ensures P m Q E"
  using assms by (auto simp: ensures_def split: prod.split sum.split)

lemma ensuresD:
  assumes "ensures P m Q E" "P w"
  shows "m w = (Inl e, v) \<Longrightarrow> E v" "m w = (Inr x, v) \<Longrightarrow> Q x v"
  using assms by (force simp: ensures_def)+

lemma ensures_bind:
  assumes "ensures P m Q E" "\<And>x. ensures (Q x) (f x) R E"
  shows "ensures P (bind_act m f) R E"
proof (rule ensuresI)
  fix w e v assume "P w" "bind_act m f w = (Inl e, v)"
  then have "P w" "m w = (Inl e, v) \<or> (\<exists>y u. m w = (Inr y, u) \<and> f y u = (Inl e, v))"
    by (auto simp: bind_act_def split: prod.splits sum.splits)
  then show "E v"
    using ensuresD [OF assms(1)] ensuresD [OF assms(2)] by blast
next
  fix w x v assume "P w" "bind_act m f w = (Inr x, v)"
  then show "R x v"
    using ensuresD [OF assms(1)] ensuresD [OF assms(2)] by (metis bind_act_Inr)
qed

lemma ensures_handle:
  assumes "ensures P m Q E'" "\<And>e. ensures E' (h e) Q E"
  shows "ensures P (handle m h) Q E"
proof (rule ensuresI)
  fix w e v assume "P w" "handle m h w = (Inl e, v)"
  then have "P w" "\<exists>y u. m w = (Inl y, u) \<and> h y u = (Inl e, v)"
    by (auto simp: handle_def split: prod.splits sum.splits)
  then show "E v"
    using ensuresD [OF assms(1)] ensuresD [OF assms(2)] by blast
next
  fix w x v assume "P w" "handle m h w = (Inr x, v)"
  then have "P w" "m w = (Inr x, v) \<or> (\<exists>y u. m w = (Inl y, u) \<and> h y u = (Inr x, v))"
    by (auto simp: handle_def split: prod.splits sum.splits)
  then show "Q x v"
    using ensuresD [OF assms(1)] ensuresD [OF assms(2)] by blast
qed

lemma ensures_try_else:
  assumes "ensures P m Q E'" "\<And>e. ensures E' (h e) R E" "\<And>x. ensures (Q x) (k x) R E"
  shows "ensures P (try_else m h k) R E"
  unfolding ensures_def
proof (intro allI impI)
  fix w assume "P w"
  obtain r v where r: "m w = (r, v)" by fastforce
  show "case try_else m h k w of (Inl e, v) \<Rightarrow> E v | (Inr x, v) \<Rightarrow> R x v"
  proof (cases r)
    case (Inl e)
    with r ensuresD(1) [OF assms(1) \<open>P w\<close>] assms(2) [of e] show ?thesis
      by (auto simp: try_else_def ensures_def)
  next
    case (Inr x)
    with r ensuresD(2) [OF assms(1) \<open>P w\<close>] assms(3) [of x] show ?thesis
      by (auto simp: try_else_def ensures_def)
  qed
qed

lemma ensures_weaken:
  assumes "ensures P m Q E" "\<And>w. P' w \<Longrightarrow> P w" "\<And>x w. Q x w \<Longrightarrow> Q' x w" "\<And>w. E w \<Longrightarrow> E' w"
  shows "ensures P' m Q' E'"
  by (rule ensuresI) (use ensuresD [OF assms(1)] assms(2-4) in blast)+

lemma ensures_if:
  "(b \<Longrightarrow> ensures P m Q E) \<Longrightarrow> (\<not> b \<Longrightarrow> ensures P n Q E) \<Longrightarrow> ensures P (if b then m else n) Q E"
  by simp

text \<open>A step that leaves alone what the conditions read.\<close>

lemma ensures_same:
  assumes "\<And>w. P (snd (m w)) = P w" "\<And>w. P w \<Longrightarrow> E w"
  shows "ensures P m (\<lambda>_. P) E"
  unfolding ensures_def
proof (intro allI impI)
  fix w assume "P w"
  obtain r v where "m w = (r, v)" by fastforce
  then show "case m w of (Inl e, v) \<Rightarrow> E v | (Inr x, v) \<Rightarrow> P v"
    using assms(1) [of w] assms(2) [of v] \<open>P w\<close> by (cases r) auto
qed

end
