(* ===== verification/Rpc.thy ===== *)
theory Rpc
  imports Effects
begin

text \<open>
  The JSON-RPC layer: the strict decoders of \<open>rpc.py\<close>, the write-capable client of
  \<open>executor.py\<close> (\<open>ExecutionRpc.call\<close>) over an HTTP transport that is a parameter, the
  read-only client \<open>RpcReader\<close>, and the transaction request of \<open>lifi.py\<close>.
\<close>

section \<open>Decoding\<close>

definition rpc_quantity :: "string \<Rightarrow> bool" where
  "rpc_quantity s \<longleftrightarrow> starts_with ''0x'' s
     \<and> (drop 2 s = ''0'' \<or> (drop 2 s \<noteq> [] \<and> hd (drop 2 s) \<noteq> CHR ''0'' \<and> list_all is_hex (drop 2 s)))"

definition quantity :: "pyval \<Rightarrow> int result" where
  "quantity v = (case v of
      PStr s \<Rightarrow> if rpc_quantity s then Inr (int (hexes_val (drop 2 s)))
               else Inl (RpcError ''invalid_quantity'')
    | _ \<Rightarrow> Inl (RpcError ''invalid_quantity''))"

definition uint256 :: "pyval \<Rightarrow> int result" where
  "uint256 v = (case v of
      PStr s \<Rightarrow> if hex_of_length 64 s then Inr (int (hexes_val (drop 2 s)))
               else Inl (RpcError ''invalid_abi_uint256'')
    | _ \<Rightarrow> Inl (RpcError ''invalid_abi_uint256''))"

definition balance_of_data :: "string \<Rightarrow> string result" where
  "balance_of_data address =
     (if is_address address then Inr (''0x70a08231'' @ rjust0 64 (lower (drop 2 address)))
      else Inl (RpcError ''invalid_wallet''))"

text \<open>\<open>hex(n)\<close> of a non-negative integer.\<close>

definition py_hex :: "int \<Rightarrow> string" where
  "py_hex n = ''0x'' @ hex_text (nat n)"

section \<open>Requests over a transport\<close>

text \<open>
  A request is the URL with method and parameters. The transport is a function of the
  requests sent so far and of the new one, with its id: it answers with the decoded JSON
  object of the response, or raises. The log is the state of the client.
\<close>

type_synonym request = "string \<times> string \<times> pyval list"

type_synonym transport = "request list \<Rightarrow> int \<Rightarrow> request \<Rightarrow> pydict result"

definition execution_methods :: "string list" where
  "execution_methods =
     [''eth_call'', ''eth_chainId'', ''eth_estimateGas'', ''eth_gasPrice'', ''eth_feeHistory'',
      ''eth_maxPriorityFeePerGas'', ''eth_getBlockByNumber'', ''eth_getBalance'',
      ''eth_getTransactionCount'', ''eth_getTransactionReceipt'', ''eth_getTransactionByHash'',
      ''eth_sendRawTransaction'']"

definition reader_methods :: "string list" where
  "reader_methods =
     [''eth_chainId'', ''eth_getBlockByNumber'', ''eth_getBalance'', ''eth_getCode'', ''eth_call'',
      ''eth_estimateGas'', ''eth_gasPrice'', ''eth_feeHistory'', ''eth_maxPriorityFeePerGas'']"

definition check_envelope :: "int \<Rightarrow> pydict \<Rightarrow> pyval result" where
  "check_envelope i response =
     (if \<not> py_eq (get response ''id'') (PInt i) \<or> \<not> py_eq (get response ''jsonrpc'') (PStr ''2.0'')
      then Inl (RpcError ''invalid_rpc_envelope'')
      else if py_truthy (get response ''error'') then Inl (RpcError ''rpc_error'')
      else case map_of response ''result'' of
        None \<Rightarrow> Inl (RpcError ''missing_rpc_result'')
      | Some v \<Rightarrow> Inr v)"

text \<open>The ids count from one, one for each request that passes the method check.\<close>

definition rpc_send ::
  "string list \<Rightarrow> string \<Rightarrow> transport \<Rightarrow> string \<Rightarrow> string \<Rightarrow> pyval list \<Rightarrow> (request list, pyval) action" where
  "rpc_send methods refusal post url meth params sent =
     (if meth \<notin> set methods then (Inl (RpcError refusal), sent)
      else let i = int (length sent) + 1
           in (bind_result (post sent i (url, meth, params)) (check_envelope i),
               sent @ [(url, meth, params)]))"

definition execution_call ::
  "transport \<Rightarrow> string \<Rightarrow> string \<Rightarrow> pyval list \<Rightarrow> (request list, pyval) action" where
  "execution_call = rpc_send execution_methods ''execution_method_not_allowed''"

definition reader_call ::
  "transport \<Rightarrow> string \<Rightarrow> string \<Rightarrow> pyval list \<Rightarrow> (request list, pyval) action" where
  "reader_call = rpc_send reader_methods ''method_not_allowed''"

section \<open>The read-only client\<close>

record reader =
  r_sent :: "request list"
  r_identities :: "(string \<times> int) list"
  r_metadata :: "((string \<times> int \<times> string \<times> int) \<times> int option) list"

definition read_rpc :: "transport \<Rightarrow> string \<Rightarrow> string \<Rightarrow> pyval list \<Rightarrow> (reader, pyval) action" where
  "read_rpc post url meth params r =
     (case reader_call post url meth params (r_sent r) of (x, sent) \<Rightarrow> (x, r\<lparr>r_sent := sent\<rparr>))"

definition check_chain :: "transport \<Rightarrow> string \<Rightarrow> int \<Rightarrow> (reader, unit) action" where
  "check_chain post url chain r =
     (if (url, chain) \<in> set (r_identities r) then (Inr (), r)
      else bind_act (read_rpc post url ''eth_chainId'' []) (\<lambda>v.
           bind_act (lift (quantity v)) (\<lambda>actual s.
             if actual \<noteq> chain then (Inl (RpcError ''wrong_chain''), s)
             else (Inr (), s\<lparr>r_identities := (url, chain) # r_identities s\<rparr>))) r)"

record block_info =
  b_number :: int
  b_hash :: string
  b_timestamp :: int

definition block_hash_ok :: "pyval \<Rightarrow> string option" where
  "block_hash_ok v = (case v of PStr s \<Rightarrow> if hex_of_length 64 s then Some s else None | _ \<Rightarrow> None)"

definition parse_block :: "int option \<Rightarrow> pyval \<Rightarrow> block_info result" where
  "parse_block number v = (case v of
      PDict d \<Rightarrow>
        bind_result (quantity (get d ''number'')) (\<lambda>n.
        case block_hash_ok (get d ''hash'') of
          None \<Rightarrow> Inl (RpcError ''invalid_block_hash'')
        | Some h \<Rightarrow>
            if number \<noteq> None \<and> number \<noteq> Some n then Inl (RpcError ''wrong_block'')
            else bind_result (quantity (get d ''timestamp''))
              (\<lambda>t. Inr \<lparr>b_number = n, b_hash = lower h, b_timestamp = t\<rparr>))
    | _ \<Rightarrow> Inl (RpcError ''block_unavailable''))"

definition read_block :: "transport \<Rightarrow> string \<Rightarrow> int \<Rightarrow> int option \<Rightarrow> (reader, block_info) action" where
  "read_block post url chain number =
     bind_act (check_chain post url chain) (\<lambda>_.
     bind_act (read_rpc post url ''eth_getBlockByNumber''
         [PStr (case number of None \<Rightarrow> ''latest'' | Some n \<Rightarrow> py_hex n), PBool False]) (\<lambda>v.
     lift (parse_block number v)))"

definition native_balance :: "transport \<Rightarrow> string \<Rightarrow> int \<Rightarrow> string \<Rightarrow> int \<Rightarrow> (reader, int) action" where
  "native_balance post url chain wallet blk =
     bind_act (lift (balance_of_data wallet)) (\<lambda>_.
     bind_act (check_chain post url chain) (\<lambda>_.
     bind_act (read_rpc post url ''eth_getBalance'' [PStr wallet, PStr (py_hex blk)]) (\<lambda>v.
     bind_act (lift (quantity v)) (\<lambda>n.
     if 2 ^ 256 \<le> n then throw (RpcError ''invalid_balance'') else give n))))"

definition contract_code_ok :: "pyval \<Rightarrow> bool" where
  "contract_code_ok v = (case v of
      PStr s \<Rightarrow> starts_with ''0x'' s \<and> 2 < length s \<and> even (length s) \<and> list_all is_hex (drop 2 s)
    | _ \<Rightarrow> False)"

definition eth_call :: "string \<Rightarrow> string \<Rightarrow> int \<Rightarrow> pyval list" where
  "eth_call contract data blk =
     [PDict [(''to'', PStr contract), (''data'', PStr data)], PStr (py_hex blk)]"

text \<open>An \<open>RpcError\<close> or a transport error is a \<open>RequestError\<close>.\<close>

fun is_request_error :: "exn \<Rightarrow> bool" where
  "is_request_error (RpcError _) = True"
| "is_request_error (TransportError _) = True"
| "is_request_error _ = False"

definition token_decimals ::
  "transport \<Rightarrow> string \<Rightarrow> string \<Rightarrow> int \<Rightarrow> int option \<Rightarrow> (reader, int option) action" where
  "token_decimals post url contract blk expected =
     handle
       (bind_act (read_rpc post url ''eth_call'' (eth_call contract ''0x313ce567'' blk)) (\<lambda>v.
        bind_act (lift (uint256 v)) (\<lambda>d.
        if 255 < d then throw (RpcError ''invalid_decimals'') else give (Some d))))
       (\<lambda>e. if is_request_error e \<and> expected = None then give None else throw e)"

definition token_metadata ::
  "transport \<Rightarrow> string \<Rightarrow> int \<Rightarrow> string \<Rightarrow> int \<Rightarrow> int option \<Rightarrow> (reader, int option) action" where
  "token_metadata post url chain contract blk expected r =
     (let key = (url, chain, lower contract, blk) in
      case map_of (r_metadata r) key of
        Some d \<Rightarrow> (Inr d, r)
      | None \<Rightarrow>
          bind_act (read_rpc post url ''eth_getCode'' [PStr contract, PStr (py_hex blk)]) (\<lambda>code.
          if \<not> contract_code_ok code then throw (RpcError ''missing_contract_code'')
          else bind_act (token_decimals post url contract blk expected)
            (\<lambda>d s. (Inr d, s\<lparr>r_metadata := (key, d) # r_metadata s\<rparr>))) r)"

definition token_balance ::
  "transport \<Rightarrow> string \<Rightarrow> int \<Rightarrow> string \<Rightarrow> string \<Rightarrow> int \<Rightarrow> int option
     \<Rightarrow> (reader, int \<times> int option) action" where
  "token_balance post url chain wallet contract blk expected =
     bind_act (lift (balance_of_data wallet)) (\<lambda>data.
     if \<not> is_address contract then throw (RpcError ''invalid_contract'')
     else bind_act (check_chain post url chain) (\<lambda>_.
     bind_act (token_metadata post url chain contract blk expected) (\<lambda>decimals.
     if expected \<noteq> None \<and> decimals \<noteq> expected then throw (RpcError ''decimals_mismatch'')
     else bind_act (read_rpc post url ''eth_call'' (eth_call contract data blk)) (\<lambda>v.
     bind_act (lift (uint256 v)) (\<lambda>raw. give (raw, decimals))))))"

section \<open>Transaction requests\<close>

record tx_request =
  t_chain :: int
  t_to :: string
  t_data :: string
  t_value :: int
  t_gas :: int
  t_gas_price :: "int option"
  t_max_fee :: "int option"
  t_priority :: "int option"
  t_additional :: int
  t_method :: "string option"
  t_fallback :: "string option"
  t_cap :: "int option"
  t_estimate :: "int option"
  t_block :: "int option"
  t_base_fee :: "int option"

definition maximum_fee_per_gas :: "tx_request \<Rightarrow> int result" where
  "maximum_fee_per_gas t = (case t_max_fee t of
      Some f \<Rightarrow> Inr f
    | None \<Rightarrow> (case t_gas_price t of
        None \<Rightarrow> Inl (ValueError ''transaction fee quote is missing'') | Some p \<Rightarrow> Inr p))"

definition max_total_fee :: "tx_request \<Rightarrow> int result" where
  "max_total_fee t = bind_result (maximum_fee_per_gas t) (\<lambda>f. Inr (t_gas t * f + t_additional t))"

text \<open>The fields are integers or absent here; the type tests of the code concern other values.\<close>

definition planned_gas_malformed :: "tx_request \<Rightarrow> bool" where
  "planned_gas_malformed t \<longleftrightarrow>
     (case t_gas_price t of None \<Rightarrow> False | Some p \<Rightarrow> p < 0)
     \<or> (t_max_fee t = None) \<noteq> (t_priority t = None)
     \<or> (case (t_max_fee t, t_priority t) of
          (Some f, Some p) \<Rightarrow> t_gas_price t \<noteq> None \<or> f < p \<or> p < 0 | _ \<Rightarrow> False)
     \<or> (t_max_fee t = None \<and> t_gas_price t = None)"

section \<open>Facts\<close>

lemma hex_of_length_text:
  assumes "n < 16 ^ 64"
  shows "hex_of_length 64 (''0x'' @ rjust0 64 (hex_text n))"
proof -
  have len: "length (hex_text m) \<le> k" if "m < 16 ^ k" "0 < k" for m k
    using that
  proof (induction m arbitrary: k rule: hex_text.induct)
    case (1 m)
    show ?case
    proof (cases "m < 16")
      case False
      obtain k' where "k = Suc k'" using 1(3) by (cases k) auto
      moreover from this have "0 < k'" using False 1(2) by (cases k') auto
      ultimately have k: "k = Suc k'" "0 < k'" by simp_all
      with 1(2) have "m div 16 < 16 ^ k'" by (simp add: less_mult_imp_div_less mult.commute)
      with 1(1) [OF False, of k'] k False show ?thesis by (simp add: hex_text.simps [of m])
    qed (use 1 in \<open>simp add: hex_text.simps [of m]\<close>)
  qed
  have "list_all is_hex (replicate k (CHR ''0''))" for k
    by (simp add: list_all_iff is_hex_def is_digit_def code_of_def)
  with len [OF assms] show ?thesis
    by (simp add: hex_of_length_def starts_with_def rjust0_def)
qed

lemma hexes_val_zeros: "hexes_val (replicate k (CHR ''0'') @ s) = hexes_val s"
proof -
  have "foldl (\<lambda>a c. 16 * a + hex_val c) 0 (replicate k (CHR ''0'')) = 0"
    by (induction k) (simp_all add: hex_val_def is_digit_def code_of_def)
  then show ?thesis by (simp add: hexes_val_def)
qed

lemma uint256_round:
  assumes "n < 2 ^ 256"
  shows "uint256 (PStr (''0x'' @ rjust0 64 (hex_text n))) = Inr (int n)"
proof -
  have "n < 16 ^ 64" using assms by simp
  from hex_of_length_text [OF this] show ?thesis
    by (simp add: uint256_def rjust0_def hexes_val_zeros)
qed

text \<open>
  An ABI word decodes to the number it encodes: \<open>uint256\<close> of the 64 padded hex digits
  of any number below \<open>2^256\<close> is that number.
\<close>

lemma uint256_encoded:
  assumes "n < 2 ^ 256"
  shows "uint256 (PStr (''0x'' @ rjust0 64 (hex_text n))) = Inr (int n)"
  using assms by (rule uint256_round)

lemma uint256_encoded_witness:
  "uint256 (PStr (''0x'' @ rjust0 64 (hex_text (2 ^ 255 + 7)))) = Inr (2 ^ 255 + 7)"
  using uint256_encoded [of "2 ^ 255 + 7"] by simp

text \<open>
  A method outside the client's list never reaches the transport, and a value is
  returned only from a response with the request's own id, without an error.
\<close>

theorem execution_call_guarded:
  "(meth \<notin> set execution_methods \<longrightarrow>
      execution_call post url meth params sent = (Inl (RpcError ''execution_method_not_allowed''), sent))
   \<and> (\<forall>v s. execution_call post url meth params sent = (Inr v, s) \<longrightarrow>
        s = sent @ [(url, meth, params)] \<and> meth \<in> set execution_methods
        \<and> (\<exists>response. post sent (int (length sent) + 1) (url, meth, params) = Inr response
            \<and> py_eq (get response ''id'') (PInt (int (length sent) + 1))
            \<and> \<not> py_truthy (get response ''error'') \<and> map_of response ''result'' = Some v))"
  by (auto simp: execution_call_def rpc_send_def Let_def check_envelope_def
      split: if_splits option.splits)

lemma execution_call_guarded_witness:
  "execution_call (\<lambda>_ i _. Inr [(''id'', PInt i), (''result'', PInt 7)]) ''u'' ''eth_sign'' [] []
     = (Inl (RpcError ''execution_method_not_allowed''), [])"
proof -
  have "''eth_sign'' \<notin> set execution_methods" by (simp add: execution_methods_def)
  with execution_call_guarded [of "''eth_sign''"] show ?thesis by blast
qed

end
