(* ===== verification/Stages.thy ===== *)
theory Stages
  imports Prelude
begin

text \<open>
  Time budgets of a wallet's stage and the bounded worker pool for reads (\<open>stages.py\<close>).
  Seconds are rationals; the rounding of floats and the warning that is logged once are not
  modelled. A clock reading is an argument. The pool is a step relation: workers take
  indexes from the job queue, finish them in any order at any time, the caller collects.
\<close>

section \<open>Deadlines\<close>

record deadline =
  d_started :: rat
  d_expires :: "rat option"
  d_target :: rat
  d_request_limit :: rat
  d_label :: string

definition new_deadline :: "rat \<Rightarrow> string \<Rightarrow> bool \<Rightarrow> rat \<Rightarrow> rat \<Rightarrow> deadline result" where
  "new_deadline seconds label hard max_seconds now =
     (if seconds \<le> 0 then Inl (ValueError ''stage budget must be finite and greater than zero'')
      else if hard \<and> max_seconds < seconds then Inl (ValueError ''hard stage budget is too long'')
      else Inr \<lparr>d_started = now,
        d_expires = (if hard then Some (now + seconds - min 1 (seconds / 10)) else None),
        d_target = seconds, d_request_limit = (if hard \<and> max_seconds \<le> 30 then 3 else 30),
        d_label = label\<rparr>)"

definition remaining :: "deadline \<Rightarrow> rat \<Rightarrow> rat option" where
  "remaining d now = (case d_expires d of None \<Rightarrow> None | Some e \<Rightarrow> Some (max 0 (e - now)))"

definition expired :: "deadline \<Rightarrow> rat \<Rightarrow> bool" where
  "expired d now = (case remaining d now of None \<Rightarrow> False | Some r \<Rightarrow> r \<le> 0)"

definition elapsed :: "deadline \<Rightarrow> rat \<Rightarrow> rat" where
  "elapsed d now = now - d_started d"

definition budget_exceeded :: "deadline \<Rightarrow> rat \<Rightarrow> bool" where
  "budget_exceeded d now \<longleftrightarrow> d_target d < elapsed d now"

definition deadline_exceeded :: "deadline \<Rightarrow> exn" where
  "deadline_exceeded d = StageDeadlineExceeded (''stage_deadline_exceeded:'' @ d_label d)"

definition check_at :: "deadline \<Rightarrow> rat \<Rightarrow> unit result" where
  "check_at d now = require (\<not> expired d now) (deadline_exceeded d)"

text \<open>The functions that read the context variable take its value, a deadline or none.\<close>

definition check_deadline :: "deadline option \<Rightarrow> rat \<Rightarrow> unit result" where
  "check_deadline current now = (case current of None \<Rightarrow> Inr () | Some d \<Rightarrow> check_at d now)"

definition request_timeout :: "deadline option \<Rightarrow> rat \<Rightarrow> rat \<Rightarrow> rat result" where
  "request_timeout current standard now = (case current of
      None \<Rightarrow> Inr standard
    | Some d \<Rightarrow> bind_result (check_at d now) (\<lambda>_.
        Inr (case remaining d now of
            None \<Rightarrow> standard | Some r \<Rightarrow> min standard (min (d_request_limit d) (r / 4)))))"

text \<open>
  \<open>budget_sleep\<close>: the time after the sleep, with the exception the call ends in, if any.
\<close>

definition budget_sleep :: "deadline option \<Rightarrow> rat \<Rightarrow> rat \<Rightarrow> unit result \<times> rat" where
  "budget_sleep current seconds now = (case current of
      None \<Rightarrow> (Inr (), now + seconds)
    | Some d \<Rightarrow>
        (case check_at d now of
           Inl e \<Rightarrow> (Inl e, now)
         | Inr _ \<Rightarrow>
             (case remaining d now of
                None \<Rightarrow> (check_at d (now + seconds), now + seconds)
              | Some r \<Rightarrow>
                  let later = now + min seconds r in
                  if r \<le> seconds then (Inl (deadline_exceeded d), later)
                  else (check_at d later, later))))"

text \<open>
  Sleeping within a hard budget never runs past its expiry: whatever the requested
  time, the call returns no later, and it raises when the sleep was cut short.
\<close>

theorem budget_sleep_bounded:
  assumes "d_expires d = Some e" "now < e" "0 \<le> seconds"
  shows "snd (budget_sleep (Some d) seconds now) \<le> e
    \<and> (fst (budget_sleep (Some d) seconds now) = Inr () \<longleftrightarrow> now + seconds < e)"
  using assms by (auto simp: budget_sleep_def remaining_def expired_def check_at_def Let_def require_def)

lemma budget_sleep_bounded_witness:
  "snd (budget_sleep (Some \<lparr>d_started = 0, d_expires = Some 9, d_target = 10, d_request_limit = 3,
      d_label = ''w''\<rparr>) 30 4) \<le> 9"
  using budget_sleep_bounded [of "\<lparr>d_started = 0, d_expires = Some 9, d_target = 10,
      d_request_limit = 3, d_label = ''w''\<rparr>" 9 4 30] by simp

text \<open>
  Every request of a stage with a hard budget is given a timeout that is positive and at
  most a quarter of the time left, so that the four phases of one request fit.
\<close>

lemma request_timeout_fits:
  assumes "d_expires d = Some e" "request_timeout (Some d) standard now = Inr t"
    and "0 < standard" "0 < d_request_limit d"
  shows "0 < t \<and> now + 4 * t \<le> e"
  using assms by (auto simp: request_timeout_def remaining_def check_at_def expired_def min_def
      split: if_splits)

definition sample_deadline :: deadline where
  "sample_deadline = \<lparr>d_started = 0, d_expires = Some 9, d_target = 10, d_request_limit = 3,
     d_label = ''w''\<rparr>"

lemma request_timeout_fits_witness:
  "request_timeout (Some sample_deadline) 20 1 = Inr 2 \<and> (1 :: rat) + 4 * 2 \<le> 9"
proof -
  have e: "d_expires sample_deadline = Some 9" "0 < d_request_limit sample_deadline"
    by (simp_all add: sample_deadline_def)
  have t: "request_timeout (Some sample_deadline) 20 1 = Inr 2"
    by (simp add: request_timeout_def remaining_def check_at_def expired_def sample_deadline_def)
  from request_timeout_fits [OF e(1) t _ e(2)] t show ?thesis by simp
qed

section \<open>The worker pool\<close>

record 'r pool =
  jobs :: "nat list"
  running :: "nat list"
  outputs :: "(nat \<times> 'r result \<times> rat) list"
  completed :: "(nat \<times> 'r) list"
  errors :: "(nat \<times> exn) list"
  stopped :: bool
  clock :: rat

definition start_pool :: "nat \<Rightarrow> rat \<Rightarrow> 'r pool" where
  "start_pool n now = \<lparr>jobs = [0..<n], running = [], outputs = [], completed = [], errors = [],
     stopped = False, clock = now\<rparr>"

text \<open>\<open>collect\<close>: a result that finished after a hard expiry is discarded.\<close>

definition too_late :: "deadline \<Rightarrow> rat \<Rightarrow> bool" where
  "too_late d finished = (case d_expires d of None \<Rightarrow> False | Some e \<Rightarrow> e < finished)"

definition collect :: "deadline \<Rightarrow> nat \<times> 'r result \<times> rat \<Rightarrow> 'r pool \<Rightarrow> 'r pool" where
  "collect d x p = (case x of (i, r, finished) \<Rightarrow>
     if too_late d finished then p
     else (case r of
         Inr v \<Rightarrow> p\<lparr>completed := (i, v) # completed p\<rparr>
       | Inl e \<Rightarrow> p\<lparr>errors := (i, e) # errors p\<rparr>))"

text \<open>What a worker puts for an index: its own deadline check runs before the function.\<close>

definition work :: "('a \<Rightarrow> 'r result) \<Rightarrow> deadline \<Rightarrow> 'a list \<Rightarrow> nat \<Rightarrow> rat \<Rightarrow> 'r result" where
  "work f d items i started = bind_result (check_at d started) (\<lambda>_. f (items ! i))"

inductive pool_step ::
  "('a \<Rightarrow> 'r result) \<Rightarrow> deadline \<Rightarrow> 'a list \<Rightarrow> nat \<Rightarrow> 'r pool \<Rightarrow> 'r pool \<Rightarrow> bool"
  for f d items workers where
  take_job: "\<not> stopped p \<Longrightarrow> \<not> expired d (clock p) \<Longrightarrow> jobs p = i # rest
    \<Longrightarrow> length (running p) < workers
    \<Longrightarrow> pool_step f d items workers p (p\<lparr>jobs := rest, running := i # running p\<rparr>)"
| finish: "i \<in> set (running p) \<Longrightarrow> started \<le> clock p
    \<Longrightarrow> pool_step f d items workers p
          (p\<lparr>running := remove1 i (running p),
             outputs := outputs p @ [(i, work f d items i started, clock p)]\<rparr>)"
| collect_one: "outputs p = x # rest
    \<Longrightarrow> pool_step f d items workers p (collect d x (p\<lparr>outputs := rest\<rparr>))"
| stop: "pool_step f d items workers p (p\<lparr>stopped := True\<rparr>)"
| tick: "clock p \<le> t \<Longrightarrow> pool_step f d items workers p (p\<lparr>clock := t\<rparr>)"

text \<open>The result returned in a state: what is collected, and the indexes that are not.\<close>

definition pending :: "nat \<Rightarrow> 'r pool \<Rightarrow> nat list" where
  "pending n p = filter (\<lambda>i. i \<notin> fst ` set (completed p) \<and> i \<notin> fst ` set (errors p)) [0..<n]"

definition all_indexes :: "'r pool \<Rightarrow> nat list" where
  "all_indexes p = jobs p @ running p @ map fst (outputs p) @ map fst (completed p) @ map fst (errors p)"

definition pool_ok ::
  "('a \<Rightarrow> 'r result) \<Rightarrow> deadline \<Rightarrow> 'a list \<Rightarrow> nat \<Rightarrow> 'r pool \<Rightarrow> bool" where
  "pool_ok f d items workers p \<longleftrightarrow>
     distinct (all_indexes p) \<and> set (all_indexes p) \<subseteq> {0..<length items}
     \<and> length (running p) \<le> workers
     \<and> (\<forall>(i, r, t) \<in> set (outputs p). r = f (items ! i) \<or> (\<exists>e. r = Inl e \<and> is_deadline e))
     \<and> (\<forall>(i, v) \<in> set (completed p). f (items ! i) = Inr v)
     \<and> (\<forall>(i, e) \<in> set (errors p). f (items ! i) = Inl e \<or> is_deadline e)"

lemma work_cases: "work f d items i t = f (items ! i) \<or> (\<exists>e. work f d items i t = Inl e \<and> is_deadline e)"
  by (cases "check_at d t") (auto simp: work_def check_at_def require_def deadline_exceeded_def split: if_splits)

lemma start_pool_ok: "pool_ok f d items workers (start_pool (length items) now)"
  by (simp add: pool_ok_def start_pool_def all_indexes_def)

lemma collect_ok:
  assumes "pool_ok f d items workers p" "outputs p = x # rest"
  shows "pool_ok f d items workers (collect d x (p\<lparr>outputs := rest\<rparr>))"
proof -
  obtain i r t where x: "x = (i, r, t)" by (cases x)
  consider "collect d x (p\<lparr>outputs := rest\<rparr>) = p\<lparr>outputs := rest\<rparr>"
    | v where "r = Inr v" "collect d x (p\<lparr>outputs := rest\<rparr>)
        = p\<lparr>outputs := rest, completed := (i, v) # completed p\<rparr>"
    | e where "r = Inl e" "collect d x (p\<lparr>outputs := rest\<rparr>)
        = p\<lparr>outputs := rest, errors := (i, e) # errors p\<rparr>"
    by (cases r; cases "too_late d t") (auto simp: collect_def x)
  then show ?thesis
    using assms by cases (auto simp: pool_ok_def all_indexes_def x)
qed

lemma pool_step_ok:
  assumes "pool_step f d items workers p q" "pool_ok f d items workers p"
  shows "pool_ok f d items workers q"
  using assms
proof (induction rule: pool_step.induct)
  case (finish i p started)
  let ?q = "p\<lparr>running := remove1 i (running p),
     outputs := outputs p @ [(i, work f d items i started, clock p)]\<rparr>"
  have old: "distinct (all_indexes p)" "set (all_indexes p) \<subseteq> {0..<length items}"
    "length (running p) \<le> workers"
    using finish(3) by (simp_all add: pool_ok_def)
  have running: "set (remove1 i (running p)) = set (running p) - {i}" "distinct (remove1 i (running p))"
    using old(1) by (simp_all add: all_indexes_def set_remove1_eq distinct_remove1)
  have "distinct (all_indexes ?q)"
    using old(1) running finish(1) by (auto simp: all_indexes_def)
  moreover have "set (all_indexes ?q) \<subseteq> {0..<length items}"
    using old(2) running finish(1) by (auto simp: all_indexes_def)
  moreover have "length (running ?q) \<le> workers"
    using old(3) by (simp add: length_remove1 le_diff_conv)
  ultimately show ?case
    using finish(3) work_cases [of f d items i started] unfolding pool_ok_def by simp
next
  case (collect_one p x rest)
  then show ?case by (intro collect_ok)
qed (auto simp: pool_ok_def all_indexes_def)

lemma pool_steps_ok:
  "(pool_step f d items workers)\<^sup>*\<^sup>* (start_pool (length items) now) p \<Longrightarrow> pool_ok f d items workers p"
  by (induction rule: rtranclp_induct) (auto intro: start_pool_ok pool_step_ok)

text \<open>
  Whatever the interleaving of the workers, the results that \<open>run_parallel\<close> returns
  partition the inputs: each index is completed, failed or pending, never two of them or
  twice, and a completed index carries the function's value for that very input.
\<close>

theorem parallel_results_partition:
  assumes "(pool_step f d items workers)\<^sup>*\<^sup>* (start_pool (length items) now) p"
  shows "distinct (map fst (completed p) @ map fst (errors p) @ pending (length items) p)
    \<and> set (map fst (completed p) @ map fst (errors p) @ pending (length items) p) = {0..<length items}
    \<and> (\<forall>(i, v) \<in> set (completed p). f (items ! i) = Inr v)"
  using pool_steps_ok [OF assms] by (auto simp: pool_ok_def all_indexes_def pending_def)

definition sample_pool :: "string pool" where
  "sample_pool = \<lparr>jobs = [1], running = [], outputs = [], completed = [(0, ''a'')], errors = [],
     stopped = False, clock = 0\<rparr>"

lemma parallel_results_partition_witness:
  "distinct (map fst (completed sample_pool) @ map fst (errors sample_pool) @ pending 2 sample_pool)
     \<and> pending 2 sample_pool = [1]"
proof -
  let ?f = "\<lambda>x :: string. Inr x :: string result" and ?items = "[''a'', ''b'']"
  let ?step = "pool_step ?f sample_deadline ?items 1"
  let ?p0 = "start_pool (length ?items) 0 :: string pool"
  let ?p1 = "?p0\<lparr>jobs := [1], running := [0]\<rparr>"
  let ?p2 = "?p1\<lparr>running := [], outputs := [(0, Inr ''a'', 0)]\<rparr>"
  have "?step ?p0 ?p1"
    using pool_step.take_job [of ?p0 sample_deadline 0 "[1]" 1 ?f ?items]
    by (simp add: start_pool_def upt_rec expired_def remaining_def sample_deadline_def)
  moreover have "work ?f sample_deadline ?items 0 0 = Inr ''a''"
    by (simp add: work_def check_at_def expired_def remaining_def sample_deadline_def)
  then have "?step ?p1 ?p2"
    using pool_step.finish [of 0 ?p1 0 ?f sample_deadline ?items 1]
    by (simp add: start_pool_def)
  moreover have "?step ?p2 sample_pool"
    using pool_step.collect_one [of ?p2 "(0, Inr ''a'', 0)" "[]" ?f sample_deadline ?items 1]
    by (simp add: start_pool_def collect_def too_late_def sample_deadline_def sample_pool_def)
  ultimately have "?step\<^sup>*\<^sup>* ?p0 sample_pool" by (meson converse_rtranclp_into_rtranclp r_into_rtranclp)
  from parallel_results_partition [OF this] show ?thesis
    by (simp add: pending_def sample_pool_def upt_rec)
qed

end
