(* ===== verification/Executor.thy ===== *)
theory Executor
  imports Journal_Facts Rpc Stages
begin

text \<open>
  Signing, broadcasting and observing transactions (\<open>executor.py\<close>). The RPC endpoint is any
  broadcaster: a function of the requests sent so far and the new one. The journal is used
  through four operations, collected in a record; the laws the executor relies on are the
  locale \<open>durable_journal\<close>, which the tables of \<open>Journal\<close> satisfy. Key derivation,
  signatures, Keccak and SHA-256 are parameters.
\<close>

section \<open>State and requests\<close>

type_synonym broadcaster = "request list \<Rightarrow> request \<Rightarrow> pyval result"

record 'j exec =
  x_journal :: 'j
  x_sent :: "request list"
  x_now :: rat

definition call_rpc :: "broadcaster \<Rightarrow> string \<Rightarrow> string \<Rightarrow> pyval list \<Rightarrow> ('j exec, pyval) action" where
  "call_rpc bc url meth params s =
     (bc (x_sent s) (url, meth, params), s\<lparr>x_sent := x_sent s @ [(url, meth, params)]\<rparr>)"

definition use_journal :: "('j \<Rightarrow> ('a \<times> 'j) result) \<Rightarrow> ('j exec, 'a) action" where
  "use_journal f s = (case f (x_journal s) of
      Inl e \<Rightarrow> (Inl e, s) | Inr (x, j) \<Rightarrow> (Inr x, s\<lparr>x_journal := j\<rparr>))"

definition write_journal :: "('j \<Rightarrow> 'j result) \<Rightarrow> ('j exec, unit) action" where
  "write_journal f = use_journal (\<lambda>j. bind_result (f j) (\<lambda>k. Inr ((), k)))"

definition send_method :: string where
  "send_method = ''eth_sendRawTransaction''"

definition sends :: "request list \<Rightarrow> nat" where
  "sends rs = length (filter (\<lambda>r. fst (snd r) = send_method) rs)"

section \<open>Gas guards\<close>

definition require_native_reserve :: "int \<Rightarrow> int \<Rightarrow> int \<Rightarrow> int result" where
  "require_native_reserve balance gas_cost multiplier =
     (if balance < 0 \<or> gas_cost < 0 \<or> multiplier < 1 then Inl (ValueError ''invalid gas reserve inputs'')
      else let retained = gas_cost * multiplier in
        if balance < retained
        then Inl (ValueError (''insufficient native balance for gas reserve: balance_wei=''
               @ int_text balance @ '';gas_cost_wei='' @ int_text gas_cost @ '';multiplier=''
               @ int_text multiplier @ '';required_wei='' @ int_text retained))
        else Inr retained)"

definition gas_reserve_multiplier :: int where
  "gas_reserve_multiplier = 3"

definition gwei_limit_error :: exn where
  "gwei_limit_error =
     ConfigError ''ETHEREUM_GAS_PRICE_LIMIT_GWEI must be positive with at most 9 decimal places''"

definition wei_of_gwei :: "fdec \<Rightarrow> int result" where
  "wei_of_gwei d =
     (let scaled = dec_value (dec_mul default_prec d (dec_of_int 1000000000)) in
      if dec_le d (dec_of_int 0) \<or> scaled \<noteq> of_int \<lfloor>scaled\<rfloor> then Inl gwei_limit_error
      else Inr \<lfloor>scaled\<rfloor>)"

definition ethereum_gas_price_limit_wei :: "string option \<Rightarrow> int result" where
  "ethereum_gas_price_limit_wei raw = (case raw of
      None \<Rightarrow> wei_of_gwei (dec_of_int 1)
    | Some text \<Rightarrow> (case parse_decimal (strip text) of
        None \<Rightarrow> Inl (ConfigError ''ETHEREUM_GAS_PRICE_LIMIT_GWEI must be a positive decimal gwei value'')
      | Some (Number d) \<Rightarrow> wei_of_gwei d
      | Some _ \<Rightarrow> Inl gwei_limit_error))"

definition gas_deferred :: "string \<Rightarrow> int option \<Rightarrow> int \<Rightarrow> exn" where
  "gas_deferred source price limit =
     EthereumGasDeferred (''ethereum_gas_deferred:source='' @ source
       @ (case price of None \<Rightarrow> [] | Some v \<Rightarrow> '';value_wei='' @ int_text v)
       @ '';threshold_wei='' @ int_text limit)"

definition require_ethereum_planned_gas_price_valid :: "string option \<Rightarrow> tx_request \<Rightarrow> unit result" where
  "require_ethereum_planned_gas_price_valid env t =
     (if t_chain t \<noteq> 1 \<or> \<not> planned_gas_malformed t then Inr ()
      else bind_result (ethereum_gas_price_limit_wei env)
        (\<lambda>limit. Inl (gas_deferred ''plan_error'' None limit)))"

text \<open>A probe of the endpoint: any failure but an expired deadline defers.\<close>

definition probe ::
  "broadcaster \<Rightarrow> string \<Rightarrow> string \<Rightarrow> exn \<Rightarrow> ('j exec, int) action" where
  "probe bc url meth failure =
     handle (bind_act (call_rpc bc url meth []) (\<lambda>v. lift (quantity v)))
       (\<lambda>e. throw (if is_deadline e then e else failure))"

definition require_ethereum_gas_below_limit ::
  "broadcaster \<Rightarrow> string option \<Rightarrow> string \<Rightarrow> tx_request \<Rightarrow> ('j exec, unit) action" where
  "require_ethereum_gas_below_limit bc env url t =
     (if t_chain t \<noteq> 1 then give ()
      else bind_act (lift (ethereum_gas_price_limit_wei env)) (\<lambda>limit.
      bind_act (probe bc url ''eth_chainId'' (gas_deferred ''chain_probe_error'' None limit)) (\<lambda>chain.
      if chain \<noteq> 1 then throw (gas_deferred ''chain_id'' (Some chain) limit)
      else bind_act (probe bc url ''eth_gasPrice'' (gas_deferred ''rpc_probe_error'' None limit)) (\<lambda>price.
      if limit \<le> price then throw (gas_deferred ''rpc'' (Some price) limit)
      else bind_act (lift (require_ethereum_planned_gas_price_valid env t)) (\<lambda>_.
      bind_act (lift (maximum_fee_per_gas t)) (\<lambda>planned.
      if limit \<le> planned then throw (gas_deferred ''plan'' (Some planned) limit) else give ()))))))"

section \<open>Signing\<close>

record crypto =
  c_address :: "string \<Rightarrow> string"
  c_checksum :: "string \<Rightarrow> string"
  c_sign :: "string \<Rightarrow> pydict \<Rightarrow> string"
  c_keccak :: "string \<Rightarrow> string"
  c_sha256 :: "string \<Rightarrow> string"

definition optional_int :: "int option \<Rightarrow> pyval" where
  "optional_int i = (case i of None \<Rightarrow> PNone | Some n \<Rightarrow> PInt n)"

definition unsigned_fields :: "crypto \<Rightarrow> tx_request \<Rightarrow> int \<Rightarrow> pydict" where
  "unsigned_fields cr t nonce =
     [(''chainId'', PInt (t_chain t)), (''nonce'', PInt nonce), (''to'', PStr (c_checksum cr (t_to t))),
      (''value'', PInt (t_value t)), (''data'', PStr (t_data t)), (''gas'', PInt (t_gas t))]
     @ (case t_max_fee t of
          Some f \<Rightarrow> [(''maxFeePerGas'', PInt f), (''maxPriorityFeePerGas'', optional_int (t_priority t))]
        | None \<Rightarrow> [(''gasPrice'', optional_int (t_gas_price t))])"

definition sign_transaction ::
  "crypto \<Rightarrow> tx_request \<Rightarrow> string \<Rightarrow> string \<Rightarrow> int \<Rightarrow> string result" where
  "sign_transaction cr t private_key expected_sender nonce =
     (if \<not> is_address expected_sender then Inl (ValueError ''invalid expected sender'')
      else if \<not> is_address (t_to t) then Inl (ValueError ''invalid transaction recipient'')
      else if nonce < 0 then Inl (ValueError ''invalid nonce'')
      else if lower (c_address cr private_key) \<noteq> lower expected_sender
      then Inl (ValueError ''private key does not match expected sender'')
      else Inr (''0x'' @ c_sign cr private_key (unsigned_fields cr t nonce)))"

definition hex_payload :: "string \<Rightarrow> bool" where
  "hex_payload s \<longleftrightarrow> starts_with ''0x'' s \<and> 2 < length s \<and> list_all is_hex (drop 2 s)"

text \<open>\<open>bytes.fromhex\<close> needs an even number of digits.\<close>

definition signed_transaction_hash :: "crypto \<Rightarrow> string \<Rightarrow> string result" where
  "signed_transaction_hash cr raw =
     (if \<not> hex_payload raw then Inl (ValueError ''invalid signed transaction'')
      else if odd (length raw) then Inl (ValueError ''non-hexadecimal number found in fromhex() arg'')
      else Inr (''0x'' @ c_keccak cr (drop 2 raw)))"

section \<open>Broadcasting\<close>

definition broadcast_signed_transaction ::
  "broadcaster \<Rightarrow> string \<Rightarrow> string \<Rightarrow> ('j exec, string) action" where
  "broadcast_signed_transaction bc url raw =
     (if \<not> hex_payload raw then throw (ValueError ''invalid signed transaction'')
      else bind_act (call_rpc bc url send_method [PStr raw]) (\<lambda>v. case v of
          PStr h \<Rightarrow> if hex_of_length 64 h then give (lower h)
                   else throw (ValueError ''RPC did not return a transaction hash'')
        | _ \<Rightarrow> throw (ValueError ''RPC did not return a transaction hash'')))"

record 'j durable_ops =
  do_latest :: "'j \<Rightarrow> nat \<Rightarrow> string \<Rightarrow> step_row option"
  do_intent :: "nat \<Rightarrow> string \<Rightarrow> int \<Rightarrow> string \<Rightarrow> string \<Rightarrow> string option \<Rightarrow> 'j \<Rightarrow> (step_row \<times> 'j) result"
  do_baseline :: "nat \<Rightarrow> pyval \<Rightarrow> pyval \<Rightarrow> 'j \<Rightarrow> 'j result"
  do_attempt :: "nat \<Rightarrow> string \<Rightarrow> 'j \<Rightarrow> 'j result"

text \<open>\<open>isinstance(observed, dict) and str(observed.get("hash", "")).lower() == h\<close>.\<close>

definition observed_hash :: "pyval \<Rightarrow> string \<Rightarrow> bool" where
  "observed_hash v h = (case v of
      PDict d \<Rightarrow> lower (py_str (get_default d ''hash'' (PStr []))) = h | _ \<Rightarrow> False)"

definition recover_durable_broadcast ::
  "'j durable_ops \<Rightarrow> broadcaster \<Rightarrow> string \<Rightarrow> nat \<Rightarrow> string \<Rightarrow> ('j exec, string option) action" where
  "recover_durable_broadcast ops bc url pid key s =
     (case do_latest ops (x_journal s) pid key of
        None \<Rightarrow> (Inr None, s)
      | Some r \<Rightarrow>
          if \<not> (case s_tx_hash r of None \<Rightarrow> False | Some h \<Rightarrow> h \<noteq> []) then (Inr None, s)
          else let h = (case s_tx_hash r of None \<Rightarrow> [] | Some h \<Rightarrow> h) in
            bind_act (call_rpc bc url ''eth_getTransactionByHash'' [PStr h]) (\<lambda>v.
              if observed_hash v h then give (Some h) else throw (AmbiguousBroadcast h)) s)"

record send_order =
  so_url :: string
  so_calldata :: string
  so_signed :: string
  so_hash :: string
  so_baseline :: "pyval option"
  so_delta :: "pyval option"

definition existing_hash :: "step_row option \<Rightarrow> int \<Rightarrow> string option" where
  "existing_hash previous nonce = (case previous of
      None \<Rightarrow> None
    | Some r \<Rightarrow> if s_nonce r \<noteq> nonce then None
        else (case s_tx_hash r of Some h \<Rightarrow> if h = [] then None else Some h | None \<Rightarrow> None))"

definition record_baseline ::
  "'j durable_ops \<Rightarrow> nat \<Rightarrow> send_order \<Rightarrow> ('j exec, unit) action" where
  "record_baseline ops sid so = (case (so_baseline so, so_delta so) of
      (Some b, Some d) \<Rightarrow> write_journal (do_baseline ops sid b d) | _ \<Rightarrow> give ())"

definition first_send ::
  "'j durable_ops \<Rightarrow> broadcaster \<Rightarrow> nat \<Rightarrow> send_order \<Rightarrow> ('j exec, string option) action" where
  "first_send ops bc sid so =
     bind_act (write_journal (do_attempt ops sid (so_hash so))) (\<lambda>_.
     bind_act
       (handle (bind_act (broadcast_signed_transaction bc (so_url so) (so_signed so)) (\<lambda>h. give (Some h)))
         (\<lambda>e. if is_timeout_error e \<or> is_rpc_error e then give None else throw e)) (\<lambda>returned.
     case returned of
       None \<Rightarrow> give None
     | Some h \<Rightarrow> if h \<noteq> lower (so_hash so)
         then throw (ValueError ''RPC transaction hash does not match durable intent'')
         else give (Some h)))"

definition observe_existing :: "broadcaster \<Rightarrow> string \<Rightarrow> string \<Rightarrow> ('j exec, string option) action" where
  "observe_existing bc url h =
     bind_act (call_rpc bc url ''eth_getTransactionByHash'' [PStr h])
       (\<lambda>v. give (if observed_hash v h then Some h else None))"

definition broadcast_durable_transaction ::
  "'j durable_ops \<Rightarrow> crypto \<Rightarrow> broadcaster \<Rightarrow> nat \<Rightarrow> string \<Rightarrow> int \<Rightarrow> send_order
     \<Rightarrow> ('j exec, string option) action" where
  "broadcast_durable_transaction ops cr bc pid key nonce so s =
     (let existing = existing_hash (do_latest ops (x_journal s) pid key) nonce in
      bind_act (use_journal (do_intent ops pid key nonce (c_sha256 cr (so_calldata so))
          (c_sha256 cr (so_signed so)) (Some (so_hash so)))) (\<lambda>intent.
      bind_act (record_baseline ops (s_id intent) so) (\<lambda>_.
      case existing of
        Some h \<Rightarrow> observe_existing bc (so_url so) h
      | None \<Rightarrow> first_send ops bc (s_id intent) so)) s)"

section \<open>Queries\<close>

definition pending_nonce :: "broadcaster \<Rightarrow> string \<Rightarrow> string \<Rightarrow> ('j exec, int) action" where
  "pending_nonce bc url wallet =
     (if \<not> is_address wallet then throw (ValueError ''invalid wallet'')
      else bind_act (call_rpc bc url ''eth_getTransactionCount'' [PStr wallet, PStr ''pending''])
        (\<lambda>v. lift (quantity v)))"

definition address_word :: "string \<Rightarrow> string" where
  "address_word a = rjust0 64 (lower (drop 2 a))"

definition token_allowance ::
  "broadcaster \<Rightarrow> string \<Rightarrow> string \<Rightarrow> string \<Rightarrow> string \<Rightarrow> ('j exec, int) action" where
  "token_allowance bc url token owner spender =
     bind_act (call_rpc bc url ''eth_call''
       [PDict [(''to'', PStr token),
          (''data'', PStr (''0xdd62ed3e'' @ address_word owner @ address_word spender))], PStr ''latest''])
       (\<lambda>v. lift (uint256 v))"

definition approve_transaction ::
  "int \<Rightarrow> string \<Rightarrow> string \<Rightarrow> int \<Rightarrow> int \<Rightarrow> tx_request result" where
  "approve_transaction chain token spender amount gas_price =
     (if amount < 0 \<or> \<not> is_address token \<or> \<not> is_address spender then Inl (ValueError ''invalid approval'')
      else Inr \<lparr>t_chain = chain, t_to = lower token,
        t_data = ''0x095ea7b3'' @ address_word spender @ rjust0 64 (hex_text (nat amount)),
        t_value = 0, t_gas = 100000, t_gas_price = Some gas_price, t_max_fee = None, t_priority = None,
        t_additional = 0, t_method = None, t_fallback = None, t_cap = None, t_estimate = None,
        t_block = None, t_base_fee = None\<rparr>)"

text \<open>
  \<open>wait_for_receipt\<close>: a poll either settles the wait or leaves it open. The loop is a
  partial function: \<open>None\<close> would be a wait that never ends. A call takes the time that
  \<open>took\<close> gives for the log.
\<close>

definition settle_receipt :: "deadline option \<Rightarrow> string \<Rightarrow> pyval \<Rightarrow> pyval result option" where
  "settle_receipt current h v = (case v of
      PNone \<Rightarrow> if current = None then None
              else Some (Inl (StageDeadlineExceeded (''receipt_pending:'' @ h)))
    | PDict d \<Rightarrow> Some (bind_result (quantity (get d ''status''))
        (\<lambda>n. if n \<noteq> 1 then Inl (ValueError ''transaction reverted'') else Inr v))
    | _ \<Rightarrow> Some (Inl (ValueError ''invalid transaction receipt'')))"

definition poll_receipt ::
  "broadcaster \<Rightarrow> (request list \<Rightarrow> rat) \<Rightarrow> deadline option \<Rightarrow> string \<Rightarrow> string
     \<Rightarrow> ('j exec, pyval option) action" where
  "poll_receipt bc took current url h s =
     (case check_deadline current (x_now s) of
        Inl e \<Rightarrow> (Inl e, s)
      | Inr _ \<Rightarrow>
          bind_act (call_rpc bc url ''eth_getTransactionReceipt'' [PStr h]) (\<lambda>v t.
            (case settle_receipt current h v of None \<Rightarrow> Inr None
             | Some r \<Rightarrow> bind_result r (\<lambda>x. Inr (Some x)),
             t\<lparr>x_now := x_now t + took (x_sent t)\<rparr>)) s)"

partial_function (option) await_receipt ::
  "broadcaster \<Rightarrow> (request list \<Rightarrow> rat) \<Rightarrow> deadline option \<Rightarrow> string \<Rightarrow> string \<Rightarrow> rat \<Rightarrow> rat
     \<Rightarrow> 'j exec \<Rightarrow> (pyval result \<times> 'j exec) option" where
  "await_receipt bc took current url h limit pause s =
     (if limit \<le> x_now s then Some (Inl (TimeoutError ''transaction receipt timeout''), s)
      else case poll_receipt bc took current url h s of
        (Inl e, t) \<Rightarrow> Some (Inl e, t)
      | (Inr (Some v), t) \<Rightarrow> Some (Inr v, t)
      | (Inr None, t) \<Rightarrow>
          await_receipt bc took current url h limit pause (t\<lparr>x_now := x_now t + pause\<rparr>))"

definition wait_for_receipt ::
  "broadcaster \<Rightarrow> (request list \<Rightarrow> rat) \<Rightarrow> deadline option \<Rightarrow> string \<Rightarrow> string \<Rightarrow> rat \<Rightarrow> rat
     \<Rightarrow> 'j exec \<Rightarrow> (pyval result \<times> 'j exec) option" where
  "wait_for_receipt bc took current url h timeout pause s =
     await_receipt bc took current url h (x_now s + timeout) pause s"

end
