(* ===== verification/Executor_Facts.thy ===== *)
theory Executor_Facts
  imports Executor Journal_Machine
begin

text \<open>
  What the executor guarantees: the contract of the journal it writes to as a locale, the
  guarantees proved once in it, its interpretation on the journal's tables, and the
  properties of the gas guards, the approvals and the receipt loop.
\<close>

section \<open>The contract of a durable journal\<close>

text \<open>The latest step of a key has a nonce and a hash; it has that nonce if there is one.\<close>

definition pinned :: "'j durable_ops \<Rightarrow> 'j \<Rightarrow> nat \<Rightarrow> string \<Rightarrow> int \<Rightarrow> string \<Rightarrow> bool" where
  "pinned ops j pid key n h \<longleftrightarrow>
     (\<exists>r. do_latest ops j pid key = Some r \<and> s_nonce r = n \<and> s_tx_hash r = Some h)"

definition aligned_to :: "'j durable_ops \<Rightarrow> 'j \<Rightarrow> nat \<Rightarrow> string \<Rightarrow> int \<Rightarrow> bool" where
  "aligned_to ops j pid key n \<longleftrightarrow> (\<forall>r. do_latest ops j pid key = Some r \<longrightarrow> s_nonce r = n)"

lemma pinned_aligned: "pinned ops j pid key n h \<Longrightarrow> aligned_to ops j pid key n"
  by (auto simp: pinned_def aligned_to_def)

lemma pinned_existing: "pinned ops j pid key n h \<Longrightarrow> h \<noteq> []
    \<Longrightarrow> existing_hash (do_latest ops j pid key) n = Some h"
  by (auto simp: pinned_def existing_hash_def)

text \<open>Any sequence of calls for one nonce, each with its own order and outcome.\<close>

definition run_orders ::
  "'j durable_ops \<Rightarrow> crypto \<Rightarrow> broadcaster \<Rightarrow> nat \<Rightarrow> string \<Rightarrow> int \<Rightarrow> send_order list \<Rightarrow> 'j exec \<Rightarrow> 'j exec" where
  "run_orders ops cr bc pid key n orders s =
     fold (\<lambda>so s. snd (broadcast_durable_transaction ops cr bc pid key n so s)) orders s"

locale durable_journal =
  fixes ops :: "'j durable_ops" and ok :: "'j \<Rightarrow> bool"
  assumes intent_ok: "ok j \<Longrightarrow> do_intent ops pid key n c p (Some h) j = Inr (s, k) \<Longrightarrow> ok k"
    and baseline_ok: "ok j \<Longrightarrow> do_baseline ops sid b d j = Inr k \<Longrightarrow> ok k"
    and attempt_ok: "ok j \<Longrightarrow> do_attempt ops sid h j = Inr k \<Longrightarrow> ok k"
    and intent_pins: "ok j \<Longrightarrow> do_intent ops pid key n c p (Some h) j = Inr (s, k)
      \<Longrightarrow> aligned_to ops j pid key n \<Longrightarrow> pinned ops k pid key n h"
    and baseline_keeps: "ok j \<Longrightarrow> pinned ops j pid key n h \<Longrightarrow> do_baseline ops sid b d j = Inr k
      \<Longrightarrow> pinned ops k pid key n h"
    and attempt_keeps: "ok j \<Longrightarrow> pinned ops j pid key n h \<Longrightarrow> do_attempt ops sid h' j = Inr k
      \<Longrightarrow> pinned ops k pid key n h"
begin

text \<open>A transaction is durable and, when nothing is saved for its nonce yet, unsent.\<close>

lemma journal_phase:
  assumes "ok (x_journal s)" "aligned_to ops (x_journal s) pid key n"
    and "bind_act (use_journal (do_intent ops pid key n c p (Some h))) (\<lambda>intent.
      bind_act (record_baseline ops (s_id intent) so) (\<lambda>_. give intent)) s = (r, t)"
  shows "ok (x_journal t) \<and> aligned_to ops (x_journal t) pid key n \<and> x_sent t = x_sent s
    \<and> (x_journal t = x_journal s \<or> pinned ops (x_journal t) pid key n h)
    \<and> ((\<exists>i. r = Inr i) \<longrightarrow> pinned ops (x_journal t) pid key n h)"
proof (cases "do_intent ops pid key n c p (Some h) (x_journal s)")
  case (Inl e)
  with assms show ?thesis by (auto simp: bind_act_def use_journal_def)
next
  case (Inr ik)
  obtain i k where ik: "ik = (i, k)" by (cases ik)
  note step = Inr [unfolded ik]
  have k: "ok k" "pinned ops k pid key n h"
    using intent_ok [OF assms(1) step] intent_pins [OF assms(1) step assms(2)] by simp_all
  let ?s1 = "s\<lparr>x_journal := k\<rparr>"
  have run: "bind_act (record_baseline ops (s_id i) so) (\<lambda>_. give i) ?s1 = (r, t)"
    using assms(3) step by (simp add: bind_act_def use_journal_def)
  have "x_sent t = x_sent s \<and> (x_journal t = k
      \<or> (\<exists>b d. do_baseline ops (s_id i) b d k = Inr (x_journal t)))"
    using run by (auto simp: record_baseline_def bind_act_def write_journal_def use_journal_def
        split: option.splits sum.splits prod.splits)
  then show ?thesis
    using k baseline_ok baseline_keeps pinned_aligned by metis
qed

lemma first_send_cases:
  assumes "first_send ops bc sid so s = (r, t)"
  obtains "x_sent t = x_sent s" "x_journal t = x_journal s"
    | k where "do_attempt ops sid (so_hash so) (x_journal s) = Inr k" "x_journal t = k"
      "x_sent t = x_sent s \<or> x_sent t = x_sent s @ [(so_url so, send_method, [PStr (so_signed so)])]"
proof (cases "do_attempt ops sid (so_hash so) (x_journal s)")
  case (Inl e)
  with assms that(1) show thesis
    by (auto simp: first_send_def bind_act_def write_journal_def use_journal_def)
next
  case (Inr k)
  with assms show thesis
    by (intro that(2) [of k])
      (auto simp: first_send_def bind_act_def write_journal_def use_journal_def handle_def
        broadcast_signed_transaction_def call_rpc_def split: if_splits sum.splits prod.splits
        pyval.splits option.splits)
qed

lemma broadcast_effect:
  assumes ok: "ok (x_journal s)" and al: "aligned_to ops (x_journal s) pid key n"
    and run: "broadcast_durable_transaction ops cr bc pid key n so s = (r, t)"
  shows "ok (x_journal t) \<and> aligned_to ops (x_journal t) pid key n
    \<and> (x_journal t = x_journal s \<or> pinned ops (x_journal t) pid key n (so_hash so))
    \<and> (sends (x_sent t) = sends (x_sent s)
       \<or> sends (x_sent t) = Suc (sends (x_sent s)) \<and> pinned ops (x_journal t) pid key n (so_hash so)
         \<and> existing_hash (do_latest ops (x_journal s) pid key) n = None)"
proof -
  define phase where "phase = (bind_act (use_journal (do_intent ops pid key n (c_sha256 cr (so_calldata so))
      (c_sha256 cr (so_signed so)) (Some (so_hash so)))) (\<lambda>intent.
      bind_act (record_baseline ops (s_id intent) so) (\<lambda>_. give intent)))"
  let ?e = "existing_hash (do_latest ops (x_journal s) pid key) n"
  have run': "bind_act phase (\<lambda>intent. case ?e of
      Some h \<Rightarrow> observe_existing bc (so_url so) h | None \<Rightarrow> first_send ops bc (s_id intent) so) s = (r, t)"
    using run by (simp add: broadcast_durable_transaction_def phase_def bind_act_assoc Let_def)
  obtain x u where p: "phase s = (x, u)" by fastforce
  note ph = journal_phase [OF ok al p [unfolded phase_def]]
  show ?thesis
  proof (cases x)
    case (Inl e)
    with run' p ph show ?thesis by (simp add: bind_act_def)
  next
    case (Inr i)
    with ph have u: "ok (x_journal u)" "pinned ops (x_journal u) pid key n (so_hash so)"
      "x_sent u = x_sent s" by blast+
    show ?thesis
    proof (cases ?e)
      case (Some h)
      with run' p Inr have "observe_existing bc (so_url so) h u = (r, t)" by (simp add: bind_act_def)
      then have "x_journal t = x_journal u \<and> sends (x_sent t) = sends (x_sent u)"
        by (auto simp: observe_existing_def bind_act_def call_rpc_def sends_def send_method_def
            split: sum.splits prod.splits)
      with u show ?thesis using pinned_aligned by auto
    next
      case None
      with run' p Inr have "first_send ops bc (s_id i) so u = (r, t)" by (simp add: bind_act_def)
      then show ?thesis
      proof (cases rule: first_send_cases)
        case 1
        with u show ?thesis using pinned_aligned by metis
      next
        case (2 k)
        with u attempt_ok attempt_keeps have "ok k" "pinned ops k pid key n (so_hash so)" by blast+
        with 2 u None show ?thesis using pinned_aligned by (auto simp: sends_def)
      qed
    qed
  qed
qed

lemma repeated_intent_pinned:
  assumes "ok (x_journal s)" "pinned ops (x_journal s) pid key n h" "h \<noteq> []"
    and "broadcast_durable_transaction ops cr bc pid key n so s = (r, t)"
  shows "sends (x_sent t) = sends (x_sent s)"
  using broadcast_effect [OF assms(1) pinned_aligned [OF assms(2)] assms(4)]
    pinned_existing [OF assms(2,3)] by simp

lemma orders_send_once:
  assumes "ok (x_journal s)" "aligned_to ops (x_journal s) pid key n" "\<forall>so \<in> set orders. so_hash so \<noteq> []"
  shows "sends (x_sent (run_orders ops cr bc pid key n orders s)) \<le> Suc (sends (x_sent s))
    \<and> ((\<exists>h. pinned ops (x_journal s) pid key n h \<and> h \<noteq> [])
       \<longrightarrow> sends (x_sent (run_orders ops cr bc pid key n orders s)) = sends (x_sent s))"
  using assms
proof (induction orders arbitrary: s)
  case Nil
  then show ?case by (simp add: run_orders_def)
next
  case (Cons so orders)
  obtain r t where run: "broadcast_durable_transaction ops cr bc pid key n so s = (r, t)" by fastforce
  have unfold_run: "run_orders ops cr bc pid key n (so # orders) s = run_orders ops cr bc pid key n orders t"
    by (simp add: run_orders_def run)
  note effect = broadcast_effect [OF Cons.prems(1,2) run]
  have IH: "sends (x_sent (run_orders ops cr bc pid key n orders t)) \<le> Suc (sends (x_sent t))"
    "(\<exists>h. pinned ops (x_journal t) pid key n h \<and> h \<noteq> [])
       \<Longrightarrow> sends (x_sent (run_orders ops cr bc pid key n orders t)) = sends (x_sent t)"
    using Cons.IH [of t] effect Cons.prems(3) by auto
  have so: "so_hash so \<noteq> []" using Cons.prems(3) by simp
  show ?case
  proof (cases "\<exists>h. pinned ops (x_journal s) pid key n h \<and> h \<noteq> []")
    case True
    then have "sends (x_sent t) = sends (x_sent s)"
      using repeated_intent_pinned [OF Cons.prems(1) _ _ run] by blast
    moreover have "\<exists>h. pinned ops (x_journal t) pid key n h \<and> h \<noteq> []"
      using True effect so by metis
    ultimately show ?thesis using IH unfold_run by simp
  next
    case False
    then show ?thesis using IH unfold_run effect so by (metis le_SucI le_refl)
  qed
qed

end

section \<open>The journal keeps the contract\<close>

definition journal_ops :: "journal durable_ops" where
  "journal_ops = \<lparr>do_latest = latest_step, do_intent = record_step_intent,
     do_baseline = record_balance_baseline, do_attempt = record_broadcast_attempt\<rparr>"

lemma journal_ops_simps [simp]:
  "do_latest journal_ops = latest_step" "do_intent journal_ops = record_step_intent"
  "do_baseline journal_ops = record_balance_baseline" "do_attempt journal_ops = record_broadcast_attempt"
  by (simp_all add: journal_ops_def)

lemma pinned_upd_step:
  assumes "pinned journal_ops j pid key n h"
    and "\<And>s. s_position (f s) = s_position s \<and> s_key (f s) = s_key s"
    and "\<And>s. s_nonce (f s) = s_nonce s" "\<And>s. s_tx_hash s = Some h \<Longrightarrow> s_tx_hash (f s) = Some h"
  shows "pinned journal_ops (upd_step i f j) pid key n h"
proof -
  obtain r where "latest_step j pid key = Some r" "s_nonce r = n" "s_tx_hash r = Some h"
    using assms(1) by (auto simp: pinned_def)
  then show ?thesis
    using assms(3,4) unfolding pinned_def
    by (intro exI [of _ "if s_id r = i then f r else r"]) (simp add: latest_upd_step assms(2))
qed

interpretation jd: durable_journal journal_ops journal_ok
proof unfold_locales
  fix j pid key n c p h s k
  assume ok: "journal_ok j" and run: "do_intent journal_ops pid key n c p (Some h) j = Inr (s, k)"
  then show "journal_ok k" using sound_record_step_intent by (auto simp: sound_def)
  assume "aligned_to journal_ops j pid key n"
  with ok run intent_latest show "pinned journal_ops k pid key n h"
    by (auto simp: aligned_to_def pinned_def)
next
  fix j sid b d k
  assume "journal_ok j" "do_baseline journal_ops sid b d j = Inr k"
  then show "journal_ok k" using sound_record_balance_baseline by (auto simp: sound_def)
next
  fix j sid h k
  assume "journal_ok j" "do_attempt journal_ops sid h j = Inr k"
  then show "journal_ok k" using sound_record_broadcast_attempt by (auto simp: sound_def)
next
  fix j pid key n h sid b d k
  assume "pinned journal_ops j pid key n h" "do_baseline journal_ops sid b d j = Inr k"
  then show "pinned journal_ops k pid key n h"
    by (auto simp: record_balance_baseline_def intro!: pinned_upd_step)
next
  fix j pid key n h sid h' k
  assume "pinned journal_ops j pid key n h" "do_attempt journal_ops sid h' j = Inr k"
  then show "pinned journal_ops k pid key n h"
    by (auto simp: record_broadcast_attempt_def coalesce_def intro!: pinned_upd_step elim!: transition_stepE)
qed

end
