(* ===== verification/Executor_Properties.thy ===== *)
theory Executor_Properties
  imports Executor_Facts
begin

text \<open>
  The properties of the executor: at most one send per nonce over any sequence of calls, a
  hash durable before its send, the gas guards, approvals, and a receipt wait that ends.
\<close>

section \<open>Sends\<close>

text \<open>
  C3: any sequence of calls of \<open>broadcast_durable_transaction\<close> for one position, step key and
  nonce sends at most one transaction, however each call ends and whatever the endpoint
  answers, when the latest step of the key, if it has one, is of this nonce.
\<close>

theorem durable_send_once:
  assumes "reachable (x_journal s)"
    and "\<forall>r. latest_step (x_journal s) pid key = Some r \<longrightarrow> s_nonce r = nonce"
    and "\<forall>so \<in> set orders. so_hash so \<noteq> []"
  shows "sends (x_sent (run_orders journal_ops cr bc pid key nonce orders s)) \<le> Suc (sends (x_sent s))"
  using jd.orders_send_once [OF reachable_journal_ok [OF assms(1)] _ assms(3), of pid key nonce cr bc]
    assms(2) by (simp add: aligned_to_def)

definition sample_crypto :: crypto where
  "sample_crypto = \<lparr>c_address = (\<lambda>k. ''0x'' @ replicate 40 (CHR ''a'')), c_checksum = (\<lambda>a. a),
     c_sign = (\<lambda>k d. ''ab''), c_keccak = (\<lambda>s. s), c_sha256 = (\<lambda>s. s)\<rparr>"

definition timeout_endpoint :: broadcaster where
  "timeout_endpoint sent r = Inl (TimeoutError ''timeout'')"

definition sample_order :: send_order where
  "sample_order = \<lparr>so_url = ''u'', so_calldata = ''c'', so_signed = ''0xab'', so_hash = ''0x1'',
     so_baseline = None, so_delta = None\<rparr>"

definition fresh_exec :: "journal exec" where
  "fresh_exec = \<lparr>x_journal = sample_position, x_sent = [], x_now = 0\<rparr>"

lemma sample_position_fresh: "latest_step sample_position pid key = None"
proof -
  have "steps sample_position = []" by code_simp
  then show ?thesis by (simp add: latest_step_def select_last_def)
qed

lemma durable_send_once_witness:
  "sends (x_sent (run_orders journal_ops sample_crypto timeout_endpoint 1 ''bridge:r:0'' 7
      [sample_order, sample_order, sample_order] fresh_exec)) \<le> 1"
  using durable_send_once [of fresh_exec 1 "''bridge:r:0''" 7 "[sample_order, sample_order, sample_order]"
      sample_crypto timeout_endpoint] sample_reachable(1) sample_position_fresh
  by (simp add: fresh_exec_def sample_order_def sends_def)

text \<open>
  A call that sends has made the transaction's hash durable first: afterwards the latest
  step of the key has the call's nonce and hash, and there was none saved for the nonce.
\<close>

theorem send_has_durable_hash:
  assumes "reachable (x_journal s)"
    and "\<forall>r. latest_step (x_journal s) pid key = Some r \<longrightarrow> s_nonce r = nonce"
    and "broadcast_durable_transaction journal_ops cr bc pid key nonce so s = (r, t)"
    and "sends (x_sent t) \<noteq> sends (x_sent s)"
  shows "(\<exists>row. latest_step (x_journal t) pid key = Some row \<and> s_nonce row = nonce
        \<and> s_tx_hash row = Some (so_hash so))
    \<and> existing_hash (latest_step (x_journal s) pid key) nonce = None"
  using jd.broadcast_effect [OF reachable_journal_ok [OF assms(1)] _ assms(3)] assms(2,4)
  by (auto simp: aligned_to_def pinned_def)

definition sent_once :: "journal exec" where
  "sent_once = snd (broadcast_durable_transaction journal_ops sample_crypto timeout_endpoint 1
     ''bridge:r:0'' 7 sample_order fresh_exec)"

lemma sent_once_facts:
  "sends (x_sent sent_once) = 1" "sends (x_sent fresh_exec) = 0" "x_journal fresh_exec = sample_position"
  by code_simp+

lemma send_has_durable_hash_witness:
  "\<exists>row. latest_step (x_journal sent_once) 1 ''bridge:r:0'' = Some row \<and> s_nonce row = 7
     \<and> s_tx_hash row = Some ''0x1''"
proof -
  obtain r where run: "broadcast_durable_transaction journal_ops sample_crypto timeout_endpoint 1
      ''bridge:r:0'' 7 sample_order fresh_exec = (r, sent_once)"
    by (metis sent_once_def prod.collapse)
  have "\<forall>r. latest_step (x_journal fresh_exec) 1 ''bridge:r:0'' = Some r \<longrightarrow> s_nonce r = 7"
    by (simp add: sent_once_facts(3) sample_position_fresh)
  from send_has_durable_hash [OF _ this run] show ?thesis
    using sample_reachable(1) sent_once_facts by (auto simp: sample_order_def)
qed

text \<open>
  Once the latest step of a key has a nonce and a hash, no call for that nonce sends
  again, whatever payload it is given: it only observes the saved hash or raises.
\<close>

theorem saved_hash_not_resent:
  assumes "reachable (x_journal s)" "latest_step (x_journal s) pid key = Some row" "s_nonce row = nonce"
    and "s_tx_hash row = Some h" "h \<noteq> []"
  shows "sends (x_sent (snd (broadcast_durable_transaction journal_ops cr bc pid key nonce so s)))
    = sends (x_sent s)"
proof -
  have "pinned journal_ops (x_journal s) pid key nonce h" using assms by (simp add: pinned_def)
  then show ?thesis
    using jd.repeated_intent_pinned [OF reachable_journal_ok [OF assms(1)] _ assms(5)]
    by (metis prod.collapse)
qed

definition submitted_exec :: "journal exec" where
  "submitted_exec = \<lparr>x_journal = sample_submitted, x_sent = [], x_now = 0\<rparr>"

lemma saved_hash_not_resent_witness:
  "sends (x_sent (snd (broadcast_durable_transaction journal_ops sample_crypto timeout_endpoint 1
      ''bridge:r:0'' 7 sample_order submitted_exec))) = 0"
proof -
  have row: "latest_step sample_submitted 1 ''bridge:r:0'' = Some (hd (steps sample_submitted))"
    "s_nonce (hd (steps sample_submitted)) = 7" by code_simp+
  have "x_journal submitted_exec = sample_submitted" "sends (x_sent submitted_exec) = 0"
    by (simp_all add: submitted_exec_def sends_def)
  moreover have "s_tx_hash (hd (steps sample_submitted)) = Some ''0xh''" by code_simp
  ultimately show ?thesis
    using saved_hash_not_resent [of submitted_exec 1 "''bridge:r:0''" _ 7 "''0xh''"]
      sample_reachable(3) row by simp
qed

definition older_nonce_run :: "journal exec" where
  "older_nonce_run =
     (let call = (\<lambda>n so s. snd (broadcast_durable_transaction journal_ops sample_crypto timeout_endpoint
                  1 ''bridge:r:0'' n so s));
          other = sample_order\<lparr>so_hash := ''0x2''\<rparr>
      in call 7 sample_order (call 8 other (call 7 sample_order fresh_exec)))"

text \<open>
  The guard looks at the latest step of the key only: after a send for nonce 7 and one for
  nonce 8 under the same key, a further call for nonce 7 sends its transaction once more.
\<close>

theorem older_nonce_resent: "sends (x_sent older_nonce_run) = 3"
  by code_simp

section \<open>Gas guards\<close>

text \<open>
  \<open>require_native_reserve\<close> accepts a transaction exactly when the balance covers the gas
  cost times the multiplier, and returns that reserve.
\<close>

lemma native_reserve_exact:
  "require_native_reserve balance gas_cost multiplier = Inr r
     \<longleftrightarrow> 0 \<le> balance \<and> 0 \<le> gas_cost \<and> 1 \<le> multiplier \<and> gas_cost * multiplier \<le> balance
       \<and> r = gas_cost * multiplier"
  by (auto simp: require_native_reserve_def Let_def)

lemma limit_positive:
  assumes "ethereum_gas_price_limit_wei env = Inr limit"
  shows "0 < limit"
proof -
  obtain d where d: "wei_of_gwei d = Inr limit"
    using assms by (auto simp: ethereum_gas_price_limit_wei_def split: option.splits decimal.splits)
  then have "0 < dec_value d" and l: "dec_value (dec_mul default_prec d (dec_of_int 1000000000)) = of_int limit"
    by (auto simp: wei_of_gwei_def Let_def dec_compare_values split: if_splits)
  then have "0 < dec_value (dec_mul default_prec d (dec_of_int 1000000000))"
    unfolding dec_mul_def by (intro dec_fix_pos) (simp_all add: default_prec_def)
  with l show ?thesis by simp
qed

lemma probe_quiet:
  assumes "probe bc url meth e s = (r, u)" "meth \<noteq> send_method"
  shows "sends (x_sent u) = sends (x_sent s)" "x_journal u = x_journal s"
  using assms by (auto simp: probe_def handle_def bind_act_def call_rpc_def sends_def split: sum.splits)

text \<open>
  An Ethereum transaction that passes the gas guard has a well-formed fee below the
  configured limit, on an endpoint that reports chain 1 and a gas price below the limit;
  the guard itself sends nothing and leaves the journal alone.
\<close>

theorem gas_guard_sound:
  assumes "require_ethereum_gas_below_limit bc env url t s = (Inr (), u)" "t_chain t = 1"
  shows "\<exists>limit planned price w. ethereum_gas_price_limit_wei env = Inr limit \<and> 0 < limit
    \<and> maximum_fee_per_gas t = Inr planned \<and> planned < limit \<and> \<not> planned_gas_malformed t
    \<and> bc (x_sent s) (url, ''eth_chainId'', []) = Inr w \<and> quantity w = Inr 1
    \<and> price < limit \<and> sends (x_sent u) = sends (x_sent s) \<and> x_journal u = x_journal s"
proof -
  obtain limit where limit: "ethereum_gas_price_limit_wei env = Inr limit"
    using assms by (auto simp: require_ethereum_gas_below_limit_def bind_act_def split: sum.splits)
  have chain: "probe bc url ''eth_chainId'' e s = (Inr 1, v) \<Longrightarrow>
      \<exists>w. bc (x_sent s) (url, ''eth_chainId'', []) = Inr w \<and> quantity w = Inr 1" for e v
    by (auto simp: probe_def handle_def bind_act_def call_rpc_def split: sum.splits)
  from assms limit obtain v price planned where p1: "probe bc url ''eth_chainId'' (gas_deferred ''chain_probe_error'' None limit) s = (Inr 1, v)"
    and p2: "probe bc url ''eth_gasPrice'' (gas_deferred ''rpc_probe_error'' None limit) v = (Inr price, u)"
    and "price < limit" "require_ethereum_planned_gas_price_valid env t = Inr ()"
      "maximum_fee_per_gas t = Inr planned" "planned < limit"
    by (auto simp: require_ethereum_gas_below_limit_def not_le split: if_splits)
  moreover have "\<not> planned_gas_malformed t"
    using calculation(4) assms(2) limit
    by (auto simp: require_ethereum_planned_gas_price_valid_def)
  moreover obtain w where "bc (x_sent s) (url, ''eth_chainId'', []) = Inr w" "quantity w = Inr 1"
    using chain [OF p1] by blast
  moreover have "sends (x_sent u) = sends (x_sent s)" "x_journal u = x_journal s"
    using probe_quiet [OF p1] probe_quiet [OF p2] by (simp_all add: send_method_def)
  ultimately show ?thesis
    using limit limit_positive [OF limit] by blast
qed

definition calm_endpoint :: broadcaster where
  "calm_endpoint sent r = (if fst (snd r) = ''eth_chainId'' then Inr (PStr ''0x1'') else Inr (PStr ''0x64''))"

definition sample_tx :: tx_request where
  "sample_tx = \<lparr>t_chain = 1, t_to = ''0x'' @ replicate 40 (CHR ''a''), t_data = ''0x'', t_value = 0, t_gas = 21000,
     t_gas_price = None, t_max_fee = Some 200, t_priority = Some 2, t_additional = 0, t_method = None,
     t_fallback = None, t_cap = None, t_estimate = None, t_block = None, t_base_fee = None\<rparr>"

lemma gas_guard_sound_witness:
  "\<exists>limit price. ethereum_gas_price_limit_wei None = Inr limit \<and> 0 < limit \<and> price < limit"
proof -
  have "ndigits 1 \<le> 1" "ndigits 1000000000 \<le> 10" by (simp_all add: ndigits_le_iff)
  then have "ndigits (coeff (dec_of_int 1)) + ndigits (coeff (dec_of_int 1000000000)) \<le> default_prec"
    by (simp add: dec_of_int_def default_prec_def)
  from dec_mul_exact [OF this]
  have limit: "ethereum_gas_price_limit_wei None = Inr 1000000000"
    by (simp add: ethereum_gas_price_limit_wei_def wei_of_gwei_def Let_def dec_compare_values)
  have "require_ethereum_gas_below_limit calm_endpoint None ''u'' sample_tx fresh_exec
      = (Inr (), snd (require_ethereum_gas_below_limit calm_endpoint None ''u'' sample_tx fresh_exec))"
    by (simp add: require_ethereum_gas_below_limit_def limit bind_act_def sample_tx_def probe_def handle_def
        call_rpc_def calm_endpoint_def fresh_exec_def quantity_def rpc_quantity_def hexes_val_def hex_val_def
        is_digit_def is_hex_def code_of_def starts_with_def maximum_fee_per_gas_def
        require_ethereum_planned_gas_price_valid_def planned_gas_malformed_def)
  from gas_guard_sound [OF this] show ?thesis by (auto simp: sample_tx_def)
qed

section \<open>Approvals and receipts\<close>

lemma address_word_length: "is_address a \<Longrightarrow> length (address_word a) = 64"
  by (simp add: address_word_def rjust0_def is_address_def hex_of_length_def lower_def)

text \<open>
  The call data of an approval names the token's \<open>approve\<close>, the spender's word and, in its
  last word, exactly the approved amount, for every amount an ABI word can hold.
\<close>

theorem approval_amount_exact:
  assumes "approve_transaction chain token spender amount price = Inr t" "amount < 2 ^ 256"
  shows "uint256 (PStr (''0x'' @ drop 74 (t_data t))) = Inr amount
    \<and> take 74 (t_data t) = ''0x095ea7b3'' @ address_word spender
    \<and> length (t_data t) = 138 \<and> t_to t = lower token \<and> t_value t = 0"
proof -
  have small: "nat amount < 2 ^ 256" and amount: "0 \<le> amount" "is_address spender"
    using assms by (auto simp: approve_transaction_def nat_less_iff split: if_splits)
  have "nat amount < 16 ^ 64" using small by simp
  from hex_of_length_text [OF this]
  have len: "length (rjust0 64 (hex_text (nat amount))) = 64" by (simp add: hex_of_length_def)
  show ?thesis
    using assms(1) uint256_round [OF small] address_word_length [OF amount(2)] len amount(1)
    by (auto simp: approve_transaction_def split: if_splits)
qed

lemma approval_amount_exact_witness:
  "\<exists>t. approve_transaction 1 (''0x'' @ replicate 40 (CHR ''a'')) (''0x'' @ replicate 40 (CHR ''b'')) 255 7 = Inr t
     \<and> uint256 (PStr (''0x'' @ drop 74 (t_data t))) = Inr 255"
proof -
  have "\<not> isl (approve_transaction 1 (''0x'' @ replicate 40 (CHR ''a'')) (''0x'' @ replicate 40 (CHR ''b'')) 255 7)"
    by code_simp
  then obtain t where
    "approve_transaction 1 (''0x'' @ replicate 40 (CHR ''a'')) (''0x'' @ replicate 40 (CHR ''b'')) 255 7 = Inr t"
    by (metis sum.collapse(2))
  with approval_amount_exact [OF this] show ?thesis by simp
qed

lemma poll_receipt_time:
  assumes "poll_receipt bc took current url h s = (r, t)" "\<And>rs. 0 \<le> took rs"
  shows "x_now s \<le> x_now t"
  using assms by (auto simp: poll_receipt_def bind_act_def call_rpc_def split: sum.splits prod.splits)

lemma poll_receipt_settled:
  assumes "poll_receipt bc took current url h s = (Inr (Some v), t)"
  shows "v \<noteq> PNone"
  using assms
  by (auto simp: poll_receipt_def call_rpc_def settle_receipt_def bind_act_def bind_result_def
      split: sum.splits pyval.splits if_splits option.splits)

lemma await_receipt_ends:
  assumes "\<And>rs. 0 \<le> took rs" "0 < pause"
  shows "\<exists>r t. await_receipt bc took current url h limit pause s = Some (r, t) \<and> r \<noteq> Inr PNone"
proof (induction "nat \<lceil>(limit - x_now s) / pause\<rceil>" arbitrary: s rule: less_induct)
  case less
  note unfold = await_receipt.simps [of _ _ _ _ _ _ _ s]
  show ?case
  proof (cases "limit \<le> x_now s")
    case False
    obtain r t where poll: "poll_receipt bc took current url h s = (r, t)" by fastforce
    have now: "x_now s \<le> x_now t" using poll_receipt_time [OF poll assms(1)] .
    show ?thesis
    proof (cases "r = Inr None")
      case True
      let ?t = "t\<lparr>x_now := x_now t + pause\<rparr>"
      have "(limit - x_now ?t) / pause \<le> (limit - x_now s) / pause - 1"
        using now assms(2) by (simp add: field_simps)
      then have "\<lceil>(limit - x_now ?t) / pause\<rceil> \<le> \<lceil>(limit - x_now s) / pause\<rceil> - 1"
        using ceiling_mono by fastforce
      moreover have "0 < \<lceil>(limit - x_now s) / pause\<rceil>" using False assms(2) by simp
      ultimately have "nat \<lceil>(limit - x_now ?t) / pause\<rceil> < nat \<lceil>(limit - x_now s) / pause\<rceil>" by simp
      from less [OF this] False poll True show ?thesis by (simp add: unfold)
    next
      case settled: False
      show ?thesis
      proof (cases r)
        case (Inr x)
        then obtain v where v: "r = Inr (Some v)" using settled by (cases x) auto
        from poll_receipt_settled [OF poll [unfolded v]] False poll v show ?thesis by (simp add: unfold)
      qed (use False poll in \<open>simp add: unfold\<close>)
    qed
  qed (simp add: unfold)
qed

text \<open>
  C12: waiting for a receipt ends, whatever the endpoint answers, when the pause between two
  polls is positive; and it ends with a receipt or an error, never with a pending receipt.
\<close>

theorem wait_for_receipt_ends:
  assumes "\<And>rs. 0 \<le> took rs" "0 < pause"
  shows "\<exists>r t. wait_for_receipt bc took current url h timeout pause s = Some (r, t) \<and> r \<noteq> Inr PNone"
  unfolding wait_for_receipt_def by (rule await_receipt_ends [OF assms])

lemma wait_for_receipt_ends_witness:
  "\<exists>r t. wait_for_receipt timeout_endpoint (\<lambda>_. 1) None ''u'' ''0x1'' 180 3 fresh_exec = Some (r, t)"
  using wait_for_receipt_ends [of "\<lambda>_. 1" 3 timeout_endpoint None "''u''" "''0x1''" 180 fresh_exec] by auto

end
