(* ===== verification/Lifi_Quota.thy ===== *)
theory Lifi_Quota
  imports Effects
begin

text \<open>
  Quota and dispatch accounting of the quote providers (\<open>lifi_quota.py\<close>, and the limits of
  \<open>relay.py\<close>): the tables of the operational database, the operations of \<open>LifiQuotaStore\<close>,
  and the contract of its rolling windows as a locale, which the three stores of the program
  satisfy. Seconds are rationals; a clock reading is an argument. The redaction of secrets in
  diagnostics and the parser of HTTP dates are parameters.
\<close>

section \<open>Tables\<close>

record quota_row =
  qs_remaining :: "int option"
  qs_reset :: rat
  qs_limit :: "int option"
  qs_observed :: rat
  qs_attempt :: nat

record attempt =
  at_id :: nat
  at_scope :: string
  at_bucket :: string
  at_key :: string
  at_sent :: rat
  at_started :: "rat option"
  at_observed :: "rat option"

record quota_db =
  q_requests :: "(string \<times> string \<times> rat) list"
  q_limits :: "((string \<times> string) \<times> instant \<times> pyval) list"
  q_states :: "((string \<times> string) \<times> quota_row) list"
  q_dispatch :: "(string \<times> rat) list"
  q_starts :: "(string \<times> rat) list"
  q_actual :: "(string \<times> rat) list"
  q_attempts :: "attempt list"

definition empty_quota :: quota_db where
  "empty_quota = \<lparr>q_requests = [], q_limits = [], q_states = [], q_dispatch = [], q_starts = [],
     q_actual = [], q_attempts = []\<rparr>"

text \<open>The class attributes: limit, window and planning reserve of each bucket.\<close>

record quota_config =
  limits :: "(string \<times> int \<times> rat \<times> int) list"
  limit_matches :: bool

definition lifi_quota :: quota_config where
  "lifi_quota = \<lparr>limits = [(''routes'', 75, 7200, 5), (''steps'', 50, 7200, 3), (''public'', 100, 60, 0)],
     limit_matches = True\<rparr>"

definition authenticated_quota :: quota_config where
  "authenticated_quota = \<lparr>limits = [(''routes'', 12000, 7200, 5), (''steps'', 12000, 7200, 3),
     (''public'', 100, 60, 0)], limit_matches = False\<rparr>"

definition relay_quota :: quota_config where
  "relay_quota = \<lparr>limits = [(''routes'', 40, 60, 0), (''steps'', 40, 60, 0), (''public'', 100, 60, 0)],
     limit_matches = True\<rparr>"

section \<open>Reading the state of a bucket\<close>

record quota_view =
  v_limit :: int
  v_window :: rat
  v_reserve :: int
  v_used :: nat
  v_remaining :: "int option"
  v_reset :: "rat option"
  v_cooldown :: "instant option"

definition sent_after :: "quota_db \<Rightarrow> string \<Rightarrow> string \<Rightarrow> rat \<Rightarrow> rat list" where
  "sent_after db scope bucket from =
     sort (map (\<lambda>(_, _, t). t)
       (filter (\<lambda>(s, b, t). s = scope \<and> b = bucket \<and> from < t) (q_requests db)))"

definition fresh_row :: "quota_db \<Rightarrow> string \<Rightarrow> string \<Rightarrow> rat \<Rightarrow> quota_row option" where
  "fresh_row db scope bucket now = (case map_of (q_states db) (scope, bucket) of
      None \<Rightarrow> None | Some r \<Rightarrow> if now < qs_reset r then Some r else None)"

definition cooldown :: "quota_db \<Rightarrow> string \<Rightarrow> string \<Rightarrow> rat \<Rightarrow> instant option" where
  "cooldown db scope bucket now = (case map_of (q_limits db) (scope, bucket) of
      None \<Rightarrow> None | Some (t, _) \<Rightarrow> if At now < t then Some t else None)"

definition bucket_state ::
  "quota_config \<Rightarrow> quota_db \<Rightarrow> string \<Rightarrow> string \<Rightarrow> rat \<Rightarrow> (quota_view \<times> rat list) result" where
  "bucket_state cfg db scope bucket now = (case map_of (limits cfg) bucket of
      None \<Rightarrow> Inl KeyError
    | Some (l, w, r) \<Rightarrow>
        let fresh = fresh_row db scope bucket now;
            sent = sent_after db scope bucket (now - w)
        in Inr (\<lparr>v_limit = (case fresh of
                   Some row \<Rightarrow> (case qs_limit row of
                       Some p \<Rightarrow> if limit_matches cfg then min l p else l | None \<Rightarrow> l)
                 | None \<Rightarrow> l),
               v_window = w, v_reserve = r, v_used = length sent,
               v_remaining = (case fresh of None \<Rightarrow> None | Some row \<Rightarrow> qs_remaining row),
               v_reset = map_option qs_reset fresh,
               v_cooldown = cooldown db scope bucket now\<rparr>, sent))"

text \<open>A number as a condition: zero counts as absent.\<close>

definition truthy :: "'a \<Rightarrow> 'a option \<Rightarrow> 'a option" where
  "truthy zero v = (if v = Some zero then None else v)"

definition either_or :: "'a \<Rightarrow> 'a option \<Rightarrow> 'a \<Rightarrow> 'a" where
  "either_or zero v other = (case truthy zero v of None \<Rightarrow> other | Some x \<Rightarrow> x)"

definition purpose_reserve :: "quota_view \<Rightarrow> string \<Rightarrow> int" where
  "purpose_reserve v purpose = (if purpose = ''planning'' then v_reserve v else 0)"

text \<open>
  The reservation whose expiry leaves one free place: \<open>sent[min(len - 1, len - capacity)]\<close>
  of the ordered sent, where \<open>0 < capacity \<le> len\<close>.
\<close>

definition freeing :: "rat list \<Rightarrow> int \<Rightarrow> rat" where
  "freeing sent capacity = sent ! min (length sent - 1) (length sent - nat capacity)"

section \<open>Operations\<close>

definition reserve_dispatch_time :: "string \<Rightarrow> rat \<Rightarrow> (quota_db, rat) action" where
  "reserve_dispatch_time scope now db =
     (let dispatch = max now (case map_of (q_dispatch db) scope of None \<Rightarrow> 0 | Some t \<Rightarrow> t)
      in (Inr dispatch, db\<lparr>q_dispatch := AList.update scope (dispatch + 1) (q_dispatch db)\<rparr>))"

text \<open>The instants that hold a reservation back; \<open>None\<close> is Python's.\<close>

definition waits :: "quota_view \<Rightarrow> rat list \<Rightarrow> string \<Rightarrow> rat option list" where
  "waits v sent purpose =
     (let reserve = purpose_reserve v purpose; capacity = v_limit v - reserve in
      (if capacity \<le> 0 then [v_reset v]
       else if capacity \<le> int (length sent) then [Some (freeing sent capacity + v_window v)]
       else [])
      @ (case v_remaining v of Some n \<Rightarrow> if n \<le> reserve then [v_reset v] else [] | None \<Rightarrow> []))"

definition available_at ::
  "quota_config \<Rightarrow> quota_db \<Rightarrow> string \<Rightarrow> string \<Rightarrow> string \<Rightarrow> rat \<Rightarrow> instant result" where
  "available_at cfg db scope bucket purpose now =
     bind_result (bucket_state cfg db scope bucket now) (\<lambda>(v, sent).
     let reserve = purpose_reserve v purpose; capacity = v_limit v - reserve;
         later = At (either_or 0 (v_reset v) (now + v_window v)) in
     Inr (fold max
       ((if capacity \<le> 0 then [later]
         else if capacity \<le> int (length sent) then [At (freeing sent capacity + v_window v)]
         else [])
        @ (case v_remaining v of Some n \<Rightarrow> if n \<le> reserve then [later] else [] | None \<Rightarrow> []))
       (max (At now) (either_or (At 0) (v_cooldown v) (At now)))))"

text \<open>
  \<open>max(retry)\<close> of the waits: Python raises \<open>TypeError\<close> when a \<open>None\<close> is compared, and
  gives a single \<open>None\<close> back.
\<close>

definition latest_wait :: "rat option list \<Rightarrow> instant option result" where
  "latest_wait ws = (case ws of
      [w] \<Rightarrow> Inr (map_option At w)
    | _ \<Rightarrow> if None \<in> set ws then Inl TypeError
        else Inr (Some (fold max (map (\<lambda>w. At (the w)) (tl ws)) (At (the (hd ws))))))"

definition reserve_row :: "string \<Rightarrow> string \<Rightarrow> string \<Rightarrow> rat \<Rightarrow> quota_db \<Rightarrow> nat \<times> quota_db" where
  "reserve_row scope bucket key now db =
     (let i = next_rowid at_id (q_attempts db) in
      (i, db\<lparr>q_requests := q_requests db @ [(scope, bucket, now)],
            q_attempts := q_attempts db @ [\<lparr>at_id = i, at_scope = scope, at_bucket = bucket,
              at_key = key, at_sent = now, at_started = None, at_observed = None\<rparr>],
            q_states := map (\<lambda>(k, r).
               (k, if k = (scope, bucket) \<and> now < qs_reset r
                   then r\<lparr>qs_remaining := map_option (\<lambda>n. n - 1) (qs_remaining r)\<rparr> else r))
               (q_states db)\<rparr>))"

text \<open>Two starts of one scope are a second apart.\<close>

definition pace :: "rat option \<Rightarrow> rat \<Rightarrow> unit result" where
  "pace previous now = (case previous of
      None \<Rightarrow> Inr () | Some t \<Rightarrow> require (t + 1 \<le> now) (DispatchWait (t + 1)))"

text \<open>An exception in the transaction rolls it back.\<close>

definition transaction :: "('s \<Rightarrow> ('a \<times> 's) result) \<Rightarrow> ('s, 'a) action" where
  "transaction f s = (case f s of Inl e \<Rightarrow> (Inl e, s) | Inr (x, t) \<Rightarrow> (Inr x, t))"

definition check_cooldown :: "string \<Rightarrow> quota_view \<Rightarrow> unit result" where
  "check_cooldown bucket v = require (truthy (At 0) (v_cooldown v) = None)
     (LifiRequestLimit bucket ''provider_cooldown'' (v_cooldown v))"

definition reserve_request ::
  "quota_config \<Rightarrow> string \<Rightarrow> string \<Rightarrow> string \<Rightarrow> string \<Rightarrow> bool \<Rightarrow> rat \<Rightarrow> (quota_db, nat) action" where
  "reserve_request cfg scope bucket key purpose paced now =
     transaction (\<lambda>db.
     bind_result (require (purpose \<in> {''planning'', ''execution''})
       (ValueError ''invalid LI.FI request purpose'')) (\<lambda>_.
     bind_result (bucket_state cfg db scope bucket now) (\<lambda>(v, sent).
     bind_result (check_cooldown bucket v) (\<lambda>_.
     if waits v sent purpose \<noteq> []
     then bind_result (latest_wait (waits v sent purpose))
       (\<lambda>w. Inl (LifiRequestLimit bucket ''quota_wait'' w))
     else if paced
     then bind_result (pace (map_of (q_starts db) scope) now) (\<lambda>_.
       Inr (reserve_row scope bucket key now
         (db\<lparr>q_starts := AList.update scope now (q_starts db)\<rparr>)))
     else Inr (reserve_row scope bucket key now db)))))"

definition start_row :: "string \<Rightarrow> nat \<Rightarrow> rat \<Rightarrow> quota_db \<Rightarrow> quota_db" where
  "start_row scope i now db =
     db\<lparr>q_attempts := update_where (\<lambda>a. at_id a = i \<and> at_scope a = scope)
          (\<lambda>a. a\<lparr>at_started := Some now\<rparr>) (q_attempts db)\<rparr>"

definition mark_started ::
  "quota_config \<Rightarrow> string \<Rightarrow> nat \<Rightarrow> bool \<Rightarrow> rat \<Rightarrow> (quota_db, unit) action" where
  "mark_started cfg scope i paced now =
     transaction (\<lambda>db.
     if \<not> paced then Inr ((), start_row scope i now db)
     else case select_one (\<lambda>a. at_id a = i \<and> at_scope a = scope) (q_attempts db) of
        None \<Rightarrow> Inl (ValueError ''unknown LI.FI reservation'')
      | Some a \<Rightarrow>
          bind_result (bucket_state cfg db scope (at_bucket a) now) (\<lambda>(v, _).
          bind_result (check_cooldown (at_bucket a) v) (\<lambda>_.
          bind_result (pace (map_of (q_actual db) scope) now) (\<lambda>_.
          Inr ((), start_row scope i now
            (db\<lparr>q_actual := AList.update scope now (q_actual db)\<rparr>))))))"

section \<open>Observing a response\<close>

text \<open>
  \<open>float(text)\<close>: the syntax of decimals, without signalling or labelled NaNs; a number too
  large for a float is an infinity.
\<close>

definition py_float :: "string \<Rightarrow> decimal option" where
  "py_float t = (case parse_decimal t of
      Some (Number d) \<Rightarrow>
        if 2 ^ 1024 - 2 ^ 970 \<le> \<bar>dec_value d\<bar> then Some (Infinite (negative d)) else Some (Number d)
    | Some NaN \<Rightarrow> if lower (snd (take_sign (strip t))) = ''nan'' then Some NaN else None
    | other \<Rightarrow> other)"

type_synonym headers = "(string \<times> string) list"

definition lower_headers :: "headers \<Rightarrow> headers" where
  "lower_headers hs = fold (\<lambda>(k, v). AList.update (lower k) v) hs []"

definition header_number :: "headers \<Rightarrow> string \<Rightarrow> rat option" where
  "header_number hs name =
     (let text = (case map_of hs name of Some t \<Rightarrow> t
        | None \<Rightarrow> (case map_of hs (''x-'' @ name) of Some t \<Rightarrow> t | None \<Rightarrow> [])) in
      case py_float text of
        Some (Number d) \<Rightarrow> if 0 \<le> dec_value d then Some (dec_value d) else None
      | _ \<Rightarrow> None)"

definition header_reset :: "headers \<Rightarrow> rat \<Rightarrow> rat option" where
  "header_reset hs now = map_option (\<lambda>r. if 1000000000 \<le> r then r else now + r)
     (header_number hs ''ratelimit-reset'')"

definition option_min :: "'a :: linorder option \<Rightarrow> 'a option \<Rightarrow> 'a option" where
  "option_min a b = (case (a, b) of
      (Some x, Some y) \<Rightarrow> Some (min x y) | (None, _) \<Rightarrow> b | (_, None) \<Rightarrow> a)"

text \<open>
  The provider's numbers, less the requests sent since; an unexpired older observation can
  only lower what is left.
\<close>

definition observed_row ::
  "quota_db \<Rightarrow> string \<Rightarrow> string \<Rightarrow> nat \<Rightarrow> rat option \<Rightarrow> rat option \<Rightarrow> rat \<Rightarrow> rat \<Rightarrow> quota_row" where
  "observed_row db scope bucket i remaining limit reset now =
     (let later = int (length (filter (\<lambda>a. at_scope a = scope \<and> at_bucket a = bucket \<and> i < at_id a)
            (q_attempts db)));
          adjusted = (case remaining of
             Some r \<Rightarrow> Some (max 0 (\<lfloor>r\<rfloor> - later))
           | None \<Rightarrow> map_option (\<lambda>l. max 0 (\<lfloor>l\<rfloor> - 1 - later)) limit);
          prior = fresh_row db scope bucket now;
          ceiling = (case prior of None \<Rightarrow> limit
            | Some p \<Rightarrow> option_min limit (map_option of_int (qs_limit p)))
      in \<lparr>qs_remaining = (case prior of None \<Rightarrow> adjusted
            | Some p \<Rightarrow> option_min adjusted (qs_remaining p)),
          qs_reset = (case prior of None \<Rightarrow> reset | Some p \<Rightarrow> max reset (qs_reset p)),
          qs_limit = (case ceiling of None \<Rightarrow> None | Some l \<Rightarrow> if 1 \<le> l then Some \<lfloor>l\<rfloor> else None),
          qs_observed = now, qs_attempt = i\<rparr>)"

definition observation ::
  "quota_db \<Rightarrow> string \<Rightarrow> string \<Rightarrow> nat \<Rightarrow> headers \<Rightarrow> rat \<Rightarrow> quota_row option" where
  "observation db scope bucket i hs now =
     (let remaining = header_number hs ''ratelimit-remaining'';
          limit = header_number hs ''ratelimit-limit'' in
      case header_reset hs now of
        None \<Rightarrow> None
      | Some reset \<Rightarrow>
          if (remaining \<noteq> None \<or> limit \<noteq> None) \<and> now < reset
          then Some (observed_row db scope bucket i remaining limit reset now) else None)"

text \<open>\<open>retry-after\<close>: seconds, or a date that \<open>parse_date\<close> reads.\<close>

definition retry_after ::
  "(string \<Rightarrow> rat option) \<Rightarrow> string option \<Rightarrow> rat \<Rightarrow> rat \<Rightarrow> instant" where
  "retry_after parse_date raw now fallback = (case truthy [] raw of
      None \<Rightarrow> At fallback
    | Some t \<Rightarrow> (case py_float t of
        Some (Number d) \<Rightarrow> At (now + max 1 (dec_value d))
      | Some (Infinite False) \<Rightarrow> Forever
      | Some _ \<Rightarrow> At (now + 1)
      | None \<Rightarrow> (case parse_date t of None \<Rightarrow> At fallback | Some d \<Rightarrow> At (max (now + 1) d))))"

definition upsert_limit ::
  "string \<times> string \<Rightarrow> instant \<Rightarrow> pyval \<Rightarrow> quota_db \<Rightarrow> quota_db" where
  "upsert_limit key t diagnostic db =
     db\<lparr>q_limits := AList.update key
          (case map_of (q_limits db) key of None \<Rightarrow> t | Some (earlier, _) \<Rightarrow> max earlier t, diagnostic)
          (q_limits db)\<rparr>"

definition observe ::
  "quota_config \<Rightarrow> (pyval \<Rightarrow> pyval) \<Rightarrow> (string \<Rightarrow> rat option) \<Rightarrow> string \<Rightarrow> string \<Rightarrow> nat
     \<Rightarrow> headers \<Rightarrow> int \<Rightarrow> pyval \<Rightarrow> rat \<Rightarrow> (quota_db, exn option) action" where
  "observe cfg redact parse_date scope bucket i raw_headers status body now =
     transaction (\<lambda>db0.
     let hs = lower_headers raw_headers;
         diagnostic = redact (PDict [(''status'', PInt status), (''body'', body),
           (''headers'', PDict (map (\<lambda>(k, v). (k, PStr v)) hs))]);
         db1 = db0\<lparr>q_attempts := update_where (\<lambda>a. at_id a = i \<and> at_scope a = scope)
           (\<lambda>a. a\<lparr>at_observed := Some now\<rparr>) (q_attempts db0)\<rparr>;
         seen = observation db1 scope bucket i hs now;
         db2 = (case seen of None \<Rightarrow> db1
           | Some r \<Rightarrow> db1\<lparr>q_states := AList.update (scope, bucket) r (q_states db1)\<rparr>);
         reset = (case seen of None \<Rightarrow> header_reset hs now | Some r \<Rightarrow> Some (qs_reset r)) in
     if status \<noteq> 429 then Inr (None, db2)
     else case map_of (limits cfg) bucket of
        None \<Rightarrow> if truthy 0 reset = None then Inl KeyError
          else let t = retry_after parse_date (map_of hs ''retry-after'') now (either_or 0 reset 0) in
            Inr (Some (LifiRequestLimit bucket ''provider_cooldown'' (Some t)),
              upsert_limit (scope, bucket) t diagnostic db2)
      | Some (_, w, _) \<Rightarrow>
          let t = retry_after parse_date (map_of hs ''retry-after'') now (either_or 0 reset (now + w)) in
          Inr (Some (LifiRequestLimit bucket ''provider_cooldown'' (Some t)),
            upsert_limit (scope, bucket) t diagnostic db2))"

definition snapshot ::
  "quota_config \<Rightarrow> quota_db \<Rightarrow> string \<Rightarrow> (string \<Rightarrow> rat) \<Rightarrow> (string \<times> quota_view result) list" where
  "snapshot cfg db scope clock =
     map (\<lambda>(b, _). (b, bind_result (bucket_state cfg db scope b (clock b)) (\<lambda>(v, _). Inr v)))
       (limits cfg)"

section \<open>Runs\<close>

text \<open>
  Any number of stores, with their scopes and configurations, share the database. A run is a
  sequence of operations, each with the clock reading it is made at; readings need not grow.
\<close>

datatype quota_op =
    Reserve string string string bool rat
  | Start nat bool rat
  | Observe string nat headers int pyval rat
  | Dispatch rat

fun quota_step ::
  "(pyval \<Rightarrow> pyval) \<Rightarrow> (string \<Rightarrow> rat option) \<Rightarrow> quota_config \<Rightarrow> string \<Rightarrow> quota_op \<Rightarrow> quota_db \<Rightarrow> quota_db" where
  "quota_step rd pd cfg scope (Reserve b k p paced now) db = snd (reserve_request cfg scope b k p paced now db)"
| "quota_step rd pd cfg scope (Start i paced now) db = snd (mark_started cfg scope i paced now db)"
| "quota_step rd pd cfg scope (Observe b i hs st body now) db =
     snd (observe cfg rd pd scope b i hs st body now db)"
| "quota_step rd pd cfg scope (Dispatch now) db = snd (reserve_dispatch_time scope now db)"

definition quota_run ::
  "(pyval \<Rightarrow> pyval) \<Rightarrow> (string \<Rightarrow> rat option) \<Rightarrow> (string \<Rightarrow> quota_config) \<Rightarrow> (string \<times> quota_op) list
     \<Rightarrow> quota_db \<Rightarrow> quota_db" where
  "quota_run rd pd cfgs ops db = fold (\<lambda>(scope, x). quota_step rd pd (cfgs scope) scope x) ops db"

lemma quota_run_induct:
  assumes "P db" "\<And>scope x db. P db \<Longrightarrow> P (quota_step rd pd (cfgs scope) scope x db)"
  shows "P (quota_run rd pd cfgs ops db)"
  using assms(1) unfolding quota_run_def
  by (induction ops arbitrary: db) (auto intro: assms(2))

section \<open>Facts\<close>

lemma transaction_Inr [simp]: "transaction f s = (Inr x, t) \<longleftrightarrow> f s = Inr (x, t)"
  by (auto simp: transaction_def split: sum.splits)

lemma transaction_snd: "snd (transaction f s) = (case f s of Inl e \<Rightarrow> s | Inr (x, t) \<Rightarrow> t)"
  by (simp add: transaction_def split: sum.split)

lemma reserve_rowD:
  "reserve_row scope b k now db = (i, t) \<Longrightarrow>
     q_requests t = q_requests db @ [(scope, b, now)] \<and> q_actual t = q_actual db"
  by (auto simp: reserve_row_def Let_def)

lemma start_row_simps [simp]:
  "q_requests (start_row scope i now db) = q_requests db" "q_actual (start_row scope i now db) = q_actual db"
  by (simp_all add: start_row_def)

lemma reserve_granted:
  assumes "reserve_request cfg scope b k p paced now db = (Inr i, t)"
  shows "\<exists>v sent. bucket_state cfg db scope b now = Inr (v, sent) \<and> waits v sent p = []"
    and "q_requests t = q_requests db @ [(scope, b, now)]" "q_actual t = q_actual db"
  using assms unfolding reserve_request_def
  by (auto split: if_splits dest: reserve_rowD)

lemma reserve_refused:
  "reserve_request cfg scope b k p paced now db = (Inl e, t) \<Longrightarrow> t = db"
  by (auto simp: reserve_request_def transaction_def split: sum.splits)

lemma mark_requests: "q_requests (snd (mark_started cfg scope i paced now db)) = q_requests db"
  by (auto simp: mark_started_def transaction_def bind_result_def split: sum.splits option.splits if_splits)

lemma observe_tables:
  "q_requests (snd (observe cfg rd pd scope b i hs st body now db)) = q_requests db"
  "q_actual (snd (observe cfg rd pd scope b i hs st body now db)) = q_actual db"
  by (simp_all add: observe_def transaction_def Let_def upsert_limit_def split: sum.split option.split)

lemma dispatch_tables:
  "q_requests (snd (reserve_dispatch_time scope now db)) = q_requests db"
  "q_actual (snd (reserve_dispatch_time scope now db)) = q_actual db"
  by (simp_all add: reserve_dispatch_time_def Let_def)

lemmas quota_tables = mark_requests observe_tables dispatch_tables

section \<open>The rolling window\<close>

definition in_window :: "quota_db \<Rightarrow> string \<Rightarrow> string \<Rightarrow> rat \<Rightarrow> rat \<Rightarrow> nat" where
  "in_window db scope bucket from until =
     length (filter (\<lambda>(s, b, t). s = scope \<and> b = bucket \<and> from < t \<and> t \<le> until) (q_requests db))"

lemma length_sent_after:
  "length (sent_after db scope b from) =
     length (filter (\<lambda>(s, b', t). s = scope \<and> b' = b \<and> from < t) (q_requests db))"
  by (simp add: sent_after_def)

lemma length_filter_mono:
  "(\<And>x. x \<in> set xs \<Longrightarrow> P x \<Longrightarrow> Q x) \<Longrightarrow> length (filter P xs) \<le> length (filter Q xs)"
  by (induction xs) (auto simp: le_SucI)

lemma in_window_le: "u \<le> from \<Longrightarrow> in_window db scope b from until \<le> length (sent_after db scope b u)"
  unfolding in_window_def length_sent_after by (rule length_filter_mono) auto

lemma bucket_stateD:
  assumes "bucket_state cfg db scope b now = Inr (v, sent)"
  shows "\<exists>l w r. map_of (limits cfg) b = Some (l, w, r) \<and> v_limit v \<le> l \<and> v_window v = w \<and> v_reserve v = r
    \<and> sent = sent_after db scope b (now - w)"
  using assms by (auto simp: bucket_state_def Let_def split: option.splits)

lemma no_waits:
  assumes "waits v sent p = []"
  shows "int (length sent) < v_limit v - purpose_reserve v p" "0 < v_limit v - purpose_reserve v p"
  using assms by (auto simp: waits_def Let_def split: if_splits)

text \<open>
  The contract of a store: every bucket keeps a planning reserve below its limit, in a
  window of positive length.
\<close>

locale rolling_quota =
  fixes cfg :: quota_config
  assumes bucket_ok: "map_of (limits cfg) b = Some (l, w, r) \<Longrightarrow> 0 \<le> r \<and> r < l \<and> 0 < w"
begin

lemma granted_below:
  assumes "reserve_request cfg scope b k p paced now db = (Inr i, t)" "map_of (limits cfg) b = Some (l, w, r)"
  shows "int (length (sent_after db scope b (now - w))) < l - (if p = ''planning'' then r else 0)"
  using reserve_granted(1) [OF assms(1)] assms(2) no_waits
  by (fastforce simp: purpose_reserve_def dest!: bucket_stateD)

lemma window_kept:
  assumes bound: "\<And>until. int (in_window db scope b (until - w) until) \<le> l"
    and cfg: "map_of (limits cfg) b = Some (l, w, r)"
    and granted: "reserve_request cfg scope b k p paced now db = (Inr i, t)"
  shows "int (in_window t scope b (until - w) until) \<le> l"
proof (cases "until - w < now \<and> now \<le> until")
  case True
  have "in_window t scope b (until - w) until = Suc (in_window db scope b (until - w) until)"
    using reserve_granted(2) [OF granted] True by (simp add: in_window_def)
  moreover have "in_window db scope b (until - w) until \<le> length (sent_after db scope b (now - w))"
    using True by (intro in_window_le) simp
  ultimately show ?thesis
    using granted_below [OF granted cfg] bucket_ok [OF cfg] by (simp split: if_splits)
next
  case False
  then show ?thesis
    using reserve_granted(2) [OF granted] bound [of until] by (auto simp: in_window_def)
qed

lemma run_bounded:
  assumes cfg: "map_of (limits cfg) b = Some (l, w, r)" and scope: "cfgs scope = cfg"
  shows "int (in_window (quota_run rd pd cfgs ops empty_quota) scope b (until - w) until) \<le> l"
proof -
  have "\<forall>until. int (in_window (quota_run rd pd cfgs ops empty_quota) scope b (until - w) until) \<le> l"
  proof (rule quota_run_induct [where P = "\<lambda>db. \<forall>until. int (in_window db scope b (until - w) until) \<le> l"])
    show "\<forall>until. int (in_window empty_quota scope b (until - w) until) \<le> l"
      using bucket_ok [OF cfg] by (simp add: in_window_def empty_quota_def)
  next
    fix other x db
    assume bound: "\<forall>until. int (in_window db scope b (until - w) until) \<le> l"
    show "\<forall>until. int (in_window (quota_step rd pd (cfgs other) other x db) scope b (until - w) until) \<le> l"
    proof (cases x)
      case (Reserve b' k p paced now)
      obtain res t where run: "reserve_request (cfgs other) other b' k p paced now db = (res, t)" by fastforce
      show ?thesis
      proof (cases "res")
        case (Inr i)
        with run have granted: "reserve_request (cfgs other) other b' k p paced now db = (Inr i, t)" by simp
        show ?thesis
        proof (cases "other = scope \<and> b' = b")
          case True
          with granted scope window_kept [OF _ cfg, of db scope k p paced now i t] bound Reserve show ?thesis
            by simp
        next
          case False
          then have "in_window t scope b lo hi = in_window db scope b lo hi" for lo hi
            using reserve_granted(2) [OF granted] by (auto simp: in_window_def)
          with Reserve granted bound show ?thesis by simp
        qed
      qed (use run bound Reserve reserve_refused in fastforce)
    qed (use bound quota_tables in \<open>simp_all add: in_window_def\<close>)
  qed
  then show ?thesis by blast
qed

lemma sorted_above:
  assumes "sorted xs" "0 < c" "c \<le> length xs"
  shows "length (filter (\<lambda>x. y < x) xs) < c \<longleftrightarrow> (xs ! (length xs - c) :: rat) \<le> y"
proof -
  let ?I = "{i. i < length xs \<and> y < xs ! i}"
  have len: "length (filter (\<lambda>x. y < x) xs) = card ?I" by (simp add: length_filter_conv_card)
  show ?thesis
  proof (cases "xs ! (length xs - c) \<le> y")
    case True
    have "?I \<subseteq> {length xs - c + 1..<length xs}"
    proof
      fix i assume i: "i \<in> ?I"
      have "\<not> i \<le> length xs - c"
      proof
        assume "i \<le> length xs - c"
        then have "xs ! i \<le> xs ! (length xs - c)"
          using assms by (intro sorted_nth_mono) auto
        with i True show False by simp
      qed
      with i show "i \<in> {length xs - c + 1..<length xs}" by simp
    qed
    then have "card ?I \<le> card {length xs - c + 1..<length xs}" by (intro card_mono) simp_all
    with assms len True show ?thesis by simp
  next
    case False
    have "{length xs - c..<length xs} \<subseteq> ?I"
    proof
      fix i assume i: "i \<in> {length xs - c..<length xs}"
      then have "xs ! (length xs - c) \<le> xs ! i" using assms(1) by (intro sorted_nth_mono) auto
      with i False show "i \<in> ?I" by auto
    qed
    then have "card {length xs - c..<length xs} \<le> card ?I" by (intro card_mono) simp_all
    with assms len False show ?thesis by simp
  qed
qed

lemma sent_after_later:
  "u \<le> v \<Longrightarrow> sent_after db scope b v = filter (\<lambda>t. v < t) (sent_after db scope b u)"
  unfolding sent_after_def filter_sort filter_map filter_filter o_def split_def
  by (intro arg_cong [where f = "\<lambda>x. sort (map _ x)"] filter_cong) auto

lemma wait_ends:
  assumes cfg: "map_of (limits cfg) b = Some (l, w, r)"
    and quiet: "map_of (q_states db) (scope, b) = None" "map_of (q_limits db) (scope, b) = None"
    and p: "p \<in> {''planning'', ''execution''}" and later: "now \<le> later"
  shows "\<exists>t. available_at cfg db scope b p now = Inr (At t)
    \<and> ((\<exists>i db'. reserve_request cfg scope b k p paced later db = (Inr i, db'))
        \<longleftrightarrow> t \<le> later \<and> (paced \<longrightarrow> (\<forall>s. map_of (q_starts db) scope = Some s \<longrightarrow> s + 1 \<le> later)))
    \<and> (\<forall>s. t \<le> later \<and> paced \<and> map_of (q_starts db) scope = Some s \<and> later < s + 1
        \<longrightarrow> reserve_request cfg scope b k p paced later db = (Inl (DispatchWait (s + 1)), db))"
proof -
  define c where "c = l - (if p = ''planning'' then r else 0)"
  have c: "0 < c" using bucket_ok [OF cfg] by (auto simp: c_def)
  define S where "S x = sent_after db scope b (x - w)" for x
  have view: "bucket_state cfg db scope b x = Inr (\<lparr>v_limit = l, v_window = w, v_reserve = r,
      v_used = length (S x), v_remaining = None, v_reset = None, v_cooldown = None\<rparr>, S x)" for x
    using cfg quiet by (simp add: bucket_state_def Let_def fresh_row_def cooldown_def S_def)
  have waits: "waits \<lparr>v_limit = l, v_window = w, v_reserve = r, v_used = length (S x), v_remaining = None,
      v_reset = None, v_cooldown = None\<rparr> (S x) p = [] \<longleftrightarrow> int (length (S x)) < c" for x
    using c by (auto simp: waits_def Let_def purpose_reserve_def c_def)
  have granted: "(\<exists>i db'. reserve_request cfg scope b k p paced later db = (Inr i, db'))
      \<longleftrightarrow> int (length (S later)) < c \<and> (paced \<longrightarrow> (\<forall>s. map_of (q_starts db) scope = Some s \<longrightarrow> s + 1 \<le> later))"
    and refused: "\<forall>s. int (length (S later)) < c \<and> paced \<and> map_of (q_starts db) scope = Some s \<and> later < s + 1
      \<longrightarrow> reserve_request cfg scope b k p paced later db = (Inl (DispatchWait (s + 1)), db)"
    using p waits [of later] by (auto simp: reserve_request_def view check_cooldown_def truthy_def pace_def require_def
        bind_result_def transaction_def reserve_row_def Let_def split: sum.splits if_splits option.splits)
  have S: "S later = filter (\<lambda>t. later - w < t) (S now)"
    using later unfolding S_def by (intro sent_after_later) simp
  have free: "available_at cfg db scope b p now = Inr (At (if c \<le> int (length (S now))
      then max now (freeing (S now) c + w) else now))"
    using c by (auto simp: available_at_def view Let_def purpose_reserve_def c_def either_or_def truthy_def max_def)
  show ?thesis
  proof (cases "c \<le> int (length (S now))")
    case True
    have "sorted (S now)" by (simp add: S_def sent_after_def)
    moreover have "S now ! (length (S now) - nat c) = freeing (S now) c"
      using c by (simp add: freeing_def min_absorb2 diff_le_mono2)
    ultimately have "length (S later) < nat c \<longleftrightarrow> freeing (S now) c \<le> later - w"
      using c True sorted_above [of "S now" "nat c" "later - w"] by (simp add: S)
    then have "int (length (S later)) < c \<longleftrightarrow> max now (freeing (S now) c + w) \<le> later"
      using c later by (simp add: le_diff_eq zless_nat_eq_int_zless)
    with True free granted refused show ?thesis by auto
  next
    case False
    have "length (S later) \<le> length (S now)" by (simp add: S)
    with False free granted refused later show ?thesis by auto
  qed
qed

end

interpretation lq: rolling_quota lifi_quota
  by unfold_locales (auto simp: lifi_quota_def split: if_splits)

interpretation aq: rolling_quota authenticated_quota
  by unfold_locales (auto simp: authenticated_quota_def split: if_splits)

interpretation rq: rolling_quota relay_quota
  by unfold_locales (auto simp: relay_quota_def split: if_splits)

section \<open>Properties\<close>

text \<open>
  C13: over any run of any stores on one database, no bucket of a provider's store ever has
  more requests in a rolling window than its limit, whenever the window ends and however the
  clock readings are ordered.
\<close>

theorem window_never_exceeded:
  assumes "map_of (limits (cfgs scope)) bucket = Some (l, w, r)"
    and "cfgs scope \<in> {lifi_quota, authenticated_quota, relay_quota}"
  shows "int (in_window (quota_run rd pd cfgs ops empty_quota) scope bucket (until - w) until) \<le> l"
  using assms lq.run_bounded [of bucket l w r cfgs scope] aq.run_bounded [of bucket l w r cfgs scope]
    rq.run_bounded [of bucket l w r cfgs scope] by auto

lemma window_never_exceeded_witness:
  "int (in_window (quota_run (\<lambda>v. v) (\<lambda>_. None) (\<lambda>_. relay_quota)
     (replicate 50 (''relay'', Reserve ''routes'' ''k'' ''planning'' False 7)) empty_quota)
     ''relay'' ''routes'' (7 - 60) 7) \<le> 40"
proof (rule window_never_exceeded [where cfgs = "\<lambda>_. relay_quota" and w = 60])
  show "map_of (limits relay_quota) ''routes'' = Some (40, 60, 0)" by (simp add: relay_quota_def)
qed simp

text \<open>
  C14: a wait for quota ends: when the provider has said nothing about a bucket, \<open>available_at\<close>
  gives a time, and a request is granted at a later time exactly when that time has come and, for
  the paced requests of the client, the last start of the scope is a second ago; until then a
  paced request that has its quota is refused with the time of the next start, and nothing is
  reserved.
\<close>

theorem quota_wait_ends:
  assumes "map_of (limits cfg) bucket = Some (l, w, r)"
    and "cfg \<in> {lifi_quota, authenticated_quota, relay_quota}"
    and "map_of (q_states db) (scope, bucket) = None" "map_of (q_limits db) (scope, bucket) = None"
    and "purpose \<in> {''planning'', ''execution''}" "now \<le> later"
  shows "\<exists>t. available_at cfg db scope bucket purpose now = Inr (At t)
    \<and> ((\<exists>i db'. reserve_request cfg scope bucket key purpose paced later db = (Inr i, db'))
        \<longleftrightarrow> t \<le> later \<and> (paced \<longrightarrow> (\<forall>s. map_of (q_starts db) scope = Some s \<longrightarrow> s + 1 \<le> later)))
    \<and> (\<forall>s. t \<le> later \<and> paced \<and> map_of (q_starts db) scope = Some s \<and> later < s + 1
        \<longrightarrow> reserve_request cfg scope bucket key purpose paced later db = (Inl (DispatchWait (s + 1)), db))"
proof -
  consider "cfg = lifi_quota" | "cfg = authenticated_quota" | "cfg = relay_quota"
    using assms(2) by blast
  then show ?thesis
  proof cases
    case 1
    show ?thesis by (rule lq.wait_ends [OF assms(1) [unfolded 1] assms(3-6), folded 1])
  next
    case 2
    show ?thesis by (rule aq.wait_ends [OF assms(1) [unfolded 2] assms(3-6), folded 2])
  next
    case 3
    show ?thesis by (rule rq.wait_ends [OF assms(1) [unfolded 3] assms(3-6), folded 3])
  qed
qed

definition busy_quota :: quota_db where
  "busy_quota = empty_quota\<lparr>q_requests := map (\<lambda>i. (''relay'', ''routes'', of_nat i)) [0..<40],
     q_starts := [(''relay'', 39)]\<rparr>"

lemma quota_wait_ends_witness:
  "\<exists>t. available_at relay_quota busy_quota ''relay'' ''routes'' ''planning'' 50 = Inr (At t)
    \<and> ((\<exists>i db'. reserve_request relay_quota ''relay'' ''routes'' ''k'' ''planning'' True 70 busy_quota
          = (Inr i, db')) \<longleftrightarrow> t \<le> 70)"
  using quota_wait_ends [of relay_quota "''routes''" 40 60 0 busy_quota "''relay''" "''planning''" 50 70 "''k''" True]
  by (simp add: relay_quota_def busy_quota_def empty_quota_def)

end
