(* ===== verification/Quote_Jobs.thy ===== *)
theory Quote_Jobs
  imports Effects
begin

text \<open>
  Durable quote responses and expiring claims (\<open>quote_jobs.py\<close>): the table of jobs that the
  processes share, the memory of each client, every operation of \<open>QuoteJobs\<close>, and the lock
  with leases it implements. SHA-256, fresh attempt ids and \<open>exception_diagnostic\<close> are
  parameters: a fresh id and the diagnostic of an exception are arguments, and a clock
  reading is one at every place where the code reads the clock.
\<close>

section \<open>State\<close>

record job_row =
  qj_search :: string
  qj_state :: string
  qj_observed :: "rat option"
  qj_expires :: "rat option"
  qj_retry :: "instant option"
  qj_request :: pyval
  qj_result :: "pyval option"
  qj_diagnostic :: "pydict option"
  qj_updated :: rat
  qj_owner :: string
  qj_attempt :: string
  qj_lease :: "rat option"

type_synonym job_key = "string \<times> string"

text \<open>What a client remembers: keys it has attempted, and its own failures.\<close>

record memory =
  attempted :: "string list"
  failures :: "(string \<times> pydict \<times> instant option) list"

record job_store =
  job_rows :: "(job_key \<times> job_row) list"
  memory_of :: "string \<Rightarrow> memory"

definition fresh_store :: job_store where
  "fresh_store = \<lparr>job_rows = [], memory_of = (\<lambda>_. \<lparr>attempted = [], failures = []\<rparr>)\<rparr>"

record claim =
  cl_key :: string
  cl_attempt :: string
  cl_owner :: string

definition lease_seconds :: rat where
  "lease_seconds = 60"

text \<open>
  A client: the scope of its table, the owner id that every process draws anew, and the
  optional recheck of a quota wait.
\<close>

record client =
  jc_scope :: string
  jc_owner :: string
  jc_recheck :: "(pydict \<Rightarrow> instant option result) option"

definition quote_job_key :: "(pyval \<Rightarrow> string) \<Rightarrow> string \<Rightarrow> pyval \<Rightarrow> string \<Rightarrow> string result" where
  "quote_job_key sha scope request digest =
     bind_result (json_value (PList [PStr scope, request, PStr digest])) (\<lambda>v. Inr (sha v))"

definition row_of :: "client \<Rightarrow> string \<Rightarrow> job_store \<Rightarrow> job_row option" where
  "row_of c key s = map_of (job_rows s) (jc_scope c, key)"

definition put_row :: "client \<Rightarrow> string \<Rightarrow> job_row \<Rightarrow> job_store \<Rightarrow> job_store" where
  "put_row c key r s = s\<lparr>job_rows := AList.update (jc_scope c, key) r (job_rows s)\<rparr>"

definition change_memory :: "client \<Rightarrow> (memory \<Rightarrow> memory) \<Rightarrow> job_store \<Rightarrow> job_store" where
  "change_memory c f s = s\<lparr>memory_of := (memory_of s)(jc_owner c := f (memory_of s (jc_owner c)))\<rparr>"

section \<open>Reading\<close>

definition read_job :: "client \<Rightarrow> string \<Rightarrow> bool \<Rightarrow> rat \<Rightarrow> (job_store, job_row option) action" where
  "read_job c key include_inflight now s = (case row_of c key s of
      None \<Rightarrow> (Inr None, s)
    | Some r \<Rightarrow>
        if qj_state r \<in> {''complete'', ''no_route''}
        then (if (case qj_expires r of None \<Rightarrow> True | Some e \<Rightarrow> e \<le> now)
          then (Inr None, put_row c key (r\<lparr>qj_state := ''expired'', qj_updated := now\<rparr>) s)
          else (Inr (Some r), s))
        else if (include_inflight \<and> qj_state r = ''inflight'') \<or> qj_state r \<in> {''error'', ''quota_wait''}
        then (Inr (Some r), s)
        else (Inr None, s))"

section \<open>Claiming\<close>

definition diagnostic_of :: "job_row \<Rightarrow> pydict" where
  "diagnostic_of r = (case qj_diagnostic r of None \<Rightarrow> [] | Some d \<Rightarrow> d)"

definition reason_of :: "pydict \<Rightarrow> string" where
  "reason_of d = py_str (get_default d ''reason'' (PStr ''error''))"

text \<open>A comparison with a missing time raises \<open>TypeError\<close>.\<close>

definition later_than :: "rat option \<Rightarrow> rat \<Rightarrow> bool result" where
  "later_than t now = (case t of None \<Rightarrow> Inl TypeError | Some u \<Rightarrow> Inr (now < u))"

definition refuse_failed :: "client \<Rightarrow> string \<Rightarrow> memory \<Rightarrow> unit result" where
  "refuse_failed c key m = (case map_of (failures m) key of
      None \<Rightarrow> Inr () | Some (d, retry) \<Rightarrow> Inl (JobInProgress (reason_of d) retry))"

definition refuse_error :: "client \<Rightarrow> string \<Rightarrow> memory \<Rightarrow> job_row \<Rightarrow> unit result" where
  "refuse_error c key m r =
     (if qj_state r \<noteq> ''error'' then Inr ()
      else if get (diagnostic_of r) ''reason'' = PStr ''bad_request''
      then Inl (JobInProgress ''bad_request'' None)
      else if key \<in> set (attempted m) \<or> qj_owner r = jc_owner c
      then Inl (JobInProgress ''error'' (qj_retry r))
      else Inr ())"

definition refuse_wait :: "client \<Rightarrow> rat \<Rightarrow> job_row \<Rightarrow> unit result" where
  "refuse_wait c now r = (case qj_retry r of
      None \<Rightarrow> Inr ()
    | Some retry \<Rightarrow>
        if qj_state r \<notin> {''quota_wait'', ''error''} then Inr ()
        else bind_result
          (case jc_recheck c of
             Some f \<Rightarrow> if qj_state r = ''quota_wait''
               then bind_result (f (diagnostic_of r)) (\<lambda>t. Inr (case t of None \<Rightarrow> retry | Some u \<Rightarrow> u))
               else Inr retry
           | None \<Rightarrow> Inr retry)
          (\<lambda>t. require (\<not> At now < t) (JobInProgress (qj_state r) (Some t))))"

definition refuse_row :: "client \<Rightarrow> string \<Rightarrow> rat \<Rightarrow> memory \<Rightarrow> job_row \<Rightarrow> unit result" where
  "refuse_row c key now m r =
     bind_result (if qj_state r = ''inflight'' then later_than (qj_lease r) now else Inr False) (\<lambda>live.
     if live then Inl (JobInProgress ''job_in_progress'' (map_option At (qj_lease r)))
     else bind_result (if qj_state r \<in> {''complete'', ''no_route''} then later_than (qj_expires r) now
                       else Inr False) (\<lambda>reusable.
     if reusable then Inl (JobInProgress (qj_state r) (map_option At (qj_expires r)))
     else bind_result (refuse_error c key m r) (\<lambda>_. refuse_wait c now r)))"

definition claim_job ::
  "client \<Rightarrow> string \<Rightarrow> pyval \<Rightarrow> string \<Rightarrow> string \<Rightarrow> rat \<Rightarrow> (job_store, claim) action" where
  "claim_job c key request search fresh now s =
     (let m = memory_of s (jc_owner c) in
      case bind_result (refuse_failed c key m) (\<lambda>_.
           bind_result (case row_of c key s of None \<Rightarrow> Inr () | Some r \<Rightarrow> refuse_row c key now m r) (\<lambda>_.
           json_value request)) of
        Inl e \<Rightarrow> (Inl e, s)
      | Inr v \<Rightarrow>
          (Inr \<lparr>cl_key = key, cl_attempt = fresh, cl_owner = jc_owner c\<rparr>,
           change_memory c (\<lambda>m. m\<lparr>attempted := List.insert key (attempted m)\<rparr>)
             (put_row c key \<lparr>qj_search = search, qj_state = ''inflight'', qj_observed = None,
                qj_expires = None, qj_retry = None, qj_request = v, qj_result = None,
                qj_diagnostic = None, qj_updated = now, qj_owner = jc_owner c, qj_attempt = fresh,
                qj_lease = Some (now + lease_seconds)\<rparr> s)))"

section \<open>Compare and set\<close>

text \<open>The condition of the update: the claim's own row, in flight, with a lease that lasts.\<close>

definition owns_row :: "claim \<Rightarrow> rat \<Rightarrow> job_row \<Rightarrow> bool" where
  "owns_row token now r \<longleftrightarrow> qj_state r = ''inflight'' \<and> qj_owner r = cl_owner token
     \<and> qj_attempt r = cl_attempt token \<and> (case qj_lease r of None \<Rightarrow> False | Some u \<Rightarrow> now < u)"

definition cas :: "client \<Rightarrow> claim \<Rightarrow> (job_row \<Rightarrow> job_row) \<Rightarrow> rat \<Rightarrow> (job_store, bool) action" where
  "cas c token f now s =
     (if cl_owner token \<noteq> jc_owner c then (Inr False, s)
      else case row_of c (cl_key token) s of
        None \<Rightarrow> (Inr False, s)
      | Some r \<Rightarrow> if owns_row token now r then (Inr True, put_row c (cl_key token) (f r) s)
          else (Inr False, s))"

definition renew :: "client \<Rightarrow> claim \<Rightarrow> rat \<Rightarrow> rat \<Rightarrow> (job_store, bool) action" where
  "renew c token read_at now =
     cas c token (\<lambda>r. r\<lparr>qj_lease := Some (read_at + lease_seconds), qj_updated := read_at\<rparr>) now"

text \<open>
  The heartbeat's thread: a renewal per reading of the clock until one fails. A reading is
  the pair of the two clock calls of a renewal.
\<close>

definition heartbeat_interval :: "rat \<Rightarrow> unit result" where
  "heartbeat_interval i = require (0 < i \<and> i \<le> 10)
     (ValueError ''heartbeat interval must be between 0 and 10 seconds'')"

fun keep_alive :: "client \<Rightarrow> claim \<Rightarrow> (rat \<times> rat) list \<Rightarrow> job_store \<Rightarrow> job_store" where
  "keep_alive c token [] s = s"
| "keep_alive c token ((a, b) # readings) s =
     (case renew c token a b s of
        (Inr True, t) \<Rightarrow> keep_alive c token readings t | (_, t) \<Rightarrow> t)"

definition finish :: "client \<Rightarrow> claim \<Rightarrow> pydict \<Rightarrow> rat \<Rightarrow> rat \<Rightarrow> rat \<Rightarrow> rat \<Rightarrow> (job_store, bool) action" where
  "finish c token response observed ttl updated now =
     bind_act (lift (json_value (PDict response))) (\<lambda>v.
     cas c token (\<lambda>r. r\<lparr>qj_state := (if get response ''routes'' = PList [] then ''no_route'' else ''complete''),
       qj_result := Some v, qj_observed := Some observed, qj_expires := Some (observed + ttl),
       qj_retry := None, qj_diagnostic := None, qj_lease := None, qj_updated := updated\<rparr>) now)"

text \<open>A client error other than 429 in some exception of the chain is a bad request.\<close>

definition http_client_error :: "pyval \<Rightarrow> bool" where
  "http_client_error v = (case v of
      PDict d \<Rightarrow> (case get_default d ''http_status'' (PInt 0) of
          PInt n \<Rightarrow> 400 \<le> n \<and> n < 500 \<and> n \<noteq> 429 | _ \<Rightarrow> False)
    | _ \<Rightarrow> False)"

definition marked_diagnostic :: "pydict \<Rightarrow> pydict" where
  "marked_diagnostic d = (case get d ''exceptions'' of
      PList items \<Rightarrow> if list_ex http_client_error items
        then AList.update ''reason'' (PStr ''bad_request'') d else d
    | _ \<Rightarrow> d)"

definition fail_job ::
  "client \<Rightarrow> claim \<Rightarrow> pydict \<Rightarrow> string \<Rightarrow> instant option \<Rightarrow> rat \<Rightarrow> rat \<Rightarrow> (job_store, bool) action" where
  "fail_job c token diagnostic outcome retry updated now =
     (if outcome \<notin> {''error'', ''quota_wait''}
      then throw (ValueError ''failure state must be error or quota_wait'')
      else let d = marked_diagnostic diagnostic in
        bind_act (cas c token (\<lambda>r. r\<lparr>qj_state := outcome, qj_diagnostic := Some d, qj_retry := retry,
          qj_lease := None, qj_updated := updated\<rparr>) now) (\<lambda>saved s.
        (Inr saved,
         if outcome = ''error'' \<and> cl_owner token = jc_owner c
         then change_memory c (\<lambda>m. m\<lparr>failures := AList.update (cl_key token) (d, retry) (failures m)\<rparr>) s
         else s)))"

section \<open>The lock with leases\<close>

text \<open>
  What the table promises: a map from jobs to the claim that holds them and the end of its
  lease. A lock is taken when no lease lasts, and only the holder extends or releases it.
\<close>

type_synonym lease_map = "job_key \<Rightarrow> ((string \<times> string) \<times> rat) option"

definition held :: "lease_map \<Rightarrow> job_key \<Rightarrow> rat \<Rightarrow> (string \<times> string) option" where
  "held L k now = (case L k of None \<Rightarrow> None | Some (who, u) \<Rightarrow> if now < u then Some who else None)"

definition take_lock :: "job_key \<Rightarrow> string \<times> string \<Rightarrow> rat \<Rightarrow> lease_map \<Rightarrow> lease_map option" where
  "take_lock k who now L = (if held L k now = None then Some (L(k \<mapsto> (who, now + 60))) else None)"

definition extend_lock :: "job_key \<Rightarrow> string \<times> string \<Rightarrow> rat \<Rightarrow> rat \<Rightarrow> lease_map \<Rightarrow> bool \<times> lease_map" where
  "extend_lock k who until now L =
     (if held L k now = Some who then (True, L(k \<mapsto> (who, until))) else (False, L))"

definition release_lock :: "job_key \<Rightarrow> string \<times> string \<Rightarrow> rat \<Rightarrow> lease_map \<Rightarrow> bool \<times> lease_map" where
  "release_lock k who now L =
     (if held L k now = Some who then (True, L(k := None)) else (False, L))"

definition leases :: "job_store \<Rightarrow> lease_map" where
  "leases s k = (case map_of (job_rows s) k of
      None \<Rightarrow> None
    | Some r \<Rightarrow> if qj_state r = ''inflight''
        then map_option (\<lambda>u. ((qj_owner r, qj_attempt r), u)) (qj_lease r) else None)"

lemma leases_put [simp]:
  "leases (put_row c key r s) = (leases s)((jc_scope c, key) :=
     (if qj_state r = ''inflight'' then map_option (\<lambda>u. ((qj_owner r, qj_attempt r), u)) (qj_lease r) else None))"
  by (rule ext) (simp add: leases_def put_row_def)

lemma leases_memory [simp]: "leases (change_memory c f s) = leases s"
  by (rule ext) (simp add: leases_def change_memory_def)

lemma read_leases: "leases (snd (read_job c key b now s)) = leases s"
  by (auto simp: read_job_def row_of_def leases_def fun_eq_iff put_row_def split: option.splits)

lemma row_accepted:
  assumes "refuse_row c key now m r = Inr ()" "row_of c key s = Some r"
  shows "held (leases s) (jc_scope c, key) now = None"
  using assms by (auto simp: refuse_row_def later_than_def held_def leases_def row_of_def split: option.splits if_splits)

lemma claim_takes:
  assumes "claim_job c key request search fresh now s = (Inr token, t)"
  shows "take_lock (jc_scope c, key) (jc_owner c, fresh) now (leases s) = Some (leases t)"
    and "token = \<lparr>cl_key = key, cl_attempt = fresh, cl_owner = jc_owner c\<rparr>"
proof -
  have "held (leases s) (jc_scope c, key) now = None"
  proof (cases "row_of c key s")
    case (Some r)
    with assms row_accepted [OF _ Some] show ?thesis
      by (auto simp: claim_job_def Let_def split: sum.splits)
  qed (simp add: held_def leases_def row_of_def)
  with assms show "take_lock (jc_scope c, key) (jc_owner c, fresh) now (leases s) = Some (leases t)"
    by (auto simp: claim_job_def Let_def take_lock_def lease_seconds_def split: sum.splits)
  show "token = \<lparr>cl_key = key, cl_attempt = fresh, cl_owner = jc_owner c\<rparr>"
    using assms by (auto simp: claim_job_def Let_def split: sum.splits)
qed

lemma claim_refused: "claim_job c key request search fresh now s = (Inl e, t) \<Longrightarrow> t = s"
  by (auto simp: claim_job_def Let_def split: sum.splits)

text \<open>A compare-and-set succeeds exactly for the holder of the lease.\<close>

lemma cas_holder:
  "fst (cas c token f now s) = Inr (cl_owner token = jc_owner c
     \<and> held (leases s) (jc_scope c, cl_key token) now = Some (cl_owner token, cl_attempt token))"
  by (auto simp: cas_def row_of_def held_def leases_def owns_row_def split: option.splits if_splits)

lemma cas_false: "cas c token f now s = (Inr False, t) \<Longrightarrow> t = s"
  by (auto simp: cas_def split: option.splits if_splits)

lemma cas_true:
  assumes "cas c token f now s = (Inr True, t)"
  shows "\<exists>r. row_of c (cl_key token) s = Some r \<and> owns_row token now r \<and> t = put_row c (cl_key token) (f r) s"
  using assms by (auto simp: cas_def split: option.splits if_splits)

lemma cas_Inr: "\<exists>b. fst (cas c token f now s) = Inr b"
  by (simp add: cas_holder)

text \<open>One update on the map of leases: extended to \<open>until\<close>, or released.\<close>

lemma cas_extends:
  assumes "cl_owner token = jc_owner c" "\<And>r. qj_state (f r) = qj_state r" "\<And>r. qj_owner (f r) = qj_owner r"
    "\<And>r. qj_attempt (f r) = qj_attempt r" "\<And>r. qj_lease (f r) = Some until"
    and "cas c token f now s = (Inr b, t)"
  shows "extend_lock (jc_scope c, cl_key token) (cl_owner token, cl_attempt token) until now (leases s) = (b, leases t)"
proof (cases b)
  case True
  with assms(6) have "cas c token f now s = (Inr True, t)" by simp
  from cas_true [OF this] obtain r where "row_of c (cl_key token) s = Some r" "owns_row token now r"
    "t = put_row c (cl_key token) (f r) s" by blast
  then show ?thesis
    using cas_holder [of c token f now s] assms True by (simp add: extend_lock_def owns_row_def)
next
  case False
  with assms(6) have "cas c token f now s = (Inr False, t)" by simp
  then have "t = s" by (rule cas_false)
  then show ?thesis
    using cas_holder [of c token f now s] assms(1,6) False by (simp add: extend_lock_def)
qed

lemma cas_releases:
  assumes "cl_owner token = jc_owner c" "\<And>r. qj_state (f r) \<noteq> ''inflight''"
    and "cas c token f now s = (Inr b, t)"
  shows "release_lock (jc_scope c, cl_key token) (cl_owner token, cl_attempt token) now (leases s) = (b, leases t)"
proof (cases b)
  case True
  with assms(3) have "cas c token f now s = (Inr True, t)" by simp
  from cas_true [OF this] obtain r where "row_of c (cl_key token) s = Some r" "owns_row token now r"
    "t = put_row c (cl_key token) (f r) s" by blast
  then show ?thesis
    using cas_holder [of c token f now s] assms True by (simp add: release_lock_def)
next
  case False
  with assms(3) have "cas c token f now s = (Inr False, t)" by simp
  then have "t = s" by (rule cas_false)
  then show ?thesis
    using cas_holder [of c token f now s] assms(1,3) False by (simp add: release_lock_def)
qed

lemma fail_releases:
  assumes "fail_job c token d outcome retry updated now s = (Inr b, t)" "cl_owner token = jc_owner c"
  shows "release_lock (jc_scope c, cl_key token) (cl_owner token, cl_attempt token) now (leases s) = (b, leases t)"
proof -
  let ?f = "\<lambda>r. r\<lparr>qj_state := outcome, qj_diagnostic := Some (marked_diagnostic d), qj_retry := retry,
      qj_lease := None, qj_updated := updated\<rparr>"
  obtain u where "cas c token ?f now s = (Inr b, u)" "leases t = leases u"
    using assms(1) by (auto simp: fail_job_def Let_def split: if_splits)
  moreover have "qj_state (?f r) \<noteq> ''inflight''" for r
    using assms(1) by (auto simp: fail_job_def split: if_splits)
  ultimately show ?thesis using cas_releases [OF assms(2), of ?f now s b u] by simp
qed

section \<open>Runs of several clients\<close>

datatype job_op =
    ReadJob string bool rat
  | ClaimJob string pyval string string rat
  | RenewJob claim rat rat
  | FinishJob claim pydict rat rat rat rat
  | FailJob claim pydict string "instant option" rat rat

fun job_step :: "client \<times> job_op \<Rightarrow> job_store \<Rightarrow> job_store" where
  "job_step (c, ReadJob k b now) s = snd (read_job c k b now s)"
| "job_step (c, ClaimJob k req search fresh now) s = snd (claim_job c k req search fresh now s)"
| "job_step (c, RenewJob token a b) s = snd (renew c token a b s)"
| "job_step (c, FinishJob token resp observed ttl a b) s = snd (finish c token resp observed ttl a b s)"
| "job_step (c, FailJob token d outcome retry a b) s = snd (fail_job c token d outcome retry a b s)"

fun drawn_id :: "client \<times> job_op \<Rightarrow> string option" where
  "drawn_id (c, ClaimJob k req search fresh now) = Some fresh"
| "drawn_id _ = None"

text \<open>
  The interface: a table whose operations create a lease only with the attempt id they draw.
  A claim that has lost its lease has lost it for good.
\<close>

locale lease_table =
  fixes view :: "'s \<Rightarrow> lease_map"
    and step :: "'op \<Rightarrow> 's \<Rightarrow> 's"
    and drawn :: "'op \<Rightarrow> string option"
  assumes created: "view (step x s) k = Some ((who, a), u) \<Longrightarrow> drawn x \<noteq> Some a
    \<Longrightarrow> \<exists>v w. view s k = Some ((v, a), w)"
begin

definition without :: "job_key \<Rightarrow> string \<Rightarrow> 's \<Rightarrow> bool" where
  "without k a s \<longleftrightarrow> (\<forall>who u. view s k \<noteq> Some ((who, a), u))"

lemma lost_for_good:
  "without k a s \<Longrightarrow> \<forall>x \<in> set ops. drawn x \<noteq> Some a \<Longrightarrow> without k a (fold step ops s)"
proof (induction ops arbitrary: s)
  case (Cons x ops)
  have "without k a (step x s)"
    using Cons.prems created [of x s k _ a] by (auto simp: without_def)
  with Cons show ?case by simp
qed simp

end

lemma cas_created:
  assumes "leases (snd (cas c token f now s)) k = Some ((who, a), u)"
    and "\<And>r. qj_owner (f r) = qj_owner r" "\<And>r. qj_attempt (f r) = qj_attempt r"
    and "\<And>r. qj_state r = ''inflight'' \<or> qj_state (f r) \<noteq> ''inflight''"
  shows "\<exists>v w. leases s k = Some ((v, a), w)"
proof -
  obtain b t where run: "cas c token f now s = (Inr b, t)"
    using cas_Inr [of c token f now s] by (metis prod.collapse)
  show ?thesis
  proof (cases b)
    case True
    with run have "cas c token f now s = (Inr True, t)" by simp
    from cas_true [OF this] obtain r where r: "row_of c (cl_key token) s = Some r"
      "owns_row token now r" "t = put_row c (cl_key token) (f r) s" by blast
    have "\<exists>v w. leases s k = Some ((v, qj_attempt r), w)" if "k = (jc_scope c, cl_key token)"
      using that r(1,2) by (auto simp: leases_def row_of_def owns_row_def split: option.splits)
    then show ?thesis
      using assms run r(3) by (auto split: if_splits)
  next
    case False
    then show ?thesis using assms(1) run cas_false [of c token f now s t] by simp
  qed
qed

interpretation jt: lease_table leases job_step drawn_id
proof
  fix x :: "client \<times> job_op" and s k who a u
  assume lease: "leases (job_step x s) k = Some ((who, a), u)" and id: "drawn_id x \<noteq> Some a"
  obtain c y where x: "x = (c, y)" by fastforce
  show "\<exists>v w. leases s k = Some ((v, a), w)"
  proof (cases y)
    case (ReadJob key b now)
    with lease x read_leases show ?thesis by simp
  next
    case (ClaimJob key req search fresh now)
    obtain r t where run: "claim_job c key req search fresh now s = (r, t)" by fastforce
    show ?thesis
    proof (cases r)
      case (Inl e)
      with run claim_refused lease x ClaimJob show ?thesis by fastforce
    next
      case (Inr token)
      with run claim_takes(1) have "take_lock (jc_scope c, key) (jc_owner c, fresh) now (leases s) = Some (leases t)"
        by blast
      with lease x ClaimJob run id show ?thesis
        by (auto simp: take_lock_def split: if_splits dest!: sym [of _ "leases t"])
    qed
  next
    case (RenewJob token v w)
    with lease x show ?thesis by (auto simp: renew_def dest!: cas_created)
  next
    case (FinishJob token resp observed ttl v w)
    with lease x show ?thesis
      by (cases "json_value (PDict resp)") (auto simp: finish_def dest!: cas_created split: if_splits)
  next
    case (FailJob token d outcome retry v w)
    let ?f = "\<lambda>r. r\<lparr>qj_state := outcome, qj_diagnostic := Some (marked_diagnostic d), qj_retry := retry,
      qj_lease := None, qj_updated := v\<rparr>"
    obtain b t where run: "cas c token ?f w s = (Inr b, t)"
      using cas_Inr [of c token ?f w s] by (metis prod.collapse)
    show ?thesis
    proof (cases "outcome \<in> {''error'', ''quota_wait''}")
      case True
      with run have "leases (snd (fail_job c token d outcome retry v w s)) = leases (snd (cas c token ?f w s))"
        by (simp add: fail_job_def Let_def bind_act_def)
      with lease x FailJob True show ?thesis using cas_created [of c token ?f w s k who a u] by auto
    next
      case False
      with lease x FailJob show ?thesis by (simp add: fail_job_def)
    qed
  qed
qed

section \<open>Properties\<close>

text \<open>
  C15: the table of jobs implements a lock with leases: a claim is granted only when no lease
  lasts and then takes the lock for sixty seconds; a refused claim and a read change no
  lease; a renewal extends, and a finish or a failure releases the lock exactly when the
  claim holds it, and the value they return says so.
\<close>

theorem jobs_refine_lock:
  "(\<forall>tk t. claim_job c key request search fresh now s = (Inr tk, t) \<longrightarrow>
      take_lock (jc_scope c, key) (jc_owner c, fresh) now (leases s) = Some (leases t)
      \<and> cl_owner tk = jc_owner c \<and> cl_attempt tk = fresh \<and> cl_key tk = key)
   \<and> (\<forall>e t. claim_job c key request search fresh now s = (Inl e, t) \<longrightarrow> t = s)
   \<and> leases (snd (read_job c key flag now s)) = leases s
   \<and> (cl_owner token = jc_owner c \<longrightarrow>
        (\<forall>b t. renew c token read_at now s = (Inr b, t) \<longrightarrow>
          extend_lock (jc_scope c, cl_key token) (cl_owner token, cl_attempt token) (read_at + 60) now (leases s)
            = (b, leases t))
        \<and> (\<forall>b t. finish c token response observed ttl updated now s = (Inr b, t) \<longrightarrow>
          release_lock (jc_scope c, cl_key token) (cl_owner token, cl_attempt token) now (leases s) = (b, leases t))
        \<and> (\<forall>b t. fail_job c token d outcome retry updated now s = (Inr b, t) \<longrightarrow>
          release_lock (jc_scope c, cl_key token) (cl_owner token, cl_attempt token) now (leases s) = (b, leases t)))"
proof (intro conjI allI impI)
  fix b t assume own: "cl_owner token = jc_owner c"
  show "renew c token read_at now s = (Inr b, t) \<Longrightarrow>
      extend_lock (jc_scope c, cl_key token) (cl_owner token, cl_attempt token) (read_at + 60) now (leases s)
        = (b, leases t)"
    unfolding renew_def by (rule cas_extends [OF own]) (simp_all add: lease_seconds_def)
  show "finish c token response observed ttl updated now s = (Inr b, t) \<Longrightarrow>
      release_lock (jc_scope c, cl_key token) (cl_owner token, cl_attempt token) now (leases s) = (b, leases t)"
    unfolding finish_def by (cases "json_value (PDict response)") (auto elim!: cas_releases [OF own, rotated] split: if_splits)
  show "fail_job c token d outcome retry updated now s = (Inr b, t) \<Longrightarrow>
      release_lock (jc_scope c, cl_key token) (cl_owner token, cl_attempt token) now (leases s) = (b, leases t)"
    by (rule fail_releases [OF _ own])
qed (auto dest: claim_takes claim_refused simp: read_leases)

definition client_a :: client where
  "client_a = \<lparr>jc_scope = ''w'', jc_owner = ''a'', jc_recheck = None\<rparr>"

definition client_b :: client where
  "client_b = \<lparr>jc_scope = ''w'', jc_owner = ''b'', jc_recheck = None\<rparr>"

lemma jobs_refine_lock_witness:
  "\<exists>t. claim_job client_a ''k'' PNone [] ''1'' 5 fresh_store = (Inr \<lparr>cl_key = ''k'', cl_attempt = ''1'', cl_owner = ''a''\<rparr>, t)
     \<and> take_lock (''w'', ''k'') (''a'', ''1'') 5 (leases fresh_store) = Some (leases t)"
proof -
  have run: "claim_job client_a ''k'' PNone [] ''1'' 5 fresh_store
      = (Inr \<lparr>cl_key = ''k'', cl_attempt = ''1'', cl_owner = ''a''\<rparr>, snd (claim_job client_a ''k'' PNone [] ''1'' 5 fresh_store))"
    by (simp add: claim_job_def Let_def client_a_def fresh_store_def refuse_failed_def row_of_def)
  with jobs_refine_lock [of client_a "''k''" PNone "[]" "''1''" 5 fresh_store] show ?thesis
    by (auto simp: client_a_def)
qed

text \<open>
  A claim settles its job at most once: after its finish, or after another claim of the
  job was granted, none of its renewals, finishes and failures succeeds in any run of any
  clients in which its attempt id is not drawn again.
\<close>

theorem lost_claim_never_settles:
  assumes lost: "finish c token response observed ttl updated now s = (Inr True, t)
      \<or> (\<exists>c' request search fresh tk. claim_job c' (cl_key token) request search fresh now s = (Inr tk, t)
          \<and> jc_scope c' = jc_scope c \<and> fresh \<noteq> cl_attempt token)"
    and new: "\<forall>x \<in> set ops. drawn_id x \<noteq> Some (cl_attempt token)"
  shows "fst (cas c token f later (fold job_step ops t)) = Inr False"
proof -
  have "jt.without (jc_scope c, cl_key token) (cl_attempt token) t"
    using lost
  proof
    assume fin: "finish c token response observed ttl updated now s = (Inr True, t)"
    then obtain v where v: "cas c token (\<lambda>r. r\<lparr>qj_state := (if get response ''routes'' = PList [] then ''no_route'' else ''complete''),
       qj_result := Some v, qj_observed := Some observed, qj_expires := Some (observed + ttl),
       qj_retry := None, qj_diagnostic := None, qj_lease := None, qj_updated := updated\<rparr>) now s = (Inr True, t)"
      by (auto simp: finish_def)
    from cas_true [OF this] show ?thesis by (auto simp: jt.without_def split: if_splits)
  next
    assume "\<exists>c' request search fresh tk. claim_job c' (cl_key token) request search fresh now s = (Inr tk, t)
          \<and> jc_scope c' = jc_scope c \<and> fresh \<noteq> cl_attempt token"
    then obtain c' request search fresh tk where
      run: "claim_job c' (cl_key token) request search fresh now s = (Inr tk, t)"
      and other: "jc_scope c' = jc_scope c" "fresh \<noteq> cl_attempt token" by blast
    have "take_lock (jc_scope c, cl_key token) (jc_owner c', fresh) now (leases s) = Some (leases t)"
      using claim_takes(1) [OF run] other(1) by simp
    with other(2) show ?thesis
      by (auto simp: jt.without_def take_lock_def split: if_splits dest!: sym [of _ "leases t"])
  qed
  from jt.lost_for_good [OF this new]
  have "held (leases (fold job_step ops t)) (jc_scope c, cl_key token) later \<noteq> Some (cl_owner token, cl_attempt token)"
    by (auto simp: jt.without_def held_def split: option.splits)
  then show ?thesis by (simp add: cas_holder)
qed

lemma lost_claim_never_settles_witness:
  "fst (cas client_a \<lparr>cl_key = ''k'', cl_attempt = ''1'', cl_owner = ''a''\<rparr> (\<lambda>r. r) 80
     (snd (claim_job client_b ''k'' PNone [] ''2'' 70 (snd (claim_job client_a ''k'' PNone [] ''1'' 5 fresh_store)))))
   = Inr False"
proof -
  let ?s = "snd (claim_job client_a ''k'' PNone [] ''1'' 5 fresh_store)"
  let ?t = "snd (claim_job client_b ''k'' PNone [] ''2'' 70 ?s)"
  have "\<not> isl (fst (claim_job client_b ''k'' PNone [] ''2'' 70 ?s))" by code_simp
  then obtain tk where "claim_job client_b ''k'' PNone [] ''2'' 70 ?s = (Inr tk, ?t)"
    by (metis prod.collapse sum.collapse(2))
  moreover have "jc_scope client_b = jc_scope client_a" by (simp add: client_a_def client_b_def)
  ultimately show ?thesis
    using lost_claim_never_settles [of client_a "\<lparr>cl_key = ''k'', cl_attempt = ''1'', cl_owner = ''a''\<rparr>"
        _ _ _ _ 70 ?s ?t "[]"] by fastforce
qed

end
