(* ===== verification/Fee_Planner.thy ===== *)
theory Fee_Planner
  imports Rpc
begin

text \<open>
  Gas limits and fees of a transaction (\<open>fee_planner.py\<close>): the estimate and its buffer, the
  legacy and the EIP-1559 shape, replacement fees, the data fee of rollups, the total cap.
  The endpoint is a function of the requests sent so far and of the new one. RLP, ABI
  encoding and the text of a provider's failure are parameters. The median of tips is taken
  exactly (the code divides in floats).
\<close>

section \<open>Policy and parameters\<close>

record fee_policy =
  gas_buffer_numerator :: int
  gas_buffer_denominator :: int
  max_gas_limit :: int
  base_fee_horizon_blocks :: int
  fee_history_blocks :: int
  priority_percentile :: int
  minimum_priority_fee_wei :: int

definition default_fee_policy :: fee_policy where
  "default_fee_policy = \<lparr>gas_buffer_numerator = 12, gas_buffer_denominator = 10,
     max_gas_limit = 30000000, base_fee_horizon_blocks = 2, fee_history_blocks = 5,
     priority_percentile = 50, minimum_priority_fee_wei = 0\<rparr>"

definition check_fee_policy :: "fee_policy \<Rightarrow> unit result" where
  "check_fee_policy p =
     (if gas_buffer_numerator p < gas_buffer_denominator p \<or> gas_buffer_denominator p \<le> 0
      then Inl (ValueError ''invalid_gas_buffer'')
      else if max_gas_limit p \<le> 0 \<or> base_fee_horizon_blocks p < 0
      then Inl (ValueError ''invalid_fee_policy'')
      else if fee_history_blocks p \<le> 0 \<or> \<not> (0 \<le> priority_percentile p \<and> priority_percentile p \<le> 100)
      then Inl (ValueError ''invalid_fee_history_policy'')
      else if minimum_priority_fee_wei p < 0 then Inl (ValueError ''invalid_minimum_priority_fee'')
      else Inr ())"

definition op_stack_chains :: "int list" where
  "op_stack_chains = [10, 130, 204, 252, 254, 288, 291, 360, 480, 690, 957, 1135, 1750, 1868, 5330,
     5371, 6805, 7560, 8008, 8453, 33979, 34443, 57073, 60808, 81457, 380929, 2702128, 7777777]"

definition scroll_chain :: int where
  "scroll_chain = 534352"

datatype rlp = Rbytes "nat list" | Rlist "rlp list"

record fee_env =
  fe_rlp :: "rlp list \<Rightarrow> nat list"
  fe_unrlp :: "nat list \<Rightarrow> rlp list"
  fe_bytes_call :: "nat list \<Rightarrow> string"
  fe_size_call :: "int \<Rightarrow> string"
  fe_detail :: "exn \<Rightarrow> string"

type_synonym fee_rpc = "request list \<Rightarrow> request \<Rightarrow> pyval result"

definition ask :: "fee_rpc \<Rightarrow> string \<Rightarrow> string \<Rightarrow> pyval list \<Rightarrow> (request list, pyval) action" where
  "ask rpc url meth params sent = (rpc sent (url, meth, params), sent @ [(url, meth, params)])"

text \<open>\<open>type(exc).__name__\<close>.\<close>

fun type_name :: "exn \<Rightarrow> string" where
  "type_name (ValueError _) = ''ValueError''"
| "type_name (ConfigError _) = ''ConfigError''"
| "type_name (LifiError _) = ''LifiError''"
| "type_name KeyError = ''KeyError''"
| "type_name TypeError = ''TypeError''"
| "type_name AssertionError = ''AssertionError''"
| "type_name InvalidOperation = ''InvalidOperation''"
| "type_name (RpcError _) = ''RpcError''"
| "type_name (TimeoutError _) = ''TimeoutError''"
| "type_name (StageDeadlineExceeded _) = ''StageDeadlineExceeded''"
| "type_name (AmbiguousBroadcast _) = ''AmbiguousBroadcast''"
| "type_name (EthereumGasDeferred _) = ''EthereumGasDeferred''"
| "type_name (DispatchWait _) = ''DispatchWait''"
| "type_name (LifiRequestLimit _ _ _) = ''LifiRequestLimit''"
| "type_name (JobInProgress _ _) = ''JobInProgress''"
| "type_name (GroupLossLimitExceeded _) = ''GroupLossLimitExceeded''"
| "type_name (DepositNotSeen _) = ''DepositNotSeen''"
| "type_name (DepositSettlementFailed _) = ''DepositSettlementFailed''"
| "type_name (UnsignedRoutePreparationExhausted _) = ''UnsignedRoutePreparationExhausted''"
| "type_name (InvalidUnsignedRouteCandidate _) = ''InvalidUnsignedRouteCandidate''"
| "type_name (HttpStatusError _ _ _) = ''HTTPStatusError''"
| "type_name (TransportError _) = ''TransportError''"
| "type_name (OtherError t) = t"

text \<open>
  \<open>except StageDeadlineExceeded: raise\<close> before \<open>except Exception\<close>: an expired deadline
  passes through, any other exception is handled.
\<close>

definition guarded :: "('s, 'a) action \<Rightarrow> (exn \<Rightarrow> ('s, 'a) action) \<Rightarrow> ('s, 'a) action" where
  "guarded m h = handle m (\<lambda>e. if is_deadline e then throw e else h e)"

section \<open>Fees\<close>

definition legacy_price :: "fee_env \<Rightarrow> fee_rpc \<Rightarrow> string \<Rightarrow> (request list, int) action" where
  "legacy_price env rpc url =
     bind_act (guarded (bind_act (ask rpc url ''eth_gasPrice'' []) (\<lambda>v. lift (quantity v)))
       (\<lambda>e. throw (ValueError (''gas_price_rpc_error:'' @ fe_detail env e)))) (\<lambda>price.
     if price \<le> 0 then throw (ValueError ''invalid_rpc_gas_price'') else give price)"

text \<open>The rewards of a fee history that are present, and their median.\<close>

fun history_rewards :: "pyval list \<Rightarrow> int list result" where
  "history_rewards [] = Inr []"
| "history_rewards (row # rows) = (case row of
      PList (r # _) \<Rightarrow>
        if r = PNone then history_rewards rows
        else bind_result (quantity r) (\<lambda>n. bind_result (history_rewards rows) (\<lambda>ns. Inr (n # ns)))
    | _ \<Rightarrow> history_rewards rows)"

definition median_int :: "int list \<Rightarrow> int" where
  "median_int ns = (let xs = sort ns; n = length xs in
     if odd n then xs ! (n div 2) else (xs ! (n div 2 - 1) + xs ! (n div 2)) div 2)"

definition usable_history :: "pyval \<Rightarrow> int list result" where
  "usable_history h = (case h of
      PDict d \<Rightarrow> (case get d ''reward'' of PList rows \<Rightarrow> history_rewards rows | _ \<Rightarrow> Inr [])
    | _ \<Rightarrow> Inr [])"

definition history_tip ::
  "fee_env \<Rightarrow> fee_rpc \<Rightarrow> fee_policy \<Rightarrow> string \<Rightarrow> (request list, string + int) action" where
  "history_tip env rpc policy url =
     guarded
       (bind_act (ask rpc url ''eth_feeHistory''
          [PStr (py_hex (fee_history_blocks policy)), PStr ''latest'',
           PList [PInt (priority_percentile policy)]]) (\<lambda>h.
        bind_act (lift (usable_history h)) (\<lambda>rewards.
        give (if rewards = [] then Inl ''eth_feeHistory returned no usable reward percentiles''
              else Inr (max (minimum_priority_fee_wei policy) (median_int rewards))))))
       (\<lambda>e. give (Inl (''eth_feeHistory:'' @ fe_detail env e)))"

definition suggested_tip ::
  "fee_env \<Rightarrow> fee_rpc \<Rightarrow> fee_policy \<Rightarrow> string \<Rightarrow> (request list, string + int) action" where
  "suggested_tip env rpc policy url =
     guarded
       (bind_act (ask rpc url ''eth_maxPriorityFeePerGas'' []) (\<lambda>v.
        bind_act (lift (quantity v)) (\<lambda>tip.
        give (if 0 \<le> tip then Inr (max (minimum_priority_fee_wei policy) tip)
              else Inl ''eth_maxPriorityFeePerGas returned a negative value''))))
       (\<lambda>e. give (Inl (''eth_maxPriorityFeePerGas:'' @ fe_detail env e)))"

definition priority_fee ::
  "fee_env \<Rightarrow> fee_rpc \<Rightarrow> fee_policy \<Rightarrow> string \<Rightarrow> (request list, int \<times> string \<times> string option) action" where
  "priority_fee env rpc policy url =
     bind_act (history_tip env rpc policy url) (\<lambda>first. case first of
        Inr tip \<Rightarrow> give (tip, ''eth_feeHistory'', None)
      | Inl failure \<Rightarrow>
          bind_act (suggested_tip env rpc policy url) (\<lambda>second. case second of
              Inr tip \<Rightarrow> give (tip, ''eth_maxPriorityFeePerGas'', Some failure)
            | Inl other \<Rightarrow> bind_act (legacy_price env rpc url)
                (\<lambda>price. give (price, ''eth_gasPrice_fallback'', Some (failure @ '';'' @ other)))))"

definition replacement_fee_floor :: "int \<Rightarrow> int" where
  "replacement_fee_floor previous = max 1 ((previous * 9 + 7) div 8)"

definition projected_base_fee :: "fee_policy \<Rightarrow> int \<Rightarrow> int" where
  "projected_base_fee policy base =
     ((\<lambda>b. (b * 9 + 7) div 8) ^^ nat (base_fee_horizon_blocks policy)) base"

section \<open>The data fee of rollups\<close>

text \<open>\<open>integer(value)\<close>: big-endian bytes, none for zero; a negative number overflows.\<close>

fun big_endian :: "nat \<Rightarrow> nat list" where
  "big_endian n = (if n = 0 then [] else big_endian (n div 256) @ [n mod 256])"

declare big_endian.simps [simp del]

definition integer_bytes :: "int \<Rightarrow> nat list result" where
  "integer_bytes n = (if n < 0 then Inl (OtherError ''OverflowError'') else Inr (big_endian (nat n)))"

text \<open>\<open>bytes.fromhex\<close>: pairs of digits, with white space between the pairs.\<close>

fun from_hex :: "string \<Rightarrow> nat list result" where
  "from_hex [] = Inr []"
| "from_hex [c] = (if is_space c then Inr [] else Inl (ValueError ''non-hexadecimal number found in fromhex() arg''))"
| "from_hex (c # d # s) =
     (if is_space c then from_hex (d # s)
      else if is_hex c \<and> is_hex d
      then bind_result (from_hex s) (\<lambda>bs. Inr ((16 * hex_val c + hex_val d) # bs))
      else Inl (ValueError ''non-hexadecimal number found in fromhex() arg''))"

record fee_shape =
  fs_gas :: int
  fs_max :: int
  fs_priority :: int
  fs_1559 :: bool

definition wide_nonce :: "nat list" where
  "wide_nonce = replicate 8 255"

definition unsigned_transaction_payload :: "fee_env \<Rightarrow> tx_request \<Rightarrow> fee_shape \<Rightarrow> nat list result" where
  "unsigned_transaction_payload env t f =
     bind_result (from_hex (drop 2 (t_to t))) (\<lambda>to.
     bind_result (from_hex (drop 2 (t_data t))) (\<lambda>data.
     bind_result (integer_bytes (t_chain t)) (\<lambda>chain.
     bind_result (integer_bytes (fs_max f)) (\<lambda>fee.
     bind_result (integer_bytes (fs_gas f)) (\<lambda>gas.
     bind_result (integer_bytes (t_value t)) (\<lambda>val.
     if fs_1559 f
     then bind_result (integer_bytes (fs_priority f)) (\<lambda>tip.
       Inr (2 # fe_rlp env [Rbytes chain, Rbytes wide_nonce, Rbytes tip, Rbytes fee, Rbytes gas,
         Rbytes to, Rbytes val, Rbytes data, Rlist []]))
     else Inr (fe_rlp env [Rbytes wide_nonce, Rbytes fee, Rbytes gas, Rbytes to, Rbytes val,
         Rbytes data, Rbytes chain, Rbytes [], Rbytes []])))))))"

text \<open>The signed envelope with a full-width value and signature, for Scroll.\<close>

definition scroll_transaction_size_bound :: "fee_env \<Rightarrow> tx_request \<Rightarrow> fee_shape \<Rightarrow> nat list result" where
  "scroll_transaction_size_bound env t f =
     bind_result (unsigned_transaction_payload env t f) (\<lambda>unsigned.
     let word = Rbytes (replicate 32 255) in
     if fs_1559 f
     then Inr (2 # fe_rlp env ((fe_unrlp env (tl unsigned))[6 := word] @ [Rbytes [1], word, word]))
     else bind_result (integer_bytes (t_chain t * 2 + 36)) (\<lambda>v.
       let fields = (fe_unrlp env unsigned)[4 := word] in
       Inr (fe_rlp env (take (length fields - 3) fields @ [Rbytes v, word, word]))))"

definition fee_call :: "string \<Rightarrow> string \<Rightarrow> pyval list" where
  "fee_call to data = [PDict [(''to'', PStr to), (''data'', PStr data)], PStr ''latest'']"

definition scroll_l1_fee :: "fee_env \<Rightarrow> fee_rpc \<Rightarrow> string \<Rightarrow> nat list \<Rightarrow> (request list, int) action" where
  "scroll_l1_fee env rpc url payload =
     guarded
       (bind_act (ask rpc url ''eth_call'' (fee_call ''0x5300000000000000000000000000000000000002''
          (fe_bytes_call env payload))) (\<lambda>v.
        bind_act (lift (uint256 v)) (\<lambda>fee.
        if fee \<le> 0 then throw (ValueError ''empty_result'') else give ((fee * 12 + 9) div 10))))
       (\<lambda>e. throw (ValueError (''scroll_l1_fee_estimation_failed:'' @ type_name e)))"

definition oracle_fee ::
  "fee_rpc \<Rightarrow> string \<Rightarrow> string \<Rightarrow> (exn \<Rightarrow> (request list, int option) action) \<Rightarrow> (request list, int option) action" where
  "oracle_fee rpc url data failed =
     guarded
       (bind_act (ask rpc url ''eth_call'' (fee_call ''0x420000000000000000000000000000000000000f'' data)) (\<lambda>v.
        bind_act (lift (uint256 v)) (\<lambda>fee. give (if 0 < fee then Some fee else None))))
       failed"

definition op_l1_fee :: "fee_env \<Rightarrow> fee_rpc \<Rightarrow> string \<Rightarrow> nat list \<Rightarrow> (request list, int) action" where
  "op_l1_fee env rpc url unsigned =
     bind_act (oracle_fee rpc url (fe_size_call env (int (length unsigned))) (\<lambda>_. give None)) (\<lambda>upper.
     case upper of
       Some fee \<Rightarrow> give fee
     | None \<Rightarrow>
         bind_act (oracle_fee rpc url (fe_bytes_call env unsigned)
           (\<lambda>e. throw (ValueError (''op_stack_l1_fee_estimation_failed:'' @ type_name e)))) (\<lambda>fee.
         case fee of
           Some n \<Rightarrow> give n
         | None \<Rightarrow> throw (ValueError ''op_stack_l1_fee_estimation_failed:empty_result'')))"

definition op_stack_l1_fee ::
  "fee_env \<Rightarrow> fee_rpc \<Rightarrow> string \<Rightarrow> tx_request \<Rightarrow> fee_shape \<Rightarrow> (request list, int) action" where
  "op_stack_l1_fee env rpc url t f =
     (if t_chain t = scroll_chain
      then bind_act (lift (scroll_transaction_size_bound env t f)) (scroll_l1_fee env rpc url)
      else if t_chain t \<notin> set op_stack_chains then give 0
      else bind_act (lift (unsigned_transaction_payload env t f)) (op_l1_fee env rpc url))"

definition l1_fee_suffix :: "int \<Rightarrow> string" where
  "l1_fee_suffix chain = (if chain = scroll_chain then ''+scroll_l1_fee_size_bound'' else ''+op_l1_fee_upper_bound'')"

section \<open>The plan\<close>

definition show_opt :: "('a \<Rightarrow> string) \<Rightarrow> 'a option \<Rightarrow> string" where
  "show_opt f v = (case v of None \<Rightarrow> ''None'' | Some x \<Rightarrow> f x)"

definition fee_cap_text :: "tx_request \<Rightarrow> int \<Rightarrow> int \<Rightarrow> string" where
  "fee_cap_text t sum_fee cap =
     ''estimated DeFi transaction exceeds gas cap:estimate_gas='' @ show_opt int_text (t_estimate t)
     @ '';gas_limit='' @ int_text (t_gas t) @ '';gas_price_wei='' @ show_opt int_text (t_gas_price t)
     @ '';max_fee_per_gas_wei='' @ show_opt int_text (t_max_fee t)
     @ '';max_priority_fee_per_gas_wei='' @ show_opt int_text (t_priority t)
     @ '';additional_fee_wei='' @ int_text (t_additional t)
     @ '';estimated_total_fee_wei='' @ int_text sum_fee @ '';cap_wei='' @ int_text cap
     @ '';quote='' @ show_opt (\<lambda>s. s) (t_method t) @ '';fallback_reason='' @ show_opt (\<lambda>s. s) (t_fallback t)"

definition check_fee_cap :: "tx_request \<Rightarrow> tx_request result" where
  "check_fee_cap t = (case t_cap t of
      None \<Rightarrow> Inr t
    | Some cap \<Rightarrow> bind_result (max_total_fee t) (\<lambda>sum_fee.
        if cap < sum_fee then Inl (ValueError (fee_cap_text t sum_fee cap)) else Inr t))"

definition gas_limit_of :: "fee_policy \<Rightarrow> int \<Rightarrow> int" where
  "gas_limit_of policy estimate =
     estimate * gas_buffer_numerator policy div gas_buffer_denominator policy + 1"

definition hex_int :: "int \<Rightarrow> string" where
  "hex_int n = (if n < 0 then CHR ''-'' # py_hex (- n) else py_hex n)"

definition estimate_gas ::
  "fee_env \<Rightarrow> fee_rpc \<Rightarrow> fee_policy \<Rightarrow> string \<Rightarrow> tx_request \<Rightarrow> string \<Rightarrow> (request list, int \<times> int) action" where
  "estimate_gas env rpc policy url t sender =
     bind_act (guarded
       (bind_act (ask rpc url ''eth_estimateGas''
          [PDict [(''from'', PStr sender), (''to'', PStr (t_to t)), (''data'', PStr (t_data t)),
             (''value'', PStr (hex_int (t_value t)))], PStr ''latest'']) (\<lambda>v. lift (quantity v)))
       (\<lambda>e. throw (ValueError (''estimate_gas_rpc_error:'' @ fe_detail env e)))) (\<lambda>estimate.
     if estimate \<le> 0 then throw (ValueError ''invalid_gas_estimate'')
     else let gas = gas_limit_of policy estimate in
       if max_gas_limit policy < gas
       then throw (ValueError (''gas_limit_exceeds_network_ceiling:estimate='' @ int_text estimate
         @ '';buffered='' @ int_text gas @ '';ceiling='' @ int_text (max_gas_limit policy)))
       else give (estimate, gas))"

text \<open>The number and the base fee of the latest block; a pre-London block has no base fee.\<close>

definition latest_header :: "fee_rpc \<Rightarrow> string \<Rightarrow> (request list, int \<times> int option) action" where
  "latest_header rpc url =
     bind_act (ask rpc url ''eth_getBlockByNumber'' [PStr ''latest'', PBool False]) (\<lambda>h. case h of
        PDict d \<Rightarrow>
          bind_act (guarded (lift (quantity (get d ''number'')))
            (\<lambda>e. throw (ValueError ''invalid_latest_block_number_for_fee_quote''))) (\<lambda>number.
          if get d ''baseFeePerGas'' = PNone then give (number, None)
          else bind_act (guarded (lift (quantity (get d ''baseFeePerGas'')))
            (\<lambda>e. throw (ValueError ''invalid_latest_base_fee''))) (\<lambda>base. give (number, Some base)))
      | _ \<Rightarrow> throw (ValueError ''latest_block_unavailable_for_fee_quote''))"

definition floor_legacy :: "tx_request option \<Rightarrow> int \<Rightarrow> int result" where
  "floor_legacy old price = (case old of
      None \<Rightarrow> Inr price
    | Some t \<Rightarrow> bind_result (maximum_fee_per_gas t) (\<lambda>f. Inr (max price (replacement_fee_floor f))))"

definition plan_legacy ::
  "fee_env \<Rightarrow> fee_rpc \<Rightarrow> string \<Rightarrow> tx_request \<Rightarrow> tx_request option \<Rightarrow> int option \<Rightarrow> int \<times> int
     \<Rightarrow> int \<times> int option \<Rightarrow> (request list, tx_request) action" where
  "plan_legacy env rpc url t old cap gas header =
     bind_act (legacy_price env rpc url) (\<lambda>quoted.
     bind_act (lift (floor_legacy old quoted)) (\<lambda>price.
     bind_act (op_stack_l1_fee env rpc url t
       \<lparr>fs_gas = snd gas, fs_max = price, fs_priority = 0, fs_1559 = False\<rparr>) (\<lambda>extra.
     lift (check_fee_cap (t\<lparr>t_gas := snd gas, t_gas_price := Some price, t_max_fee := None,
       t_priority := None, t_additional := extra, t_estimate := Some (fst gas),
       t_block := Some (fst header),
       t_method := Some (''eth_gasPrice'' @ (if extra \<noteq> 0 then l1_fee_suffix (t_chain t) else [])),
       t_base_fee := snd header,
       t_fallback := (if snd header = Some 0 then Some ''zero_base_fee'' else None),
       t_cap := cap\<rparr>)))))"

text \<open>The first fees: the maximum, the priority, the source and whether the shape is EIP-1559.\<close>

definition first_fees :: "fee_policy \<Rightarrow> int \<Rightarrow> int \<Rightarrow> int \<Rightarrow> string \<Rightarrow> int \<times> int \<times> string \<times> bool" where
  "first_fees policy chain base tip source =
     (if chain = 1
      then let fee = (base * 13 + 9) div 10
           in (fee, min tip (fee - base), source @ ''+ethereum_base_fee_1_3'', True)
      else if source = ''eth_gasPrice_fallback'' then (tip, tip, source, False)
      else (projected_base_fee policy base + tip, tip, source, True))"

definition old_tip :: "tx_request \<Rightarrow> int" where
  "old_tip t = (case t_priority t of Some p \<Rightarrow> p
    | None \<Rightarrow> (case t_gas_price t of Some p \<Rightarrow> p | None \<Rightarrow> 0))"

definition floor_fees :: "tx_request option \<Rightarrow> bool \<Rightarrow> int \<times> int \<Rightarrow> (int \<times> int) result" where
  "floor_fees old eip1559 fees = (case old of
      None \<Rightarrow> Inr fees
    | Some t \<Rightarrow> bind_result (maximum_fee_per_gas t) (\<lambda>f.
        let fee = max (fst fees) (replacement_fee_floor f) in
        if eip1559
        then let tip = max (snd fees) (replacement_fee_floor (old_tip t)) in Inr (max fee tip, tip)
        else Inr (fee, snd fees)))"

definition plan_market ::
  "fee_env \<Rightarrow> fee_rpc \<Rightarrow> fee_policy \<Rightarrow> string \<Rightarrow> tx_request \<Rightarrow> tx_request option \<Rightarrow> int option \<Rightarrow> int \<times> int
     \<Rightarrow> int \<Rightarrow> int \<Rightarrow> (request list, tx_request) action" where
  "plan_market env rpc policy url t old cap gas number base =
     bind_act (priority_fee env rpc policy url) (\<lambda>(quoted_tip, quoted_source, reason).
     case first_fees policy (t_chain t) base quoted_tip quoted_source of (first_fee, first_tip, source, eip1559) \<Rightarrow>
     bind_act (lift (floor_fees old eip1559 (first_fee, first_tip))) (\<lambda>(fee, tip).
     bind_act (op_stack_l1_fee env rpc url t
       \<lparr>fs_gas = snd gas, fs_max = fee, fs_priority = tip, fs_1559 = eip1559\<rparr>) (\<lambda>extra.
     lift (check_fee_cap (t\<lparr>t_gas := snd gas, t_gas_price := (if eip1559 then None else Some fee),
       t_max_fee := (if eip1559 then Some fee else None),
       t_priority := (if eip1559 then Some tip else None), t_additional := extra,
       t_estimate := Some (fst gas), t_block := Some number, t_base_fee := Some base,
       t_method := Some (source @ (if extra \<noteq> 0 then l1_fee_suffix (t_chain t) else [])),
       t_fallback := reason, t_cap := cap\<rparr>)))))"

definition plan ::
  "fee_env \<Rightarrow> fee_rpc \<Rightarrow> fee_policy \<Rightarrow> string \<Rightarrow> tx_request \<Rightarrow> string \<Rightarrow> int option \<Rightarrow> tx_request option
     \<Rightarrow> (request list, tx_request) action" where
  "plan env rpc policy url t sender max_total old =
     (let cap = (case max_total of Some c \<Rightarrow> Some c | None \<Rightarrow> t_cap t) in
      if \<not> starts_with ''0x'' sender \<or> length sender \<noteq> 42 then throw (ValueError ''invalid_fee_sender'')
      else if (case cap of None \<Rightarrow> False | Some c \<Rightarrow> c \<le> 0) then throw (ValueError ''invalid_total_fee_cap'')
      else bind_act (estimate_gas env rpc policy url t sender) (\<lambda>gas.
        bind_act (latest_header rpc url) (\<lambda>(number, base). case base of
            None \<Rightarrow> plan_legacy env rpc url t old cap gas (number, None)
          | Some b \<Rightarrow> if b = 0 then plan_legacy env rpc url t old cap gas (number, Some b)
              else plan_market env rpc policy url t old cap gas number b)))"

section \<open>Facts\<close>

lemma quantity_nonneg: "quantity v = Inr n \<Longrightarrow> 0 \<le> n"
  by (auto simp: quantity_def split: pyval.splits if_splits)

lemma guarded_Inr:
  "guarded m h s = (Inr x, t) \<longleftrightarrow>
     m s = (Inr x, t) \<or> (\<exists>e u. m s = (Inl e, u) \<and> \<not> is_deadline e \<and> h e u = (Inr x, t))"
  by (auto simp: guarded_def handle_def split: prod.splits sum.splits)

lemma gas_limit_above:
  assumes "check_fee_policy policy = Inr u" "0 \<le> estimate"
  shows "estimate < gas_limit_of policy estimate"
proof -
  have d: "0 < gas_buffer_denominator policy" "gas_buffer_denominator policy \<le> gas_buffer_numerator policy"
    using assms(1) by (auto simp: check_fee_policy_def split: if_splits)
  then have "estimate * gas_buffer_denominator policy \<le> estimate * gas_buffer_numerator policy"
    using assms(2) by (intro mult_left_mono) simp_all
  then have "estimate \<le> estimate * gas_buffer_numerator policy div gas_buffer_denominator policy"
    using d zdiv_mono1 [of "estimate * gas_buffer_denominator policy" _ "gas_buffer_denominator policy"]
    by fastforce
  then show ?thesis by (simp add: gas_limit_of_def)
qed

lemma estimate_gas_Inr:
  assumes "estimate_gas env rpc policy url t sender s = (Inr gas, u)"
  shows "0 < fst gas \<and> snd gas = gas_limit_of policy (fst gas) \<and> snd gas \<le> max_gas_limit policy"
  using assms by (auto simp: estimate_gas_def Let_def split: if_splits)

lemma legacy_price_pos: "legacy_price env rpc url s = (Inr p, u) \<Longrightarrow> 0 < p"
  by (auto simp: legacy_price_def split: if_splits)

lemma replacement_floor: "0 < replacement_fee_floor p" "9 * p \<le> 8 * replacement_fee_floor p"
  by (auto simp: replacement_fee_floor_def max_def)

lemma projected_nonneg:
  assumes "0 \<le> base"
  shows "0 \<le> projected_base_fee policy base"
proof -
  have "0 \<le> ((\<lambda>b. (b * 9 + 7) div 8) ^^ n) base" for n using assms by (induction n) simp_all
  then show ?thesis by (simp add: projected_base_fee_def)
qed

lemma history_nonneg: "history_rewards rows = Inr ns \<Longrightarrow> n \<in> set ns \<Longrightarrow> 0 \<le> n"
  by (induction rows arbitrary: ns rule: history_rewards.induct)
    (auto split: pyval.splits list.splits if_splits dest: quantity_nonneg)

lemma tips_nonneg:
  assumes "check_fee_policy policy = Inr u"
  shows "history_tip env rpc policy url s = (Inr (Inr tip), v) \<Longrightarrow> 0 \<le> tip"
    and "suggested_tip env rpc policy url s = (Inr (Inr tip), v) \<Longrightarrow> 0 \<le> tip"
proof -
  have "0 \<le> minimum_priority_fee_wei policy"
    using assms by (auto simp: check_fee_policy_def split: if_splits)
  then show "history_tip env rpc policy url s = (Inr (Inr tip), v) \<Longrightarrow> 0 \<le> tip"
    and "suggested_tip env rpc policy url s = (Inr (Inr tip), v) \<Longrightarrow> 0 \<le> tip"
    by (auto simp: history_tip_def suggested_tip_def guarded_Inr split: if_splits)
qed

lemma priority_nonneg:
  assumes "check_fee_policy policy = Inr u" "priority_fee env rpc policy url s = (Inr (tip, src, why), v)"
  shows "0 \<le> tip"
proof -
  obtain x u where h: "history_tip env rpc policy url s = (x, u)" by fastforce
  obtain y w where m: "suggested_tip env rpc policy url u = (y, w)" by fastforce
  show ?thesis
    using assms(2) h m tips_nonneg [OF assms(1), of env rpc url] legacy_price_pos
    unfolding priority_fee_def
    by (cases x; cases y) (fastforce simp: bind_act_eq split: sum.split_asm)+
qed

lemma first_fees_shape:
  assumes "first_fees policy chain base tip source = (fee, p, src, b)" "0 \<le> base" "0 \<le> tip"
  shows "0 \<le> p \<and> p \<le> fee"
  using assms projected_nonneg [OF assms(2), of policy]
  by (auto simp: first_fees_def Let_def min_def split: if_splits)

lemma floor_fees_shape:
  assumes "floor_fees old b (fee0, tip0) = Inr (fee, tip)" "0 \<le> tip0" "tip0 \<le> fee0"
  shows "0 \<le> tip" "tip \<le> fee"
  using assms by (auto simp: floor_fees_def Let_def max_def split: option.splits if_splits)

lemma floor_fees_bump:
  assumes "floor_fees (Some t) b fees = Inr (fee, tip)"
  shows "\<exists>f. maximum_fee_per_gas t = Inr f \<and> 9 * f \<le> 8 * fee \<and> (b \<longrightarrow> 9 * old_tip t \<le> 8 * tip)"
proof -
  obtain f where f: "maximum_fee_per_gas t = Inr f"
    using assms by (auto simp: floor_fees_def)
  have "9 * f \<le> 8 * fee \<and> (b \<longrightarrow> 9 * old_tip t \<le> 8 * tip)"
    using assms f replacement_floor(2) [of f] replacement_floor(2) [of "old_tip t"]
    by (auto simp: floor_fees_def Let_def max_def split: if_splits)
  with f show ?thesis by simp
qed

section \<open>Properties\<close>

lemma check_fee_cap_Inr:
  "check_fee_cap t = Inr p \<longleftrightarrow> p = t \<and> (\<forall>c. t_cap t = Some c \<longrightarrow> (\<exists>n. max_total_fee t = Inr n \<and> n \<le> c))"
  by (auto simp: check_fee_cap_def not_less split: option.splits if_splits)

text \<open>What a planned transaction \<open>p\<close> for the request \<open>t\<close> promises.\<close>

definition well_planned :: "fee_policy \<Rightarrow> tx_request \<Rightarrow> int option \<Rightarrow> tx_request \<Rightarrow> bool" where
  "well_planned policy t cap p \<longleftrightarrow>
     t_chain p = t_chain t \<and> t_to p = t_to t \<and> t_data p = t_data t \<and> t_value p = t_value t
     \<and> (\<exists>e. t_estimate p = Some e \<and> 0 < e \<and> e < t_gas p) \<and> t_gas p \<le> max_gas_limit policy
     \<and> \<not> planned_gas_malformed p \<and> t_cap p = cap
     \<and> (case cap of None \<Rightarrow> True | Some c \<Rightarrow> (case max_total_fee p of Inl _ \<Rightarrow> False | Inr n \<Rightarrow> n \<le> c))"

definition outbids :: "tx_request \<Rightarrow> tx_request option \<Rightarrow> bool" where
  "outbids p old \<longleftrightarrow> (case old of None \<Rightarrow> True
     | Some t \<Rightarrow> (case (maximum_fee_per_gas t, maximum_fee_per_gas p) of
         (Inr f, Inr g) \<Rightarrow> 9 * f \<le> 8 * g \<and> (\<forall>tip. t_priority p = Some tip \<longrightarrow> 9 * old_tip t \<le> 8 * tip)
       | _ \<Rightarrow> False))"

lemma floor_legacy_bump:
  assumes "floor_legacy old quoted = Inr price" "0 < quoted"
  shows "0 < price"
    and "\<And>t. old = Some t \<Longrightarrow> \<exists>f. maximum_fee_per_gas t = Inr f \<and> 9 * f \<le> 8 * price"
proof -
  show "0 < price" using assms by (auto simp: floor_legacy_def max_def split: option.splits)
  fix t assume old: "old = Some t"
  then obtain f where f: "maximum_fee_per_gas t = Inr f" "price = max quoted (replacement_fee_floor f)"
    using assms(1) by (auto simp: floor_legacy_def)
  then show "\<exists>f. maximum_fee_per_gas t = Inr f \<and> 9 * f \<le> 8 * price"
    using replacement_floor(2) [of f] by auto
qed

lemma plan_legacy_sound:
  assumes "plan_legacy env rpc url t old cap gas header s = (Inr p, u)"
    and "0 < fst gas" "fst gas < snd gas" "snd gas \<le> max_gas_limit policy"
  shows "well_planned policy t cap p \<and> outbids p old"
proof -
  obtain quoted v where quoted: "legacy_price env rpc url s = (Inr quoted, v)"
    using assms(1) by (auto simp: plan_legacy_def)
  obtain price extra where price: "floor_legacy old quoted = Inr price"
    and p: "check_fee_cap (t\<lparr>t_gas := snd gas, t_gas_price := Some price, t_max_fee := None,
       t_priority := None, t_additional := extra, t_estimate := Some (fst gas),
       t_block := Some (fst header),
       t_method := Some (''eth_gasPrice'' @ (if extra \<noteq> 0 then l1_fee_suffix (t_chain t) else [])),
       t_base_fee := snd header,
       t_fallback := (if snd header = Some 0 then Some ''zero_base_fee'' else None),
       t_cap := cap\<rparr>) = Inr p"
    using assms(1) quoted by (auto simp: plan_legacy_def)
  note bump = floor_legacy_bump [OF price legacy_price_pos [OF quoted]]
  have "outbids p old"
  proof (cases old)
    case (Some o')
    with bump(2) p show ?thesis by (auto simp: outbids_def check_fee_cap_Inr maximum_fee_per_gas_def)
  qed (simp add: outbids_def)
  moreover have "well_planned policy t cap p"
    using p bump(1) assms(2-4)
    by (auto simp: well_planned_def check_fee_cap_Inr planned_gas_malformed_def split: option.splits)
  ultimately show ?thesis by simp
qed

lemma plan_market_sound:
  assumes "plan_market env rpc policy url t old cap gas number base s = (Inr p, u)"
    and "check_fee_policy policy = Inr ok" "0 \<le> base"
    and "0 < fst gas" "fst gas < snd gas" "snd gas \<le> max_gas_limit policy"
  shows "well_planned policy t cap p \<and> outbids p old"
proof -
  obtain tip0 src0 why v where tip0: "priority_fee env rpc policy url s = (Inr (tip0, src0, why), v)"
    using assms(1) by (auto simp: plan_market_def)
  obtain fee1 tip1 src b where first: "first_fees policy (t_chain t) base tip0 src0 = (fee1, tip1, src, b)"
    by (cases "first_fees policy (t_chain t) base tip0 src0")
  obtain fee tip extra where fl: "floor_fees old b (fee1, tip1) = Inr (fee, tip)"
    and p: "check_fee_cap (t\<lparr>t_gas := snd gas, t_gas_price := (if b then None else Some fee),
       t_max_fee := (if b then Some fee else None), t_priority := (if b then Some tip else None),
       t_additional := extra, t_estimate := Some (fst gas), t_block := Some number,
       t_base_fee := Some base,
       t_method := Some (src @ (if extra \<noteq> 0 then l1_fee_suffix (t_chain t) else [])),
       t_fallback := why, t_cap := cap\<rparr>) = Inr p"
    using assms(1) tip0 first by (auto simp: plan_market_def)
  have shape: "0 \<le> tip" "tip \<le> fee"
    using floor_fees_shape [OF fl] first_fees_shape [OF first assms(3) priority_nonneg [OF assms(2) tip0]] by auto
  have "outbids p old"
    using p fl floor_fees_bump
    by (cases b; cases old; fastforce simp: outbids_def check_fee_cap_Inr maximum_fee_per_gas_def)
  moreover have "well_planned policy t cap p"
    using p shape assms(4-6)
    by (auto simp: well_planned_def check_fee_cap_Inr planned_gas_malformed_def split: option.splits)
  ultimately show ?thesis by simp
qed

lemma planned_soundly:
  assumes "plan env rpc policy url t sender max_total old s = (Inr p, u)"
    and "check_fee_policy policy = Inr ()"
  shows "well_planned policy t (case max_total of Some c \<Rightarrow> Some c | None \<Rightarrow> t_cap t) p \<and> outbids p old"
proof -
  let ?cap = "case max_total of Some c \<Rightarrow> Some c | None \<Rightarrow> t_cap t"
  obtain gas v number base w where gas: "estimate_gas env rpc policy url t sender s = (Inr gas, v)"
    and header: "latest_header rpc url v = (Inr (number, base), w)"
    and rest: "(case base of None \<Rightarrow> plan_legacy env rpc url t old ?cap gas (number, None)
          | Some b \<Rightarrow> if b = 0 then plan_legacy env rpc url t old ?cap gas (number, Some b)
              else plan_market env rpc policy url t old ?cap gas number b) w = (Inr p, u)"
    using assms(1) by (auto simp: plan_def Let_def split: if_splits)
  have g: "0 < fst gas" "fst gas < snd gas" "snd gas \<le> max_gas_limit policy"
    using estimate_gas_Inr [OF gas] gas_limit_above [OF assms(2), of "fst gas"] by auto
  show ?thesis
  proof (cases base)
    case (Some b)
    obtain h w0 where h: "ask rpc url ''eth_getBlockByNumber'' [PStr ''latest'', PBool False] v = (Inr h, w0)"
      using header by (auto simp: latest_header_def)
    have "0 \<le> b"
      using header Some h quantity_nonneg
      by (cases h) (auto simp: latest_header_def guarded_Inr split: if_splits)
    then show ?thesis
      using rest Some g assms(2) plan_market_sound plan_legacy_sound by (auto split: if_splits)
  qed (use rest g plan_legacy_sound in simp)
qed

text \<open>
  C16: a transaction the planner returns keeps the recipient, data and value of the request,
  has a gas limit above the endpoint's estimate and within the network ceiling, one
  well-formed fee shape, a total fee within the cap, and outbids by an eighth the
  transaction it replaces.
\<close>

theorem plan_sound:
  assumes "plan env rpc policy url t sender max_total old s = (Inr p, u)"
    and "check_fee_policy policy = Inr ()"
  shows "well_planned policy t (case max_total of Some c \<Rightarrow> Some c | None \<Rightarrow> t_cap t) p \<and> outbids p old"
  using assms by (rule planned_soundly)

definition sample_env :: fee_env where
  "sample_env = \<lparr>fe_rlp = (\<lambda>_. []), fe_unrlp = (\<lambda>_. []), fe_bytes_call = (\<lambda>_. ''0x''),
     fe_size_call = (\<lambda>_. ''0x''), fe_detail = (\<lambda>_. [])\<rparr>"

definition sample_rpc :: fee_rpc where
  "sample_rpc sent r =
     (if fst (snd r) = ''eth_getBlockByNumber''
      then Inr (PDict [(''number'', PStr ''0xa''), (''baseFeePerGas'', PStr ''0x64'')])
      else Inr (PStr ''0x64''))"

definition sample_request :: tx_request where
  "sample_request = \<lparr>t_chain = 137, t_to = ''0x'' @ replicate 40 (CHR ''a''), t_data = ''0x'', t_value = 5,
     t_gas = 0, t_gas_price = None, t_max_fee = None, t_priority = None, t_additional = 0, t_method = None,
     t_fallback = None, t_cap = None, t_estimate = None, t_block = None, t_base_fee = None\<rparr>"

lemma plan_sound_witness:
  "\<exists>p. fst (plan sample_env sample_rpc default_fee_policy ''u'' sample_request
       (''0x'' @ replicate 40 (CHR ''b'')) None None []) = Inr p \<and> 100 < t_gas p \<and> \<not> planned_gas_malformed p"
proof -
  have policy: "check_fee_policy default_fee_policy = Inr ()" by code_simp
  have "case fst (plan sample_env sample_rpc default_fee_policy ''u'' sample_request
       (''0x'' @ replicate 40 (CHR ''b'')) None None []) of Inr p \<Rightarrow> t_estimate p = Some 100 | Inl _ \<Rightarrow> False"
    by code_simp
  then obtain p u where run: "plan sample_env sample_rpc default_fee_policy ''u'' sample_request
       (''0x'' @ replicate 40 (CHR ''b'')) None None [] = (Inr p, u)" and e: "t_estimate p = Some 100"
    by (auto split: sum.splits prod.splits simp: fst_def)
  from plan_sound [OF run policy] run e show ?thesis by (auto simp: well_planned_def)
qed

end
