(* ===== verification/Decimal_Division.thy ===== *)
theory Decimal_Division
  imports Py_Decimal
begin

text \<open>
  How far a quotient of \<open>Py_Decimal\<close> is from the quotient of the values: \<open>dec_fix\<close> is off by
  one part in \<open>10 ^ (p - 1)\<close> at most, \<open>dec_div\<close> by two.
\<close>

section \<open>Rounding\<close>

lemma abs_dec_value: "\<bar>dec_value d\<bar> = of_nat (coeff d) * 10 powi expo d"
  by (simp add: dec_value_def scoeff_def abs_mult power_int_abs)

lemma dec_fix_error:
  assumes p: "0 < p"
  shows "\<bar>dec_value (dec_fix p d) - dec_value d\<bar> \<le> \<bar>dec_value d\<bar> / 10 ^ (p - 1)"
proof (cases "p < ndigits (coeff d)")
  case True
  define k where "k = ndigits (coeff d) - p"
  define q where "q = round_half_even (coeff d) k"
  define b where "b = (of_int (scoeff (negative d) 1) :: rat)"
  let ?u = "(10 :: rat) powi expo d"
  note round = dec_fix_round [OF p True, folded k_def, folded q_def]
  have signed: "of_int (scoeff (negative d) n) = b * of_nat n" for n by (simp add: b_def scoeff_def)
  have b: "\<bar>b\<bar> = 1" by (simp add: b_def scoeff_def)
  have "dec_value (dec_fix p d) = b * of_nat q * (?u * 10 ^ k)"
    unfolding round(1) signed by (simp add: power_int_add)
  moreover have "dec_value d = b * of_nat (coeff d) * ?u" by (simp add: dec_value_def signed)
  ultimately have "dec_value (dec_fix p d) - dec_value d = b * (of_nat q * 10 ^ k - of_nat (coeff d)) * ?u"
    by (simp add: algebra_simps)
  then have off: "\<bar>dec_value (dec_fix p d) - dec_value d\<bar> = \<bar>of_nat q * 10 ^ k - of_nat (coeff d)\<bar> * ?u"
    by (simp add: abs_mult b power_int_abs)
  have c: "coeff d = coeff d div 10 ^ k * 10 ^ k + coeff d mod 10 ^ k"
    by (rule div_mult_mod_eq [symmetric])
  have "coeff d div 10 ^ k * 10 ^ k \<le> q * 10 ^ k" "q * 10 ^ k \<le> Suc (coeff d div 10 ^ k) * 10 ^ k"
    using round(4,5) by (simp_all only: mult_le_mono1)
  moreover have "coeff d mod 10 ^ k < 10 ^ k" by simp
  ultimately have "\<bar>int (q * 10 ^ k) - int (coeff d)\<bar> \<le> int (10 ^ k)"
    using c by (simp only: mult_Suc)
  then have "of_int \<bar>int (q * 10 ^ k) - int (coeff d)\<bar> \<le> (of_int (int (10 ^ k)) :: rat)"
    by (simp only: of_int_le_iff)
  then have "\<bar>of_nat q * 10 ^ k - of_nat (coeff d)\<bar> \<le> (10 :: rat) ^ k" by simp
  then have "\<bar>dec_value (dec_fix p d) - dec_value d\<bar> \<le> 10 ^ k * ?u"
    unfolding off by (rule mult_right_mono) simp
  also have "\<dots> \<le> \<bar>dec_value d\<bar> / 10 ^ (p - 1)"
  proof -
    have "10 ^ (p - 1) * 10 ^ k \<le> coeff d"
      using round(2) by (simp add: less_eq_div_iff_mult_less_eq)
    then have "of_nat (10 ^ (p - 1) * 10 ^ k) \<le> (of_nat (coeff d) :: rat)" by (simp only: of_nat_le_iff)
    then have "10 ^ (p - 1) * 10 ^ k * ?u \<le> of_nat (coeff d) * ?u"
      by (intro mult_right_mono) simp_all
    then show ?thesis by (simp add: abs_dec_value field_simps)
  qed
  finally show ?thesis .
qed simp

section \<open>Division\<close>

lemma drop_zeros_value:
  "drop_zeros_to i c e = (c', e') \<Longrightarrow> of_nat c' * (10 :: rat) powi e' = of_nat c * 10 powi e"
proof (induction i c e rule: drop_zeros_to.induct)
  case (1 i c e)
  show ?case
  proof (cases "e < i \<and> c mod 10 = 0")
    case True
    with 1 have "of_nat c' * (10 :: rat) powi e' = of_nat (c div 10) * 10 powi (e + 1)"
      by (simp add: drop_zeros_to.simps [of i c])
    moreover from True obtain n where "c = 10 * n" by (auto elim: dvdE simp: mod_eq_0_iff_dvd)
    ultimately show ?thesis by (simp add: power_int_add)
  next
    case False
    with "1.prems" show ?thesis by (simp add: drop_zeros_to.simps [of i c])
  qed
qed

text \<open>The scaled dividend and divisor: their quotient has more than \<open>p\<close> digits.\<close>

lemma scaled_parts:
  fixes shift :: int
  assumes "0 < ca" "0 < cb" and shift: "shift = int (ndigits cb) - int (ndigits ca) + int p + 1"
  defines "n \<equiv> if 0 \<le> shift then ca * 10 ^ nat shift else ca"
    and "m \<equiv> if 0 \<le> shift then cb else cb * 10 ^ nat (- shift)"
  shows "0 < m" "10 ^ p * m \<le> n"
    and "of_nat n / of_nat m = (of_nat ca / of_nat cb :: rat) * 10 powi shift"
proof -
  show "0 < m" using assms(2) by (simp add: m_def)
  have ca: "10 ^ (ndigits ca - 1) \<le> ca" by (rule ndigits_le [OF assms(1)])
  have cb: "cb \<le> 10 ^ ndigits cb" using less_ndigits [of cb] by simp
  show "10 ^ p * m \<le> n"
  proof (cases "0 \<le> shift")
    case True
    have "p + ndigits cb = (ndigits ca - 1) + nat shift"
      using True shift ndigits_pos [of ca] by linarith
    then have "10 ^ p * (10 :: nat) ^ ndigits cb = 10 ^ (ndigits ca - 1) * 10 ^ nat shift"
      by (simp flip: power_add)
    with cb have "10 ^ p * cb \<le> 10 ^ (ndigits ca - 1) * 10 ^ nat shift"
      by (metis mult_le_mono2)
    also have "\<dots> \<le> ca * 10 ^ nat shift" using ca by (rule mult_le_mono1)
    finally show ?thesis using True by (simp add: n_def m_def)
  next
    case False
    have "p + (ndigits cb + nat (- shift)) = ndigits ca - 1"
      using False shift ndigits_pos [of ca] by linarith
    then have "10 ^ p * ((10 :: nat) ^ ndigits cb * 10 ^ nat (- shift)) = 10 ^ (ndigits ca - 1)"
      by (simp flip: power_add)
    moreover have "10 ^ p * (cb * 10 ^ nat (- shift)) \<le> 10 ^ p * (10 ^ ndigits cb * 10 ^ nat (- shift))"
      using cb by simp
    ultimately show ?thesis using False ca by (simp add: n_def m_def)
  qed
  show "of_nat n / of_nat m = (of_nat ca / of_nat cb :: rat) * 10 powi shift"
    by (simp add: n_def m_def power_int_def field_simps)
qed

text \<open>The quotient before it is rounded, with its sticky digit or without its zeros.\<close>

lemma sticky_error:
  fixes n m p :: nat
  assumes "0 < m" "10 ^ p * m \<le> n" "n div m \<le> q" "q \<le> Suc (n div m)"
  shows "\<bar>of_nat q - of_nat n / of_nat m\<bar> \<le> (of_nat n / of_nat m :: rat) / 10 ^ p"
proof -
  define x where "x = (of_nat n / of_nat m :: rat)"
  have n: "of_nat n = (of_nat (n div m) * of_nat m + of_nat (n mod m) :: rat)"
    by (metis div_mult_mod_eq of_nat_add of_nat_mult)
  have "(of_nat (n mod m) :: rat) \<le> of_nat m" using assms(1) by simp
  then have x: "of_nat (n div m) \<le> x" "x \<le> of_nat (n div m) + 1"
    using n assms(1) by (simp_all add: x_def field_simps)
  have q: "of_nat (n div m) \<le> (of_nat q :: rat)" "of_nat q \<le> (of_nat (Suc (n div m)) :: rat)"
    using assms(3,4) by (simp_all only: of_nat_le_iff)
  have "of_nat (10 ^ p * m) \<le> (of_nat n :: rat)" using assms(2) by (simp only: of_nat_le_iff)
  then have "1 \<le> x / 10 ^ p" using assms(1) by (simp add: x_def field_simps)
  moreover have "\<bar>of_nat q - x\<bar> \<le> 1" using x q by simp
  ultimately show ?thesis by (simp add: x_def)
qed

lemma dec_div_cases:
  assumes "dec_div p a b = Inr q"
  obtains (zero) "coeff a = 0" "coeff q = 0"
  | (round) d where "q = dec_fix p d" "negative d \<longleftrightarrow> negative a \<noteq> negative b" "coeff b \<noteq> 0"
      "\<bar>\<bar>dec_value d\<bar> - \<bar>dec_value a / dec_value b\<bar>\<bar> \<le> \<bar>dec_value a / dec_value b\<bar> / 10 ^ p"
proof (cases "coeff a = 0")
  case True
  with assms show thesis by (intro zero) (auto simp: dec_div_def split: if_splits)
next
  case False
  have b: "coeff b \<noteq> 0" using assms by (auto simp: dec_div_def split: if_splits)
  define shift where "shift = int (ndigits (coeff b)) - int (ndigits (coeff a)) + int p + 1"
  define e where "e = expo a - expo b - shift"
  define n where "n = (if 0 \<le> shift then coeff a * 10 ^ nat shift else coeff a)"
  define m where "m = (if 0 \<le> shift then coeff b else coeff b * 10 ^ nat (- shift))"
  define s where "s = (negative a \<noteq> negative b)"
  have parts: "0 < m" "10 ^ p * m \<le> n"
    "of_nat n / of_nat m = (of_nat (coeff a) / of_nat (coeff b) :: rat) * 10 powi shift"
    using scaled_parts [OF _ _ shift_def] False b by (simp_all add: n_def m_def)
  define z where "z = (if n mod m \<noteq> 0 then (if (n div m) mod 5 = 0 then Suc (n div m) else n div m, e)
     else drop_zeros_to (expo a - expo b) (n div m) e)"
  have "dec_div p a b = Inr (dec_fix p (Fin s (fst z) (snd z)))"
    unfolding dec_div_def Let_def shift_def [symmetric] e_def [symmetric] n_def [symmetric] m_def [symmetric]
      s_def [symmetric] using False b by (simp add: z_def split_def)
  then have q: "q = dec_fix p (Fin s (fst z) (snd z))" using assms by simp
  obtain c where c: "of_nat (fst z) * (10 :: rat) powi snd z = of_nat c * 10 powi e"
    "n div m \<le> c" "c \<le> Suc (n div m)"
  proof (cases "n mod m = 0")
    case True
    then show ?thesis
      using that [of "n div m"] drop_zeros_value [of "expo a - expo b" "n div m" e "fst z" "snd z"]
      by (simp add: z_def)
  next
    case False
    then show ?thesis using that [of "fst z"] by (simp add: z_def)
  qed
  have ratio: "\<bar>dec_value a / dec_value b\<bar> = of_nat n / of_nat m * 10 powi e"
    using b unfolding parts(3) e_def
    by (simp add: abs_dec_value abs_divide power_int_diff power_int_add field_simps)
  have "\<bar>\<bar>dec_value (Fin s (fst z) (snd z))\<bar> - \<bar>dec_value a / dec_value b\<bar>\<bar>
      = \<bar>of_nat c - of_nat n / of_nat m\<bar> * 10 powi e"
    unfolding ratio 
    using abs_mult [of "of_nat c - of_nat n / of_nat m" "10 powi e :: rat"]
    by (simp add: abs_dec_value c(1) power_int_abs left_diff_distrib)
  also have "\<dots> \<le> (of_nat n / of_nat m) / 10 ^ p * 10 powi e"
    by (rule mult_right_mono [OF sticky_error [OF parts(1,2) c(2,3)]]) simp
  also have "\<dots> = \<bar>dec_value a / dec_value b\<bar> / 10 ^ p" unfolding ratio by simp
  finally show thesis using b by (intro round [OF q]) (simp_all add: s_def)
qed

lemma dec_value_signed: "dec_value d = (if negative d then - 1 else 1) * \<bar>dec_value d\<bar>"
  unfolding abs_dec_value by (simp add: dec_value_def scoeff_def)

lemma dec_div_error:
  assumes p: "0 < p" and run: "dec_div p a b = Inr q"
  shows "\<bar>dec_value q - dec_value a / dec_value b\<bar> \<le> 2 * \<bar>dec_value a / dec_value b\<bar> / 10 ^ (p - 1)"
    and "representable p (dec_value q)"
proof -
  show "\<bar>dec_value q - dec_value a / dec_value b\<bar> \<le> 2 * \<bar>dec_value a / dec_value b\<bar> / 10 ^ (p - 1)"
    using run
  proof (cases rule: dec_div_cases)
    case zero
    then show ?thesis by (simp add: dec_value_def scoeff_def)
  next
    case (round d)
    define x where "x = dec_value a / dec_value b"
    define w where "w = (10 :: rat) ^ (p - 1)"
    have w: "1 \<le> w" "10 ^ p = 10 * w" using p by (simp_all add: w_def flip: power_Suc)
    have "x = (if negative d then - 1 else 1) * \<bar>x\<bar>"
      using round(2) dec_value_signed [of a] dec_value_signed [of b] unfolding x_def
      by (simp add: abs_divide split: if_splits)
    then have "\<bar>dec_value d - x\<bar> = \<bar>\<bar>dec_value d\<bar> - \<bar>x\<bar>\<bar>"
      using dec_value_signed [of d] by (auto split: if_splits)
    with round(4) have pre: "\<bar>dec_value d - x\<bar> \<le> \<bar>x\<bar> / (10 * w)" by (simp add: x_def w(2))
    have fixed: "\<bar>dec_value q - dec_value d\<bar> \<le> \<bar>dec_value d\<bar> / w"
      using dec_fix_error [OF p, of d] round(1) by (simp add: w_def)
    have "\<bar>x\<bar> / (10 * w) \<le> \<bar>x\<bar> / 10" using w(1) by (intro divide_left_mono) auto
    with pre have "\<bar>dec_value d\<bar> \<le> 11 / 10 * \<bar>x\<bar>" by linarith
    then have "\<bar>dec_value d\<bar> / w \<le> (11 / 10 * \<bar>x\<bar>) / w" using w(1) by (intro divide_right_mono) auto
    moreover define u where "u = \<bar>x\<bar> / w"
    ultimately have "\<bar>dec_value d\<bar> / w \<le> 11 / 10 * u" by simp
    moreover have "\<bar>dec_value d - x\<bar> \<le> u / 10" using pre by (simp add: u_def)
    moreover have "0 \<le> u" using w(1) by (simp add: u_def)
    ultimately have "\<bar>dec_value q - x\<bar> \<le> 2 * u" using fixed by linarith
    then show ?thesis by (simp add: x_def w_def u_def)
  qed
  show "representable p (dec_value q)"
    using run
  proof (cases rule: dec_div_cases)
    case zero
    then have "dec_value q = of_int 0 * 10 powi 0" by (simp add: dec_value_def scoeff_def)
    moreover have "\<bar>0 :: int\<bar> < 10 ^ p" by simp
    ultimately show ?thesis unfolding representable_def by blast
  next
    case (round d)
    then show ?thesis using representable_fix [OF p] by simp
  qed
qed

lemma dec_percentage_error:
  assumes p: "0 < p" and run: "dec_div p a b = Inr q"
  shows "\<bar>dec_value (dec_mul p q (dec_of_int 100)) - 100 * dec_value a / dec_value b\<bar>
     \<le> 2 * \<bar>100 * dec_value a / dec_value b\<bar> / 10 ^ (p - 1)"
proof -
  obtain z m where "dec_value q = of_int z * 10 powi m" "\<bar>z\<bar> < 10 ^ p"
    using dec_div_error(2) [OF assms] by (auto simp: representable_def)
  then have "dec_value (exact_mul q (dec_of_int 100)) = of_int z * 10 powi (m + 2)" "\<bar>z\<bar> < 10 ^ p"
    by (simp_all add: power_int_add power2_eq_square)
  then have "dec_value (dec_mul p q (dec_of_int 100)) = dec_value q * 100"
    using dec_fix_exact [OF p, of "exact_mul q (dec_of_int 100)"] by (simp add: dec_mul_def)
  with dec_div_error(1) [OF assms] show ?thesis
    by (simp add: abs_mult flip: right_diff_distrib' mult.commute [of "100 :: rat"])
qed

end
