(* ===== verification/Valuation.thy ===== *)
theory Valuation
  imports Py_Values Decimal_Division
begin

text \<open>
  Conservative USD valuation (\<open>valuation.py\<close>) over the asset identities of \<open>models.py\<close>.
  Decimals are those of \<open>Py_Decimal\<close>; a datetime is its UTC time in seconds, or nothing when
  it carries no zone. The sums the code calls exact are shown to be exact.
\<close>

section \<open>Assets and prices\<close>

record asset =
  a_chain :: int
  a_contract :: string
  a_decimals :: int

definition new_asset :: "pyval \<Rightarrow> pyval \<Rightarrow> pyval \<Rightarrow> asset result" where
  "new_asset chain contract decimals =
     (case chain of PInt c \<Rightarrow>
        if c \<le> 0 then Inl (ConfigError ''asset chain_id must be a positive integer'')
        else (case decimals of PInt d \<Rightarrow>
           if d < 0 \<or> 255 < d then Inl (ConfigError ''asset decimals must be an integer from 0 through 255 or null'')
           else (case contract of PStr s \<Rightarrow>
              if s = ''native'' then Inr \<lparr>a_chain = c, a_contract = s, a_decimals = d\<rparr>
              else if is_address (lower s) then Inr \<lparr>a_chain = c, a_contract = lower s, a_decimals = d\<rparr>
              else Inl (ConfigError ''asset contract_address must be an EVM address or literal native'')
            | _ \<Rightarrow> Inl (ConfigError ''asset contract_address must be an EVM address or literal native''))
         | PNone \<Rightarrow> Inl (ConfigError ''asset decimals must be an integer from 0 through 255'')
         | _ \<Rightarrow> Inl (ConfigError ''asset decimals must be an integer from 0 through 255 or null''))
      | _ \<Rightarrow> Inl (ConfigError ''asset chain_id must be a positive integer''))"

definition is_native :: "asset \<Rightarrow> bool" where
  "is_native a \<longleftrightarrow> a_contract a = ''native''"

type_synonym datetime = "rat option"

record quote_price =
  p_asset :: asset
  p_usd :: fdec
  p_observed :: rat
  p_source :: string
  p_reported :: "string option"

definition price_error :: exn where
  "price_error = ValueError ''price must be a finite positive Decimal''"

definition new_quote_price ::
  "asset \<Rightarrow> pyval \<Rightarrow> datetime \<Rightarrow> string \<Rightarrow> string option \<Rightarrow> quote_price result" where
  "new_quote_price asset usd observed src reported = (case observed of
      None \<Rightarrow> Inl (ValueError ''price timestamp must be timezone-aware'')
    | Some t \<Rightarrow>
        if (case usd of PFloat _ \<Rightarrow> True | _ \<Rightarrow> False)
        then Inl (ValueError ''price must be supplied as an exact decimal'')
        else (case py_decimal usd of
            Inr (Number d) \<Rightarrow> if dec_le d (dec_of_int 0) then Inl price_error
              else Inr \<lparr>p_asset = asset, p_usd = d, p_observed = t, p_source = src, p_reported = reported\<rparr>
          | _ \<Rightarrow> Inl price_error))"

record fee_quote =
  fq_amount :: int
  fq_price :: "quote_price option"

definition validate_raw_amount :: "int \<Rightarrow> string \<Rightarrow> unit result" where
  "validate_raw_amount n field = require (0 \<le> n) (ValueError (field @ '' must be a non-negative integer''))"

definition new_fee_quote :: "int \<Rightarrow> quote_price option \<Rightarrow> fee_quote result" where
  "new_fee_quote amount price =
     bind_result (validate_raw_amount amount ''fee amount'')
       (\<lambda>_. Inr \<lparr>fq_amount = amount, fq_price = price\<rparr>)"

record route_valuation =
  rv_source :: fdec
  rv_destination :: fdec
  rv_gas :: fdec
  rv_loss :: fdec

section \<open>Exact decimals\<close>

definition raw_to_decimal :: "int \<Rightarrow> asset \<Rightarrow> fdec result" where
  "raw_to_decimal raw asset =
     bind_result (validate_raw_amount raw ''raw amount'')
       (\<lambda>_. Inr (Fin False (nat raw) (- a_decimals asset)))"

definition usd_value :: "int \<Rightarrow> quote_price \<Rightarrow> fdec result" where
  "usd_value raw price =
     bind_result (raw_to_decimal raw (p_asset price)) (\<lambda>amount.
     let p = max default_prec (ndigits (coeff amount) + ndigits (coeff (p_usd price)) + 2) in
     Inr (dec_mul p amount (p_usd price)))"

definition sum_precision :: "fdec list \<Rightarrow> int" where
  "sum_precision terms =
     (let nonzero = filter dec_nonzero terms in
      Max (set (map adjusted nonzero)) - Min (set (map expo nonzero))
        + int (ndigits (length terms)) + 2)"

definition exact_decimal_sum :: "fdec list \<Rightarrow> fdec" where
  "exact_decimal_sum terms =
     (if filter dec_nonzero terms = [] then dec_of_int 0
      else foldl (dec_add (max default_prec (nat (sum_precision terms)))) (dec_of_int 0) terms)"

definition exact_decimal_difference :: "fdec \<Rightarrow> fdec \<Rightarrow> fdec" where
  "exact_decimal_difference a b = exact_decimal_sum [a, dec_neg b]"

definition exact_percentage :: "fdec \<Rightarrow> fdec \<Rightarrow> fdec result" where
  "exact_percentage a b =
     (let p = max default_prec (max (ndigits (coeff a)) (ndigits (coeff b)) + 50) in
      bind_result (dec_div p a b) (\<lambda>q. Inr (dec_mul p q (dec_of_int 100))))"

section \<open>Route values\<close>

definition validate_now :: "datetime \<Rightarrow> rat \<Rightarrow> rat result" where
  "validate_now now max_age = (case now of
      None \<Rightarrow> Inl (ValueError ''now must be timezone-aware'')
    | Some t \<Rightarrow> if max_age < 0 then Inl (ValueError ''max_price_age must be non-negative'') else Inr t)"

definition require_fresh :: "quote_price \<Rightarrow> rat \<Rightarrow> rat \<Rightarrow> unit result" where
  "require_fresh price now max_age =
     require (\<not> (now < p_observed price \<or> max_age < now - p_observed price)) (ValueError ''quote price is stale'')"

fun gas_usd_values :: "fee_quote list \<Rightarrow> rat \<Rightarrow> rat \<Rightarrow> fdec list result" where
  "gas_usd_values [] now max_age = Inr []"
| "gas_usd_values (g # gs) now max_age = (case fq_price g of
      None \<Rightarrow> Inl (ValueError ''wallet-paid gas must include a quoted price'')
    | Some price \<Rightarrow>
        bind_result (require_fresh price now max_age) (\<lambda>_.
        bind_result (usd_value (fq_amount g) price) (\<lambda>v.
        bind_result (gas_usd_values gs now max_age) (\<lambda>vs. Inr (v # vs)))))"

definition slippage_and_gas :: "fdec \<Rightarrow> fdec \<Rightarrow> fdec \<Rightarrow> fdec" where
  "slippage_and_gas source_usd destination_usd gas_usd =
     exact_decimal_sum [dec_max (dec_of_int 0) (exact_decimal_difference source_usd destination_usd), gas_usd]"

definition quote_valuation ::
  "int \<Rightarrow> quote_price \<Rightarrow> int \<Rightarrow> quote_price \<Rightarrow> fee_quote list option \<Rightarrow> fee_quote list option
     \<Rightarrow> datetime \<Rightarrow> rat \<Rightarrow> route_valuation result" where
  "quote_valuation source_amount source_price destination_amount destination_price fees gas now max_age =
     bind_result (validate_now now max_age) (\<lambda>t.
     if fees \<noteq> None \<and> gas \<noteq> None
     then Inl (ValueError ''supply wallet_paid_gas, not both gas and legacy fees'')
     else bind_result (require_fresh source_price t max_age) (\<lambda>_.
     bind_result (require_fresh destination_price t max_age) (\<lambda>_.
     bind_result (usd_value source_amount source_price) (\<lambda>source_usd.
     bind_result (usd_value destination_amount destination_price) (\<lambda>destination_usd.
     bind_result (gas_usd_values
         (case gas of Some g \<Rightarrow> g | None \<Rightarrow> (case fees of Some f \<Rightarrow> f | None \<Rightarrow> [])) t max_age) (\<lambda>values.
     let gas_usd = exact_decimal_sum values in
     Inr \<lparr>rv_source = source_usd, rv_destination = destination_usd, rv_gas = gas_usd,
       rv_loss = slippage_and_gas source_usd destination_usd gas_usd\<rparr>))))))"

section \<open>Facts\<close>

text \<open>
  At the least exponent \<open>m\<close> of the non-zero terms, every term is an integer below
  \<open>10 ^ (M + 1 - m)\<close>, where \<open>M\<close> is the position of the leading digit of the largest.
\<close>

lemma term_at_scale:
  assumes "d \<in> set terms"
  defines "nz \<equiv> filter dec_nonzero terms"
  shows "\<exists>z. dec_value d = of_int z * 10 powi Min (set (map expo nz))
    \<and> \<bar>z\<bar> \<le> 10 ^ nat (Max (set (map adjusted nz)) + 1 - Min (set (map expo nz)))"
proof (cases "dec_nonzero d")
  case True
  define m where "m = Min (set (map expo nz))"
  define M where "M = Max (set (map adjusted nz))"
  have mem: "d \<in> set nz" using assms True by (simp add: nz_def)
  have e: "m \<le> expo d" "adjusted d \<le> M" using mem by (auto simp: m_def M_def)
  define k where "k = nat (expo d - m)"
  have v: "dec_value d = of_int (scoeff (negative d) (coeff d) * 10 ^ k) * 10 powi m"
    using e(1) power_int_add [of "10 :: rat" "expo d - m" m]
    by (simp add: dec_value_def k_def power_int_def)
  have "\<bar>scoeff (negative d) (coeff d) * 10 ^ k\<bar> = int (coeff d) * 10 ^ k"
    by (simp add: scoeff_def abs_mult)
  also have "\<dots> \<le> 10 ^ ndigits (coeff d) * 10 ^ k"
    using less_ndigits [of "coeff d"] by (intro mult_right_mono) (simp_all add: less_imp_le)
  also have "\<dots> = 10 ^ (ndigits (coeff d) + k)" by (simp add: power_add)
  also have "\<dots> \<le> 10 ^ nat (M + 1 - m)"
    using e by (intro power_increasing) (auto simp: adjusted_def k_def)
  finally show ?thesis using v unfolding m_def M_def by blast
next
  case False
  then have "dec_value d = 0" by (simp add: dec_nonzero_value)
  then show ?thesis by (intro exI [of _ 0]) simp
qed

lemma foldl_add_exact:
  assumes p: "0 < p" and "\<And>d. d \<in> set ds \<Longrightarrow> \<exists>z. dec_value d = of_int z * 10 powi m \<and> \<bar>z\<bar> \<le> b"
    and "dec_value a = of_int y * 10 powi m" "\<bar>y\<bar> + int (length ds) * b < 10 ^ p"
  shows "dec_value (foldl (dec_add p) a ds) = dec_value a + sum_list (map dec_value ds)"
  using assms(2-4)
proof (induction ds arbitrary: a y)
  case (Cons d ds)
  obtain z where z: "dec_value d = of_int z * 10 powi m" "\<bar>z\<bar> \<le> b" using Cons.prems(1) [of d] by auto
  have b: "0 \<le> b" using z(2) by linarith
  have small: "\<bar>y + z\<bar> + int (length ds) * b < 10 ^ p"
    using Cons.prems(3) z(2) by (simp add: algebra_simps)
  have "\<bar>y + z\<bar> < 10 ^ p" using small b by (smt (verit) mult_nonneg_nonneg of_nat_0_le_iff)
  moreover have sum: "dec_value a + dec_value d = of_int (y + z) * 10 powi m"
    by (simp add: z(1) Cons.prems(2) algebra_simps)
  ultimately have add: "dec_value (dec_add p a d) = dec_value a + dec_value d"
    by (intro dec_add_exact [OF p])
  have "dec_value (foldl (dec_add p) (dec_add p a d) ds)
      = dec_value (dec_add p a d) + sum_list (map dec_value ds)"
    using Cons.prems(1) small by (intro Cons.IH [of _ "y + z"]) (simp_all only: add sum set_subset_Cons list.set_intros)
  with add show ?case by simp
qed simp

lemma exact_sum_value: "dec_value (exact_decimal_sum terms) = sum_list (map dec_value terms)"
proof (cases "filter dec_nonzero terms = []")
  case True
  then have "\<forall>d \<in> set terms. dec_value d = 0"
    by (auto simp: filter_empty_conv dec_nonzero_value)
  then have "sum_list (map dec_value terms) = 0" by (induction terms) simp_all
  with True show ?thesis by (simp add: exact_decimal_sum_def)
next
  case False
  define nz where "nz = filter dec_nonzero terms"
  define m where "m = Min (set (map expo nz))"
  define b :: int where "b = 10 ^ nat (Max (set (map adjusted nz)) + 1 - m)"
  define p where "p = max default_prec (nat (sum_precision terms))"
  obtain x where x: "x \<in> set nz" using False unfolding nz_def by (metis list.set_intros(1) neq_Nil_conv)
  have "m \<le> expo x" "adjusted x \<le> Max (set (map adjusted nz))" using x by (auto simp: m_def)
  then have span: "0 \<le> Max (set (map adjusted nz)) + 1 - m" by (simp add: adjusted_def)
  have "int (length terms) < 10 ^ ndigits (length terms)"
    using less_ndigits [of "length terms"] by (metis of_nat_less_iff of_nat_numeral of_nat_power)
  then have "int (length terms) * b < 10 ^ ndigits (length terms) * b"
    by (rule mult_strict_right_mono) (simp add: b_def)
  also have "\<dots> = 10 ^ nat (int (ndigits (length terms)) + (Max (set (map adjusted nz)) + 1 - m))"
    using span by (simp add: b_def nat_add_distrib power_add)
  also have "\<dots> \<le> 10 ^ p"
    by (intro power_increasing) (auto simp: p_def sum_precision_def nz_def m_def Let_def)
  finally have "int (length terms) * b < 10 ^ p" .
  moreover have "\<And>d. d \<in> set terms \<Longrightarrow> \<exists>z. dec_value d = of_int z * 10 powi m \<and> \<bar>z\<bar> \<le> b"
    using term_at_scale unfolding m_def b_def nz_def by blast
  ultimately have "dec_value (foldl (dec_add p) (dec_of_int 0) terms)
      = dec_value (dec_of_int 0) + sum_list (map dec_value terms)"
    by (intro foldl_add_exact [of p terms m b _ 0]) (auto simp: p_def default_prec_def)
  with False show ?thesis by (simp add: exact_decimal_sum_def p_def)
qed

lemma exact_difference_value: "dec_value (exact_decimal_difference a b) = dec_value a - dec_value b"
  by (simp add: exact_decimal_difference_def exact_sum_value)

lemma slippage_value:
  "dec_value (slippage_and_gas s d g) = max 0 (dec_value s - dec_value d) + dec_value g"
  by (simp add: slippage_and_gas_def exact_sum_value exact_difference_value dec_value_max)

lemma usd_value_exact:
  assumes "usd_value raw price = Inr v"
  shows "dec_value v = of_int raw * 10 powi (- a_decimals (p_asset price)) * dec_value (p_usd price)" "0 \<le> raw"
  using assms dec_mul_exact
  by (auto simp: usd_value_def raw_to_decimal_def validate_raw_amount_def Let_def dec_value_Fin scoeff_def
      default_prec_def)

text \<open>The value of a quantity in USD, as a rational.\<close>

definition usd_of :: "int \<Rightarrow> quote_price \<Rightarrow> rat" where
  "usd_of raw price = of_int raw * 10 powi (- a_decimals (p_asset price)) * dec_value (p_usd price)"

definition gas_value :: "fee_quote \<Rightarrow> rat" where
  "gas_value g = (case fq_price g of None \<Rightarrow> 0 | Some p \<Rightarrow> usd_of (fq_amount g) p)"

definition fresh_price :: "rat \<Rightarrow> rat \<Rightarrow> quote_price \<Rightarrow> bool" where
  "fresh_price now age p \<longleftrightarrow> p_observed p \<le> now \<and> now - p_observed p \<le> age"

lemma gas_values_exact:
  "gas_usd_values gs t age = Inr vs \<Longrightarrow> map dec_value vs = map gas_value gs
     \<and> (\<forall>g \<in> set gs. \<exists>p. fq_price g = Some p \<and> fresh_price t age p)"
  by (induction gs arbitrary: vs)
    (auto simp: gas_value_def usd_of_def usd_value_exact fresh_price_def require_fresh_def not_less split: option.splits)

text \<open>
  A percentage is the quotient up to one part in \<open>10 ^ 49\<close>: the division rounds at 51 digits
  or more, the factor 100 is exact.
\<close>

lemma exact_percentage_close:
  assumes "exact_percentage a b = Inr pct"
  shows "\<bar>dec_value pct - 100 * dec_value a / dec_value b\<bar> \<le> \<bar>100 * dec_value a / dec_value b\<bar> / 10 ^ 49"
proof -
  define p where "p = max default_prec (max (ndigits (coeff a)) (ndigits (coeff b)) + 50)"
  have p: "51 \<le> p" using ndigits_pos [of "coeff a"] by (simp add: p_def le_max_iff_disj Suc_le_eq del: ndigits_pos)
  from assms obtain q where "dec_div p a b = Inr q" "pct = dec_mul p q (dec_of_int 100)"
    by (auto simp: exact_percentage_def Let_def p_def)
  with p have "\<bar>dec_value pct - 100 * dec_value a / dec_value b\<bar>
      \<le> 2 * \<bar>100 * dec_value a / dec_value b\<bar> / 10 ^ (p - 1)"
    by (simp only: dec_percentage_error)
  also have "\<dots> \<le> 2 * \<bar>100 * dec_value a / dec_value b\<bar> / 10 ^ 50"
    using p by (intro divide_left_mono power_increasing) auto
  also have "\<dots> \<le> \<bar>100 * dec_value a / dec_value b\<bar> / 10 ^ 49"
    using abs_ge_zero [of "100 * dec_value a / dec_value b"] by (simp add: divide_simps del: abs_ge_zero)
  finally show ?thesis .
qed

text \<open>
  C19: the valuation of a route is the exact arithmetic on the quoted rationals: the loss is
  the positive part of the value lost between source and destination, plus every gas
  payment, with no rounding anywhere, and every price used, of the two assets and of every gas
  payment, has been observed, no longer ago than the age allowed.
\<close>

theorem valuation_exact:
  assumes "quote_valuation m sp n dp None (Some gas) (Some now) age = Inr v"
  shows "dec_value (rv_source v) = usd_of m sp \<and> dec_value (rv_destination v) = usd_of n dp
    \<and> dec_value (rv_gas v) = sum_list (map gas_value gas)
    \<and> dec_value (rv_loss v) = max 0 (usd_of m sp - usd_of n dp) + sum_list (map gas_value gas)
    \<and> p_observed sp \<le> now \<and> now - p_observed sp \<le> age \<and> p_observed dp \<le> now \<and> now - p_observed dp \<le> age
    \<and> (\<forall>g \<in> set gas. \<exists>p. fq_price g = Some p \<and> p_observed p \<le> now \<and> now - p_observed p \<le> age)"
  using assms gas_values_exact [of gas now age]
  by (auto simp: quote_valuation_def validate_now_def Let_def slippage_value exact_sum_value usd_of_def
      usd_value_exact require_fresh_def not_less fresh_price_def split: if_splits)

definition sample_price :: quote_price where
  "sample_price = \<lparr>p_asset = \<lparr>a_chain = 1, a_contract = ''native'', a_decimals = 2\<rparr>, p_usd = Fin False 3 0,
     p_observed = 5, p_source = ''quote'', p_reported = None\<rparr>"

lemma valuation_exact_witness:
  "\<exists>v. quote_valuation 400 sample_price 300 sample_price None (Some [\<lparr>fq_amount = 100, fq_price = Some sample_price\<rparr>])
       (Some 6) 10 = Inr v \<and> dec_value (rv_loss v) = 6"
proof -
  obtain v where v: "quote_valuation 400 sample_price 300 sample_price None
      (Some [\<lparr>fq_amount = 100, fq_price = Some sample_price\<rparr>]) (Some 6) 10 = Inr v"
    by (simp add: quote_valuation_def validate_now_def require_fresh_def usd_value_def raw_to_decimal_def
        validate_raw_amount_def sample_price_def Let_def)
  from valuation_exact [OF this] v show ?thesis
    by (auto simp: usd_of_def gas_value_def sample_price_def dec_value_Fin scoeff_def power_int_def
        power2_eq_square)
qed

text \<open>
  \<open>exact_decimal_sum\<close> is the exact sum: the value of its result is the sum of the values
  of any finite terms, however far apart their digits are.
\<close>

theorem exact_sum_is_sum: "dec_value (exact_decimal_sum terms) = sum_list (map dec_value terms)"
  by (rule exact_sum_value)

end
