(* ===== verification/Consolidation.thy ===== *)
theory Consolidation
  imports Valuation
begin

text \<open>
  Valuation and selection of consolidation routes (\<open>consolidation.py\<close>) over the normalized
  evidence of a LI.FI route (the dataclasses of \<open>lifi.py\<close>). The check of a route against its
  own payload (\<open>validate_bridge_route\<close>) and the parser of ISO timestamps are parameters.
\<close>

section \<open>Evidence\<close>

record gas_cost =
  gc_amount :: int
  gc_amount_usd :: "string option"
  gc_token :: "asset option"
  gc_price_usd :: "string option"
  gc_timestamp :: "string option"

record step_evidence =
  se_type :: "string option"
  se_provider :: "string option"
  se_source :: "asset option"
  se_destination :: "asset option"
  se_from :: "int option"
  se_to :: "int option"
  se_recipient :: "string option"
  se_sha :: string
  se_source_price :: "string option"
  se_destination_price :: "string option"
  se_source_time :: "string option"
  se_destination_time :: "string option"
  se_substep :: bool
  se_error :: "string option"

record price_evidence =
  pe_asset :: asset
  pe_price :: "string option"
  pe_timestamp :: string
  pe_source :: string
  pe_reported :: "string option"

record route_evidence =
  re_route_id :: string
  re_steps :: "step_evidence list"
  re_source :: asset
  re_destination :: asset
  re_input :: int
  re_output :: int
  re_min_output :: int
  re_recipient :: "string option"
  re_timestamp :: string
  re_prices :: "price_evidence list"
  re_sha :: string
  re_payload :: string
  re_costs_complete :: bool
  re_costs_reason :: "string option"

record lifi_route =
  lr_id :: string
  lr_from :: int
  lr_to :: int
  lr_to_min :: int
  lr_gas :: "gas_cost list"
  lr_evidence :: "route_evidence option"

section \<open>Candidates\<close>

definition reason_codes :: "string list" where
  "reason_codes =
     [''amount_flow_mismatch'', ''below_target_minimum'', ''incomplete_cost_evidence'', ''invalid_candidate'',
      ''invalid_loss_limit'', ''invalid_price_evidence'', ''invalid_source_value'',
      ''loss_threshold_exceeded'', ''missing_destination_price'', ''missing_gas_estimate'',
      ''missing_gas_price'', ''missing_route_evidence'', ''missing_source_price'',
      ''no_eligible_candidate'', ''route_search_incomplete'', ''quota_wait'',
      ''no_enabled_deposit_target'', ''lifi_request_budget_exceeded'', ''route_api_rate_limited'',
      ''price_identity_mismatch'', ''recipient_mismatch'', ''route_identity_mismatch'', ''stale_price'',
      ''step_identity_mismatch'', ''tampered_route_evidence'', ''conflicting_price_evidence'',
      ''zero_source_value'', ''insufficient_source_gas'', ''source_native_fee_exceeds_balance'',
      ''native_reserve_requote_unavailable'', ''native_gas_reserve_unstable'']"

record candidate =
  c_route_ids :: "string list"
  c_source :: "asset option"
  c_destination :: "asset option"
  c_source_amount :: "int option"
  c_destination_amount :: "int option"
  c_source_usd :: "fdec option"
  c_destination_usd :: "fdec option"
  c_gas_usd :: "fdec option"
  c_loss_usd :: "fdec option"
  c_loss_pct :: "fdec option"
  c_reason :: "string option"
  c_gas_complete :: bool
  c_gas :: "fee_quote list"
  c_expires :: "rat option"

text \<open>\<open>__post_init__\<close>: a reason must be a stable code.\<close>

definition new_candidate :: "candidate \<Rightarrow> candidate result" where
  "new_candidate c = (case c_reason c of
      None \<Rightarrow> Inr c
    | Some r \<Rightarrow> if r \<in> set reason_codes then Inr c
        else Inl (ValueError ''candidate reason is not a stable reason code''))"

definition is_valid :: "candidate \<Rightarrow> bool" where
  "is_valid c \<longleftrightarrow> c_reason c = None \<and> c_loss_usd c \<noteq> None \<and> c_loss_pct c \<noteq> None \<and> c_gas_complete c
     \<and> c_gas c \<noteq> [] \<and> list_all (\<lambda>g. fq_price g \<noteq> None) (c_gas c)"

record endpoints =
  e_route_ids :: "string list"
  e_source :: "asset option"
  e_destination :: "asset option"
  e_source_amount :: "int option"
  e_destination_amount :: "int option"

definition rejected :: "endpoints \<Rightarrow> string \<Rightarrow> candidate result" where
  "rejected b reason = new_candidate \<lparr>c_route_ids = e_route_ids b, c_source = e_source b,
     c_destination = e_destination b, c_source_amount = e_source_amount b,
     c_destination_amount = e_destination_amount b, c_source_usd = None, c_destination_usd = None,
     c_gas_usd = None, c_loss_usd = None, c_loss_pct = None, c_reason = Some reason,
     c_gas_complete = False, c_gas = [], c_expires = None\<rparr>"

text \<open>A candidate with values; a source worth nothing has no loss percentage.\<close>

definition valued ::
  "endpoints \<Rightarrow> fdec \<Rightarrow> fdec \<Rightarrow> fdec \<Rightarrow> fdec \<Rightarrow> fee_quote list \<Rightarrow> candidate result" where
  "valued b source_usd destination_usd gas_usd loss_usd gas =
     (let c = \<lparr>c_route_ids = e_route_ids b, c_source = e_source b, c_destination = e_destination b,
        c_source_amount = e_source_amount b, c_destination_amount = e_destination_amount b,
        c_source_usd = Some source_usd, c_destination_usd = Some destination_usd,
        c_gas_usd = Some gas_usd, c_loss_usd = Some loss_usd, c_loss_pct = None,
        c_reason = Some ''zero_source_value'', c_gas_complete = True, c_gas = gas, c_expires = None\<rparr> in
      if dec_le source_usd (dec_of_int 0) then new_candidate c
      else bind_result (exact_percentage loss_usd source_usd)
        (\<lambda>pct. new_candidate (c\<lparr>c_loss_pct := Some pct, c_reason := None\<rparr>)))"

fun message_of :: "exn \<Rightarrow> string" where
  "message_of (ValueError m) = m"
| "message_of (ConfigError m) = m"
| "message_of (LifiError m) = m"
| "message_of _ = []"

definition valuation_failure :: "string \<Rightarrow> string" where
  "valuation_failure m =
     (if contains ''stale'' m then ''stale_price''
      else if contains ''gas'' m \<or> contains ''fee'' m then ''missing_gas_price''
      else ''invalid_candidate'')"

definition candidate_from_values ::
  "string list \<Rightarrow> asset \<Rightarrow> asset \<Rightarrow> int \<Rightarrow> int \<Rightarrow> quote_price option \<Rightarrow> quote_price option
     \<Rightarrow> fee_quote list \<Rightarrow> bool \<Rightarrow> datetime \<Rightarrow> rat \<Rightarrow> candidate result" where
  "candidate_from_values ids source destination source_amount destination_amount source_price
       destination_price gas estimated now max_age =
     (let b = \<lparr>e_route_ids = ids, e_source = Some source, e_destination = Some destination,
            e_source_amount = Some source_amount, e_destination_amount = Some destination_amount\<rparr> in
      case source_price of None \<Rightarrow> rejected b ''missing_source_price''
      | Some sp \<Rightarrow> (case destination_price of None \<Rightarrow> rejected b ''missing_destination_price''
      | Some dp \<Rightarrow>
          if p_asset sp \<noteq> source \<or> p_asset dp \<noteq> destination then rejected b ''price_identity_mismatch''
          else if \<not> estimated \<or> gas = [] then rejected b ''missing_gas_estimate''
          else (case quote_valuation source_amount sp destination_amount dp None (Some gas) now max_age of
              Inl e \<Rightarrow> if is_value_error e then rejected b (valuation_failure (message_of e)) else Inl e
            | Inr v \<Rightarrow> valued b (rv_source v) (rv_destination v) (rv_gas v) (rv_loss v) gas)))"

section \<open>A route's own prices\<close>

record price_book =
  pb_prices :: "(asset \<times> quote_price) list"
  pb_seen :: "((asset \<times> rat) \<times> fdec) list"

definition price_from_evidence ::
  "(string \<Rightarrow> rat option) \<Rightarrow> price_evidence \<Rightarrow> string \<Rightarrow> quote_price result" where
  "price_from_evidence parse_time evidence usd = (case parse_time (pe_timestamp evidence) of
      None \<Rightarrow> Inl (ValueError ''price timestamp is invalid'')
    | Some t \<Rightarrow> new_quote_price (pe_asset evidence) (PStr usd) (Some t) (pe_source evidence) (pe_reported evidence))"

definition newer :: "quote_price option \<Rightarrow> quote_price \<Rightarrow> bool" where
  "newer previous q = (case previous of None \<Rightarrow> True | Some p \<Rightarrow> p_observed p < p_observed q)"

text \<open>The prices of the evidence, or the reason that rejects the route.\<close>

fun evidence_prices ::
  "(string \<Rightarrow> rat option) \<Rightarrow> price_evidence list \<Rightarrow> price_book \<Rightarrow> string + price_book" where
  "evidence_prices pt [] book = Inr book"
| "evidence_prices pt (evidence # others) book = (case pe_price evidence of
      None \<Rightarrow> evidence_prices pt others book
    | Some usd \<Rightarrow> (case price_from_evidence pt evidence usd of
          Inl e \<Rightarrow> Inl ''invalid_price_evidence''
        | Inr q \<Rightarrow>
            let key = (pe_asset evidence, p_observed q) in
            if (case map_of (pb_seen book) key of None \<Rightarrow> False | Some d \<Rightarrow> \<not> dec_eq d (p_usd q))
            then Inl ''conflicting_price_evidence''
            else evidence_prices pt others
              (book\<lparr>pb_seen := AList.update key (p_usd q) (pb_seen book),
                 pb_prices := (if newer (map_of (pb_prices book) (pe_asset evidence)) q
                   then AList.update (pe_asset evidence) q (pb_prices book) else pb_prices book)\<rparr>)))"

text \<open>Prices from elsewhere; an independent reference price always takes precedence.\<close>

fun given_prices ::
  "(asset \<times> quote_price) list \<Rightarrow> (asset \<times> quote_price) list \<Rightarrow> string + (asset \<times> quote_price) list" where
  "given_prices [] book = Inr book"
| "given_prices ((a, q) # rest) book =
     (if a \<noteq> p_asset q then Inl ''price_identity_mismatch''
      else if starts_with ''defillama:'' (p_source q) then given_prices rest (AList.update a q book)
      else (case map_of book a of
          None \<Rightarrow> given_prices rest (AList.update a q book)
        | Some p \<Rightarrow>
            if p_observed p = p_observed q
            then (if \<not> dec_eq (p_usd p) (p_usd q) then Inl ''conflicting_price_evidence''
                  else given_prices rest book)
            else given_prices rest (if p_observed p < p_observed q then AList.update a q book else book)))"

definition quote_for_gas :: "gas_cost \<Rightarrow> (asset \<times> quote_price) list \<Rightarrow> quote_price option" where
  "quote_for_gas g prices = (case gc_token g of None \<Rightarrow> None | Some t \<Rightarrow> map_of prices t)"

text \<open>The priced gas of the route: a reason, or an exception of \<open>FeeQuote\<close>.\<close>

fun route_gas :: "gas_cost list \<Rightarrow> (asset \<times> quote_price) list \<Rightarrow> (string + fee_quote list) result" where
  "route_gas [] prices = Inr (Inr [])"
| "route_gas (g # gs) prices = (case quote_for_gas g prices of
      None \<Rightarrow> if gc_amount g = 0 then route_gas gs prices else Inr (Inl ''missing_gas_price'')
    | Some q \<Rightarrow>
        bind_result (new_fee_quote (gc_amount g) (Some q)) (\<lambda>f.
        bind_result (route_gas gs prices) (\<lambda>r. case r of
            Inl why \<Rightarrow> Inr (Inl why) | Inr fs \<Rightarrow> Inr (Inr (f # fs)))))"

section \<open>Candidates from routes\<close>

text \<open>The exception of \<open>validate_bridge_route\<close> as a reason, by its class and its words.\<close>

definition route_failure :: "exn \<Rightarrow> string" where
  "route_failure e = (case e of
      LifiError _ \<Rightarrow> ''tampered_route_evidence''
    | _ \<Rightarrow> let m = lower (message_of e) in
        if contains ''recipient'' m then ''recipient_mismatch''
        else if contains ''identity'' m \<or> contains ''destination'' m \<or> contains ''source'' m
        then ''route_identity_mismatch''
        else if contains ''amount'' m then ''amount_flow_mismatch'' else ''tampered_route_evidence'')"

fun broken_flow :: "step_evidence list \<Rightarrow> bool" where
  "broken_flow (a # b # steps) =
     (se_destination a \<noteq> se_source b \<or> se_to a = None \<or> se_to a \<noteq> se_from b \<or> broken_flow (b # steps))"
| "broken_flow _ = False"

definition steps_disagree :: "lifi_route \<Rightarrow> route_evidence \<Rightarrow> step_evidence list \<Rightarrow> bool" where
  "steps_disagree r e steps \<longleftrightarrow>
     (let first = hd steps; final = last steps in
      se_source first = None \<or> se_destination final = None
      \<or> se_from first \<noteq> Some (re_input e)
      \<or> Some (re_source e) \<noteq> se_source first
      \<or> Some (re_destination e) \<noteq> se_destination final
      \<or> (se_to final \<noteq> None \<and> se_to final \<noteq> Some (re_output e))
      \<or> broken_flow steps
      \<or> lr_from r \<noteq> re_input e \<or> lr_to r \<noteq> re_output e \<or> lr_to_min r \<noteq> re_min_output e
      \<or> lr_id r \<noteq> re_route_id e)"

text \<open>From the price book on: the endpoint prices, the gas, the values.\<close>

definition value_route ::
  "lifi_route \<Rightarrow> route_evidence \<Rightarrow> endpoints \<Rightarrow> (asset \<times> quote_price) list \<Rightarrow> fee_quote list \<Rightarrow> bool \<Rightarrow> bool
     \<Rightarrow> datetime \<Rightarrow> rat \<Rightarrow> candidate result" where
  "value_route r e b prices wallet_gas replace_gas estimated now max_age =
     (case map_of prices (re_source e) of None \<Rightarrow> rejected b ''missing_source_price''
      | Some sp \<Rightarrow> (case map_of prices (re_destination e) of None \<Rightarrow> rejected b ''missing_destination_price''
      | Some dp \<Rightarrow>
          bind_result (if replace_gas then Inr (Inr []) else route_gas (lr_gas r) prices) (\<lambda>priced.
          case priced of
            Inl why \<Rightarrow> rejected b why
          | Inr route_quotes \<Rightarrow>
              let gas = route_quotes @ wallet_gas in
              if \<not> estimated \<or> gas = [] then rejected b ''missing_gas_estimate''
              else candidate_from_values (e_route_ids b) (the (e_source b)) (the (e_destination b))
                (re_input e) (re_min_output e) (Some sp) (Some dp) gas estimated now max_age)))"

definition candidate_from_route ::
  "(string \<Rightarrow> rat option) \<Rightarrow> (lifi_route \<Rightarrow> unit result) \<Rightarrow> lifi_route \<Rightarrow> bool
     \<Rightarrow> datetime \<Rightarrow> rat \<Rightarrow> (asset \<times> quote_price) list \<Rightarrow> fee_quote list \<Rightarrow> bool \<Rightarrow> candidate result" where
  "candidate_from_route parse_time validate r estimated now max_age prices wallet_gas replace_gas =
     (case lr_evidence r of
        None \<Rightarrow> rejected \<lparr>e_route_ids = [lr_id r], e_source = None, e_destination = None,
          e_source_amount = None, e_destination_amount = None\<rparr> ''missing_route_evidence''
      | Some e \<Rightarrow>
          let outer = \<lparr>e_route_ids = [lr_id r], e_source = Some (re_source e),
                e_destination = Some (re_destination e), e_source_amount = Some (re_input e),
                e_destination_amount = Some (re_min_output e)\<rparr>;
              steps = filter (\<lambda>s. \<not> se_substep s) (re_steps e);
              b = outer\<lparr>e_source := se_source (hd steps), e_destination := se_destination (last steps)\<rparr> in
          case validate r of
            Inl x \<Rightarrow> if is_value_error x then rejected outer (route_failure x) else Inl x
          | Inr _ \<Rightarrow>
              if steps = [] then rejected outer ''missing_route_evidence''
              else if \<not> re_costs_complete e then rejected b ''incomplete_cost_evidence''
              else if steps_disagree r e steps then rejected b ''step_identity_mismatch''
              else if (case se_to (last steps) of None \<Rightarrow> False | Some t \<Rightarrow> t < re_min_output e)
              then rejected b ''invalid_candidate''
              else (case evidence_prices parse_time (re_prices e) \<lparr>pb_prices = [], pb_seen = []\<rparr> of
                  Inl why \<Rightarrow> rejected b why
                | Inr book \<Rightarrow> (case given_prices prices (pb_prices book) of
                      Inl why \<Rightarrow> rejected b why
                    | Inr all \<Rightarrow> value_route r e b all wallet_gas replace_gas estimated now max_age)))"

definition combine_candidates :: "candidate \<Rightarrow> candidate \<Rightarrow> candidate result" where
  "combine_candidates f s =
     (let b = \<lparr>e_route_ids = c_route_ids f @ c_route_ids s, e_source = c_source f,
            e_destination = c_destination s, e_source_amount = c_source_amount f,
            e_destination_amount = c_destination_amount s\<rparr> in
      if \<not> is_valid f
      then rejected b (case c_reason f of Some r \<Rightarrow> if r = [] then ''invalid_candidate'' else r | None \<Rightarrow> ''invalid_candidate'')
      else if \<not> is_valid s
      then rejected b (case c_reason s of Some r \<Rightarrow> if r = [] then ''invalid_candidate'' else r | None \<Rightarrow> ''invalid_candidate'')
      else if c_destination f \<noteq> c_source s then rejected b ''step_identity_mismatch''
      else if c_destination_amount f \<noteq> c_source_amount s then rejected b ''amount_flow_mismatch''
      else (case (c_source_usd f, c_destination_usd s, c_gas_usd f, c_gas_usd s) of
          (Some source_usd, Some destination_usd, Some g1, Some g2) \<Rightarrow>
            let gas = exact_decimal_sum [g1, g2] in
            valued b source_usd destination_usd gas (slippage_and_gas source_usd destination_usd gas)
              (c_gas f @ c_gas s)
        | _ \<Rightarrow> Inl AssertionError))"

section \<open>Selection\<close>

text \<open>
  The order of candidates, as Python compares the tuples: the percentage, the loss, the
  identity of the destination, the route ids. Decimals compare by value.
\<close>

type_synonym order_key = "rat \<times> rat \<times> (int \<times> string \<times> int) \<times> string list"

definition value_or_zero :: "fdec option \<Rightarrow> rat" where
  "value_or_zero d = (case d of None \<Rightarrow> 0 | Some x \<Rightarrow> dec_value x)"

definition candidate_order_key :: "candidate \<Rightarrow> order_key" where
  "candidate_order_key c = (value_or_zero (c_loss_pct c), value_or_zero (c_loss_usd c),
     (case c_destination c of None \<Rightarrow> (0, [], 0)
      | Some a \<Rightarrow> (a_chain a, a_contract a, a_decimals a)), c_route_ids c)"

text \<open>\<open>min(xs, key=f)\<close>: the first element with the least key.\<close>

fun first_min :: "('a \<Rightarrow> 'k :: linorder) \<Rightarrow> 'a \<Rightarrow> 'a list \<Rightarrow> 'a" where
  "first_min f x [] = x"
| "first_min f x (y # ys) = first_min f (if f y < f x then y else x) ys"

definition select_candidate :: "candidate list \<Rightarrow> candidate option" where
  "select_candidate cs = (case filter is_valid cs of
      [] \<Rightarrow> None | x # xs \<Rightarrow> Some (first_min candidate_order_key x xs))"

definition select_candidate_pair :: "candidate list \<Rightarrow> candidate option" where
  "select_candidate_pair cs = (case filter (\<lambda>c. is_valid c \<and> length (c_route_ids c) = 2) cs of
      [] \<Rightarrow> None
    | x # xs \<Rightarrow> Some (first_min (\<lambda>c. (value_or_zero (c_loss_pct c), value_or_zero (c_loss_usd c),
        c_route_ids c ! 0, c_route_ids c ! 1)) x xs))"

section \<open>Admission of a group\<close>

record group_admission =
  ga_status :: string
  ga_reason :: "string option"
  ga_source_usd :: "fdec option"
  ga_loss_usd :: "fdec option"
  ga_loss_pct :: "fdec option"
  ga_candidates :: "candidate list"

definition new_admission :: "group_admission \<Rightarrow> group_admission result" where
  "new_admission g =
     (if ga_status g \<notin> {''accepted'', ''manual_review''} then Inl (ValueError ''group status is invalid'')
      else if (case ga_reason g of None \<Rightarrow> False | Some r \<Rightarrow> r \<notin> set reason_codes)
      then Inl (ValueError ''group reason is not a stable reason code'') else Inr g)"

definition finite_decimal :: "pyval \<Rightarrow> string \<Rightarrow> fdec result" where
  "finite_decimal v field =
     (if (case v of PFloat _ \<Rightarrow> True | _ \<Rightarrow> False)
      then Inl (ValueError (field @ '' must be supplied as an exact decimal''))
      else (case py_decimal v of
          Inr (Number d) \<Rightarrow> Inr d
        | _ \<Rightarrow> Inl (ValueError (field @ '' must be a finite decimal''))))"

definition group_rejected :: "string \<Rightarrow> candidate list \<Rightarrow> fdec option \<Rightarrow> group_admission result" where
  "group_rejected reason cs source_usd = new_admission \<lparr>ga_status = ''manual_review'', ga_reason = Some reason,
     ga_source_usd = source_usd, ga_loss_usd = None, ga_loss_pct = None, ga_candidates = cs\<rparr>"

definition candidate_losses :: "candidate list \<Rightarrow> fdec list" where
  "candidate_losses cs = List.map_filter c_loss_usd cs"

definition admit_valued :: "candidate list \<Rightarrow> fdec \<Rightarrow> fdec \<Rightarrow> group_admission result" where
  "admit_valued cs source_value loss_limit =
     (let loss = exact_decimal_sum (candidate_losses cs) in
      bind_result (exact_percentage loss source_value) (\<lambda>pct.
      let over = dec_less loss_limit pct in
      new_admission \<lparr>ga_status = (if over then ''manual_review'' else ''accepted''),
        ga_reason = (if over then Some ''loss_threshold_exceeded'' else None),
        ga_source_usd = Some source_value, ga_loss_usd = Some loss, ga_loss_pct = Some pct,
        ga_candidates = cs\<rparr>))"

definition admit_group :: "candidate list \<Rightarrow> pyval \<Rightarrow> pyval \<Rightarrow> group_admission result" where
  "admit_group cs source_usd max_loss_pct =
     (case finite_decimal source_usd ''group source USD'' of
        Inl _ \<Rightarrow> group_rejected ''invalid_source_value'' cs None
      | Inr s \<Rightarrow>
          if dec_less s (dec_of_int 0) then group_rejected ''invalid_source_value'' cs (Some s)
          else (case finite_decimal max_loss_pct ''maximum loss percent'' of
              Inl _ \<Rightarrow> group_rejected ''invalid_loss_limit'' cs (Some s)
            | Inr l \<Rightarrow>
                if dec_le l (dec_of_int 0) \<or> dec_less (dec_of_int 100) l
                then group_rejected ''invalid_loss_limit'' cs (Some s)
                else if dec_eq s (dec_of_int 0) then group_rejected ''zero_source_value'' cs (Some s)
                else if cs = [] then group_rejected ''no_eligible_candidate'' cs (Some s)
                else (case filter (\<lambda>c. \<not> is_valid c) cs of
                    c # _ \<Rightarrow> group_rejected
                      (case c_reason c of Some r \<Rightarrow> if r = [] then ''invalid_candidate'' else r
                       | None \<Rightarrow> ''invalid_candidate'') cs (Some s)
                  | [] \<Rightarrow> admit_valued cs s l)))"

section \<open>Facts\<close>

lemma first_min_least:
  "first_min f x xs \<in> set (x # xs) \<and> (\<forall>y \<in> set (x # xs). f (first_min f x xs) \<le> f y)"
proof (induction xs arbitrary: x)
  case (Cons y ys)
  let ?z = "if f y < f x then y else x"
  have "f ?z \<le> f x" "f ?z \<le> f y" by auto
  with Cons.IH [of ?z] show ?case by (auto split: if_splits intro: order_trans)
qed simp

text \<open>
  The selected candidate is a valid one of the list whose loss is minimal, first as a
  percentage, then in USD; nothing is selected only when no candidate is valid.
\<close>

theorem selected_is_minimal:
  "case select_candidate cs of
     None \<Rightarrow> filter is_valid cs = []
   | Some c \<Rightarrow> c \<in> set cs \<and> is_valid c
       \<and> list_all (\<lambda>d. candidate_order_key c \<le> candidate_order_key d) (filter is_valid cs)"
proof (cases "filter is_valid cs")
  case (Cons x xs)
  note least = first_min_least [of candidate_order_key x xs]
  have "first_min candidate_order_key x xs \<in> set (filter is_valid cs)"
    unfolding Cons using least by (rule conjunct1)
  then have "first_min candidate_order_key x xs \<in> set cs" "is_valid (first_min candidate_order_key x xs)"
    by simp_all
  with least Cons show ?thesis by (simp add: select_candidate_def list_all_iff)
qed (simp add: select_candidate_def)

text \<open>What the constructors keep of every candidate.\<close>

definition candidate_ok :: "candidate \<Rightarrow> bool" where
  "candidate_ok c \<longleftrightarrow>
     (case c_reason c of
        Some r \<Rightarrow> r \<in> set reason_codes
      | None \<Rightarrow> (case (c_source_usd c, c_destination_usd c, c_gas_usd c, c_loss_usd c, c_loss_pct c) of
          (Some s, Some d, Some g, Some l, Some p) \<Rightarrow>
            0 < dec_value s \<and> dec_value l = max 0 (dec_value s - dec_value d) + dec_value g
            \<and> \<bar>dec_value p - 100 * dec_value l / dec_value s\<bar> \<le> \<bar>100 * dec_value l / dec_value s\<bar> / 10 ^ 49
            \<and> c_gas_complete c
        | _ \<Rightarrow> False))"

lemma rejected_ok: "rejected b r = Inr c \<Longrightarrow> candidate_ok c"
  by (auto simp: rejected_def new_candidate_def candidate_ok_def split: if_splits)

lemma valued_ok:
  assumes "valued b s d g (slippage_and_gas s d g) gas = Inr c"
  shows "candidate_ok c"
  using assms exact_percentage_close [of "slippage_and_gas s d g" s]
  by (auto simp: valued_def new_candidate_def candidate_ok_def Let_def reason_codes_def slippage_value
      dec_compare_values not_le split: if_splits)

lemma valuation_loss:
  "quote_valuation m sp n dp None (Some gas) now age = Inr v
     \<Longrightarrow> rv_loss v = slippage_and_gas (rv_source v) (rv_destination v) (rv_gas v)"
  by (auto simp: quote_valuation_def Let_def)

lemma values_ok:
  "candidate_from_values ids s d m n sp dp gas e now age = Inr c \<Longrightarrow> candidate_ok c"
  by (auto simp: candidate_from_values_def Let_def valuation_loss
      intro: rejected_ok valued_ok split: option.splits if_splits sum.splits)

lemma value_route_ok:
  assumes "value_route r e b prices gas flag ok now age = Inr c"
  shows "candidate_ok c"
proof (cases "if flag then Inr (Inr []) else route_gas (lr_gas r) prices :: (string + fee_quote list) result")
  case (Inr priced)
  then show ?thesis
    using assms unfolding value_route_def
    by (cases priced) (auto simp: Let_def intro: rejected_ok values_ok split: option.split_asm if_split_asm)
qed (use assms in \<open>auto simp: value_route_def intro: rejected_ok split: option.split_asm\<close>)

lemma route_ok:
  "candidate_from_route pt vd r e now age prices gas flag = Inr c \<Longrightarrow> candidate_ok c"
  by (auto simp: candidate_from_route_def Let_def
      intro: rejected_ok value_route_ok split: option.splits if_splits sum.splits)

lemma combined_ok: "combine_candidates f s = Inr c \<Longrightarrow> candidate_ok c"
  by (auto simp: combine_candidates_def Let_def intro: rejected_ok valued_ok split: option.splits if_splits)

section \<open>Properties\<close>

text \<open>
  C18: every candidate that the valuation of values, of a route or of a pair of candidates
  gives is well-formed: a rejected one has a stable reason code, any other has a source of
  positive value, all values, a loss that is exactly the value lost plus the gas, and its
  percentage of the source to within one part in \<open>10 ^ 49\<close>.
\<close>

theorem candidates_well_formed:
  assumes "candidate_from_values ids sa da m n sp dp gas ok now age = Inr c
      \<or> candidate_from_route pt vd r ok now age prices gas flag = Inr c
      \<or> combine_candidates f s = Inr c"
  shows "candidate_ok c"
  using assms by (elim disjE) (rule values_ok route_ok combined_ok, assumption)+

definition sample_asset :: asset where
  "sample_asset = \<lparr>a_chain = 1, a_contract = ''native'', a_decimals = 2\<rparr>"

lemma exact_percentage_defined: "dec_value b \<noteq> 0 \<Longrightarrow> \<exists>q. exact_percentage a b = Inr q"
proof -
  assume "dec_value b \<noteq> 0"
  then have "coeff b \<noteq> 0" using dec_nonzero_value [of b] by (simp add: dec_nonzero_def)
  then show ?thesis by (auto simp: exact_percentage_def Let_def dec_div_def split: prod.split)
qed

text \<open>4 units at 3 USD become 3 units, with one unit of gas.\<close>

lemma candidates_well_formed_witness:
  "\<exists>c. candidate_from_values [''r''] sample_asset sample_asset 400 300 (Some sample_price) (Some sample_price)
       [\<lparr>fq_amount = 100, fq_price = Some sample_price\<rparr>] True (Some 6) 10 = Inr c
     \<and> candidate_ok c \<and> c_reason c = None"
proof -
  obtain v where v: "quote_valuation 400 sample_price 300 sample_price None
      (Some [\<lparr>fq_amount = 100, fq_price = Some sample_price\<rparr>]) (Some 6) 10 = Inr v"
    by (simp add: quote_valuation_def validate_now_def require_fresh_def usd_value_def raw_to_decimal_def
        validate_raw_amount_def sample_price_def Let_def)
  then have "usd_value 400 sample_price = Inr (rv_source v)"
    by (auto simp: quote_valuation_def Let_def split: if_splits)
  then have worth: "dec_value (rv_source v) = 12"
    by (simp add: usd_value_exact sample_price_def dec_value_Fin scoeff_def power_int_def power2_eq_square)
  then obtain q where q: "exact_percentage (rv_loss v) (rv_source v) = Inr q"
    using exact_percentage_defined [of "rv_source v"] by auto
  have "p_asset sample_price = sample_asset" by (simp add: sample_price_def sample_asset_def)
  then obtain c where c: "candidate_from_values [''r''] sample_asset sample_asset 400 300 (Some sample_price) (Some sample_price)
       [\<lparr>fq_amount = 100, fq_price = Some sample_price\<rparr>] True (Some 6) 10 = Inr c" "c_reason c = None"
    using v q worth by (simp add: candidate_from_values_def Let_def valued_def new_candidate_def dec_compare_values)
  from c candidates_well_formed [OF disjI1, OF c(1)] show ?thesis by blast
qed

lemma candidate_losses_valid:
  "list_all is_valid cs \<Longrightarrow> map dec_value (candidate_losses cs) = map (\<lambda>c. value_or_zero (c_loss_usd c)) cs"
  by (induction cs) (auto simp: candidate_losses_def map_filter_simps value_or_zero_def is_valid_def)

text \<open>
  C17: a group is accepted only when it has candidates, all of them are valid, its source is
  worth something, and the exact sum of the losses is within the configured percentage of
  it, itself at most a hundred; the percentage compared is a hundred times the quotient of the
  losses and the source, to within one part in \<open>10 ^ 49\<close>.
\<close>

theorem accepted_group_within_limit:
  assumes "admit_group cs source_usd max_loss_pct = Inr g" "ga_status g = ''accepted''"
  shows "cs \<noteq> [] \<and> list_all is_valid cs \<and> ga_candidates g = cs \<and> ga_reason g = None
    \<and> (\<exists>s l loss pct. ga_source_usd g = Some s \<and> 0 < dec_value s
        \<and> finite_decimal source_usd ''group source USD'' = Inr s
        \<and> finite_decimal max_loss_pct ''maximum loss percent'' = Inr l \<and> 0 < dec_value l \<and> dec_value l \<le> 100
        \<and> ga_loss_usd g = Some loss
        \<and> dec_value loss = sum_list (map (\<lambda>c. value_or_zero (c_loss_usd c)) cs)
        \<and> ga_loss_pct g = Some pct
        \<and> \<bar>dec_value pct - 100 * dec_value loss / dec_value s\<bar> \<le> \<bar>100 * dec_value loss / dec_value s\<bar> / 10 ^ 49
        \<and> dec_value pct \<le> dec_value l)"
proof -
  obtain s where s: "finite_decimal source_usd ''group source USD'' = Inr s" "0 \<le> dec_value s"
    using assms by (auto simp: admit_group_def group_rejected_def new_admission_def dec_compare_values
        not_less split: sum.splits if_splits)
  obtain l where l: "finite_decimal max_loss_pct ''maximum loss percent'' = Inr l"
      "0 < dec_value l" "dec_value l \<le> 100"
    using assms s by (auto simp: admit_group_def group_rejected_def new_admission_def dec_compare_values
        not_less not_le split: sum.splits if_splits)
  have cs: "dec_value s \<noteq> 0" "cs \<noteq> []" "filter (\<lambda>c. \<not> is_valid c) cs = []" "admit_valued cs s l = Inr g"
    using assms s l by (auto simp: admit_group_def group_rejected_def new_admission_def dec_compare_values
        not_less not_le split: sum.splits if_splits list.splits)
  have valid: "list_all is_valid cs"
    using cs(3) by (auto simp: list_all_iff filter_empty_conv)
  from cs(4) assms(2) obtain pct where
    "exact_percentage (exact_decimal_sum (candidate_losses cs)) s = Inr pct" "\<not> dec_less l pct"
    "g = \<lparr>ga_status = ''accepted'', ga_reason = None, ga_source_usd = Some s,
       ga_loss_usd = Some (exact_decimal_sum (candidate_losses cs)), ga_loss_pct = Some pct, ga_candidates = cs\<rparr>"
    by (auto simp: admit_valued_def new_admission_def Let_def split: if_splits)
  note exact_percentage_close [OF this(1)] this
  with s l cs valid candidate_losses_valid [OF valid] show ?thesis
    by (simp add: dec_compare_values exact_sum_value not_less)
qed

definition sample_candidate :: candidate where
  "sample_candidate = \<lparr>c_route_ids = [''r''], c_source = Some sample_asset, c_destination = Some sample_asset,
     c_source_amount = Some 400, c_destination_amount = Some 300, c_source_usd = Some (Fin False 12 0),
     c_destination_usd = Some (Fin False 9 0), c_gas_usd = Some (Fin False 0 0), c_loss_usd = Some (Fin False 0 0),
     c_loss_pct = Some (Fin False 25 0), c_reason = None, c_gas_complete = True,
     c_gas = [\<lparr>fq_amount = 1, fq_price = Some sample_price\<rparr>], c_expires = None\<rparr>"

text \<open>A group of 400 USD that loses 6 USD, 1.5 percent.\<close>

definition losing_candidate :: candidate where
  "losing_candidate = sample_candidate
     \<lparr>c_source_usd := Some (dec_of_int 400), c_destination_usd := Some (dec_of_int 394),
      c_loss_usd := Some (dec_of_int 6), c_loss_pct := Some (Fin False 15 (- 1))\<rparr>"

lemma sample_percentage: "exact_percentage (dec_of_int 6) (dec_of_int 400) = Inr (Fin False 1500 (- 3))"
proof -
  have digits: "ndigits 6 = 1" "ndigits 400 = 3" "ndigits 15 = 2" "ndigits 1500 = 4"
    by (simp_all add: ndigits_rec)
  have zeros: "drop_zeros_to 0 1500000000000000000000000000000000000000000000000000000 (- 56) = (15, - 3)"
    by (simp add: drop_zeros_to.simps)
  have div: "dec_div 53 (Fin False 6 0) (Fin False 400 0) = Inr (Fin False 15 (- 3))"
    by (simp add: dec_div_def Let_def digits zeros)
  show ?thesis
    by (simp add: exact_percentage_def dec_of_int_def default_prec_def digits div dec_mul_def exact_mul_def)
qed

lemma accepted_group_within_limit_witness:
  "\<exists>g. admit_group [losing_candidate] (PInt 400) (PInt 15) = Inr g \<and> ga_status g = ''accepted''
     \<and> ga_loss_pct g = Some (Fin False 1500 (- 3)) \<and> ga_reason g = None"
proof -
  have valid: "is_valid losing_candidate"
    by (simp add: is_valid_def losing_candidate_def sample_candidate_def)
  have sum: "exact_decimal_sum [dec_of_int 6] = dec_of_int 6"
    by (simp add: exact_decimal_sum_def dec_nonzero_def dec_of_int_def sum_precision_def dec_add_def exact_add_def
        aligned_def scoeff_def dec_fix_def adjusted_def ndigits_rec default_prec_def)
  have "dec_value (Fin False 1500 (- 3)) = 3 / 2"
    by (simp add: dec_value_Fin scoeff_def power_int_def power3_eq_cube)
  then obtain g where g: "admit_group [losing_candidate] (PInt 400) (PInt 15) = Inr g" "ga_status g = ''accepted''"
      "ga_loss_pct g = Some (Fin False 1500 (- 3))"
    using valid sum sample_percentage
    by (simp add: admit_group_def finite_decimal_def py_decimal_def dec_compare_values admit_valued_def Let_def
        candidate_losses_def map_filter_simps losing_candidate_def new_admission_def)
  from g accepted_group_within_limit [OF g(1,2)] show ?thesis by blast
qed

end
