(* ===== verification/Bitget_Catalog.thy ===== *)
theory Bitget_Catalog
  imports Py_Values
begin

text \<open>
  The exchange's deposit catalogue (\<open>bitget_catalog.py\<close>): which deposits a route may end in,
  read from the decoded response of the public endpoint, and their re-admission before a
  transfer. Amounts and flags in the response are texts or booleans; the text of a float is
  not modelled. The HTTP request is not.
\<close>

section \<open>Tables\<close>

definition evm_chains :: "(string \<times> int) list" where
  "evm_chains = [(''ETH'', 1), (''ETHEREUM'', 1), (''ERC20'', 1), (''OPTIMISM'', 10), (''ARBITRUMONE'', 42161),
     (''ARBITRUM'', 42161), (''BASE'', 8453), (''CELO'', 42220), (''BEP20'', 56), (''POLYGON'', 137),
     (''ZKSYNCERA'', 324), (''METISTOKEN'', 1088), (''COREDAO'', 1116), (''AVAXC-CHAIN'', 43114),
     (''BLAST'', 81457), (''SCROLL'', 534352), (''MORPH'', 2818)]"

definition coin_decimals :: "(string \<times> int) list" where
  "coin_decimals = [(''ETH'', 18), (''USDC'', 6), (''USDT'', 6), (''OP'', 18), (''ARB'', 18), (''CELO'', 18),
     (''BNB'', 18), (''POL'', 18), (''METIS'', 18), (''CORE'', 18), (''AVAX'', 18)]"

definition native_coins :: "(int \<times> string) list" where
  "native_coins = [(1, ''ETH''), (10, ''ETH''), (56, ''BNB''), (137, ''POL''), (324, ''ETH''), (1088, ''METIS''),
     (1116, ''CORE''), (2818, ''ETH''), (8453, ''ETH''), (42161, ''ETH''), (42220, ''CELO''),
     (43114, ''AVAX''), (81457, ''ETH''), (534352, ''ETH'')]"

definition deposit_decimals :: "string \<Rightarrow> string \<Rightarrow> int option" where
  "deposit_decimals coin chain =
     (if upper coin \<in> {''USDC'', ''USDT''} \<and> map_of evm_chains (upper chain) = Some 56 then Some 18
      else map_of coin_decimals (upper coin))"

section \<open>Targets\<close>

record deposit_target =
  dt_coin :: string
  dt_chain_id :: int
  dt_asset :: string
  dt_minimum :: int
  dt_chain :: string
  dt_decimals :: int

definition new_target ::
  "string \<Rightarrow> int \<Rightarrow> string \<Rightarrow> int \<Rightarrow> string \<Rightarrow> int option \<Rightarrow> deposit_target result" where
  "new_target coin chain_id asset minimum chain decimals =
     (let d = (case decimals of Some d \<Rightarrow> d
        | None \<Rightarrow> if asset = ''native'' then 18
            else (case map_of coin_decimals (upper coin) of Some d \<Rightarrow> d | None \<Rightarrow> 6)) in
      if d < 0 \<or> 255 < d
      then Inl (ValueError ''Bitget target decimals must be an integer from 0 through 255'')
      else Inr \<lparr>dt_coin = coin, dt_chain_id = chain_id, dt_asset = asset, dt_minimum = minimum,
        dt_chain = chain, dt_decimals = d\<rparr>)"

text \<open>
  \<open>int(text, 16)\<close>: white space around, a sign, an optional prefix \<open>0x\<close>, and hexadecimal
  digits with single underscores between them and after the prefix.
\<close>

definition int16_accepts :: "string \<Rightarrow> bool" where
  "int16_accepts text =
     (let t = snd (take_sign (strip text)) in
      underscored is_hex t
      \<or> (starts_with ''0x'' (lower t)
          \<and> (underscored is_hex (drop 2 t) \<or> (starts_with ''_'' (drop 2 t) \<and> underscored is_hex (drop 3 t)))))"

definition valid_address :: "string \<Rightarrow> bool" where
  "valid_address v \<longleftrightarrow> length v = 42 \<and> starts_with ''0x'' v \<and> int16_accepts (drop 2 v)"

section \<open>The catalogue\<close>

text \<open>The minimum in raw units: nothing when it is not a whole positive number.\<close>

definition minimum_of :: "pydict \<Rightarrow> int \<Rightarrow> int option" where
  "minimum_of chain decimals = (case map_of chain ''minDepositAmount'' of
      None \<Rightarrow> None
    | Some v \<Rightarrow> (case parse_decimal (py_str v) of
        Some (Number d) \<Rightarrow>
          let m = dec_mul default_prec d (dec_of_int (10 ^ nat decimals)) in
          if dec_value m \<noteq> of_int \<lfloor>dec_value m\<rfloor> then None
          else if 0 < \<lfloor>dec_value m\<rfloor> then Some \<lfloor>dec_value m\<rfloor> else None
      | _ \<Rightarrow> None))"

text \<open>\<open>str(contract or "").lower()\<close>, or \<open>native\<close> for the coin of the chain.\<close>

definition asset_of :: "pyval \<Rightarrow> string \<Rightarrow> int \<Rightarrow> string" where
  "asset_of contract coin chain_id =
     (if \<not> py_truthy contract
      then (if map_of native_coins chain_id = Some coin then ''native'' else [])
      else lower (py_str contract))"

definition chain_target :: "string \<Rightarrow> pyval \<Rightarrow> deposit_target option result" where
  "chain_target coin v = (case v of
      PDict chain \<Rightarrow>
        if lower (py_str (get chain ''rechargeable'')) \<noteq> ''true'' then Inr None
        else if lower (py_str (get_default chain ''needTag'' (PStr ''false''))) \<noteq> ''false'' then Inr None
        else (case map_of evm_chains (upper (py_str (get_default chain ''chain'' (PStr [])))) of
            None \<Rightarrow> Inr None
          | Some chain_id \<Rightarrow>
              let asset = asset_of (get chain ''contractAddress'') coin chain_id in
              if asset \<noteq> ''native'' \<and> \<not> valid_address asset then Inr None
              else bind_result (item v ''chain'') (\<lambda>name.
                case deposit_decimals coin (py_str name) of
                  None \<Rightarrow> Inl TypeError
                | Some d \<Rightarrow> (case minimum_of chain d of
                      None \<Rightarrow> Inr None
                    | Some m \<Rightarrow> bind_result (new_target coin chain_id asset m (py_str name) (Some d))
                        (\<lambda>t. Inr (Some t)))))
    | _ \<Rightarrow> Inr None)"

fun chain_targets :: "string \<Rightarrow> pyval list \<Rightarrow> deposit_target list result" where
  "chain_targets coin [] = Inr []"
| "chain_targets coin (v # vs) =
     bind_result (chain_target coin v) (\<lambda>t.
     bind_result (chain_targets coin vs) (\<lambda>ts. Inr (case t of None \<Rightarrow> ts | Some x \<Rightarrow> x # ts)))"

fun deposit_targets :: "pydict list \<Rightarrow> deposit_target list result" where
  "deposit_targets [] = Inr []"
| "deposit_targets (data # coins) =
     (let coin = upper (py_str (get_default data ''coin'' (PStr []))) in
      bind_result (case get data ''chains'' of
          PList cs \<Rightarrow> if map_of coin_decimals coin = None then Inr [] else chain_targets coin cs
        | _ \<Rightarrow> Inr []) (\<lambda>ts.
      bind_result (deposit_targets coins) (\<lambda>more. Inr (ts @ more))))"

text \<open>The items of the public response that the catalogue is made from.\<close>

definition public_coins :: "pydict \<Rightarrow> pydict list result" where
  "public_coins body = (case get body ''data'' of
      PList items \<Rightarrow> if get body ''code'' \<noteq> PStr ''00000''
        then Inl (ValueError ''Bitget public coin catalog is unavailable'')
        else Inr (List.map_filter (\<lambda>v. case v of PDict d \<Rightarrow> Some d | _ \<Rightarrow> None) items)
    | _ \<Rightarrow> Inl (ValueError ''Bitget public coin catalog is unavailable''))"

definition same_target :: "deposit_target \<Rightarrow> deposit_target \<Rightarrow> bool" where
  "same_target a b \<longleftrightarrow> dt_coin a = dt_coin b \<and> dt_chain_id a = dt_chain_id b \<and> dt_asset a = dt_asset b
     \<and> dt_chain a = dt_chain b \<and> dt_decimals a = dt_decimals b"

definition validate_live_target ::
  "deposit_target \<Rightarrow> deposit_target list \<Rightarrow> string \<Rightarrow> deposit_target result" where
  "validate_live_target planned live user =
     (if \<not> valid_address user then Inl (ValueError ''invalid Bitget deposit address'')
      else (case List.find (\<lambda>t. same_target t planned) live of
          Some t \<Rightarrow> Inr t | None \<Rightarrow> Inl (ValueError ''Bitget deposit target is no longer enabled'')))"

section \<open>Properties\<close>

lemma minimum_pos: "minimum_of chain d = Some m \<Longrightarrow> 0 < m"
  by (auto simp: minimum_of_def Let_def split: option.split_asm decimal.split_asm if_split_asm)

lemma new_target_Inr:
  "new_target coin chain_id asset m name (Some d) = Inr t \<longleftrightarrow>
     0 \<le> d \<and> d \<le> 255 \<and> t = \<lparr>dt_coin = coin, dt_chain_id = chain_id, dt_asset = asset, dt_minimum = m,
       dt_chain = name, dt_decimals = d\<rparr>"
  by (auto simp: new_target_def Let_def)

lemma chain_targetE:
  assumes "chain_target coin v = Inr (Some t)"
  obtains name chain_id asset d m where "map_of evm_chains name = Some chain_id"
    "asset = ''native'' \<or> valid_address asset" "0 < m" "0 \<le> d" "d \<le> 255"
    "deposit_decimals coin (dt_chain t) = Some d"
    "t = \<lparr>dt_coin = coin, dt_chain_id = chain_id, dt_asset = asset, dt_minimum = m,
       dt_chain = dt_chain t, dt_decimals = d\<rparr>"
proof -
  obtain chain where v: "v = PDict chain" using assms by (cases v) (simp_all add: chain_target_def)
  let ?name = "upper (py_str (get_default chain ''chain'' (PStr [])))"
  obtain cid where cid: "map_of evm_chains ?name = Some cid"
    using assms v by (cases "map_of evm_chains ?name") (simp_all add: chain_target_def split: if_split_asm)
  let ?asset = "asset_of (get chain ''contractAddress'') coin cid"
  have ok: "?asset = ''native'' \<or> valid_address ?asset"
    using assms v cid by (auto simp: chain_target_def Let_def split: if_split_asm)
  obtain nm where nm: "item v ''chain'' = Inr nm"
    using assms v cid by (cases "item v ''chain''") (auto simp: chain_target_def Let_def split: if_split_asm)
  obtain d where d: "deposit_decimals coin (py_str nm) = Some d"
    using assms v cid nm
    by (cases "deposit_decimals coin (py_str nm)") (auto simp: chain_target_def Let_def split: if_split_asm)
  obtain m where m: "minimum_of chain d = Some m"
    using assms v cid nm d
    by (cases "minimum_of chain d") (auto simp: chain_target_def Let_def split: if_split_asm)
  have "new_target coin cid ?asset m (py_str nm) (Some d) = Inr t"
    using assms v cid nm d m by (auto simp: chain_target_def Let_def split: if_split_asm)
  with that [OF cid ok minimum_pos [OF m]] d show thesis by (auto simp: new_target_Inr)
qed

lemma chain_target_ok:
  assumes "chain_target coin v = Inr (Some t)"
  shows "dt_coin t = coin \<and> dt_chain_id t \<in> snd ` set evm_chains \<and> 0 < dt_minimum t
    \<and> deposit_decimals coin (dt_chain t) = Some (dt_decimals t)
    \<and> (if dt_asset t = ''native'' then True else valid_address (dt_asset t))"
proof -
  from assms obtain name chain_id asset d m where c: "map_of evm_chains name = Some chain_id"
    and rest: "asset = ''native'' \<or> valid_address asset" "0 < m" "deposit_decimals coin (dt_chain t) = Some d"
    and t: "t = \<lparr>dt_coin = coin, dt_chain_id = chain_id, dt_asset = asset, dt_minimum = m,
       dt_chain = dt_chain t, dt_decimals = d\<rparr>" by (rule chain_targetE)
  have "chain_id \<in> snd ` set evm_chains" using map_of_SomeD [OF c] by force
  moreover have "dt_coin t = coin" "dt_chain_id t = chain_id" "dt_asset t = asset" "dt_minimum t = m"
    "dt_decimals t = d" by (subst t, simp)+
  ultimately show ?thesis using rest by auto
qed

lemma chain_targets_ok:
  "chain_targets coin vs = Inr ts \<Longrightarrow> t \<in> set ts \<Longrightarrow> \<exists>v. chain_target coin v = Inr (Some t)"
  by (induction vs arbitrary: ts) (auto split: option.splits)

lemma deposit_target_from_chain:
  "deposit_targets coins = Inr ts \<Longrightarrow> t \<in> set ts \<Longrightarrow>
     \<exists>coin v. map_of coin_decimals coin \<noteq> None \<and> chain_target coin v = Inr (Some t)"
  by (induction coins arbitrary: ts)
    (fastforce simp: Let_def dest: chain_targets_ok split: pyval.split_asm if_split_asm)+

text \<open>
  C21: a deposit target that is re-admitted before a transfer is one of the live targets with
  the planned coin, chain, asset and units, and every target of the live catalogue has a
  known coin and chain, a positive minimum, the units of its coin on its chain, and an asset
  that is the native coin or passes the address check.
\<close>

theorem live_target_sound:
  assumes "deposit_targets coins = Inr live" "validate_live_target planned live user = Inr t"
  shows "t \<in> set live \<and> dt_coin t = dt_coin planned \<and> dt_chain_id t = dt_chain_id planned
    \<and> dt_asset t = dt_asset planned \<and> dt_chain t = dt_chain planned \<and> dt_decimals t = dt_decimals planned
    \<and> map_of coin_decimals (dt_coin t) \<noteq> None
    \<and> dt_chain_id t \<in> snd ` set evm_chains \<and> 0 < dt_minimum t
    \<and> deposit_decimals (dt_coin t) (dt_chain t) = Some (dt_decimals t)
    \<and> (if dt_asset t = ''native'' then True else valid_address (dt_asset t))"
proof -
  have t: "t \<in> set live" "same_target t planned"
    using assms(2) by (auto simp: validate_live_target_def find_Some_iff split: if_splits option.splits)
  obtain coin v where "map_of coin_decimals coin \<noteq> None" "chain_target coin v = Inr (Some t)"
    using deposit_target_from_chain [OF assms(1) t(1)] by blast
  with chain_target_ok [OF this(2)] t show ?thesis by (auto simp: same_target_def)
qed

definition sample_chain :: pydict where
  "sample_chain = [(''rechargeable'', PStr ''true''), (''chain'', PStr ''BASE''), (''contractAddress'', PNone),
     (''minDepositAmount'', PStr ''1'')]"

definition sample_coins :: "pydict list" where
  "sample_coins = [[(''coin'', PStr ''eth''), (''chains'', PList [PDict sample_chain])]]"

definition sample_target :: deposit_target where
  "sample_target = \<lparr>dt_coin = ''ETH'', dt_chain_id = 8453, dt_asset = ''native'',
     dt_minimum = 1000000000000000000, dt_chain = ''BASE'', dt_decimals = 18\<rparr>"

lemma sample_targets: "deposit_targets sample_coins = Inr [sample_target]"
proof -
  have number: "parse_decimal ''1'' = Some (Number (dec_of_int 1))" by code_simp
  have "ndigits 1 \<le> 1" "ndigits (10 ^ 18) \<le> 20" by (simp_all add: ndigits_le_iff)
  then have "ndigits (coeff (dec_of_int 1)) + ndigits (coeff (dec_of_int (10 ^ nat 18))) \<le> default_prec"
    by (simp add: dec_of_int_def default_prec_def)
  from dec_mul_exact [OF this] number
  have m: "minimum_of sample_chain 18 = Some (10 ^ 18)"
    by (simp add: minimum_of_def sample_chain_def Let_def)
  have up: "upper ''eth'' = ''ETH''" "upper ''BASE'' = ''BASE''" "lower ''true'' = ''true''" "lower ''false'' = ''false''"
    "upper ''ETH'' = ''ETH''" by code_simp+
  have "chain_target ''ETH'' (PDict sample_chain) = Inr (Some sample_target)"
    using m up
    by (simp add: chain_target_def get_default_def get_def item_def deposit_decimals_def asset_of_def
        new_target_def sample_target_def evm_chains_def coin_decimals_def native_coins_def)
      (simp add: sample_chain_def)
  with up show ?thesis
    by (simp add: sample_coins_def get_default_def get_def coin_decimals_def)
qed

lemma live_target_sound_witness:
  "validate_live_target sample_target [sample_target] (''0x'' @ replicate 40 (CHR ''a'')) = Inr sample_target
   \<and> 0 < dt_minimum sample_target"
proof -
  have "valid_address (''0x'' @ replicate 40 (CHR ''a''))" by code_simp
  then have "validate_live_target sample_target [sample_target] (''0x'' @ replicate 40 (CHR ''a'')) = Inr sample_target"
    by (simp add: validate_live_target_def same_target_def)
  with live_target_sound [OF sample_targets this] show ?thesis by simp
qed

text \<open>
  The address check accepts texts that are no addresses: \<open>int(text, 16)\<close> allows a second
  prefix, signs, underscores and spaces.
\<close>

theorem malformed_addresses_accepted:
  "valid_address (''0x0x'' @ replicate 38 (CHR ''a'')) \<and> valid_address (''0x-'' @ replicate 39 (CHR ''a''))
   \<and> valid_address (''0x '' @ replicate 39 (CHR ''a'')) \<and> valid_address (''0xa_'' @ replicate 38 (CHR ''a''))
   \<and> \<not> is_address (''0x0x'' @ replicate 38 (CHR ''a'')) \<and> \<not> is_address (''0x-'' @ replicate 39 (CHR ''a''))
   \<and> \<not> is_address (''0x '' @ replicate 39 (CHR ''a'')) \<and> \<not> is_address (''0xa_'' @ replicate 38 (CHR ''a''))"
  by code_simp

end
