(* ===== verification/Route_Policy.thy ===== *)
theory Route_Policy
  imports Bitget_Catalog Effects
begin

text \<open>
  The pure policies of route planning: direct deposits and dust (\<open>planner.py\<close>,
  \<open>route_plan.py\<close>, \<open>route_batch.py\<close>), denied assets and excluded networks (\<open>asset_policy.py\<close>,
  \<open>network_policy.py\<close>), delays and loss limits (\<open>execution_policy.py\<close>,
  \<open>routing_settings.py\<close>), destination targets (\<open>route_targets.py\<close>), CELO's two faces
  (\<open>celo.py\<close>). JSON files are given as decoded values, SHA-256 is a parameter.
\<close>

section \<open>Direct deposits and dust\<close>

record native_plan =
  np_status :: string
  np_send :: int

definition direct_native_deposit_plan :: "int \<Rightarrow> int \<Rightarrow> native_plan result" where
  "direct_native_deposit_plan balance minimum =
     (if balance < 0 \<or> minimum < 0
      then Inl (ValueError ''balance and minimum deposit must be nonnegative'')
      else if balance < minimum then Inr \<lparr>np_status = ''below_minimum'', np_send = 0\<rparr>
      else Inr \<lparr>np_status = ''ready'', np_send = balance\<rparr>)"

record plan_position =
  pp_chain :: int
  pp_asset :: string
  pp_raw :: int

record plan_target =
  pt_chain :: int
  pt_asset :: string
  pt_minimum :: int

record decision =
  de_status :: string
  de_quote :: bool

definition classify_position :: "plan_position \<Rightarrow> plan_target list \<Rightarrow> int \<Rightarrow> decision result" where
  "classify_position p targets quote_floor =
     (if pp_raw p < 0 \<or> quote_floor < 0
      then Inl (ValueError ''balances and quote floors must be nonnegative'')
      else case List.find (\<lambda>t. pt_chain t = pp_chain p \<and> lower (pt_asset t) = lower (pp_asset p)) targets of
        Some t \<Rightarrow> if pt_minimum t \<le> pp_raw p then Inr \<lparr>de_status = ''direct_deposit'', de_quote = False\<rparr>
          else if pp_raw p < quote_floor then Inr \<lparr>de_status = ''dust'', de_quote = False\<rparr>
          else Inr \<lparr>de_status = ''quote_required'', de_quote = True\<rparr>
      | None \<Rightarrow> if pp_raw p < quote_floor then Inr \<lparr>de_status = ''dust'', de_quote = False\<rparr>
          else Inr \<lparr>de_status = ''quote_required'', de_quote = True\<rparr>)"

record 'q batch_quote =
  bq_position :: plan_position
  bq_status :: string
  bq_quote :: "'q option"

fun quote_required_positions ::
  "plan_position list \<Rightarrow> plan_target list \<Rightarrow> int \<Rightarrow> (plan_position \<Rightarrow> ('s, 'q) action)
     \<Rightarrow> ('s, 'q batch_quote list) action" where
  "quote_required_positions [] targets quote_floor quote = give []"
| "quote_required_positions (p # ps) targets quote_floor quote =
     bind_act (lift (classify_position p targets quote_floor)) (\<lambda>d.
     bind_act (if de_quote d
       then bind_act (quote p) (\<lambda>q. give \<lparr>bq_position = p, bq_status = ''quoted'', bq_quote = Some q\<rparr>)
       else give \<lparr>bq_position = p, bq_status = de_status d, bq_quote = None\<rparr>) (\<lambda>b.
     bind_act (quote_required_positions ps targets quote_floor quote) (\<lambda>bs. give (b # bs))))"

section \<open>Denied assets and excluded networks\<close>

text \<open>The policy is the set of its exact identities; \<open>{**base, ...}\<close> overwrites the keys.\<close>

definition denied_entry :: "pydict \<Rightarrow> (int \<times> string) list \<Rightarrow> string \<Rightarrow> pydict result" where
  "denied_entry base policy path =
     bind_result (item (PDict base) ''chain_id'') (\<lambda>c.
     bind_result (py_int c) (\<lambda>chain.
     bind_result (item (PDict base) ''asset_id'') (\<lambda>a.
     let asset = lower (py_str a); explicit = ((chain, asset) \<in> set policy) in
     Inr (AList.update ''reason_detail'' (PDict
         [(''message'', PStr (if explicit then ''Asset is explicitly denied by policy''
             else ''Exact network and asset are absent from the execution allowlist'')),
          (''policy_file'', PStr path), (''chain_id'', PInt chain), (''asset_id'', PStr asset),
          (''matched_rule'', PBool explicit), (''action'', PStr ''deny'')])
       (AList.update ''reason'' (PStr (if explicit then ''asset_explicitly_denied'' else ''asset_not_allowlisted''))
       (AList.update ''status'' (PStr ''denied'') base))))))"

definition excluded_networks :: "int list" where
  "excluded_networks = [183, 185, 624, 690, 6805, 8008, 65536, 380929, 2702128]"

definition chain_fields :: "string list" where
  "chain_fields = [''chain_id'', ''chainId'', ''source_chain_id'', ''destination_chain_id'', ''from_chain_id'',
     ''to_chain_id'', ''fromChainId'', ''toChainId'']"

text \<open>\<open>str(item).isdigit() and int(item) in EXCLUDED_NETWORKS\<close>.\<close>

definition excluded_chain :: "pyval \<Rightarrow> bool" where
  "excluded_chain v =
     (let t = (case v of PDecimal d \<Rightarrow> decimal_str d | _ \<Rightarrow> py_str v) in
      all_digits t \<and> int (digits_val t) \<in> set excluded_networks)"

fun uses_excluded_network :: "pyval \<Rightarrow> bool"
  and excluded_in_items :: "pydict \<Rightarrow> bool"
  and excluded_in_list :: "pyval list \<Rightarrow> bool" where
  "uses_excluded_network (PDict d) = excluded_in_items d"
| "uses_excluded_network (PList xs) = excluded_in_list xs"
| "uses_excluded_network (PTuple xs) = excluded_in_list xs"
| "uses_excluded_network v = False"
| "excluded_in_items [] = False"
| "excluded_in_items ((k, v) # others) =
     ((k \<in> set chain_fields \<and> excluded_chain v) \<or> uses_excluded_network v \<or> excluded_in_items others)"
| "excluded_in_list [] = False"
| "excluded_in_list (v # vs) = (uses_excluded_network v \<or> excluded_in_list vs)"

section \<open>Delays and loss limits\<close>

text \<open>\<open>randint\<close> is a function of the two bounds.\<close>

definition next_delay_seconds :: "int \<Rightarrow> int \<Rightarrow> (int \<Rightarrow> int \<Rightarrow> int) \<Rightarrow> int result" where
  "next_delay_seconds least most randint =
     (if least < 0 \<or> most < least then Inl (ValueError ''invalid sequential delay bounds'')
      else Inr (randint least most))"

definition loss_limit_error :: exn where
  "loss_limit_error = ConfigError ''MAX_ROUTE_LOSS_PCT must be a finite decimal in (0, 100]''"

definition load_routing_settings :: "string option \<Rightarrow> fdec result" where
  "load_routing_settings raw = (case raw of
      None \<Rightarrow> Inr (dec_of_int 15)
    | Some t \<Rightarrow> (case parse_decimal (strip t) of
        Some (Number d) \<Rightarrow> if dec_less (dec_of_int 0) d \<and> dec_le d (dec_of_int 100) then Inr d
          else Inl loss_limit_error
      | _ \<Rightarrow> Inl loss_limit_error))"

section \<open>Destination targets\<close>

record target_spec =
  ts_coin :: string
  ts_chain :: pyval
  ts_asset :: string
  ts_decimals :: pyval

definition spec_data :: "target_spec \<Rightarrow> pydict" where
  "spec_data s = [(''coin'', PStr (ts_coin s)), (''chain_id'', ts_chain s), (''asset_id'', PStr (ts_asset s))]
     @ (if ts_decimals s = PNone then [] else [(''decimals'', ts_decimals s)])"

definition invalid_spec :: "target_spec \<Rightarrow> bool" where
  "invalid_spec s \<longleftrightarrow>
     (case ts_chain s of PInt c \<Rightarrow> c \<le> 0 \<or> c \<in> set excluded_networks | _ \<Rightarrow> True)
     \<or> ts_coin s = [] \<or> ts_coin s \<noteq> upper (ts_coin s)
     \<or> (ts_asset s \<noteq> ''native'' \<and> \<not> is_address (ts_asset s))
     \<or> ts_asset s \<noteq> lower (ts_asset s)
     \<or> (case ts_decimals s of PNone \<Rightarrow> False | PInt d \<Rightarrow> d < 0 \<or> 255 < d | _ \<Rightarrow> True)"

fun check_specs :: "target_spec list \<Rightarrow> (pyval \<times> string) list \<Rightarrow> unit result" where
  "check_specs [] seen = Inr ()"
| "check_specs (s # ss) seen =
     (if invalid_spec s then Inl (ConfigError ''invalid route target identity'')
      else if (ts_chain s, ts_asset s) \<in> set seen then Inl (ConfigError ''duplicate route target identity'')
      else check_specs ss ((ts_chain s, ts_asset s) # seen))"

definition new_target_policy :: "target_spec list \<Rightarrow> target_spec list result" where
  "new_target_policy specs =
     (if specs = [] \<or> 3 < length specs
      then Inl (ConfigError ''route targets must contain one to three exact destinations'')
      else bind_result (check_specs specs []) (\<lambda>_. Inr specs))"

definition policy_digest :: "(pyval \<Rightarrow> string) \<Rightarrow> target_spec list \<Rightarrow> string" where
  "policy_digest sha specs = sha (PList (map (\<lambda>s. PDict (spec_data s)) specs))"

definition policy_from_targets :: "deposit_target list \<Rightarrow> target_spec list result" where
  "policy_from_targets ts = new_target_policy (map (\<lambda>t. \<lparr>ts_coin = upper (dt_coin t),
     ts_chain = PInt (dt_chain_id t), ts_asset = lower (dt_asset t), ts_decimals = PInt (dt_decimals t)\<rparr>) ts)"

fun read_specs :: "pyval list \<Rightarrow> target_spec list result" where
  "read_specs [] = Inr []"
| "read_specs (v # vs) = (case v of
      PDict d \<Rightarrow> (case (get d ''coin'', get d ''asset_id'') of
          (PStr coin, PStr asset) \<Rightarrow> bind_result (read_specs vs) (\<lambda>ss.
            Inr (\<lparr>ts_coin = upper coin, ts_chain = get d ''chain_id'', ts_asset = lower asset,
              ts_decimals = get d ''decimals''\<rparr> # ss))
        | _ \<Rightarrow> Inl (ConfigError ''invalid route target identity''))
    | _ \<Rightarrow> Inl (ConfigError ''invalid route target identity''))"

text \<open>The decoded file, or nothing when it cannot be read.\<close>

definition load_target_policy :: "pyval option \<Rightarrow> target_spec list result" where
  "load_target_policy data = (case data of
      None \<Rightarrow> Inl (ConfigError ''cannot read route targets policy'')
    | Some (PDict d) \<Rightarrow> (case get d ''targets'' of
        PList raw \<Rightarrow> if get d ''version'' \<noteq> PInt 1 then Inl (ConfigError ''invalid route targets policy schema'')
          else bind_result (read_specs raw) new_target_policy
      | _ \<Rightarrow> Inl (ConfigError ''invalid route targets policy schema''))
    | Some _ \<Rightarrow> Inl (ConfigError ''invalid route targets policy schema''))"

definition target_matches :: "target_spec \<Rightarrow> deposit_target list \<Rightarrow> deposit_target list" where
  "target_matches s live =
     filter (\<lambda>t. ts_chain s = PInt (dt_chain_id t) \<and> lower (dt_asset t) = ts_asset s) live"

definition exact_matches :: "target_spec \<Rightarrow> deposit_target list \<Rightarrow> deposit_target list" where
  "exact_matches s live = filter (\<lambda>t. upper (dt_coin t) = ts_coin s) (target_matches s live)"

definition compatible :: "target_spec \<Rightarrow> deposit_target \<Rightarrow> bool" where
  "compatible s t \<longleftrightarrow> ts_decimals s = PNone \<or> ts_decimals s = PInt (dt_decimals t)"

text \<open>One specification: a live target, or the reason that it is unavailable.\<close>

definition resolve_target :: "target_spec \<Rightarrow> deposit_target list \<Rightarrow> (string + deposit_target) result" where
  "resolve_target s live =
     (if 1 < length (exact_matches s live) then Inl (ConfigError ''ambiguous live deposit target identity'')
      else case filter (compatible s) (exact_matches s live) of
        [t] \<Rightarrow> Inr (Inr t)
      | _ # _ \<Rightarrow> Inl (ConfigError ''ambiguous live deposit target identity'')
      | [] \<Rightarrow> Inr (Inl
          (if exact_matches s live \<noteq> [] then ''target_decimals_mismatch''
           else if target_matches s live \<noteq> [] then ''target_coin_mismatch'' else ''target_unavailable'')))"

fun resolve_targets :: "target_spec list \<Rightarrow> deposit_target list \<Rightarrow> (deposit_target list \<times> pydict list) result" where
  "resolve_targets [] live = Inr ([], [])"
| "resolve_targets (s # ss) live =
     bind_result (resolve_target s live) (\<lambda>r.
     bind_result (resolve_targets ss live) (\<lambda>(ts, us).
     Inr (case r of Inr t \<Rightarrow> (t # ts, us)
          | Inl why \<Rightarrow> (ts, (spec_data s @ [(''reason'', PStr why)]) # us))))"

section \<open>CELO\<close>

definition celo_token_address :: string where
  "celo_token_address = ''0x471ece3750da237f93b8e339c536989b8978a438''"

definition zero_address :: string where
  "zero_address = ''0x'' @ replicate 40 (CHR ''0'')"

definition lifi_token_address :: "int \<Rightarrow> string \<Rightarrow> string" where
  "lifi_token_address chain raw =
     (let address = lower raw in
      if chain = 42220 \<and> address \<in> {''native'', zero_address} then celo_token_address
      else if address = ''native'' then zero_address else address)"

text \<open>A balance row of the scan; the keys the code adds are fields of their own.\<close>

record celo_row =
  cr_chain :: int
  cr_decimals :: int
  cr_asset :: string
  cr_status :: string
  cr_wallet :: string
  cr_raw :: int
  cr_aliases :: "string list"
  cr_conflict :: bool
  cr_conflicting :: "int list"

definition celo_view :: "celo_row \<Rightarrow> bool" where
  "celo_view r \<longleftrightarrow> cr_chain r = 42220 \<and> cr_decimals r = 18
     \<and> lower (cr_asset r) \<in> {''native'', celo_token_address} \<and> cr_status r = ''success''"

definition canonical_row :: "celo_row \<Rightarrow> celo_row" where
  "canonical_row r = r\<lparr>cr_asset := celo_token_address, cr_aliases := [lower (cr_asset r)]\<rparr>"

text \<open>Another view of the same wallet: an alias, and a conflict when the amounts differ.\<close>

definition merge_view :: "celo_row \<Rightarrow> celo_row \<Rightarrow> celo_row" where
  "merge_view r c =
     (let a = c\<lparr>cr_aliases := cr_aliases c @ [lower (cr_asset r)]\<rparr> in
      if cr_raw r = cr_raw c then a
      else a\<lparr>cr_conflict := True,
        cr_conflicting := (if cr_conflicting c = [] then [cr_raw c] else cr_conflicting c) @ [cr_raw r]\<rparr>)"

text \<open>
  The loop: the result so far, and the place of every wallet's canonical row in it. The code
  keeps a reference to that row, so an update shows in the result.
\<close>

fun normalize_rows :: "celo_row list \<Rightarrow> celo_row list \<Rightarrow> (string \<times> nat) list \<Rightarrow> celo_row list" where
  "normalize_rows [] done_rows seen = done_rows"
| "normalize_rows (r # rows) done_rows seen =
     (if \<not> celo_view r then normalize_rows rows (done_rows @ [r]) seen
      else case map_of seen (lower (cr_wallet r)) of
        None \<Rightarrow> normalize_rows rows (done_rows @ [canonical_row r])
                 ((lower (cr_wallet r), length done_rows) # seen)
      | Some i \<Rightarrow> normalize_rows rows (done_rows[i := merge_view r (done_rows ! i)]) seen)"

definition normalize_celo_balances :: "celo_row list \<Rightarrow> celo_row list" where
  "normalize_celo_balances rows = normalize_rows rows [] []"

section \<open>Properties\<close>

text \<open>A field of some dict anywhere inside a value, with what it holds.\<close>

inductive mentions :: "pyval \<Rightarrow> string \<Rightarrow> pyval \<Rightarrow> bool" where
  field: "(k, x) \<in> set d \<Longrightarrow> mentions (PDict d) k x"
| in_dict: "(j, y) \<in> set d \<Longrightarrow> mentions y k x \<Longrightarrow> mentions (PDict d) k x"
| in_list: "y \<in> set ys \<Longrightarrow> mentions y k x \<Longrightarrow> mentions (PList ys) k x"
| in_tuple: "y \<in> set ys \<Longrightarrow> mentions y k x \<Longrightarrow> mentions (PTuple ys) k x"

inductive_simps mentions_simps:
  "mentions (PDict d) k x" "mentions (PList ys) k x" "mentions (PTuple ys) k x"

definition excluded_field :: "pyval \<Rightarrow> bool" where
  "excluded_field v \<longleftrightarrow> (\<exists>k x. mentions v k x \<and> k \<in> set chain_fields \<and> excluded_chain x)"

inductive_cases mentionsE: "mentions v k x"

lemma excluded_field_simps:
  "excluded_field (PDict d) \<longleftrightarrow>
     (\<exists>k x. (k, x) \<in> set d \<and> (k \<in> set chain_fields \<and> excluded_chain x \<or> excluded_field x))"
  "excluded_field (PList xs) \<longleftrightarrow> (\<exists>x \<in> set xs. excluded_field x)"
  "excluded_field (PTuple xs) \<longleftrightarrow> (\<exists>x \<in> set xs. excluded_field x)"
  unfolding excluded_field_def mentions_simps by blast+

lemma uses_excluded_iff:
  "uses_excluded_network v \<longleftrightarrow> excluded_field v"
  "excluded_in_items d \<longleftrightarrow>
     (\<exists>k x. (k, x) \<in> set d \<and> (k \<in> set chain_fields \<and> excluded_chain x \<or> excluded_field x))"
  "excluded_in_list xs \<longleftrightarrow> (\<exists>x \<in> set xs. excluded_field x)"
  by (induction v and d and xs rule: uses_excluded_network_excluded_in_items_excluded_in_list.induct)
    (auto simp: excluded_field_simps, auto simp: excluded_field_def elim: mentions.cases)

text \<open>
  C20: the test of a saved plan finds exactly the values in which some chain field of some
  dict, at any depth, names an excluded network.
\<close>

theorem excluded_network_found:
  "uses_excluded_network v = excluded_field v"
  by (rule uses_excluded_iff)

text \<open>Every specification ends in one of the two results, an enabled one as an exact live match.\<close>

lemma resolve_targetD:
  assumes "resolve_target s live = Inr (Inr t)"
  shows "t \<in> set live \<and> ts_chain s = PInt (dt_chain_id t) \<and> lower (dt_asset t) = ts_asset s
    \<and> upper (dt_coin t) = ts_coin s \<and> compatible s t \<and> exact_matches s live = [t]"
proof -
  have len: "length (exact_matches s live) \<le> 1" and f: "filter (compatible s) (exact_matches s live) = [t]"
    using assms by (auto simp: resolve_target_def split: if_splits list.splits)
  have t: "t \<in> set (exact_matches s live)" "compatible s t"
    using arg_cong [OF f, of set] by auto
  moreover from t(1) len have "exact_matches s live = [t]"
    by (cases "exact_matches s live") (auto simp: le_Suc_eq)
  ultimately show ?thesis by (auto simp: exact_matches_def target_matches_def)
qed

lemma resolve_targets_partition:
  "resolve_targets specs live = Inr (ts, us) \<Longrightarrow>
     length ts + length us = length specs
     \<and> list_all (\<lambda>t. list_ex (\<lambda>s. compatible s t \<and> exact_matches s live = [t]) specs) ts"
proof (induction specs arbitrary: ts us)
  case (Cons s specs)
  obtain r ts' us' where r: "resolve_target s live = Inr r" "resolve_targets specs live = Inr (ts', us')"
    using Cons.prems by auto
  with Cons.IH [OF r(2)] Cons.prems resolve_targetD [of s live] show ?case
    by (cases r) (auto simp: list_all_iff list_ex_iff)
qed simp

text \<open>Quotes are requested only for positions that need one, in their order.\<close>

lemma quotes_only_required:
  assumes "quote_required_positions ps targets fl (\<lambda>p asked. (Inr (), asked @ [p])) asked = (Inr bs, asked')"
  shows "asked' = asked @ map bq_position (filter (\<lambda>b. bq_status b = ''quoted'') bs)
    \<and> list_all (\<lambda>b. (bq_status b = ''quoted'') = (bq_quote b \<noteq> None)) bs \<and> map bq_position bs = ps"
  using assms
proof (induction ps arbitrary: asked bs asked')
  case (Cons p ps)
  obtain d where d: "classify_position p targets fl = Inr d"
    using Cons.prems by auto
  have q: "de_quote d = (de_status d \<notin> {''dust'', ''direct_deposit''})" "de_status d \<noteq> ''quoted''"
    using d by (auto simp: classify_position_def split: if_splits option.splits)
  show ?case
  proof (cases "de_quote d")
    case True
    then obtain cs where "quote_required_positions ps targets fl (\<lambda>p asked. (Inr (), asked @ [p])) (asked @ [p])
        = (Inr cs, asked')" "bs = \<lparr>bq_position = p, bq_status = ''quoted'', bq_quote = Some ()\<rparr> # cs"
      using Cons.prems d by (auto simp: bind_act_def split: prod.splits sum.splits)
    with Cons.IH [OF this(1)] show ?thesis by simp
  next
    case False
    then obtain cs where "quote_required_positions ps targets fl (\<lambda>p asked. (Inr (), asked @ [p])) asked = (Inr cs, asked')"
      "bs = \<lparr>bq_position = p, bq_status = de_status d, bq_quote = None\<rparr> # cs"
      using Cons.prems d by auto
    with Cons.IH [OF this(1)] q show ?thesis by simp
  qed
qed simp

end
