(* ===== verification/Route_Errors.thy ===== *)
theory Route_Errors
  imports Fee_Planner Journal
begin

text \<open>
  How the execution of a route reads an exception: the rest of \<open>route_preparation.py\<close>,
  \<open>is_transient_error\<close> of \<open>transport.py\<close> and the helpers \<open>_execution_reason\<close> and
  \<open>_retryable_provider_error\<close> of \<open>route_execution.py\<close>.

  An exception is a value of \<open>exn\<close>. What that value does not hold is a parameter: the text of
  the classes that keep none, the exceptions along \<open>__cause__\<close>, the diagnostic that
  \<open>exception_diagnostic\<close> of \<open>diagnostics.py\<close> makes of it, and the value of an infinite time.
\<close>

record exn_view =
  ev_text :: "exn \<Rightarrow> string"
  ev_causes :: "exn \<Rightarrow> exn list"
  ev_diagnostic :: "exn \<Rightarrow> pyval"
  ev_infinity :: pyval

text \<open>\<open>str(error)\<close> and \<open>getattr(error, "retry_at", None)\<close>.\<close>

fun error_text :: "exn_view \<Rightarrow> exn \<Rightarrow> string" where
  "error_text ev (ValueError m) = m"
| "error_text ev (ConfigError m) = m"
| "error_text ev (LifiError m) = m"
| "error_text ev (RpcError m) = m"
| "error_text ev (TimeoutError m) = m"
| "error_text ev (StageDeadlineExceeded m) = m"
| "error_text ev (AmbiguousBroadcast h) = ''transaction broadcast outcome is ambiguous''"
| "error_text ev (EthereumGasDeferred m) = m"
| "error_text ev (LifiRequestLimit bucket reason t) = ''lifi_request_budget_exceeded:'' @ bucket"
| "error_text ev (JobInProgress reason t) = reason"
| "error_text ev (GroupLossLimitExceeded m) = m"
| "error_text ev (DepositNotSeen m) = m"
| "error_text ev (DepositSettlementFailed m) = m"
| "error_text ev (UnsignedRoutePreparationExhausted t) = ''unsigned_route_preparation_exhausted''"
| "error_text ev (InvalidUnsignedRouteCandidate m) = m"
| "error_text ev e = ev_text ev e"

definition time_value :: "exn_view \<Rightarrow> instant option \<Rightarrow> pyval" where
  "time_value ev t = (case t of None \<Rightarrow> PNone | Some (At q) \<Rightarrow> PFloat q | Some Forever \<Rightarrow> ev_infinity ev)"

fun error_retry_at :: "exn_view \<Rightarrow> exn \<Rightarrow> pyval" where
  "error_retry_at ev (LifiRequestLimit bucket reason t) = time_value ev t"
| "error_retry_at ev (JobInProgress reason t) = time_value ev t"
| "error_retry_at ev (DispatchWait t) = PFloat t"
| "error_retry_at ev (UnsignedRoutePreparationExhausted t) = PFloat t"
| "error_retry_at ev e = PNone"

section \<open>Errors a fresh quote may cure\<close>

definition is_route_preparation_rejected :: "exn \<Rightarrow> bool" where
  "is_route_preparation_rejected e =
     (case e of HttpStatusError status http_method url \<Rightarrow>
        status = 422 \<and> http_method = ''POST'' \<and> url = step_transaction_url
      | _ \<Rightarrow> False)"

definition is_fee_cap_changed :: "exn_view \<Rightarrow> exn \<Rightarrow> bool" where
  "is_fee_cap_changed ev e \<longleftrightarrow> is_value_error e
     \<and> starts_with ''estimated DeFi transaction exceeds gas cap:'' (error_text ev e)"

text \<open>One exception of the chain that \<open>is_transient_error\<close> walks.\<close>

definition transient_class :: "exn \<Rightarrow> bool" where
  "transient_class e =
     (case e of TransportError _ \<Rightarrow> True
      | TimeoutError _ \<Rightarrow> True
      | StageDeadlineExceeded _ \<Rightarrow> True
      | RpcError code \<Rightarrow> code \<in> {''network_error'', ''provider_unavailable'', ''rate_limited''}
      | HttpStatusError status _ _ \<Rightarrow> status \<in> {429, 500, 502, 503, 504}
      | _ \<Rightarrow> False)"

definition is_transient_error :: "exn_view \<Rightarrow> exn \<Rightarrow> bool" where
  "is_transient_error ev e = list_ex transient_class (e # ev_causes ev e)"

definition retryable_provider_error :: "exn_view \<Rightarrow> exn \<Rightarrow> bool" where
  "retryable_provider_error ev e =
     (if is_route_preparation_rejected e \<or> is_fee_cap_changed ev e
         \<or> (case e of UnsignedRoutePreparationExhausted _ \<Rightarrow> True | _ \<Rightarrow> False) then True
      else if (case e of LifiRequestLimit _ _ _ \<Rightarrow> True | JobInProgress _ _ \<Rightarrow> True | _ \<Rightarrow> False) then True
      else if is_value_error e
         \<and> error_text ev e \<in> {''requote_required:stale_price'', ''native_gas_reserve_unstable''} then True
      else is_transient_error ev e)"

definition execution_reason :: "exn_view \<Rightarrow> exn \<Rightarrow> string" where
  "execution_reason ev e =
     (if is_route_preparation_rejected e then ''route_preparation_rejected''
      else if is_fee_cap_changed ev e then ''requote_required:fee_cap_changed''
      else let message = strip (error_text ev e) in
        if message \<noteq> [] \<and> length message \<le> 200 then message
        else ''execution_error:'' @ type_name e)"

section \<open>A provider's window\<close>

text \<open>
  \<open>require_provider_retry_due\<close>: a position with no step but approvals waits for the time its
  last error named. A finite number is an \<open>int\<close> or a \<open>float\<close>; a bool is no time.
\<close>

definition retry_time :: "pyval \<Rightarrow> rat option" where
  "retry_time v = (case v of PInt i \<Rightarrow> Some (of_int i) | PFloat q \<Rightarrow> Some q | _ \<Rightarrow> None)"

definition require_provider_retry_due :: "journal \<Rightarrow> nat \<Rightarrow> rat \<Rightarrow> unit result" where
  "require_provider_retry_due j pid now =
     (if has_asset_intent j pid then Inr ()
      else bind_result (checkpoint_dict j pid ''automatic_retry'') (\<lambda>retry.
        case retry_time (get retry ''retry_at'') of
          Some t \<Rightarrow> require (\<not> now < t) (StageDeadlineExceeded ''provider_retry_scheduled'')
        | None \<Rightarrow> Inr ()))"

lemma execution_reason_nonempty: "execution_reason ev e \<noteq> []"
  by (simp add: execution_reason_def Let_def)

lemma retry_due_cases:
  "require_provider_retry_due j pid now = Inr ()
     \<or> (\<exists>t. retry_time (get (projr (checkpoint_dict j pid ''automatic_retry'')) ''retry_at'') = Some t \<and> now < t)
     \<or> (\<exists>e. checkpoint_dict j pid ''automatic_retry'' = Inl e)"
  by (cases "checkpoint_dict j pid ''automatic_retry''")
    (auto simp: require_provider_retry_due_def split: option.split)

end
