(* ===== verification/Group_Steps.thy ===== *)
theory Group_Steps
  imports Route_Errors Route_Policy Journal_Machine Valuation
begin

text \<open>
  The parts of \<open>execute_group_entries\<close> of \<open>route_execution.py\<close>: exact money, the key of a
  position, what the execution does with its journal, its counters and the injected functions,
  and the closures that halt a group, yield a stage and remember an error.
\<close>

section \<open>Exact money\<close>

definition exact_money :: "pyval \<Rightarrow> string \<Rightarrow> fdec result" where
  "exact_money v label =
     (case v of
        PBool _ \<Rightarrow> Inl (ValueError (label @ '' is missing or inexact''))
      | PFloat _ \<Rightarrow> Inl (ValueError (label @ '' is missing or inexact''))
      | PNone \<Rightarrow> Inl (ValueError (label @ '' is missing or inexact''))
      | _ \<Rightarrow> (case py_decimal v of
            Inr (Number d) \<Rightarrow>
              if dec_less d (dec_of_int 0) then Inl (ValueError (label @ '' is invalid'')) else Inr d
          | _ \<Rightarrow> Inl (ValueError (label @ '' is invalid''))))"

definition entry_loss :: "pyval \<Rightarrow> fdec result" where
  "entry_loss e =
     bind_result (get_item e ''valuation'' PNone) (\<lambda>valuation. case valuation of
        PDict d \<Rightarrow> exact_money (get d ''loss_usd'') ''route loss''
      | _ \<Rightarrow> Inl (ValueError ''fresh route valuation is missing''))"

definition money_precision :: "fdec list \<Rightarrow> int" where
  "money_precision terms =
     (let nonzero = filter dec_nonzero terms in
      Max (set (map adjusted nonzero)) - Min (set (map expo nonzero)) + int (ndigits (length terms)) + 2)"

definition exact_sum :: "fdec list \<Rightarrow> fdec" where
  "exact_sum terms =
     (if filter dec_nonzero terms = [] then dec_of_int 0
      else foldl (dec_add (max default_prec (nat (money_precision terms)))) (dec_of_int 0) terms)"

definition add_realized :: "fdec \<Rightarrow> pyval \<Rightarrow> fdec result" where
  "add_realized acc loss =
     bind_result (exact_money loss ''realised route loss'') (\<lambda>x. Inr (exact_sum [acc, x]))"

definition exact_product :: "fdec \<Rightarrow> fdec \<Rightarrow> fdec" where
  "exact_product a b = dec_mul (max default_prec (ndigits (coeff a) + ndigits (coeff b) + 2)) a b"

definition group_percentage :: "fdec \<Rightarrow> fdec \<Rightarrow> fdec result" where
  "group_percentage a b =
     (let p = max default_prec (ndigits (coeff a) + ndigits (coeff b) + 50) in
      bind_result (dec_div p a b) (\<lambda>q. Inr (dec_mul p q (dec_of_int 100))))"

definition decimal_string :: "fdec \<Rightarrow> string" where
  "decimal_string d = (if dec_nonzero d then format_f (normalize default_prec d) else ''0'')"

definition raw_amount :: "pyval \<Rightarrow> int result" where
  "raw_amount v =
     (case v of
        PInt i \<Rightarrow> if i \<le> 0 then Inl (ValueError ''actual balance amount must be positive'') else Inr i
      | PStr s \<Rightarrow>
          if \<not> all_digits s then Inl (ValueError ''actual balance amount is invalid'')
          else if digits_val s = 0 then Inl (ValueError ''actual balance amount must be positive'')
          else Inr (int (digits_val s))
      | _ \<Rightarrow> Inl (ValueError ''actual balance amount is invalid''))"

text \<open>\<open>Decimal(row["..."] or "0")\<close>.\<close>

definition decimal_or_zero :: "string option \<Rightarrow> fdec result" where
  "decimal_or_zero t =
     (case t of None \<Rightarrow> number_of ''0'' | Some s \<Rightarrow> if s = [] then number_of ''0'' else number_of s)"

lemma exact_sum_eq: "exact_sum terms = exact_decimal_sum terms"
  by (simp add: exact_sum_def exact_decimal_sum_def money_precision_def sum_precision_def)

lemma exact_sum_dec_value [dec_simps]: "dec_value (exact_sum terms) = sum_list (map dec_value terms)"
  by (simp add: exact_sum_eq exact_sum_value)

lemma exact_product_value [dec_simps]: "dec_value (exact_product a b) = dec_value a * dec_value b"
  unfolding exact_product_def by (rule dec_mul_exact) simp

lemma exact_money_nonneg: "exact_money v label = Inr d \<Longrightarrow> 0 \<le> dec_value d"
  by (auto simp: exact_money_def dec_compare_values split: pyval.splits sum.splits decimal.splits if_splits)

lemma raw_amount_pos: "raw_amount v = Inr n \<Longrightarrow> 0 < n"
  by (auto simp: raw_amount_def split: pyval.splits if_splits)

section \<open>The key of a position and the credit of a route\<close>

definition position_key :: "pydict \<Rightarrow> string result" where
  "position_key entry =
     bind_result (case get entry ''group'' of
         PDict g \<Rightarrow> if py_truthy (get g ''key'') then Inr (py_str (get g ''key''))
                   else bind_result (item (PDict entry) ''wallet'') (\<lambda>w.
                        bind_result (item (PDict entry) ''chain_id'') (\<lambda>c.
                        Inr (lower (py_str w) @ '':'' @ py_str c)))
       | _ \<Rightarrow> bind_result (item (PDict entry) ''wallet'') (\<lambda>w.
              bind_result (item (PDict entry) ''chain_id'') (\<lambda>c.
              Inr (lower (py_str w) @ '':'' @ py_str c)))) (\<lambda>group_key.
     bind_result (item (PDict entry) ''asset_id'') (\<lambda>asset.
     Inr (group_key @ '':'' @ lower (py_str asset))))"

fun any_result :: "('a \<Rightarrow> bool result) \<Rightarrow> 'a list \<Rightarrow> bool result" where
  "any_result f [] = Inr False"
| "any_result f (x # xs) = bind_result (f x) (\<lambda>b. if b then Inr True else any_result f xs)"

definition has_kind :: "string \<Rightarrow> pyval \<Rightarrow> bool result" where
  "has_kind kind s = bind_result (get_item s ''kind'' PNone) (\<lambda>k. Inr (k = PStr kind))"

definition route_credit_unverified :: "pydict \<Rightarrow> journal \<Rightarrow> nat \<Rightarrow> bool result" where
  "route_credit_unverified entry j pid =
     (if \<not> (py_truthy (get entry ''automatic_requote'') \<and> get entry ''status'' = PStr ''route_ready''
          \<and> get entry ''routing_provider'' \<noteq> PStr ''relay'' \<and> \<not> py_truthy (get entry ''local_unwrap'')
          \<and> is_dict (get entry ''target'')) then Inr False
      else bind_result (elements (get_default entry ''steps'' (PList []))) (\<lambda>ss.
           bind_result (any_result (has_kind ''bridge'') ss) (\<lambda>bridge.
           if \<not> bridge then Inr False
           else bind_result (checkpoint_dict j pid ''bitget_credit'') (\<lambda>credit.
                Inr (get credit ''status'' \<noteq> PStr ''success'')))))"

section \<open>The state of an execution\<close>

text \<open>
  The journal, the rest of the world, the counters that the caller gets, and a record of the
  calls that the execution makes, latest first, which the code does not keep: an amount it
  projects for a position, a call of \<open>submit_step\<close> for a step of a plan or for an observation,
  and a halt.
\<close>

datatype gx_event =
    Projected nat fdec
  | Submitted nat
  | Observed nat
  | Halted

record 'w gx =
  gx_journal :: journal
  gx_world :: 'w
  gx_counts :: "(string \<times> int) list"
  gx_log :: "gx_event list"

text \<open>
  The injected functions act on the journal and the world. A step is submitted with the
  closure \<open>_check_group_loss\<close> of its entry, where it has one. \<open>cb_deadline\<close> says whether the
  stage has a deadline, \<open>cb_expired\<close> reads the clock.
\<close>

record 'w callbacks =
  cb_preflight :: "pydict \<Rightarrow> (journal \<times> 'w, pyval) action"
  cb_submit :: "pydict \<Rightarrow> (fdec \<Rightarrow> (journal \<times> 'w, unit) action) option \<Rightarrow> pyval \<Rightarrow> (journal \<times> 'w, pyval) action"
  cb_requote :: "(pydict \<Rightarrow> int \<Rightarrow> (journal \<times> 'w, pyval) action) option"
  cb_before :: "(journal \<times> 'w, unit) action option"
  cb_deadline :: bool
  cb_expired :: "'w \<Rightarrow> bool \<times> 'w"
  cb_view :: exn_view

definition call :: "(journal \<times> 'w, 'a) action \<Rightarrow> ('w gx, 'a) action" where
  "call m s = (case m (gx_journal s, gx_world s) of
      (r, j, w) \<Rightarrow> (r, s\<lparr>gx_journal := j, gx_world := w\<rparr>))"

definition read_clock :: "('w \<Rightarrow> bool \<times> 'w) \<Rightarrow> ('w gx, bool) action" where
  "read_clock f s = (case f (gx_world s) of (b, w) \<Rightarrow> (Inr b, s\<lparr>gx_world := w\<rparr>))"

definition reads :: "(journal \<Rightarrow> 'a result) \<Rightarrow> ('w gx, 'a) action" where
  "reads f s = (f (gx_journal s), s)"

definition writes :: "(journal \<Rightarrow> ('a \<times> journal) result) \<Rightarrow> ('w gx, 'a) action" where
  "writes f s = (case f (gx_journal s) of
      Inl e \<Rightarrow> (Inl e, s) | Inr (x, j) \<Rightarrow> (Inr x, s\<lparr>gx_journal := j\<rparr>))"

definition updates :: "(journal \<Rightarrow> journal result) \<Rightarrow> ('w gx, unit) action" where
  "updates f = writes (\<lambda>j. bind_result (f j) (\<lambda>k. Inr ((), k)))"

definition record_event :: "gx_event \<Rightarrow> ('w gx, unit) action" where
  "record_event ev s = (Inr (), s\<lparr>gx_log := ev # gx_log s\<rparr>)"

text \<open>\<open>counts[key] = counts.get(key, 0) + 1\<close> and \<open>counts[key] = 1\<close>.\<close>

definition count :: "string \<Rightarrow> ('w gx, unit) action" where
  "count key s = (Inr (), s\<lparr>gx_counts := AList.update key
     (1 + (case map_of (gx_counts s) key of None \<Rightarrow> 0 | Some n \<Rightarrow> n)) (gx_counts s)\<rparr>)"

definition flag :: "string \<Rightarrow> ('w gx, unit) action" where
  "flag key s = (Inr (), s\<lparr>gx_counts := AList.update key 1 (gx_counts s)\<rparr>)"

definition set_counts :: "(string \<times> int) list \<Rightarrow> ('w gx, unit) action" where
  "set_counts cs s = (Inr (), s\<lparr>gx_counts := cs\<rparr>)"

fun each :: "('a \<Rightarrow> ('s, unit) action) \<Rightarrow> 'a list \<Rightarrow> ('s, unit) action" where
  "each f [] = give ()"
| "each f (x # xs) = bind_act (f x) (\<lambda>_. each f xs)"

definition whenever :: "bool \<Rightarrow> ('s, unit) action \<Rightarrow> ('s, unit) action" where
  "whenever b m = (if b then m else give ())"

definition or_dict :: "pyval option \<Rightarrow> pyval" where
  "or_dict c = (case c of None \<Rightarrow> PDict [] | Some v \<Rightarrow> if py_truthy v then v else PDict [])"

text \<open>\<open>{**entry, key: value}\<close>.\<close>

definition with_key :: "string \<Rightarrow> pyval \<Rightarrow> pydict \<Rightarrow> pydict" where
  "with_key k v d = AList.update k v d"

definition set_state :: "nat \<Rightarrow> string \<Rightarrow> string option \<Rightarrow> ('w gx, unit) action" where
  "set_state pid state reason = updates (record_position_state pid state None None reason)"

definition set_group :: "nat \<Rightarrow> string \<Rightarrow> string option \<Rightarrow> ('w gx, unit) action" where
  "set_group gid state reason = updates (record_group_state gid state reason)"

definition save :: "nat \<Rightarrow> string \<Rightarrow> pyval \<Rightarrow> ('w gx, unit) action" where
  "save pid key v = updates (save_checkpoint pid key v)"

definition observe_step :: pyval where
  "observe_step = PDict [(''kind'', PStr ''observe_route_deposit'')]"

text \<open>A call that only observes what has been sent.\<close>

definition observe_deposit :: "'w callbacks \<Rightarrow> pydict \<Rightarrow> nat \<Rightarrow> pyval \<Rightarrow> ('w gx, pyval) action" where
  "observe_deposit cb entry pid s =
     bind_act (record_event (Observed pid)) (\<lambda>_.
     call (cb_submit cb (with_key ''_journal_position_id'' (PInt (int pid)) entry) None s))"

end
