(* ===== verification/Relay_Protocol.thy ===== *)
theory Relay_Protocol
  imports Weth Rpc
begin

text \<open>
  Validation of a native Relay order before a signature (\<open>relay_protocol.py\<close>): the order, the
  deposit step and its calldata must commit to the approved request. The EIP-712 hash of an
  order and the ABI encoding of \<open>depositNative\<close> are parameters; a chain id is an integer.
\<close>

section \<open>Access\<close>

fun path :: "pyval \<Rightarrow> string list \<Rightarrow> pyval result" where
  "path v [] = Inr v"
| "path v (k # ks) = bind_result (item v k) (\<lambda>x. path x ks)"

definition int_at :: "pyval \<Rightarrow> string list \<Rightarrow> int result" where
  "int_at v ks = bind_result (path v ks) py_int"

definition lower_at :: "pyval \<Rightarrow> string list \<Rightarrow> string result" where
  "lower_at v ks = bind_result (path v ks) lower_of"

definition py_len :: "pyval \<Rightarrow> nat result" where
  "py_len v = (case v of
      PList xs \<Rightarrow> Inr (length xs) | PTuple xs \<Rightarrow> Inr (length xs) | PDict d \<Rightarrow> Inr (length d)
    | PStr s \<Rightarrow> Inr (length s) | _ \<Rightarrow> Inl TypeError)"

definition len_at :: "pyval \<Rightarrow> string list \<Rightarrow> nat result" where
  "len_at v ks = bind_result (path v ks) py_len"

definition truthy_at :: "pyval \<Rightarrow> string list \<Rightarrow> bool result" where
  "truthy_at v ks = bind_result (path v ks) (\<lambda>x. Inr (py_truthy x))"

text \<open>The tests \<open>a != b\<close> of two computations.\<close>

definition unequal :: "pyval result \<Rightarrow> pyval result \<Rightarrow> bool result" where
  "unequal a b = bind_result a (\<lambda>x. bind_result b (\<lambda>y. Inr (\<not> py_eq x y)))"

definition unlike :: "'a result \<Rightarrow> 'a result \<Rightarrow> bool result" where
  "unlike a b = bind_result a (\<lambda>x. bind_result b (\<lambda>y. Inr (x \<noteq> y)))"

definition text_of :: "string result \<Rightarrow> pyval result" where
  "text_of s = bind_result s (\<lambda>t. Inr (PStr t))"

definition refuse :: "bool result list \<Rightarrow> string \<Rightarrow> unit result" where
  "refuse tests why = bind_result (any_result tests) (\<lambda>bad. require (\<not> bad) (ValueError why))"

section \<open>Chains\<close>

text \<open>\<open>catalog = {c["id"]: c for c in chains}\<close>: with two chains of one id the last one stays.\<close>

fun chain_catalog :: "pyval list \<Rightarrow> (pyval \<times> pyval) list result" where
  "chain_catalog [] = Inr []"
| "chain_catalog (c # cs) =
     bind_result (item c ''id'') (\<lambda>i. bind_result (chain_catalog cs) (\<lambda>rest. Inr ((i, c) # rest)))"

definition catalog_get :: "(pyval \<times> pyval) list \<Rightarrow> pyval \<Rightarrow> pyval result" where
  "catalog_get cat key = (case find (\<lambda>(i, c). py_eq i key) (rev cat) of
      None \<Rightarrow> Inl KeyError | Some (i, c) \<Rightarrow> Inr c)"

definition enabled_evm :: "pyval \<Rightarrow> unit result" where
  "enabled_evm chain = refuse
     [bind_result (get_item chain ''vmType'' PNone) (\<lambda>v. differs v (PStr ''evm'')),
      bind_result (get_item chain ''disabled'' PNone) (\<lambda>v. Inr (py_truthy v))]
     ''Relay execution supports enabled EVM chains only''"

fun evm_ids :: "pyval list \<Rightarrow> pyval list result" where
  "evm_ids [] = Inr []"
| "evm_ids (c # cs) =
     bind_result (get_item c ''vmType'' PNone) (\<lambda>vm.
     if \<not> py_eq vm (PStr ''evm'') then evm_ids cs
     else bind_result (get_item c ''protocol'' (PDict [])) (\<lambda>p.
       bind_result (get_item p ''v2'' (PDict [])) (\<lambda>v2.
       bind_result (get_item v2 ''chainId'' PNone) (\<lambda>i.
       bind_result (evm_ids cs) (\<lambda>is. Inr (i # is))))))"

section \<open>The order\<close>

definition zero_account :: string where
  "zero_account = native_address"

definition input_tests :: "pyval \<Rightarrow> pyval \<Rightarrow> pyval \<Rightarrow> bool result list" where
  "input_tests request payment source_id =
     [unequal (item request ''originCurrency'') (Inr (PStr zero_account)),
      unlike (lower_at payment [''currency'']) (Inr zero_account),
      unequal (item payment ''chainId'') (Inr source_id),
      unlike (int_at payment [''amount'']) (int_at request [''amount'']),
      unlike (int_at payment [''weight'']) (Inr 1)]"

definition output_tests :: "pyval \<Rightarrow> pyval \<Rightarrow> pyval \<Rightarrow> bool result list" where
  "output_tests quote request outgoing =
     [unlike (lower_at outgoing [''recipient'']) (lower_at request [''recipient'']),
      unequal (text_of (lower_at outgoing [''currency''])) (item request ''destinationCurrency''),
      unlike (int_at outgoing [''minimumAmount'']) (int_at quote [''to_amount_min'']),
      unlike (int_at outgoing [''expectedAmount'']) (int_at quote [''to_amount''])]"

definition refund_identity :: "pyval \<Rightarrow> pyval result" where
  "refund_identity refund =
     bind_result (item refund ''chainId'') (\<lambda>c.
     bind_result (lower_at refund [''recipient'']) (\<lambda>r.
     bind_result (lower_at refund [''currency'']) (\<lambda>m. Inr (PTuple [c, PStr r, PStr m]))))"

definition allowed_refunds :: "pyval \<Rightarrow> pyval \<Rightarrow> pyval \<Rightarrow> pyval list result" where
  "allowed_refunds request source_id destination_id =
     bind_result (lower_at request [''user'']) (\<lambda>u.
     bind_result (item request ''originCurrency'') (\<lambda>oc.
     bind_result (lower_at request [''recipient'']) (\<lambda>r.
     bind_result (item request ''destinationCurrency'') (\<lambda>dc.
     Inr [PTuple [source_id, PStr u, oc], PTuple [destination_id, PStr r, dc]]))))"

fun check_refunds :: "pyval list \<Rightarrow> pyval list \<Rightarrow> unit result" where
  "check_refunds allowed [] = Inr ()"
| "check_refunds allowed (refund # refunds) =
     bind_result (refund_identity refund) (\<lambda>i.
     if list_ex (py_eq i) allowed then check_refunds allowed refunds
     else Inl (ValueError ''Relay refund differs from the authorized source or destination''))"

text \<open>\<open>int(text, 0)\<close> of a text that starts with \<open>0x\<close>.\<close>

definition hex_int_text :: "string \<Rightarrow> int result" where
  "hex_int_text t =
     (let u = strip t; digits = (if starts_with ''_'' (drop 2 u) then drop 3 u else drop 2 u) in
      if underscored is_hex digits
      then Inr (int (hexes_val (filter (\<lambda>c. c \<noteq> CHR ''_'') digits)))
      else Inl (ValueError ''invalid literal for int() with base 0''))"

definition salt_number :: "pyval \<Rightarrow> int result" where
  "salt_number salt =
     (if starts_with ''0x'' (py_str salt) then hex_int_text (py_str salt) else py_int salt)"

definition with_salt :: "pyval \<Rightarrow> pyval result" where
  "with_salt order = bind_result (as_dict order) (\<lambda>d.
     bind_result (item order ''salt'') (\<lambda>s.
     bind_result (salt_number s) (\<lambda>n. Inr (PDict (AList.update ''salt'' (PInt n) d)))))"

section \<open>The deposit step\<close>

definition details_tests :: "pyval \<Rightarrow> pyval \<Rightarrow> pyval \<Rightarrow> string \<Rightarrow> bool result list" where
  "details_tests details payment source_id depository =
     [unlike (lower_at details [''depository'']) (Inr depository),
      unequal (item details ''chainId'') (Inr source_id),
      unlike (lower_at details [''currency'']) (Inr zero_account),
      unlike (int_at details [''amount'']) (int_at payment [''amount''])]"

definition request_id_bad :: "pyval \<Rightarrow> bool result" where
  "request_id_bad v = (case v of PStr s \<Rightarrow> Inr (\<not> hex_of_length 64 s) | _ \<Rightarrow> Inl TypeError)"

definition step_tests :: "pyval \<Rightarrow> bool result list" where
  "step_tests s =
     [unequal (item s ''id'') (Inr (PStr ''deposit'')),
      unequal (item s ''kind'') (Inr (PStr ''transaction'')),
      bind_result (get_item s ''depositAddress'' PNone) (\<lambda>v. Inr (py_truthy v)),
      unlike (len_at s [''items'']) (Inr 1),
      bind_result (item s ''requestId'') request_id_bad]"

definition tx_tests :: "pyval \<Rightarrow> pyval \<Rightarrow> string \<Rightarrow> string \<Rightarrow> bool result list" where
  "tx_tests tx request depository calldata =
     [unlike (lower_at tx [''to'']) (Inr depository),
      unlike (lower_at tx [''from'']) (lower_at request [''user'']),
      unequal (bind_result (int_at tx [''chainId'']) (\<lambda>n. Inr (PInt n))) (item request ''originChainId''),
      unlike (int_at tx [''value'']) (int_at request [''amount'']),
      unlike (lower_at tx [''data'']) (Inr calldata)]"

definition deposit_request :: "pyval \<Rightarrow> string \<Rightarrow> string \<Rightarrow> tx_request result" where
  "deposit_request request depository calldata =
     bind_result (item request ''originChainId'') (\<lambda>c.
     bind_result (int_at request [''amount'']) (\<lambda>amount. case c of
       PInt n \<Rightarrow> Inr \<lparr>t_chain = n, t_to = depository, t_data = calldata, t_value = amount,
         t_gas = 0, t_gas_price = Some 0, t_max_fee = None, t_priority = None, t_additional = 0,
         t_method = None, t_fallback = None, t_cap = None, t_estimate = None, t_block = None,
         t_base_fee = None\<rparr>
     | _ \<Rightarrow> Inl TypeError))"

section \<open>The whole validation\<close>

record order_hashes =
  oh_order :: "pyval \<Rightarrow> string result"
  oh_deposit :: "pyval \<Rightarrow> string \<Rightarrow> string result"

text \<open>Chains and their depository: the first checks.\<close>

definition check_chains ::
  "pyval \<Rightarrow> pyval \<Rightarrow> (pyval \<times> pyval) list \<Rightarrow> (pyval \<times> pyval \<times> string) result" where
  "check_chains request protocol cat =
     bind_result (bind_result (item request ''originChainId'') (\<lambda>k. catalog_get cat k)) (\<lambda>origin.
     bind_result (bind_result (item request ''destinationChainId'') (\<lambda>k. catalog_get cat k)) (\<lambda>dest.
     bind_result (enabled_evm origin) (\<lambda>_.
     bind_result (enabled_evm dest) (\<lambda>_.
     bind_result (path origin [''protocol'', ''v2'', ''chainId'']) (\<lambda>source_id.
     bind_result (path dest [''protocol'', ''v2'', ''chainId'']) (\<lambda>destination_id.
     bind_result (lower_at origin [''protocol'', ''v2'', ''depository'']) (\<lambda>depository.
     bind_result (refuse
       [bind_result (get_item origin ''depositEnabled'' PNone) (\<lambda>v. Inr (\<not> py_truthy v)),
        bind_result (get_item protocol ''hubType'' PNone) (\<lambda>v. differs v (PStr ''onchain''))]
       ''Relay native deposits unavailable'') (\<lambda>_.
     Inr (source_id, destination_id, depository)))))))))"

text \<open>The terms of the order against the request, up to its hash.\<close>

definition check_terms ::
  "pyval \<Rightarrow> pyval \<Rightarrow> pyval \<Rightarrow> pyval list \<Rightarrow> pyval \<Rightarrow> pyval \<Rightarrow> rat \<Rightarrow> pyval result" where
  "check_terms quote request order cs source_id destination_id now =
     bind_result (refuse
       [unequal (item order ''version'') (Inr (PStr ''v1'')), unlike (len_at order [''inputs'']) (Inr 1),
        truthy_at order [''fees'']] ''Unsupported Relay order version, inputs or explicit fees'') (\<lambda>_.
     bind_result (item order ''inputs'') (\<lambda>inputs.
     bind_result (nth_item inputs 0) (\<lambda>input.
     bind_result (item input ''payment'') (\<lambda>payment.
     bind_result (item order ''output'') (\<lambda>output.
     bind_result (refuse (input_tests request payment source_id)
       ''Relay native input does not match the approved request'') (\<lambda>_.
     bind_result (refuse
       [unequal (item output ''chainId'') (Inr destination_id), truthy_at output [''calls''],
        unlike (len_at output [''payments'']) (Inr 1)]
       ''Unsupported Relay output chain, calls or multiple recipients'') (\<lambda>_.
     bind_result (item output ''payments'') (\<lambda>payments.
     bind_result (nth_item payments 0) (\<lambda>outgoing.
     bind_result (refuse (output_tests quote request outgoing)
       ''Relay protocol output differs from the approved quote'') (\<lambda>_.
     bind_result (refuse [bind_result (int_at output [''deadline'']) (\<lambda>n. Inr (of_int n \<le> now + 60))]
       ''Relay order is expired or expires before safe submission'') (\<lambda>_.
     bind_result (evm_ids cs) (\<lambda>ids.
     bind_result (refuse [bind_result (item order ''solverChainId'') (\<lambda>s. Inr (\<not> list_ex (py_eq s) ids))]
       ''Relay solver VM is unsupported'') (\<lambda>_.
     bind_result (allowed_refunds request source_id destination_id) (\<lambda>allowed.
     bind_result (item input ''refunds'') (\<lambda>refunds.
     bind_result (elements refunds) (\<lambda>rs.
     bind_result (check_refunds allowed rs) (\<lambda>_. Inr payment)))))))))))))))))"

text \<open>The single deposit step, its transaction and its calldata.\<close>

definition check_step ::
  "order_hashes \<Rightarrow> pyval \<Rightarrow> pyval \<Rightarrow> string \<Rightarrow> string \<Rightarrow> tx_request result" where
  "check_step oh request body depository order_id =
     bind_result (refuse [unlike (len_at body [''steps'']) (Inr 1)]
       ''Relay multi-step execution is unsupported'') (\<lambda>_.
     bind_result (item body ''steps'') (\<lambda>step_list.
     bind_result (nth_item step_list 0) (\<lambda>s.
     bind_result (refuse (step_tests s) ''Unsupported Relay deposit step'') (\<lambda>_.
     bind_result (item s ''items'') (\<lambda>things.
     bind_result (nth_item things 0) (\<lambda>thing.
     bind_result (item thing ''data'') (\<lambda>tx.
     bind_result (bind_result (item request ''user'') (\<lambda>u. oh_deposit oh u order_id)) (\<lambda>encoded.
     let calldata = ''0x'' @ encoded in
     bind_result (refuse (tx_tests tx request depository calldata)
       ''Relay transaction does not commit to the verified native order'') (\<lambda>_.
     deposit_request request depository calldata)))))))))"

definition verified_transaction ::
  "order_hashes \<Rightarrow> pyval \<Rightarrow> pyval list \<Rightarrow> rat \<Rightarrow> tx_request result" where
  "verified_transaction oh quote cs now =
     bind_result (item quote ''request'') (\<lambda>request.
     bind_result (item quote ''response'') (\<lambda>body.
     bind_result (path body [''protocol'', ''v2'']) (\<lambda>protocol.
     bind_result (item protocol ''orderData'') (\<lambda>order.
     bind_result (chain_catalog cs) (\<lambda>cat.
     bind_result (check_chains request protocol cat) (\<lambda>(source_id, destination_id, depository).
     bind_result (check_terms quote request order cs source_id destination_id now) (\<lambda>payment.
     bind_result (with_salt order) (\<lambda>salted.
     bind_result (oh_order oh salted) (\<lambda>digest.
     bind_result (refuse [unlike (lower_at protocol [''orderId'']) (Inr (''0x'' @ digest))]
       ''Relay order hash does not match its terms'') (\<lambda>_.
     bind_result (item protocol ''paymentDetails'') (\<lambda>details.
     bind_result (refuse (details_tests details payment source_id depository)
       ''Relay payment details differ from the canonical order'') (\<lambda>_.
     check_step oh request body depository (''0x'' @ digest)))))))))))))"

section \<open>What a validated order commits to\<close>

lemma refuse_passes [simp]: "refuse tests why = Inr () \<longleftrightarrow> (\<forall>t \<in> set tests. t = Inr False)"
  unfolding refuse_def require_def any_result_False [symmetric]
  by (cases "any_result tests") auto

lemma unequal_False [simp]: "unequal a b = Inr False \<longleftrightarrow> (\<exists>x y. a = Inr x \<and> b = Inr y \<and> py_eq x y)"
  unfolding unequal_def by (cases a; cases b) auto

lemma unlike_False [simp]: "unlike a b = Inr False \<longleftrightarrow> (\<exists>x. a = Inr x \<and> b = Inr x)"
  unfolding unlike_def by (cases a; cases b) auto

text \<open>The order's only input spends the approved amount of the native coin on the source chain.\<close>

definition input_commits :: "pyval \<Rightarrow> pyval \<Rightarrow> pyval \<Rightarrow> int \<Rightarrow> bool" where
  "input_commits request order source_id amount \<longleftrightarrow>
     len_at order [''inputs''] = Inr 1 \<and>
     (\<exists>inputs input payment on.
        item order ''inputs'' = Inr inputs \<and> nth_item inputs 0 = Inr input \<and>
        item input ''payment'' = Inr payment \<and>
        lower_at payment [''currency''] = Inr zero_account \<and>
        item payment ''chainId'' = Inr on \<and> py_eq on source_id \<and>
        int_at payment [''amount''] = Inr amount \<and> int_at request [''amount''] = Inr amount)"

text \<open>Its only output pays the approved recipient at least the quoted minimum of the approved
  currency, on the destination chain, and stays open for more than a minute.\<close>

definition output_commits :: "pyval \<Rightarrow> pyval \<Rightarrow> pyval \<Rightarrow> pyval \<Rightarrow> rat \<Rightarrow> bool" where
  "output_commits quote request order destination_id now \<longleftrightarrow>
     (\<exists>output payments outgoing on who floor cur want until.
        item order ''output'' = Inr output \<and>
        item output ''chainId'' = Inr on \<and> py_eq on destination_id \<and>
        truthy_at output [''calls''] = Inr False \<and>
        len_at output [''payments''] = Inr 1 \<and>
        item output ''payments'' = Inr payments \<and> nth_item payments 0 = Inr outgoing \<and>
        lower_at outgoing [''recipient''] = Inr who \<and> lower_at request [''recipient''] = Inr who \<and>
        lower_at outgoing [''currency''] = Inr cur \<and>
        item request ''destinationCurrency'' = Inr want \<and> py_eq (PStr cur) want \<and>
        int_at outgoing [''minimumAmount''] = Inr floor \<and> int_at quote [''to_amount_min''] = Inr floor \<and>
        int_at output [''deadline''] = Inr until \<and> now + 60 < of_int until)"

text \<open>Every refund goes to the source wallet in the source currency, or to the approved recipient
  in the destination currency.\<close>

definition refund_goes :: "pyval \<Rightarrow> pyval \<Rightarrow> string \<Rightarrow> pyval \<Rightarrow> bool" where
  "refund_goes refund chain who currency \<longleftrightarrow>
     (\<exists>c m. item refund ''chainId'' = Inr c \<and> py_eq c chain \<and> lower_at refund [''recipient''] = Inr who
        \<and> lower_at refund [''currency''] = Inr m \<and> currency = PStr m)"

definition refunds_commit :: "pyval \<Rightarrow> pyval \<Rightarrow> pyval \<Rightarrow> pyval \<Rightarrow> bool" where
  "refunds_commit request order source_id destination_id \<longleftrightarrow>
     (\<exists>inputs input refunds rs user paid who bought.
        item order ''inputs'' = Inr inputs \<and> nth_item inputs 0 = Inr input \<and>
        item input ''refunds'' = Inr refunds \<and> elements refunds = Inr rs \<and>
        lower_at request [''user''] = Inr user \<and> item request ''originCurrency'' = Inr paid \<and>
        lower_at request [''recipient''] = Inr who \<and> item request ''destinationCurrency'' = Inr bought \<and>
        list_all (\<lambda>r. refund_goes r source_id user paid \<or> refund_goes r destination_id who bought) rs)"

lemma check_refunds_pass:
  "check_refunds allowed rs = Inr () \<longleftrightarrow>
     list_all (\<lambda>r. \<exists>i. refund_identity r = Inr i \<and> list_ex (py_eq i) allowed) rs"
  by (induction rs) (auto split: if_splits)

lemma allowed_refund_goes:
  assumes "allowed_refunds request source_id destination_id = Inr allowed"
    and "lower_at request [''user''] = Inr user" "item request ''originCurrency'' = Inr paid"
    and "lower_at request [''recipient''] = Inr who" "item request ''destinationCurrency'' = Inr bought"
    and "refund_identity r = Inr i" "list_ex (py_eq i) allowed"
  shows "refund_goes r source_id user paid \<or> refund_goes r destination_id who bought"
  using assms by (auto simp: allowed_refunds_def refund_identity_def refund_goes_def)

lemma refunds_committed:
  assumes "item order ''inputs'' = Inr inputs" "nth_item inputs 0 = Inr input"
    and "item input ''refunds'' = Inr refunds" "elements refunds = Inr rs"
    and allowed: "allowed_refunds request source_id destination_id = Inr allowed" "check_refunds allowed rs = Inr ()"
  shows "refunds_commit request order source_id destination_id"
proof -
  obtain user paid who bought where r: "lower_at request [''user''] = Inr user" "item request ''originCurrency'' = Inr paid"
    "lower_at request [''recipient''] = Inr who" "item request ''destinationCurrency'' = Inr bought"
    using allowed(1) by (auto simp: allowed_refunds_def)
  have "list_all (\<lambda>r. refund_goes r source_id user paid \<or> refund_goes r destination_id who bought) rs"
    using allowed(2) allowed_refund_goes [OF allowed(1) r] unfolding check_refunds_pass list_all_iff by blast
  with assms(1-4) r show ?thesis unfolding refunds_commit_def by blast
qed

lemma check_terms_commit:
  assumes "check_terms quote request order cs source_id destination_id now = Inr payment"
  shows "(\<exists>amount. input_commits request order source_id amount)"
    and "output_commits quote request order destination_id now"
    and "refunds_commit request order source_id destination_id"
proof -
  show "(\<exists>amount. input_commits request order source_id amount)"
    using assms unfolding check_terms_def input_commits_def input_tests_def
    by simp (elim exE conjE, metis)
  show "output_commits quote request order destination_id now"
    using assms unfolding check_terms_def output_commits_def output_tests_def
    by (clarsimp simp: not_le text_of_def)
  show "refunds_commit request order source_id destination_id"
    using assms unfolding check_terms_def
    by simp (elim exE conjE, rule refunds_committed, assumption+)
qed

text \<open>The deposit step: its transaction pays the depository and carries the encoded order id.\<close>

definition step_commits ::
  "order_hashes \<Rightarrow> pyval \<Rightarrow> pyval \<Rightarrow> string \<Rightarrow> string \<Rightarrow> tx_request \<Rightarrow> bool" where
  "step_commits oh request body depository order_id t \<longleftrightarrow>
     len_at body [''steps''] = Inr 1 \<and>
     t_to t = depository \<and> t_gas t = 0 \<and> t_gas_price t = Some 0 \<and>
     int_at request [''amount''] = Inr (t_value t) \<and>
     item request ''originChainId'' = Inr (PInt (t_chain t)) \<and>
     (\<exists>user encoded. item request ''user'' = Inr user \<and>
        oh_deposit oh user order_id = Inr encoded \<and> t_data t = ''0x'' @ encoded)"

lemma deposit_request_Inr:
  assumes "deposit_request request depository calldata = Inr t"
  shows "t_to t = depository \<and> t_data t = calldata \<and> t_gas t = 0 \<and> t_gas_price t = Some 0 \<and>
    int_at request [''amount''] = Inr (t_value t) \<and>
    item request ''originChainId'' = Inr (PInt (t_chain t))"
proof -
  obtain c amount where "item request ''originChainId'' = Inr c" "int_at request [''amount''] = Inr amount"
    using assms unfolding deposit_request_def by auto
  then show ?thesis using assms unfolding deposit_request_def by (cases c) auto
qed

lemma check_step_commits:
  assumes "check_step oh request body depository order_id = Inr t"
  shows "step_commits oh request body depository order_id t"
  using assms unfolding check_step_def step_commits_def Let_def
  by (clarsimp dest!: deposit_request_Inr)

text \<open>A chain of the list, by its id: an enabled EVM chain, and its id in the orders. The origin
  takes native deposits at its depository.\<close>

definition native_chain :: "pyval list \<Rightarrow> pyval \<Rightarrow> pyval \<Rightarrow> pyval \<Rightarrow> bool" where
  "native_chain cs key chain vm_id \<longleftrightarrow> chain \<in> set cs \<and>
     (\<exists>i vm off. item chain ''id'' = Inr i \<and> py_eq i key \<and>
        get_item chain ''vmType'' PNone = Inr vm \<and> py_eq vm (PStr ''evm'') \<and>
        get_item chain ''disabled'' PNone = Inr off \<and> \<not> py_truthy off \<and>
        path chain [''protocol'', ''v2'', ''chainId''] = Inr vm_id)"

definition takes_deposits :: "pyval \<Rightarrow> pyval \<Rightarrow> string \<Rightarrow> bool" where
  "takes_deposits origin protocol depository \<longleftrightarrow>
     lower_at origin [''protocol'', ''v2'', ''depository''] = Inr depository \<and>
     (\<exists>on hub. get_item origin ''depositEnabled'' PNone = Inr on \<and> py_truthy on \<and>
        get_item protocol ''hubType'' PNone = Inr hub \<and> py_eq hub (PStr ''onchain''))"

lemma catalog_chain:
  assumes "chain_catalog cs = Inr cat" "catalog_get cat key = Inr c"
  shows "c \<in> set cs \<and> (\<exists>i. item c ''id'' = Inr i \<and> py_eq i key)"
proof -
  have "c \<in> set cs \<and> item c ''id'' = Inr i" if "(i, c) \<in> set cat" for i c
    using assms(1) that by (induction cs arbitrary: cat) auto
  moreover obtain i where "find (\<lambda>(i, c). py_eq i key) (rev cat) = Some (i, c)"
    using assms(2) by (auto simp: catalog_get_def split: option.splits prod.splits)
  then obtain k where "k < length (rev cat)" "rev cat ! k = (i, c)" "py_eq i key"
    by (auto simp: find_Some_iff)
  then have "(i, c) \<in> set cat" "py_eq i key" using nth_mem [of k "rev cat"] by simp_all
  ultimately show ?thesis by blast
qed

lemma checked_chains:
  assumes "chain_catalog cs = Inr cat"
    and "check_chains request protocol cat = Inr (source_id, destination_id, depository)"
  obtains here origin there dest where "item request ''originChainId'' = Inr here"
    "item request ''destinationChainId'' = Inr there" "native_chain cs here origin source_id"
    "native_chain cs there dest destination_id" "takes_deposits origin protocol depository"
proof -
  obtain here origin there dest where
    c: "item request ''originChainId'' = Inr here" "catalog_get cat here = Inr origin"
      "item request ''destinationChainId'' = Inr there" "catalog_get cat there = Inr dest"
    and e: "enabled_evm origin = Inr ()" "enabled_evm dest = Inr ()"
    and v: "path origin [''protocol'', ''v2'', ''chainId''] = Inr source_id"
      "path dest [''protocol'', ''v2'', ''chainId''] = Inr destination_id"
    and "takes_deposits origin protocol depository"
    using assms(2) by (auto simp: check_chains_def takes_deposits_def differs_def simp del: path.simps)
  moreover have "native_chain cs here origin source_id" "native_chain cs there dest destination_id"
    using catalog_chain [OF assms(1) c(2)] catalog_chain [OF assms(1) c(4)] e v
    by (auto simp: native_chain_def enabled_evm_def differs_def simp del: path.simps)
  ultimately show thesis using that by blast
qed

lemma verified_commits:
  assumes "verified_transaction oh quote cs now = Inr t"
  shows "\<exists>request body protocol order fields salt digest source_id destination_id depository origin dest here there.
    item quote ''request'' = Inr request \<and> item quote ''response'' = Inr body \<and>
    path body [''protocol'', ''v2''] = Inr protocol \<and> item protocol ''orderData'' = Inr order \<and>
    order = PDict fields \<and> oh_order oh (PDict (AList.update ''salt'' (PInt salt) fields)) = Inr digest \<and>
    lower_at protocol [''orderId''] = Inr (''0x'' @ digest) \<and>
    item request ''originChainId'' = Inr here \<and> native_chain cs here origin source_id \<and>
    item request ''destinationChainId'' = Inr there \<and> native_chain cs there dest destination_id \<and>
    takes_deposits origin protocol depository \<and>
    step_commits oh request body depository (''0x'' @ digest) t \<and>
    input_commits request order source_id (t_value t) \<and>
    output_commits quote request order destination_id now \<and>
    refunds_commit request order source_id destination_id"
proof -
  obtain request body protocol order salted digest source_id destination_id depository cat payment
    where *: "item quote ''request'' = Inr request" "item quote ''response'' = Inr body"
      "path body [''protocol'', ''v2''] = Inr protocol" "item protocol ''orderData'' = Inr order"
      "chain_catalog cs = Inr cat"
      "check_chains request protocol cat = Inr (source_id, destination_id, depository)"
      "check_terms quote request order cs source_id destination_id now = Inr payment"
      "with_salt order = Inr salted" "oh_order oh salted = Inr digest"
      "lower_at protocol [''orderId''] = Inr (''0x'' @ digest)"
      "check_step oh request body depository (''0x'' @ digest) = Inr t"
    using assms unfolding verified_transaction_def by (clarsimp simp del: path.simps)
  have step: "step_commits oh request body depository (''0x'' @ digest) t"
    using *(11) by (rule check_step_commits)
  moreover have "input_commits request order source_id (t_value t)"
    using check_terms_commit(1) [OF *(7)] step unfolding input_commits_def step_commits_def by force
  moreover obtain fields salt where "order = PDict fields" "salted = PDict (AList.update ''salt'' (PInt salt) fields)"
    using *(8) by (auto simp: with_salt_def as_dict_def split: pyval.splits)
  moreover from checked_chains [OF *(5,6)] obtain here origin there dest where
    "item request ''originChainId'' = Inr here" "item request ''destinationChainId'' = Inr there"
    "native_chain cs here origin source_id" "native_chain cs there dest destination_id"
    "takes_deposits origin protocol depository" .
  ultimately show ?thesis
    using * check_terms_commit(2,3) [OF *(7)] by (intro exI conjI) simp_all
qed

text \<open>C24: A transaction that the validation of a Relay quote returns pays the depository that the
  chain list gives for the origin chain of the request, an enabled EVM chain that takes deposits,
  exactly the approved amount, from the single input of the order; its calldata encodes the user and
  the hash of that very order with its salt as a number, which is the hash the quote names; the order
  pays the approved recipient on the destination chain no less than the quoted minimum, stays open for
  over a minute, and every refund it names goes back to the source wallet in the source currency or to
  the approved recipient in the destination currency.\<close>

theorem relay_transaction_committed:
  assumes "verified_transaction oh quote cs now = Inr t"
  shows "\<exists>request body protocol order fields salt digest source_id destination_id depository origin dest here there.
    item quote ''request'' = Inr request \<and> item quote ''response'' = Inr body \<and>
    path body [''protocol'', ''v2''] = Inr protocol \<and> item protocol ''orderData'' = Inr order \<and>
    order = PDict fields \<and> oh_order oh (PDict (AList.update ''salt'' (PInt salt) fields)) = Inr digest \<and>
    lower_at protocol [''orderId''] = Inr (''0x'' @ digest) \<and>
    item request ''originChainId'' = Inr here \<and> native_chain cs here origin source_id \<and>
    item request ''destinationChainId'' = Inr there \<and> native_chain cs there dest destination_id \<and>
    takes_deposits origin protocol depository \<and>
    step_commits oh request body depository (''0x'' @ digest) t \<and>
    input_commits request order source_id (t_value t) \<and>
    output_commits quote request order destination_id now \<and>
    refunds_commit request order source_id destination_id"
  using assms by (rule verified_commits)

definition sample_user :: string where
  "sample_user = ''0x00000000000000000000000000000000000000Aa''"

definition sample_relay_request :: pyval where
  "sample_relay_request = PDict
     [(''originChainId'', PInt 1), (''destinationChainId'', PInt 10), (''user'', PStr sample_user),
      (''recipient'', PStr sample_user), (''originCurrency'', PStr zero_account),
      (''destinationCurrency'', PStr zero_account), (''amount'', PStr ''90'')]"

definition sample_order :: pyval where
  "sample_order = PDict
     [(''version'', PStr ''v1''), (''solverChainId'', PStr ''base''), (''salt'', PStr ''0x1f''), (''fees'', PList []),
      (''inputs'', PList [PDict
        [(''payment'', PDict [(''chainId'', PStr ''ethereum''), (''currency'', PStr zero_account),
           (''amount'', PStr ''90''), (''weight'', PStr ''1'')]),
         (''refunds'', PList [PDict [(''chainId'', PStr ''optimism''), (''recipient'', PStr sample_user),
           (''currency'', PStr zero_account)]])]]),
      (''output'', PDict
        [(''chainId'', PStr ''optimism''), (''calls'', PList []), (''deadline'', PInt 200),
         (''payments'', PList [PDict [(''recipient'', PStr sample_user), (''currency'', PStr zero_account),
           (''minimumAmount'', PStr ''80''), (''expectedAmount'', PStr ''85'')]])])]"

definition sample_chain :: "int \<Rightarrow> string \<Rightarrow> pyval" where
  "sample_chain i vm_name = PDict
     [(''id'', PInt i), (''vmType'', PStr ''evm''), (''disabled'', PBool False), (''depositEnabled'', PBool True),
      (''protocol'', PDict [(''v2'', PDict [(''chainId'', PStr vm_name), (''depository'', PStr ''0xD0'')])])]"

definition sample_chains :: "pyval list" where
  "sample_chains = [sample_chain 1 ''ethereum'', sample_chain 10 ''optimism'', sample_chain 5 ''base'']"

definition sample_relay_tx :: pyval where
  "sample_relay_tx = PDict [(''to'', PStr ''0xd0''), (''from'', PStr sample_user), (''chainId'', PInt 1),
     (''value'', PStr ''90''), (''data'', PStr ''0xca11'')]"

definition sample_relay_quote :: "string \<Rightarrow> pyval" where
  "sample_relay_quote request_id = PDict
     [(''request'', sample_relay_request), (''to_amount_min'', PInt 80), (''to_amount'', PInt 85),
      (''response'', PDict
        [(''protocol'', PDict [(''v2'', PDict
            [(''hubType'', PStr ''onchain''), (''orderData'', sample_order), (''orderId'', PStr ''0xAB''),
             (''paymentDetails'', PDict [(''depository'', PStr ''0xD0''), (''chainId'', PStr ''ethereum''),
                (''currency'', PStr zero_account), (''amount'', PStr ''90'')])])]),
         (''steps'', PList [PDict
            [(''id'', PStr ''deposit''), (''kind'', PStr ''transaction''), (''requestId'', PStr request_id),
             (''items'', PList [PDict [(''data'', sample_relay_tx)]])]])])]"

definition sample_hashes :: order_hashes where
  "sample_hashes = \<lparr>oh_order = (\<lambda>order. bind_result (item order ''salt'') (\<lambda>n.
       if n = PInt 31 then Inr ''ab'' else Inl (ValueError ''salt''))),
     oh_deposit = (\<lambda>user order_id. Inr (if order_id = ''0xab'' then ''ca11'' else []))\<rparr>"

definition sample_request_id :: string where
  "sample_request_id = ''0x'' @ replicate 64 (CHR ''c'')"

lemma sample_relay_verified:
  "verified_transaction sample_hashes (sample_relay_quote sample_request_id) sample_chains 100 =
     deposit_request sample_relay_request ''0xd0'' ''0xca11''"
  by code_simp

definition sample_deposit :: tx_request where
  "sample_deposit = \<lparr>t_chain = 1, t_to = ''0xd0'', t_data = ''0xca11'', t_value = 90, t_gas = 0,
     t_gas_price = Some 0, t_max_fee = None, t_priority = None, t_additional = 0, t_method = None,
     t_fallback = None, t_cap = None, t_estimate = None, t_block = None, t_base_fee = None\<rparr>"

lemma sample_deposit_built:
  "deposit_request sample_relay_request ''0xd0'' ''0xca11'' = Inr sample_deposit"
  by code_simp

theorem relay_transaction_committed_witness:
  "\<exists>request order source_id.
     verified_transaction sample_hashes (sample_relay_quote sample_request_id) sample_chains 100 = Inr sample_deposit \<and>
     item (sample_relay_quote sample_request_id) ''request'' = Inr request \<and>
     input_commits request order source_id 90"
proof -
  have sent: "verified_transaction sample_hashes (sample_relay_quote sample_request_id) sample_chains 100
      = Inr sample_deposit"
    by (simp only: sample_relay_verified sample_deposit_built)
  have "t_value sample_deposit = 90" by (simp add: sample_deposit_def)
  then show ?thesis using relay_transaction_committed [OF sent] sent by metis
qed

text \<open>A quote whose request id is malformed is refused.\<close>

lemma relay_bad_request_id:
  "verified_transaction sample_hashes (sample_relay_quote ''0x12'') sample_chains 100 =
     Inl (ValueError ''Unsupported Relay deposit step'')"
  by code_simp

end
