(* ===== verification/Planner_Gas.thy ===== *)
theory Planner_Gas
  imports Group_Steps Consolidation Relay_Protocol Executor
begin

text \<open>
  Gas evidence of planned routes (\<open>planner_gas.py\<close>): each unsigned transaction of a route is
  priced by the fee planner on its own chain, missing approvals are priced beside it, and an
  estimate that only fails for a pending approval is replaced by a capped one. The price
  client, the parsers of JSON, ABI data and times, the redaction of texts and the chain
  catalogue's decimals are parameters; the client's answers depend on the calls made so far.
\<close>

section \<open>The estimator and its world\<close>

record gas_env =
  ge_fee :: fee_env
  ge_rpc :: fee_rpc
  ge_url :: "int \<Rightarrow> string option"
  ge_step :: "nat \<Rightarrow> pyval \<Rightarrow> tx_request result"
  ge_price :: "nat \<Rightarrow> asset \<Rightarrow> price_evidence result"
  ge_decimals :: "int \<Rightarrow> int option"
  ge_time :: "string \<Rightarrow> datetime result"
  ge_json :: "string \<Rightarrow> pyval option"
  ge_abi :: "string \<Rightarrow> (string \<times> int \<times> int) option"
  ge_redact :: "string \<Rightarrow> string"
  ge_view :: exn_view
  ge_retry :: bool

record gas_world =
  gw_sent :: "request list"
  gw_asked :: nat
  gw_failures :: "pydict list"
  gw_caps :: "(string \<times> tx_request list) list"
  gw_approvals :: "(string \<times> int) list"

record gas_route =
  gr_route :: lifi_route
  gr_steps :: "pyval list"

definition over_rpc :: "(request list, 'a) action \<Rightarrow> (gas_world, 'a) action" where
  "over_rpc m w = (case m (gw_sent w) of (r, sent) \<Rightarrow> (r, w\<lparr>gw_sent := sent\<rparr>))"

definition over_exec :: "fee_rpc \<Rightarrow> (broadcaster \<Rightarrow> (unit exec, 'a) action) \<Rightarrow> (gas_world, 'a) action" where
  "over_exec rpc m w =
     (case m rpc \<lparr>x_journal = (), x_sent = gw_sent w, x_now = 0\<rparr> of
        (r, s) \<Rightarrow> (r, w\<lparr>gw_sent := x_sent s\<rparr>))"

definition ask_client :: "(nat \<Rightarrow> 'a result) \<Rightarrow> (gas_world, 'a) action" where
  "ask_client f w = (f (gw_asked w), w\<lparr>gw_asked := Suc (gw_asked w)\<rparr>)"

definition gas_failure :: "gas_env \<Rightarrow> string option \<Rightarrow> string \<Rightarrow> exn \<Rightarrow> (gas_world, unit) action" where
  "gas_failure env route_id phase e w =
     (Inr (), w\<lparr>gw_failures := gw_failures w @
        [[(''route_id'', case route_id of None \<Rightarrow> PNone | Some i \<Rightarrow> PStr i), (''phase'', PStr phase),
          (''error'', PStr (type_name e)), (''detail'', PStr (ge_redact env (error_text (ge_view env) e))),
          (''diagnostic'', ev_diagnostic (ge_view env) e)]]\<rparr>)"

definition chain_url :: "gas_env \<Rightarrow> int \<Rightarrow> string result" where
  "chain_url env chain =
     (case ge_url env chain of
        Some u \<Rightarrow> if u = [] then Inl (ValueError ''RPC URL is unavailable for gas estimation'') else Inr u
      | None \<Rightarrow> Inl (ValueError ''RPC URL is unavailable for gas estimation''))"

section \<open>A revert that an approval would cure\<close>

definition allowance_markers :: "string \<Rightarrow> bool" where
  "allowance_markers t \<longleftrightarrow> contains ''insufficient allowance'' t \<or> contains ''transfer_from_failed'' t"

definition revert_reason :: "gas_env \<Rightarrow> pyval \<Rightarrow> int \<Rightarrow> pydict \<Rightarrow> bool" where
  "revert_reason env spender amount failure =
     (let diagnostic = get failure ''diagnostic'';
          provider = (case diagnostic of
            PDict d \<Rightarrow> (case get d ''provider_error'' of PDict p \<Rightarrow> p | _ \<Rightarrow> []) | _ \<Rightarrow> []);
          described = allowance_markers
            (lower (py_str (get_default provider ''message'' (get_default failure ''message'' (PStr [])))))
      in case get provider ''data'' of
          PStr data \<Rightarrow>
            if data = ''0x7939f424'' then True
            else if starts_with ''0xfb8f41b2'' (lower data) then
              (case spender of
                 PStr approved \<Rightarrow>
                   length data = 202 \<and>
                   (case ge_abi env (drop 10 data) of
                      None \<Rightarrow> False
                    | Some (who, allowance, needed) \<Rightarrow>
                        lower who = lower approved \<and> allowance < needed \<and> needed = amount)
               | _ \<Rightarrow> False)
            else described
        | _ \<Rightarrow> described)"

definition approval_dependent_revert :: "gas_env \<Rightarrow> exn \<Rightarrow> pyval \<Rightarrow> int \<Rightarrow> bool" where
  "approval_dependent_revert env e spender amount =
     (let message = error_text (ge_view env) e; prefix = ''estimate_gas_rpc_error:'' in
      if \<not> starts_with prefix (lower message) then allowance_markers (lower message)
      else (case ge_json env (drop (length prefix) message) of
          Some (PDict failure) \<Rightarrow> revert_reason env spender amount failure
        | _ \<Rightarrow> False))"

section \<open>Prices\<close>

definition native_asset :: "gas_env \<Rightarrow> int \<Rightarrow> asset result" where
  "native_asset env chain =
     (case ge_decimals env chain of
        None \<Rightarrow> Inl (ValueError (''native_asset_metadata_unavailable:chain_id='' @ int_text chain))
      | Some d \<Rightarrow> new_asset (PInt chain) (PStr ''native'') (PInt d))"

definition price_planned :: "gas_env \<Rightarrow> tx_request \<Rightarrow> (gas_world, fee_quote) action" where
  "price_planned env p =
     bind_act (lift (native_asset env (t_chain p))) (\<lambda>native.
     bind_act (ask_client (\<lambda>n. ge_price env n native)) (\<lambda>evidence.
     case pe_price evidence of
       None \<Rightarrow> throw (ValueError ''native gas-token price is unavailable'')
     | Some usd \<Rightarrow>
         if pe_asset evidence \<noteq> native then throw (ValueError ''native gas-token price is unavailable'')
         else
           bind_act (lift (ge_time env (pe_timestamp evidence))) (\<lambda>observed.
           if observed = None then throw (ValueError ''gas-token price timestamp must be timezone-aware'')
           else
             bind_act (lift (new_quote_price native (PStr usd) observed (pe_source evidence) (pe_reported evidence))) (\<lambda>price.
             bind_act (lift (max_total_fee p)) (\<lambda>amount.
             lift (new_fee_quote amount (Some price)))))))"

definition plan_fee :: "gas_env \<Rightarrow> fee_rpc \<Rightarrow> string \<Rightarrow> tx_request \<Rightarrow> string \<Rightarrow> (gas_world, tx_request) action" where
  "plan_fee env rpc url request wallet =
     over_rpc (plan (ge_fee env) rpc default_fee_policy url request wallet None None)"

definition unsigned_request :: "int \<Rightarrow> string \<Rightarrow> string \<Rightarrow> int \<Rightarrow> tx_request" where
  "unsigned_request chain recipient call_data amount =
     \<lparr>t_chain = chain, t_to = recipient, t_data = call_data, t_value = amount, t_gas = 0,
      t_gas_price = Some 0, t_max_fee = None, t_priority = None, t_additional = 0, t_method = None,
      t_fallback = None, t_cap = None, t_estimate = None, t_block = None, t_base_fee = None\<rparr>"

definition priced_estimate ::
  "gas_env \<Rightarrow> int \<Rightarrow> string \<Rightarrow> string \<Rightarrow> string \<Rightarrow> string \<Rightarrow> (gas_world, fee_quote) action" where
  "priced_estimate env chain url sender recipient call_data =
     bind_act (lift (quantity (PStr ''0x0''))) (\<lambda>amount.
     bind_act (plan_fee env (ge_rpc env) url (unsigned_request chain recipient call_data amount) sender)
       (price_planned env))"

definition transfer_data :: "string \<Rightarrow> int \<Rightarrow> string result" where
  "transfer_data recipient amount =
     (if length recipient \<noteq> 42 \<or> \<not> starts_with ''0x'' recipient
      then Inl (ValueError ''deposit recipient is invalid'')
      else if \<not> int16_accepts (drop 2 recipient) then Inl (ValueError ''invalid literal for int()'')
      else if amount < 0 \<or> 2 ^ 256 \<le> amount then Inl (ValueError ''transfer amount is invalid'')
      else Inr (''0xa9059cbb'' @ rjust0 64 (lower (drop 2 recipient)) @ rjust0 64 (hex_text (nat amount))))"

definition estimate_direct :: "gas_env \<Rightarrow> asset \<Rightarrow> string \<Rightarrow> int \<Rightarrow> string \<Rightarrow> (gas_world, fee_quote) action" where
  "estimate_direct env a wallet amount recipient =
     bind_act (lift (chain_url env (a_chain a))) (\<lambda>url.
     if is_native a then priced_estimate env (a_chain a) url wallet recipient ''0x''
     else bind_act (lift (transfer_data recipient amount)) (\<lambda>call_data.
          priced_estimate env (a_chain a) url wallet (a_contract a) call_data))"

section \<open>The transactions of a route\<close>

text \<open>
  \<open>_PendingApprovalRpc\<close>: the estimate of gas is answered with a cap, every other call goes to
  the endpoint.
\<close>

definition pending_approval_rpc :: "fee_rpc \<Rightarrow> int \<Rightarrow> fee_rpc" where
  "pending_approval_rpc rpc cap sent r =
     (case r of (url, http_method, params) \<Rightarrow>
        if http_method = ''eth_estimateGas'' then Inr (PStr (''0x'' @ hex_text (nat cap))) else rpc sent r)"

definition step_token :: "pyval \<Rightarrow> string result" where
  "step_token action =
     bind_result (get_item action ''fromToken'' (PDict [])) (\<lambda>t.
     bind_result (get_item t ''address'' (PStr [])) lower_of)"

definition zero_token :: string where
  "zero_token = ''0x'' @ replicate 40 (CHR ''0'')"

text \<open>
  The estimate failed: unless the failure is the missing allowance of an ERC-20 input, and the
  endpoint confirms that it is missing, the failure is raised again.
\<close>

definition plan_pending_approval ::
  "gas_env \<Rightarrow> string \<Rightarrow> pyval \<Rightarrow> pyval \<Rightarrow> tx_request \<Rightarrow> string \<Rightarrow> exn \<Rightarrow> (gas_world, tx_request) action" where
  "plan_pending_approval env url st action request wallet e =
     bind_act (lift (bind_result (get_item st ''estimate'' (PDict []))
       (\<lambda>x. get_item x ''approvalAddress'' PNone))) (\<lambda>spender.
     bind_act (lift (step_token action)) (\<lambda>token.
     bind_act (lift (bind_result (item action ''fromAmount'') py_int)) (\<lambda>amount.
     if \<not> approval_dependent_revert env e spender amount \<or> token \<in> {[], zero_token}
     then throw e
     else (case spender of
         PStr approved \<Rightarrow>
           bind_act (over_exec (ge_rpc env) (\<lambda>bc. token_allowance bc url token wallet approved)) (\<lambda>allowance.
           if amount \<le> allowance \<or> t_gas request \<le> 0 then throw e
           else
             bind_act (plan_fee env (pending_approval_rpc (ge_rpc env) (t_gas request * 2)) url request wallet) (\<lambda>p.
             give (p\<lparr>t_fallback := Some ''pending_approval''\<rparr>)))
       | _ \<Rightarrow> throw e))))"

definition plan_step ::
  "gas_env \<Rightarrow> string \<Rightarrow> pyval \<Rightarrow> pyval \<Rightarrow> tx_request \<Rightarrow> string \<Rightarrow> (gas_world, tx_request) action" where
  "plan_step env url st action request wallet =
     bind_act (handle (plan_fee env (ge_rpc env) url request wallet)
       (\<lambda>e. if is_value_error e then plan_pending_approval env url st action request wallet e
            else throw e)) (\<lambda>p.
     bind_act (lift (max_total_fee p)) (\<lambda>total_fee.
     give (p\<lparr>t_cap := Some total_fee\<rparr>)))"

text \<open>The steps and their transactions, in order; \<open>None\<close> is the answer for incomplete metadata.\<close>

fun plan_transactions ::
  "gas_env \<Rightarrow> string \<Rightarrow> (pyval \<times> tx_request) list \<Rightarrow> (gas_world, (tx_request \<times> fee_quote) list option) action" where
  "plan_transactions env wallet [] = give (Some [])"
| "plan_transactions env wallet ((st, request) # rest) =
     bind_act (lift (get_item st ''action'' PNone)) (\<lambda>action.
     if \<not> is_dict action then give None
     else
       bind_act (lift (get_item action ''fromChainId'' PNone)) (\<lambda>chain.
       if chain \<noteq> PInt (t_chain request) then give None
       else
         bind_act (lift (chain_url env (t_chain request))) (\<lambda>url.
         bind_act (plan_step env url st action request wallet) (\<lambda>p.
         bind_act (price_planned env p) (\<lambda>quote.
         bind_act (plan_transactions env wallet rest) (\<lambda>qs.
         give (map_option (Cons (p, quote)) qs)))))))"

definition estimate_route_transactions ::
  "gas_env \<Rightarrow> gas_route \<Rightarrow> string \<Rightarrow> tx_request list \<Rightarrow> (gas_world, fee_quote list option) action" where
  "estimate_route_transactions env r wallet prepared =
     (if lr_evidence (gr_route r) = None \<or> gr_steps r = [] \<or> length prepared \<noteq> length (gr_steps r)
      then give None
      else bind_act (plan_transactions env wallet (zip (gr_steps r) prepared)) (\<lambda>qs. case qs of
          None \<Rightarrow> give None
        | Some ps \<Rightarrow> (\<lambda>w. (Inr (Some (map snd ps)),
            w\<lparr>gw_caps := AList.update (lr_id (gr_route r)) (map fst ps) (gw_caps w)\<rparr>))))"

section \<open>Approvals\<close>

definition uint256_max :: int where
  "uint256_max = 2 ^ 256 - 1"

definition price_approval ::
  "gas_env \<Rightarrow> string \<Rightarrow> asset \<Rightarrow> string \<Rightarrow> (gas_world, fee_quote) action" where
  "price_approval env wallet token spender =
     bind_act (lift (chain_url env (a_chain token))) (\<lambda>url.
     bind_act (lift (approve_transaction (a_chain token) (a_contract token) spender uint256_max 0)) (\<lambda>t.
     bind_act (priced_estimate env (a_chain token) url wallet (t_to t) (t_data t)) (\<lambda>fee.
     (\<lambda>w. (Inr fee, w\<lparr>gw_approvals := AList.update
        (int_text (a_chain token) @ '':'' @ a_contract token @ '':'' @ lower spender) (fq_amount fee)
        (gw_approvals w)\<rparr>)))))"

text \<open>The approval of one step, \<open>None\<close> for incomplete metadata, no fee where none is needed.\<close>

definition step_approval ::
  "gas_env \<Rightarrow> string \<Rightarrow> pyval \<Rightarrow> step_evidence \<Rightarrow> (gas_world, fee_quote list option) action" where
  "step_approval env wallet st evidence =
     bind_act (lift (get_item st ''estimate'' PNone)) (\<lambda>estimate.
     bind_act (lift (get_item st ''action'' PNone)) (\<lambda>action.
     let spender = (case estimate of PDict d \<Rightarrow> get d ''approvalAddress'' | _ \<Rightarrow> PNone) in
     if \<not> py_truthy spender then give (Some [])
     else if \<not> is_dict action then give None
     else (case se_source evidence of
         None \<Rightarrow> give None
       | Some token \<Rightarrow>
           if is_native token then give (Some [])
           else (case (spender, se_from evidence) of
               (PStr approved, Some amount) \<Rightarrow>
                 bind_act (lift (chain_url env (a_chain token))) (\<lambda>url.
                 bind_act (over_exec (ge_rpc env)
                   (\<lambda>bc. token_allowance bc url (a_contract token) wallet approved)) (\<lambda>allowance.
                 if amount \<le> allowance then give (Some [])
                 else bind_act (price_approval env wallet token approved) (\<lambda>fee. give (Some [fee]))))
             | _ \<Rightarrow> give None))))"

fun step_approvals ::
  "gas_env \<Rightarrow> string \<Rightarrow> (pyval \<times> step_evidence) list \<Rightarrow> (gas_world, fee_quote list option) action" where
  "step_approvals env wallet [] = give (Some [])"
| "step_approvals env wallet ((st, evidence) # rest) =
     bind_act (step_approval env wallet st evidence) (\<lambda>fees. case fees of
       None \<Rightarrow> give None
     | Some fs \<Rightarrow> bind_act (step_approvals env wallet rest) (\<lambda>gs. give (map_option (append fs) gs)))"

definition estimate_approvals :: "gas_env \<Rightarrow> gas_route \<Rightarrow> string \<Rightarrow> (gas_world, fee_quote list option) action" where
  "estimate_approvals env r wallet =
     (case lr_evidence (gr_route r) of
        None \<Rightarrow> give None
      | Some evidence \<Rightarrow>
          let top = filter (\<lambda>s. \<not> se_substep s) (re_steps evidence) in
          if length top \<noteq> length (gr_steps r) then give None
          else step_approvals env wallet (zip (gr_steps r) top))"

section \<open>The estimator\<close>

text \<open>An operational error is raised; any other failure is recorded and rejects the candidate.\<close>

definition operational :: "exn \<Rightarrow> bool" where
  "operational e = (case e of StageDeadlineExceeded _ \<Rightarrow> True | LifiRequestLimit _ _ _ \<Rightarrow> True
     | JobInProgress _ _ \<Rightarrow> True | _ \<Rightarrow> False)"

definition rejecting ::
  "gas_env \<Rightarrow> string option \<Rightarrow> string \<Rightarrow> (gas_world, 'a option) action \<Rightarrow> (gas_world, 'a option) action" where
  "rejecting env route_id phase m =
     handle m (\<lambda>e. if operational e then throw e
       else bind_act (gas_failure env route_id phase e) (\<lambda>_.
         if ge_retry env \<and> is_transient_error (ge_view env) e then throw e else give None))"

definition estimate_prepared_route ::
  "gas_env \<Rightarrow> gas_route \<Rightarrow> string \<Rightarrow> tx_request list \<Rightarrow> (gas_world, fee_quote list option) action" where
  "estimate_prepared_route env r wallet prepared =
     rejecting env (Some (lr_id (gr_route r))) ''estimate''
       (bind_act (estimate_route_transactions env r wallet prepared) (\<lambda>transactions.
        bind_act (estimate_approvals env r wallet) (\<lambda>approvals.
        case (transactions, approvals) of
          (Some ts, Some fees) \<Rightarrow> give (Some (ts @ fees))
        | _ \<Rightarrow> bind_act (gas_failure env (Some (lr_id (gr_route r))) ''estimate''
            (ValueError ''incomplete route gas metadata'')) (\<lambda>_. give None))))"

fun prepare_steps :: "gas_env \<Rightarrow> pyval list \<Rightarrow> (gas_world, tx_request list) action" where
  "prepare_steps env [] = give []"
| "prepare_steps env (s # ss) =
     bind_act (ask_client (\<lambda>n. ge_step env n s)) (\<lambda>t.
     bind_act (prepare_steps env ss) (\<lambda>ts. give (t # ts)))"

definition estimate_gas_quotes ::
  "gas_env \<Rightarrow> gas_route option \<Rightarrow> string \<Rightarrow> asset \<Rightarrow> int \<Rightarrow> string \<Rightarrow> (gas_world, fee_quote list option) action" where
  "estimate_gas_quotes env r wallet source amount recipient =
     rejecting env (map_option (\<lambda>r. lr_id (gr_route r)) r) ''prepare_transactions''
       (case r of
          None \<Rightarrow> bind_act (estimate_direct env source wallet amount recipient) (\<lambda>fee. give (Some [fee]))
        | Some route \<Rightarrow> bind_act (prepare_steps env (gr_steps route)) (estimate_prepared_route env route wallet))"

text \<open>The native order of a Relay quote, validated and then priced on its own chain.\<close>

definition relay_fee ::
  "gas_env \<Rightarrow> order_hashes \<Rightarrow> pyval \<Rightarrow> pyval list \<Rightarrow> string \<Rightarrow> int \<Rightarrow> rat \<Rightarrow> (gas_world, tx_request) action" where
  "relay_fee env oh quote catalog wallet chain now =
     bind_act (lift (item quote ''request'')) (\<lambda>request.
     bind_act (lift (bind_result (item request ''user'') lower_of)) (\<lambda>user.
     if user \<noteq> lower wallet then throw (ValueError ''Relay fee preparation wallet differs from source wallet'')
     else
       bind_act (lift (item request ''originChainId'')) (\<lambda>origin.
       if origin \<noteq> PInt chain then throw (ValueError ''Relay fee preparation chain differs from source chain'')
       else
         bind_act (lift (verified_transaction oh quote catalog now)) (\<lambda>t.
         bind_act (lift (chain_url env chain)) (\<lambda>url.
         bind_act (over_rpc (ask (ge_rpc env) url ''eth_chainId'' [])) (\<lambda>v.
         bind_act (lift (quantity v)) (\<lambda>actual.
         if actual \<noteq> chain then throw (ValueError
           (''relay_rpc_chain_mismatch:expected='' @ int_text chain @ '';actual='' @ int_text actual))
         else
           bind_act (plan_fee env (ge_rpc env) url t wallet) (\<lambda>p.
           bind_act (lift (max_total_fee p)) (\<lambda>total_fee.
           give (p\<lparr>t_cap := Some total_fee\<rparr>))))))))))"

definition prepare_relay_fee ::
  "gas_env \<Rightarrow> order_hashes \<Rightarrow> pyval \<Rightarrow> pyval list \<Rightarrow> string \<Rightarrow> int \<Rightarrow> rat \<Rightarrow> (gas_world, tx_request) action" where
  "prepare_relay_fee env oh quote catalog wallet chain now =
     handle (relay_fee env oh quote catalog wallet chain now) (\<lambda>e.
       bind_act (gas_failure env None ''relay_prepare_transaction'' e) (\<lambda>_. throw e))"

section \<open>What the estimates say\<close>

lemma default_policy_ok: "check_fee_policy default_fee_policy = Inr ()"
  by code_simp

lemma over_rpc_Inr:
  "over_rpc m w = (Inr x, v) \<Longrightarrow> \<exists>sent. m (gw_sent w) = (Inr x, sent) \<and> v = w\<lparr>gw_sent := sent\<rparr>"
  by (auto simp: over_rpc_def split: prod.splits)

lemma plan_fee_sound:
  assumes "plan_fee env rpc url t wallet w = (Inr p, v)"
  shows "well_planned default_fee_policy t (t_cap t) p" "gw_caps v = gw_caps w"
proof -
  from over_rpc_Inr [OF assms [unfolded plan_fee_def]] obtain sent
    where "plan (ge_fee env) rpc default_fee_policy url t wallet None None (gw_sent w) = (Inr p, sent)"
      and v: "v = w\<lparr>gw_sent := sent\<rparr>" by blast
  from planned_soundly [OF this(1) default_policy_ok] show "well_planned default_fee_policy t (t_cap t) p"
    by simp
  show "gw_caps v = gw_caps w" by (simp add: v)
qed

text \<open>
  The transaction that execution gets for a request: the same call, within the network's gas
  ceiling, with a total fee that is the new cap and no more than the old one.
\<close>

definition capped_plan :: "tx_request \<Rightarrow> tx_request \<Rightarrow> bool" where
  "capped_plan t p \<longleftrightarrow>
     t_chain p = t_chain t \<and> t_to p = t_to t \<and> t_data p = t_data t \<and> t_value p = t_value t \<and>
     (\<exists>e. t_estimate p = Some e \<and> 0 < e \<and> e < t_gas p) \<and> t_gas p \<le> max_gas_limit default_fee_policy \<and>
     (\<exists>n. max_total_fee p = Inr n \<and> t_cap p = Some n \<and> (\<forall>c. t_cap t = Some c \<longrightarrow> n \<le> c))"

lemma max_total_fee_same [simp]:
  "max_total_fee (p\<lparr>t_cap := c\<rparr>) = max_total_fee p" "max_total_fee (p\<lparr>t_fallback := f\<rparr>) = max_total_fee p"
  by (cases "t_max_fee p"; cases "t_gas_price p"; simp add: max_total_fee_def maximum_fee_per_gas_def)+

lemma capped_plan_of:
  assumes "well_planned default_fee_policy t (t_cap t) p" "max_total_fee p = Inr n"
  shows "capped_plan t (p\<lparr>t_cap := Some n\<rparr>)" "capped_plan t (p\<lparr>t_fallback := f, t_cap := Some n\<rparr>)"
  using assms by (auto simp: capped_plan_def well_planned_def)

lemma over_exec_caps: "gw_caps (snd (over_exec rpc m w)) = gw_caps w"
  by (simp add: over_exec_def split: prod.split)

lemma plan_pending_approval_sound:
  assumes "plan_pending_approval env url st action t wallet e w = (Inr p, v)"
  shows "\<exists>q f. well_planned default_fee_policy t (t_cap t) q \<and> p = q\<lparr>t_fallback := f\<rparr>"
  using assms plan_fee_sound(1)
  by (auto simp: plan_pending_approval_def split: if_splits pyval.splits) blast

lemma plan_step_capped:
  assumes "plan_step env url st action t wallet w = (Inr p, v)"
  shows "capped_plan t p"
proof -
  obtain q u n where q: "handle (plan_fee env (ge_rpc env) url t wallet)
       (\<lambda>e. if is_value_error e then plan_pending_approval env url st action t wallet e else throw e) w = (Inr q, u)"
      and n: "max_total_fee q = Inr n" and p: "p = q\<lparr>t_cap := Some n\<rparr>"
    using assms by (auto simp: plan_step_def)
  from q consider "plan_fee env (ge_rpc env) url t wallet w = (Inr q, u)"
    | e u' where "plan_pending_approval env url st action t wallet e u' = (Inr q, u)"
    by (auto simp: handle_def split: prod.splits sum.splits if_splits)
  then show ?thesis
  proof cases
    case 1
    from capped_plan_of(1) [OF plan_fee_sound(1) [OF 1] n] show ?thesis by (simp add: p)
  next
    case 2
    then obtain q' f where q': "well_planned default_fee_policy t (t_cap t) q'" "q = q'\<lparr>t_fallback := f\<rparr>"
      using plan_pending_approval_sound by blast
    have "max_total_fee q' = Inr n"
      using n q'(2) by simp
    from capped_plan_of(2) [OF q'(1) this] show ?thesis by (simp add: p q'(2))
  qed
qed

lemma price_planned_amount:
  "price_planned env p w = (Inr q, v) \<Longrightarrow>
     max_total_fee p = Inr (fq_amount q) \<and> (\<exists>price. fq_price q = Some price \<and> a_chain (p_asset price) = t_chain p)"
  by (auto simp: price_planned_def new_fee_quote_def new_quote_price_def native_asset_def new_asset_def
      split: option.splits if_splits pyval.splits sum.splits decimal.splits)

lemma plan_transactions_capped:
  "plan_transactions env wallet sts w = (Inr (Some ps), v) \<Longrightarrow>
     list_all2 (\<lambda>(st, t) (p, q). capped_plan t p \<and> t_cap p = Some (fq_amount q)) sts ps"
proof (induction sts arbitrary: w ps v)
  case (Cons x rest)
  obtain st t where x: "x = (st, t)" by fastforce
  from Cons.prems obtain action url p q qs w1 w2 w3 w4
    where step: "plan_step env url st action t wallet w1 = (Inr p, w2)"
      and priced: "price_planned env p w2 = (Inr q, w3)"
      and rest: "plan_transactions env wallet rest w3 = (Inr (Some qs), w4)" and ps: "ps = (p, q) # qs"
    unfolding x by (auto split: if_splits)
  have "capped_plan t p" by (rule plan_step_capped [OF step])
  moreover have "t_cap p = Some (fq_amount q)"
    using \<open>capped_plan t p\<close> price_planned_amount [OF priced] by (auto simp: capped_plan_def)
  ultimately show ?case using Cons.IH [OF rest] by (simp add: ps x)
qed simp

definition caps_kept :: "gas_world \<Rightarrow> gas_world \<Rightarrow> bool" where
  "caps_kept w v \<longleftrightarrow> gw_caps v = gw_caps w"

lemma caps_bind:
  "keeps caps_kept m \<Longrightarrow> (\<And>x. keeps caps_kept (f x)) \<Longrightarrow> keeps caps_kept (bind_act m f)"
  by (rule keeps_bind) (auto simp: caps_kept_def)

lemma caps_pure: "keeps caps_kept (lift x)" "keeps caps_kept (give y)" "keeps caps_kept (throw e)"
  by (rule keeps_pure, simp add: caps_kept_def)+

lemma caps_basic:
  "keeps caps_kept (over_rpc m)" "keeps caps_kept (over_exec rpc n)" "keeps caps_kept (ask_client f)"
  by (simp_all add: keeps_def caps_kept_def over_rpc_def over_exec_def ask_client_def split: prod.split)

lemma caps_option:
  "keeps R m \<Longrightarrow> (\<And>x. keeps R (f x)) \<Longrightarrow> keeps R (case y of None \<Rightarrow> m | Some x \<Rightarrow> f x)"
  by (cases y) simp_all

lemma caps_if: "keeps R m \<Longrightarrow> keeps R n \<Longrightarrow> keeps R (if b then m else n)"
  by simp

lemmas caps_intros = caps_bind caps_pure caps_basic caps_option caps_if

lemma approvals_keep_caps: "keeps caps_kept (estimate_approvals env r wallet)"
proof -
  have priced: "keeps caps_kept (priced_estimate env chain url sender recipient d)" for chain url sender recipient d
    unfolding priced_estimate_def plan_fee_def price_planned_def by (intro caps_intros)
  have approval: "keeps caps_kept (price_approval env wallet token spender)" for token spender
    unfolding price_approval_def
    by (intro caps_intros priced) (simp_all add: keeps_def caps_kept_def)
  have step: "keeps caps_kept (step_approval env wallet st e)" for st e
  proof -
    have "keeps caps_kept (case (v, n) of (PStr approved, Some amount) \<Rightarrow>
          bind_act (lift (chain_url env (a_chain token))) (\<lambda>url.
          bind_act (over_exec (ge_rpc env)
            (\<lambda>bc. token_allowance bc url (a_contract token) wallet approved)) (\<lambda>allowance.
          if amount \<le> allowance then give (Some [])
          else bind_act (price_approval env wallet token approved) (\<lambda>fee. give (Some [fee]))))
        | _ \<Rightarrow> give None)" for v n token
      by (cases v; cases n; simp only: prod.case pyval.case option.case; intro caps_intros approval)
    then show ?thesis unfolding step_approval_def Let_def by (intro caps_intros)
  qed
  have "keeps caps_kept (step_approvals env wallet sts)" for sts
  proof (induction sts)
    case (Cons x sts)
    show ?case by (cases x; simp only: step_approvals.simps; intro caps_intros step Cons.IH)
  qed (simp only: step_approvals.simps, intro caps_intros)
  then show ?thesis unfolding estimate_approvals_def Let_def by (intro caps_intros)
qed

lemma route_transactions_capped:
  assumes "estimate_route_transactions env r wallet prepared w = (Inr (Some ts), v)"
  shows "\<exists>ps. map_of (gw_caps v) (lr_id (gr_route r)) = Some ps \<and> list_all2 capped_plan prepared ps
    \<and> map t_cap ps = map (\<lambda>q. Some (fq_amount q)) ts"
proof -
  obtain qs u where len: "length prepared = length (gr_steps r)"
      and qs: "plan_transactions env wallet (zip (gr_steps r) prepared) w = (Inr (Some qs), u)"
      and ts: "ts = map snd qs" and v: "v = u\<lparr>gw_caps := AList.update (lr_id (gr_route r)) (map fst qs) (gw_caps u)\<rparr>"
    using assms by (auto simp: estimate_route_transactions_def split: if_splits option.splits)
  from plan_transactions_capped [OF qs]
  have all: "list_all2 (\<lambda>t (p, q). capped_plan t p \<and> t_cap p = Some (fq_amount q)) prepared qs"
    using len by (auto simp: list_all2_conv_all_nth split: prod.splits)
  then have "list_all2 capped_plan prepared (map fst qs)"
    unfolding list_all2_map2 by (rule list_all2_mono) auto
  moreover from all have "map t_cap (map fst qs) = map (\<lambda>q. Some (fq_amount q)) (map snd qs)"
    by (induction rule: list_all2_induct) auto
  ultimately show ?thesis by (auto simp: v ts update_conv')
qed

text \<open>
  C26: gas evidence covers what execution will pay: when a route gets quotes, each of its
  unsigned transactions has a plan kept for execution that makes the same call, whose total
  fee is its cap and no more than the cap it came with, and the quote of that transaction is
  exactly this cap, also where the estimate stands in for a pending approval.
\<close>

theorem route_quotes_cover_caps:
  assumes "estimate_prepared_route env r wallet prepared w = (Inr (Some quotes), v)"
  shows "\<exists>ps (fees :: fee_quote list). map_of (gw_caps v) (lr_id (gr_route r)) = Some ps \<and> list_all2 capped_plan prepared ps \<and>
    map (\<lambda>q. Some (fq_amount q)) quotes = map t_cap ps @ map (\<lambda>q. Some (fq_amount q)) fees"
proof -
  obtain ts fees u where ts: "estimate_route_transactions env r wallet prepared w = (Inr (Some ts), u)"
      and fees: "estimate_approvals env r wallet u = (Inr (Some fees), v)" and q: "quotes = ts @ fees"
    using assms
    by (auto simp: estimate_prepared_route_def rejecting_def handle_def bind_act_def gas_failure_def
        split: prod.splits sum.splits option.splits if_splits)
  have "gw_caps v = gw_caps u"
    using approvals_keep_caps [of env r wallet] fees unfolding keeps_def caps_kept_def by (metis snd_conv)
  moreover from route_transactions_capped [OF ts] obtain ps
    where "map_of (gw_caps u) (lr_id (gr_route r)) = Some ps" "list_all2 capped_plan prepared ps"
      "map t_cap ps = map (\<lambda>q. Some (fq_amount q)) ts" by blast
  ultimately show ?thesis by (auto simp: q)
qed

text \<open>
  A Relay order that is priced for execution is the verified one: the planned transaction
  pays the depository of the origin chain the single approved input of the order, commits to
  the order's hash, belongs to the wallet and the chain that were asked for, and its total fee
  is its cap.
\<close>

theorem relay_fee_committed:
  assumes "prepare_relay_fee env oh quote catalog wallet chain now w = (Inr p, v)"
  shows "\<exists>t request body order digest depository source_id user.
    verified_transaction oh quote catalog now = Inr t \<and> capped_plan t p \<and>
    item quote ''request'' = Inr request \<and> item request ''originChainId'' = Inr (PInt chain) \<and>
    bind_result (item request ''user'') lower_of = Inr user \<and> user = lower wallet \<and>
    step_commits oh request body depository digest t \<and> input_commits request order source_id (t_value p)"
proof -
  have fee: "relay_fee env oh quote catalog wallet chain now w = (Inr p, v)"
    using assms by (auto simp: prepare_relay_fee_def handle_def bind_act_def split: prod.splits sum.splits)
  then obtain request user t url q u u' n
    where request: "item quote ''request'' = Inr request" "bind_result (item request ''user'') lower_of = Inr user"
        "user = lower wallet" "item request ''originChainId'' = Inr (PInt chain)"
      and t: "verified_transaction oh quote catalog now = Inr t"
      and q: "plan_fee env (ge_rpc env) url t wallet u = (Inr q, u')"
      and n: "max_total_fee q = Inr n" and p: "p = q\<lparr>t_cap := Some n\<rparr>"
    by (auto simp: relay_fee_def split: if_splits)
  have capped: "capped_plan t p" using capped_plan_of(1) [OF plan_fee_sound(1) [OF q] n] by (simp add: p)
  then have same: "t_value p = t_value t" by (simp add: capped_plan_def)
  from verified_commits [OF t] obtain request' body order digest depository source_id
    where c: "item quote ''request'' = Inr request'" "step_commits oh request' body depository (''0x'' @ digest) t"
      "input_commits request' order source_id (t_value t)" by blast
  have "request' = request" using c(1) request(1) by simp
  with c same request t capped show ?thesis by auto
qed

section \<open>Sample estimates\<close>

definition sample_gas_rpc :: fee_rpc where
  "sample_gas_rpc sent r =
     (if fst (snd r) = ''eth_chainId'' then Inr (PStr ''0x1'') else sample_rpc sent r)"

definition sample_gas_env :: gas_env where
  "sample_gas_env = \<lparr>ge_fee = sample_env, ge_rpc = sample_gas_rpc, ge_url = (\<lambda>_. Some ''u''),
     ge_step = (\<lambda>_ _. Inr sample_request),
     ge_price = (\<lambda>_ a. Inr \<lparr>pe_asset = a, pe_price = Some ''2'', pe_timestamp = ''t'', pe_source = ''quote'',
        pe_reported = None\<rparr>),
     ge_decimals = (\<lambda>_. Some 18), ge_time = (\<lambda>_. Inr (Some 0)), ge_json = (\<lambda>_. None), ge_abi = (\<lambda>_. None),
     ge_redact = (\<lambda>t. t),
     ge_view = \<lparr>ev_text = (\<lambda>_. []), ev_causes = (\<lambda>_. []), ev_diagnostic = (\<lambda>_. PNone), ev_infinity = PNone\<rparr>,
     ge_retry = False\<rparr>"

definition sample_gas_world :: gas_world where
  "sample_gas_world = \<lparr>gw_sent = [], gw_asked = 0, gw_failures = [], gw_caps = [], gw_approvals = []\<rparr>"

definition sample_gas_asset :: asset where
  "sample_gas_asset = \<lparr>a_chain = 137, a_contract = ''native'', a_decimals = 18\<rparr>"

definition sample_gas_route :: gas_route where
  "sample_gas_route = \<lparr>gr_route = \<lparr>lr_id = ''r'', lr_from = 5, lr_to = 4, lr_to_min = 4, lr_gas = [],
       lr_evidence = Some \<lparr>re_route_id = ''r'', re_steps = [\<lparr>se_type = None, se_provider = None,
           se_source = Some sample_gas_asset, se_destination = None, se_from = Some 5, se_to = None,
           se_recipient = None, se_sha = [], se_source_price = None, se_destination_price = None,
           se_source_time = None, se_destination_time = None, se_substep = False, se_error = None\<rparr>],
         re_source = sample_gas_asset, re_destination = sample_gas_asset, re_input = 5, re_output = 4,
         re_min_output = 4, re_recipient = None, re_timestamp = ''t'', re_prices = [], re_sha = [],
         re_payload = [], re_costs_complete = True, re_costs_reason = None\<rparr>\<rparr>,
     gr_steps = [PDict [(''action'', PDict [(''fromChainId'', PInt 137)]),
       (''estimate'', PDict [(''approvalAddress'', PStr (''0x'' @ replicate 40 (CHR ''c'')))])]]\<rparr>"

definition sample_wallet :: string where
  "sample_wallet = ''0x'' @ replicate 40 (CHR ''b'')"

theorem route_quotes_cover_caps_witness:
  "\<exists>quotes v ps (fees :: fee_quote list).
     estimate_prepared_route sample_gas_env sample_gas_route sample_wallet [sample_request] sample_gas_world
       = (Inr (Some quotes), v) \<and> length quotes = 1 \<and> list_all2 capped_plan [sample_request] ps \<and>
     map (\<lambda>q. Some (fq_amount q)) quotes = map t_cap ps @ map (\<lambda>q. Some (fq_amount q)) fees"
proof -
  have "case fst (estimate_prepared_route sample_gas_env sample_gas_route sample_wallet [sample_request]
      sample_gas_world) of Inr (Some qs) \<Rightarrow> length qs = 1 | _ \<Rightarrow> False"
    by code_simp
  then obtain quotes v where run: "estimate_prepared_route sample_gas_env sample_gas_route sample_wallet
      [sample_request] sample_gas_world = (Inr (Some quotes), v)" and "length quotes = 1"
    by (auto split: sum.splits option.splits prod.splits simp: fst_def)
  with route_quotes_cover_caps [OF run] show ?thesis by blast
qed

theorem relay_fee_committed_witness:
  "\<exists>p v request order source_id.
     prepare_relay_fee sample_gas_env sample_hashes (sample_relay_quote sample_request_id) sample_chains
       sample_user 1 100 sample_gas_world = (Inr p, v) \<and> t_value p = 90 \<and>
     item (sample_relay_quote sample_request_id) ''request'' = Inr request \<and>
     input_commits request order source_id (t_value p)"
proof -
  have "case fst (prepare_relay_fee sample_gas_env sample_hashes (sample_relay_quote sample_request_id) sample_chains
       sample_user 1 100 sample_gas_world) of Inr p \<Rightarrow> t_value p = 90 | _ \<Rightarrow> False"
    by code_simp
  then obtain p v where run: "prepare_relay_fee sample_gas_env sample_hashes
      (sample_relay_quote sample_request_id) sample_chains sample_user 1 100 sample_gas_world = (Inr p, v)"
      and "t_value p = 90"
    by (auto split: sum.splits prod.splits simp: fst_def)
  from relay_fee_committed [OF run] obtain request order source_id
    where "item (sample_relay_quote sample_request_id) ''request'' = Inr request"
      "input_commits request order source_id (t_value p)" by (elim exE conjE)
  with run \<open>t_value p = 90\<close> show ?thesis by (intro exI conjI)
qed

end
