(* ===== verification/Quote_Http.thy ===== *)
theory Quote_Http
  imports Lifi_Quota Stages
begin

text \<open>
  The quote providers' HTTP client (\<open>lifi_http.py\<close>): cached reads, a durable reservation before
  every dispatch, starts of one scope a second apart, and bounded retries. The world holds the
  tables of the operational database, one clock (the code reads both the wall clock and the
  monotonic one), the counters and the log of the requests that left. The HTTP library, the
  digest of a cache key and the text of a float are parameters, as are the locks of other
  threads: whether one was held, or was not released before the stage's deadline.
\<close>

section \<open>The world\<close>

record response =
  rs_status :: int
  rs_headers :: headers
  rs_text :: pyval

record sending =
  sd_transport :: string
  sd_scope :: string
  sd_bucket :: string
  sd_url :: string
  sd_attempt :: nat
  sd_time :: rat

record cache_row =
  cr_expires :: rat
  cr_body :: pyval
  cr_observed :: "rat option"

record quote_net =
  n_quota :: quota_db
  n_cache :: "((string \<times> string) \<times> cache_row) list"
  n_progress :: "((string \<times> string) \<times> rat \<times> pyval) list"
  n_health :: "(string \<times> rat) list"
  n_pools :: "(string \<times> string \<times> string list) list"
  n_clock :: rat
  n_counts :: "(string \<times> string) list"
  n_sent :: "sending list"

definition empty_net :: "rat \<Rightarrow> quote_net" where
  "empty_net now = \<lparr>n_quota = empty_quota, n_cache = [], n_progress = [], n_health = [],
     n_pools = [], n_clock = now, n_counts = [], n_sent = []\<rparr>"

record http_args =
  ha_params :: pyval
  ha_json :: pyval
  ha_namespace :: pyval
  ha_timeout :: rat
  ha_headers :: headers

record http_client =
  hc_transport :: string
  hc_scope :: string
  hc_request_scope :: string
  hc_base :: string
  hc_key :: string
  hc_attempts :: nat
  hc_wait :: rat
  hc_purpose :: string
  hc_quota :: quota_config

record http_env =
  he_deadline :: "deadline option"
  he_digest :: "pyval \<Rightarrow> string"
  he_float :: "rat \<Rightarrow> string"
  he_redact :: "pyval \<Rightarrow> pyval"
  he_date :: "string \<Rightarrow> rat option"
  he_http :: "sending list \<Rightarrow> string \<Rightarrow> string \<Rightarrow> string \<Rightarrow> http_args \<Rightarrow> rat \<times> response result"
  he_key_lock :: "quote_net \<Rightarrow> bool result"
  he_slot :: "quote_net \<Rightarrow> unit result"

text \<open>The constructor: the scope is the digest of the key, or of the proxy.\<close>

definition request_attempts :: "pyval \<Rightarrow> nat result" where
  "request_attempts v = (case v of
      PInt n \<Rightarrow> if 1 \<le> n \<and> n \<le> 10 then Inr (nat n)
        else Inl (ValueError ''max_attempts must be an integer between 1 and 10'')
    | _ \<Rightarrow> Inl (ValueError ''max_attempts must be an integer between 1 and 10''))"

definition new_http_client ::
  "(string \<Rightarrow> string) \<Rightarrow> string \<Rightarrow> string \<Rightarrow> string \<Rightarrow> string \<Rightarrow> quota_config \<Rightarrow> string \<Rightarrow> pyval \<Rightarrow> rat
     \<Rightarrow> http_client result" where
  "new_http_client sha proxy purpose base provider store key attempts wait_seconds =
     bind_result (require (purpose \<in> {''planning'', ''execution''})
       (ValueError ''invalid LI.FI request purpose'')) (\<lambda>_.
     bind_result (request_attempts attempts) (\<lambda>n.
     bind_result (require (0 \<le> wait_seconds)
       (ValueError ''quota_wait_seconds must be finite and nonnegative'')) (\<lambda>_.
     let keyed = (key \<noteq> [] \<and> provider = ''lifi'');
         scope = sha (if keyed then ''lifi-key:'' @ key
           else if provider = ''lifi'' then proxy else provider @ '':'' @ proxy) in
     Inr \<lparr>hc_transport = sha proxy, hc_scope = scope, hc_request_scope = scope, hc_base = base,
       hc_key = key, hc_attempts = n, hc_wait = wait_seconds, hc_purpose = purpose,
       hc_quota = (if keyed then authenticated_quota else store)\<rparr>)))"

section \<open>Parts of a request\<close>

definition count_event :: "http_client \<Rightarrow> string \<Rightarrow> (quote_net, unit) action" where
  "count_event c name w = (Inr (), w\<lparr>n_counts := n_counts w @ [(hc_transport c, name)]\<rparr>)"

definition check_stage :: "http_env \<Rightarrow> (quote_net, unit) action" where
  "check_stage env w = (check_deadline (he_deadline env) (n_clock w), w)"

definition on_quota :: "(rat \<Rightarrow> (quota_db, 'a) action) \<Rightarrow> (quote_net, 'a) action" where
  "on_quota f w = (case f (n_clock w) (n_quota w) of (r, db) \<Rightarrow> (r, w\<lparr>n_quota := db\<rparr>))"

definition later :: "rat \<Rightarrow> quote_net \<Rightarrow> quote_net" where
  "later seconds w = w\<lparr>n_clock := n_clock w + seconds\<rparr>"

definition ends_with :: "string \<Rightarrow> string \<Rightarrow> bool" where
  "ends_with p s \<longleftrightarrow> starts_with (rev p) (rev s)"

definition request_bucket :: "string \<Rightarrow> string" where
  "request_bucket url =
     (if ends_with ''/stepTransaction'' url then ''steps''
      else if ends_with ''/routes'' url \<or> ends_with ''/quote'' url \<or> ends_with ''/quote/v2'' url
      then ''routes'' else ''public'')"

definition cache_ttl :: "string \<Rightarrow> rat" where
  "cache_ttl url =
     (if request_bucket url = ''routes'' then 240 else if request_bucket url = ''steps'' then 120
      else if ends_with ''/status'' url then 10 else 60)"

definition cache_key :: "http_env \<Rightarrow> string \<Rightarrow> string \<Rightarrow> http_args \<Rightarrow> string" where
  "cache_key env verb url args = he_digest env
     (PList [PStr verb, PStr url, ha_params args, ha_json args, ha_namespace args])"

definition observed_header :: string where
  "observed_header = ''x-inventory-observed-at''"

definition cached_row :: "http_client \<Rightarrow> string \<Rightarrow> quote_net \<Rightarrow> (pyval \<times> rat) option" where
  "cached_row c key w = (case map_of (n_cache w) (hc_request_scope c, key) of
      None \<Rightarrow> None
    | Some r \<Rightarrow> if n_clock w < cr_expires r
        then map_option (\<lambda>t. (cr_body r, t)) (cr_observed r) else None)"

definition cached_reply :: "http_env \<Rightarrow> pyval \<times> rat \<Rightarrow> response" where
  "cached_reply env row = (case row of (body, seen) \<Rightarrow>
     \<lparr>rs_status = 200, rs_headers = [(observed_header, he_float env seen)], rs_text = body\<rparr>)"

definition cached_response ::
  "http_env \<Rightarrow> http_client \<Rightarrow> string \<Rightarrow> string \<Rightarrow> http_args \<Rightarrow> (quote_net, response option) action" where
  "cached_response env c verb url args w =
     (case cached_row c (cache_key env verb url args) w of
        None \<Rightarrow> (Inr None, w)
      | Some row \<Rightarrow> bind_act (count_event c ''cache_hits'') (\<lambda>_. give (Some (cached_reply env row))) w)"

definition record_retry :: "http_client \<Rightarrow> (quote_net, unit) action" where
  "record_retry c = count_event c ''retries''"

definition record_search :: "http_client \<Rightarrow> string \<Rightarrow> pyval \<Rightarrow> (quote_net, unit) action" where
  "record_search c key data w = (Inr (),
     w\<lparr>n_progress := AList.update (hc_request_scope c, key) (n_clock w, data) (n_progress w)\<rparr>)"

section \<open>Waiting\<close>

text \<open>The slices of a wait: at most a second each, with the deadline checked before each.\<close>

lemma nat_ceiling_less:
  fixes x y :: rat
  assumes "0 < x" "y \<le> 0 \<or> y \<le> x - 1"
  shows "nat \<lceil>y\<rceil> < nat \<lceil>x\<rceil>"
proof -
  have x: "0 < \<lceil>x\<rceil>" using assms(1) by simp
  have "\<lceil>y\<rceil> < \<lceil>x\<rceil>"
    using assms(2)
  proof
    assume "y \<le> 0"
    then have "\<lceil>y\<rceil> \<le> 0" by simp
    with x show ?thesis by linarith
  next
    assume "y \<le> x - 1"
    then have "\<lceil>y\<rceil> \<le> \<lceil>x - 1\<rceil>" by (rule ceiling_mono)
    then show ?thesis by simp
  qed
  with x show ?thesis by simp
qed

function pause :: "http_env \<Rightarrow> rat \<Rightarrow> (quote_net, unit) action" where
  "pause env delay w =
     (if delay \<le> 0 then (Inr (), w)
      else case check_deadline (he_deadline env) (n_clock w) of
          Inl e \<Rightarrow> (Inl e, w)
        | Inr _ \<Rightarrow> pause env (delay - min 1 delay) (later (min 1 delay) w))"
  by auto
termination
  by (relation "measure (\<lambda>(env, delay, w). nat \<lceil>delay\<rceil>)") (auto simp: min_def intro: nat_ceiling_less)

function await_dispatch :: "http_env \<Rightarrow> rat \<Rightarrow> (quote_net, unit) action" where
  "await_dispatch env dispatch w =
     (if dispatch \<le> n_clock w then (Inr (), w)
      else case check_deadline (he_deadline env) (n_clock w) of
          Inl e \<Rightarrow> (Inl e, w)
        | Inr _ \<Rightarrow> await_dispatch env dispatch (later (min 1 (max 0 (dispatch - n_clock w))) w))"
  by auto
termination
  by (relation "measure (\<lambda>(env, dispatch, w). nat \<lceil>dispatch - n_clock w\<rceil>)")
    (simp, simp only: in_measure prod.case, rule nat_ceiling_less, auto simp: later_def min_def)

declare pause.simps [simp del] await_dispatch.simps [simp del]

section \<open>Reserving and starting\<close>

text \<open>\<open>except DispatchWait\<close>: the instant to try again at.\<close>

definition retry_time :: "'a result \<Rightarrow> rat option" where
  "retry_time r = (case r of Inl e \<Rightarrow> (case e of DispatchWait t \<Rightarrow> Some t | _ \<Rightarrow> None) | Inr _ \<Rightarrow> None)"

definition until_start :: "(string \<times> rat) list \<Rightarrow> string \<Rightarrow> rat \<Rightarrow> rat" where
  "until_start starts scope now = (case map_of starts scope of None \<Rightarrow> 0 | Some t \<Rightarrow> t + 1 - now)"

lemma retry_time_Some [simp]: "retry_time r = Some t \<longleftrightarrow> r = Inl (DispatchWait t)"
  by (auto simp: retry_time_def split: sum.splits exn.splits)

lemma retry_time_wait [simp]: "retry_time (Inl (DispatchWait t)) = Some t"
  by simp

lemma transaction_Inl: "transaction f s = (Inl e, t) \<longleftrightarrow> f s = Inl e \<and> t = s"
  by (auto simp: transaction_def split: sum.splits)

lemma pace_wait: "pace previous now = Inl (DispatchWait t) \<longleftrightarrow> (\<exists>s. previous = Some s \<and> t = s + 1 \<and> now < t)"
  by (auto simp: pace_def split: option.splits)

lemma latest_wait_error: "latest_wait ws = Inl e \<Longrightarrow> e = TypeError"
  by (auto simp: latest_wait_def Let_def split: list.splits if_splits)

lemma bucket_state_error: "bucket_state cfg db scope b now = Inl e \<Longrightarrow> e = KeyError"
  by (auto simp: bucket_state_def Let_def split: option.splits)

lemma reserve_wait:
  assumes "reserve_request cfg scope b k p paced now db = (Inl (DispatchWait t), db')"
  shows "\<exists>s. map_of (q_starts db) scope = Some s \<and> t = s + 1 \<and> now < t"
  using assms unfolding reserve_request_def
  by (auto simp: transaction_Inl bind_result_Inl pace_wait check_cooldown_def
      dest: latest_wait_error bucket_state_error split: if_splits)

lemma mark_wait:
  assumes "mark_started cfg scope i paced now db = (Inl (DispatchWait t), db')"
  shows "db' = db \<and> (\<exists>s. map_of (q_actual db) scope = Some s \<and> t = s + 1 \<and> now < t)"
  using assms unfolding mark_started_def
  by (auto simp: transaction_Inl bind_result_Inl pace_wait check_cooldown_def
      dest: bucket_state_error split: if_splits option.splits)

function reserve_paced :: "http_env \<Rightarrow> http_client \<Rightarrow> string \<Rightarrow> string \<Rightarrow> (quote_net, nat) action" where
  "reserve_paced env c bucket key w =
     (case check_deadline (he_deadline env) (n_clock w) of
        Inl e \<Rightarrow> (Inl e, w)
      | Inr _ \<Rightarrow>
          (case on_quota (reserve_request (hc_quota c) (hc_scope c) bucket key (hc_purpose c) True) w of
             (r, v) \<Rightarrow> (case retry_time r of
                None \<Rightarrow> (r, v)
              | Some t \<Rightarrow> reserve_paced env c bucket key (later (min 1 (max 0 (t - n_clock v))) v))))"
  by auto
termination
proof (relation "measure (\<lambda>(env, c, bucket, key, w).
    nat \<lceil>until_start (q_starts (n_quota w)) (hc_scope c) (n_clock w)\<rceil>)", goal_cases)
  case (2 env c bucket key w u r v t)
  then obtain db where db: "reserve_request (hc_quota c) (hc_scope c) bucket key (hc_purpose c) True
      (n_clock w) (n_quota w) = (Inl (DispatchWait t), db)" "v = w\<lparr>n_quota := db\<rparr>"
    by (auto simp: on_quota_def split: prod.splits)
  from reserve_wait [OF db(1)] reserve_refused [OF db(1)] db(2) show ?case
    by (simp only: in_measure prod.case, intro nat_ceiling_less)
      (auto simp: until_start_def later_def min_def max_def)
qed simp

function start_paced :: "http_env \<Rightarrow> http_client \<Rightarrow> nat \<Rightarrow> (quote_net, unit) action" where
  "start_paced env c i w =
     (case check_deadline (he_deadline env) (n_clock w) of
        Inl e \<Rightarrow> (Inl e, w)
      | Inr _ \<Rightarrow>
          (case on_quota (mark_started (hc_quota c) (hc_scope c) i True) w of
             (r, v) \<Rightarrow> (case retry_time r of
                None \<Rightarrow> (r, v)
              | Some t \<Rightarrow> start_paced env c i (later (min 1 (max 0 (t - n_clock v))) v))))"
  by auto
termination
proof (relation "measure (\<lambda>(env, c, i, w).
    nat \<lceil>until_start (q_actual (n_quota w)) (hc_scope c) (n_clock w)\<rceil>)", goal_cases)
  case (2 env c i w u r v t)
  then obtain db where db: "mark_started (hc_quota c) (hc_scope c) i True (n_clock w) (n_quota w)
      = (Inl (DispatchWait t), db)" "v = w\<lparr>n_quota := db\<rparr>"
    by (auto simp: on_quota_def split: prod.splits)
  from mark_wait [OF db(1)] db(2) show ?case
    by (simp only: in_measure prod.case, intro nat_ceiling_less)
      (auto simp: until_start_def later_def min_def max_def)
qed simp

declare reserve_paced.simps [simp del] start_paced.simps [simp del]

section \<open>One request\<close>

text \<open>\<open>client.request\<close>: the exchange takes time; its end is the clock's next reading.\<close>

definition http_exchange ::
  "http_env \<Rightarrow> http_client \<Rightarrow> string \<Rightarrow> string \<Rightarrow> http_args \<Rightarrow> (quote_net, response) action" where
  "http_exchange env c verb url args w =
     (case he_http env (n_sent w) (hc_transport c) verb url args of
        (took, reply) \<Rightarrow> (reply, later took w))"

definition log_sending :: "http_client \<Rightarrow> string \<Rightarrow> string \<Rightarrow> nat \<Rightarrow> (quote_net, unit) action" where
  "log_sending c bucket url i w = (Inr (), w\<lparr>n_sent := n_sent w @
     [\<lparr>sd_transport = hc_transport c, sd_scope = hc_scope c, sd_bucket = bucket, sd_url = url,
       sd_attempt = i, sd_time = n_clock w\<rparr>]\<rparr>)"

definition fit_timeout :: "http_env \<Rightarrow> http_args \<Rightarrow> (quote_net, http_args) action" where
  "fit_timeout env args w =
     (bind_result (request_timeout (he_deadline env) (ha_timeout args) (n_clock w))
        (\<lambda>t. Inr (args\<lparr>ha_timeout := t\<rparr>)), w)"

definition read_clock :: "(quote_net, rat) action" where
  "read_clock w = (Inr (n_clock w), w)"

definition is_success :: "response \<Rightarrow> bool" where
  "is_success r \<longleftrightarrow> 200 \<le> rs_status r \<and> rs_status r \<le> 299"

definition store_reply :: "http_client \<Rightarrow> string \<Rightarrow> rat \<Rightarrow> rat \<Rightarrow> response \<Rightarrow> (quote_net, unit) action" where
  "store_reply c key finished ttl r w = (Inr (),
     if is_success r then w\<lparr>n_cache := AList.update (hc_request_scope c, key)
       \<lparr>cr_expires = finished + ttl, cr_body = rs_text r, cr_observed = Some finished\<rparr> (n_cache w)\<rparr>
     else w)"

definition count_sending :: "http_client \<Rightarrow> string \<Rightarrow> (quote_net, unit) action" where
  "count_sending c bucket =
     bind_act (count_event c ''requests'') (\<lambda>_.
     bind_act (count_event c ''http_attempts'') (\<lambda>_.
     bind_act (count_event c (bucket @ ''_requests'')) (\<lambda>_.
     count_event c (''http_attempts_by_bucket:'' @ bucket))))"

text \<open>The reservation, the start, the exchange and what the response says of the quota.\<close>

definition dispatch_request ::
  "http_env \<Rightarrow> http_client \<Rightarrow> string \<Rightarrow> string \<Rightarrow> string \<Rightarrow> http_args \<Rightarrow> (quote_net, response) action" where
  "dispatch_request env c key verb url args =
     (let bucket = request_bucket url in
     bind_act (\<lambda>w. (he_slot env w, w)) (\<lambda>_.
     bind_act (on_quota (\<lambda>now. reserve_dispatch_time (hc_scope c) now)) (\<lambda>dispatch.
     bind_act (await_dispatch env dispatch) (\<lambda>_.
     bind_act (check_stage env) (\<lambda>_.
     bind_act (fit_timeout env args) (\<lambda>fitted.
     bind_act (reserve_paced env c bucket key) (\<lambda>i.
     bind_act (count_event c ''reservations'') (\<lambda>_.
     bind_act (start_paced env c i) (\<lambda>_.
     bind_act (fit_timeout env fitted) (\<lambda>final_args.
     bind_act (count_sending c bucket) (\<lambda>_.
     bind_act (log_sending c bucket url i) (\<lambda>_.
     bind_act (http_exchange env c verb url final_args) (\<lambda>reply.
     bind_act read_clock (\<lambda>finished.
     let seen = reply\<lparr>rs_headers := AList.update observed_header (he_float env finished) (rs_headers reply)\<rparr> in
     bind_act (on_quota (observe (hc_quota c) (he_redact env) (he_date env) (hc_scope c) bucket i
       (rs_headers seen) (rs_status seen) (rs_text seen))) (\<lambda>limited. case limited of
       Some e \<Rightarrow> bind_act (count_event c ''provider_429'') (\<lambda>_. throw e)
     | None \<Rightarrow> bind_act (store_reply c key finished (cache_ttl url) seen) (\<lambda>_. give seen))))))))))))))))"

definition count_limited :: "http_client \<Rightarrow> exn \<Rightarrow> (quote_net, 'a) action" where
  "count_limited c e = (case e of
      LifiRequestLimit _ _ _ \<Rightarrow> bind_act (count_event c ''limited'') (\<lambda>_.
        bind_act (count_event c ''quota_waits'') (\<lambda>_. throw e))
    | _ \<Rightarrow> throw e)"

definition request_once ::
  "http_env \<Rightarrow> http_client \<Rightarrow> string \<Rightarrow> string \<Rightarrow> http_args \<Rightarrow> (quote_net, response) action" where
  "request_once env c verb url args =
     (let key = cache_key env verb url args in
     bind_act (\<lambda>w. (he_key_lock env w, w)) (\<lambda>waited.
     bind_act (check_stage env) (\<lambda>_.
     bind_act (\<lambda>w. (Inr (cached_row c key w), w)) (\<lambda>cached. case cached of
       Some row \<Rightarrow> bind_act (count_event c ''cache_hits'') (\<lambda>_.
         bind_act (if waited then count_event c ''singleflight_hits'' else give ()) (\<lambda>_.
         give (cached_reply env row)))
     | None \<Rightarrow> handle (dispatch_request env c key verb url args) (count_limited c)))))"

section \<open>Retries\<close>

definition server_error :: "int \<Rightarrow> bool" where
  "server_error status \<longleftrightarrow> status \<in> {500, 502, 503, 504}"

text \<open>How long to wait before another attempt, if there is one; \<open>spare\<close> counts those left.\<close>

definition retry_delay :: "exn \<Rightarrow> rat \<Rightarrow> nat \<Rightarrow> nat \<Rightarrow> rat \<Rightarrow> rat option" where
  "retry_delay e wait_until number spare now =
     (if spare = 0 then None
      else case e of
          LifiRequestLimit _ _ (Some (At t)) \<Rightarrow> if wait_until < t then None else Some (max 0 (t - now))
        | TransportError _ \<Rightarrow> Some (2 ^ number)
        | _ \<Rightarrow> None)"

definition reply_delay :: "response \<Rightarrow> nat \<Rightarrow> nat \<Rightarrow> rat option" where
  "reply_delay r number spare = (if server_error (rs_status r) \<and> 0 < spare then Some (2 ^ number) else None)"

definition pause_before_retry :: "http_env \<Rightarrow> http_client \<Rightarrow> rat \<Rightarrow> (quote_net, unit) action" where
  "pause_before_retry env c delay =
     bind_act (record_retry c) (\<lambda>_. bind_act (pause env delay) (\<lambda>_. check_stage env))"

fun retry_loop ::
  "http_env \<Rightarrow> http_client \<Rightarrow> string \<Rightarrow> string \<Rightarrow> http_args \<Rightarrow> rat \<Rightarrow> nat \<Rightarrow> nat \<Rightarrow> (quote_net, response) action" where
  "retry_loop env c verb url args wait_until number 0 = throw (OtherError ''HTTP retry loop exhausted'')"
| "retry_loop env c verb url args wait_until number (Suc spare) = (\<lambda>w.
     case request_once env c verb url args w of (r, v) \<Rightarrow>
       (case (case r of Inl e \<Rightarrow> retry_delay e wait_until number spare (n_clock v)
                      | Inr reply \<Rightarrow> reply_delay reply number spare) of
          None \<Rightarrow> (r, v)
        | Some delay \<Rightarrow> bind_act (pause_before_retry env c delay)
            (\<lambda>_. retry_loop env c verb url args wait_until (Suc number) spare) v))"

definition keyed_args :: "http_client \<Rightarrow> http_args \<Rightarrow> http_args" where
  "keyed_args c args = (if hc_key c = [] then args
     else args\<lparr>ha_headers := AList.update
       (if hc_base c = ''https://li.quest/'' then ''x-lifi-api-key'' else ''x-api-key'') (hc_key c)
       (ha_headers args)\<rparr>)"

definition request_http ::
  "http_env \<Rightarrow> http_client \<Rightarrow> string \<Rightarrow> string \<Rightarrow> http_args \<Rightarrow> (quote_net, response) action" where
  "request_http env c verb url args w =
     (if \<not> starts_with (hc_base c) url then http_exchange env c verb url args w
      else retry_loop env c verb url (keyed_args c args) (n_clock w + hc_wait c) 0 (hc_attempts c) w)"

end
