(* ===== verification/Quote_Ledger.thy ===== *)
theory Quote_Ledger
  imports Quote_Http
begin

text \<open>
  What the HTTP client owes to the quota: every request that leaves holds a reservation of its
  own, and two starts of one scope are a second apart. Pre- and postconditions of actions carry
  the ledger through the steps of a request, whatever exception ends it.
\<close>

section \<open>The ledger\<close>

text \<open>The reservation a request was sent under.\<close>

definition reservation :: "quote_net \<Rightarrow> sending \<Rightarrow> attempt option" where
  "reservation w s = find (\<lambda>a. at_id a = sd_attempt s \<and> at_scope a = sd_scope s \<and> at_bucket a = sd_bucket s)
     (q_attempts (n_quota w))"

definition paced :: "sending \<Rightarrow> sending \<Rightarrow> bool" where
  "paced s t \<longleftrightarrow> sd_scope s = sd_scope t \<longrightarrow> sd_time s + 1 \<le> sd_time t"

definition has_attempt :: "quote_net \<Rightarrow> nat \<Rightarrow> string \<Rightarrow> string \<Rightarrow> bool" where
  "has_attempt w i scope bucket \<longleftrightarrow>
     (\<exists>a \<in> set (q_attempts (n_quota w)). at_id a = i \<and> at_scope a = scope \<and> at_bucket a = bucket)"

definition book_ok :: "quota_db \<Rightarrow> bool" where
  "book_ok db \<longleftrightarrow> distinct (map at_id (q_attempts db)) \<and>
     q_requests db = map (\<lambda>a. (at_scope a, at_bucket a, at_sent a)) (q_attempts db)"

definition ledger ::
  "(pyval \<Rightarrow> pyval) \<Rightarrow> (string \<Rightarrow> rat option) \<Rightarrow> (string \<Rightarrow> quota_config) \<Rightarrow> quote_net \<Rightarrow> bool" where
  "ledger rd pd cfgs w \<longleftrightarrow>
     (\<exists>ops. n_quota w = quota_run rd pd cfgs ops empty_quota) \<and> book_ok (n_quota w) \<and>
     distinct (map sd_attempt (n_sent w)) \<and>
     (\<forall>s \<in> set (n_sent w). has_attempt w (sd_attempt s) (sd_scope s) (sd_bucket s)) \<and>
     sorted_wrt paced (n_sent w) \<and>
     (\<forall>s \<in> set (n_sent w). \<exists>t. map_of (q_actual (n_quota w)) (sd_scope s) = Some t \<and> sd_time s \<le> t)"

lemma ledger_cong:
  "n_quota v = n_quota w \<Longrightarrow> n_sent v = n_sent w \<Longrightarrow> ledger rd pd cfgs v = ledger rd pd cfgs w"
  by (simp add: ledger_def has_attempt_def)

lemma ledger_empty: "ledger rd pd cfgs (empty_net now)"
proof -
  have "quota_run rd pd cfgs [] empty_quota = empty_quota" by (simp add: quota_run_def)
  then show ?thesis
    by (auto simp: ledger_def empty_net_def book_ok_def empty_quota_def intro: exI [of _ "[]"])
qed

text \<open>What an operation of the store does to the book and to the time of the last start.\<close>

definition same_book :: "quota_db \<Rightarrow> quota_db \<Rightarrow> bool" where
  "same_book db db' \<longleftrightarrow> q_requests db' = q_requests db \<and>
     map (\<lambda>a. (at_id a, at_scope a, at_bucket a, at_sent a)) (q_attempts db')
       = map (\<lambda>a. (at_id a, at_scope a, at_bucket a, at_sent a)) (q_attempts db)"

lemma same_book_ids:
  assumes "same_book db db'"
  shows "map at_id (q_attempts db') = map at_id (q_attempts db)"
    "map (\<lambda>a. (at_scope a, at_bucket a, at_sent a)) (q_attempts db')
       = map (\<lambda>a. (at_scope a, at_bucket a, at_sent a)) (q_attempts db)"
    "(\<lambda>a. (at_id a, at_scope a, at_bucket a)) ` set (q_attempts db')
       = (\<lambda>a. (at_id a, at_scope a, at_bucket a)) ` set (q_attempts db)"
proof -
  let ?f = "\<lambda>a. (at_id a, at_scope a, at_bucket a, at_sent a)"
  have eq: "map ?f (q_attempts db') = map ?f (q_attempts db)"
    using assms by (simp add: same_book_def)
  show "map at_id (q_attempts db') = map at_id (q_attempts db)"
    using arg_cong [OF eq, of "map fst"] by (simp add: o_def)
  show "map (\<lambda>a. (at_scope a, at_bucket a, at_sent a)) (q_attempts db')
       = map (\<lambda>a. (at_scope a, at_bucket a, at_sent a)) (q_attempts db)"
    using arg_cong [OF eq, of "map snd"] by (simp add: o_def)
  have ids: "map (\<lambda>a. (at_id a, at_scope a, at_bucket a)) (q_attempts db')
      = map (\<lambda>a. (at_id a, at_scope a, at_bucket a)) (q_attempts db)"
    using arg_cong [OF eq, of "map (\<lambda>(i, s, b, t). (i, s, b))"] by (simp add: o_def)
  show "(\<lambda>a. (at_id a, at_scope a, at_bucket a)) ` set (q_attempts db')
       = (\<lambda>a. (at_id a, at_scope a, at_bucket a)) ` set (q_attempts db)"
    using arg_cong [OF ids, of set] by simp
qed

lemma has_attempt_iff:
  "has_attempt w i scope bucket \<longleftrightarrow>
     (i, scope, bucket) \<in> (\<lambda>a. (at_id a, at_scope a, at_bucket a)) ` set (q_attempts (n_quota w))"
  unfolding has_attempt_def image_iff by blast

lemma same_book_ok: "same_book db db' \<Longrightarrow> book_ok db' = book_ok db"
  using same_book_ids [of db db'] by (simp add: book_ok_def same_book_def)

lemma update_where_book:
  assumes "\<And>a. at_id (f a) = at_id a" "\<And>a. at_scope (f a) = at_scope a"
    "\<And>a. at_bucket (f a) = at_bucket a" "\<And>a. at_sent (f a) = at_sent a"
  shows "map (\<lambda>a. (at_id a, at_scope a, at_bucket a, at_sent a)) (update_where P f xs)
    = map (\<lambda>a. (at_id a, at_scope a, at_bucket a, at_sent a)) xs"
  using assms by (simp add: update_where_def)

lemma start_row_book: "same_book db (start_row scope i now db)"
  by (simp add: same_book_def start_row_def update_where_book)

section \<open>The operations of the store\<close>

lemma reserve_book:
  assumes "reserve_request cfg scope b k p pc now db = (Inr i, db')"
  shows "i \<notin> at_id ` set (q_attempts db)" "q_actual db' = q_actual db"
    "q_requests db' = q_requests db @ [(scope, b, now)]"
    "\<exists>a. q_attempts db' = q_attempts db @ [a] \<and> at_id a = i \<and> at_scope a = scope \<and> at_bucket a = b
       \<and> at_sent a = now"
proof -
  obtain db0 where "reserve_row scope b k now db0 = (i, db')" "q_attempts db0 = q_attempts db"
    "q_requests db0 = q_requests db" "q_actual db0 = q_actual db"
    using assms by (fastforce simp: reserve_request_def split: if_splits)
  then show "i \<notin> at_id ` set (q_attempts db)" "q_actual db' = q_actual db"
    "q_requests db' = q_requests db @ [(scope, b, now)]"
    "\<exists>a. q_attempts db' = q_attempts db @ [a] \<and> at_id a = i \<and> at_scope a = scope \<and> at_bucket a = b
       \<and> at_sent a = now"
    using next_rowid_new [of at_id "q_attempts db"] by (auto simp: reserve_row_def Let_def)
qed

lemma mark_book:
  assumes "mark_started cfg scope i True now db = (Inr u, db')"
  shows "same_book db db'" "q_actual db' = AList.update scope now (q_actual db)"
    "\<And>t. map_of (q_actual db) scope = Some t \<Longrightarrow> t + 1 \<le> now"
  using assms start_row_book [of "db\<lparr>q_actual := AList.update scope now (q_actual db)\<rparr>" scope i now]
  by (auto simp: mark_started_def pace_def same_book_def split: option.splits if_splits)

lemma mark_refused: "mark_started cfg scope i True now db = (Inl e, db') \<Longrightarrow> db' = db"
  by (auto simp: mark_started_def transaction_def split: sum.splits)

lemma observe_book: "same_book db (snd (observe cfg rd pd scope b i hs st body now db))"
proof -
  have "q_attempts (snd (observe cfg rd pd scope b i hs st body now db))
      \<in> {q_attempts db, update_where (\<lambda>a. at_id a = i \<and> at_scope a = scope)
           (\<lambda>a. a\<lparr>at_observed := Some now\<rparr>) (q_attempts db)}"
    by (simp add: observe_def transaction_def Let_def upsert_limit_def split: sum.split option.split)
  then show ?thesis
    by (auto simp: same_book_def observe_tables update_where_book)
qed

lemma dispatch_book: "same_book db (snd (reserve_dispatch_time scope now db))"
  by (simp add: same_book_def reserve_dispatch_time_def Let_def)

lemma run_step: "\<exists>ops. db = quota_run rd pd cfgs ops empty_quota \<Longrightarrow>
    \<exists>ops. quota_step rd pd (cfgs scope) scope x db = quota_run rd pd cfgs ops empty_quota"
  by (elim exE, rule_tac x = "ops @ [(scope, x)]" in exI) (simp add: quota_run_def)

lemma ledger_same:
  assumes "ledger rd pd cfgs w" "same_book (n_quota w) db" "q_actual db = q_actual (n_quota w)"
    "db = quota_step rd pd (cfgs scope) scope x (n_quota w)"
  shows "ledger rd pd cfgs (w\<lparr>n_quota := db\<rparr>)"
proof -
  have "\<exists>ops. db = quota_run rd pd cfgs ops empty_quota"
    using run_step assms(1,4) unfolding ledger_def by blast
  then show ?thesis
    using assms(1,3) same_book_ok [OF assms(2)] same_book_ids(3) [OF assms(2)]
    by (simp add: ledger_def has_attempt_iff)
qed

section \<open>The steps of a request\<close>

text \<open>Reserved: an attempt of the scope that no request was sent under. Started: the scope's
  last start is now, and all its requests left at least a second ago.\<close>

definition reserved ::
  "(pyval \<Rightarrow> pyval) \<Rightarrow> (string \<Rightarrow> rat option) \<Rightarrow> (string \<Rightarrow> quota_config) \<Rightarrow> string \<Rightarrow> string \<Rightarrow> nat
     \<Rightarrow> quote_net \<Rightarrow> bool" where
  "reserved rd pd cfgs scope bucket i w \<longleftrightarrow> ledger rd pd cfgs w \<and> has_attempt w i scope bucket
     \<and> i \<notin> sd_attempt ` set (n_sent w)"

definition started ::
  "(pyval \<Rightarrow> pyval) \<Rightarrow> (string \<Rightarrow> rat option) \<Rightarrow> (string \<Rightarrow> quota_config) \<Rightarrow> string \<Rightarrow> string \<Rightarrow> nat
     \<Rightarrow> quote_net \<Rightarrow> bool" where
  "started rd pd cfgs scope bucket i w \<longleftrightarrow> reserved rd pd cfgs scope bucket i w
     \<and> map_of (q_actual (n_quota w)) scope = Some (n_clock w)
     \<and> (\<forall>s \<in> set (n_sent w). sd_scope s = scope \<longrightarrow> sd_time s + 1 \<le> n_clock w)"

lemma book_ok_reserve:
  assumes "book_ok db" "reserve_request cfg scope b k p pc now db = (Inr i, db')"
  shows "book_ok db'"
proof -
  obtain a where "q_attempts db' = q_attempts db @ [a]" "at_id a = i" "at_scope a = scope" "at_bucket a = b"
    "at_sent a = now"
    using reserve_book(4) [OF assms(2)] by blast
  then show ?thesis
    using assms(1) reserve_book(1,3) [OF assms(2)] by (auto simp: book_ok_def)
qed

lemma reserve_ledger:
  assumes "ledger rd pd cfgs w"
    "reserve_request (cfgs scope) scope b k p pc now (n_quota w) = (Inr i, db)"
  shows "reserved rd pd cfgs scope b i (w\<lparr>n_quota := db\<rparr>)"
proof -
  note book = reserve_book [OF assms(2)]
  obtain a where a: "q_attempts db = q_attempts (n_quota w) @ [a]" "at_id a = i" "at_scope a = scope"
    "at_bucket a = b"
    using book(4) by blast
  have "quota_step rd pd (cfgs scope) scope (Reserve b k p pc now) (n_quota w) = db"
    by (simp add: assms(2))
  then have "\<exists>ops. db = quota_run rd pd cfgs ops empty_quota"
    using run_step assms(1) unfolding ledger_def by metis
  moreover have "\<forall>s \<in> set (n_sent w). sd_attempt s \<noteq> i"
    using assms(1) book(1) by (force simp: ledger_def has_attempt_def)
  moreover have "has_attempt (w\<lparr>n_quota := db\<rparr>) j sc bk" if "has_attempt w j sc bk" for j sc bk
    using that a(1) by (auto simp: has_attempt_def)
  moreover have "book_ok db"
    using assms book_ok_reserve unfolding ledger_def by blast
  ultimately show ?thesis
    using assms(1) a book(2) unfolding reserved_def ledger_def
    by (auto simp: has_attempt_def image_iff)
qed

lemma mark_ledger:
  assumes "reserved rd pd cfgs scope b i w"
    "mark_started (cfgs scope) scope i True (n_clock w) (n_quota w) = (Inr u, db)"
  shows "started rd pd cfgs scope b i (w\<lparr>n_quota := db\<rparr>)"
proof -
  note book = mark_book [OF assms(2)]
  have l: "ledger rd pd cfgs w" using assms(1) by (simp add: reserved_def)
  have "quota_step rd pd (cfgs scope) scope (Start i True (n_clock w)) (n_quota w) = db"
    by (simp add: assms(2))
  then have "\<exists>ops. db = quota_run rd pd cfgs ops empty_quota"
    using run_step l unfolding ledger_def by metis
  moreover have late: "sd_time s + 1 \<le> n_clock w" if "s \<in> set (n_sent w)" "sd_scope s = scope" for s
    using l book(3) that by (fastforce simp: ledger_def)
  moreover have "\<exists>t. map_of (q_actual db) (sd_scope s) = Some t \<and> sd_time s \<le> t" if "s \<in> set (n_sent w)" for s
    using l late [OF that] that by (fastforce simp: ledger_def book(2) update_conv')
  moreover have "book_ok db"
    using l same_book_ok [OF book(1)] by (simp add: ledger_def)
  ultimately show ?thesis
    using assms(1) same_book_ids(3) [OF book(1)] book(2)
    unfolding started_def reserved_def ledger_def by (simp add: has_attempt_iff update_conv')
qed

lemma log_ledger:
  assumes "started rd pd cfgs (hc_scope c) b i w"
  shows "ledger rd pd cfgs (snd (log_sending c b url i w))"
  using assms unfolding started_def reserved_def ledger_def
  by (auto simp: log_sending_def sorted_wrt_append paced_def has_attempt_def)

text \<open>Clock, counters and caches are no part of the ledger.\<close>

lemma ledger_stable [simp]:
  "ledger rd pd cfgs (w\<lparr>n_counts := x\<rparr>) = ledger rd pd cfgs w"
  "ledger rd pd cfgs (w\<lparr>n_cache := y\<rparr>) = ledger rd pd cfgs w"
  "ledger rd pd cfgs (later d w) = ledger rd pd cfgs w"
  "ledger rd pd cfgs (w\<lparr>n_health := h\<rparr>) = ledger rd pd cfgs w"
  "ledger rd pd cfgs (w\<lparr>n_pools := ps\<rparr>) = ledger rd pd cfgs w"
  by (auto intro!: ledger_cong simp: later_def)

lemma reserved_stable [simp]:
  "reserved rd pd cfgs sc b i (w\<lparr>n_counts := x\<rparr>) = reserved rd pd cfgs sc b i w"
  "reserved rd pd cfgs sc b i (later d w) = reserved rd pd cfgs sc b i w"
  by (simp_all add: reserved_def has_attempt_def) (simp_all add: later_def)

lemma started_stable [simp]:
  "started rd pd cfgs sc b i (w\<lparr>n_counts := x\<rparr>) = started rd pd cfgs sc b i w"
  by (simp add: started_def)

lemma reserved_ledger: "reserved rd pd cfgs sc b i w \<Longrightarrow> ledger rd pd cfgs w"
  by (simp add: reserved_def)

lemma started_ledger: "started rd pd cfgs sc b i w \<Longrightarrow> ledger rd pd cfgs w"
  by (simp add: started_def reserved_def)

lemma count_ensures:
  "(\<And>w x. P (w\<lparr>n_counts := x\<rparr>) = P w) \<Longrightarrow> (\<And>w. P w \<Longrightarrow> E w) \<Longrightarrow> ensures P (count_event c name) (\<lambda>_. P) E"
  by (rule ensures_same) (simp_all add: count_event_def)

lemma pure_ensures:
  "(\<And>w. P w \<Longrightarrow> E w) \<Longrightarrow> ensures P (\<lambda>w. (f w, w)) (\<lambda>_. P) E"
  by (rule ensures_same) simp_all

lemma give_ensures: "(\<And>w. P w \<Longrightarrow> Q x w) \<Longrightarrow> ensures P (give x) Q E"
  by (rule ensuresI) auto

lemma throw_ensures: "(\<And>w. P w \<Longrightarrow> E w) \<Longrightarrow> ensures P (throw e) Q E"
  by (rule ensuresI) auto

lemma check_stage_ensures: "(\<And>w. P w \<Longrightarrow> E w) \<Longrightarrow> ensures P (check_stage env) (\<lambda>_. P) E"
  unfolding check_stage_def by (rule pure_ensures)

lemma fit_timeout_ensures: "(\<And>w. P w \<Longrightarrow> E w) \<Longrightarrow> ensures P (fit_timeout env args) (\<lambda>_. P) E"
  unfolding fit_timeout_def by (rule pure_ensures)

lemma await_ensures:
  "ensures (ledger rd pd cfgs) (await_dispatch env d) (\<lambda>_. ledger rd pd cfgs) (ledger rd pd cfgs)"
proof (rule ensures_same)
  show "ledger rd pd cfgs (snd (await_dispatch env d w)) = ledger rd pd cfgs w" for w
    by (induction env d w rule: await_dispatch.induct)
      (subst await_dispatch.simps, simp split: sum.split)
qed

lemma pause_ensures:
  "ensures (ledger rd pd cfgs) (pause env d) (\<lambda>_. ledger rd pd cfgs) (ledger rd pd cfgs)"
proof (rule ensures_same)
  show "ledger rd pd cfgs (snd (pause env d w)) = ledger rd pd cfgs w" for w
    by (induction env d w rule: pause.induct) (subst pause.simps, simp split: sum.split)
qed

lemma on_quota_reserve:
  assumes "ledger rd pd cfgs w" "hc_quota c = cfgs (hc_scope c)"
    "on_quota (reserve_request (hc_quota c) (hc_scope c) b k p pc) w = (r, v)"
  shows "case r of Inl e \<Rightarrow> v = w | Inr i \<Rightarrow> reserved rd pd cfgs (hc_scope c) b i v"
proof -
  obtain db where r: "reserve_request (cfgs (hc_scope c)) (hc_scope c) b k p pc (n_clock w) (n_quota w) = (r, db)"
    and v: "v = w\<lparr>n_quota := db\<rparr>"
    using assms(2,3) by (auto simp: on_quota_def split: prod.splits)
  show ?thesis
  proof (cases r)
    case (Inl e)
    then have "db = n_quota w" using reserve_refused r by blast
    then show ?thesis using Inl v by simp
  next
    case (Inr i)
    then show ?thesis using reserve_ledger [OF assms(1)] r v by simp
  qed
qed

lemma reserve_ensures:
  assumes "hc_quota c = cfgs (hc_scope c)"
  shows "ensures (ledger rd pd cfgs) (reserve_paced env c b k) (reserved rd pd cfgs (hc_scope c) b)
    (ledger rd pd cfgs)"
proof -
  have "ledger rd pd cfgs w \<Longrightarrow> case reserve_paced env c b k w of (Inl e, v) \<Rightarrow> ledger rd pd cfgs v
      | (Inr i, v) \<Rightarrow> reserved rd pd cfgs (hc_scope c) b i v" for w
    using assms
  proof (induction env c b k w rule: reserve_paced.induct)
    case (1 env c b k w)
    show ?case
    proof (cases "check_deadline (he_deadline env) (n_clock w)")
      case (Inl e)
      then show ?thesis using 1(2) by (subst reserve_paced.simps) simp
    next
      case (Inr u)
      obtain r v where step: "on_quota (reserve_request (hc_quota c) (hc_scope c) b k (hc_purpose c) True) w = (r, v)"
        by fastforce
      note post = on_quota_reserve [OF 1(2,3) step]
      show ?thesis
      proof (cases "retry_time r")
        case None
        then show ?thesis
          using post 1(2) Inr step by (subst reserve_paced.simps) (auto split: sum.splits)
      next
        case (Some t)
        then have "v = w" using post by simp
        with Some show ?thesis
          using 1(1) [OF Inr step [symmetric] Some] 1(2,3) Inr step
          by (subst reserve_paced.simps) simp
      qed
    qed
  qed
  then show ?thesis by (simp add: ensures_def)
qed

lemma start_ensures:
  assumes "hc_quota c = cfgs (hc_scope c)"
  shows "ensures (reserved rd pd cfgs (hc_scope c) b i) (start_paced env c i)
    (\<lambda>_. started rd pd cfgs (hc_scope c) b i) (ledger rd pd cfgs)"
proof -
  have "reserved rd pd cfgs (hc_scope c) b i w \<Longrightarrow> case start_paced env c i w of
      (Inl e, v) \<Rightarrow> ledger rd pd cfgs v | (Inr u, v) \<Rightarrow> started rd pd cfgs (hc_scope c) b i v" for w
    using assms
  proof (induction env c i w rule: start_paced.induct)
    case (1 env c i w)
    show ?case
    proof (cases "check_deadline (he_deadline env) (n_clock w)")
      case (Inl e)
      then show ?thesis using 1(2) by (subst start_paced.simps) (simp add: reserved_ledger)
    next
      case (Inr u)
      obtain r db where r: "mark_started (cfgs (hc_scope c)) (hc_scope c) i True (n_clock w) (n_quota w) = (r, db)"
        by fastforce
      then have step: "on_quota (mark_started (hc_quota c) (hc_scope c) i True) w = (r, w\<lparr>n_quota := db\<rparr>)"
        using 1(3) by (simp add: on_quota_def)
      show ?thesis
      proof (cases r)
        case (Inl e)
        then have same: "w\<lparr>n_quota := db\<rparr> = w" using r mark_refused by fastforce
        show ?thesis
        proof (cases "retry_time r")
          case None
          then show ?thesis
            using 1(2) Inr step same Inl by (subst start_paced.simps) (simp add: reserved_ledger)
        next
          case (Some t)
          with Inl show ?thesis
            using 1(1) [OF Inr step [symmetric] Some] 1(2,3) Inr step same
            by (subst start_paced.simps) simp
        qed
      next
        case (Inr x)
        then show ?thesis
          using mark_ledger [OF 1(2)] r step \<open>check_deadline _ _ = Inr u\<close>
          by (subst start_paced.simps) (simp add: retry_time_def)
      qed
    qed
  qed
  then show ?thesis by (simp add: ensures_def)
qed

section \<open>Whole requests\<close>

lemma exchange_ensures:
  "ensures (ledger rd pd cfgs) (http_exchange env c verb url args) (\<lambda>_. ledger rd pd cfgs) (ledger rd pd cfgs)"
  by (rule ensures_same) (simp_all add: http_exchange_def split: prod.split)

lemma quota_ensures:
  assumes "\<And>now db. same_book db (snd (f now db))" "\<And>now db. q_actual (snd (f now db)) = q_actual db"
    "\<And>now db. \<exists>x. snd (f now db) = quota_step rd pd (cfgs scope) scope x db"
  shows "ensures (ledger rd pd cfgs) (on_quota f) (\<lambda>_. ledger rd pd cfgs) (ledger rd pd cfgs)"
proof -
  have kept: "ledger rd pd cfgs w \<Longrightarrow> on_quota f w = (r, v) \<Longrightarrow> ledger rd pd cfgs v" for w r v
    using assms(1,2) [where now = "n_clock w" and db = "n_quota w"]
      assms(3) [where now = "n_clock w" and db = "n_quota w"]
    by (auto simp: on_quota_def split: prod.splits intro: ledger_same)
  show ?thesis by (rule ensuresI) (blast intro: kept)+
qed

lemma dispatch_ensures:
  assumes "hc_quota c = cfgs (hc_scope c)" "rd = he_redact env" "pd = he_date env"
  shows "ensures (ledger rd pd cfgs) (dispatch_request env c key verb url args)
    (\<lambda>_. ledger rd pd cfgs) (ledger rd pd cfgs)"
proof -
  let ?b = "request_bucket url"
  let ?L = "ledger rd pd cfgs" and ?R = "reserved rd pd cfgs (hc_scope c) ?b"
    and ?S = "started rd pd cfgs (hc_scope c) ?b"
  have dispatched: "ensures ?L (on_quota (\<lambda>now. reserve_dispatch_time (hc_scope c) now)) (\<lambda>_. ?L) ?L"
    by (rule quota_ensures [where scope = "hc_scope c"])
      (auto simp: dispatch_book dispatch_tables intro: exI [of _ "Dispatch _"])
  have observed: "ensures ?L (on_quota (observe (hc_quota c) (he_redact env) (he_date env) (hc_scope c) ?b i hs st body))
      (\<lambda>_. ?L) ?L" for i hs st body
    by (rule quota_ensures [where scope = "hc_scope c"])
      (auto simp: observe_book observe_tables assms intro: exI [of _ "Observe _ _ _ _ _ _"])
  have counted: "ensures (?S i) (count_sending c ?b) (\<lambda>_. ?S i) ?L" for i
    unfolding count_sending_def
    by (intro ensures_bind [OF count_ensures] count_ensures) (auto dest: started_ledger)
  have logged: "ensures (?S i) (log_sending c ?b url i) (\<lambda>_. ?L) ?L" for i
    by (rule ensuresI) (use log_ledger in \<open>fastforce simp: log_sending_def\<close>)+
  have read: "ensures ?L read_clock (\<lambda>_. ?L) ?L"
    by (rule ensures_same) (simp_all add: read_clock_def)
  have stored: "ensures ?L (store_reply c key t ttl r) (\<lambda>_. ?L) ?L" for t ttl r
    by (rule ensures_same) (simp_all add: store_reply_def)
  have settle: "ensures ?L (case limited of
       Some e \<Rightarrow> bind_act (count_event c ''provider_429'') (\<lambda>_. throw e)
     | None \<Rightarrow> bind_act (store_reply c key t ttl r) (\<lambda>_. give r)) (\<lambda>_. ?L) ?L" for limited t ttl r
    by (cases limited)
      (auto intro!: ensures_bind [OF stored] ensures_bind [OF count_ensures] give_ensures throw_ensures)
  show ?thesis
    unfolding dispatch_request_def Let_def
    by (intro ensures_bind [OF pure_ensures] ensures_bind [OF dispatched] ensures_bind [OF await_ensures]
        ensures_bind [OF check_stage_ensures] ensures_bind [OF fit_timeout_ensures]
        ensures_bind [OF reserve_ensures [where b = ?b]] ensures_bind [OF start_ensures]
        ensures_bind [OF counted] ensures_bind [OF logged] ensures_bind [OF exchange_ensures]
        ensures_bind [OF read] ensures_bind [OF observed] settle ensures_bind [OF count_ensures] assms)
      (auto dest: started_ledger reserved_ledger)
qed

lemma count_limited_ensures:
  "ensures (ledger rd pd cfgs) (count_limited c e) Q (ledger rd pd cfgs)"
  by (cases e) (auto simp: count_limited_def intro!: throw_ensures ensures_bind [OF count_ensures])

lemma once_ensures:
  assumes "hc_quota c = cfgs (hc_scope c)" "rd = he_redact env" "pd = he_date env"
  shows "ensures (ledger rd pd cfgs) (request_once env c verb url args)
    (\<lambda>_. ledger rd pd cfgs) (ledger rd pd cfgs)"
proof -
  have hit: "ensures (ledger rd pd cfgs) (bind_act (count_event c ''cache_hits'') (\<lambda>_.
         bind_act (if waited then count_event c ''singleflight_hits'' else give ()) (\<lambda>_. give r)))
       (\<lambda>_. ledger rd pd cfgs) (ledger rd pd cfgs)" for waited r
    by (intro ensures_bind [OF count_ensures] ensures_bind [where Q = "\<lambda>_. ledger rd pd cfgs"] give_ensures)
      (auto intro: count_ensures give_ensures)
  have branch: "ensures (ledger rd pd cfgs) (case cached of
       Some row \<Rightarrow> bind_act (count_event c ''cache_hits'') (\<lambda>_.
         bind_act (if waited then count_event c ''singleflight_hits'' else give ()) (\<lambda>_.
         give (cached_reply env row)))
     | None \<Rightarrow> handle (dispatch_request env c key verb url args) (count_limited c))
       (\<lambda>_. ledger rd pd cfgs) (ledger rd pd cfgs)" for cached waited key
  proof (cases cached)
    case None
    show ?thesis unfolding None option.case
      by (rule ensures_handle [OF dispatch_ensures [where c = c and cfgs = cfgs, OF assms] count_limited_ensures])
  next
    case (Some row)
    show ?thesis unfolding Some option.case by (rule hit)
  qed
  show ?thesis
    unfolding request_once_def Let_def
    by (intro ensures_bind [OF pure_ensures] ensures_bind [OF check_stage_ensures] branch) auto
qed

lemma retry_ensures:
  assumes "hc_quota c = cfgs (hc_scope c)" "rd = he_redact env" "pd = he_date env"
  shows "ensures (ledger rd pd cfgs) (retry_loop env c verb url args t number spare)
    (\<lambda>_. ledger rd pd cfgs) (ledger rd pd cfgs)"
proof (induction spare arbitrary: number)
  case 0
  show ?case unfolding retry_loop.simps by (rule throw_ensures)
next
  case (Suc spare)
  have again: "ensures (ledger rd pd cfgs) (bind_act (pause_before_retry env c d)
      (\<lambda>_. retry_loop env c verb url args t (Suc number) spare)) (\<lambda>_. ledger rd pd cfgs) (ledger rd pd cfgs)" for d
    unfolding pause_before_retry_def record_retry_def
    by (intro ensures_bind [where Q = "\<lambda>_. ledger rd pd cfgs"] count_ensures pause_ensures
        check_stage_ensures Suc.IH) auto
  have kept: "ledger rd pd cfgs v"
    if w: "ledger rd pd cfgs w" and run: "retry_loop env c verb url args t number (Suc spare) w = (res, v)"
    for w res v
  proof -
    obtain r u where once: "request_once env c verb url args w = (r, u)" by fastforce
    have u: "ledger rd pd cfgs u"
      using ensuresD [OF once_ensures [where c = c and cfgs = cfgs, OF assms] w] once by (cases r) auto
    define d where "d = (case r of Inl e \<Rightarrow> retry_delay e t number spare (n_clock u)
      | Inr reply \<Rightarrow> reply_delay reply number spare)"
    show ?thesis
    proof (cases d)
      case None
      with run once u show ?thesis by (simp add: d_def [symmetric])
    next
      case (Some x)
      with run once have "bind_act (pause_before_retry env c x)
          (\<lambda>_. retry_loop env c verb url args t (Suc number) spare) u = (res, v)"
        by (simp add: d_def [symmetric])
      then show ?thesis
        using ensuresD [OF again u] by (cases res) blast+
    qed
  qed
  show ?case by (rule ensuresI) (blast intro: kept)+
qed

lemma request_ensures:
  assumes "hc_quota c = cfgs (hc_scope c)" "rd = he_redact env" "pd = he_date env"
  shows "ensures (ledger rd pd cfgs) (request_http env c verb url args)
    (\<lambda>_. ledger rd pd cfgs) (ledger rd pd cfgs)"
proof (rule ensuresI)
  fix w e v assume w: "ledger rd pd cfgs w" "request_http env c verb url args w = (Inl e, v)"
  then show "ledger rd pd cfgs v"
    using ensuresD [OF retry_ensures [where c = c and cfgs = cfgs, OF assms] w(1)] ensuresD [OF exchange_ensures w(1)]
    by (auto simp: request_http_def split: if_splits)
next
  fix w x v assume w: "ledger rd pd cfgs w" "request_http env c verb url args w = (Inr x, v)"
  then show "ledger rd pd cfgs v"
    using ensuresD [OF retry_ensures [where c = c and cfgs = cfgs, OF assms] w(1)] ensuresD [OF exchange_ensures w(1)]
    by (auto simp: request_http_def split: if_splits)
qed

end
