(* ===== verification/Proxy_Pool.thy ===== *)
theory Proxy_Pool
  imports Quote_Ledger
begin

text \<open>
  The pool of a wallet's transports (\<open>proxy_pool.py\<close>): a request goes to the current transport
  and fails over to the next ones; a transport that fails cools down for a minute, one without
  quota is passed over. The children are HTTP clients with one attempt and the pool's cache.
\<close>

section \<open>The pool\<close>

record proxy_pool =
  pp_clients :: "http_client list"
  pp_scope :: string

definition child_of :: "string \<Rightarrow> http_client \<Rightarrow> http_client" where
  "child_of scope c = c\<lparr>hc_attempts := 1, hc_wait := 0, hc_request_scope := scope\<rparr>"

definition pool_ids :: "proxy_pool \<Rightarrow> string list" where
  "pool_ids p = map hc_transport (pp_clients p)"

text \<open>The row of the pool: the assignment is written anew, a current transport still assigned stays.\<close>

definition assign_pool :: "proxy_pool \<Rightarrow> quote_net \<Rightarrow> quote_net" where
  "assign_pool p w =
     (let ids = pool_ids p; current = (case map_of (n_pools w) (pp_scope p) of
         Some (i, _) \<Rightarrow> if i \<in> set ids then i else hd ids
       | None \<Rightarrow> hd ids) in
      w\<lparr>n_pools := AList.update (pp_scope p) (current, ids) (n_pools w)\<rparr>)"

text \<open>\<open>INSERT OR IGNORE\<close>: fresh results of the children's old scopes move to the pool's (the code goes over them in no fixed order).\<close>

definition migrate_row ::
  "string \<Rightarrow> string \<Rightarrow> rat \<Rightarrow> (string \<times> string) \<times> cache_row
     \<Rightarrow> ((string \<times> string) \<times> cache_row) list \<Rightarrow> ((string \<times> string) \<times> cache_row) list" where
  "migrate_row scope old now entry cache = (case entry of ((s, key), r) \<Rightarrow>
     if s = old \<and> now < cr_expires r \<and> cr_observed r \<noteq> None \<and> map_of cache (scope, key) = None
     then cache @ [((scope, key), r)] else cache)"

definition migrate_scope :: "string \<Rightarrow> quote_net \<Rightarrow> string \<Rightarrow> quote_net" where
  "migrate_scope scope w old =
     w\<lparr>n_cache := fold (migrate_row scope old (n_clock w)) (n_cache w) (n_cache w)\<rparr>"

definition new_pool ::
  "(string \<Rightarrow> string) \<Rightarrow> http_client list \<Rightarrow> string \<Rightarrow> (quote_net, proxy_pool) action" where
  "new_pool sha clients wallet w =
     (if clients = [] then (Inl (ValueError ''assigned transport pool must not be empty''), w)
      else let scope = sha (''lifi-wallet:'' @ lower wallet);
               p = \<lparr>pp_clients = map (child_of scope) clients, pp_scope = scope\<rparr>
        in (Inr p, fold (\<lambda>old v. migrate_scope scope v old) (remdups (map hc_scope clients)) (assign_pool p w)))"

section \<open>The current transport and its health\<close>

fun index_of :: "'a \<Rightarrow> 'a list \<Rightarrow> nat" where
  "index_of x [] = 0"
| "index_of x (y # ys) = (if x = y then 0 else Suc (index_of x ys))"

definition pool_index :: "proxy_pool \<Rightarrow> quote_net \<Rightarrow> nat result" where
  "pool_index p w = (case map_of (n_pools w) (pp_scope p) of
      None \<Rightarrow> Inl TypeError
    | Some (current, _) \<Rightarrow>
        Inr (if current \<in> set (pool_ids p) then index_of current (pool_ids p) else 0))"

definition pool_event :: "proxy_pool \<Rightarrow> string \<Rightarrow> (quote_net, unit) action" where
  "pool_event p name w = (Inr (), w\<lparr>n_counts := n_counts w @ [(pp_scope p, name)]\<rparr>)"

definition select_transport :: "proxy_pool \<Rightarrow> nat \<Rightarrow> (quote_net, unit) action" where
  "select_transport p i w = (let id = pool_ids p ! i in
     case map_of (n_pools w) (pp_scope p) of
       Some (current, ids) \<Rightarrow> if current = id then (Inr (), w)
         else pool_event p ''switches'' (w\<lparr>n_pools := AList.update (pp_scope p) (id, ids) (n_pools w)\<rparr>)
     | None \<Rightarrow> (Inr (), w))"

definition health_wait :: "proxy_pool \<Rightarrow> nat \<Rightarrow> quote_net \<Rightarrow> rat option" where
  "health_wait p i w = (case map_of (n_health w) (pool_ids p ! i) of
      None \<Rightarrow> None | Some t \<Rightarrow> if n_clock w < t then Some t else None)"

definition cool_down :: "proxy_pool \<Rightarrow> nat \<Rightarrow> quote_net \<Rightarrow> quote_net" where
  "cool_down p i w = w\<lparr>n_health := AList.update (pool_ids p ! i) (n_clock w + 60) (n_health w)\<rparr>"

definition child_ready :: "http_client \<Rightarrow> string \<Rightarrow> quote_net \<Rightarrow> instant result" where
  "child_ready c bucket w = available_at (hc_quota c) (n_quota w) (hc_scope c) bucket (hc_purpose c) (n_clock w)"

fun ready_times :: "proxy_pool \<Rightarrow> string \<Rightarrow> quote_net \<Rightarrow> nat list \<Rightarrow> instant list result" where
  "ready_times p bucket w [] = Inr []"
| "ready_times p bucket w (i # is) =
     bind_result (child_ready (pp_clients p ! i) bucket w) (\<lambda>t.
     bind_result (ready_times p bucket w is) (\<lambda>ts.
     Inr (max t (At (either_or 0 (health_wait p i w) (n_clock w))) # ts)))"

definition pool_available_at :: "proxy_pool \<Rightarrow> string \<Rightarrow> quote_net \<Rightarrow> instant result" where
  "pool_available_at p bucket w =
     bind_result (ready_times p bucket w [0..<length (pp_clients p)]) (\<lambda>ts. case ts of
       [] \<Rightarrow> Inl (ValueError ''min() iterable argument is empty'')
     | t # rest \<Rightarrow> Inr (fold min rest t))"

section \<open>A request over the pool\<close>

datatype obstacle = Cooling nat | Waiting nat | Failed nat string | Status nat int

fun obstacle_index :: "obstacle \<Rightarrow> nat" where
  "obstacle_index (Cooling i) = i"
| "obstacle_index (Waiting i) = i"
| "obstacle_index (Failed i _) = i"
| "obstacle_index (Status i _) = i"

text \<open>\<open>urlsplit\<close> of a URL without blanks or control characters.\<close>

definition li_quest_url :: "string \<Rightarrow> bool" where
  "li_quest_url url \<longleftrightarrow> lower (take 8 url) = ''https://'' \<and>
     takeWhile (\<lambda>c. c \<notin> {CHR ''/'', CHR ''?'', CHR ''#''}) (drop 8 url) = ''li.quest''"

text \<open>The exceptions of a child that count against its transport.\<close>

definition child_failure :: "proxy_pool \<Rightarrow> nat \<Rightarrow> exn \<Rightarrow> quote_net \<Rightarrow> (obstacle \<times> quote_net) option" where
  "child_failure p i e w = (case e of
      LifiRequestLimit _ reason _ \<Rightarrow> Some (Failed i reason, w)
    | TransportError name \<Rightarrow> Some (Failed i name, cool_down p i w)
    | _ \<Rightarrow> None)"

text \<open>One transport: the response, or what stands against it.\<close>

definition send_over ::
  "http_env \<Rightarrow> proxy_pool \<Rightarrow> string \<Rightarrow> string \<Rightarrow> http_args \<Rightarrow> nat \<Rightarrow> (quote_net, obstacle + response) action" where
  "send_over env p verb url args i w =
     (case request_http env (pp_clients p ! i) verb url args w of
        (Inl e, u) \<Rightarrow> (case child_failure p i e u of
            None \<Rightarrow> (Inl e, u) | Some (why, x) \<Rightarrow> (Inr (Inl why), x))
      | (Inr r, u) \<Rightarrow>
          if server_error (rs_status r) then (Inr (Inl (Status i (rs_status r))), cool_down p i u)
          else bind_act (select_transport p i) (\<lambda>_. give (Inr r)) u)"

definition try_transport ::
  "http_env \<Rightarrow> proxy_pool \<Rightarrow> string \<Rightarrow> string \<Rightarrow> http_args \<Rightarrow> bool \<Rightarrow> nat \<Rightarrow> (quote_net, obstacle + response) action" where
  "try_transport env p verb url args again i =
     bind_act (check_stage env) (\<lambda>_.
     bind_act (\<lambda>w. (Inr (truthy 0 (health_wait p i w)), w)) (\<lambda>cooling.
     if cooling \<noteq> None then give (Inl (Cooling i))
     else bind_act (\<lambda>w. (bind_result (child_ready (pp_clients p ! i) (request_bucket url) w)
         (\<lambda>ready. Inr (At (n_clock w) < ready)), w)) (\<lambda>waiting.
       if waiting then bind_act (pool_event p ''local_limited'') (\<lambda>_. give (Inl (Waiting i)))
       else bind_act (if again then pool_event p ''failovers'' else give ()) (\<lambda>_.
         send_over env p verb url args i))))"

fun try_transports ::
  "http_env \<Rightarrow> proxy_pool \<Rightarrow> string \<Rightarrow> string \<Rightarrow> http_args \<Rightarrow> bool \<Rightarrow> nat list \<Rightarrow> (quote_net, obstacle list + response) action" where
  "try_transports env p verb url args again [] = give (Inl [])"
| "try_transports env p verb url args again (i # is) =
     bind_act (try_transport env p verb url args again i) (\<lambda>outcome. case outcome of
       Inr r \<Rightarrow> give (Inr r)
     | Inl why \<Rightarrow> bind_act (try_transports env p verb url args True is) (\<lambda>others. case others of
         Inr r \<Rightarrow> give (Inr r) | Inl os \<Rightarrow> give (Inl (why # os))))"

definition rotation :: "nat \<Rightarrow> nat \<Rightarrow> nat list" where
  "rotation start n = map (\<lambda>offset. (start + offset) mod n) [0..<n]"

definition exhausted ::
  "proxy_pool \<Rightarrow> string \<Rightarrow> (quote_net, 'a) action" where
  "exhausted p bucket =
     bind_act (pool_event p ''pool_waits'') (\<lambda>_.
     bind_act (\<lambda>w. (pool_available_at p bucket w, w)) (\<lambda>t.
     throw (LifiRequestLimit bucket ''proxy_pool_exhausted'' (Some t))))"

definition pool_request ::
  "http_env \<Rightarrow> proxy_pool \<Rightarrow> string \<Rightarrow> string \<Rightarrow> http_args \<Rightarrow> (quote_net, response) action" where
  "pool_request env p verb url args =
     (if \<not> li_quest_url url then request_http env (hd (pp_clients p)) verb url args
      else bind_act (cached_response env (hd (pp_clients p)) verb url args) (\<lambda>cached. case cached of
        Some r \<Rightarrow> give r
      | None \<Rightarrow>
        bind_act (\<lambda>w. (pool_index p w, w)) (\<lambda>start.
        bind_act (try_transports env p verb url args False (rotation start (length (pp_clients p)))) (\<lambda>outcome.
        case outcome of Inr r \<Rightarrow> give r | Inl os \<Rightarrow> exhausted p (request_bucket url)))))"

section \<open>Saved waits\<close>

text \<open>The instant a saved quota wait can be tried again at, by what the diagnostics say of its bucket.
  They are read in the shape the code saves them in; a field of another type counts as absent.\<close>

definition known_bucket :: "proxy_pool \<Rightarrow> pyval \<Rightarrow> string option" where
  "known_bucket p v = (case v of
      PStr b \<Rightarrow> if map_of (limits (hc_quota (hd (pp_clients p)))) b \<noteq> None then Some b else None
    | _ \<Rightarrow> None)"

definition own_scope :: "proxy_pool \<Rightarrow> pyval \<Rightarrow> bool" where
  "own_scope p v \<longleftrightarrow> v = PStr (take 32 (pp_scope p))"

definition entries :: "pydict \<Rightarrow> string \<Rightarrow> pydict list" where
  "entries d k = (case get_default d k (PList []) of
      PList vs \<Rightarrow> map (\<lambda>v. case v of PDict x \<Rightarrow> x | _ \<Rightarrow> []) vs | _ \<Rightarrow> [])"

definition subdict :: "pydict \<Rightarrow> string \<Rightarrow> pydict" where
  "subdict d k = (case get_default d k (PDict []) of PDict x \<Rightarrow> x | _ \<Rightarrow> [])"

definition recheck_wait :: "proxy_pool \<Rightarrow> pydict \<Rightarrow> quote_net \<Rightarrow> instant option result" where
  "recheck_wait p diagnostic w =
     (let own = find (\<lambda>x. own_scope p (get (subdict x ''provider'') ''pool_scope'')) (entries diagnostic ''exceptions'');
          provider = (case own of Some x \<Rightarrow> subdict x ''provider'' | None \<Rightarrow> []);
          d = (if provider = [] then diagnostic else provider) in
      case known_bucket p (get d ''bucket'') of
        Some b \<Rightarrow> if own_scope p (get d ''pool_scope'')
          then bind_result (pool_available_at p b w) (\<lambda>t. Inr (Some t)) else Inr None
      | None \<Rightarrow> Inr None)"

definition bucket_of_window :: "pyval \<Rightarrow> pyval \<Rightarrow> string option" where
  "bucket_of_window limit_value window =
     (if py_eq limit_value (PInt 75) \<and> py_eq window (PInt 7200) then Some ''routes''
      else if py_eq limit_value (PInt 50) \<and> py_eq window (PInt 7200) then Some ''steps''
      else if py_eq limit_value (PInt 100) \<and> py_eq window (PInt 60) then Some ''public'' else None)"

definition bucket_of_message :: "proxy_pool \<Rightarrow> pyval \<Rightarrow> string option" where
  "bucket_of_message p v = (case v of
      PStr m \<Rightarrow> if starts_with ''lifi_request_budget_exceeded:'' m
        then known_bucket p (PStr (drop (length ''lifi_request_budget_exceeded:'') m)) else None
    | _ \<Rightarrow> None)"

definition saved_bucket :: "proxy_pool \<Rightarrow> pydict \<Rightarrow> string option" where
  "saved_bucket p x = (let provider = subdict x ''provider'' in
     case known_bucket p (get provider ''bucket'') of
       Some b \<Rightarrow> Some b
     | None \<Rightarrow> (case bucket_of_window (get provider ''limit'') (get provider ''window'') of
         Some b \<Rightarrow> Some b
       | None \<Rightarrow> bucket_of_message p (get_default x ''message'' (PStr []))))"

definition quota_exception :: "pyval \<Rightarrow> bool" where
  "quota_exception v \<longleftrightarrow> v = PStr ''LifiRequestLimit'' \<or> v = PStr ''ProxyPoolExhausted''"

definition retry_at_for_pending :: "proxy_pool \<Rightarrow> pydict \<Rightarrow> quote_net \<Rightarrow> instant option result" where
  "retry_at_for_pending p saved w =
     (case find (\<lambda>x. saved_bucket p x \<noteq> None \<and> quota_exception (get x ''type''))
             (entries (subdict saved ''diagnostic'') ''exceptions'') of
        None \<Rightarrow> Inr None
      | Some x \<Rightarrow> bind_result (pool_available_at p (the (saved_bucket p x)) w) (\<lambda>t. Inr (Some t)))"

end
