(* ===== verification/Pool_Properties.thy ===== *)
theory Pool_Properties
  imports Proxy_Pool "HOL-Library.Sublist"
begin

text \<open>
  Properties of the quote requests: how often a request leaves, over which transports, and that
  the requests of any run stay within the provider's windows, a second apart.
\<close>

section \<open>What one request sends\<close>

text \<open>At most one sending per attempt, under the client's transport.\<close>

definition sends_over :: "http_client \<Rightarrow> quote_net \<Rightarrow> quote_net \<Rightarrow> bool" where
  "sends_over c w v \<longleftrightarrow> (\<exists>new. n_sent v = n_sent w @ new \<and> length new \<le> 1
     \<and> (\<forall>s \<in> set new. sd_transport s = hc_transport c))"

definition quiet :: "(quote_net, 'a) action \<Rightarrow> bool" where
  "quiet m \<longleftrightarrow> (\<forall>w. n_sent (snd (m w)) = n_sent w)"

lemma quiet_bind: "quiet m \<Longrightarrow> (\<And>x. quiet (f x)) \<Longrightarrow> quiet (bind_act m f)"
  unfolding quiet_def
proof
  fix w assume m: "\<forall>w. n_sent (snd (m w)) = n_sent w" and f: "\<And>x. \<forall>w. n_sent (snd (f x w)) = n_sent w"
  obtain r v where "m w = (r, v)" by fastforce
  then show "n_sent (snd (bind_act m f w)) = n_sent w"
    using m [rule_format, of w] f by (cases r) (simp_all add: bind_act_def)
qed

lemma quiet_basic [simp]:
  "quiet (count_event c n)" "quiet (check_stage env)" "quiet (on_quota f)" "quiet (fit_timeout env args)"
  "quiet read_clock" "quiet (store_reply c k t ttl r)" "quiet (give x)" "quiet (throw e)" "quiet (\<lambda>w. (g w, w))"
  "quiet (http_exchange env c verb url args)" "quiet (pool_event p n)" "quiet (select_transport p i)"
  by (simp_all add: quiet_def count_event_def check_stage_def on_quota_def fit_timeout_def read_clock_def
      store_reply_def http_exchange_def later_def pool_event_def select_transport_def Let_def
      split: prod.split option.split)

lemma quiet_pause [simp]: "quiet (pause env d)"
  unfolding quiet_def
proof
  fix w show "n_sent (snd (pause env d w)) = n_sent w"
    by (induction env d w rule: pause.induct) (subst pause.simps, simp add: later_def split: sum.split)
qed

lemma quiet_await [simp]: "quiet (await_dispatch env d)"
  unfolding quiet_def
proof
  fix w show "n_sent (snd (await_dispatch env d w)) = n_sent w"
    by (induction env d w rule: await_dispatch.induct)
      (subst await_dispatch.simps, simp add: later_def split: sum.split)
qed

lemma quiet_reserve [simp]: "quiet (reserve_paced env c b k)"
  unfolding quiet_def
proof
  fix w show "n_sent (snd (reserve_paced env c b k w)) = n_sent w"
  proof (induction env c b k w rule: reserve_paced.induct)
    case (1 env c b k w)
    show ?case
      by (subst reserve_paced.simps)
        (use 1 in \<open>auto simp: on_quota_def later_def split: sum.split prod.split option.split\<close>)
  qed
qed

lemma quiet_start [simp]: "quiet (start_paced env c i)"
  unfolding quiet_def
proof
  fix w show "n_sent (snd (start_paced env c i w)) = n_sent w"
  proof (induction env c i w rule: start_paced.induct)
    case (1 env c i w)
    show ?case
      by (subst start_paced.simps)
        (use 1 in \<open>auto simp: on_quota_def later_def split: sum.split prod.split option.split\<close>)
  qed
qed

lemma quiet_after: "quiet m \<Longrightarrow> n_sent (snd (m w)) = n_sent w"
  by (simp add: quiet_def)

definition spends :: "http_client \<Rightarrow> (quote_net, 'a) action \<Rightarrow> bool" where
  "spends c m \<longleftrightarrow> (\<forall>w. sends_over c w (snd (m w)))"

lemma quiet_spends: "quiet m \<Longrightarrow> spends c m"
  by (simp add: quiet_def spends_def sends_over_def)

lemma sends_over_cong:
  "n_sent w' = n_sent w \<Longrightarrow> n_sent v' = n_sent v \<Longrightarrow> sends_over c w v \<Longrightarrow> sends_over c w' v'"
  by (simp add: sends_over_def)

lemma spends_after:
  assumes "quiet m" "\<And>x. spends c (f x)"
  shows "spends c (bind_act m f)"
  unfolding spends_def
proof
  fix w
  obtain r v where m: "m w = (r, v)" by fastforce
  then have "n_sent v = n_sent w" using quiet_after [OF assms(1), of w] by simp
  moreover have "sends_over c v (snd (f x v))" for x using assms(2) by (simp add: spends_def)
  moreover have "sends_over c v v" by (simp add: sends_over_def)
  ultimately show "sends_over c w (snd (bind_act m f w))"
    using m by (cases r) (auto simp: bind_act_def intro: sends_over_cong [of w v])
qed

lemma spends_before:
  assumes "spends c m" "\<And>x. quiet (f x)"
  shows "spends c (bind_act m f)"
  unfolding spends_def
proof
  fix w
  obtain r v where m: "m w = (r, v)" by fastforce
  then have "sends_over c w v" using assms(1) by (metis snd_conv spends_def)
  with m show "sends_over c w (snd (bind_act m f w))"
    by (cases r) (auto simp: bind_act_def intro: sends_over_cong [OF refl quiet_after [OF assms(2)]])
qed

lemma spends_handle:
  assumes "spends c m" "\<And>e. quiet (h e)"
  shows "spends c (handle m h)"
  unfolding spends_def
proof
  fix w
  obtain r v where m: "m w = (r, v)" by fastforce
  then have "sends_over c w v" using assms(1) by (metis snd_conv spends_def)
  with m show "sends_over c w (snd (handle m h w))"
    by (cases r) (auto simp: handle_def intro: sends_over_cong [OF refl quiet_after [OF assms(2)]])
qed

lemma dispatch_spends: "spends c (dispatch_request env c key verb url args)"
proof -
  let ?b = "request_bucket url"
  have counted: "quiet (count_sending c ?b)"
    unfolding count_sending_def by (intro quiet_bind) simp_all
  have logged: "spends c (log_sending c ?b url i)" for i
    by (simp add: spends_def sends_over_def log_sending_def)
  have settle: "quiet (case limited of
       Some e \<Rightarrow> bind_act (count_event c ''provider_429'') (\<lambda>_. throw e)
     | None \<Rightarrow> bind_act (store_reply c key t ttl r) (\<lambda>_. give r))" for limited t ttl r
    by (cases limited) (simp_all add: quiet_bind)
  have rest: "quiet (bind_act (http_exchange env c verb url a) (\<lambda>reply.
     bind_act read_clock (\<lambda>finished.
     bind_act (on_quota (f reply finished)) (\<lambda>limited. case limited of
       Some e \<Rightarrow> bind_act (count_event c ''provider_429'') (\<lambda>_. throw e)
     | None \<Rightarrow> bind_act (store_reply c key finished (cache_ttl url) (g reply finished)) (\<lambda>_. give (g reply finished))))))"
    for a f g
    by (intro quiet_bind settle) simp_all
  show ?thesis
    unfolding dispatch_request_def Let_def
    by (intro spends_after counted spends_before [OF logged] rest) simp_all
qed

lemma count_limited_quiet: "quiet (count_limited c e)"
  by (cases e) (simp_all add: count_limited_def quiet_bind)

lemma once_spends: "spends c (request_once env c verb url args)"
proof -
  have branch: "spends c (case cached of
       Some row \<Rightarrow> bind_act (count_event c ''cache_hits'') (\<lambda>_.
         bind_act (if waited then count_event c ''singleflight_hits'' else give ()) (\<lambda>_.
         give (cached_reply env row)))
     | None \<Rightarrow> handle (dispatch_request env c key verb url args) (count_limited c))" for cached waited key
  proof (cases cached)
    case None
    then show ?thesis by (simp add: spends_handle dispatch_spends count_limited_quiet)
  next
    case (Some row)
    show ?thesis unfolding Some option.case
      by (intro quiet_spends quiet_bind) (simp_all split: if_split)
  qed
  show ?thesis
    unfolding request_once_def Let_def by (intro spends_after branch) simp_all
qed

lemma request_spends:
  assumes "hc_attempts c = 1"
  shows "spends c (request_http env c verb url args)"
  unfolding spends_def
proof
  fix w
  have once: "sends_over c w (snd (request_once env c verb url (keyed_args c args) w))"
    using once_spends by (simp add: spends_def)
  have last: "retry_loop env c verb url a t 0 (Suc 0) w = request_once env c verb url a w" for a t
    by (simp add: retry_delay_def reply_delay_def split: prod.split sum.split)
  show "sends_over c w (snd (request_http env c verb url args w))"
    using once quiet_spends [of "http_exchange env c verb url args" c]
    by (simp add: request_http_def assms last spends_def del: retry_loop.simps)
qed

section \<open>Failover\<close>

lemma child_failure_sends: "child_failure p i e u = Some (why, x) \<Longrightarrow> n_sent x = n_sent u \<and> obstacle_index why = i"
  by (auto simp: child_failure_def cool_down_def split: exn.splits)

definition fair_outcome :: "http_client \<Rightarrow> nat \<Rightarrow> (quote_net, obstacle + response) action \<Rightarrow> bool" where
  "fair_outcome c i m \<longleftrightarrow> spends c m
     \<and> (\<forall>w v why. m w = (Inr (Inl why), v) \<longrightarrow> obstacle_index why = i)
     \<and> (\<forall>w v reply. m w = (Inr (Inr reply), v) \<longrightarrow> \<not> server_error (rs_status reply))"

lemma fair_after:
  assumes "quiet m" "\<And>x. fair_outcome c i (f x)"
  shows "fair_outcome c i (bind_act m f)"
proof -
  have "spends c (bind_act m f)" using assms by (intro spends_after) (simp_all add: fair_outcome_def)
  then show ?thesis using assms(2) by (force simp: fair_outcome_def)
qed

lemma fair_give: "obstacle_index why = i \<Longrightarrow> fair_outcome c i (give (Inl why))"
  by (auto simp: fair_outcome_def spends_def sends_over_def)

lemma send_over_fair:
  assumes "hc_attempts (pp_clients p ! i) = 1"
  shows "fair_outcome (pp_clients p ! i) i (send_over env p verb url args i)"
proof -
  let ?c = "pp_clients p ! i"
  have "sends_over ?c w v \<and> (\<forall>why. r = Inr (Inl why) \<longrightarrow> obstacle_index why = i)
      \<and> (\<forall>reply. r = Inr (Inr reply) \<longrightarrow> \<not> server_error (rs_status reply))"
    if run: "send_over env p verb url args i w = (r, v)" for w r v
  proof -
    obtain q u where req: "request_http env ?c verb url args w = (q, u)" by fastforce
    then have u: "sends_over ?c w u"
      using request_spends [OF assms, of env verb url args] by (metis snd_conv spends_def)
    have after: "n_sent x = n_sent u \<Longrightarrow> sends_over ?c w x" for x
      using u sends_over_cong by blast
    show ?thesis
    proof (cases q)
      case (Inl e)
      with run req u after show ?thesis
        by (auto simp: send_over_def dest!: child_failure_sends split: option.splits)
    next
      case (Inr reply)
      obtain s x where "select_transport p i u = (s, x)" by fastforce
      moreover from this have "n_sent x = n_sent u"
        using quiet_after [of "select_transport p i" u] by simp
      ultimately show ?thesis
        using run req Inr after [of x] after [of "cool_down p i u"]
        by (cases s) (auto simp: send_over_def bind_act_def cool_down_def split: if_splits)
    qed
  qed
  then show ?thesis unfolding fair_outcome_def spends_def by (metis prod.collapse)
qed

lemma try_transport_fair:
  assumes "hc_attempts (pp_clients p ! i) = 1"
  shows "fair_outcome (pp_clients p ! i) i (try_transport env p verb url args again i)"
proof -
  have sent: "fair_outcome (pp_clients p ! i) i
      (bind_act (if again then pool_event p ''failovers'' else give ()) (\<lambda>_. send_over env p verb url args i))"
    by (rule fair_after) (simp_all add: send_over_fair [OF assms] split: if_split)
  have limited: "fair_outcome (pp_clients p ! i) i
      (bind_act (pool_event p ''local_limited'') (\<lambda>_. give (Inl (Waiting i))))"
    by (rule fair_after) (simp_all add: fair_give del: act_simps)
  have ready: "fair_outcome (pp_clients p ! i) i
      (if waiting then bind_act (pool_event p ''local_limited'') (\<lambda>_. give (Inl (Waiting i)))
       else bind_act (if again then pool_event p ''failovers'' else give ()) (\<lambda>_.
         send_over env p verb url args i))" for waiting
    using sent limited by simp
  have idle: "fair_outcome (pp_clients p ! i) i
     (if cooling \<noteq> None then give (Inl (Cooling i))
      else bind_act (\<lambda>w. (g w, w)) (\<lambda>waiting.
       if waiting then bind_act (pool_event p ''local_limited'') (\<lambda>_. give (Inl (Waiting i)))
       else bind_act (if again then pool_event p ''failovers'' else give ()) (\<lambda>_.
         send_over env p verb url args i)))" for cooling :: "rat option" and g
    using fair_after [of "\<lambda>w. (g w, w)", OF _ ready] fair_give [of "Cooling i" i]
    by (cases "cooling = None") simp_all
  show ?thesis
    unfolding try_transport_def by (rule fair_after [OF _ fair_after [OF _ idle]]) simp_all
qed

lemma try_transport_cases:
  assumes "try_transport env p verb url args again i w = (r, v)" and "hc_attempts (pp_clients p ! i) = 1"
  shows "sends_over (pp_clients p ! i) w v"
    "r = Inr (Inl why) \<Longrightarrow> obstacle_index why = i"
    "r = Inr (Inr reply) \<Longrightarrow> \<not> server_error (rs_status reply)"
  using try_transport_fair [OF assms(2), of env verb url args again] assms(1)
  unfolding fair_outcome_def spends_def by (metis snd_conv)+

lemma sends_over_subseq:
  assumes "sends_over c w u" "n_sent v = n_sent u @ new" "subseq (map sd_transport new) names"
  shows "\<exists>more. n_sent v = n_sent w @ more \<and> subseq (map sd_transport more) (hc_transport c # names)"
proof -
  obtain one where one: "n_sent u = n_sent w @ one" "length one \<le> 1" "\<forall>s \<in> set one. sd_transport s = hc_transport c"
    using assms(1) by (auto simp: sends_over_def)
  then have "map sd_transport one = [] \<or> map sd_transport one = [hc_transport c]"
    by (cases one) auto
  with assms(3) have "subseq (map sd_transport (one @ new)) (hc_transport c # names)"
    by (auto intro: list_emb_Cons)
  with one(1) assms(2) show ?thesis by (intro exI [of _ "one @ new"]) simp
qed

lemma try_transports_cases:
  assumes "try_transports env p verb url args again is w = (r, v)"
    and "\<forall>i \<in> set is. hc_attempts (pp_clients p ! i) = 1"
  shows "(\<exists>new. n_sent v = n_sent w @ new
      \<and> subseq (map sd_transport new) (map (\<lambda>i. hc_transport (pp_clients p ! i)) is))
    \<and> (\<forall>os. r = Inr (Inl os) \<longrightarrow> map obstacle_index os = is)
    \<and> (\<forall>reply. r = Inr (Inr reply) \<longrightarrow> \<not> server_error (rs_status reply))"
  using assms
proof (induction "is" arbitrary: again w r v)
  case Nil
  then show ?case by auto
next
  case (Cons i rest)
  obtain q u where one: "try_transport env p verb url args again i w = (q, u)" by fastforce
  have spent: "sends_over (pp_clients p ! i) w u"
    using try_transport_cases(1) [OF one] Cons.prems(2) by simp
  show ?case
  proof (cases "\<exists>why. q = Inr (Inl why)")
    case False
    then have "v = u" "\<forall>os. r \<noteq> Inr (Inl os)"
      "\<forall>reply. r = Inr (Inr reply) \<longrightarrow> q = Inr (Inr reply)"
      using Cons.prems(1) one by (auto simp: bind_act_def split: sum.splits)
    then show ?thesis
      using sends_over_subseq [OF spent, of u "[]"] try_transport_cases(3) [OF one] Cons.prems(2) by auto
  next
    case True
    then obtain why where why: "q = Inr (Inl why)" by blast
    obtain q' u' where more: "try_transports env p verb url args True rest u = (q', u')" by fastforce
    have ih: "(\<exists>new. n_sent u' = n_sent u @ new
        \<and> subseq (map sd_transport new) (map (\<lambda>i. hc_transport (pp_clients p ! i)) rest))
      \<and> (\<forall>os. q' = Inr (Inl os) \<longrightarrow> map obstacle_index os = rest)
      \<and> (\<forall>reply. q' = Inr (Inr reply) \<longrightarrow> \<not> server_error (rs_status reply))"
      using Cons.IH [OF more] Cons.prems(2) by simp
    have "v = u'" "\<forall>os. r = Inr (Inl os) \<longrightarrow> (\<exists>tail. q' = Inr (Inl tail) \<and> os = why # tail)"
      "\<forall>reply. r = Inr (Inr reply) \<longrightarrow> q' = Inr (Inr reply)"
      using Cons.prems(1) one why more by (auto simp: bind_act_def split: sum.splits)
    then show ?thesis
      using ih sends_over_subseq [OF spent] try_transport_cases(2) [OF one _ why] Cons.prems(2) by fastforce
  qed
qed

lemma no_limit_raised:
  "check_deadline d now = Inl e \<Longrightarrow> e \<noteq> LifiRequestLimit b why t"
  "child_ready c bucket w = Inl e \<Longrightarrow> e \<noteq> LifiRequestLimit b why t"
  "child_failure p i e u = None \<Longrightarrow> e \<noteq> LifiRequestLimit b why t"
  "pool_index p w = Inl e \<Longrightarrow> e \<noteq> LifiRequestLimit b why t"
  by (auto simp: check_deadline_def check_at_def require_def deadline_exceeded_def child_ready_def
      available_at_def bind_result_Inl Let_def child_failure_def pool_index_def
      dest: bucket_state_error split: option.splits if_splits)

definition unlimited :: "(quote_net, 'a) action \<Rightarrow> bool" where
  "unlimited m \<longleftrightarrow> (\<forall>w b why t. fst (m w) \<noteq> Inl (LifiRequestLimit b why t))"

lemma unlimited_bind:
  assumes "unlimited m" "\<And>x. unlimited (f x)"
  shows "unlimited (bind_act m f)"
  unfolding unlimited_def
proof (intro allI)
  fix w b why t
  obtain r v where "m w = (r, v)" by fastforce
  then show "fst (bind_act m f w) \<noteq> Inl (LifiRequestLimit b why t)"
    using assms by (cases r) (auto simp: bind_act_def unlimited_def dest: spec [of _ w])
qed

lemma unlimited_basic [simp]:
  "unlimited (give x)" "unlimited (pool_event p n)" "unlimited (select_transport p i)" "unlimited (check_stage env)"
  "unlimited (\<lambda>w. (Inr (g w), w))"
  by (auto simp: unlimited_def pool_event_def select_transport_def check_stage_def Let_def
      dest: no_limit_raised(1) split: option.splits)

lemma unlimited_if: "(b \<Longrightarrow> unlimited m) \<Longrightarrow> (\<not> b \<Longrightarrow> unlimited n) \<Longrightarrow> unlimited (if b then m else n)"
  by simp

lemma send_over_limit: "unlimited (send_over env p verb url args i)"
  unfolding unlimited_def
proof (intro allI)
  fix w b why t
  obtain q u where req: "request_http env (pp_clients p ! i) verb url args w = (q, u)" by fastforce
  have select: "unlimited (bind_act (select_transport p i) (\<lambda>_. give (Inr r :: obstacle + response)))" for r
    by (rule unlimited_bind) (simp_all del: act_simps)
  show "fst (send_over env p verb url args i w) \<noteq> Inl (LifiRequestLimit b why t)"
  proof (cases q)
    case (Inl e)
    then show ?thesis
      using req no_limit_raised(3) [of p i e u b why t]
      by (cases "child_failure p i e u") (auto simp: send_over_def)
  next
    case (Inr r)
    then show ?thesis
      using req select [of r] by (simp add: send_over_def unlimited_def)
  qed
qed

lemma try_transport_limit: "unlimited (try_transport env p verb url args again i)"
proof -
  have ready: "unlimited (\<lambda>w. (bind_result (child_ready (pp_clients p ! i) (request_bucket url) w)
      (\<lambda>ready. Inr (At (n_clock w) < ready)), w))"
    by (auto simp: unlimited_def bind_result_def dest: no_limit_raised(2) split: sum.splits)
  have late: "unlimited (if waiting then bind_act (pool_event p ''local_limited'') (\<lambda>_. give (Inl (Waiting i)))
       else bind_act (if again then pool_event p ''failovers'' else give ()) (\<lambda>_.
         send_over env p verb url args i))" for waiting
    by (intro unlimited_if unlimited_bind send_over_limit) simp_all
  have idle: "unlimited (if cooling \<noteq> None then give (Inl (Cooling i))
      else bind_act (\<lambda>w. (bind_result (child_ready (pp_clients p ! i) (request_bucket url) w)
         (\<lambda>ready. Inr (At (n_clock w) < ready)), w)) (\<lambda>waiting.
       if waiting then bind_act (pool_event p ''local_limited'') (\<lambda>_. give (Inl (Waiting i)))
       else bind_act (if again then pool_event p ''failovers'' else give ()) (\<lambda>_.
         send_over env p verb url args i)))" for cooling :: "rat option"
    by (intro unlimited_if unlimited_bind [OF ready late]) (simp_all del: act_simps)
  show ?thesis
    unfolding try_transport_def by (intro unlimited_bind idle) simp_all
qed

lemma try_transports_limit: "unlimited (try_transports env p verb url args again is)"
proof (induction "is" arbitrary: again)
  case Nil
  then show ?case by (simp add: unlimited_def)
next
  case (Cons i rest)
  have settled: "unlimited (case others of Inr r \<Rightarrow> give (Inr r) | Inl os \<Rightarrow> give (Inl (why # os)))"
    for others :: "obstacle list + response" and why
    by (cases others) (simp_all del: act_simps)
  have "unlimited (case outcome of
       Inr r \<Rightarrow> give (Inr r)
     | Inl why \<Rightarrow> bind_act (try_transports env p verb url args True rest) (\<lambda>others. case others of
         Inr r \<Rightarrow> give (Inr r) | Inl os \<Rightarrow> give (Inl (why # os))))" for outcome
    using unlimited_bind [OF Cons.IH settled] by (cases outcome) (simp_all del: act_simps)
  then show ?case
    unfolding try_transports.simps by (intro unlimited_bind try_transport_limit)
qed

section \<open>The pool keeps the ledger\<close>

lemma pool_event_ensures: "ensures (ledger rd pd cfgs) (pool_event p n) (\<lambda>_. ledger rd pd cfgs) (ledger rd pd cfgs)"
  by (rule ensures_same) (simp_all add: pool_event_def)

lemma select_ensures: "ensures (ledger rd pd cfgs) (select_transport p i) (\<lambda>_. ledger rd pd cfgs) (ledger rd pd cfgs)"
  by (rule ensures_same) (simp_all add: select_transport_def pool_event_def Let_def split: option.split)

lemma send_over_ensures:
  assumes "hc_quota (pp_clients p ! i) = cfgs (hc_scope (pp_clients p ! i))" "rd = he_redact env" "pd = he_date env"
  shows "ensures (ledger rd pd cfgs) (send_over env p verb url args i) (\<lambda>_. ledger rd pd cfgs) (ledger rd pd cfgs)"
proof -
  let ?c = "pp_clients p ! i"
  have kept: "ledger rd pd cfgs v"
    if w: "ledger rd pd cfgs w" and run: "send_over env p verb url args i w = (r, v)" for w r v
  proof -
    obtain q u where req: "request_http env ?c verb url args w = (q, u)" by fastforce
    have u: "ledger rd pd cfgs u"
      using ensuresD [OF request_ensures [where c = ?c and cfgs = cfgs, OF assms] w] req by (cases q) auto
    have failed: "ledger rd pd cfgs x" if "child_failure p i e u = Some (why, x)" for e why x
      using that u by (auto simp: child_failure_def cool_down_def split: exn.splits)
    obtain s x where s: "select_transport p i u = (s, x)" by fastforce
    then have "ledger rd pd cfgs x" using ensuresD [OF select_ensures u] by (cases s) blast+
    with run req u failed s show ?thesis
      by (cases q; cases s)
        (auto simp: send_over_def bind_act_def cool_down_def split: option.splits if_splits)
  qed
  show ?thesis by (rule ensuresI) (blast intro: kept)+
qed

lemma try_transport_ensures:
  assumes "hc_quota (pp_clients p ! i) = cfgs (hc_scope (pp_clients p ! i))" "rd = he_redact env" "pd = he_date env"
  shows "ensures (ledger rd pd cfgs) (try_transport env p verb url args again i) (\<lambda>_. ledger rd pd cfgs)
    (ledger rd pd cfgs)"
proof -
  let ?L = "ledger rd pd cfgs"
  have given: "ensures ?L (give x) (\<lambda>_. ?L) ?L" for x :: "obstacle + response"
    by (rule give_ensures)
  have noted: "ensures ?L (if again then pool_event p ''failovers'' else give ()) (\<lambda>_. ?L) ?L"
    by (intro ensures_if pool_event_ensures give_ensures)
  have ready: "ensures ?L (if waiting then bind_act (pool_event p ''local_limited'') (\<lambda>_. give (Inl (Waiting i)))
       else bind_act (if again then pool_event p ''failovers'' else give ()) (\<lambda>_.
         send_over env p verb url args i)) (\<lambda>_. ?L) ?L" for waiting
    by (intro ensures_if ensures_bind [OF pool_event_ensures] given ensures_bind [OF noted]
        send_over_ensures [where p = p and i = i and cfgs = cfgs, OF assms])
  have idle: "ensures ?L (if cooling \<noteq> None then give (Inl (Cooling i))
      else bind_act (\<lambda>w. (g w, w)) (\<lambda>waiting.
       if waiting then bind_act (pool_event p ''local_limited'') (\<lambda>_. give (Inl (Waiting i)))
       else bind_act (if again then pool_event p ''failovers'' else give ()) (\<lambda>_.
         send_over env p verb url args i))) (\<lambda>_. ?L) ?L" for cooling :: "rat option" and g
    by (intro ensures_if given ensures_bind [OF pure_ensures] ready)
  show ?thesis
    unfolding try_transport_def
    by (rule ensures_bind [OF check_stage_ensures ensures_bind [OF pure_ensures idle]])
qed

lemma try_transports_ensures:
  assumes "\<forall>i \<in> set is. hc_quota (pp_clients p ! i) = cfgs (hc_scope (pp_clients p ! i))"
    "rd = he_redact env" "pd = he_date env"
  shows "ensures (ledger rd pd cfgs) (try_transports env p verb url args again is) (\<lambda>_. ledger rd pd cfgs)
    (ledger rd pd cfgs)"
  using assms(1)
proof (induction "is" arbitrary: again)
  case Nil
  show ?case unfolding try_transports.simps by (rule give_ensures)
next
  case (Cons i rest)
  let ?L = "ledger rd pd cfgs"
  have one: "ensures ?L (try_transport env p verb url args again i) (\<lambda>_. ?L) ?L"
    using try_transport_ensures [OF _ assms(2,3), where p = p and i = i and cfgs = cfgs] Cons.prems by simp
  have more: "ensures ?L (try_transports env p verb url args True rest) (\<lambda>_. ?L) ?L"
    using Cons by simp
  show ?case
    unfolding try_transports.simps
  proof (rule ensures_bind [OF one])
    fix outcome
    show "ensures ?L (case outcome of
       Inr r \<Rightarrow> give (Inr r)
     | Inl why \<Rightarrow> bind_act (try_transports env p verb url args True rest) (\<lambda>others. case others of
         Inr r \<Rightarrow> give (Inr r) | Inl os \<Rightarrow> give (Inl (why # os)))) (\<lambda>_. ?L) ?L"
    proof (cases outcome)
      case (Inl why)
      have settled: "ensures ?L (case others of Inr r \<Rightarrow> give (Inr r) | Inl os \<Rightarrow> give (Inl (why # os))) (\<lambda>_. ?L) ?L"
        for others :: "obstacle list + response"
        by (cases others) (simp_all add: give_ensures del: act_simps)
      show ?thesis unfolding Inl sum.case by (rule ensures_bind [OF more settled])
    qed (simp add: give_ensures del: act_simps)
  qed
qed

section \<open>Properties\<close>

lemma index_of_less: "x \<in> set ys \<Longrightarrow> index_of x ys < length ys"
  by (induction ys) auto

lemma pool_index_assigned: "pool_index p w = Inr start \<Longrightarrow> pp_clients p \<noteq> [] \<Longrightarrow> start < length (pp_clients p)"
  using index_of_less [of _ "pool_ids p"]
  by (auto simp: pool_index_def pool_ids_def split: option.splits if_splits)

lemma rotation_index: "i \<in> set (rotation start n) \<Longrightarrow> i < n"
  by (auto simp: rotation_def)

lemma cached_same: "cached_response env c verb url args w = (Inr None, u) \<Longrightarrow> u = w"
  by (auto simp: cached_response_def count_event_def bind_act_def split: option.splits)

lemma cached_ok: "cached_response env c verb url args w = (Inr (Some r), u) \<Longrightarrow> rs_status r = 200 \<and> n_sent u = n_sent w"
  by (auto simp: cached_response_def count_event_def bind_act_def cached_reply_def split: option.splits)

lemma cached_total: "\<exists>x u. cached_response env c verb url args w = (Inr x, u)"
  by (auto simp: cached_response_def count_event_def bind_act_def split: option.splits)

text \<open>What a request over the pool comes down to when nothing is cached.\<close>

lemma pool_request_cases:
  assumes "pool_request env p verb url args w = (r, v)" "li_quest_url url"
  obtains (cached) reply where "r = Inr reply" "rs_status reply = 200" "n_sent v = n_sent w"
    | (unassigned) e where "r = Inl e" "pool_index p w = Inl e" "v = w"
    | (tried) start q u where "pool_index p w = Inr start"
      "try_transports env p verb url args False (rotation start (length (pp_clients p))) w = (q, u)"
      "case q of Inl e \<Rightarrow> r = Inl e \<and> v = u | Inr (Inr reply) \<Rightarrow> r = Inr reply \<and> v = u
         | Inr (Inl os) \<Rightarrow> exhausted p (request_bucket url) u = (r, v)"
proof -
  obtain x u where c: "cached_response env (hd (pp_clients p)) verb url args w = (Inr x, u)"
    using cached_total by blast
  show thesis
  proof (cases x)
    case (Some reply)
    with assms c cached_ok [of env "hd (pp_clients p)" verb url args w reply u] show thesis
      by (intro cached [of reply]) (auto simp: pool_request_def bind_act_def)
  next
    case None
    then have u: "u = w" using c cached_same by blast
    show thesis
    proof (cases "pool_index p w")
      case (Inl e)
      with assms c None u show thesis
        by (intro unassigned [of e]) (auto simp: pool_request_def bind_act_def)
    next
      case (Inr start)
      obtain q u' where t: "try_transports env p verb url args False (rotation start (length (pp_clients p))) w = (q, u')"
        by fastforce
      with assms c None u Inr show thesis
        by (intro tried [OF Inr t]) (auto simp: pool_request_def bind_act_def split: sum.splits)
    qed
  qed
qed

lemma exhausted_sends: "exhausted p b u = (r, v) \<Longrightarrow> n_sent v = n_sent u \<and> (\<exists>e. r = Inl e)"
  by (auto simp: exhausted_def bind_act_def pool_event_def split: sum.splits)

text \<open>
  C23: a request over the pool sends at most one HTTP request over each transport, in the order of
  the rotation that starts with the current one; a response it returns is no server error; and
  it reports its quota exhausted only after every transport, in that order, was found cooling,
  waiting or failing.
\<close>

theorem pool_request_spares:
  assumes "pool_request env p verb url args w = (r, v)" "li_quest_url url"
    and "pp_clients p \<noteq> []" "\<forall>c \<in> set (pp_clients p). hc_attempts c = 1"
  shows "\<exists>start order new. start < length (pp_clients p) \<and> order = rotation start (length (pp_clients p))
    \<and> n_sent v = n_sent w @ new \<and> subseq (map sd_transport new) (map (\<lambda>i. pool_ids p ! i) order)
    \<and> (\<forall>reply. r = Inr reply \<longrightarrow> \<not> server_error (rs_status reply))
    \<and> (\<forall>b why t. r = Inl (LifiRequestLimit b why t) \<longrightarrow>
         (\<exists>os u. try_transports env p verb url args False order w = (Inr (Inl os), u)
           \<and> map obstacle_index os = order))"
  using assms(1,2)
proof (cases rule: pool_request_cases)
  case (cached reply)
  then show ?thesis
    using assms(3) by (intro exI [of _ 0] exI [of _ "rotation 0 _"] exI [of _ "[]"]) (auto simp: server_error_def)
next
  case (unassigned e)
  then show ?thesis
    using assms(3) no_limit_raised(4)
    by (intro exI [of _ 0] exI [of _ "rotation 0 _"] exI [of _ "[]"]) fastforce
next
  case (tried start q u)
  let ?order = "rotation start (length (pp_clients p))"
  have attempts: "\<forall>i \<in> set ?order. hc_attempts (pp_clients p ! i) = 1"
    using assms(4) rotation_index by fastforce
  have ids: "map (\<lambda>i. hc_transport (pp_clients p ! i)) ?order = map (\<lambda>i. pool_ids p ! i) ?order"
    using rotation_index by (auto simp: pool_ids_def)
  note outcome = try_transports_cases [OF tried(2) attempts, unfolded ids]
  have "n_sent v = n_sent u" using tried(3) by (auto dest: exhausted_sends split: sum.splits)
  moreover have "\<forall>reply. r = Inr reply \<longrightarrow> q = Inr (Inr reply)"
    using tried(3) by (auto dest: exhausted_sends split: sum.splits)
  moreover have "\<forall>b why t. r = Inl (LifiRequestLimit b why t) \<longrightarrow> (\<exists>os. q = Inr (Inl os))"
    using tried(3) try_transports_limit [of env p verb url args False ?order] tried(2)
    by (auto simp: unlimited_def split: sum.splits) (metis fst_conv)
  ultimately show ?thesis
    using outcome tried(2) pool_index_assigned [OF tried(1) assms(3)]
    by (intro exI [of _ start] exI [of _ ?order]) auto
qed

section \<open>Runs of requests\<close>

text \<open>
  Any sequence of requests, each by a client of its own or over a pool, each in a stage with its
  own deadline.
\<close>

datatype quote_call =
    Direct http_client "deadline option" string string http_args
  | Pooled proxy_pool "deadline option" string string http_args

fun quote_step :: "http_env \<Rightarrow> quote_call \<Rightarrow> quote_net \<Rightarrow> quote_net" where
  "quote_step env (Direct c d verb url args) w = snd (request_http (env\<lparr>he_deadline := d\<rparr>) c verb url args w)"
| "quote_step env (Pooled p d verb url args) w = snd (pool_request (env\<lparr>he_deadline := d\<rparr>) p verb url args w)"

definition quote_run :: "http_env \<Rightarrow> quote_call list \<Rightarrow> quote_net \<Rightarrow> quote_net" where
  "quote_run env calls w = fold (quote_step env) calls w"

definition call_clients :: "quote_call \<Rightarrow> http_client list" where
  "call_clients call = (case call of Direct c _ _ _ _ \<Rightarrow> [c] | Pooled p _ _ _ _ \<Rightarrow> pp_clients p)"

definition uses_config :: "(string \<Rightarrow> quota_config) \<Rightarrow> quote_call \<Rightarrow> bool" where
  "uses_config cfgs call \<longleftrightarrow> call_clients call \<noteq> [] \<and>
     (\<forall>c \<in> set (call_clients call). hc_quota c = cfgs (hc_scope c))"

lemma ensures_snd: "ensures P m (\<lambda>_. P) P \<Longrightarrow> P w \<Longrightarrow> P (snd (m w))"
  by (cases "m w"; cases "fst (m w)") (auto dest: ensuresD)

lemma cached_ensures:
  "ensures (ledger rd pd cfgs) (cached_response env c verb url args) (\<lambda>_. ledger rd pd cfgs) (ledger rd pd cfgs)"
  by (rule ensures_same) (simp_all add: cached_response_def count_event_def bind_act_def split: option.split)

lemma exhausted_ensures: "ensures (ledger rd pd cfgs) (exhausted p b) Q (ledger rd pd cfgs)"
  unfolding exhausted_def
  by (rule ensures_bind [OF pool_event_ensures], rule ensures_bind [OF pure_ensures]) (auto intro: throw_ensures)

lemma pool_request_ensures:
  assumes "uses_config cfgs (Pooled p d verb url args)" "rd = he_redact env" "pd = he_date env"
  shows "ensures (ledger rd pd cfgs) (pool_request env p verb url args) (\<lambda>_. ledger rd pd cfgs) (ledger rd pd cfgs)"
proof -
  let ?L = "ledger rd pd cfgs"
  have config: "\<forall>c \<in> set (pp_clients p). hc_quota c = cfgs (hc_scope c)" "pp_clients p \<noteq> []"
    using assms(1) by (simp_all add: uses_config_def call_clients_def)
  have outside: "ensures ?L (request_http env (hd (pp_clients p)) verb url args) (\<lambda>_. ?L) ?L"
    using config by (intro request_ensures assms) simp
  have tried: "ensures ?L (try_transports env p verb url args False (rotation start (length (pp_clients p))))
      (\<lambda>_. ?L) ?L" for start
    using config(1) by (intro try_transports_ensures assms(2,3)) (auto dest: rotation_index)
  have settled: "ensures ?L (case outcome of Inr r \<Rightarrow> give r | Inl os \<Rightarrow> exhausted p (request_bucket url)) (\<lambda>_. ?L) ?L"
    for outcome :: "obstacle list + response"
    by (cases outcome) (simp_all add: exhausted_ensures give_ensures del: act_simps)
  have fresh: "ensures ?L (case cached of
        Some r \<Rightarrow> give r
      | None \<Rightarrow>
        bind_act (\<lambda>w. (pool_index p w, w)) (\<lambda>start.
        bind_act (try_transports env p verb url args False (rotation start (length (pp_clients p)))) (\<lambda>outcome.
        case outcome of Inr r \<Rightarrow> give r | Inl os \<Rightarrow> exhausted p (request_bucket url)))) (\<lambda>_. ?L) ?L" for cached
  proof (cases cached)
    case None
    show ?thesis unfolding None option.case
      by (rule ensures_bind [OF pure_ensures ensures_bind [OF tried settled]])
  qed (simp add: give_ensures del: act_simps)
  show ?thesis
    unfolding pool_request_def by (intro ensures_if outside ensures_bind [OF cached_ensures fresh])
qed

text \<open>Before the first request: no reservation and no request yet, whatever pools are assigned.\<close>

definition fresh_net :: "quote_net \<Rightarrow> bool" where
  "fresh_net w \<longleftrightarrow> n_quota w = empty_quota \<and> n_sent w = []"

lemma fresh_ledger: "fresh_net w \<Longrightarrow> ledger rd pd cfgs w"
  using ledger_cong [of w "empty_net 0"] ledger_empty by (auto simp: fresh_net_def empty_net_def)

lemma run_ledger:
  assumes "\<forall>call \<in> set calls. uses_config cfgs call" "fresh_net w0"
  shows "ledger (he_redact env) (he_date env) cfgs (quote_run env calls w0)"
proof -
  let ?L = "ledger (he_redact env) (he_date env) cfgs"
  have step: "?L w \<Longrightarrow> uses_config cfgs call \<Longrightarrow> ?L (quote_step env call w)" for call w
  proof (cases call)
    case (Direct c d verb url args)
    moreover assume "?L w" "uses_config cfgs call"
    ultimately show ?thesis
      by (auto simp: uses_config_def call_clients_def intro!: ensures_snd [where P = ?L] request_ensures)
  next
    case (Pooled p d verb url args)
    moreover assume "?L w" "uses_config cfgs call"
    ultimately show ?thesis
      by (auto intro!: ensures_snd [where P = ?L] pool_request_ensures)
  qed
  have "?L w \<Longrightarrow> ?L (fold (quote_step env) calls w)" for w
    using assms(1) by (induction calls arbitrary: w) (auto simp: step)
  then show ?thesis using fresh_ledger [OF assms(2)] unfolding quote_run_def by blast
qed

text \<open>Requests of a bucket whose reservation was made in a window; one without counts as well.\<close>

definition sends_in :: "quote_net \<Rightarrow> string \<Rightarrow> string \<Rightarrow> rat \<Rightarrow> rat \<Rightarrow> nat" where
  "sends_in w scope bucket from until = length (filter (\<lambda>s. sd_scope s = scope \<and> sd_bucket s = bucket \<and>
     (case reservation w s of None \<Rightarrow> True | Some a \<Rightarrow> from < at_sent a \<and> at_sent a \<le> until)) (n_sent w))"

lemma sends_reserved:
  assumes "ledger rd pd cfgs w"
  shows "sends_in w scope bucket from until \<le> in_window (n_quota w) scope bucket from until"
proof -
  let ?S = "filter (\<lambda>s. sd_scope s = scope \<and> sd_bucket s = bucket \<and>
     (case reservation w s of None \<Rightarrow> True | Some a \<Rightarrow> from < at_sent a \<and> at_sent a \<le> until)) (n_sent w)"
  let ?A = "filter (\<lambda>a. at_scope a = scope \<and> at_bucket a = bucket \<and> from < at_sent a \<and> at_sent a \<le> until)
     (q_attempts (n_quota w))"
  have book: "book_ok (n_quota w)" "distinct (map sd_attempt (n_sent w))"
    "\<forall>s \<in> set (n_sent w). has_attempt w (sd_attempt s) (sd_scope s) (sd_bucket s)"
    using assms by (auto simp: ledger_def)
  have sub: "sd_attempt ` set ?S \<subseteq> at_id ` set ?A"
  proof
    fix i assume "i \<in> sd_attempt ` set ?S"
    then obtain s where s: "s \<in> set ?S" "i = sd_attempt s" by blast
    then have "has_attempt w (sd_attempt s) (sd_scope s) (sd_bucket s)" using book(3) by auto
    then have "reservation w s \<noteq> None"
      unfolding reservation_def has_attempt_def find_None_iff by blast
    then obtain a where a: "reservation w s = Some a" by blast
    then have a': "a \<in> set (q_attempts (n_quota w))" "at_id a = sd_attempt s"
        "at_scope a = sd_scope s" "at_bucket a = sd_bucket s"
      unfolding reservation_def find_Some_iff by (metis nth_mem)+
    show "i \<in> at_id ` set ?A"
    proof (rule image_eqI)
      show "i = at_id a" using a'(2) s(2) by simp
      show "a \<in> set ?A" using s a a' by simp
    qed
  qed
  have "length ?S = card (sd_attempt ` set ?S)"
    using distinct_card [of "map sd_attempt ?S"] book(2) by (simp add: distinct_map_filter)
  also have "\<dots> \<le> card (at_id ` set ?A)" using sub by (intro card_mono) simp_all
  also have "\<dots> \<le> length ?A"
    using card_length [of "map at_id ?A"] by (simp only: set_map length_map)
  also have "\<dots> = in_window (n_quota w) scope bucket from until"
    using book(1) by (simp add: in_window_def book_ok_def filter_map o_def)
  finally show ?thesis by (simp add: sends_in_def)
qed

text \<open>
  C22: over any run of requests of clients and pools on one database, the requests of a bucket
  whose reservations fall in one rolling window are at most the bucket's limit, and two requests
  of one scope leave at least a second apart.
\<close>

theorem requests_reserved_and_paced:
  assumes "\<forall>call \<in> set calls. uses_config cfgs call" "fresh_net w0"
    and "map_of (limits (cfgs scope)) bucket = Some (l, window, reserve)"
    and "cfgs scope \<in> {lifi_quota, authenticated_quota, relay_quota}"
  shows "int (sends_in (quote_run env calls w0) scope bucket (until - window) until) \<le> l
    \<and> sorted_wrt paced (n_sent (quote_run env calls w0))"
proof -
  let ?w = "quote_run env calls w0"
  have l: "ledger (he_redact env) (he_date env) cfgs ?w" by (rule run_ledger [OF assms(1,2)])
  then obtain ops where "n_quota ?w = quota_run (he_redact env) (he_date env) cfgs ops empty_quota"
    by (auto simp: ledger_def)
  then have "int (in_window (n_quota ?w) scope bucket (until - window) until) \<le> l"
    using assms(3,4) lq.run_bounded [of bucket l window reserve cfgs scope]
      aq.run_bounded [of bucket l window reserve cfgs scope]
      rq.run_bounded [of bucket l window reserve cfgs scope] by auto
  then show ?thesis
    using sends_reserved [OF l, of scope bucket "until - window" until] l by (auto simp: ledger_def)
qed

section \<open>Concrete requests\<close>

definition sample_http :: "sending list \<Rightarrow> string \<Rightarrow> string \<Rightarrow> string \<Rightarrow> http_args \<Rightarrow> rat \<times> response result" where
  "sample_http sent name verb url args =
     (if name = ''t1'' then (1, Inl (TransportError ''ConnectError''))
      else (2, Inr \<lparr>rs_status = 200, rs_headers = [], rs_text = PStr ''{}''\<rparr>))"

definition sample_http_env :: http_env where
  "sample_http_env = \<lparr>he_deadline = None, he_digest = (\<lambda>_. ''key''), he_float = (\<lambda>_. ''1.0''),
     he_redact = (\<lambda>v. v), he_date = (\<lambda>_. None), he_http = sample_http, he_key_lock = (\<lambda>_. Inr False),
     he_slot = (\<lambda>_. Inr ())\<rparr>"

definition sample_http_client :: "string \<Rightarrow> string \<Rightarrow> http_client" where
  "sample_http_client name scope = \<lparr>hc_transport = name, hc_scope = scope, hc_request_scope = ''pool'',
     hc_base = ''https://li.quest/'', hc_key = [], hc_attempts = 1, hc_wait = 0, hc_purpose = ''planning'',
     hc_quota = relay_quota\<rparr>"

definition sample_proxy_pool :: proxy_pool where
  "sample_proxy_pool = \<lparr>pp_clients = [sample_http_client ''t1'' ''s1'', sample_http_client ''t2'' ''s2''],
     pp_scope = ''pool''\<rparr>"

definition sample_url :: string where
  "sample_url = ''https://li.quest/v1/status''"

definition sample_args :: http_args where
  "sample_args = \<lparr>ha_params = PNone, ha_json = PNone, ha_namespace = PNone, ha_timeout = 30, ha_headers = []\<rparr>"

definition sample_net :: quote_net where
  "sample_net = assign_pool sample_proxy_pool (empty_net 7)"

text \<open>The first transport fails and cools down; the second one answers and becomes current.\<close>

lemma sample_failover:
  "(case pool_request sample_http_env sample_proxy_pool ''GET'' sample_url sample_args sample_net of
     (r, v) \<Rightarrow> (case r of Inr reply \<Rightarrow> rs_status reply = 200 | Inl _ \<Rightarrow> False)
       \<and> map sd_transport (n_sent v) = [''t1'', ''t2''] \<and> pool_index sample_proxy_pool v = Inr 1
       \<and> n_health v = [(''t1'', 68)])"
  by code_simp

lemma pool_request_spares_witness:
  "length (n_sent (snd (pool_request sample_http_env sample_proxy_pool ''GET'' sample_url sample_args sample_net))) \<le> 2"
proof -
  obtain r v where run: "pool_request sample_http_env sample_proxy_pool ''GET'' sample_url sample_args sample_net = (r, v)"
    by fastforce
  have clients: "length (pp_clients sample_proxy_pool) = 2" "\<forall>c \<in> set (pp_clients sample_proxy_pool). hc_attempts c = 1"
    by (simp_all add: sample_proxy_pool_def sample_http_client_def)
  have url: "li_quest_url sample_url" by code_simp
  have "pp_clients sample_proxy_pool \<noteq> []" using clients(1) by auto
  then obtain start order new where o: "order = rotation start (length (pp_clients sample_proxy_pool))"
    "n_sent v = n_sent sample_net @ new"
    "subseq (map sd_transport new) (map (\<lambda>i. pool_ids sample_proxy_pool ! i) order)"
    using pool_request_spares [OF run url _ clients(2)] by blast
  then have "length order = 2" by (simp add: rotation_def clients(1))
  moreover have "n_sent sample_net = []" by (simp add: sample_net_def assign_pool_def empty_net_def Let_def)
  ultimately show ?thesis using run o(2) list_emb_length [OF o(3)] by simp
qed

lemma requests_reserved_and_paced_witness:
  "int (sends_in (quote_run sample_http_env (replicate 3 (Pooled sample_proxy_pool None ''GET'' sample_url sample_args))
     sample_net) ''s2'' ''public'' (67 - 60) 67) \<le> 100"
  using requests_reserved_and_paced [of "replicate 3 (Pooled sample_proxy_pool None ''GET'' sample_url sample_args)"
      "\<lambda>_. relay_quota" sample_net "''s2''" "''public''" 100 60 0 sample_http_env 67]
  by (simp add: uses_config_def call_clients_def sample_proxy_pool_def sample_http_client_def relay_quota_def
      fresh_net_def sample_net_def assign_pool_def empty_net_def Let_def)

end
