(* ===== verification/Group_Execution.thy ===== *)
theory Group_Execution
  imports Group_Steps
begin

text \<open>
  \<open>execute_group_entries\<close> of \<open>route_execution.py\<close>: the sequential execution of the routes of one
  wallet and source network within a loss budget. A branch that returns \<open>counts\<close> is \<open>Finished\<close>,
  one that goes on with the next entry is \<open>Next\<close> with the realised loss.
\<close>

datatype flow = Next fdec | Finished

text \<open>What the loop over the entries reads and never changes.\<close>

record 'w run =
  r_cb :: "'w callbacks"
  r_group :: nat
  r_wallet :: string
  r_chain :: int
  r_source :: fdec
  r_budget :: fdec
  r_entries :: "pydict list"
  r_positions :: "nat list"

section \<open>Halting, yielding, remembering\<close>

definition unwrap_loss :: "nat \<Rightarrow> pyval \<Rightarrow> ('w gx, unit) action" where
  "unwrap_loss pid s =
     bind_act (lift (has_kind ''unwrap_to_native'' s)) (\<lambda>unwrap.
     whenever unwrap (
       bind_act (lift (bind_result (item s ''route'') (\<lambda>r. item r ''id''))) (\<lambda>route_id.
       bind_act (reads (\<lambda>j. checkpoint j pid (''route:unwrap_to_native:'' @ py_str route_id))) (\<lambda>progress.
       bind_act (lift (get_item (or_dict progress) ''unwrap_result'' PNone)) (\<lambda>outcome.
       whenever (is_dict outcome) (
         bind_act (lift (bind_result (item outcome ''realized_loss_usd'')
           (\<lambda>v. exact_money v ''unwrap loss''))) (\<lambda>confirmed.
         bind_act (reads (\<lambda>j. Inr (latest_step j pid ''direct_deposit''))) (\<lambda>direct.
         bind_act (if \<exists>d \<in> set_option direct. tx_present d
             then bind_act (reads (\<lambda>j. checkpoint j pid ''direct_prepared'')) (\<lambda>prepared.
               case prepared of None \<Rightarrow> give confirmed
               | Some p \<Rightarrow> bind_act (lift (entry_loss p)) (\<lambda>x. give (exact_sum [confirmed, x])))
             else give confirmed) (\<lambda>loss.
         bind_act (writes (account_position_loss pid (PStr (decimal_string loss)))) (\<lambda>_.
         give ()))))))))))"

definition account_confirmed_local_unwrap_loss :: "nat \<Rightarrow> pydict \<Rightarrow> ('w gx, unit) action" where
  "account_confirmed_local_unwrap_loss pid entry =
     bind_act (if py_truthy (get entry ''local_unwrap'') then give (PDict entry)
       else bind_act (reads (\<lambda>j. checkpoint j pid ''canonical_prepared'')) (\<lambda>c. give (or_dict c))) (\<lambda>e.
     bind_act (lift (get_item e ''local_unwrap'' PNone)) (\<lambda>unwrap.
     whenever (py_truthy unwrap) (
       bind_act (lift (bind_result (get_item e ''steps'' (PList [])) elements)) (each (unwrap_loss pid)))))"

definition closed_states :: "string list" where
  "closed_states = [''completed'', ''manual_review'', ''manual_review_after_swap'',
     ''manual_review_group_threshold_exceeded'', ''manual_review_group_halted'']"

definition halt_position :: "string \<Rightarrow> string \<Rightarrow> nat \<Rightarrow> ('w gx, unit) action" where
  "halt_position target reason pid =
     bind_act (reads (\<lambda>j. position j pid)) (\<lambda>current.
     bind_act (whenever (p_state current \<notin> set closed_states) (set_state pid target (Some reason))) (\<lambda>_.
     count target))"

definition halt_remaining :: "'w run \<Rightarrow> nat \<Rightarrow> string \<Rightarrow> string \<Rightarrow> ('w gx, unit) action" where
  "halt_remaining r start state reason =
     (let group_state =
        (if state = ''manual_review_group_threshold_exceeded'' then state
         else if state = ''manual_review_after_swap'' then state
         else ''manual_review_group_halted'') in
      bind_act (record_event Halted) (\<lambda>_.
      bind_act (each (\<lambda>(pid, entry). account_confirmed_local_unwrap_loss pid entry)
        (drop (start - 1) (zip (r_positions r) (r_entries r)))) (\<lambda>_.
      bind_act (each (halt_position state reason) (drop start (r_positions r))) (\<lambda>_.
      set_group (r_group r) group_state (Some reason)))))"

definition yield_stage :: "'w run \<Rightarrow> nat \<Rightarrow> string \<Rightarrow> ('w gx, flow) action" where
  "yield_stage r pid reason =
     bind_act (reads (\<lambda>j. Inr (has_broadcast j pid))) (\<lambda>sent.
     bind_act (flag (if sent then ''pending'' else ''deferred'')) (\<lambda>_.
     bind_act (reads (\<lambda>j. position j pid)) (\<lambda>p.
     bind_act (set_state pid (p_state p) (Some reason)) (\<lambda>_.
     bind_act (set_group (r_group r) ''active'' (Some reason)) (\<lambda>_.
     give Finished)))))"

definition remember_error :: "'w run \<Rightarrow> nat \<Rightarrow> string \<Rightarrow> exn \<Rightarrow> ('w gx, unit) action" where
  "remember_error r pid phase e =
     (let ev = cb_view (r_cb r); reason = PStr (execution_reason ev e); diagnostic = ev_diagnostic ev e in
      bind_act (save pid ''execution_failure''
        (PDict [(''phase'', PStr phase), (''reason'', reason), (''diagnostic'', diagnostic)])) (\<lambda>_.
      whenever (retryable_provider_error ev e) (save pid ''automatic_retry''
        (PDict [(''reason'', reason), (''retry_at'', error_retry_at ev e), (''diagnostic'', diagnostic)]))))"

text \<open>
  The tail that the handlers share: the position goes to manual review, the entries after it
  are halted, and so is the group when there is none.
\<close>

definition review_group :: "'w run \<Rightarrow> nat \<Rightarrow> string \<Rightarrow> ('w gx, flow) action" where
  "review_group r i reason =
     bind_act (set_state (r_positions r ! i) ''manual_review'' (Some reason)) (\<lambda>_.
     bind_act (count ''manual_review'') (\<lambda>_.
     bind_act (halt_remaining r (i + 1) ''manual_review_group_halted'' reason) (\<lambda>_.
     bind_act (whenever (i + 1 = length (r_entries r))
       (set_group (r_group r) ''manual_review_group_halted'' (Some reason))) (\<lambda>_.
     give Finished))))"

text \<open>The same without the last step, as the handlers of a failed deposit have it.\<close>

definition review_position :: "'w run \<Rightarrow> nat \<Rightarrow> string \<Rightarrow> ('w gx, flow) action" where
  "review_position r i reason =
     bind_act (set_state (r_positions r ! i) ''manual_review'' (Some reason)) (\<lambda>_.
     bind_act (count ''manual_review'') (\<lambda>_.
     bind_act (halt_remaining r (i + 1) ''manual_review_group_halted'' reason) (\<lambda>_.
     give Finished)))"

text \<open>The broadcast whose outcome is open, and the tests that every handler makes first.\<close>

definition open_broadcast :: "exn \<Rightarrow> string option" where
  "open_broadcast e = (case e of AmbiguousBroadcast h \<Rightarrow> Some h | _ \<Rightarrow> None)"

definition yield_or ::
  "'w run \<Rightarrow> pydict \<Rightarrow> nat \<Rightarrow> exn \<Rightarrow> ('w gx, flow) action \<Rightarrow> ('w gx, flow) action" where
  "yield_or r entry pid e otherwise =
     (let ev = cb_view (r_cb r) in
      if py_truthy (get entry ''automatic_requote'') \<and> retryable_provider_error ev e
      then yield_stage r pid (execution_reason ev e)
      else case open_broadcast e of
          Some h \<Rightarrow> if cb_deadline (r_cb r) then yield_stage r pid (''broadcast_pending:'' @ h) else otherwise
        | None \<Rightarrow> otherwise)"

section \<open>What a step reports\<close>

text \<open>A checkpoint that is absent or null is \<open>None\<close>.\<close>

definition present :: "pyval option \<Rightarrow> pyval option" where
  "present c = (case c of Some PNone \<Rightarrow> None | _ \<Rightarrow> c)"

definition load :: "nat \<Rightarrow> string \<Rightarrow> ('w gx, pyval option) action" where
  "load pid key = reads (\<lambda>j. bind_result (checkpoint j pid key) (\<lambda>c. Inr (present c)))"

definition spread :: "pyval \<Rightarrow> pydict result" where
  "spread v = (case v of PDict d \<Rightarrow> Inr d | _ \<Rightarrow> Inl TypeError)"

text \<open>
  \<open>str(loss)\<close>: the journal reads the text of a decimal as that decimal, so a decimal is
  passed as it is.
\<close>

definition loss_argument :: "pyval \<Rightarrow> pyval" where
  "loss_argument v = (case v of PDecimal d \<Rightarrow> PDecimal d | _ \<Rightarrow> PStr (py_str v))"

definition optional_text :: "pyval \<Rightarrow> string option" where
  "optional_text v = (case v of PNone \<Rightarrow> None | _ \<Rightarrow> Some (py_str v))"

text \<open>
  \<open>Decimal(journal.account_position_loss(position_id, loss_usd=str(result.get("realized_loss_usd",
  default))))\<close>, the default computed first.
\<close>

definition account_loss :: "nat \<Rightarrow> pyval \<Rightarrow> fdec result \<Rightarrow> ('w gx, fdec) action" where
  "account_loss pid outcome fallback =
     bind_act (lift fallback) (\<lambda>d.
     bind_act (lift (get_item outcome ''realized_loss_usd'' (PDecimal (Number d)))) (\<lambda>v.
     bind_act (writes (account_position_loss pid (loss_argument v))) (\<lambda>t.
     lift (number_of t))))"

definition await_deposit :: "nat \<Rightarrow> pyval \<Rightarrow> ('w gx, unit) action" where
  "await_deposit pid outcome =
     bind_act (lift (get_item outcome ''reason'' PNone)) (\<lambda>reason.
     bind_act (set_state pid ''deposit_pending'' (optional_text reason)) (\<lambda>_.
     count ''deposit_pending''))"

definition step_state_of :: "pyval \<Rightarrow> pyval result" where
  "step_state_of outcome = get_item outcome ''state'' PNone"

section \<open>Observing what has been sent\<close>

text \<open>A completed position whose credit is unverified is observed, and counted by what is seen.\<close>

definition credit_state :: "'w callbacks \<Rightarrow> pydict \<Rightarrow> nat \<Rightarrow> ('w gx, pyval) action" where
  "credit_state cb entry pid =
     bind_act (handle (observe_deposit cb entry pid observe_step)
       (\<lambda>e. case e of StageDeadlineExceeded _ \<Rightarrow> give (PDict [(''state'', PStr ''deposit_pending'')])
          | DepositNotSeen _ \<Rightarrow> give (PDict [(''state'', PStr ''deposit_pending'')])
          | _ \<Rightarrow> throw e)) (\<lambda>outcome.
     lift (step_state_of outcome))"

definition observe_completed :: "'w callbacks \<Rightarrow> pydict \<Rightarrow> nat \<Rightarrow> ('w gx, unit) action" where
  "observe_completed cb entry pid =
     bind_act (reads (\<lambda>j. route_credit_unverified entry j pid)) (\<lambda>unverified.
     if \<not> unverified then count ''completed''
     else bind_act (credit_state cb entry pid) (\<lambda>st.
       count (if st = PStr ''completed'' then ''completed'' else ''deposit_pending'')))"

definition group_row_of :: "nat \<Rightarrow> string \<Rightarrow> journal \<Rightarrow> position_row option" where
  "group_row_of gid key j = select_one (\<lambda>p. p_key p = key \<and> p_group p = Some gid) (positions j)"

definition observe_group :: "'w callbacks \<Rightarrow> nat \<Rightarrow> pydict list \<Rightarrow> ('w gx, unit) action" where
  "observe_group cb gid entries =
     bind_act (set_counts [(''group_id'', int gid), (''completed'', 0), (''deposit_pending'', 0)]) (\<lambda>_.
     each (\<lambda>entry.
       bind_act (lift (position_key entry)) (\<lambda>key.
       bind_act (reads (\<lambda>j. Inr (group_row_of gid key j))) (\<lambda>row. case row of
         None \<Rightarrow> throw (ValueError ''terminal_route_group_position_mismatch'')
       | Some p \<Rightarrow>
           if p_state p \<noteq> ''completed'' then throw (ValueError ''terminal_route_group_position_mismatch'')
           else observe_completed cb entry (p_id p)))) entries)"

text \<open>\<open>_observe_halted_route_credits\<close>: a failed sibling cannot prevent observing a deposit.\<close>

definition observe_halted :: "'w callbacks \<Rightarrow> pydict \<Rightarrow> position_row \<Rightarrow> ('w gx, unit) action" where
  "observe_halted cb entry p =
     handle
       (bind_act (observe_deposit cb entry (p_id p) observe_step) (\<lambda>outcome.
        bind_act (lift (step_state_of outcome)) (\<lambda>st.
        if st = PStr ''completed''
        then bind_act (if p_state p \<noteq> ''completed''
               then bind_act (lift (item outcome ''realized_loss_usd'')) (\<lambda>v.
                    bind_act (writes (account_position_loss (p_id p) (loss_argument v))) (\<lambda>_. give ()))
               else give ()) (\<lambda>_.
             bind_act (set_state (p_id p) ''completed'' None) (\<lambda>_.
             count ''completed''))
        else if st = PStr ''deposit_pending'' then count ''deposit_pending''
        else throw (ValueError ''deposit reconciliation returned no result''))))
       (\<lambda>e. case e of
          DepositSettlementFailed m \<Rightarrow>
            bind_act (whenever (p_state p \<noteq> ''completed'') (set_state (p_id p) ''manual_review'' (Some m))) (\<lambda>_.
            count ''manual_review'')
        | _ \<Rightarrow> bind_act (save (p_id p) ''route_credit_diagnostic'' (ev_diagnostic (cb_view cb) e)) (\<lambda>_.
            count ''deposit_pending''))"

definition observe_halted_entry :: "'w callbacks \<Rightarrow> nat \<Rightarrow> pydict \<Rightarrow> ('w gx, unit) action" where
  "observe_halted_entry cb gid entry =
     bind_act (lift (position_key entry)) (\<lambda>key.
     bind_act (reads (\<lambda>j. Inr (group_row_of gid key j))) (\<lambda>row. case row of
       None \<Rightarrow> count ''manual_review''
     | Some p \<Rightarrow>
         bind_act (if p_state p = ''completed''
           then reads (\<lambda>j. route_credit_unverified entry j (p_id p)) else give True) (\<lambda>unsettled.
         if \<not> unsettled then count ''completed''
         else bind_act (if p_state p \<in> {''deposit_pending'', ''completed''}
             then load (p_id p) ''route_deposit'' else give None) (\<lambda>sent.
           if \<not> py_truthy (or_dict sent) then count ''manual_review''
           else observe_halted cb entry p))))"

definition observe_halted_route_credits :: "'w callbacks \<Rightarrow> nat \<Rightarrow> pydict list \<Rightarrow> ('w gx, unit) action" where
  "observe_halted_route_credits cb gid entries =
     bind_act (set_counts [(''group_id'', int gid), (''completed'', 0), (''deposit_pending'', 0),
       (''manual_review'', 0)]) (\<lambda>_.
     each (observe_halted_entry cb gid) entries)"

text \<open>A deposit that has been sent is reconciled, never sent again.\<close>

definition reconcile_deposit ::
  "'w run \<Rightarrow> pydict \<Rightarrow> nat \<Rightarrow> ('w gx, flow) action" where
  "reconcile_deposit r entry pid =
     bind_act (load pid ''direct_prepared'') (\<lambda>prepared.
     bind_act (lift (case prepared of None \<Rightarrow> Inr entry
       | Some v \<Rightarrow> if py_truthy v then spread v else Inr entry)) (\<lambda>base.
     bind_act (load pid ''route_deposit'') (\<lambda>sent.
     bind_act (observe_deposit (r_cb r) base pid
       (if py_truthy (or_dict sent) then observe_step else PDict [(''kind'', PStr ''direct_deposit'')])) (\<lambda>outcome.
     bind_act (lift (step_state_of outcome)) (\<lambda>st.
     if st = PStr ''deposit_pending''
     then bind_act (account_loss pid outcome (entry_loss (PDict entry))) (\<lambda>realized.
          bind_act (await_deposit pid outcome) (\<lambda>_. give (Next realized)))
     else if st \<noteq> PStr ''completed'' then throw (ValueError ''deposit reconciliation returned no result'')
     else bind_act (account_loss pid outcome (entry_loss (PDict entry))) (\<lambda>realized.
          bind_act (set_state pid ''completed'' None) (\<lambda>_.
          bind_act (count ''completed'') (\<lambda>_. give (Next realized)))))))))"

definition deposit_pending_group :: "'w run \<Rightarrow> nat \<Rightarrow> string \<Rightarrow> ('w gx, flow) action" where
  "deposit_pending_group r pid reason =
     bind_act (set_state pid ''deposit_pending'' (Some reason)) (\<lambda>_.
     bind_act (count ''deposit_pending'') (\<lambda>_.
     bind_act (set_group (r_group r) ''deposit_pending'' None) (\<lambda>_. give Finished)))"

definition reconcile_failed :: "'w run \<Rightarrow> nat \<Rightarrow> nat \<Rightarrow> exn \<Rightarrow> ('w gx, flow) action" where
  "reconcile_failed r i pid e =
     (let reason = execution_reason (cb_view (r_cb r)) e;
          remembered = remember_error r pid ''deposit_observation'' e in
      case e of
        DepositNotSeen _ \<Rightarrow> bind_act remembered (\<lambda>_. review_position r i reason)
      | DepositSettlementFailed _ \<Rightarrow> bind_act remembered (\<lambda>_. review_position r i reason)
      | GroupLossLimitExceeded _ \<Rightarrow> bind_act remembered (\<lambda>_. review_position r i reason)
      | StageDeadlineExceeded m \<Rightarrow> yield_stage r pid m
      | _ \<Rightarrow> bind_act remembered (\<lambda>_.
          case open_broadcast e of
            Some h \<Rightarrow> if cb_deadline (r_cb r) then yield_stage r pid (''broadcast_pending:'' @ h)
              else deposit_pending_group r pid reason
          | None \<Rightarrow> deposit_pending_group r pid reason))"

definition reconcile :: "'w run \<Rightarrow> nat \<Rightarrow> pydict \<Rightarrow> nat \<Rightarrow> ('w gx, flow) action" where
  "reconcile r i entry pid = handle (reconcile_deposit r entry pid) (reconcile_failed r i pid)"

section \<open>The preflight of an entry and the loss of the group\<close>

definition freeze :: "pydict \<Rightarrow> journal \<Rightarrow> nat \<Rightarrow> bool" where
  "freeze entry j pid =
     (if py_truthy (get entry ''automatic_requote'') then has_asset_intent j pid
      else has_broadcast j pid \<or> has_asset_intent j pid)"

definition fresh_plan :: "'w run \<Rightarrow> pydict \<Rightarrow> nat \<Rightarrow> ('w gx, pydict) action" where
  "fresh_plan r entry pid =
     bind_act (load pid ''prepared'') (\<lambda>saved.
     bind_act (reads (\<lambda>j. Inr (freeze entry j pid))) (\<lambda>frozen.
     bind_act (if frozen then give True
       else bind_act (load pid ''swap_result'') (\<lambda>swap. give (swap \<noteq> None))) (\<lambda>durable.
     bind_act (if durable
       then (case saved of
           None \<Rightarrow> throw (ValueError ''requote_required:durable_intent_preparation_missing'')
         | Some v \<Rightarrow> give v)
       else call (cb_preflight (r_cb r) entry)) (\<lambda>fresh. case fresh of
         PDict d \<Rightarrow> give d
       | _ \<Rightarrow> throw (ValueError ''route preflight returned no fresh plan'')))))"

definition open_loss :: "pydict \<times> position_row \<Rightarrow> fdec result" where
  "open_loss x = (case x of (entry, p) \<Rightarrow>
     bind_result (entry_loss (PDict entry)) (\<lambda>planned.
     bind_result (decimal_or_zero (p_loss_usd p)) (\<lambda>accounted.
     Inr (dec_max (dec_of_int 0) (dec_sub default_prec planned accounted)))))"

definition future_loss :: "'w run \<Rightarrow> nat \<Rightarrow> journal \<Rightarrow> fdec result" where
  "future_loss r i j =
     bind_result (map_results (position j) (drop (i + 1) (r_positions r))) (\<lambda>rows.
     bind_result (map_results open_loss
       (filter (\<lambda>(entry, p). p_state p \<noteq> ''completed'') (zip (drop (i + 1) (r_entries r)) rows))) (\<lambda>ls.
     Inr (exact_sum ls)))"

definition prepare_entry :: "'w run \<Rightarrow> nat \<Rightarrow> pydict \<Rightarrow> nat \<Rightarrow> ('w gx, pydict \<times> fdec \<times> fdec) action" where
  "prepare_entry r i entry pid =
     bind_act (fresh_plan r entry pid) (\<lambda>fresh.
     bind_act (lift (entry_loss (PDict fresh))) (\<lambda>current_loss.
     bind_act (reads (future_loss r i)) (\<lambda>future.
     give (fresh, current_loss, future))))"

definition preparation_failed :: "'w run \<Rightarrow> nat \<Rightarrow> pydict \<Rightarrow> nat \<Rightarrow> exn \<Rightarrow> ('w gx, flow) action" where
  "preparation_failed r i entry pid e =
     (case e of
        EthereumGasDeferred reason \<Rightarrow>
          bind_act (remember_error r pid ''preflight'' e) (\<lambda>_.
          bind_act (set_state pid ''gas_deferred'' (Some reason)) (\<lambda>_.
          bind_act (set_group (r_group r) ''gas_deferred'' (Some reason)) (\<lambda>_.
          bind_act (count ''gas_deferred'') (\<lambda>_. give Finished))))
      | StageDeadlineExceeded m \<Rightarrow> yield_stage r pid m
      | _ \<Rightarrow> bind_act (remember_error r pid ''preflight'' e) (\<lambda>_.
          yield_or r entry pid e (review_group r i (execution_reason (cb_view (r_cb r)) e))))"

text \<open>The projected loss of the group is recorded before it is compared with the budget.\<close>

definition project :: "'w run \<Rightarrow> nat \<Rightarrow> fdec \<Rightarrow> ('w gx, unit) action" where
  "project r pid amount =
     bind_act (lift (group_percentage amount (r_source r))) (\<lambda>pct.
     bind_act (updates (record_group_projection (r_group r)
       (PStr (decimal_string amount)) (PStr (decimal_string pct)))) (\<lambda>_.
     record_event (Projected pid amount)))"

text \<open>\<open>check_dependent_route_loss\<close>, the closure that a step is submitted with.\<close>

definition check_dependent_route_loss ::
  "'w run \<Rightarrow> fdec \<Rightarrow> fdec \<Rightarrow> fdec \<Rightarrow> fdec \<Rightarrow> (journal \<times> 'w, unit) action" where
  "check_dependent_route_loss r realized accounted future position_loss s =
     (let amount = exact_sum [dec_sub default_prec realized accounted, position_loss, future] in
      case group_percentage amount (r_source r) of
        Inl e \<Rightarrow> (Inl e, s)
      | Inr pct \<Rightarrow>
          (case record_group_projection (r_group r)
              (PStr (decimal_string amount)) (PStr (decimal_string pct)) (fst s) of
            Inl e \<Rightarrow> (Inl e, s)
          | Inr j \<Rightarrow>
              if dec_less (r_budget r) amount
              then (Inl (GroupLossLimitExceeded ''loss_threshold_exceeded_after_intermediate_bridge''), (j, snd s))
              else (Inr (), (j, snd s))))"

definition submit :: "'w run \<Rightarrow> nat \<Rightarrow> pydict \<Rightarrow> (fdec \<Rightarrow> (journal \<times> 'w, unit) action)
     \<Rightarrow> pyval \<Rightarrow> ('w gx, pyval) action" where
  "submit r pid entry check s =
     bind_act (record_event (Submitted pid)) (\<lambda>_. call (cb_submit (r_cb r) entry (Some check) s))"

definition confirmed_state :: "pyval \<Rightarrow> bool" where
  "confirmed_state st \<longleftrightarrow> st \<in> {PStr ''confirmed'', PStr ''completed''}"

definition complete_position :: "nat \<Rightarrow> fdec \<Rightarrow> ('w gx, flow) action" where
  "complete_position pid realized =
     bind_act (reads (\<lambda>j. position j pid)) (\<lambda>p.
     if p_state p \<noteq> ''deposit_pending''
     then bind_act (set_state pid ''completed'' None) (\<lambda>_.
          bind_act (count ''completed'') (\<lambda>_. give (Next realized)))
     else give (Next realized))"

section \<open>A route that first swaps to the native coin\<close>

definition keep_protected :: "pydict \<Rightarrow> pyval \<Rightarrow> pydict result" where
  "keep_protected fresh outcome =
     (let bootstrap = get fresh ''canonical_source_bootstrap'' in
      if \<not> py_truthy bootstrap then Inr fresh
      else bind_result (spread bootstrap) (\<lambda>b.
           bind_result (item outcome ''protected_native_raw'') (\<lambda>raw.
           Inr (with_key ''canonical_source_bootstrap''
             (PDict (with_key ''protected_native_raw'' raw b)) fresh))))"

text \<open>The result of the swap: saved, or of the submission; then the loss it has realised.\<close>

definition source_swap ::
  "'w run \<Rightarrow> nat \<Rightarrow> pydict \<Rightarrow> pyval \<Rightarrow> pyval option \<Rightarrow> fdec \<Rightarrow> fdec \<Rightarrow> fdec
     \<Rightarrow> ('w gx, pyval \<times> pydict \<times> string \<times> int \<times> fdec \<times> fdec) action" where
  "source_swap r pid fresh first saved realized accounted future =
     bind_act (if py_truthy (or_dict saved) then give (or_dict saved)
       else submit r pid (with_key ''_journal_position_id'' (PInt (int pid)) fresh)
         (check_dependent_route_loss r realized accounted future) first) (\<lambda>outcome.
     bind_act (lift (step_state_of outcome)) (\<lambda>st.
     if \<not> confirmed_state st then throw (ValueError ''source swap did not confirm'')
     else
       bind_act (lift (item outcome ''actual_asset_id'')) (\<lambda>asset.
       bind_act (lift (bind_result (item outcome ''actual_balance_raw'') raw_amount)) (\<lambda>balance.
       bind_act (lift (as_dict outcome)) (\<lambda>d.
       bind_act (writes (checkpoint_source_conversion pid d)) (\<lambda>t.
       bind_act (lift (number_of t)) (\<lambda>realized'.
       bind_act (reads (\<lambda>j. bind_result (position j pid) (\<lambda>p. decimal_or_zero (p_loss_usd p)))) (\<lambda>accounted'.
       bind_act (lift (keep_protected fresh outcome)) (\<lambda>fresh'.
       give (outcome, fresh', py_str asset, balance, realized', accounted'))))))))))"

definition swap_failed :: "'w run \<Rightarrow> nat \<Rightarrow> pydict \<Rightarrow> nat \<Rightarrow> exn \<Rightarrow> ('w gx, flow) action" where
  "swap_failed r i entry pid e =
     (case e of
        StageDeadlineExceeded m \<Rightarrow> yield_stage r pid m
      | _ \<Rightarrow> bind_act (remember_error r pid ''source_swap'' e) (\<lambda>_.
          yield_or r entry pid e (review_group r i (execution_reason (cb_view (r_cb r)) e))))"

fun find_bridge :: "pyval list \<Rightarrow> pyval option result" where
  "find_bridge [] = Inr None"
| "find_bridge (s # ss) = bind_result (has_kind ''bridge'' s) (\<lambda>b. if b then Inr (Some s) else find_bridge ss)"

text \<open>
  The bridge for the swap's output: the saved replacement, or a new quote, which the journal
  records once against the route it replaces.
\<close>

definition record_replacement ::
  "nat \<Rightarrow> pyval \<Rightarrow> pyval \<Rightarrow> pyval \<Rightarrow> string \<Rightarrow> ('w gx, unit) action" where
  "record_replacement pid old_route new_route evidence asset =
     bind_act (lift (item old_route ''id'')) (\<lambda>old_id.
     bind_act (lift (bind_result (item old_route ''evidence'') (\<lambda>e. item e ''payload_sha256''))) (\<lambda>old_hash.
     bind_act (lift (item new_route ''id'')) (\<lambda>new_id.
     bind_act (lift (item evidence ''payload_sha256'')) (\<lambda>new_hash.
     bind_act (lift (bind_result (get_item new_route ''from_amount'' PNone) raw_amount)) (\<lambda>amount.
     bind_act (writes (record_requote_after_swap pid (py_str old_id) (py_str old_hash)
       (py_str new_id) (py_str new_hash) (PInt amount) asset None)) (\<lambda>_.
     give ()))))))"

definition replacement_bridge ::
  "'w run \<Rightarrow> nat \<Rightarrow> pydict \<Rightarrow> pyval option \<Rightarrow> string \<Rightarrow> int \<Rightarrow> ('w gx, pyval) action" where
  "replacement_bridge r pid fresh original asset balance =
     (case (cb_requote (r_cb r), original) of
        (Some requote, Some bridge) \<Rightarrow>
          bind_act (load pid ''replacement'') (\<lambda>saved.
          bind_act (if py_truthy (or_dict saved) then give (or_dict saved)
            else call (requote fresh balance)) (\<lambda>replacement.
          if \<not> is_dict replacement
          then throw (ValueError ''post-swap bridge re-quote returned no route'')
          else
            bind_act (lift (get_item bridge ''route'' (PDict []))) (\<lambda>old_route.
            bind_act (lift (get_item replacement ''route'' replacement)) (\<lambda>new_route.
            bind_act (lift (get_item new_route ''evidence'' (PDict []))) (\<lambda>evidence.
            bind_act (whenever (saved = None) (record_replacement pid old_route new_route evidence asset)) (\<lambda>_.
            give replacement))))))
      | _ \<Rightarrow> throw (ValueError ''post-swap bridge re-quote is unavailable''))"

definition bridge_intent :: "journal \<Rightarrow> nat \<Rightarrow> bool" where
  "bridge_intent j pid = list_ex (\<lambda>s. s_position s = pid \<and> sql_like ''bridge:%'' (s_key s)) (steps j)"

definition bridge_plan :: "'w run \<Rightarrow> pydict \<Rightarrow> nat \<Rightarrow> pydict \<Rightarrow> ('w gx, pyval) action" where
  "bridge_plan r entry pid fresh =
     bind_act (load pid ''bridge_prepared'') (\<lambda>saved.
     bind_act (reads (\<lambda>j. Inr (if py_truthy (get entry ''canonical_source_bootstrap'')
        then bridge_intent j pid else has_broadcast j pid))) (\<lambda>frozen.
     case saved of
       Some routed \<Rightarrow> if frozen then give routed else call (cb_preflight (r_cb r) fresh)
     | None \<Rightarrow> call (cb_preflight (r_cb r) fresh)))"

text \<open>The loss of the whole route, the swap's realised loss included, is projected again.\<close>

definition threshold_after_swap :: string where
  "threshold_after_swap = ''loss_threshold_exceeded_after_swap''"

definition halt_after_swap :: "'w run \<Rightarrow> nat \<Rightarrow> nat \<Rightarrow> ('w gx, flow) action" where
  "halt_after_swap r i pid =
     bind_act (set_state pid ''manual_review_after_swap'' (Some threshold_after_swap)) (\<lambda>_.
     bind_act (count ''manual_review_after_swap'') (\<lambda>_.
     bind_act (halt_remaining r (i + 1) ''manual_review_group_threshold_exceeded'' threshold_after_swap) (\<lambda>_.
     give Finished)))"

definition submit_bridge ::
  "'w run \<Rightarrow> nat \<Rightarrow> pydict \<Rightarrow> pyval \<Rightarrow> fdec \<Rightarrow> fdec \<Rightarrow> fdec \<Rightarrow> fdec \<Rightarrow> ('w gx, flow) action" where
  "submit_bridge r pid fresh replacement current_loss realized accounted future =
     bind_act (set_state pid ''bridge_submitted'' None) (\<lambda>_.
     bind_act (submit r pid fresh (check_dependent_route_loss r realized accounted future) replacement) (\<lambda>outcome.
     bind_act (lift (step_state_of outcome)) (\<lambda>st.
     if st = PStr ''deposit_pending''
     then bind_act (account_loss pid outcome (Inr current_loss)) (\<lambda>_.
          bind_act (await_deposit pid outcome) (\<lambda>_. give Finished))
     else if \<not> confirmed_state st then throw (ValueError ''replacement bridge did not confirm'')
     else bind_act (account_loss pid outcome (Inr current_loss)) (\<lambda>total_loss. give (Next total_loss)))))"

definition bridge_fields ::
  "nat \<Rightarrow> pyval \<Rightarrow> pyval \<Rightarrow> string \<Rightarrow> int \<Rightarrow> pyval \<Rightarrow> pydict \<Rightarrow> pydict" where
  "bridge_fields pid first replacement asset balance spent fresh =
     with_key ''_realized_loss_before_current_usd'' spent
       (with_key ''_actual_balance_raw'' (PStr (int_text balance))
         (with_key ''_actual_asset_id'' (PStr asset)
           (with_key ''_journal_position_id'' (PInt (int pid))
             (with_key ''steps'' (PList [first, replacement]) fresh))))"

definition dependent_bridge ::
  "'w run \<Rightarrow> nat \<Rightarrow> pydict \<Rightarrow> nat \<Rightarrow> pydict \<Rightarrow> pyval \<Rightarrow> pyval option \<Rightarrow> string \<Rightarrow> int \<Rightarrow> pyval
     \<Rightarrow> fdec \<Rightarrow> fdec \<Rightarrow> fdec \<Rightarrow> ('w gx, flow) action" where
  "dependent_bridge r i entry pid fresh first original asset balance spent realized accounted future =
     bind_act (replacement_bridge r pid fresh original asset balance) (\<lambda>replacement.
     bind_act (bridge_plan r entry pid
       (bridge_fields pid first replacement asset balance spent fresh)) (\<lambda>routed.
     bind_act (save pid ''replacement'' replacement) (\<lambda>_.
     bind_act (save pid ''bridge_prepared'' routed) (\<lambda>_.
     bind_act (lift (bind_result (item routed ''steps'') elements)) (\<lambda>ss.
     if ss = [] then throw index_error
     else
       bind_act (lift (entry_loss routed)) (\<lambda>current_loss.
       let amount = exact_sum [dec_sub default_prec realized accounted, current_loss, future] in
       bind_act (project r pid amount) (\<lambda>_.
       if dec_less (r_budget r) amount then halt_after_swap r i pid
       else bind_act (lift (spread routed)) (\<lambda>d.
         submit_bridge r pid d (last ss) current_loss realized accounted future))))))))"

definition review_after_swap ::
  "'w run \<Rightarrow> nat \<Rightarrow> nat \<Rightarrow> string \<Rightarrow> int \<Rightarrow> string \<Rightarrow> ('w gx, flow) action" where
  "review_after_swap r i pid asset balance reason =
     bind_act (reads (\<lambda>j. position j pid)) (\<lambda>current.
     bind_act (whenever (p_state current \<noteq> ''manual_review_after_swap'')
       (updates (record_position_state pid ''manual_review_after_swap'' (Some asset)
         (Some (PInt balance)) (Some reason)))) (\<lambda>_.
     bind_act (count ''manual_review_after_swap'') (\<lambda>_.
     bind_act (halt_remaining r (i + 1) ''manual_review_group_halted'' reason) (\<lambda>_.
     bind_act (whenever (i + 1 = length (r_entries r))
       (set_group (r_group r) ''manual_review_after_swap'' (Some reason))) (\<lambda>_.
     give Finished)))))"

definition halt_threshold :: "'w run \<Rightarrow> nat \<Rightarrow> string \<Rightarrow> ('w gx, flow) action" where
  "halt_threshold r i reason =
     bind_act (halt_remaining r i ''manual_review_group_threshold_exceeded'' reason) (\<lambda>_. give Finished)"

definition bridge_failed ::
  "'w run \<Rightarrow> nat \<Rightarrow> pydict \<Rightarrow> nat \<Rightarrow> string \<Rightarrow> int \<Rightarrow> exn \<Rightarrow> ('w gx, flow) action" where
  "bridge_failed r i entry pid asset balance e =
     (let reason = execution_reason (cb_view (r_cb r)) e in
      case e of
        StageDeadlineExceeded m \<Rightarrow> yield_stage r pid m
      | GroupLossLimitExceeded _ \<Rightarrow>
          bind_act (remember_error r pid ''dependent_bridge'' e) (\<lambda>_. halt_threshold r i reason)
      | _ \<Rightarrow> bind_act (remember_error r pid ''dependent_bridge'' e) (\<lambda>_.
          yield_or r entry pid e (review_after_swap r i pid asset balance reason)))"

definition swap_route ::
  "'w run \<Rightarrow> nat \<Rightarrow> pydict \<Rightarrow> nat \<Rightarrow> pydict \<Rightarrow> pyval \<Rightarrow> pyval list \<Rightarrow> fdec \<Rightarrow> fdec \<Rightarrow> fdec
     \<Rightarrow> ('w gx, flow) action" where
  "swap_route r i entry pid fresh first rest realized accounted future =
     bind_act (load pid ''swap_result'') (\<lambda>saved.
     bind_act (whenever (saved = None) (set_state pid ''swap_submitted'' None)) (\<lambda>_.
     try_else (source_swap r pid fresh first saved realized accounted future)
       (swap_failed r i entry pid)
       (\<lambda>(outcome, routed, asset, balance, realized', accounted').
         bind_act (lift (item outcome ''realized_loss_usd'')) (\<lambda>v.
         let spent = PStr (py_str v); routed' = with_key ''_realized_loss_before_current_usd'' spent routed in
         bind_act (lift (find_bridge rest)) (\<lambda>original.
         try_else (dependent_bridge r i entry pid routed' first original asset balance spent
             realized' accounted' future)
           (bridge_failed r i entry pid asset balance)
           (\<lambda>f. case f of
               Finished \<Rightarrow> give Finished
             | Next total_loss \<Rightarrow> complete_position pid total_loss))))))"

section \<open>A route whose steps follow each other\<close>

text \<open>A step ends the route when its deposit is pending; otherwise the next step follows.\<close>

datatype progress = Waiting fdec | Settled fdec

definition plain_step ::
  "'w run \<Rightarrow> nat \<Rightarrow> pydict \<Rightarrow> pyval \<Rightarrow> fdec \<Rightarrow> fdec \<Rightarrow> fdec \<Rightarrow> ('w gx, progress) action" where
  "plain_step r pid fresh s realized accounted future =
     bind_act (lift (has_kind ''direct_deposit'' s)) (\<lambda>direct.
     bind_act (set_state pid (if direct then ''direct_deposit_submitted'' else ''bridge_submitted'') None) (\<lambda>_.
     bind_act (submit r pid (with_key ''_journal_position_id'' (PInt (int pid)) fresh)
       (check_dependent_route_loss r realized accounted future) s) (\<lambda>outcome.
     bind_act (lift (step_state_of outcome)) (\<lambda>st.
     if st = PStr ''deposit_pending''
     then bind_act (account_loss pid outcome (entry_loss (PDict fresh))) (\<lambda>total_loss.
          bind_act (await_deposit pid outcome) (\<lambda>_. give (Waiting total_loss)))
     else if \<not> confirmed_state st then throw (ValueError ''route step did not confirm'')
     else
       bind_act (if direct \<or> py_truthy (get fresh ''local_unwrap'') then give True
         else bind_act (load pid ''canonical_prepared'') (\<lambda>c. give (py_truthy (or_dict c)))) (\<lambda>whole.
       if whole then bind_act (account_loss pid outcome (entry_loss (PDict fresh))) (\<lambda>total_loss.
         give (Settled total_loss))
       else
         bind_act (lift (bind_result (get_item outcome ''realized_loss_usd'' (PStr ''0''))
           (add_realized realized))) (\<lambda>total_loss.
         bind_act (updates (record_group_realized_loss (r_group r) (PStr (decimal_string total_loss)))) (\<lambda>_.
         give (Settled total_loss))))))))"

definition step_failed ::
  "'w run \<Rightarrow> nat \<Rightarrow> pydict \<Rightarrow> nat \<Rightarrow> pyval \<Rightarrow> exn \<Rightarrow> ('w gx, flow) action" where
  "step_failed r i entry pid s e =
     (let reason = execution_reason (cb_view (r_cb r)) e;
          remembered = remember_error r pid ''submit'' e in
      case e of
        StageDeadlineExceeded m \<Rightarrow> yield_stage r pid m
      | GroupLossLimitExceeded _ \<Rightarrow> bind_act remembered (\<lambda>_. halt_threshold r i reason)
      | EthereumGasDeferred deferral \<Rightarrow>
          bind_act remembered (\<lambda>_.
          bind_act (lift (has_kind ''direct_deposit'' s)) (\<lambda>direct.
          if \<not> direct then review_group r i reason
          else
            bind_act (set_state pid ''gas_deferred'' (Some deferral)) (\<lambda>_.
            bind_act (set_group (r_group r) ''gas_deferred'' (Some deferral)) (\<lambda>_.
            bind_act (count ''gas_deferred'') (\<lambda>_. give Finished)))))
      | DepositNotSeen _ \<Rightarrow> bind_act remembered (\<lambda>_. review_position r i reason)
      | DepositSettlementFailed _ \<Rightarrow> bind_act remembered (\<lambda>_. review_position r i reason)
      | _ \<Rightarrow> bind_act remembered (\<lambda>_.
          yield_or r entry pid e (
            bind_act (lift (has_kind ''direct_deposit'' s)) (\<lambda>direct.
            bind_act (reads (\<lambda>j. Inr (latest_step j pid ''direct_deposit''))) (\<lambda>saved.
            if direct \<and> (\<exists>d \<in> set_option saved. tx_present d)
            then
              bind_act (set_state pid ''deposit_pending'' (Some reason)) (\<lambda>_.
              bind_act (count ''deposit_pending'') (\<lambda>_.
              bind_act (set_group (r_group r) ''deposit_pending'' (Some reason)) (\<lambda>_. give Finished)))
            else review_group r i reason)))))"

fun plain_steps ::
  "'w run \<Rightarrow> nat \<Rightarrow> pydict \<Rightarrow> nat \<Rightarrow> pydict \<Rightarrow> fdec \<Rightarrow> fdec \<Rightarrow> pyval list \<Rightarrow> fdec \<Rightarrow> ('w gx, flow) action"
where
  "plain_steps r i entry pid fresh accounted future [] realized = complete_position pid realized"
| "plain_steps r i entry pid fresh accounted future (s # ss) realized =
     try_else (plain_step r pid fresh s realized accounted future)
       (step_failed r i entry pid s)
       (\<lambda>p. case p of
           Waiting total_loss \<Rightarrow> complete_position pid total_loss
         | Settled total_loss \<Rightarrow> plain_steps r i entry pid fresh accounted future ss total_loss)"

section \<open>One entry\<close>

definition no_steps :: string where
  "no_steps = ''route plan has no executable steps''"

definition run_steps ::
  "'w run \<Rightarrow> nat \<Rightarrow> pydict \<Rightarrow> nat \<Rightarrow> pydict \<Rightarrow> fdec \<Rightarrow> fdec \<Rightarrow> fdec \<Rightarrow> ('w gx, flow) action" where
  "run_steps r i entry pid fresh realized accounted future =
     (case get fresh ''steps'' of
        PList (first # rest) \<Rightarrow>
          bind_act (save pid ''prepared'' (PDict fresh)) (\<lambda>_.
          bind_act (lift (has_kind ''swap_to_native'' first)) (\<lambda>swap.
          if swap then swap_route r i entry pid fresh first rest realized accounted future
          else plain_steps r i entry pid fresh accounted future (first # rest) realized))
      | _ \<Rightarrow> review_group r i no_steps)"

text \<open>
  An entry is admitted when the projected loss of its group is within the budget: what is
  realised, the loss of its fresh plan that is not accounted yet, and the open loss of the
  entries after it.
\<close>

definition admit_entry ::
  "'w run \<Rightarrow> nat \<Rightarrow> pydict \<Rightarrow> nat \<Rightarrow> fdec \<Rightarrow> pydict \<Rightarrow> fdec \<Rightarrow> fdec \<Rightarrow> ('w gx, flow) action" where
  "admit_entry r i entry pid realized fresh current_loss future =
     bind_act (reads (\<lambda>j. bind_result (position j pid) (\<lambda>p. decimal_or_zero (p_loss_usd p)))) (\<lambda>accounted.
     let amount = exact_sum [realized,
           dec_max (dec_of_int 0) (dec_sub default_prec current_loss accounted), future] in
     bind_act (project r pid amount) (\<lambda>_.
     if dec_less (r_budget r) amount then halt_threshold r i ''loss_threshold_exceeded''
     else run_steps r i entry pid fresh realized accounted future))"

definition held :: "pydict \<Rightarrow> string \<Rightarrow> journal \<Rightarrow> nat \<Rightarrow> bool" where
  "held entry key j pid \<longleftrightarrow> py_truthy (get entry key) \<and> \<not> has_broadcast j pid"

definition to_reconcile :: "journal \<Rightarrow> nat \<Rightarrow> string \<Rightarrow> bool" where
  "to_reconcile j pid state \<longleftrightarrow> state = ''deposit_pending''
     \<or> (state = ''direct_deposit_submitted''
        \<and> (\<exists>s \<in> set_option (latest_step j pid ''direct_deposit''). tx_present s))"

definition route_entry :: "'w run \<Rightarrow> nat \<Rightarrow> pydict \<Rightarrow> nat \<Rightarrow> fdec \<Rightarrow> ('w gx, flow) action" where
  "route_entry r i entry pid realized =
     bind_act (lift (item (PDict entry) ''asset_id'')) (\<lambda>asset.
     bind_act (reads (\<lambda>j. Inr (unresolved_direct_deposit j (r_wallet r) (r_chain r) (py_str asset) pid))) (\<lambda>unresolved.
     case unresolved of
       Some (_, h) \<Rightarrow> throw (ValueError
         (''unresolved prior direct deposit for this wallet, chain and asset: '' @ text_or_empty h))
     | None \<Rightarrow>
         bind_act (reads (\<lambda>j. bind_result (position j pid) (\<lambda>p. Inr (to_reconcile j pid (p_state p))))) (\<lambda>sent.
         if sent then reconcile r i entry pid
         else try_else (prepare_entry r i entry pid) (preparation_failed r i entry pid)
           (\<lambda>(fresh, current_loss, future). admit_entry r i entry pid realized fresh current_loss future))))"

definition process_entry :: "'w run \<Rightarrow> nat \<Rightarrow> pydict \<Rightarrow> nat \<Rightarrow> fdec \<Rightarrow> ('w gx, flow) action" where
  "process_entry r i entry pid realized =
     bind_act (if cb_deadline (r_cb r) then read_clock (cb_expired (r_cb r)) else give False) (\<lambda>expired.
     if expired then yield_stage r pid ''stage_deadline_exceeded''
     else
       bind_act (case cb_before (r_cb r) of None \<Rightarrow> give () | Some hook \<Rightarrow> call hook) (\<lambda>_.
       bind_act (reads (\<lambda>j. Inr (held entry ''_source_gas_held'' j pid))) (\<lambda>source_held.
       if source_held then yield_stage r pid ''source_gas_for_unsettled_tokens''
       else
         bind_act (reads (\<lambda>j. Inr (held entry ''_destination_gas_held'' j pid))) (\<lambda>destination_held.
         if destination_held then yield_stage r pid ''destination_gas_for_unsettled_routes''
         else
           bind_act (reads (\<lambda>j. position j pid)) (\<lambda>p.
           if p_state p = ''completed''
           then bind_act (observe_completed (r_cb r) entry pid) (\<lambda>_. give (Next realized))
           else route_entry r i entry pid realized)))))"

text \<open>The loop, and the state the group is left in when it has run through.\<close>

definition finish_group :: "'w run \<Rightarrow> ('w gx, unit) action" where
  "finish_group r =
     bind_act (reads (\<lambda>j. any_result (\<lambda>pid. bind_result (position j pid)
       (\<lambda>p. Inr (p_state p = ''deposit_pending''))) (r_positions r))) (\<lambda>waiting.
     set_group (r_group r) (if waiting then ''deposit_pending'' else ''completed'') None)"

fun process_entries :: "'w run \<Rightarrow> nat \<Rightarrow> (pydict \<times> nat) list \<Rightarrow> fdec \<Rightarrow> ('w gx, unit) action" where
  "process_entries r i [] realized = finish_group r"
| "process_entries r i ((entry, pid) # rest) realized =
     bind_act (process_entry r i entry pid realized) (\<lambda>f. case f of
       Finished \<Rightarrow> give ()
     | Next total_loss \<Rightarrow> process_entries r (i + 1) rest total_loss)"

section \<open>The group\<close>

text \<open>The identity and the budget of a group, as its first entry gives them.\<close>

record group_plan =
  gp_key :: string
  gp_wallet :: string
  gp_chain :: int
  gp_source :: fdec
  gp_limit :: fdec

definition plan_group :: "pyval \<Rightarrow> pydict \<Rightarrow> group_plan result" where
  "plan_group max_pct first =
     (case get first ''group'' of
        PDict d \<Rightarrow>
          bind_result (item (PDict first) ''wallet'') (\<lambda>w.
          bind_result (bind_result (item (PDict first) ''chain_id'') py_int) (\<lambda>chain.
          bind_result (exact_money (get d ''source_usd'') ''group source value'') (\<lambda>source.
          bind_result (exact_money max_pct ''maximum loss percent'') (\<lambda>limit.
          bind_result (exact_money (get d ''max_route_loss_pct'') ''planned maximum loss percent'') (\<lambda>planned.
          if dec_le source (dec_of_int 0) \<or> dec_le limit (dec_of_int 0) \<or> dec_less (dec_of_int 100) limit
          then Inl (ValueError ''invalid route group loss budget'')
          else if \<not> dec_eq planned limit
          then Inl (ValueError ''execution loss limit differs from the approved plan'')
          else
            let wallet = lower (py_str w); key = get d ''key'' in
            Inr \<lparr>gp_key = (if py_truthy key then py_str key else wallet @ '':'' @ int_text chain),
              gp_wallet = wallet, gp_chain = chain, gp_source = source, gp_limit = limit\<rparr>)))))
      | _ \<Rightarrow> Inl (ValueError ''route entry is missing its source group''))"

definition open_group :: "group_plan \<Rightarrow> ('w gx, group_row) action" where
  "open_group gp = writes (get_or_create_group (gp_key gp) (gp_wallet gp) (gp_chain gp)
     (PStr (decimal_string (gp_limit gp))) (PStr (decimal_string (gp_source gp))))"

text \<open>The two reactivations of a halted group with one direct deposit; the second only if the first fails.\<close>

definition reactivate_deposit :: "nat \<Rightarrow> string \<Rightarrow> journal \<Rightarrow> bool \<times> journal" where
  "reactivate_deposit gid key j =
     (case reactivate_known_direct_deposit gid key j of
        (True, k) \<Rightarrow> (True, k)
      | (False, k) \<Rightarrow> reactivate_legacy_gas_deferral gid key k)"

definition revive_deposit :: "pydict list \<Rightarrow> group_row \<Rightarrow> ('w gx, group_row) action" where
  "revive_deposit entries g =
     (if g_state g = ''manual_review_group_halted'' \<and> length entries = 1
         \<and> get (hd entries) ''status'' = PStr ''direct_deposit''
      then bind_act (lift (position_key (hd entries))) (\<lambda>key.
           bind_act (writes (\<lambda>j. Inr (reactivate_deposit (g_id g) key j))) (\<lambda>revived.
           if revived then reads (\<lambda>j. group j (g_id g)) else give g))
      else give g)"

definition revive_weth :: "pydict list \<Rightarrow> group_row \<Rightarrow> ('w gx, group_row) action" where
  "revive_weth entries g =
     (if g_state g = ''manual_review_group_halted''
         \<and> list_all (\<lambda>e. py_truthy (get e ''automatic_requote'')) entries
      then bind_act (lift (map_results position_key entries)) (\<lambda>keys.
           bind_act (writes (reactivate_unsigned_weth_continuation (g_id g) (set keys))) (\<lambda>revived.
           if revived then reads (\<lambda>j. group j (g_id g)) else give g))
      else give g)"

definition open_position :: "group_plan \<Rightarrow> nat \<Rightarrow> pydict \<Rightarrow> ('w gx, nat) action" where
  "open_position gp gid entry =
     bind_act (lift (if lower (py_str (get_default entry ''wallet'' (PStr []))) \<noteq> gp_wallet gp then Inr False
       else bind_result (py_int (get_default entry ''chain_id'' (PInt 0))) (\<lambda>c. Inr (c = gp_chain gp)))) (\<lambda>same.
     if \<not> same then throw (ValueError ''route group contains a different wallet or source network'')
     else
       bind_act (lift (position_key entry)) (\<lambda>key.
       bind_act (lift (item (PDict entry) ''asset_id'')) (\<lambda>asset.
       bind_act (lift (item (PDict entry) ''raw_balance'')) (\<lambda>balance.
       bind_act (writes (get_or_create_position key (gp_wallet gp) (Some gid)
         (Some (lower (py_str asset))) (Some (PStr (py_str balance))))) (\<lambda>p.
       give (p_id p))))))"

fun open_positions :: "group_plan \<Rightarrow> nat \<Rightarrow> pydict list \<Rightarrow> ('w gx, nat list) action" where
  "open_positions gp gid [] = give []"
| "open_positions gp gid (e # es) =
     bind_act (open_position gp gid e) (\<lambda>p. bind_act (open_positions gp gid es) (\<lambda>ps. give (p # ps)))"

definition initial_counts :: "nat \<Rightarrow> (string \<times> int) list" where
  "initial_counts gid = [(''group_id'', int gid), (''completed'', 0), (''deposit_pending'', 0),
     (''gas_deferred'', 0), (''manual_review'', 0), (''manual_review_after_swap'', 0),
     (''manual_review_group_threshold_exceeded'', 0), (''manual_review_group_halted'', 0)]"

definition group_budget :: "group_plan \<Rightarrow> fdec result" where
  "group_budget gp = dec_div default_prec (exact_product (gp_source gp) (gp_limit gp)) (dec_of_int 100)"

definition run_group :: "'w callbacks \<Rightarrow> group_plan \<Rightarrow> pydict list \<Rightarrow> group_row \<Rightarrow> ('w gx, unit) action" where
  "run_group cb gp entries g =
     bind_act (set_group (g_id g) ''active'' None) (\<lambda>_.
     bind_act (open_positions gp (g_id g) entries) (\<lambda>ps.
     bind_act (set_counts (initial_counts (g_id g))) (\<lambda>_.
     bind_act (lift (number_of (g_realized_usd g))) (\<lambda>realized.
     bind_act (lift (group_budget gp)) (\<lambda>budget.
     process_entries \<lparr>r_cb = cb, r_group = g_id g, r_wallet = gp_wallet gp, r_chain = gp_chain gp,
         r_source = gp_source gp, r_budget = budget, r_entries = entries, r_positions = ps\<rparr>
       0 (zip entries ps) realized)))))"

definition halted_states :: "string list" where
  "halted_states = [''manual_review_after_swap'', ''manual_review_group_threshold_exceeded'',
     ''manual_review_group_halted'']"

definition execute_group ::
  "'w callbacks \<Rightarrow> group_plan \<Rightarrow> pydict list \<Rightarrow> ('w gx, unit) action" where
  "execute_group cb gp entries =
     bind_act (bind_act (open_group gp) (revive_deposit entries)) (\<lambda>g.
     if g_state g = ''completed'' then observe_group cb (g_id g) entries
     else
       bind_act (revive_weth entries g) (\<lambda>g.
       if g_state g \<in> set halted_states then observe_halted_route_credits cb (g_id g) entries
       else run_group cb gp entries g))"

definition counts_of :: "('w gx, (string \<times> int) list) action" where
  "counts_of s = (Inr (gx_counts s), s)"

definition execute_group_entries ::
  "'w callbacks \<Rightarrow> pyval \<Rightarrow> pydict list \<Rightarrow> ('w gx, (string \<times> int) list) action" where
  "execute_group_entries cb max_pct entries =
     (if list_ex (\<lambda>e. uses_excluded_network (PDict e)) entries
      then give [(''excluded'', int (length entries))]
      else case entries of
          [] \<Rightarrow> give [(''completed'', 0)]
        | first # _ \<Rightarrow>
            bind_act (lift (plan_group max_pct first)) (\<lambda>gp.
            bind_act (execute_group cb gp entries) (\<lambda>_. counts_of)))"

end
