(* ===== verification/Group_Frames.thy ===== *)
theory Group_Frames
  imports Group_Execution
begin

text \<open>
  What holds between the states before and after any part of \<open>execute_group_entries\<close>: a
  relation that is a preorder and that the elementary actions keep is kept by every branch,
  whatever exceptions end it. Three relations are instances: the record of calls is kept, no
  step is submitted, and the journal only takes steps of its machine.
\<close>

section \<open>The interface\<close>

text \<open>A closure \<open>_check_group_loss\<close> that writes the journal only by its operations.\<close>

definition lawful_check :: "(fdec \<Rightarrow> (journal \<times> 'w, unit) action) \<Rightarrow> bool" where
  "lawful_check c \<longleftrightarrow> (\<forall>x s. jstep\<^sup>*\<^sup>* (fst s) (fst (snd (c x s))))"

named_theorems frame \<open>parts of the execution that keep a relation\<close>

locale store_frame =
  fixes R :: "'w gx \<Rightarrow> 'w gx \<Rightarrow> bool" and cb :: "'w callbacks"
  assumes same: "R s s"
    and trans: "R s t \<Longrightarrow> R t u \<Longrightarrow> R s u"
    and journal: "jstep\<^sup>*\<^sup>* (gx_journal s) j \<Longrightarrow> R s (s\<lparr>gx_journal := j\<rparr>)"
    and counters: "R s (s\<lparr>gx_counts := c\<rparr>)"
    and clock: "keeps R (read_clock (cb_expired cb))"
    and preflight: "keeps R (call (cb_preflight cb entry))"
    and requote: "cb_requote cb = Some f \<Longrightarrow> keeps R (call (f fresh balance))"
    and hook: "cb_before cb = Some m \<Longrightarrow> keeps R (call m)"
    and submitted: "(\<And>c. check = Some c \<Longrightarrow> lawful_check c) \<Longrightarrow> keeps R (call (cb_submit cb entry check p))"
begin

lemma keeps_pure_all [frame]: "keeps R (lift x)" "keeps R (give y)" "keeps R (throw e)"
  by (rule keeps_pure, rule same)+

lemma keeps_bind_act [frame]:
  "keeps R m \<Longrightarrow> (\<And>x. keeps R (f x)) \<Longrightarrow> keeps R (bind_act m f)"
  by (rule keeps_bind) (auto intro: trans)

lemma keeps_handled [frame]: "keeps R m \<Longrightarrow> (\<And>e. keeps R (h e)) \<Longrightarrow> keeps R (handle m h)"
  by (rule keeps_handle) (auto intro: trans)

lemma keeps_tried [frame]:
  "keeps R m \<Longrightarrow> (\<And>e. keeps R (h e)) \<Longrightarrow> (\<And>x. keeps R (k x)) \<Longrightarrow> keeps R (try_else m h k)"
  by (rule keeps_try_else) (auto intro: trans)

lemma keeps_if [frame]: "keeps R m \<Longrightarrow> keeps R n \<Longrightarrow> keeps R (if b then m else n)"
  by simp

lemma keeps_whenever [frame]: "keeps R m \<Longrightarrow> keeps R (whenever b m)"
  by (simp add: whenever_def keeps_pure_all)

lemma keeps_option [frame]:
  "keeps R m \<Longrightarrow> (\<And>x. y = Some x \<Longrightarrow> keeps R (f x)) \<Longrightarrow> keeps R (case y of None \<Rightarrow> m | Some x \<Rightarrow> f x)"
  by (cases y) auto

lemma keeps_pair [frame]: "(\<And>x y. keeps R (f x y)) \<Longrightarrow> keeps R (case p of (x, y) \<Rightarrow> f x y)"
  by (cases p) auto

lemma keeps_flow [frame]:
  "(\<And>x. keeps R (f x)) \<Longrightarrow> keeps R m \<Longrightarrow> keeps R (case y of Next x \<Rightarrow> f x | Finished \<Rightarrow> m)"
  by (cases y) auto

lemma keeps_each [frame]: "(\<And>x. keeps R (f x)) \<Longrightarrow> keeps R (each f xs)"
  by (induction xs) (simp_all add: keeps_pure_all keeps_bind_act)

lemma keeps_reads [frame]: "keeps R (reads f)"
  by (simp add: keeps_def reads_def same)

lemma keeps_writes [frame]: "(\<And>j x k. f j = Inr (x, k) \<Longrightarrow> jstep\<^sup>*\<^sup>* j k) \<Longrightarrow> keeps R (writes f)"
  by (auto simp: keeps_def writes_def split: sum.split intro: same journal)

lemma keeps_updates [frame]: "(\<And>j k. f j = Inr k \<Longrightarrow> jstep\<^sup>*\<^sup>* j k) \<Longrightarrow> keeps R (updates f)"
  unfolding updates_def by (rule keeps_writes) auto

lemma keeps_counters [frame]: "keeps R (count k)" "keeps R (flag k)" "keeps R (set_counts cs)"
  by (simp_all add: keeps_def count_def flag_def set_counts_def counters)

lemma keeps_counts_of [frame]: "keeps R counts_of"
  by (simp add: keeps_def counts_of_def same)

lemma keeps_records [frame]:
  "keeps R (set_state pid state reason)" "keeps R (set_group gid state reason)"
  "keeps R (save pid key v)" "keeps R (load pid key)"
  "keeps R (writes (account_position_loss pid loss))"
  "keeps R (writes (checkpoint_source_conversion pid d))"
  "keeps R (writes (record_requote_after_swap pid a b c c' n asset None))"
  "keeps R (updates (record_group_projection gid x y))"
  "keeps R (updates (record_group_realized_loss gid x))"
  "keeps R (updates (record_position_state pid state' asset' balance' reason))"
  unfolding set_state_def set_group_def save_def load_def
  by (auto intro!: keeps_updates keeps_writes keeps_reads intro: r_into_rtranclp jstep.intros)

lemma keeps_accounting [frame]: "keeps R (account_loss pid outcome x)" "keeps R (await_deposit pid outcome)"
  unfolding account_loss_def await_deposit_def by (intro frame)+

lemma keeps_call_submit [frame]:
  "keeps R (call (cb_submit cb entry None p))"
  "lawful_check c \<Longrightarrow> keeps R (call (cb_submit cb entry (Some c) p))"
  by (rule submitted; simp)+

lemma keeps_errors [frame]:
  "keeps R (remember_error r pid phase e)" "keeps R (yield_stage r pid reason)"
  unfolding remember_error_def yield_stage_def Let_def by (intro frame)+

lemma keeps_fresh_plan [frame]: "r_cb r = cb \<Longrightarrow> keeps R (fresh_plan r entry pid)"
  unfolding fresh_plan_def by (intro frame) (auto intro!: frame preflight split: pyval.split)

lemma keeps_prepare_entry [frame]: "r_cb r = cb \<Longrightarrow> keeps R (prepare_entry r i entry pid)"
  unfolding prepare_entry_def by (intro frame)

lemma keeps_replacement [frame]:
  "keeps R (record_replacement pid old new evidence asset)"
  "r_cb r = cb \<Longrightarrow> keeps R (replacement_bridge r pid fresh original asset balance)"
proof -
  show recorded: "keeps R (record_replacement pid old new evidence asset)" for pid old new evidence asset
    unfolding record_replacement_def by (intro frame)
  assume "r_cb r = cb"
  then show "keeps R (replacement_bridge r pid fresh original asset balance)"
    unfolding replacement_bridge_def
    by (auto split: option.split intro!: frame recorded requote)
qed

lemma keeps_bridge_plan [frame]: "r_cb r = cb \<Longrightarrow> keeps R (bridge_plan r entry pid fresh)"
  unfolding bridge_plan_def by (intro frame preflight) (auto intro!: frame preflight split: option.split)

lemma keeps_open [frame]:
  "keeps R (open_group gp)" "keeps R (revive_deposit entries g)" "keeps R (revive_weth entries g)"
  "keeps R (open_position gp gid entry)" "keeps R (open_positions gp gid entries)"
proof -
  show "keeps R (open_group gp)" for gp
    unfolding open_group_def by (intro keeps_writes) (auto intro: jstep.intros)
  have "jstep\<^sup>*\<^sup>* j k" if "reactivate_deposit gid key j = (b, k)" for gid key j b k
  proof -
    obtain b' j' where first: "reactivate_known_direct_deposit gid key j = (b', j')" by fastforce
    then have step: "jstep j j'" by (rule jstep.direct_deposit)
    show ?thesis
    proof (cases b')
      case True
      with first that step show ?thesis by (auto simp: reactivate_deposit_def)
    next
      case False
      with first that have "jstep j' k" by (auto simp: reactivate_deposit_def intro: jstep.legacy_deferral)
      with step show ?thesis by (meson converse_rtranclp_into_rtranclp r_into_rtranclp)
    qed
  qed
  then show "keeps R (revive_deposit entries g)"
    unfolding revive_deposit_def by (auto intro!: frame)
  show "keeps R (revive_weth entries g)"
    unfolding revive_weth_def by (auto intro!: frame r_into_rtranclp intro: jstep.weth_continuation)
  show position: "keeps R (open_position gp gid entry)" for entry
    unfolding open_position_def by (intro frame) (auto intro: jstep.create_position)
  show "keeps R (open_positions gp gid entries)"
    by (induction entries) (simp_all only: open_positions.simps, (intro frame position; assumption)+)
qed

lemma keeps_finish [frame]: "keeps R (finish_group r)" "keeps R (complete_position pid realized)"
  unfolding finish_group_def complete_position_def by (intro frame)+

text \<open>
  The closure of \<open>_check_group_loss\<close> writes the journal by one operation, if at all.
\<close>

lemma lawful_check_dependent [frame]:
  "lawful_check (check_dependent_route_loss r realized accounted future)"
proof -
  have step: "jstep\<^sup>*\<^sup>* (fst s) (fst (snd (check_dependent_route_loss r realized accounted future x s)))"
    for x s
  proof (cases "group_percentage (exact_sum [dec_sub default_prec realized accounted, x, future]) (r_source r)")
    case (Inr pct)
    let ?amount = "exact_sum [dec_sub default_prec realized accounted, x, future]"
    show ?thesis
    proof (cases "record_group_projection (r_group r) (PStr (decimal_string ?amount))
        (PStr (decimal_string pct)) (fst s)")
      case (Inr j)
      then have "jstep (fst s) j" by (rule jstep.group_projection)
      with Inr \<open>group_percentage _ _ = _\<close> show ?thesis
        by (auto simp: check_dependent_route_loss_def Let_def)
    qed (use Inr in \<open>simp add: check_dependent_route_loss_def Let_def\<close>)
  qed (simp add: check_dependent_route_loss_def Let_def)
  then show ?thesis by (simp add: lawful_check_def)
qed

end

section \<open>Observing and halting\<close>

text \<open>Where the relation also allows an event that is no submission, every handler keeps it.\<close>

definition is_submission :: "gx_event \<Rightarrow> bool" where
  "is_submission e = (case e of Submitted _ \<Rightarrow> True | _ \<Rightarrow> False)"

locale event_frame = store_frame +
  assumes event: "\<not> is_submission e \<Longrightarrow> R s (s\<lparr>gx_log := e # gx_log s\<rparr>)"
begin

lemma keeps_events [frame]:
  "keeps R (record_event Halted)" "keeps R (record_event (Projected pid x))"
  "keeps R (record_event (Observed pid))"
  by (simp_all add: keeps_def record_event_def event is_submission_def)

lemma keeps_observe [frame]:
  "keeps R (observe_deposit cb entry pid p)" "keeps R (credit_state cb entry pid)"
  "keeps R (observe_completed cb entry pid)" "keeps R (observe_group cb gid entries)"
proof -
  show observe: "keeps R (observe_deposit cb entry pid p)" for entry pid p
    unfolding observe_deposit_def by (intro frame)
  show credit: "keeps R (credit_state cb entry pid)" for entry pid
    unfolding credit_state_def by (intro frame observe) (auto split: exn.split intro!: frame)
  show completed: "keeps R (observe_completed cb entry pid)" for entry pid
    unfolding observe_completed_def by (intro frame credit)
  show "keeps R (observe_group cb gid entries)"
    unfolding observe_group_def by (intro frame completed)
qed

lemma keeps_observe_halted [frame]: "keeps R (observe_halted_route_credits cb gid entries)"
proof -
  have halted: "keeps R (observe_halted cb entry p)" for entry p
    unfolding observe_halted_def by (intro frame) (auto split: exn.split intro!: frame)
  show ?thesis
    unfolding observe_halted_route_credits_def observe_halted_entry_def by (intro frame halted)
qed

lemma keeps_halt_remaining [frame]: "keeps R (halt_remaining r start state reason)"
proof -
  have unwrap: "keeps R (unwrap_loss pid s)" for pid s
    unfolding unwrap_loss_def by (intro frame)
  have account: "keeps R (account_confirmed_local_unwrap_loss pid entry)" for pid entry
    unfolding account_confirmed_local_unwrap_loss_def by (intro frame unwrap)
  have "keeps R (halt_position target reason pid)" for target pid
    unfolding halt_position_def by (intro frame)
  with account show ?thesis
    unfolding halt_remaining_def Let_def by (intro frame)
qed

lemma keeps_reviews [frame]:
  "keeps R (review_group r i reason)" "keeps R (review_position r i reason)"
  "keeps R (halt_threshold r i reason)" "keeps R (halt_after_swap r i pid)"
  "keeps R (review_after_swap r i pid asset balance reason)"
  unfolding review_group_def review_position_def halt_threshold_def halt_after_swap_def
    review_after_swap_def
  by (intro frame)+

lemma keeps_yield_or [frame]: "keeps R m \<Longrightarrow> keeps R (yield_or r entry pid e m)"
  unfolding yield_or_def Let_def by (intro frame)

lemma keeps_project [frame]: "keeps R (project r pid x)"
  unfolding project_def by (intro frame)

lemma keeps_failures [frame]:
  "keeps R (preparation_failed r i entry pid e)" "keeps R (swap_failed r i entry pid e)"
  "keeps R (bridge_failed r i entry pid asset balance e)"
  by (cases e; simp only: preparation_failed_def swap_failed_def bridge_failed_def Let_def exn.case;
      intro frame)+

lemma keeps_step_failed [frame]: "keeps R (step_failed r i entry pid p e)"
  by (cases e; simp only: step_failed_def Let_def exn.case; intro frame)

lemma keeps_reconcile [frame]:
  assumes cb: "r_cb r = cb"
  shows "keeps R (reconcile r i entry pid)"
proof -
  have deposit: "keeps R (reconcile_deposit r entry pid)"
    unfolding reconcile_deposit_def cb by (intro frame)
  have failed: "keeps R (reconcile_failed r i pid e)" for e
    by (cases e; simp only: reconcile_failed_def deposit_pending_group_def Let_def exn.case; intro frame)
  show ?thesis unfolding reconcile_def by (intro frame deposit failed)
qed

end

section \<open>The whole execution\<close>

text \<open>A relation that a submission keeps too is kept by the execution.\<close>

locale run_frame = event_frame +
  assumes submission: "is_submission e \<Longrightarrow> R s (s\<lparr>gx_log := e # gx_log s\<rparr>)"
begin

lemma keeps_submit [frame]:
  assumes cb: "r_cb r = cb"
  shows "lawful_check c \<Longrightarrow> keeps R (submit r pid entry c p)"
proof -
  assume c: "lawful_check c"
  have "keeps R (record_event (Submitted pid))"
    by (simp add: keeps_def record_event_def submission is_submission_def)
  with c show ?thesis unfolding submit_def cb by (intro frame)
qed

lemma keeps_swap_route [frame]:
  assumes cb: "r_cb r = cb"
  shows "keeps R (swap_route r i entry pid fresh first rest realized accounted future)"
proof -
  have swap: "keeps R (source_swap r pid plan first saved realized accounted future)" for plan saved
    unfolding source_swap_def by (intro frame cb)
  have bridge: "keeps R (submit_bridge r pid d p x realized' accounted' future)" for d p x realized' accounted'
    unfolding submit_bridge_def by (intro frame cb)
  have dependent: "keeps R (dependent_bridge r i entry pid plan first original asset balance spent
      realized' accounted' future)" for plan original asset balance spent realized' accounted'
    unfolding dependent_bridge_def Let_def by (intro frame cb bridge)
  show ?thesis unfolding swap_route_def Let_def by (intro frame swap dependent)
qed

lemma keeps_plain_steps [frame]:
  assumes cb: "r_cb r = cb"
  shows "keeps R (plain_steps r i entry pid fresh accounted future ss realized)"
proof (induction ss arbitrary: realized)
  case (Cons s ss)
  have "keeps R (plain_step r pid fresh s realized accounted future)"
    unfolding plain_step_def by (intro frame cb)
  moreover have "keeps R (case p of Waiting x \<Rightarrow> complete_position pid x
      | Settled x \<Rightarrow> plain_steps r i entry pid fresh accounted future ss x)" for p
    by (cases p) (simp_all add: Cons.IH keeps_finish)
  ultimately show ?case by (simp only: plain_steps.simps) (intro frame)
qed (simp only: plain_steps.simps, intro frame)

lemma keeps_admit_entry [frame]:
  assumes cb: "r_cb r = cb"
  shows "keeps R (admit_entry r i entry pid realized fresh current_loss future)"
proof -
  have "keeps R (run_steps r i entry pid fresh realized accounted future)" for accounted
  proof (cases "get fresh ''steps''")
    case (PList xs)
    then show ?thesis unfolding run_steps_def
      by (cases xs; simp only: pyval.case list.case; intro frame cb)
  qed (simp only: run_steps_def pyval.case, intro frame)+
  then show ?thesis unfolding admit_entry_def Let_def by (intro frame)
qed

lemma keeps_process_entries [frame]:
  assumes cb: "r_cb r = cb"
  shows "keeps R (process_entries r i es realized)"
proof (induction es arbitrary: i realized)
  case (Cons e es)
  obtain entry pid where e: "e = (entry, pid)" by fastforce
  have route: "keeps R (route_entry r i entry pid realized)"
    unfolding route_entry_def by (intro frame cb)
  have one: "keeps R (process_entry r i entry pid realized)"
    unfolding process_entry_def cb by (intro frame clock hook route)
  show ?case unfolding e process_entries.simps by (intro frame one Cons.IH)
qed (simp only: process_entries.simps, intro frame)

lemma keeps_execution: "keeps R (execute_group_entries cb max_pct entries)"
proof -
  have run: "keeps R (run_group cb gp entries g)" for gp entries g
    unfolding run_group_def by (intro frame) simp
  have execute: "keeps R (execute_group cb gp entries)" for gp entries
    unfolding execute_group_def by (intro frame run)
  show ?thesis
    unfolding execute_group_entries_def by (cases entries; simp only: list.case; intro frame execute)
qed

end

section \<open>The instances\<close>

definition log_kept :: "'w gx \<Rightarrow> 'w gx \<Rightarrow> bool" where
  "log_kept s t \<longleftrightarrow> gx_log t = gx_log s"

definition calm :: "'w gx \<Rightarrow> 'w gx \<Rightarrow> bool" where
  "calm s t \<longleftrightarrow> (\<exists>es. gx_log t = es @ gx_log s \<and> list_all (\<lambda>e. \<not> is_submission e) es)"

text \<open>Injected functions that write the journal only by its operations.\<close>

definition lawful :: "(journal \<times> 'w, 'a) action \<Rightarrow> bool" where
  "lawful m \<longleftrightarrow> (\<forall>s. jstep\<^sup>*\<^sup>* (fst s) (fst (snd (m s))))"

definition lawful_callbacks :: "'w callbacks \<Rightarrow> bool" where
  "lawful_callbacks cb \<longleftrightarrow>
     (\<forall>entry. lawful (cb_preflight cb entry)) \<and>
     (\<forall>entry check p. (\<forall>c. check = Some c \<longrightarrow> lawful_check c) \<longrightarrow> lawful (cb_submit cb entry check p)) \<and>
     (\<forall>f fresh balance. cb_requote cb = Some f \<longrightarrow> lawful (f fresh balance)) \<and>
     (\<forall>m. cb_before cb = Some m \<longrightarrow> lawful m)"

definition lawful_run :: "'w callbacks \<Rightarrow> 'w gx \<Rightarrow> 'w gx \<Rightarrow> bool" where
  "lawful_run cb s t \<longleftrightarrow> (lawful_callbacks cb \<longrightarrow> jstep\<^sup>*\<^sup>* (gx_journal s) (gx_journal t))"

lemma call_log: "gx_log (snd (call m s)) = gx_log s"
  by (simp add: call_def split: prod.split)

lemma read_clock_frame [simp]:
  "gx_log (snd (read_clock f s)) = gx_log s" "gx_journal (snd (read_clock f s)) = gx_journal s"
  by (simp_all add: read_clock_def split: prod.split)

lemma call_lawful: "lawful m \<Longrightarrow> jstep\<^sup>*\<^sup>* (gx_journal s) (gx_journal (snd (call m s)))"
proof -
  assume m: "lawful m"
  obtain x j w where r: "m (gx_journal s, gx_world s) = (x, j, w)" by (metis prod_cases3)
  from m have "jstep\<^sup>*\<^sup>* (gx_journal s) (fst (snd (m (gx_journal s, gx_world s))))"
    unfolding lawful_def by (metis fst_conv)
  with r show ?thesis by (simp add: call_def)
qed

interpretation logs: store_frame log_kept cb for cb :: "'w callbacks"
  by unfold_locales (simp_all add: log_kept_def keeps_def call_log)

interpretation calmly: event_frame calm cb for cb :: "'w callbacks"
proof unfold_locales
  fix s t u :: "'w gx"
  show "calm s t \<Longrightarrow> calm t u \<Longrightarrow> calm s u"
    unfolding calm_def by (metis append.assoc list_all_append)
qed (force simp: calm_def keeps_def call_log)+

interpretation journalled: run_frame "lawful_run cb" cb for cb :: "'w callbacks"
proof unfold_locales
  fix s t u :: "'w gx"
  show "lawful_run cb s t \<Longrightarrow> lawful_run cb t u \<Longrightarrow> lawful_run cb s u"
    by (auto simp: lawful_run_def)
qed (auto simp: lawful_run_def keeps_def lawful_callbacks_def intro!: call_lawful)

end
