(* ===== verification/Deposit_Background.thy ===== *)
theory Deposit_Background
  imports Group_Frames
begin

text \<open>
  The deposits that are watched while the execution goes on (\<open>_DepositBackground\<close> of
  \<open>route_execution.py\<close>): a thread per deposit asks the exchange, the results are persisted on the
  main thread, by \<open>raise_if_failed\<close>, which the execution calls before every entry, and by
  \<open>finish\<close>. The threads only wait for the exchange and write nothing; they are the pool below.
\<close>

section \<open>The state\<close>

text \<open>
  A watch: the group, the step and the checked loss; its future is known by the position.
  The pool starts a future, says whether one is done and with what result, and waits until one
  of several is done. A result of \<open>None\<close> is a future that is not done.
\<close>

record watch =
  wa_group :: nat
  wa_step :: nat
  wa_loss :: fdec

record watch_request =
  dr_hash :: string
  dr_started :: int
  dr_coin :: string
  dr_chain :: string
  dr_recipient :: string
  dr_minimum :: int

record 'x futures =
  pl_start :: "nat \<Rightarrow> watch_request \<Rightarrow> 'x \<Rightarrow> 'x"
  pl_done :: "nat \<Rightarrow> 'x \<Rightarrow> pyval result option \<times> 'x"
  pl_wait :: "nat list \<Rightarrow> 'x \<Rightarrow> 'x"

record 'x background =
  bg_watches :: "(nat \<times> watch) list"
  bg_stopped :: bool
  bg_pool :: 'x

type_synonym ('x, 'a) watching = "(journal \<times> 'x background, 'a) action"

definition in_journal :: "(journal \<Rightarrow> journal result) \<Rightarrow> ('x, unit) watching" where
  "in_journal f s = (case f (fst s) of Inl e \<Rightarrow> (Inl e, s) | Inr k \<Rightarrow> (Inr (), (k, snd s)))"

definition of_journal :: "(journal \<Rightarrow> 'a result) \<Rightarrow> ('x, 'a) watching" where
  "of_journal f s = (f (fst s), s)"

definition stop_watching :: "('x, unit) watching" where
  "stop_watching s = (Inr (), (fst s, (snd s)\<lparr>bg_stopped := True\<rparr>))"

definition future_done :: "'x futures \<Rightarrow> nat \<Rightarrow> ('x, pyval result option) watching" where
  "future_done pool pid s =
     (case pl_done pool pid (bg_pool (snd s)) of
        (r, x) \<Rightarrow> (Inr r, (fst s, (snd s)\<lparr>bg_pool := x\<rparr>)))"

definition await_one :: "'x futures \<Rightarrow> nat list \<Rightarrow> ('x, unit) watching" where
  "await_one pool pids s = (Inr (), (fst s, (snd s)\<lparr>bg_pool := pl_wait pool pids (bg_pool (snd s))\<rparr>))"

section \<open>A deposit is watched\<close>

text \<open>The keys of a recovery's steps are texts.\<close>

definition direct_step_key :: "journal \<Rightarrow> nat \<Rightarrow> string result" where
  "direct_step_key j pid =
     bind_result (checkpoint_dict j pid ''direct_recovery'') (\<lambda>recovery.
     if recovery = [] then Inr ''direct_deposit''
     else bind_result (item (PDict recovery) ''step_key'') (\<lambda>own.
       case get_default recovery ''winner_step_key'' own of PStr k \<Rightarrow> Inr k | _ \<Rightarrow> Inl TypeError))"

definition add_watch :: "nat \<Rightarrow> watch \<Rightarrow> ('x, unit) watching" where
  "add_watch pid w s = (Inr (), (fst s, (snd s)\<lparr>bg_watches := bg_watches (snd s) @ [(pid, w)]\<rparr>))"

definition start_future :: "'x futures \<Rightarrow> nat \<Rightarrow> watch_request \<Rightarrow> ('x, unit) watching" where
  "start_future pool pid d s =
     (Inr (), (fst s, (snd s)\<lparr>bg_pool := pl_start pool pid d (bg_pool (snd s))\<rparr>))"

text \<open>The arguments of \<open>wait_for_deposit\<close>; \<open>created\<close> is the time of creation of the step, in milliseconds.\<close>

definition watch_request_of :: "pydict \<Rightarrow> string \<Rightarrow> string \<Rightarrow> int \<Rightarrow> watch_request result" where
  "watch_request_of entry recipient h created =
     bind_result (item (PDict entry) ''target'') (\<lambda>target.
     bind_result (item target ''coin'') (\<lambda>coin.
     bind_result (item target ''chain'') (\<lambda>chain.
     bind_result (bind_result (item target ''minimum_raw'') py_int) (\<lambda>least.
     Inr \<lparr>dr_hash = h, dr_started = created - 60000, dr_coin = py_str coin, dr_chain = py_str chain,
       dr_recipient = recipient, dr_minimum = least\<rparr>))))"

definition watch_deposit ::
  "'x futures \<Rightarrow> (step_row \<Rightarrow> int) \<Rightarrow> pydict \<Rightarrow> nat \<Rightarrow> string \<Rightarrow> pyval \<Rightarrow> ('x, unit) watching" where
  "watch_deposit pool created entry pid recipient loss s =
     (if pid \<in> fst ` set (bg_watches (snd s)) then (Inr (), s)
      else bind_act (of_journal (\<lambda>j. position j pid)) (\<lambda>p.
        bind_act (of_journal (\<lambda>j. direct_step_key j pid)) (\<lambda>key.
        bind_act (of_journal (\<lambda>j. Inr (latest_step j pid key))) (\<lambda>row. case row of
          None \<Rightarrow> throw (ValueError ''seen deposit has no durable transaction hash'')
        | Some st \<Rightarrow> (case s_tx_hash st of
            None \<Rightarrow> throw (ValueError ''seen deposit has no durable transaction hash'')
          | Some h \<Rightarrow>
              if h = [] then throw (ValueError ''seen deposit has no durable transaction hash'')
              else bind_act (lift (watch_request_of entry recipient h (created st))) (\<lambda>d.
                bind_act (start_future pool pid d) (\<lambda>_. case p_group p of
                  None \<Rightarrow> throw TypeError
                | Some gid \<Rightarrow> bind_act (lift (exact_money loss ''pending deposit loss'')) (\<lambda>x.
                    add_watch pid \<lparr>wa_group = gid, wa_step = s_id st, wa_loss = x\<rparr>))))))) s)"

section \<open>A failure\<close>

definition record_failure :: "nat \<Rightarrow> watch \<Rightarrow> string \<Rightarrow> ('x, unit) watching" where
  "record_failure pid w reason =
     bind_act (in_journal (record_step_state (wa_step w) ''manual_review'')) (\<lambda>_.
     bind_act (in_journal (record_position_state pid ''manual_review'' None None (Some reason))) (\<lambda>_.
     bind_act (in_journal (record_group_state (wa_group w) ''manual_review_group_halted'' (Some reason))) (\<lambda>_.
     stop_watching)))"

text \<open>\<open>str(status or "").lower() == "success"\<close>.\<close>

definition credited :: "pyval \<Rightarrow> bool" where
  "credited status \<longleftrightarrow> py_truthy status \<and> lower (py_str status) = ''success''"

definition deposit_failure :: "exn_view \<Rightarrow> pyval result \<Rightarrow> string option" where
  "deposit_failure view r =
     (case r of
        Inl e \<Rightarrow> Some (execution_reason view e)
      | Inr status \<Rightarrow> if credited status then None else Some ''bitget_deposit_not_credited'')"

definition fail_deposit :: "nat \<Rightarrow> watch \<Rightarrow> string \<Rightarrow> ('x, 'a) watching" where
  "fail_deposit pid w reason =
     bind_act (record_failure pid w reason) (\<lambda>_. throw (DepositSettlementFailed reason))"

fun check_watches :: "exn_view \<Rightarrow> 'x futures \<Rightarrow> (nat \<times> watch) list \<Rightarrow> ('x, unit) watching" where
  "check_watches view pool [] = give ()"
| "check_watches view pool ((pid, w) # ws) =
     bind_act (future_done pool pid) (\<lambda>d. case d of
       None \<Rightarrow> check_watches view pool ws
     | Some r \<Rightarrow> (case deposit_failure view r of
         None \<Rightarrow> check_watches view pool ws
       | Some reason \<Rightarrow> fail_deposit pid w reason))"

definition raise_if_failed :: "exn_view \<Rightarrow> 'x futures \<Rightarrow> ('x, unit) watching" where
  "raise_if_failed view pool s = check_watches view pool (bg_watches (snd s)) s"

section \<open>The end of the run\<close>

text \<open>
  A round over the futures that are left, in the order Python gives the set; the result are those
  still left. \<open>finish\<close> repeats the rounds, \<open>None\<close> is a run whose fuel is used up.
\<close>

definition settle_deposit :: "nat \<Rightarrow> watch \<Rightarrow> ('x, unit) watching" where
  "settle_deposit pid w =
     bind_act (in_journal (record_step_state (wa_step w) ''credited'')) (\<lambda>_.
     bind_act (in_journal (record_position_state pid ''completed'' None None None)) (\<lambda>_.
     bind_act (of_journal (\<lambda>j. Inr (list_all (\<lambda>p. p_state p = ''completed'') (group_positions j (wa_group w))))) (\<lambda>all_done.
     if all_done then in_journal (record_group_state (wa_group w) ''completed'' None) else give ())))"

fun settle_round :: "exn_view \<Rightarrow> 'x futures \<Rightarrow> (nat \<times> watch) list \<Rightarrow> ('x, (nat \<times> watch) list) watching" where
  "settle_round view pool [] = give []"
| "settle_round view pool ((pid, w) # ws) =
     bind_act (future_done pool pid) (\<lambda>d. case d of
       None \<Rightarrow> bind_act (settle_round view pool ws) (\<lambda>left. give ((pid, w) # left))
     | Some r \<Rightarrow> (case deposit_failure view r of
         Some reason \<Rightarrow> fail_deposit pid w reason
       | None \<Rightarrow> bind_act (settle_deposit pid w) (\<lambda>_. settle_round view pool ws)))"

fun settle_rounds :: "nat \<Rightarrow> exn_view \<Rightarrow> 'x futures \<Rightarrow> (nat \<times> watch) list \<Rightarrow> ('x, bool) watching" where
  "settle_rounds fuel view pool [] = give True"
| "settle_rounds 0 view pool (w # ws) = give False"
| "settle_rounds (Suc fuel) view pool (w # ws) =
     bind_act (await_one pool (map fst (w # ws))) (\<lambda>_.
     bind_act (settle_round view pool (w # ws)) (\<lambda>left. settle_rounds fuel view pool left))"

definition finish_watches :: "nat \<Rightarrow> exn_view \<Rightarrow> 'x futures \<Rightarrow> ('x, nat option) watching" where
  "finish_watches fuel view pool s =
     bind_act (settle_rounds fuel view pool (bg_watches (snd s)))
       (\<lambda>ok. give (if ok then Some (length (bg_watches (snd s))) else None)) s"

section \<open>What the watches write\<close>

lemma journal_parts:
  "fst (snd (future_done pool pid s)) = fst s" "fst (snd (await_one pool ps s)) = fst s"
  "fst (snd (of_journal f s)) = fst s" "fst (snd (stop_watching s)) = fst s"
  by (simp_all add: future_done_def await_one_def of_journal_def stop_watching_def split: prod.split)

lemma future_done_Inr [simp]:
  "future_done pool pid s = (Inr r, t) \<longleftrightarrow> (\<exists>x. pl_done pool pid (bg_pool (snd s)) = (r, x)
     \<and> t = (fst s, (snd s)\<lparr>bg_pool := x\<rparr>))"
  by (auto simp: future_done_def split: prod.split)

text \<open>A hook that returns has not written the journal; \<open>raise_if_failed\<close> is one.\<close>

definition steady :: "(journal \<times> 'w, unit) action \<Rightarrow> bool" where
  "steady m \<longleftrightarrow> (\<forall>s t. m s = (Inr (), t) \<longrightarrow> fst t = fst s)"

lemma check_watches_steady: "check_watches view pool ws s = (Inr (), t) \<Longrightarrow> fst t = fst s"
  by (induction ws arbitrary: s) (fastforce simp: fail_deposit_def split: option.splits)+

lemma steady_raise_if_failed: "steady (raise_if_failed view pool)"
  by (auto simp: steady_def raise_if_failed_def dest: check_watches_steady)

definition journal_runs :: "journal \<times> 'w \<Rightarrow> journal \<times> 'w \<Rightarrow> bool" where
  "journal_runs s t \<longleftrightarrow> jstep\<^sup>*\<^sup>* (fst s) (fst t)"

lemma lawful_keeps: "lawful m \<longleftrightarrow> keeps journal_runs m"
  by (simp add: lawful_def keeps_def journal_runs_def)

lemma journal_runs_trans: "journal_runs s t \<Longrightarrow> journal_runs t u \<Longrightarrow> journal_runs s u"
  by (simp add: journal_runs_def)

lemma runs_in_journal:
  assumes "\<And>j k. f j = Inr k \<Longrightarrow> jstep j k"
  shows "keeps journal_runs (in_journal f)"
  using assms by (auto simp: keeps_def journal_runs_def in_journal_def split: sum.split)

lemmas watch_runs =
  keeps_bind [of journal_runs, OF journal_runs_trans]
  runs_in_journal [OF jstep.step_state] runs_in_journal [OF jstep.position_state]
  runs_in_journal [OF jstep.group_state]

lemma runs_reading:
  "keeps journal_runs (future_done pool pid)" "keeps journal_runs (await_one pool ps)"
  "keeps journal_runs (of_journal f)" "keeps journal_runs stop_watching"
  "keeps journal_runs (give x)" "keeps journal_runs (throw e)"
  by (simp_all add: keeps_def journal_runs_def journal_parts)

lemma runs_failure: "keeps journal_runs (fail_deposit pid w reason)"
  unfolding fail_deposit_def record_failure_def by (intro watch_runs runs_reading)

lemma lawful_raise_if_failed: "lawful (raise_if_failed view pool)"
proof -
  have "keeps journal_runs (check_watches view pool ws)" for ws
  proof (induction ws)
    case (Cons w ws)
    obtain pid v where "w = (pid, v)" by fastforce
    then show ?case
      using Cons by (auto intro!: watch_runs runs_reading runs_failure split: option.split)
  qed (simp add: keeps_def journal_runs_def)
  then show ?thesis by (simp add: lawful_keeps raise_if_failed_def keeps_def)
qed

section \<open>The end of the watches\<close>

text \<open>
  \<open>wait\<close> returns when one of the futures is done, and a future that is done stays done: then
  \<open>finish\<close> needs no more rounds than there are watches.
\<close>

abbreviation is_done :: "'x futures \<Rightarrow> nat \<Rightarrow> 'x \<Rightarrow> bool" where
  "is_done pool pid x \<equiv> fst (pl_done pool pid x) \<noteq> None"

definition fair_pool :: "'x futures \<Rightarrow> bool" where
  "fair_pool pool \<longleftrightarrow>
     (\<forall>ps x. ps \<noteq> [] \<longrightarrow> (\<exists>p \<in> set ps. is_done pool p (pl_wait pool ps x)))
     \<and> (\<forall>p q x. is_done pool p x \<longrightarrow> is_done pool p (snd (pl_done pool q x)))"

lemma in_journal_Inr [simp]:
  "in_journal f s = (Inr u, t) \<longleftrightarrow> f (fst s) = Inr (fst t) \<and> snd t = snd s"
  by (cases t) (auto simp: in_journal_def split: sum.split)

lemma of_journal_Inr [simp]: "of_journal f s = (Inr x, t) \<longleftrightarrow> f (fst s) = Inr x \<and> t = s"
  by (auto simp: of_journal_def)

lemma fail_deposit_raises [simp]: "fail_deposit pid w reason s \<noteq> (Inr x, t)"
  by (simp add: fail_deposit_def)

lemma settle_deposit_pool: "settle_deposit pid w s = (Inr (), t) \<Longrightarrow> snd t = snd s"
  by (auto simp: settle_deposit_def split: if_splits)

lemma settle_round_shrinks:
  "settle_round view pool ws s = (Inr left, t) \<Longrightarrow> length left \<le> length ws
     \<and> (fair_pool pool \<longrightarrow> (\<exists>pid \<in> fst ` set ws. is_done pool pid (bg_pool (snd s))) \<longrightarrow> length left < length ws)"
proof (induction ws arbitrary: s left)
  case (Cons w ws)
  obtain pid v where w: "w = (pid, v)" by fastforce
  from Cons.prems [unfolded w] obtain r x where d: "pl_done pool pid (bg_pool (snd s)) = (r, x)"
    and rest: "(case r of
       None \<Rightarrow> bind_act (settle_round view pool ws) (\<lambda>left. give ((pid, v) # left))
     | Some r \<Rightarrow> (case deposit_failure view r of
         Some reason \<Rightarrow> fail_deposit pid v reason
       | None \<Rightarrow> bind_act (settle_deposit pid v) (\<lambda>_. settle_round view pool ws)))
       (fst s, (snd s)\<lparr>bg_pool := x\<rparr>) = (Inr left, t)"
    by auto
  have done_stays: "is_done pool q x" if "fair_pool pool" "is_done pool q (bg_pool (snd s))" for q
    using that d unfolding fair_pool_def by (metis snd_conv)
  show ?case
  proof (cases r)
    case None
    with rest obtain left' where l: "settle_round view pool ws (fst s, (snd s)\<lparr>bg_pool := x\<rparr>) = (Inr left', t)"
      "left = (pid, v) # left'" by auto
    show ?thesis using Cons.IH [OF l(1)] l(2) None d done_stays unfolding w by fastforce
  next
    case (Some res)
    with rest obtain u where "settle_round view pool ws u = (Inr left, t)"
      by (auto split: option.splits)
    from Cons.IH [OF this] show ?thesis by auto
  qed
qed simp

lemma settle_rounds_end:
  "fair_pool pool \<Longrightarrow> length ws \<le> fuel \<Longrightarrow> settle_rounds fuel view pool ws s \<noteq> (Inr False, t)"
proof (induction fuel arbitrary: ws s)
  case (Suc fuel)
  show ?case
  proof (cases ws)
    case (Cons w vs)
    have "settle_rounds fuel view pool left u \<noteq> (Inr False, t)"
      if "settle_round view pool ws v = (Inr left, u)" "v = snd (await_one pool (map fst ws) s)" for left u v
    proof -
      have "\<exists>p \<in> set (map fst ws). is_done pool p (bg_pool (snd v))"
        using Suc.prems(1) Cons that(2) unfolding fair_pool_def await_one_def by fastforce
      then have "length left < length ws"
        using settle_round_shrinks [OF that(1)] Suc.prems(1) by auto
      with Suc show ?thesis by auto
    qed
    then show ?thesis
      unfolding Cons by (auto simp: await_one_def)
  qed simp
qed simp

text \<open>When \<open>finish\<close> returns, every deposit watched is credited and its position completed.\<close>

definition completed_in :: "journal \<Rightarrow> nat \<Rightarrow> bool" where
  "completed_in j pid \<longleftrightarrow> (case position j pid of Inl _ \<Rightarrow> False | Inr p \<Rightarrow> p_state p = ''completed'')"

lemma position_completed:
  assumes "record_position_state pid ''completed'' a b r j = Inr k"
  shows "completed_in k q \<longleftrightarrow> q = pid \<or> completed_in j q"
  using assms by (auto simp: record_position_state_def completed_in_def table_simps split: if_splits sum.splits)

lemma position_other_rows:
  "transition_step i state j = Inr k \<Longrightarrow> position k q = position j q"
  "record_group_state gid state r j = Inr k \<Longrightarrow> position k q = position j q"
  by (auto simp: transition_step_def record_group_state_def position_def upd_step_def upd_group_def split: if_splits)

lemma settle_deposit_completes:
  assumes "settle_deposit pid w s = (Inr (), t)"
  shows "completed_in (fst t) q \<longleftrightarrow> q = pid \<or> completed_in (fst s) q"
proof -
  from assms obtain j k where *: "transition_step (wa_step w) ''credited'' (fst s) = Inr j"
    "record_position_state pid ''completed'' None None None j = Inr k"
    "fst t = k \<or> record_group_state (wa_group w) ''completed'' None k = Inr (fst t)"
    by (auto simp: settle_deposit_def record_step_state_def split: if_splits)
  have "position j q = position (fst s) q" "position (fst t) q = position k q"
    using * position_other_rows by metis+
  with position_completed [OF *(2), of q] show ?thesis by (simp add: completed_in_def)
qed

lemma settle_round_completes:
  "settle_round view pool ws s = (Inr left, t) \<Longrightarrow>
     (\<forall>q. completed_in (fst s) q \<longrightarrow> completed_in (fst t) q)
     \<and> (\<forall>w \<in> set ws. w \<in> set left \<or> completed_in (fst t) (fst w))"
proof (induction ws arbitrary: s left)
  case (Cons w ws)
  obtain pid v where w: "w = (pid, v)" by fastforce
  from Cons.prems [unfolded w] obtain r x where
    rest: "(case r of
       None \<Rightarrow> bind_act (settle_round view pool ws) (\<lambda>left. give ((pid, v) # left))
     | Some r \<Rightarrow> (case deposit_failure view r of
         Some reason \<Rightarrow> fail_deposit pid v reason
       | None \<Rightarrow> bind_act (settle_deposit pid v) (\<lambda>_. settle_round view pool ws)))
       (fst s, (snd s)\<lparr>bg_pool := x\<rparr>) = (Inr left, t)"
    by auto
  show ?case
  proof (cases r)
    case None
    with rest obtain left' where l: "settle_round view pool ws (fst s, (snd s)\<lparr>bg_pool := x\<rparr>) = (Inr left', t)"
      "left = (pid, v) # left'" by auto
    from Cons.IH [OF l(1)] show ?thesis by (auto simp: l(2) w)
  next
    case (Some res)
    with rest obtain u where u: "settle_deposit pid v (fst s, (snd s)\<lparr>bg_pool := x\<rparr>) = (Inr (), u)"
      "settle_round view pool ws u = (Inr left, t)"
      by (auto split: option.splits)
    from settle_deposit_completes [OF u(1)] Cons.IH [OF u(2)] show ?thesis by (auto simp: w)
  qed
qed simp

lemma settle_rounds_complete:
  "settle_rounds fuel view pool ws s = (Inr True, t) \<Longrightarrow>
     (\<forall>q. completed_in (fst s) q \<longrightarrow> completed_in (fst t) q) \<and> (\<forall>w \<in> set ws. completed_in (fst t) (fst w))"
proof (induction fuel view pool ws arbitrary: s rule: settle_rounds.induct)
  case (3 fuel view pool w ws)
  from "3.prems" obtain u left v where u: "await_one pool (map fst (w # ws)) s = (Inr (), u)"
    "settle_round view pool (w # ws) u = (Inr left, v)" "settle_rounds fuel view pool left v = (Inr True, t)"
    by auto
  have "fst u = fst s" using u(1) journal_parts(2) by (metis snd_conv)
  with settle_round_completes [OF u(2)] "3.IH" [OF u(3)] show ?case by fastforce
qed simp_all

lemma finish_completes:
  assumes "finish_watches fuel view pool s = (Inr (Some n), t)"
  shows "n = length (bg_watches (snd s)) \<and> (\<forall>w \<in> set (bg_watches (snd s)). completed_in (fst t) (fst w))"
  using assms settle_rounds_complete [of fuel view pool "bg_watches (snd s)" s]
  by (auto simp: finish_watches_def split: if_splits)

lemma finish_ends:
  assumes "fair_pool pool" "length (bg_watches (snd s)) \<le> fuel"
  shows "fst (finish_watches fuel view pool s) \<noteq> Inr None"
proof -
  obtain r t where "settle_rounds fuel view pool (bg_watches (snd s)) s = (r, t)" by (metis surj_pair)
  with settle_rounds_end [OF assms, of view s t] show ?thesis
    by (cases r) (auto simp: finish_watches_def bind_act_def)
qed

end
