(* ===== verification/Group_Properties.thy ===== *)
theory Group_Properties
  imports Deposit_Background
begin

text \<open>
  What the execution of a group promises: a step is submitted only while the last projected
  loss of its entry is within the budget and nothing has been halted; the journal only takes
  steps of its machine; a plan that touches an excluded network changes nothing.
\<close>

section \<open>A step is submitted within the budget\<close>

fun projected_for :: "nat \<Rightarrow> gx_event list \<Rightarrow> fdec option" where
  "projected_for pid [] = None"
| "projected_for pid (Projected p x # es) = (if p = pid then Some x else projected_for pid es)"
| "projected_for pid (e # es) = projected_for pid es"

definition cleared :: "fdec \<Rightarrow> nat \<Rightarrow> gx_event list \<Rightarrow> bool" where
  "cleared budget pid es \<longleftrightarrow> Halted \<notin> set es
     \<and> (\<exists>x. projected_for pid es = Some x \<and> dec_value x \<le> dec_value budget)"

text \<open>The record is latest first: what stands after a submission came before it.\<close>

fun within_budget :: "fdec \<Rightarrow> gx_event list \<Rightarrow> bool" where
  "within_budget budget [] = True"
| "within_budget budget (Submitted pid # es) = (cleared budget pid es \<and> within_budget budget es)"
| "within_budget budget (e # es) = within_budget budget es"

lemma within_budget_append:
  "list_all (\<lambda>e. \<not> is_submission e) es \<Longrightarrow> within_budget b (es @ fs) = within_budget b fs"
proof (induction es)
  case (Cons e es)
  then show ?case by (cases e) (simp_all add: is_submission_def)
qed simp

text \<open>The conditions on the record before and after a part of the execution.\<close>

definition safe :: "fdec \<Rightarrow> 'w gx \<Rightarrow> bool" where
  "safe b s \<longleftrightarrow> within_budget b (gx_log s)"

definition going :: "fdec \<Rightarrow> 'w gx \<Rightarrow> bool" where
  "going b s \<longleftrightarrow> within_budget b (gx_log s) \<and> Halted \<notin> set (gx_log s)"

definition admitted :: "fdec \<Rightarrow> nat \<Rightarrow> 'w gx \<Rightarrow> bool" where
  "admitted b pid s \<longleftrightarrow> within_budget b (gx_log s) \<and> cleared b pid (gx_log s)"

definition flows :: "fdec \<Rightarrow> flow \<Rightarrow> 'w gx \<Rightarrow> bool" where
  "flows b f = (case f of Next _ \<Rightarrow> going b | Finished \<Rightarrow> safe b)"

lemma flows_simps [simp]: "flows b (Next x) = going b" "flows b Finished = safe b"
  by (simp_all add: flows_def)

lemma safe_weaker: "going b s \<Longrightarrow> safe b s" "admitted b pid s \<Longrightarrow> safe b s" "admitted b pid s \<Longrightarrow> going b s"
  by (simp_all add: going_def admitted_def safe_def cleared_def)

named_theorems triples \<open>parts of the execution under the conditions on its record\<close>

lemma calm_safe: "keeps calm m \<Longrightarrow> ensures (safe b) m (\<lambda>_. safe b) (safe b)"
  unfolding ensures_def keeps_def calm_def safe_def
  by (auto split: prod.split sum.split) (metis snd_conv within_budget_append)+

lemma kept_conditions:
  assumes "keeps log_kept m"
  shows "ensures (going b) m (\<lambda>_. going b) (safe b)"
    and "ensures (admitted b pid) m (\<lambda>_. admitted b pid) (safe b)"
  using assms
  by (auto intro!: ensures_same simp: keeps_def log_kept_def going_def admitted_def safe_def)

lemma ensures_pure:
  "(\<And>w. P w \<Longrightarrow> Q x w) \<Longrightarrow> ensures P (give x) Q E"
  "(\<And>w. P w \<Longrightarrow> E w) \<Longrightarrow> ensures P (throw e) Q E"
  by (simp_all add: ensures_def)

lemma ensures_lift:
  "x = Inr y \<Longrightarrow> ensures P (f y) Q E \<Longrightarrow> ensures P (bind_act (lift x) f) Q E"
  by (simp add: ensures_def bind_act_def)

lemma ensures_option:
  "(y = None \<Longrightarrow> ensures P m Q E) \<Longrightarrow> (\<And>x. y = Some x \<Longrightarrow> ensures P (f x) Q E)
     \<Longrightarrow> ensures P (case y of None \<Rightarrow> m | Some x \<Rightarrow> f x) Q E"
  by (cases y) auto

lemma ensures_pair: "(\<And>x y. ensures P (f x y) Q E) \<Longrightarrow> ensures P (case p of (x, y) \<Rightarrow> f x y) Q E"
  by (cases p) auto

lemma ensures_post: "ensures P m Q E \<Longrightarrow> (\<And>x w. Q x w \<Longrightarrow> Q' x w) \<Longrightarrow> ensures P m Q' E"
  by (rule ensures_weaken)

lemma ensures_pre: "ensures P m Q E \<Longrightarrow> (\<And>w. P' w \<Longrightarrow> P w) \<Longrightarrow> ensures P' m Q E"
  by (rule ensures_weaken)

text \<open>An action whose record is kept, in front of another.\<close>

lemma going_bind:
  "keeps log_kept m \<Longrightarrow> (\<And>x. ensures (going b) (f x) Q (safe b)) \<Longrightarrow> ensures (going b) (bind_act m f) Q (safe b)"
  by (rule ensures_bind [OF kept_conditions(1)])

lemma admitted_bind:
  "keeps log_kept m \<Longrightarrow> (\<And>x. ensures (admitted b pid) (f x) Q (safe b))
     \<Longrightarrow> ensures (admitted b pid) (bind_act m f) Q (safe b)"
  by (rule ensures_bind [OF kept_conditions(2)])

section \<open>The handlers end the execution\<close>

definition finishes :: "('w gx, flow) action \<Rightarrow> bool" where
  "finishes m \<longleftrightarrow> (\<forall>s x t. m s = (Inr x, t) \<longrightarrow> x = Finished)"

named_theorems finishing

lemma finishes_basic [finishing]:
  "finishes (give Finished)" "(\<And>x. finishes (f x)) \<Longrightarrow> finishes (bind_act m f)"
  "finishes k \<Longrightarrow> finishes k' \<Longrightarrow> finishes (if c then k else k')"
  "finishes k \<Longrightarrow> (\<And>x. finishes (g x)) \<Longrightarrow> finishes (case y of None \<Rightarrow> k | Some x \<Rightarrow> g x)"
  by (auto simp: finishes_def split: option.split)

lemma finishes_reviews [finishing]:
  "finishes (yield_stage r pid reason)" "finishes (review_group r i reason)"
  "finishes (review_position r i reason)" "finishes (halt_threshold r i reason)"
  "finishes (halt_after_swap r i pid)" "finishes (review_after_swap r i pid asset balance reason)"
  "finishes (deposit_pending_group r pid reason)"
  unfolding yield_stage_def review_group_def review_position_def halt_threshold_def
    halt_after_swap_def review_after_swap_def deposit_pending_group_def
  by (intro finishing)+

lemma finishes_yield_or [finishing]: "finishes m \<Longrightarrow> finishes (yield_or r entry pid e m)"
  unfolding yield_or_def Let_def by (intro finishing)

lemma finishes_failures [finishing]:
  "finishes (preparation_failed r i entry pid e)" "finishes (swap_failed r i entry pid e)"
  "finishes (bridge_failed r i entry pid asset balance e)" "finishes (step_failed r i entry pid p e)"
  "finishes (reconcile_failed r i pid e)"
  by (cases e; simp only: preparation_failed_def swap_failed_def bridge_failed_def step_failed_def
      reconcile_failed_def Let_def exn.case; intro finishing)+

lemma finishing_flows:
  assumes "keeps calm m" "finishes m"
  shows "ensures (safe b) m (flows b) (safe b)"
proof (rule ensuresI)
  fix w e v assume "safe b w" "m w = (Inl e, v)"
  then show "safe b v" using ensuresD(1) [OF calm_safe [OF assms(1)]] by blast
next
  fix w x v assume w: "safe b w" "m w = (Inr x, v)"
  then have "safe b v" using ensuresD(2) [OF calm_safe [OF assms(1)]] by blast
  moreover have "x = Finished" using w(2) assms(2) unfolding finishes_def by blast
  ultimately show "flows b x v" by simp
qed

section \<open>The branches\<close>

lemma observing_going:
  "ensures (going b) (observe_deposit cb entry pid p) (\<lambda>_. going b) (safe b)"
  unfolding observe_deposit_def
proof (rule ensures_bind)
  show "ensures (going b) (record_event (Observed pid)) (\<lambda>_. going b) (safe b)"
    by (simp add: ensures_def record_event_def going_def)
  show "ensures (going b) (call (cb_submit cb (with_key ''_journal_position_id'' (PInt (int pid)) entry) None p))
      (\<lambda>_. going b) (safe b)" for x
    by (rule kept_conditions(1)) (simp add: keeps_def log_kept_def call_log)
qed

lemma observe_completed_going:
  "ensures (going b) (observe_completed cb entry pid) (\<lambda>_. going b) (safe b)"
proof -
  have ask: "ensures (going b) (handle (observe_deposit cb entry pid observe_step)
       (\<lambda>e. case e of StageDeadlineExceeded _ \<Rightarrow> give (PDict [(''state'', PStr ''deposit_pending'')])
          | DepositNotSeen _ \<Rightarrow> give (PDict [(''state'', PStr ''deposit_pending'')])
          | _ \<Rightarrow> throw e)) (\<lambda>_. going b) (safe b)"
  proof -
    have "ensures (going b) (observe_deposit cb entry pid observe_step) (\<lambda>_. going b) (going b)"
      unfolding ensures_def observe_deposit_def bind_act_def record_event_def going_def
      by (auto simp: call_def split: prod.split sum.split)
    moreover have "ensures (going b) (case e of
            StageDeadlineExceeded _ \<Rightarrow> give (PDict [(''state'', PStr ''deposit_pending'')])
          | DepositNotSeen _ \<Rightarrow> give (PDict [(''state'', PStr ''deposit_pending'')])
          | _ \<Rightarrow> throw e) (\<lambda>_. going b) (safe b)" for e
      by (cases e; simp only: exn.case; intro ensures_pure; simp add: safe_weaker)
    ultimately show ?thesis by (rule ensures_handle)
  qed
  show ?thesis
    unfolding observe_completed_def credit_state_def bind_act_assoc
    by (intro going_bind frame ensures_if ensures_bind [OF ask] kept_conditions)
qed

lemma complete_position_flows: "ensures (going b) (complete_position pid x) (flows b) (safe b)"
  unfolding complete_position_def by (intro going_bind frame ensures_if ensures_pure) simp_all

lemma reconcile_flows: "ensures (going b) (reconcile r i entry pid) (flows b) (safe b)"
  unfolding reconcile_def
proof (rule ensures_handle)
  show "ensures (going b) (reconcile_deposit r entry pid) (flows b) (safe b)"
    unfolding reconcile_deposit_def
    by (intro going_bind frame ensures_bind [OF observing_going] ensures_if ensures_pure)
      (simp_all add: safe_weaker)
  show "ensures (safe b) (reconcile_failed r i pid e) (flows b) (safe b)" for e
    by (intro finishing_flows finishing)
      (cases e; simp only: reconcile_failed_def deposit_pending_group_def Let_def exn.case; intro frame)
qed

lemma project_admits:
  "ensures (going b) (project r pid x) (\<lambda>_ w. going b w \<and> projected_for pid (gx_log w) = Some x) (safe b)"
  unfolding project_def
  by (intro going_bind frame) (simp add: ensures_def record_event_def going_def)

lemma admitted_after:
  "going b w \<and> projected_for pid (gx_log w) = Some x \<Longrightarrow> \<not> dec_less b x \<Longrightarrow> admitted b pid w"
  by (auto simp: admitted_def going_def cleared_def dec_compare_values)

lemma submit_admitted: "ensures (admitted b pid) (submit r pid entry c p) (\<lambda>_. admitted b pid) (safe b)"
  unfolding submit_def
proof (rule ensures_bind)
  show "ensures (admitted b pid) (record_event (Submitted pid)) (\<lambda>_. admitted b pid) (safe b)"
    by (simp add: ensures_def record_event_def admitted_def cleared_def)
  show "ensures (admitted b pid) (call (cb_submit (r_cb r) entry (Some c) p)) (\<lambda>_. admitted b pid) (safe b)" for x
    by (rule kept_conditions(2)) (simp add: keeps_def log_kept_def call_log)
qed

lemma calm_handler:
  assumes "keeps calm m" "finishes m"
  shows "ensures (going b) m (flows b) (safe b)" "ensures (admitted b pid) m (flows b) (safe b)"
  by (rule ensures_pre [OF finishing_flows [OF assms]]; simp add: safe_weaker)+

lemma plain_steps_flows:
  "ensures (admitted b pid) (plain_steps r i entry pid fresh accounted future ss realized) (flows b) (safe b)"
proof (induction ss arbitrary: realized)
  case Nil
  show ?case by (simp only: plain_steps.simps) (rule ensures_pre [OF complete_position_flows safe_weaker(3)])
next
  case (Cons s ss)
  have step: "ensures (admitted b pid) (plain_step r pid fresh s realized accounted future)
      (\<lambda>_. admitted b pid) (safe b)"
    unfolding plain_step_def
    by (intro admitted_bind frame ensures_bind [OF submit_admitted] ensures_if ensures_pure)
      (simp_all add: safe_weaker)
  have rest: "ensures (admitted b pid) (case p of Waiting x \<Rightarrow> complete_position pid x
      | Settled x \<Rightarrow> plain_steps r i entry pid fresh accounted future ss x) (flows b) (safe b)" for p
    by (cases p) (simp_all add: Cons.IH ensures_pre [OF complete_position_flows safe_weaker(3)])
  show ?case
    unfolding plain_steps.simps
    by (rule ensures_try_else [OF step _ rest]) (intro finishing_flows finishing frame)
qed

lemma source_swap_admitted:
  "ensures (admitted b pid) (source_swap r pid fresh first saved realized accounted future)
     (\<lambda>_. admitted b pid) (safe b)"
  unfolding source_swap_def
  by (intro ensures_bind [of _ _ "\<lambda>_. admitted b pid"] ensures_if submit_admitted kept_conditions frame ensures_pure)
    (simp_all add: safe_weaker)

lemma submit_bridge_flows:
  "ensures (admitted b pid) (submit_bridge r pid fresh p current_loss realized accounted future) (flows b) (safe b)"
  unfolding submit_bridge_def
  by (intro admitted_bind frame ensures_bind [OF submit_admitted] ensures_if ensures_pure)
    (simp_all add: safe_weaker)

lemma dependent_bridge_flows:
  assumes "r_budget r = b"
  shows "ensures (going b) (dependent_bridge r i entry pid fresh first original asset balance spent
     realized accounted future) (flows b) (safe b)"
proof -
  have decide: "ensures (\<lambda>w. going b w \<and> projected_for pid (gx_log w) = Some amount)
      (if dec_less (r_budget r) amount then halt_after_swap r i pid
       else bind_act (lift (spread routed)) (\<lambda>d. submit_bridge r pid d p x realized accounted future))
      (flows b) (safe b)" for amount routed p x
  proof (rule ensures_if)
    show "ensures (\<lambda>w. going b w \<and> projected_for pid (gx_log w) = Some amount) (halt_after_swap r i pid)
        (flows b) (safe b)"
      by (rule ensures_pre [OF calm_handler(1)]) (auto intro!: frame finishing)
    assume "\<not> dec_less (r_budget r) amount"
    with assms have "\<not> dec_less b amount" by simp
    then show "ensures (\<lambda>w. going b w \<and> projected_for pid (gx_log w) = Some amount)
        (bind_act (lift (spread routed)) (\<lambda>d. submit_bridge r pid d p x realized accounted future))
        (flows b) (safe b)"
      by (intro ensures_pre [OF admitted_bind admitted_after] frame) (auto intro!: submit_bridge_flows)
  qed
  show ?thesis
    unfolding dependent_bridge_def Let_def
    by (intro going_bind frame ensures_if ensures_bind [OF project_admits decide] ensures_pure)
      (simp_all add: safe_weaker)
qed

lemma swap_route_flows:
  assumes "r_budget r = b"
  shows "ensures (admitted b pid) (swap_route r i entry pid fresh first rest realized accounted future)
     (flows b) (safe b)"
proof -
  have bridged: "ensures (admitted b pid) (try_else
      (dependent_bridge r i entry pid routed first original asset balance spent realized' accounted' future)
      (bridge_failed r i entry pid asset balance)
      (\<lambda>f. case f of Finished \<Rightarrow> give Finished | Next x \<Rightarrow> complete_position pid x)) (flows b) (safe b)"
    for routed original asset balance spent realized' accounted'
  proof (rule ensures_try_else)
    show "ensures (admitted b pid) (dependent_bridge r i entry pid routed first original asset balance
        spent realized' accounted' future) (flows b) (safe b)"
      by (rule ensures_pre [OF dependent_bridge_flows [OF assms] safe_weaker(3)])
    show "ensures (flows b f) (case f of Finished \<Rightarrow> give Finished | Next x \<Rightarrow> complete_position pid x)
        (flows b) (safe b)" for f
      by (cases f) (simp_all add: complete_position_flows, simp add: ensures_def)
  qed (intro finishing_flows finishing frame)
  show ?thesis
    unfolding swap_route_def Let_def
  proof (intro admitted_bind frame ensures_try_else [OF source_swap_admitted])
    show "ensures (safe b) (swap_failed r i entry pid e) (flows b) (safe b)" for e
      by (intro finishing_flows finishing frame)
  qed (intro ensures_pair admitted_bind frame bridged)
qed

lemma run_steps_flows:
  assumes b: "r_budget r = b"
  shows "ensures (admitted b pid) (run_steps r i entry pid fresh realized accounted future) (flows b) (safe b)"
proof (cases "get fresh ''steps''")
  case (PList xs)
  then show ?thesis
    unfolding run_steps_def
    by (cases xs; simp only: pyval.case list.case)
      (intro calm_handler frame finishing,
       intro admitted_bind frame ensures_if swap_route_flows [OF b] plain_steps_flows)
qed (simp only: run_steps_def pyval.case, intro calm_handler frame finishing)+

lemma admit_entry_flows:
  assumes b: "r_budget r = b"
  shows "ensures (going b) (admit_entry r i entry pid realized fresh current_loss future) (flows b) (safe b)"
proof -
  have decide: "ensures (\<lambda>w. going b w \<and> projected_for pid (gx_log w) = Some amount)
      (if dec_less (r_budget r) amount then halt_threshold r i ''loss_threshold_exceeded''
       else run_steps r i entry pid fresh realized accounted future) (flows b) (safe b)" for amount accounted
  proof (rule ensures_if)
    show "ensures (\<lambda>w. going b w \<and> projected_for pid (gx_log w) = Some amount)
        (halt_threshold r i ''loss_threshold_exceeded'') (flows b) (safe b)"
      by (rule ensures_pre [OF calm_handler(1)]) (auto intro!: frame finishing)
    assume "\<not> dec_less (r_budget r) amount"
    with b show "ensures (\<lambda>w. going b w \<and> projected_for pid (gx_log w) = Some amount)
        (run_steps r i entry pid fresh realized accounted future) (flows b) (safe b)"
      by (intro ensures_pre [OF run_steps_flows [OF b] admitted_after]) auto
  qed
  show ?thesis
    unfolding admit_entry_def Let_def
    by (intro going_bind frame ensures_bind [OF project_admits decide])
qed

lemma route_entry_flows:
  assumes "r_budget r = b"
  shows "ensures (going b) (route_entry r i entry pid realized) (flows b) (safe b)"
proof -
  have prepare: "ensures (going b) (try_else (prepare_entry r i entry pid) (preparation_failed r i entry pid)
      (\<lambda>(fresh, current_loss, future). admit_entry r i entry pid realized fresh current_loss future))
      (flows b) (safe b)"
  proof (rule ensures_try_else)
    show "ensures (going b) (prepare_entry r i entry pid) (\<lambda>_. going b) (safe b)"
      by (rule kept_conditions(1)) (rule logs.keeps_prepare_entry [OF refl])
    show "ensures (safe b) (preparation_failed r i entry pid e) (flows b) (safe b)" for e
      by (intro finishing_flows finishing frame)
  qed (intro ensures_pair admit_entry_flows assms)
  show ?thesis
    unfolding route_entry_def
    by (intro going_bind frame ensures_option ensures_pair ensures_if ensures_pure reconcile_flows prepare)
      (simp_all add: safe_weaker)
qed

lemma process_entry_flows:
  assumes "r_budget r = b"
  shows "ensures (going b) (process_entry r i entry pid realized) (flows b) (safe b)"
proof -
  have yield: "ensures (going b) (yield_stage r pid reason) (flows b) (safe b)" for reason
    by (intro calm_handler(1) frame finishing)
  have completed: "ensures (going b) (bind_act (observe_completed (r_cb r) entry pid) (\<lambda>_. give (Next realized)))
      (flows b) (safe b)"
    by (rule ensures_bind [OF observe_completed_going]) (simp add: ensures_def)
  have entry: "ensures (going b) (if p_state p = ''completed''
        then bind_act (observe_completed (r_cb r) entry pid) (\<lambda>_. give (Next realized))
        else route_entry r i entry pid realized) (flows b) (safe b)" for p
    by (rule ensures_if completed route_entry_flows [OF assms])+
  have clock: "keeps log_kept (if cb_deadline (r_cb r) then read_clock (cb_expired (r_cb r)) else give False)"
    by (simp add: logs.clock logs.keeps_pure_all del: act_simps)
  have hook: "keeps log_kept (case cb_before (r_cb r) of None \<Rightarrow> give () | Some hook \<Rightarrow> call hook)"
    by (rule logs.keeps_option logs.keeps_pure_all logs.hook)+
  show ?thesis
    unfolding process_entry_def
    by (rule entry yield ensures_if going_bind clock hook logs.keeps_reads)+
qed

lemma process_entries_safe:
  assumes "r_budget r = b"
  shows "ensures (going b) (process_entries r i es realized) (\<lambda>_. safe b) (safe b)"
proof (induction es arbitrary: i realized)
  case Nil
  show ?case
    unfolding process_entries.simps
    by (rule ensures_post [OF kept_conditions(1)]) (auto intro!: frame safe_weaker(1))
next
  case (Cons e es)
  obtain entry pid where e: "e = (entry, pid)" by fastforce
  have "ensures (flows b f) (case f of Finished \<Rightarrow> give () | Next x \<Rightarrow> process_entries r (i + 1) es x)
      (\<lambda>_. safe b) (safe b)" for f
    by (cases f) (simp_all only: flow.case flows_simps Cons.IH, simp add: ensures_def)
  then show ?case
    unfolding e process_entries.simps by (intro ensures_bind [OF process_entry_flows [OF assms]])
qed

lemma execute_group_safe:
  assumes "group_budget gp = Inr b"
  shows "ensures (going b) (execute_group cb gp entries) (\<lambda>_. safe b) (safe b)"
proof -
  have quiet: "ensures (going b) m (\<lambda>_. safe b) (safe b)" if "keeps calm m" for m :: "('w gx, unit) action"
    by (rule ensures_pre [OF calm_safe [OF that] safe_weaker(1)])
  have run: "ensures (going b) (run_group cb gp entries g) (\<lambda>_. safe b) (safe b)" for g
    unfolding run_group_def
    by (intro going_bind frame ensures_lift [OF assms] process_entries_safe) simp_all
  show ?thesis
    unfolding execute_group_def
    by (intro going_bind frame ensures_if quiet run)
qed

lemma group_budget_total: "\<exists>b. group_budget gp = Inr b"
  by (auto simp: group_budget_def dec_div_def dec_of_int_def Let_def split: prod.split)

text \<open>
  C2: whatever the injected functions do, and however the execution ends, each step of a plan
  that it submits comes after a projection of its entry's loss within the budget of the group,
  the latest one for that entry, and no step is submitted after a halt.
\<close>

theorem submissions_within_budget:
  assumes "plan_group max_pct (hd entries) = Inr gp" "group_budget gp = Inr budget" "gx_log s = []"
  shows "within_budget budget (gx_log (snd (execute_group_entries cb max_pct entries s)))"
proof -
  have start: "going budget s" using assms(3) by (simp add: going_def)
  have "safe budget (snd (execute_group_entries cb max_pct entries s))"
  proof (cases "list_ex (\<lambda>e. uses_excluded_network (PDict e)) entries \<or> entries = []")
    case True
    with start show ?thesis
      by (auto simp: execute_group_entries_def safe_def going_def split: list.split)
  next
    case False
    then obtain first rest where es: "entries = first # rest" by (cases entries) auto
    have "ensures (going budget) (bind_act (execute_group cb gp entries) (\<lambda>_. counts_of))
        (\<lambda>_. safe budget) (safe budget)"
      by (rule ensures_bind [OF execute_group_safe [OF assms(2)]]) (simp add: ensures_def counts_of_def safe_def)
    moreover obtain x t where "bind_act (execute_group cb gp entries) (\<lambda>_. counts_of) s = (x, t)"
      by fastforce
    ultimately have "safe budget t" using start by (cases x) (blast dest: ensuresD)+
    with False es assms(1) \<open>bind_act _ _ s = (x, t)\<close> show ?thesis
      by (simp add: execute_group_entries_def)
  qed
  then show ?thesis by (simp add: safe_def)
qed

section \<open>Sample callbacks\<close>

definition sample_view :: exn_view where
  "sample_view = \<lparr>ev_text = (\<lambda>_. []), ev_causes = (\<lambda>_. []), ev_diagnostic = (\<lambda>_. PDict []), ev_infinity = PNone\<rparr>"

definition confirm_step ::
  "pydict \<Rightarrow> (fdec \<Rightarrow> (journal \<times> nat, unit) action) option \<Rightarrow> pyval \<Rightarrow> (journal \<times> nat, pyval) action" where
  "confirm_step entry check p s =
     (Inr (PDict [(''state'', PStr ''confirmed''), (''realized_loss_usd'', PStr ''2'')]), (fst s, Suc (snd s)))"

definition sample_callbacks :: "nat callbacks" where
  "sample_callbacks = \<lparr>cb_preflight = (\<lambda>e. give (PDict e)), cb_submit = confirm_step,
     cb_requote = None, cb_before = None, cb_deadline = False, cb_expired = (\<lambda>w. (False, w)),
     cb_view = sample_view\<rparr>"

definition sample_gx :: "nat gx" where
  "sample_gx = \<lparr>gx_journal = empty_journal, gx_world = 0, gx_counts = [], gx_log = []\<rparr>"

definition sample_entry :: pydict where
  "sample_entry = [(''wallet'', PStr ''0xAb''), (''chain_id'', PInt 1), (''asset_id'', PStr ''0xCc''),
     (''raw_balance'', PInt 100), (''status'', PStr ''direct_deposit''),
     (''steps'', PList [PDict [(''kind'', PStr ''direct_deposit'')]]),
     (''valuation'', PDict [(''loss_usd'', PStr ''1'')]),
     (''group'', PDict [(''source_usd'', PStr ''100''), (''max_route_loss_pct'', PStr ''15'')])]"

definition sample_group_plan :: group_plan where
  "sample_group_plan = \<lparr>gp_key = ''0xab:1'', gp_wallet = ''0xab'', gp_chain = 1,
     gp_source = Fin False 100 0, gp_limit = Fin False 15 0\<rparr>"

definition sample_run :: "nat run" where
  "sample_run = \<lparr>r_cb = sample_callbacks, r_group = 1, r_wallet = ''0xab'', r_chain = 1,
     r_source = Fin False 100 0, r_budget = Fin False 15 0, r_entries = [sample_entry], r_positions = [1]\<rparr>"

lemma sample_plan: "plan_group (PStr ''15'') sample_entry = Inr sample_group_plan"
  by code_simp

lemma sample_budget: "group_budget sample_group_plan = Inr (Fin False 15 0)"
  by (simp add: group_budget_def sample_group_plan_def exact_product_def dec_mul_def exact_mul_def
      default_prec_def dec_div_def dec_of_int_def ndigits_rec drop_zeros_to.simps dec_fix_def)

lemma sample_lawful: "lawful_callbacks sample_callbacks"
  by (auto simp: lawful_callbacks_def sample_callbacks_def lawful_def confirm_step_def)

theorem submissions_within_budget_witness:
  "within_budget (Fin False 15 0)
     (gx_log (snd (execute_group_entries sample_callbacks (PStr ''15'') [sample_entry] sample_gx)))"
  by (rule submissions_within_budget [of _ _ sample_group_plan])
    (simp_all add: sample_plan sample_budget, simp add: sample_gx_def)

section \<open>The journal\<close>

text \<open>
  C6: when the injected functions write the journal only by its operations, so does the whole
  execution, on every branch and through every exception: a reachable journal stays reachable
  and well-formed, and its rows only evolve.
\<close>

theorem execution_keeps_journal:
  assumes "lawful_callbacks cb" "reachable (gx_journal s)"
    and "execute_group_entries cb max_pct entries s = (outcome, t)"
  shows "reachable (gx_journal t) \<and> journal_ok (gx_journal t) \<and> journal_evolves (gx_journal s) (gx_journal t)"
proof -
  have "lawful_run cb s t"
    using journalled.keeps_execution [of cb max_pct entries] assms(3) unfolding keeps_def by (metis snd_conv)
  then have run: "jstep\<^sup>*\<^sup>* (gx_journal s) (gx_journal t)" using assms(1) by (simp add: lawful_run_def)
  with assms(2) have "reachable (gx_journal t)" by (rule reachable_trans)
  moreover have "journal_evolves (gx_journal s) (gx_journal t)"
    by (rule jsteps_evolve [OF run reachable_journal_ok [OF assms(2)]])
  ultimately show ?thesis using reachable_journal_ok by blast
qed

theorem execution_keeps_journal_witness:
  "reachable (gx_journal (snd (execute_group_entries sample_callbacks (PStr ''15'') [sample_entry] sample_gx)))"
proof -
  have "reachable (gx_journal sample_gx)" by (simp add: sample_gx_def reachable_empty)
  from execution_keeps_journal [OF sample_lawful this prod.collapse [symmetric]] show ?thesis by blast
qed

section \<open>A position that is settled\<close>

text \<open>A position that is completed, or whose deposit has been sent and awaits its credit.\<close>

definition settled :: "journal \<Rightarrow> nat \<Rightarrow> bool" where
  "settled j pid \<longleftrightarrow> (case position j pid of
      Inl _ \<Rightarrow> False | Inr p \<Rightarrow> p_state p = ''completed'' \<or> to_reconcile j pid (p_state p))"

lemma hook_keeps:
  assumes "\<And>m. hook = Some m \<Longrightarrow> steady m"
    and "(case hook of None \<Rightarrow> give () | Some m \<Rightarrow> call m) u = (h, v)"
  shows "gx_log v = gx_log u" "h = Inr () \<Longrightarrow> gx_journal v = gx_journal u"
proof -
  show "gx_log v = gx_log u"
    using assms(2) by (cases hook) (auto dest: arg_cong [of _ _ "\<lambda>r. gx_log (snd r)"] simp: call_log)
  show "h = Inr () \<Longrightarrow> gx_journal v = gx_journal u"
    using assms unfolding steady_def by (fastforce simp: call_def split: option.splits prod.splits)
qed

text \<open>
  C5: the turn of a settled position submits no step of its plan, whatever its entry says and
  whatever the injected functions answer: what has been sent is only observed. The hook
  \<open>before_step\<close> must not write the journal when it returns; \<open>raise_if_failed\<close>, which the program
  passes, does not (\<open>steady_raise_if_failed\<close>).
\<close>

theorem settled_position_not_resubmitted:
  assumes "settled (gx_journal s) pid"
    and hook: "\<And>hook. cb_before (r_cb r) = Some hook \<Longrightarrow> steady hook"
    and run: "process_entry r i entry pid realized s = (outcome, t)"
  shows "\<exists>es. gx_log t = es @ gx_log s \<and> list_all (\<lambda>e. \<not> is_submission e) es"
proof -
  obtain p where p: "position (gx_journal s) pid = Inr p"
      "p_state p = ''completed'' \<or> to_reconcile (gx_journal s) pid (p_state p)"
    using assms(1) by (auto simp: settled_def split: sum.splits)
  have calm: "calm s (snd (m u))" if "keeps calm m" "gx_log u = gx_log s" for m :: "('a gx, flow) action" and u
    using that unfolding keeps_def calm_def by metis
  have unchanged: "calm s u" if "gx_log u = gx_log s" for u
    using that unfolding calm_def by force
  have route: "calm s (snd (route_entry r i entry pid realized u))"
    if u: "gx_journal u = gx_journal s" "gx_log u = gx_log s" "to_reconcile (gx_journal s) pid (p_state p)" for u
    using u p(1) calm [OF calmly.keeps_reconcile [of r "r_cb r" i entry pid] u(2)]
    by (auto simp: route_entry_def bind_act_def reads_def unchanged split: sum.split option.split)
  obtain expired u where first: "(if cb_deadline (r_cb r) then read_clock (cb_expired (r_cb r)) else give False) s
      = (Inr expired, u)" and u: "gx_journal u = gx_journal s" "gx_log u = gx_log s"
    by (cases "cb_deadline (r_cb r)"; cases "cb_expired (r_cb r) (gx_world s)")
      (simp_all add: read_clock_def)
  obtain h v where hooked: "(case cb_before (r_cb r) of None \<Rightarrow> give () | Some m \<Rightarrow> call m) u = (h, v)"
    by fastforce
  have v: "gx_log v = gx_log s" "h = Inr () \<Longrightarrow> gx_journal v = gx_journal s"
    using hook_keeps [OF hook hooked] u by simp_all
  have yielded: "calm s (snd (yield_stage r pid reason w))" if "gx_log w = gx_log s" for reason w
    by (rule calm [OF _ that]) (intro frame)
  have completed: "calm s (snd (bind_act (observe_completed (r_cb r) entry pid) (\<lambda>_. give (Next realized)) v))"
    by (rule calm [OF _ v(1)]) (intro frame)
  have "calm s (snd (process_entry r i entry pid realized s))"
  proof (cases h)
    case (Inl e)
    then show ?thesis
      using first u v(1) yielded
      by (auto simp: process_entry_def bind_act_eq(1) [where m = "if _ then _ else _", OF first]
          bind_act_eq(2) [where m = "case_option _ _ _", OF hooked [unfolded Inl]] unchanged)
  next
    case (Inr x)
    then show ?thesis
      using p first u v yielded completed route
      by (auto simp: process_entry_def bind_act_eq(1) [where m = "if _ then _ else _", OF first]
          bind_act_eq(1) [where m = "case_option _ _ _", OF hooked [unfolded Inr]] bind_act_eq(1) [where m = "reads _"] reads_def)
  qed
  with run show ?thesis by (simp add: calm_def)
qed

definition settled_journal :: journal where
  "settled_journal = projr (record_position_state 1 ''completed'' None None None sample_position)"

lemma settled_sample: "settled settled_journal 1"
  by code_simp

text \<open>The hook of the program, while the deposit of another position is still awaited.\<close>

definition waiting_pool :: "unit futures" where
  "waiting_pool = \<lparr>pl_start = (\<lambda>_ _ x. x), pl_done = (\<lambda>_ x. (None, x)), pl_wait = (\<lambda>_ x. x)\<rparr>"

definition watching_callbacks :: "unit background callbacks" where
  "watching_callbacks = \<lparr>cb_preflight = (\<lambda>e. give (PDict e)), cb_submit = (\<lambda>e c p. give (PDict [])),
     cb_requote = None, cb_before = Some (raise_if_failed sample_view waiting_pool), cb_deadline = False,
     cb_expired = (\<lambda>w. (False, w)), cb_view = sample_view\<rparr>"

definition watching_gx :: "unit background gx" where
  "watching_gx = \<lparr>gx_journal = settled_journal,
     gx_world = \<lparr>bg_watches = [(2, \<lparr>wa_group = 1, wa_step = 5, wa_loss = Fin False 0 0\<rparr>)],
       bg_stopped = False, bg_pool = ()\<rparr>, gx_counts = [], gx_log = []\<rparr>"

definition watching_run :: "unit background run" where
  "watching_run = \<lparr>r_cb = watching_callbacks, r_group = 1, r_wallet = ''0xab'', r_chain = 1,
     r_source = Fin False 100 0, r_budget = Fin False 15 0, r_entries = [sample_entry], r_positions = [1]\<rparr>"

theorem settled_position_not_resubmitted_witness:
  "\<exists>es. gx_log (snd (process_entry watching_run 0 sample_entry 1 (Fin False 0 0) watching_gx)) = es
     \<and> list_all (\<lambda>e. \<not> is_submission e) es"
proof -
  have "settled (gx_journal watching_gx) 1" using settled_sample by (simp add: watching_gx_def)
  moreover have "steady hook" if "cb_before (r_cb watching_run) = Some hook" for hook
    using that steady_raise_if_failed by (auto simp: watching_run_def watching_callbacks_def)
  ultimately have "\<exists>es. gx_log (snd (process_entry watching_run 0 sample_entry 1 (Fin False 0 0) watching_gx))
      = es @ gx_log watching_gx \<and> list_all (\<lambda>e. \<not> is_submission e) es"
    by (rule settled_position_not_resubmitted [OF _ _ prod.collapse [symmetric]])
  then show ?thesis by (simp add: watching_gx_def)
qed

section \<open>A failed requote of the last entry\<close>

lemma set_group_done:
  assumes "set_group gid state reason s = (Inr u, t)"
  shows "\<exists>g. group (gx_journal t) gid = Inr g \<and> g_state g = state"
proof -
  obtain j where j: "record_group_state gid state reason (gx_journal s) = Inr j"
      and t: "gx_journal t = j"
    using assms by (auto simp: set_group_def updates_def writes_def split: sum.splits)
  from j show ?thesis unfolding t
    by (auto simp: record_group_state_def group_upd_group split: if_splits)
qed

lemma halt_remaining_done:
  assumes "halt_remaining r start ''manual_review_group_halted'' reason s = (Inr u, t)"
  shows "\<exists>g. group (gx_journal t) (r_group r) = Inr g \<and> g_state g = ''manual_review_group_halted''"
  using assms unfolding halt_remaining_def Let_def by (auto dest: set_group_done)

lemma halted_group_refuses:
  assumes "group (gx_journal s) gid = Inr g" "g_state g = ''manual_review_group_halted''"
  shows "fst (set_group gid ''manual_review_after_swap'' reason s) = Inl (ValueError
    ''invalid group transition: manual_review_group_halted -> manual_review_after_swap'')"
  using assms
  by (simp add: set_group_def updates_def writes_def record_group_state_def group_states_def
      may_move_def successors_def group_transitions_def)

text \<open>
  C25: when the bridge after the swap of the last entry of a group fails for an ordinary
  reason, the handler never returns the counters: it halts the group first, and the state
  that it records for the group afterwards is none that a halted group may move to.
\<close>

theorem last_entry_review_raises:
  assumes "i + 1 = length (r_entries r)"
  shows "\<exists>e. fst (review_after_swap r i pid asset balance reason s) = Inl e"
proof (rule ccontr)
  assume "\<not> ?thesis"
  then obtain f t where "review_after_swap r i pid asset balance reason s = (Inr f, t)"
    by (metis prod.collapse sum.exhaust)
  then obtain u v w where halted: "halt_remaining r (i + 1) ''manual_review_group_halted'' reason u = (Inr (), v)"
      and group: "set_group (r_group r) ''manual_review_after_swap'' (Some reason) v = (Inr (), w)"
    using assms unfolding review_after_swap_def by (auto simp: whenever_def)
  from halt_remaining_done [OF halted] group show False
    using halted_group_refuses [of v "r_group r" _ "Some reason"] by auto
qed

theorem last_entry_review_raises_witness:
  "\<exists>e. fst (review_after_swap sample_run 0 1 ''native'' 70 ''no eligible bridge'' sample_gx) = Inl e"
  by (rule last_entry_review_raises) (simp add: sample_run_def)

end
