(* ===== verification/Defi_Actions.thy ===== *)
theory Defi_Actions
  imports Quote_Http Route_Policy Planner_Gas
begin

text \<open>
  The portfolio client and the exit actions (\<open>rabby.py\<close>): reads of positions and chains with
  bounded retries, and the encoding of a proposed withdrawal as the call data of a transaction.
  The HTTP library, the parser of HTTP dates and the ABI library are parameters; the methods
  the encoder accepts take addresses and unsigned integers only.
\<close>

section \<open>Reads of the portfolio\<close>

record rabby_net =
  rn_sent :: "(string \<times> pyval) list"
  rn_slept :: "rat list"

record rabby_env =
  re_base :: string
  re_http :: "rabby_net \<Rightarrow> string \<Rightarrow> pyval \<Rightarrow> response result"
  re_date :: "rabby_net \<Rightarrow> string \<Rightarrow> rat option"

text \<open>\<open>None\<close> is an infinite time; a date that does not parse is no wait.\<close>

definition retry_after_seconds :: "(string \<Rightarrow> rat option) \<Rightarrow> string option \<Rightarrow> rat option" where
  "retry_after_seconds until header = (case header of
      None \<Rightarrow> Some 0
    | Some t \<Rightarrow> if t = [] then Some 0
        else (case py_float t of
            Some (Number d) \<Rightarrow> Some (max 0 (dec_value d))
          | Some (Infinite below) \<Rightarrow> if below then Some 0 else None
          | Some NaN \<Rightarrow> Some 0
          | None \<Rightarrow> (case until t of Some s \<Rightarrow> Some (max 0 s) | None \<Rightarrow> Some 0)))"

definition rabby_send :: "rabby_env \<Rightarrow> string \<Rightarrow> pyval \<Rightarrow> (rabby_net, response) action" where
  "rabby_send env resource params w =
     (re_http env w (re_base env @ resource) params, w\<lparr>rn_sent := rn_sent w @ [(resource, params)]\<rparr>)"

definition rabby_sleep :: "rat option \<Rightarrow> (rabby_net, unit) action" where
  "rabby_sleep t w = (case t of
      None \<Rightarrow> (Inl (OtherError ''OverflowError''), w)
    | Some s \<Rightarrow> (Inr (), w\<lparr>rn_slept := rn_slept w @ [s]\<rparr>))"

definition raise_for_status :: "string \<Rightarrow> response \<Rightarrow> response result" where
  "raise_for_status url r =
     (if is_success r then Inr r else Inl (HttpStatusError (rs_status r) ''GET'' url))"

text \<open>The attempts left and the number of the next one; four attempts are made at most.\<close>

fun rabby_attempts :: "rabby_env \<Rightarrow> string \<Rightarrow> pyval \<Rightarrow> nat \<Rightarrow> nat \<Rightarrow> (rabby_net, response) action" where
  "rabby_attempts env resource params 0 k = throw AssertionError"
| "rabby_attempts env resource params (Suc n) k =
     bind_act (rabby_send env resource params) (\<lambda>r.
     if rs_status r \<noteq> 429 then lift (raise_for_status (re_base env @ resource) r)
     else if n = 0 then lift (raise_for_status (re_base env @ resource) r)
     else bind_act (\<lambda>w. rabby_sleep
         (map_option (\<lambda>s. max 5 s * 2 ^ k)
            (retry_after_seconds (re_date env w) (map_of (lower_headers (rs_headers r)) ''retry-after''))) w) (\<lambda>_.
       rabby_attempts env resource params n (Suc k)))"

definition rabby_get :: "rabby_env \<Rightarrow> string \<Rightarrow> pyval \<Rightarrow> (rabby_net, response) action" where
  "rabby_get env resource params = rabby_attempts env resource params 4 0"

definition read_positions :: "pyval \<Rightarrow> pyval list result" where
  "read_positions body = (case body of
      PList xs \<Rightarrow> if list_all is_dict xs then Inr xs
        else Inl (ValueError ''Rabby returned an invalid protocol list'')
    | _ \<Rightarrow> Inl (ValueError ''Rabby returned an invalid protocol list''))"

definition rabby_positions :: "rabby_env \<Rightarrow> string \<Rightarrow> (rabby_net, pyval list) action" where
  "rabby_positions env wallet =
     (if \<not> is_address wallet then throw (ValueError ''invalid wallet address'')
      else bind_act (rabby_get env ''/v1/user/complex_protocol_list'' (PDict [(''id'', PStr wallet)]))
        (\<lambda>r. lift (read_positions (rs_text r))))"

text \<open>A later row of the same chain overwrites an earlier one.\<close>

fun read_chains :: "pyval list \<Rightarrow> (string \<times> int) list \<Rightarrow> (string \<times> int) list result" where
  "read_chains [] found = Inr found"
| "read_chains (row # rows) found = (case row of
      PDict d \<Rightarrow> read_chains rows (case (get d ''id'', get d ''community_id'') of
          (PStr c, PInt n) \<Rightarrow> if 0 < n then AList.update c n found else found
        | _ \<Rightarrow> found)
    | _ \<Rightarrow> Inl (ValueError ''Rabby returned an invalid chain list''))"

definition rabby_chain_ids :: "rabby_env \<Rightarrow> (rabby_net, (string \<times> int) list) action" where
  "rabby_chain_ids env =
     bind_act (rabby_get env ''/v1/chain/list'' PNone) (\<lambda>r. case rs_text r of
        PList rows \<Rightarrow> bind_act (lift (read_chains rows [])) (\<lambda>found.
          if found = [] then throw (ValueError ''Rabby returned no usable chains'') else give found)
      | _ \<Rightarrow> throw (ValueError ''Rabby returned an invalid chain list''))"

section \<open>Method signatures\<close>

fun split_at_char :: "char \<Rightarrow> string \<Rightarrow> string list" where
  "split_at_char c [] = [[]]"
| "split_at_char c (x # xs) =
     (if x = c then [] # split_at_char c xs
      else case split_at_char c xs of [] \<Rightarrow> [[x]] | y # ys \<Rightarrow> (x # y) # ys)"

fun join_with :: "char \<Rightarrow> string list \<Rightarrow> string" where
  "join_with c [] = []"
| "join_with c [x] = x"
| "join_with c (x # y # zs) = x @ c # join_with c (y # zs)"

definition is_letter :: "char \<Rightarrow> bool" where
  "is_letter c \<longleftrightarrow> (65 \<le> code_of c \<and> code_of c \<le> 90) \<or> (97 \<le> code_of c \<and> code_of c \<le> 122)"

definition name_char :: "char \<Rightarrow> bool" where
  "name_char c \<longleftrightarrow> is_letter c \<or> is_digit c \<or> c = CHR ''_''"

definition not_paren :: "char \<Rightarrow> bool" where
  "not_paren c \<longleftrightarrow> c \<noteq> CHR ''('' \<and> c \<noteq> CHR '')''"

text \<open>
  The method pattern: an optional \<open>function\<close> and a blank, a name, parameter types in
  parentheses, and optional result types. Its parts end where their characters end.
\<close>

definition function_parts :: "string \<Rightarrow> (string \<times> string) option" where
  "function_parts text =
     (let t = (if starts_with ''function '' text then drop 9 text else text);
          name = takeWhile name_char t in
      if name = [] \<or> \<not> is_letter (hd name) then None
      else case dropWhile name_char t of
          [] \<Rightarrow> None
        | c # u \<Rightarrow> if c \<noteq> CHR ''('' then None
            else (case dropWhile not_paren u of
                [] \<Rightarrow> None
              | d # v \<Rightarrow> if d \<noteq> CHR '')'' then None
                  else if v = [] \<or> (hd v = CHR ''('' \<and> dropWhile not_paren (tl v) = '')'')
                  then Some (name, takeWhile not_paren u) else None))"

definition method_types :: "string \<Rightarrow> string list" where
  "method_types inner = (if inner = [] then [] else split_at_char (CHR '','') inner)"

definition method_signature :: "string \<Rightarrow> string list \<Rightarrow> string" where
  "method_signature name types = name @ ''('' @ join_with (CHR '','') types @ '')''"

text \<open>Each accepted signature with the indices of its recipients and of its positive amounts.\<close>

definition native_withdraw :: string where
  "native_withdraw = ''withdraw(address,address,uint240)''"

definition supported_calls :: "(string \<times> nat list \<times> nat list) list" where
  "supported_calls =
     [(''withdraw()'', [], []),
      (''withdraw(uint256)'', [], [0]),
      (''withdraw(uint256,address)'', [1], [0]),
      (''withdraw(uint256,address,address)'', [1, 2], [0]),
      (''redeem(uint256)'', [], [0]),
      (''redeem(uint256,address,address)'', [1, 2], [0]),
      (''removeLiquidity(address,address,uint256,uint256,uint256,address,uint256)'', [5], [2, 3, 4]),
      (native_withdraw, [1], [2])]"

section \<open>Parameters\<close>

definition bad_parameter :: "string \<Rightarrow> exn" where
  "bad_parameter ty = ValueError (''invalid Rabby '' @ ty @ '' parameter'')"

definition abi_value :: "string \<Rightarrow> pyval \<Rightarrow> pyval result" where
  "abi_value ty raw = (case raw of
      PStr s \<Rightarrow>
        if ty = ''address''
        then (if is_address s then Inr (PStr s) else Inl (bad_parameter ty))
        else if ty \<in> {''uint256'', ''uint240''}
        then (let bits = (if ty = ''uint240'' then 240 else 256) in
          if all_digits s \<and> int (digits_val s) < 2 ^ bits then Inr (PInt (int (digits_val s)))
          else Inl (bad_parameter ty))
        else Inl (ValueError ''unsupported Rabby ABI parameter'')
    | _ \<Rightarrow> Inl (ValueError ''Rabby action parameter is not a string''))"

fun abi_values :: "(string \<times> pyval) list \<Rightarrow> pyval list result" where
  "abi_values [] = Inr []"
| "abi_values ((ty, raw) # rest) =
     bind_result (abi_value ty raw) (\<lambda>v. bind_result (abi_values rest) (\<lambda>vs. Inr (v # vs)))"

definition check_recipient :: "string \<Rightarrow> pyval list \<Rightarrow> nat \<Rightarrow> unit result" where
  "check_recipient wallet values i =
     bind_result (nth_item (PList values) i) (\<lambda>v. bind_result (lower_of v) (\<lambda>a.
       require (a = lower wallet) (ValueError ''Rabby withdrawal recipient differs from wallet'')))"

text \<open>\<open>v <= n\<close> for a decoded value; a text there raises.\<close>

definition at_most :: "pyval \<Rightarrow> int \<Rightarrow> bool result" where
  "at_most v n = (case v of PInt i \<Rightarrow> Inr (i \<le> n) | _ \<Rightarrow> Inl TypeError)"

definition check_above :: "string \<Rightarrow> int \<Rightarrow> pyval list \<Rightarrow> nat \<Rightarrow> unit result" where
  "check_above message n values i =
     bind_result (nth_item (PList values) i) (\<lambda>v. bind_result (at_most v n) (\<lambda>low.
       require (\<not> low) (ValueError message)))"

definition zero_contract :: string where
  "zero_contract = ''0x'' @ replicate 40 (CHR ''0'')"

definition check_parameters ::
  "string \<Rightarrow> string \<Rightarrow> string \<Rightarrow> int \<Rightarrow> nat list \<Rightarrow> nat list \<Rightarrow> pyval list \<Rightarrow> unit result" where
  "check_parameters name signature wallet now recipients positives values =
     bind_result (check_each (check_recipient wallet values) recipients) (\<lambda>_.
     bind_result (check_each
       (check_above ''Rabby withdrawal amount or minimum must be positive'' 0 values) positives) (\<lambda>_.
     bind_result (if signature = native_withdraw
       then bind_result (nth_item (PList values) 0) (\<lambda>v. bind_result (lower_of v) (\<lambda>a.
         require (a = zero_contract) (ValueError ''native withdrawal must use the zero token address'')))
       else Inr ()) (\<lambda>_.
     if name = ''removeLiquidity''
     then bind_result (check_each (check_above ''Rabby liquidity minimum must be positive'' 0 values) [3, 4])
       (\<lambda>_. check_above ''Rabby liquidity deadline expired'' now values 6)
     else Inr ())))"

section \<open>Approvals and encoding\<close>

record encoded_action =
  ea_to :: string
  ea_data :: string
  ea_value :: int
  ea_token :: "string option"
  ea_spender :: "string option"
  ea_amount :: int

definition unsafe_approval :: exn where
  "unsafe_approval = ValueError ''Rabby approval spender, token or amount is unsafe''"

definition approval_terms ::
  "string \<Rightarrow> string \<Rightarrow> pyval \<Rightarrow> (string option \<times> string option \<times> int) result" where
  "approval_terms signature target approval =
     (if signature = native_withdraw \<and> py_truthy approval
      then Inl (ValueError ''native withdrawal must not require approval'')
      else case approval of
        PDict d \<Rightarrow>
          if get d ''token_id'' = PNone \<and> get d ''to'' = PNone \<and> get d ''str_raw_amount'' = PNone
          then Inr (None, None, 0)
          else (case (get d ''token_id'', get d ''to'', get d ''str_raw_amount'') of
              (PStr token, PStr spender, PStr amount) \<Rightarrow>
                if is_address token \<and> is_address spender \<and> lower spender = lower target
                   \<and> all_digits amount \<and> 0 < int (digits_val amount) \<and> int (digits_val amount) < 2 ^ 256
                then Inr (Some (lower token), Some (lower spender), int (digits_val amount))
                else Inl unsafe_approval
            | _ \<Rightarrow> Inl unsafe_approval)
      | _ \<Rightarrow> Inl (ValueError ''invalid Rabby approval''))"

record abi_codec =
  ac_selector :: "string \<Rightarrow> string"
  ac_encode :: "string list \<Rightarrow> pyval list \<Rightarrow> string"

definition action_target :: "pyval \<Rightarrow> string \<Rightarrow> (pydict \<times> string) result" where
  "action_target action wallet = (case action of
      PDict d \<Rightarrow>
        if \<not> is_address wallet then Inl (ValueError ''invalid Rabby action or wallet'')
        else if get d ''type'' \<noteq> PStr ''withdraw'' then Inl (ValueError ''unsupported Rabby action type'')
        else (case get d ''contract_id'' of
            PStr t \<Rightarrow> if is_address t then Inr (d, t) else Inl (ValueError ''invalid Rabby action contract'')
          | _ \<Rightarrow> Inl (ValueError ''invalid Rabby action contract''))
    | _ \<Rightarrow> Inl (ValueError ''invalid Rabby action or wallet''))"

definition action_method :: "pydict \<Rightarrow> (string \<times> string list) result" where
  "action_method d =
     (case (case get d ''func'' of PStr s \<Rightarrow> function_parts (strip s) | _ \<Rightarrow> None) of
        None \<Rightarrow> Inl (ValueError ''invalid Rabby action method'')
      | Some (name, inner) \<Rightarrow> Inr (name, method_types inner))"

definition action_values :: "pydict \<Rightarrow> string list \<Rightarrow> pyval list result" where
  "action_values d types = (case get d ''str_params'' of
      PList raws \<Rightarrow> if length raws = length types then abi_values (zip types raws)
        else Inl (ValueError ''Rabby action parameters do not match method'')
    | _ \<Rightarrow> Inl (ValueError ''Rabby action parameters do not match method''))"

definition encode_action :: "abi_codec \<Rightarrow> pyval \<Rightarrow> string \<Rightarrow> int \<Rightarrow> encoded_action result" where
  "encode_action ac action wallet now =
     bind_result (action_target action wallet) (\<lambda>(d, target).
     bind_result (action_method d) (\<lambda>(name, types).
     let signature = method_signature name types in
     case map_of supported_calls signature of
       None \<Rightarrow> Inl (ValueError ''unsupported Rabby action method'')
     | Some (recipients, positives) \<Rightarrow>
         bind_result (action_values d types) (\<lambda>values.
         bind_result (check_parameters name signature wallet now recipients positives values) (\<lambda>_.
         bind_result (approval_terms signature target (or_dict (map_of d ''need_approve'')))
           (\<lambda>(token, spender, amount).
         Inr \<lparr>ea_to = lower target, ea_data = ''0x'' @ ac_selector ac signature @ ac_encode ac types values,
           ea_value = 0, ea_token = token, ea_spender = spender, ea_amount = amount\<rparr>)))))"

end
