(* ===== verification/Defi_Plan.thy ===== *)
theory Defi_Plan
  imports Defi_Actions
begin

text \<open>
  Plans of withdrawals (\<open>defi_plan.py\<close>): each position of a wallet's portfolio becomes an entry,
  ready with its one withdrawal action or marked for review with the reason, and the choice
  of a reviewed entry from a saved plan (\<open>select_reviewed_action\<close> of \<open>defi_execution.py\<close>). The
  portfolio, SHA-256 and the JSON reader are parameters.
\<close>

section \<open>Values of a position\<close>

text \<open>\<open>a or b\<close>, and what a \<open>for\<close> loop over a value visits.\<close>

definition py_or :: "pyval \<Rightarrow> pyval \<Rightarrow> pyval" where
  "py_or a b = (if py_truthy a then a else b)"

definition iterate :: "pyval \<Rightarrow> pyval list result" where
  "iterate v = (case v of
      PStr s \<Rightarrow> Inr (map (\<lambda>c. PStr [c]) s)
    | PDict d \<Rightarrow> Inr (map (\<lambda>(k, _). PStr k) d)
    | _ \<Rightarrow> elements v)"

definition decimal_positive :: "pyval \<Rightarrow> bool" where
  "decimal_positive v =
     (case parse_decimal (case v of PDecimal d \<Rightarrow> decimal_str d | _ \<Rightarrow> py_str v) of
        Some (Number d) \<Rightarrow> dec_less (dec_of_int 0) d
      | _ \<Rightarrow> True)"

definition token_name :: "pyval \<Rightarrow> string list" where
  "token_name v = (case v of
      PStr t \<Rightarrow> if lower t = ''eth'' \<or> is_address t then [lower t] else []
    | _ \<Rightarrow> [])"

definition sorted_names :: "pyval list \<Rightarrow> string list" where
  "sorted_names vs = sort (remdups (concat (map token_name vs)))"

definition liquidity_call :: "pydict \<Rightarrow> bool" where
  "liquidity_call action = starts_with ''removeLiquidity('' (py_str (get_default action ''func'' (PStr [])))"

text \<open>An empty action is as good as none.\<close>

definition output_tokens :: "pydict \<Rightarrow> pydict option \<Rightarrow> string list result" where
  "output_tokens held action =
     bind_result (get_item (or_dict (map_of held ''detail'')) ''supply_token_list'' (PList [])) (\<lambda>supplied.
     case (case action of Some a \<Rightarrow> if a \<noteq> [] \<and> liquidity_call a then Some a else None | None \<Rightarrow> None) of
       Some a \<Rightarrow> bind_result (elements (py_or (get a ''str_params'') (PList []))) (\<lambda>ps.
         Inr (sorted_names (take 2 ps)))
     | None \<Rightarrow> bind_result (iterate supplied) (\<lambda>tokens.
         Inr (sorted_names (concat (map (\<lambda>t. case t of PDict d \<Rightarrow> [get d ''id''] | _ \<Rightarrow> []) tokens)))))"

section \<open>Entries\<close>

record defi_env =
  df_abi :: abi_codec
  df_digest :: "pyval \<Rightarrow> string"
  df_now :: int

definition identity_keys :: "string list" where
  "identity_keys = [''wallet'', ''chain_id'', ''protocol_id'', ''pool_id'', ''position_index'']"

definition identity :: "pydict \<Rightarrow> pyval list" where
  "identity entry = map (get entry) identity_keys"

definition action_id :: "defi_env \<Rightarrow> pydict \<Rightarrow> string" where
  "action_id env entry = df_digest env
     (PDict [(''identity'', PList (identity entry)), (''action'', get entry ''action'')])"

definition put :: "(string \<times> pyval) list \<Rightarrow> pydict \<Rightarrow> pydict" where
  "put changes entry = fold (\<lambda>(k, v). AList.update k v) changes entry"

definition reason :: "string \<Rightarrow> pydict \<Rightarrow> pydict" where
  "reason text entry = put [(''reason'', PStr text)] entry"

text \<open>What the loops know of the wallet, the protocol and its chain.\<close>

record defi_place =
  pl_wallet :: string
  pl_protocol :: pydict
  pl_id :: string
  pl_chain :: string
  pl_chain_id :: "int option"

definition pool_of :: "pydict \<Rightarrow> pydict" where
  "pool_of held = (case get held ''pool'' of PDict d \<Rightarrow> d | _ \<Rightarrow> [])"

definition pool_id :: "pydict \<Rightarrow> pyval" where
  "pool_id pool = py_or (get pool ''id'') (py_or (get pool ''controller'') (PStr []))"

definition blank_entry :: "defi_place \<Rightarrow> pydict \<Rightarrow> pydict result" where
  "blank_entry place held =
     bind_result (get_item (or_dict (map_of held ''stats'')) ''net_usd_value'' PNone) (\<lambda>net.
     bind_result (get_item (or_dict (map_of held ''stats'')) ''debt_usd_value'' PNone) (\<lambda>debt.
     bind_result (output_tokens held None) (\<lambda>tokens.
     Inr [(''wallet'', PStr (lower (pl_wallet place))), (''chain'', PStr (pl_chain place)),
       (''chain_id'', optional_int (pl_chain_id place)), (''protocol_id'', PStr (pl_id place)),
       (''protocol_name'', py_or (get (pl_protocol place) ''name'') (PStr (pl_id place))),
       (''pool_id'', PStr (py_str (pool_id (pool_of held)))),
       (''position_index'', PStr (py_str (py_or (get held ''position_index'') (PStr [])))),
       (''position_name'', py_or (get held ''name'') (PStr [])),
       (''status'', PStr ''manual_review''), (''reason'', PStr []), (''action_id'', PNone),
       (''action'', PNone), (''net_usd_value'', net), (''debt_usd_value'', debt),
       (''output_token_ids'', PList (map PStr tokens))])))"

definition withdrawals :: "pyval list \<Rightarrow> pydict list" where
  "withdrawals actions = concat (map (\<lambda>a. case a of
      PDict d \<Rightarrow> if get d ''type'' = PStr ''withdraw'' then [d] else [] | _ \<Rightarrow> []) actions)"

text \<open>The entry of one withdrawal: it is ready when the encoder accepts it and its output is known.\<close>

definition ready_entry :: "defi_env \<Rightarrow> defi_place \<Rightarrow> pydict \<Rightarrow> pydict \<Rightarrow> pydict \<Rightarrow> pydict result" where
  "ready_entry env place held action entry =
     (case encode_action (df_abi env) (PDict action) (pl_wallet place) (df_now env) of
        Inl e \<Rightarrow> if e = TypeError \<or> is_value_error e then Inr (reason ''unsafe_or_unsupported_action'' entry)
          else Inl e
      | Inr _ \<Rightarrow> bind_result (output_tokens held (Some action)) (\<lambda>tokens.
          let known = put [(''output_token_ids'', PList (map PStr tokens))] entry in
          if tokens = [] then Inr (reason ''output_asset_unknown'' known)
          else let chosen = put [(''status'', PStr ''ready''), (''action'', PDict action)] known in
            Inr (put [(''action_id'', PStr (action_id env chosen))] chosen)))"

definition defi_entry :: "defi_env \<Rightarrow> int list \<Rightarrow> defi_place \<Rightarrow> pydict \<Rightarrow> pydict result" where
  "defi_entry env supported place held =
     bind_result (blank_entry place held) (\<lambda>entry.
     let pool = pool_of held in
     if (case pl_chain_id place of None \<Rightarrow> True | Some c \<Rightarrow> c \<notin> set supported)
        \<or> get_default pool ''chain'' (PStr (pl_chain place)) \<noteq> PStr (pl_chain place)
     then Inr (reason ''chain_not_configured'' entry)
     else if \<not> py_truthy (pool_id pool) then Inr (reason ''position_identity_missing'' entry)
     else bind_result (get_item (or_dict (map_of held ''proxy_detail'')) ''proxy_contract_id'' PNone) (\<lambda>proxy.
     if py_truthy proxy then Inr (reason ''proxy_position'' entry)
     else bind_result (get_item (get_default held ''stats'' (PDict [])) ''debt_usd_value'' PNone) (\<lambda>debt.
     if decimal_positive debt then Inr (reason ''outstanding_debt'' entry)
     else bind_result (iterate (py_or (get held ''withdraw_actions'') (PList []))) (\<lambda>actions.
     case withdrawals actions of
       [action] \<Rightarrow> ready_entry env place held action entry
     | _ \<Rightarrow> Inr (reason ''no_single_direct_withdraw_action'' entry)))))"

section \<open>The plan\<close>

fun position_entries :: "defi_env \<Rightarrow> int list \<Rightarrow> defi_place \<Rightarrow> pyval list \<Rightarrow> pydict list result" where
  "position_entries env supported place [] = Inr []"
| "position_entries env supported place (p # ps) = (case p of
      PDict d \<Rightarrow> bind_result (defi_entry env supported place d) (\<lambda>e.
        bind_result (position_entries env supported place ps) (\<lambda>es. Inr (e # es)))
    | _ \<Rightarrow> Inl (ValueError ''Rabby returned an invalid position''))"

definition protocol_entries ::
  "defi_env \<Rightarrow> int list \<Rightarrow> (string \<times> int) list \<Rightarrow> string \<Rightarrow> pyval \<Rightarrow> pydict list result" where
  "protocol_entries env supported networks wallet protocol = (case protocol of
      PDict d \<Rightarrow> (case (get d ''id'', get d ''chain'') of
          (PStr i, PStr chain) \<Rightarrow>
            if (case map_of networks chain of None \<Rightarrow> False | Some c \<Rightarrow> c \<in> set excluded_networks) then Inr []
            else (case get d ''portfolio_item_list'' of
                PList ps \<Rightarrow> position_entries env supported \<lparr>pl_wallet = wallet, pl_protocol = d, pl_id = i,
                    pl_chain = chain, pl_chain_id = map_of networks chain\<rparr> ps
              | _ \<Rightarrow> Inl (ValueError ''Rabby protocol positions are missing''))
        | _ \<Rightarrow> Inl (ValueError ''Rabby protocol identity is missing''))
    | _ \<Rightarrow> Inl (ValueError ''Rabby returned an invalid protocol''))"

text \<open>The results of each element in turn, up to the first failure.\<close>

fun concat_results :: "('a \<Rightarrow> 'b list result) \<Rightarrow> 'a list \<Rightarrow> 'b list result" where
  "concat_results f [] = Inr []"
| "concat_results f (x # xs) =
     bind_result (f x) (\<lambda>ys. bind_result (concat_results f xs) (\<lambda>zs. Inr (ys @ zs)))"

record 'r portfolio =
  pf_chain_ids :: "('r, (string \<times> int) list) action"
  pf_positions :: "string \<Rightarrow> ('r, pyval list) action"

fun wallet_entries ::
  "defi_env \<Rightarrow> 'r portfolio \<Rightarrow> int list \<Rightarrow> (string \<times> int) list \<Rightarrow> string list \<Rightarrow> ('r, pydict list) action" where
  "wallet_entries env rabby supported networks [] = give []"
| "wallet_entries env rabby supported networks (w # ws) =
     bind_act (pf_positions rabby w) (\<lambda>protocols.
     bind_act (lift (concat_results (protocol_entries env supported networks w) protocols)) (\<lambda>es.
     bind_act (wallet_entries env rabby supported networks ws) (\<lambda>fs. give (es @ fs))))"

definition review_duplicate :: "pyval list list \<Rightarrow> pydict \<Rightarrow> pydict" where
  "review_duplicate identities entry =
     (if 1 < count_list identities (identity entry)
      then put [(''status'', PStr ''manual_review''), (''reason'', PStr ''duplicate_position''),
        (''action'', PNone), (''action_id'', PNone)] entry
      else entry)"

definition count_status :: "string \<Rightarrow> pydict list \<Rightarrow> int" where
  "count_status status entries = int (length (filter (\<lambda>e. get e ''status'' = PStr status) entries))"

definition plan_schema :: string where
  "plan_schema = ''rabby-defi-withdraw-v1''"

definition create_defi_plan ::
  "defi_env \<Rightarrow> 'r portfolio \<Rightarrow> int list \<Rightarrow> string list \<Rightarrow> ('r, pydict list \<times> pydict) action" where
  "create_defi_plan env rabby supported wallets =
     bind_act (pf_chain_ids rabby) (\<lambda>networks.
     bind_act (wallet_entries env rabby supported networks wallets) (\<lambda>found.
     let entries = map (review_duplicate (map identity found)) found in
     give (entries,
       [(''schema'', PStr plan_schema), (''created_at'', PInt (df_now env)),
        (''entries'', PList (map PDict entries)),
        (''summary'', PDict [(''ready'', PInt (count_status ''ready'' entries)),
           (''manual_review'', PInt (count_status ''manual_review'' entries))])])))"

section \<open>The reviewed entry\<close>

definition sha256_text :: "string \<Rightarrow> bool" where
  "sha256_text s \<longleftrightarrow> length s = 64 \<and> list_all (\<lambda>c. is_hex c \<and> lower_char c = c) s"

record plan_choice =
  pc_bytes :: string
  pc_sha256 :: string
  pc_action :: string
  pc_wallet :: string

record plan_reader =
  pr_sha256 :: "string \<Rightarrow> string"
  pr_loads :: "string \<Rightarrow> pyval result"

definition chosen_entries :: "string \<Rightarrow> pyval list \<Rightarrow> pydict list" where
  "chosen_entries i entries = concat (map (\<lambda>e. case e of
      PDict d \<Rightarrow> if get d ''action_id'' = PStr i then [d] else [] | _ \<Rightarrow> []) entries)"

definition select_reviewed_action :: "plan_reader \<Rightarrow> plan_choice \<Rightarrow> int \<Rightarrow> bool \<Rightarrow> pydict result" where
  "select_reviewed_action rd ch now stale_ok =
     (if \<not> sha256_text (pc_sha256 ch) \<or> pr_sha256 rd (pc_bytes ch) \<noteq> pc_sha256 ch
      then Inl (ValueError ''reviewed plan digest does not match file'')
      else if \<not> sha256_text (pc_action ch) then Inl (ValueError ''invalid DeFi action ID'')
      else bind_result (pr_loads rd (pc_bytes ch)) (\<lambda>p. case p of
        PDict d \<Rightarrow>
          if get d ''schema'' \<noteq> PStr plan_schema then Inl (ValueError ''invalid DeFi plan schema'')
          else (case get d ''created_at'' of
              PInt created \<Rightarrow>
                if \<not> stale_ok \<and> \<not> (0 \<le> now - created \<and> now - created \<le> 900)
                then Inl (ValueError ''DeFi plan is stale or from the future'')
                else (case get d ''entries'' of
                    PList entries \<Rightarrow> (case chosen_entries (pc_action ch) entries of
                        [e] \<Rightarrow>
                          if get e ''status'' \<noteq> PStr ''ready''
                          then Inl (ValueError ''DeFi action ID does not select one ready position'')
                          else if uses_excluded_network (PDict e)
                          then Inl (ValueError ''network excluded from processing'')
                          else if get e ''wallet'' \<noteq> PStr (lower (pc_wallet ch))
                          then Inl (ValueError ''selected DeFi action belongs to another wallet'')
                          else Inr e
                      | _ \<Rightarrow> Inl (ValueError ''DeFi action ID does not select one ready position''))
                  | _ \<Rightarrow> Inl (ValueError ''invalid DeFi plan entries''))
            | _ \<Rightarrow> Inl (ValueError ''invalid DeFi plan timestamp''))
      | _ \<Rightarrow> Inl (ValueError ''invalid DeFi plan schema'')))"

end
