(* ===== verification/Defi_Call_Data.thy ===== *)
theory Defi_Call_Data
  imports Defi_Actions
begin

text \<open>
  What an accepted exit action does: the words of its call data, for an ABI library that
  encodes static values as documented, and the approval it asks for.
\<close>

section \<open>Call data\<close>

text \<open>
  What the ABI library is relied on for: a selector of four bytes, and one word of 32 bytes
  for each address or unsigned integer, in order.
\<close>

fun abi_word :: "pyval \<Rightarrow> string" where
  "abi_word (PStr a) = address_word a"
| "abi_word (PInt n) = rjust0 64 (hex_text (nat n))"
| "abi_word v = []"

definition fits_word :: "int \<Rightarrow> bool" where
  "fits_word n \<longleftrightarrow> 0 \<le> n \<and> n < 2 ^ 256"

lemma fits_nat: "fits_word n \<Longrightarrow> nat n < 2 ^ 256"
  using nat_less_iff [of n "2 ^ 256"] unfolding fits_word_def by (simp only: of_nat_power of_nat_numeral)

fun static_value :: "pyval \<Rightarrow> bool" where
  "static_value (PStr a) = is_address a"
| "static_value (PInt n) = fits_word n"
| "static_value v = False"

definition static_abi :: "abi_codec \<Rightarrow> bool" where
  "static_abi ac \<longleftrightarrow> (\<forall>s. length (ac_selector ac s) = 8)
     \<and> (\<forall>types values. list_all static_value values
        \<longrightarrow> ac_encode ac types values = concat (map abi_word values))"

definition call_word :: "string \<Rightarrow> nat \<Rightarrow> string" where
  "call_word data i = take 64 (drop (10 + 64 * i) data)"

lemma nth_chunk:
  assumes "\<forall>w \<in> set ws. length w = n" "i < length ws"
  shows "take n (drop (n * i) (concat ws)) = ws ! i"
  using assms by (induction ws arbitrary: i) (auto simp: nth_Cons split: nat.split)

lemma length_address_word: "is_address a \<Longrightarrow> length (address_word a) = 64"
  by (simp add: address_word_def rjust0_def is_address_def hex_of_length_def lower_def)

lemma length_abi_word: "static_value v \<Longrightarrow> length (abi_word v) = 64"
proof (cases v)
  case (PInt n)
  assume "static_value v"
  then have "nat n < 2 ^ 256" using PInt by (simp only: static_value.simps fits_nat)
  then have "nat n < 16 ^ 64" by simp
  from hex_of_length_text [OF this] PInt show ?thesis by (simp add: hex_of_length_def)
qed (simp_all add: length_address_word)

lemma call_word_value:
  assumes "static_abi ac" "list_all static_value values" "i < length values"
  shows "call_word (''0x'' @ ac_selector ac s @ ac_encode ac types values) i = abi_word (values ! i)"
proof -
  have "drop (10 + 64 * i) (''0x'' @ ac_selector ac s @ ac_encode ac types values)
      = drop (64 * i) (concat (map abi_word values))"
    using assms(1,2) by (simp add: static_abi_def drop_Cons')
  moreover have "take 64 (drop (64 * i) (concat (map abi_word values))) = map abi_word values ! i"
    using assms(2,3) by (intro nth_chunk) (auto simp: list_all_iff length_abi_word)
  ultimately show ?thesis using assms(3) by (simp add: call_word_def)
qed

lemma address_word_lower: "lower a = lower b \<Longrightarrow> address_word a = address_word b"
  by (simp add: address_word_def lower_def drop_map [symmetric])

lemma digits_fit: "int (digits_val s) < 2 ^ (if b then 240 else 256) \<Longrightarrow> fits_word (int (digits_val s))"
  unfolding fits_word_def by (cases b) (simp_all only: if_True if_False, simp_all)

lemma abi_value_static: "abi_value ty raw = Inr v \<Longrightarrow> static_value v"
proof (cases raw)
  case (PStr s)
  assume "abi_value ty raw = Inr v"
  with PStr have "v = PStr s \<and> is_address s
      \<or> int (digits_val s) < 2 ^ (if ty = ''uint240'' then 240 else 256) \<and> v = PInt (int (digits_val s))"
    by (simp only: abi_value_def Let_def pyval.case sum.inject sum.distinct split: if_splits) blast+
  then show ?thesis using digits_fit [of s "ty = ''uint240''"] by auto
qed (simp_all add: abi_value_def)

lemma abi_values_static: "abi_values ps = Inr vs \<Longrightarrow> list_all static_value vs"
  by (induction ps arbitrary: vs rule: abi_values.induct) (auto dest: abi_value_static)

lemma nth_item_list: "nth_item (PList vs) i = Inr v \<longleftrightarrow> i < length vs \<and> v = vs ! i"
  by (auto simp: nth_item_def elements_def)

lemma recipient_word:
  assumes "check_recipient wallet vs i = Inr ()" "list_all static_value vs"
  shows "i < length vs \<and> abi_word (vs ! i) = address_word wallet"
proof -
  obtain a where "i < length vs" "vs ! i = PStr a" "lower a = lower wallet"
    using assms(1) by (auto simp: check_recipient_def nth_item_list lower_of_def split: pyval.splits)
  then show ?thesis using address_word_lower [of a wallet] by simp
qed

lemma above_word:
  assumes "check_above m n vs i = Inr ()" "list_all static_value vs" "0 \<le> n"
  shows "i < length vs \<and> (\<exists>k > n. uint256 (PStr (''0x'' @ abi_word (vs ! i))) = Inr k)"
proof -
  obtain k where k: "i < length vs" "vs ! i = PInt k" "n < k"
    using assms(1) by (auto simp: check_above_def nth_item_list at_most_def not_le split: pyval.splits)
  then have "static_value (PInt k)" using assms(2) by (metis list_all_length)
  then have "nat k < 2 ^ 256" by (simp only: static_value.simps fits_nat)
  from uint256_round [OF this] k assms(3) show ?thesis by auto
qed


section \<open>What an accepted action pays\<close>

text \<open>The facts of an accepted action.\<close>

lemma encoded_parts:
  assumes "encode_action ac action wallet now = Inr e"
  obtains d target name types recipients positives vs where
    "action = PDict d" "get d ''contract_id'' = PStr target" "is_address target"
    "map_of supported_calls (method_signature name types) = Some (recipients, positives)"
    "list_all static_value vs" "check_parameters name (method_signature name types) wallet now recipients positives vs = Inr ()"
    "approval_terms (method_signature name types) target (or_dict (map_of d ''need_approve''))
       = Inr (ea_token e, ea_spender e, ea_amount e)"
    "ea_to e = lower target" "ea_value e = 0"
    "ea_data e = ''0x'' @ ac_selector ac (method_signature name types) @ ac_encode ac types vs"
proof -
  obtain d target name types where t: "action_target action wallet = Inr (d, target)"
    and m: "action_method d = Inr (name, types)"
    using assms by (auto simp: encode_action_def)
  let ?s = "method_signature name types"
  obtain recipients positives vs where "map_of supported_calls ?s = Some (recipients, positives)"
    and v: "action_values d types = Inr vs"
    and "check_parameters name ?s wallet now recipients positives vs = Inr ()"
    and "approval_terms ?s target (or_dict (map_of d ''need_approve'')) = Inr (ea_token e, ea_spender e, ea_amount e)"
    and "ea_to e = lower target" "ea_value e = 0"
    and "ea_data e = ''0x'' @ ac_selector ac ?s @ ac_encode ac types vs"
    using assms t m by (auto simp: encode_action_def Let_def split: option.splits)
  moreover have "list_all static_value vs"
    using v by (auto simp: action_values_def abi_values_static split: pyval.splits if_splits)
  moreover have "action = PDict d" "get d ''contract_id'' = PStr target" "is_address target"
    using t by (auto simp: action_target_def split: pyval.splits if_splits)
  ultimately show thesis using that by blast
qed

definition pays_only :: "abi_codec \<Rightarrow> string \<Rightarrow> encoded_action \<Rightarrow> bool" where
  "pays_only ac wallet e \<longleftrightarrow>
     (\<exists>(s, recipients, positives) \<in> set supported_calls.
        take 10 (ea_data e) = ''0x'' @ ac_selector ac s
        \<and> (\<forall>i \<in> set recipients. call_word (ea_data e) i = address_word wallet)
        \<and> (\<forall>i \<in> set positives. \<exists>k > 0. uint256 (PStr (''0x'' @ call_word (ea_data e) i)) = Inr k))"

definition approves_only :: "encoded_action \<Rightarrow> bool" where
  "approves_only e \<longleftrightarrow> (case ea_token e of
      None \<Rightarrow> ea_spender e = None \<and> ea_amount e = 0
    | Some t \<Rightarrow> is_address t \<and> ea_spender e = Some (ea_to e) \<and> 0 < ea_amount e \<and> fits_word (ea_amount e))"

lemma is_hex_lower: "is_hex c \<Longrightarrow> is_hex (lower_char c)"
  by (auto simp: is_hex_def is_digit_def lower_char_def code_of_def of_char_of)

lemma is_address_lower: "is_address a \<Longrightarrow> is_address (lower a)"
proof -
  assume "is_address a"
  moreover have "map lower_char ''0x'' = ''0x''" by code_simp
  ultimately show ?thesis
    by (auto simp: is_address_def hex_of_length_def starts_with_def lower_def drop_map take_map
        list_all_iff is_hex_lower)
qed


text \<open>
  C27: an action the encoder accepts, whatever the provider proposed, becomes a call of one of the
  eight supported methods at the named contract, without native value; each recipient word of
  the call data is the wallet's address and each amount or minimum decodes to a positive
  number; an approval it needs names that same contract as spender and an amount of one word.
\<close>

theorem exit_pays_wallet:
  assumes "encode_action ac action wallet now = Inr e" "static_abi ac"
  shows "pays_only ac wallet e \<and> approves_only e \<and> ea_value e = 0 \<and> is_address (ea_to e)"
proof -
  obtain d target name types recipients positives vs where
    parts: "get d ''contract_id'' = PStr target" "is_address target"
    and call: "map_of supported_calls (method_signature name types) = Some (recipients, positives)"
    and static: "list_all static_value vs"
    and checks: "check_parameters name (method_signature name types) wallet now recipients positives vs = Inr ()"
    and approval: "approval_terms (method_signature name types) target (or_dict (map_of d ''need_approve''))
       = Inr (ea_token e, ea_spender e, ea_amount e)"
    and e: "ea_to e = lower target" "ea_value e = 0"
      "ea_data e = ''0x'' @ ac_selector ac (method_signature name types) @ ac_encode ac types vs"
    using encoded_parts [OF assms(1)] by metis
  note word = call_word_value [OF assms(2) static, of _ "method_signature name types" types, folded e(3)]
  have r: "\<forall>i \<in> set recipients. call_word (ea_data e) i = address_word wallet"
    using checks recipient_word [OF _ static] word
    by (auto simp: check_parameters_def check_each_Inr)
  have p: "\<forall>i \<in> set positives. \<exists>k > 0. uint256 (PStr (''0x'' @ call_word (ea_data e) i)) = Inr k"
    using checks above_word [OF _ static] word
    by (fastforce simp: check_parameters_def check_each_Inr)
  have "take 10 (ea_data e) = ''0x'' @ ac_selector ac (method_signature name types)"
    using assms(2) by (simp add: e(3) static_abi_def)
  with r p map_of_SomeD [OF call] have "pays_only ac wallet e" by (fastforce simp: pays_only_def)
  moreover have "approves_only e"
    using approval e(1) is_address_lower by (auto simp only: approval_terms_def approves_only_def fits_word_def
        split: if_splits pyval.splits option.splits)
  ultimately show ?thesis using e(1,2) parts(2) is_address_lower by simp
qed


definition sample_codec :: abi_codec where
  "sample_codec = \<lparr>ac_selector = (\<lambda>_. ''2e1a7d4d''),
     ac_encode = (\<lambda>_ values. concat (map abi_word values))\<rparr>"

definition sample_holder :: string where
  "sample_holder = ''0x'' @ replicate 40 (CHR ''c'')"

definition sample_exit :: "string \<Rightarrow> string \<Rightarrow> pydict" where
  "sample_exit recipient amount =
     [(''type'', PStr ''withdraw''), (''contract_id'', PStr (''0x'' @ replicate 40 (CHR ''d''))),
      (''func'', PStr ''withdraw(uint256,address)''), (''str_params'', PList [PStr amount, PStr recipient])]"

lemma exit_pays_wallet_witness:
  "\<exists>e. encode_action sample_codec (PDict (sample_exit sample_holder ''25'')) sample_holder 5 = Inr e
     \<and> pays_only sample_codec sample_holder e"
proof -
  have "static_abi sample_codec" by (simp add: static_abi_def sample_codec_def)
  moreover have "\<not> isl (encode_action sample_codec (PDict (sample_exit sample_holder ''25'')) sample_holder 5)"
    by code_simp
  then obtain e where
    "encode_action sample_codec (PDict (sample_exit sample_holder ''25'')) sample_holder 5 = Inr e"
    by (metis sum.collapse(2))
  ultimately show ?thesis using exit_pays_wallet by blast
qed

end
