(* ===== verification/Defi_Plan_Facts.thy ===== *)
theory Defi_Plan_Facts
  imports Defi_Plan Defi_Call_Data
begin

text \<open>
  What a plan of withdrawals promises of each entry it marks ready.
\<close>

section \<open>Plans\<close>

lemma put_simps [simp]: "put [] e = e" "put ((k, v) # cs) e = put cs (AList.update k v e)"
  by (simp_all add: put_def)

lemma get_update [simp]: "get (AList.update k v e) x = (if x = k then v else get e x)"
  by (simp add: get_def get_default_def)

lemma identity_update [simp]: "k \<notin> set identity_keys \<Longrightarrow> identity (AList.update k v e) = identity e"
  by (auto simp: identity_def identity_keys_def)

lemma identity_other [simp]:
  "identity (AList.update ''status'' v e) = identity e" "identity (AList.update ''action'' v e) = identity e"
  "identity (AList.update ''reason'' v e) = identity e" "identity (AList.update ''action_id'' v e) = identity e"
  "identity (AList.update ''output_token_ids'' v e) = identity e"
  by (simp_all add: identity_def identity_keys_def)

lemma sorted_names_ok: "t \<in> set (sorted_names vs) \<Longrightarrow> t = ''eth'' \<or> is_address t"
  by (auto simp: sorted_names_def token_name_def is_address_lower split: pyval.splits if_splits)

lemma output_tokens_ok: "output_tokens held a = Inr ts \<Longrightarrow> t \<in> set ts \<Longrightarrow> t = ''eth'' \<or> is_address t"
  by (auto simp: output_tokens_def dest: sorted_names_ok split: option.splits if_splits)

text \<open>What an entry marked ready promises.\<close>

definition exit_ready :: "defi_env \<Rightarrow> int list \<Rightarrow> string list \<Rightarrow> pydict \<Rightarrow> bool" where
  "exit_ready env supported wallets e \<longleftrightarrow>
     (\<exists>wallet \<in> set wallets. \<exists>c \<in> set supported. \<exists>action tokens.
        get e ''wallet'' = PStr (lower wallet) \<and> get e ''chain_id'' = PInt c \<and> c \<notin> set excluded_networks
        \<and> get e ''action'' = PDict action
        \<and> \<not> isl (encode_action (df_abi env) (PDict action) wallet (df_now env))
        \<and> get e ''action_id'' = PStr (action_id env e)
        \<and> get e ''output_token_ids'' = PList (map PStr tokens) \<and> tokens \<noteq> []
        \<and> list_all (\<lambda>t. t = ''eth'' \<or> is_address t) tokens)"

definition ready :: "pydict \<Rightarrow> bool" where
  "ready e \<longleftrightarrow> get e ''status'' = PStr ''ready''"

lemma blank_entry_fields:
  assumes "blank_entry place held = Inr e"
  shows "get e ''wallet'' = PStr (lower (pl_wallet place))" "get e ''chain_id'' = optional_int (pl_chain_id place)"
    "\<not> ready e"
  using assms by (auto simp: blank_entry_def get_def get_default_def ready_def)

lemma reason_not_ready: "ready (reason text e) = ready e"
  by (simp add: reason_def ready_def)

lemma ready_entry_sound:
  assumes "ready_entry env place held action entry = Inr e" "ready e" "\<not> ready entry"
    and "get entry ''wallet'' = PStr (lower (pl_wallet place))" "get entry ''chain_id'' = PInt c"
    and "c \<in> set supported" "c \<notin> set excluded_networks" "pl_wallet place \<in> set wallets"
  shows "exit_ready env supported wallets e"
proof -
  let ?run = "encode_action (df_abi env) (PDict action) (pl_wallet place) (df_now env)"
  obtain x where x: "?run = Inr x"
    using assms(1,2,3) by (cases ?run) (auto simp: ready_entry_def reason_not_ready split: if_splits)
  obtain tokens where tokens: "output_tokens held (Some action) = Inr tokens"
    using assms(1) x by (auto simp: ready_entry_def)
  have "tokens \<noteq> []"
    using assms(1,2,3) x tokens by (auto simp: ready_entry_def reason_def ready_def)
  moreover from this obtain i where e: "e = AList.update ''action_id'' (PStr i)
      (AList.update ''action'' (PDict action) (AList.update ''status'' (PStr ''ready'')
        (AList.update ''output_token_ids'' (PList (map PStr tokens)) entry)))" and "i = action_id env e"
    using assms(1) x tokens by (auto simp: ready_entry_def Let_def action_id_def)
  then have "get e ''action_id'' = PStr (action_id env e)" by (metis get_update)
  moreover have "get e ''wallet'' = PStr (lower (pl_wallet place))" "get e ''chain_id'' = PInt c"
    "get e ''action'' = PDict action" "get e ''output_token_ids'' = PList (map PStr tokens)"
    using assms(4,5) by (simp_all add: e)
  moreover have "list_all (\<lambda>t. t = ''eth'' \<or> is_address t) tokens"
    using output_tokens_ok [OF tokens] by (auto simp: list_all_iff)
  ultimately show ?thesis
    using assms(6-8) x unfolding exit_ready_def by fastforce
qed

lemma defi_entry_sound:
  assumes "defi_entry env supported place held = Inr e" "ready e" "pl_wallet place \<in> set wallets"
    and "\<forall>c. pl_chain_id place = Some c \<longrightarrow> c \<notin> set excluded_networks"
  shows "exit_ready env supported wallets e"
proof -
  obtain entry where blank: "blank_entry place held = Inr entry"
    using assms(1) by (auto simp: defi_entry_def)
  note fields = blank_entry_fields [OF blank]
  obtain c where c: "pl_chain_id place = Some c" "c \<in> set supported"
    using assms(1,2) blank fields(3)
    by (auto simp: defi_entry_def Let_def reason_not_ready split: option.splits if_splits)
  have no: "reason m entry \<noteq> e" for m using reason_not_ready fields(3) assms(2) by metis
  obtain actions where "(case withdrawals actions of [action] \<Rightarrow> ready_entry env place held action entry
      | _ \<Rightarrow> Inr (reason ''no_single_direct_withdraw_action'' entry)) = Inr e"
    using assms(1) blank no by (auto simp: defi_entry_def Let_def split: if_splits)
  then have "\<exists>action. ready_entry env place held action entry = Inr e"
    using no by (auto split: list.split_asm)
  then show ?thesis
    using ready_entry_sound assms(2-4) c fields by (metis optional_int_def option.simps(5))
qed

lemma position_entries_sound:
  "position_entries env supported place ps = Inr es \<Longrightarrow> e \<in> set es
   \<Longrightarrow> \<exists>d. defi_entry env supported place d = Inr e"
  by (induction ps arbitrary: es) (auto split: pyval.splits)

lemma protocol_entries_sound:
  assumes "protocol_entries env supported networks wallet protocol = Inr es" "e \<in> set es" "ready e"
    and "wallet \<in> set wallets"
  shows "exit_ready env supported wallets e"
proof -
  obtain place d where "defi_entry env supported place d = Inr e" "pl_wallet place = wallet"
    and "\<forall>c. pl_chain_id place = Some c \<longrightarrow> c \<notin> set excluded_networks"
    using assms(1,2) position_entries_sound
    by (fastforce simp: protocol_entries_def split: pyval.splits if_splits option.splits)
  then show ?thesis using defi_entry_sound assms(3,4) by metis
qed

lemma concat_results_member:
  "concat_results f xs = Inr ys \<Longrightarrow> y \<in> set ys \<Longrightarrow> \<exists>x \<in> set xs. \<exists>zs. f x = Inr zs \<and> y \<in> set zs"
  by (induction xs arbitrary: ys) auto

lemma wallet_entries_sound:
  assumes "wallet_entries env rabby supported networks ws s = (Inr es, t)" "e \<in> set es" "ready e"
    and "set ws \<subseteq> set wallets"
  shows "exit_ready env supported wallets e"
  using assms
proof (induction ws arbitrary: s es t)
  case (Cons w ws)
  then obtain protocols u here there where here: "concat_results (protocol_entries env supported networks w) protocols = Inr here"
    and there: "wallet_entries env rabby supported networks ws u = (Inr there, t)" and es: "es = here @ there"
    by auto
  show ?case
  proof (cases "e \<in> set here")
    case True
    from concat_results_member [OF here this] Cons.prems(3,4) protocol_entries_sound show ?thesis by fastforce
  qed (use Cons there es in auto)
qed simp

lemma review_duplicate_ready:
  assumes "ready (review_duplicate ids e)"
  shows "review_duplicate ids e = e \<and> \<not> 1 < count_list ids (identity e)"
  using assms by (auto simp: review_duplicate_def ready_def split: if_splits)

lemma review_duplicate_identity [simp]: "identity (review_duplicate ids e) = identity e"
  by (simp add: review_duplicate_def)

text \<open>
  C28: an entry a plan marks ready is a withdrawal of one of the given wallets that the encoder
  accepts for that wallet, on a supported network that is not excluded, with known output
  tokens and the digest of its identity and action as its id; no other entry of the plan has
  the same position.
\<close>

theorem planned_exits_sound:
  assumes "create_defi_plan env rabby supported wallets s = (Inr (entries, p), t)"
    and "e \<in> set entries" "ready e"
  shows "exit_ready env supported wallets e \<and> count_list (map identity entries) (identity e) = 1"
proof -
  obtain networks u found where found: "wallet_entries env rabby supported networks wallets u = (Inr found, t)"
    and entries: "entries = map (review_duplicate (map identity found)) found"
    using assms(1) by (auto simp: create_defi_plan_def Let_def)
  then obtain f where f: "f \<in> set found" "e = review_duplicate (map identity found) f"
    using assms(2) by auto
  then have e: "e = f" "\<not> 1 < count_list (map identity found) (identity e)"
    using review_duplicate_ready [of "map identity found" f] assms(3) by auto
  have "map identity entries = map identity found" by (simp add: entries)
  moreover have "count_list (map identity found) (identity e) \<noteq> 0"
    using f(1) e(1) by (simp add: count_list_0_iff)
  ultimately show ?thesis
    using e f(1) wallet_entries_sound [OF found] assms(3) by simp
qed

definition sample_position :: pyval where
  "sample_position = PDict [(''pool'', PDict [(''id'', PStr ''pool'')]),
     (''stats'', PDict [(''net_usd_value'', PInt 7), (''debt_usd_value'', PInt 0)]),
     (''detail'', PDict [(''supply_token_list'', PList [PDict [(''id'', PStr ''eth'')]])]),
     (''withdraw_actions'', PList [PDict (sample_exit sample_holder ''25'')])]"

definition sample_portfolio :: "unit portfolio" where
  "sample_portfolio = \<lparr>pf_chain_ids = give [(''op'', 10)],
     pf_positions = (\<lambda>_. give [PDict [(''id'', PStr ''vault''), (''chain'', PStr ''op''),
       (''portfolio_item_list'', PList [sample_position])]])\<rparr>"

definition sample_defi_env :: defi_env where
  "sample_defi_env = \<lparr>df_abi = sample_codec, df_digest = (\<lambda>_. replicate 64 (CHR ''a'')), df_now = 5\<rparr>"

lemma planned_exits_sound_witness:
  "\<exists>entries p. fst (create_defi_plan sample_defi_env sample_portfolio [10] [sample_holder] ()) = Inr (entries, p)
     \<and> (\<exists>e \<in> set entries. exit_ready sample_defi_env [10] [sample_holder] e)"
proof -
  let ?run = "create_defi_plan sample_defi_env sample_portfolio [10] [sample_holder] ()"
  have "case fst ?run of Inr (e # es, _) \<Rightarrow> ready e | _ \<Rightarrow> False" by code_simp
  then obtain e es p t where "?run = (Inr (e # es, p), t)" "ready e"
    by (auto split: sum.splits list.splits prod.splits simp: fst_def)
  from planned_exits_sound [OF this(1) _ this(2)] this(1) show ?thesis by auto
qed

text \<open>
  The debt is read again as \<open>item.get("stats", {}).get(...)\<close>: a position whose \<open>stats\<close> is null,
  which the entry's own fields allow for, ends the whole plan with an \<open>AttributeError\<close>.
\<close>

definition null_stats_position :: pydict where
  "null_stats_position = [(''pool'', PDict [(''id'', PStr ''pool'')]), (''stats'', PNone)]"

definition sample_place :: defi_place where
  "sample_place = \<lparr>pl_wallet = sample_holder, pl_protocol = [], pl_id = ''vault'', pl_chain = ''op'',
     pl_chain_id = Some 10\<rparr>"

lemma null_stats_raises:
  "\<not> isl (blank_entry sample_place null_stats_position)"
  "defi_entry sample_defi_env [10] sample_place null_stats_position = Inl attribute_error"
  by code_simp+

end
