(* ===== verification/Defi_Execution.thy ===== *)
theory Defi_Execution
  imports Defi_Plan Executor_Facts
begin

text \<open>
  Execution of one reviewed withdrawal (\<open>defi_execution.py\<close>): the preflight, the durable
  submission, the verification of what arrived, and the whole handler. The world is the
  executor's state with the journal, and the state of the portfolio client. The JSON writer,
  the diagnostics of exceptions, the decoder of token symbols, the topic of transfers, the lock
  of the database and the time a call takes are parameters.
\<close>

section \<open>World and parameters\<close>

record 'r defi_world =
  dw_exec :: "journal exec"
  dw_rabby :: 'r

record 'r defi_run =
  dr_env :: defi_env
  dr_reader :: plan_reader
  dr_rabby :: "'r portfolio"
  dr_rpc :: broadcaster
  dr_url :: string
  dr_fee :: fee_env
  dr_crypto :: crypto
  dr_limit :: "string option"
  dr_deadline :: "deadline option"
  dr_took :: "request list \<Rightarrow> rat"
  dr_locked :: bool
  dr_topic :: string
  dr_symbol :: "string \<Rightarrow> string option"
  dr_dumps :: "pyval \<Rightarrow> string"
  dr_detail :: "exn \<Rightarrow> pyval"

definition on_exec :: "(journal exec, 'a) action \<Rightarrow> ('r defi_world, 'a) action" where
  "on_exec m w = (case m (dw_exec w) of (r, x) \<Rightarrow> (r, w\<lparr>dw_exec := x\<rparr>))"

definition on_rabby :: "('r, 'a) action \<Rightarrow> ('r defi_world, 'a) action" where
  "on_rabby m w = (case m (dw_rabby w) of (r, x) \<Rightarrow> (r, w\<lparr>dw_rabby := x\<rparr>))"

definition on_log :: "(request list, 'a) action \<Rightarrow> (journal exec, 'a) action" where
  "on_log m s = (case m (x_sent s) of (r, sent) \<Rightarrow> (r, s\<lparr>x_sent := sent\<rparr>))"

definition rpc :: "'r defi_run \<Rightarrow> string \<Rightarrow> pyval list \<Rightarrow> (journal exec, pyval) action" where
  "rpc run meth params = call_rpc (dr_rpc run) (dr_url run) meth params"

definition rpc_quantity_of :: "'r defi_run \<Rightarrow> string \<Rightarrow> pyval list \<Rightarrow> (journal exec, int) action" where
  "rpc_quantity_of run meth params = bind_act (rpc run meth params) (\<lambda>v. lift (quantity v))"

definition plan_fees ::
  "'r defi_run \<Rightarrow> tx_request \<Rightarrow> string \<Rightarrow> int option \<Rightarrow> (journal exec, tx_request) action" where
  "plan_fees run t sender cap =
     on_log (plan (dr_fee run) (dr_rpc run) default_fee_policy (dr_url run) t sender cap None)"

text \<open>
  The default wait: 600 seconds with a poll every 10. A wait ends (\<open>wait_settles\<close>), so the
  last case does not occur.
\<close>

definition await :: "'r defi_run \<Rightarrow> string \<Rightarrow> (journal exec, pyval) action" where
  "await run h s =
     (case wait_for_receipt (dr_rpc run) (dr_took run) (dr_deadline run) (dr_url run) h 600 10 s of
        Some outcome \<Rightarrow> outcome | None \<Rightarrow> (Inl AssertionError, s))"

definition receipt_for :: "'r defi_run \<Rightarrow> string \<Rightarrow> (journal exec, pydict) action" where
  "receipt_for run h = bind_act (await run h) (\<lambda>v. lift (as_dict v))"

definition native_balance_of :: "'r defi_run \<Rightarrow> string \<Rightarrow> (journal exec, int) action" where
  "native_balance_of run wallet = rpc_quantity_of run ''eth_getBalance'' [PStr wallet, PStr ''latest'']"

section \<open>Preflight\<close>

record prepared_exit =
  pe_entry :: pydict
  pe_request :: tx_request
  pe_action :: encoded_action
  pe_gas :: int

definition check_allowance :: "'r defi_run \<Rightarrow> encoded_action \<Rightarrow> string \<Rightarrow> (journal exec, unit) action" where
  "check_allowance run action wallet = (case ea_token action of
      None \<Rightarrow> give ()
    | Some token \<Rightarrow>
        bind_act (token_allowance (dr_rpc run) (dr_url run) token wallet
            (case ea_spender action of Some s \<Rightarrow> s | None \<Rightarrow> [])) (\<lambda>allowance.
        if allowance < ea_amount action
        then throw (ValueError ''DeFi action needs a separate approval before withdrawal'')
        else give ()))"

text \<open>The matching entry of a fresh plan, unchanged since the review.\<close>

definition current_entry :: "string \<Rightarrow> int \<Rightarrow> pydict \<Rightarrow> pydict list \<Rightarrow> pydict result" where
  "current_entry i chain entry fresh =
     (case filter (\<lambda>r. get r ''action_id'' = PStr i) fresh of
        [current] \<Rightarrow>
          if get current ''status'' \<noteq> PStr ''ready''
          then Inl (ValueError ''Rabby withdrawal action changed or disappeared'')
          else if get current ''chain_id'' \<noteq> PInt chain
            \<or> \<not> py_eq (get current ''action'') (get entry ''action'')
          then Inl (ValueError ''Rabby withdrawal action changed'')
          else Inr current
      | _ \<Rightarrow> Inl (ValueError ''Rabby withdrawal action changed or disappeared''))"

definition preflight ::
  "'r defi_run \<Rightarrow> string \<Rightarrow> int \<Rightarrow> int \<Rightarrow> pydict \<Rightarrow> encoded_action \<Rightarrow> (journal exec, prepared_exit) action" where
  "preflight run wallet chain max_gas current action =
     bind_act (rpc_quantity_of run ''eth_chainId'' []) (\<lambda>actual.
     if actual \<noteq> chain then throw (ValueError ''RPC chain does not match DeFi action chain'')
     else bind_act (check_allowance run action wallet) (\<lambda>_.
     bind_act (plan_fees run (unsigned_request chain (ea_to action) (ea_data action) 0) wallet (Some max_gas)) (\<lambda>t.
     bind_act (rpc run ''eth_call'' [PDict [(''from'', PStr wallet), (''to'', PStr (t_to t)),
         (''data'', PStr (t_data t)), (''value'', PStr ''0x0'')], PStr ''latest'']) (\<lambda>_.
     bind_act (lift (max_total_fee t)) (\<lambda>gas.
     bind_act (native_balance_of run wallet) (\<lambda>balance.
     bind_act (lift (require_native_reserve balance gas gas_reserve_multiplier)) (\<lambda>_.
     if \<not> py_truthy (get current ''output_token_ids'')
     then throw (ValueError ''no verifiable withdrawal output token'')
     else give \<lparr>pe_entry = current, pe_request = t, pe_action = action, pe_gas = gas\<rparr>)))))))"

definition planned_chain :: "pydict \<Rightarrow> int result" where
  "planned_chain entry = (case get entry ''chain_id'' of
      PInt c \<Rightarrow> if 0 < c then Inr c else Inl (ValueError ''invalid planned chain'')
    | _ \<Rightarrow> Inl (ValueError ''invalid planned chain''))"

definition prepare_defi_action ::
  "'r defi_run \<Rightarrow> plan_choice \<Rightarrow> int \<Rightarrow> ('r defi_world, prepared_exit) action" where
  "prepare_defi_action run ch max_gas =
     bind_act (lift (select_reviewed_action (dr_reader run) ch (df_now (dr_env run)) False)) (\<lambda>entry.
     if max_gas \<le> 0 then throw (ValueError ''invalid gas cap'')
     else bind_act (lift (planned_chain entry)) (\<lambda>chain.
     bind_act (on_rabby (create_defi_plan (dr_env run) (dr_rabby run) [chain] [pc_wallet ch])) (\<lambda>(fresh, _).
     bind_act (lift (current_entry (pc_action ch) chain entry fresh)) (\<lambda>current.
     bind_act (lift (encode_action (df_abi (dr_env run)) (get current ''action'') (pc_wallet ch)
         (df_now (dr_env run)))) (\<lambda>action.
     on_exec (preflight run (pc_wallet ch) chain max_gas current action))))))"

section \<open>Fees in the result\<close>

definition truthy_text :: "int option \<Rightarrow> pyval" where
  "truthy_text i = (case i of None \<Rightarrow> PNone | Some n \<Rightarrow> if n = 0 then PNone else PStr (int_text n))"

definition some_text :: "int option \<Rightarrow> pyval" where
  "some_text i = (case i of None \<Rightarrow> PNone | Some n \<Rightarrow> PStr (int_text n))"

definition optional_text :: "string option \<Rightarrow> pyval" where
  "optional_text s = (case s of None \<Rightarrow> PNone | Some t \<Rightarrow> PStr t)"

text \<open>The gas a receipt names: what was used, its price, and the first layer's fee.\<close>

definition receipt_fee :: "pydict option \<Rightarrow> (int option \<times> (int \<times> int) option) result" where
  "receipt_fee receipt = (case receipt of
      None \<Rightarrow> Inr (None, None)
    | Some r \<Rightarrow>
        if get r ''gasUsed'' = PNone then Inr (None, None)
        else bind_result (quantity (get r ''gasUsed'')) (\<lambda>used.
          if get r ''effectiveGasPrice'' = PNone then Inr (Some used, None)
          else bind_result (quantity (get r ''effectiveGasPrice'')) (\<lambda>price.
          bind_result (if get r ''l1Fee'' = PNone then Inr 0 else quantity (get r ''l1Fee'')) (\<lambda>l1.
          Inr (Some used, Some (price, l1))))))"

definition request_fee :: "tx_request option \<Rightarrow> pydict result" where
  "request_fee request = (case request of
      None \<Rightarrow> Inr (map (\<lambda>k. (k, PNone)) [''gas_estimate'', ''gas_limit'', ''gas_price_wei'',
        ''max_fee_per_gas_wei'', ''max_priority_fee_per_gas_wei'', ''base_fee_per_gas_wei'',
        ''additional_fee_wei'', ''estimated_max_total_fee_wei'', ''fee_cap_wei'', ''quote_method'',
        ''quote_fallback_reason'', ''quote_block_number''])
    | Some t \<Rightarrow> bind_result (max_total_fee t) (\<lambda>total.
        Inr [(''gas_estimate'', optional_int (t_estimate t)), (''gas_limit'', PInt (t_gas t)),
          (''gas_price_wei'', truthy_text (t_gas_price t)), (''max_fee_per_gas_wei'', some_text (t_max_fee t)),
          (''max_priority_fee_per_gas_wei'', some_text (t_priority t)),
          (''base_fee_per_gas_wei'', some_text (t_base_fee t)),
          (''additional_fee_wei'', PStr (int_text (t_additional t))),
          (''estimated_max_total_fee_wei'', PStr (int_text total)), (''fee_cap_wei'', truthy_text (t_cap t)),
          (''quote_method'', optional_text (t_method t)), (''quote_fallback_reason'', optional_text (t_fallback t)),
          (''quote_block_number'', optional_int (t_block t))]))"

definition fee_quote_detail :: "tx_request option \<Rightarrow> pydict option \<Rightarrow> pyval result" where
  "fee_quote_detail request receipt =
     bind_result (receipt_fee receipt) (\<lambda>(used, priced).
     bind_result (request_fee request) (\<lambda>planned.
     Inr (PDict (planned @
       [(''actual_gas_used'', optional_int used),
        (''actual_effective_gas_price_wei'', some_text (map_option fst priced)),
        (''actual_l1_fee_wei'', some_text (map_option snd priced)),
        (''actual_total_fee_wei'', some_text (case (used, priced) of
           (Some u, Some (p, l)) \<Rightarrow> Some (u * p + l) | _ \<Rightarrow> None))]))))"

section \<open>What arrived\<close>

definition asset_balance :: "'r defi_run \<Rightarrow> string \<Rightarrow> string \<Rightarrow> int \<Rightarrow> (journal exec, int) action" where
  "asset_balance run wallet token blk =
     (if token = ''eth'' then rpc_quantity_of run ''eth_getBalance'' [PStr wallet, PStr (py_hex blk)]
      else bind_act (lift (balance_of_data wallet)) (\<lambda>data.
        bind_act (rpc run ''eth_call'' (eth_call token data blk)) (\<lambda>v. lift (uint256 v))))"

definition printable :: "string \<Rightarrow> bool" where
  "printable s \<longleftrightarrow> list_all (\<lambda>c. 32 \<le> code_of c \<and> code_of c \<le> 126) s"

definition scaled_amount :: "int \<Rightarrow> nat \<Rightarrow> string result" where
  "scaled_amount raw decimals =
     bind_result (dec_div default_prec (dec_of_int raw) (dec_of_int (10 ^ decimals))) (\<lambda>d. Inr (format_f d))"

text \<open>The failures a missing part of the metadata may have.\<close>

definition unreadable :: "exn \<Rightarrow> bool" where
  "unreadable e \<longleftrightarrow> is_request_error e \<or> is_value_error e \<or> e = TypeError"

definition amount_metadata :: "'r defi_run \<Rightarrow> string \<Rightarrow> int \<Rightarrow> int \<Rightarrow> (journal exec, pydict) action" where
  "amount_metadata run token blk raw =
     handle (bind_act (rpc run ''eth_call'' (eth_call token ''0x313ce567'' blk)) (\<lambda>v.
       bind_act (lift (uint256 v)) (\<lambda>decimals.
       if decimals \<le> 36
       then bind_act (lift (scaled_amount raw (nat decimals))) (\<lambda>t. give [(''amount'', PStr t)])
       else give [])))
     (\<lambda>e. if unreadable e then give [] else throw e)"

definition symbol_metadata :: "'r defi_run \<Rightarrow> string \<Rightarrow> int \<Rightarrow> (journal exec, pydict) action" where
  "symbol_metadata run token blk =
     handle (bind_act (rpc run ''eth_call'' (eth_call token ''0x95d89b41'' blk)) (\<lambda>v. case v of
         PStr s \<Rightarrow> if starts_with ''0x'' s
           then (case dr_symbol run (drop 2 s) of
               Some symbol \<Rightarrow> give (if symbol \<noteq> [] \<and> length symbol \<le> 32 \<and> printable symbol
                 then [(''symbol'', PStr symbol)] else [])
             | None \<Rightarrow> give [])
           else give []
       | _ \<Rightarrow> give []))
     (\<lambda>e. if unreadable e then give [] else throw e)"

definition asset_metadata :: "'r defi_run \<Rightarrow> string \<Rightarrow> int \<Rightarrow> int \<Rightarrow> (journal exec, pydict) action" where
  "asset_metadata run token blk raw =
     (if token = ''eth''
      then bind_act (lift (scaled_amount raw 18)) (\<lambda>t. give [(''amount'', PStr t), (''symbol'', PStr ''ETH'')])
      else bind_act (amount_metadata run token blk raw) (\<lambda>a.
        bind_act (symbol_metadata run token blk) (\<lambda>s. give (a @ s))))"

definition topic_at :: "pyval list \<Rightarrow> nat \<Rightarrow> string" where
  "topic_at topics i = lower (py_str (topics ! i))"

text \<open>What one log of a receipt moves to the wallet, less what it moves away.\<close>

definition log_flow :: "string \<Rightarrow> string \<Rightarrow> string \<Rightarrow> pyval \<Rightarrow> int result" where
  "log_flow topic wallet token event = (case event of
      PDict d \<Rightarrow>
        if lower (py_str (get_default d ''address'' (PStr []))) \<noteq> token then Inr 0
        else (case get d ''topics'' of
            PList topics \<Rightarrow>
              if length topics \<noteq> 3 \<or> topic_at topics 0 \<noteq> topic then Inr 0
              else bind_result (uint256 (get d ''data'')) (\<lambda>amount.
                let self = ''0x'' @ rjust0 64 (drop 2 wallet) in
                Inr ((if topic_at topics 2 = self then amount else 0)
                  - (if topic_at topics 1 = self then amount else 0)))
          | _ \<Rightarrow> Inr 0)
    | _ \<Rightarrow> Inr 0)"

definition receipt_token_flow :: "string \<Rightarrow> pydict \<Rightarrow> string \<Rightarrow> string \<Rightarrow> int result" where
  "receipt_token_flow topic receipt wallet token = (case get receipt ''logs'' of
      PList logs \<Rightarrow> bind_result (map_results (log_flow topic wallet token) logs) (\<lambda>flows. Inr (sum_list flows))
    | _ \<Rightarrow> Inl (ValueError ''transaction receipt has no logs''))"

text \<open>The native gain adds back what the transaction itself took from the wallet.\<close>

definition spent_by_transaction :: "'r defi_run \<Rightarrow> pydict \<Rightarrow> string \<Rightarrow> string \<Rightarrow> (journal exec, int) action" where
  "spent_by_transaction run receipt wallet tx_hash =
     bind_act (rpc run ''eth_getTransactionByHash'' [PStr tx_hash]) (\<lambda>v. case v of
       PDict tx \<Rightarrow>
         if lower (py_str (get_default tx ''from'' (PStr []))) \<noteq> wallet
         then throw (ValueError ''native output transaction sender mismatch'')
         else bind_act (lift (quantity (get receipt ''gasUsed''))) (\<lambda>used.
           bind_act (lift (quantity (get receipt ''effectiveGasPrice''))) (\<lambda>price.
           bind_act (lift (if py_truthy (get receipt ''l1Fee'') then quantity (get receipt ''l1Fee'') else Inr 0)) (\<lambda>l1.
           bind_act (lift (quantity (get tx ''value''))) (\<lambda>sent. give (used * price + l1 + sent)))))
     | _ \<Rightarrow> throw (ValueError ''native output transaction sender mismatch''))"

datatype output_check = Received pydict | Unverified string pyval

definition balances_detail :: "string \<Rightarrow> int \<Rightarrow> int \<Rightarrow> string \<Rightarrow> int \<Rightarrow> pyval" where
  "balances_detail token earlier after key n =
     PDict [(''token_id'', PStr token), (''balance_before_raw'', PStr (int_text earlier)),
       (''balance_after_raw'', PStr (int_text after)), (key, PStr (int_text n))]"

definition check_output ::
  "'r defi_run \<Rightarrow> pydict \<Rightarrow> string \<Rightarrow> string \<Rightarrow> int \<Rightarrow> string \<Rightarrow> (journal exec, output_check) action" where
  "check_output run receipt wallet tx_hash blk token =
     bind_act (asset_balance run wallet token (blk - 1)) (\<lambda>earlier.
     bind_act (asset_balance run wallet token blk) (\<lambda>after.
     bind_act (if token = ''eth''
       then bind_act (spent_by_transaction run receipt wallet tx_hash) (\<lambda>spent. give (after - earlier + spent, None))
       else bind_act (lift (receipt_token_flow (dr_topic run) receipt wallet token)) (\<lambda>flow.
         give (after - earlier, if after - earlier \<noteq> flow then Some flow else None))) (\<lambda>(gain, mismatch).
     case mismatch of
       Some flow \<Rightarrow> give (Unverified ''output_balance_receipt_mismatch''
         (balances_detail token earlier after ''receipt_flow_raw'' flow))
     | None \<Rightarrow>
         if gain \<le> 0
         then give (Unverified ''output_not_received''
           (balances_detail token earlier after ''adjusted_gain_raw'' gain))
         else bind_act (asset_metadata run token blk gain) (\<lambda>m.
           give (Received (put m [(''token_id'', PStr token), (''raw'', PStr (int_text gain))]))))))"

definition review_result :: "'r defi_run \<Rightarrow> pydict \<Rightarrow> string \<Rightarrow> string \<Rightarrow> pydict" where
  "review_result run result why detail =
     put [(''status'', PStr ''manual_review''), (''reason'', PStr why), (''verification_detail'', PStr detail)] result"

text \<open>The tokens left and what arrived so far; the first token that fails ends the loop.\<close>

fun check_outputs ::
  "'r defi_run \<Rightarrow> pydict \<Rightarrow> string \<Rightarrow> string \<Rightarrow> int \<Rightarrow> pydict \<Rightarrow> pyval list \<Rightarrow> pydict list
     \<Rightarrow> (journal exec, pydict + pydict list) action" where
  "check_outputs run receipt wallet tx_hash blk result [] got = give (Inr got)"
| "check_outputs run receipt wallet tx_hash blk result (t # ts) got = (case t of
      PStr token \<Rightarrow> bind_act (check_output run receipt wallet tx_hash blk (lower token)) (\<lambda>c. case c of
          Unverified why detail \<Rightarrow> give (Inl (review_result run result why (dr_dumps run detail)))
        | Received asset \<Rightarrow> check_outputs run receipt wallet tx_hash blk result ts (got @ [asset]))
    | _ \<Rightarrow> throw (ValueError ''invalid output token''))"

definition withdrawn :: "pydict \<Rightarrow> pydict list \<Rightarrow> pydict" where
  "withdrawn result got =
     (let whole = put [(''status'', PStr ''withdrawn''), (''received_assets'', PList (map PDict got))] result in
      case got of
        [asset] \<Rightarrow> put [(''received_token_id'', get asset ''token_id''), (''received_raw'', get asset ''raw'')] whole
      | _ \<Rightarrow> whole)"

definition unavailable :: "exn \<Rightarrow> bool" where
  "unavailable e \<longleftrightarrow> e = KeyError \<or> unreadable e"

definition verify_outputs ::
  "'r defi_run \<Rightarrow> pydict \<Rightarrow> string \<Rightarrow> pydict \<Rightarrow> pydict \<Rightarrow> (journal exec, pydict + pydict list) action" where
  "verify_outputs run entry tx_hash receipt result =
     bind_act (lift (quantity (get receipt ''blockNumber''))) (\<lambda>blk.
     bind_act (lift (quantity (get receipt ''status''))) (\<lambda>status.
     case (get entry ''output_token_ids'', get entry ''wallet'') of
       (PList tokens, PStr wallet) \<Rightarrow>
         if status \<noteq> 1 \<or> blk < 1 \<or> tokens = []
         then throw (ValueError ''invalid withdrawal verification input'')
         else check_outputs run receipt (lower wallet) tx_hash blk result tokens []
     | _ \<Rightarrow> throw (ValueError ''invalid withdrawal verification input'')))"

definition withdrawal_result ::
  "'r defi_run \<Rightarrow> pydict \<Rightarrow> string \<Rightarrow> string \<Rightarrow> pydict \<Rightarrow> (journal exec, pydict) action" where
  "withdrawal_result run entry i tx_hash receipt =
     (let result = [(''action_id'', PStr i), (''tx_hash'', PStr tx_hash)] in
      bind_act (handle (verify_outputs run entry tx_hash receipt result)
        (\<lambda>e. if unavailable e
          then give (Inl (review_result run result ''output_balance_unavailable'' (dr_dumps run (dr_detail run e))))
          else throw e)) (\<lambda>outcome.
      give (case outcome of Inl review \<Rightarrow> review | Inr got \<Rightarrow> withdrawn result got)))"

section \<open>Submission\<close>

record wallet_row =
  wr_key :: string
  wr_address :: string

definition defi_step :: string where
  "defi_step = ''defi_withdraw''"

definition unresolved_intent :: exn where
  "unresolved_intent = ValueError ''unresolved prior DeFi intent; inspect journal before retrying''"

definition latest_of :: "nat \<Rightarrow> string \<Rightarrow> (journal exec, step_row option) action" where
  "latest_of pid key s = (Inr (latest_step (x_journal s) pid key), s)"

definition sign_and_send ::
  "'r defi_run \<Rightarrow> tx_request \<Rightarrow> wallet_row \<Rightarrow> nat \<Rightarrow> string \<Rightarrow> (journal exec, string \<times> tx_request) action" where
  "sign_and_send run t row pid key =
     bind_act (pending_nonce (dr_rpc run) (dr_url run) (wr_address row)) (\<lambda>nonce.
     bind_act (lift (sign_transaction (dr_crypto run) t (wr_key row) (wr_address row) nonce)) (\<lambda>raw.
     bind_act (lift (signed_transaction_hash (dr_crypto run) raw)) (\<lambda>h.
     bind_act (broadcast_durable_transaction journal_ops (dr_crypto run) (dr_rpc run) pid key nonce
         \<lparr>so_url = dr_url run, so_calldata = t_data t, so_signed = raw, so_hash = h,
          so_baseline = None, so_delta = None\<rparr>) (\<lambda>observed. case observed of
       None \<Rightarrow> throw (AmbiguousBroadcast h)
     | Some seen \<Rightarrow> bind_act (await run seen) (\<lambda>_. give (seen, t))))))"

definition submit_durable ::
  "'r defi_run \<Rightarrow> tx_request \<Rightarrow> wallet_row \<Rightarrow> nat \<Rightarrow> string \<Rightarrow> (journal exec, string \<times> tx_request) action" where
  "submit_durable run t row pid key =
     bind_act (recover_durable_broadcast journal_ops (dr_rpc run) (dr_url run) pid key) (\<lambda>recovered.
     case recovered of
       Some h \<Rightarrow> bind_act (await run h) (\<lambda>_. give (h, t))
     | None \<Rightarrow>
         bind_act (latest_of pid key) (\<lambda>earlier.
         if earlier \<noteq> None then throw unresolved_intent
         else bind_act (plan_fees run t (wr_address row) None) (\<lambda>p.
         bind_act (native_balance_of run (wr_address row)) (\<lambda>balance.
         bind_act (lift (max_total_fee p)) (\<lambda>gas.
         bind_act (lift (require_native_reserve balance gas gas_reserve_multiplier)) (\<lambda>_.
         bind_act (require_ethereum_gas_below_limit (dr_rpc run) (dr_limit run) (dr_url run) p) (\<lambda>_.
         sign_and_send run p row pid key)))))))"

definition record_defi_receipt :: "nat \<Rightarrow> pydict \<Rightarrow> (journal exec, unit) action" where
  "record_defi_receipt sid receipt =
     bind_act (lift (if get receipt ''blockNumber'' = PNone then Inr None
       else bind_result (quantity (get receipt ''blockNumber'')) (\<lambda>n. Inr (Some n)))) (\<lambda>finality.
     write_journal (record_receipt sid ''confirmed'' finality))"

section \<open>The handler\<close>

definition settle_exit ::
  "'r defi_run \<Rightarrow> pydict \<Rightarrow> string \<Rightarrow> nat \<Rightarrow> string \<Rightarrow> pydict \<Rightarrow> tx_request option \<Rightarrow> (journal exec, pydict) action" where
  "settle_exit run entry i sid tx_hash receipt request =
     bind_act (record_defi_receipt sid receipt) (\<lambda>_.
     bind_act (withdrawal_result run entry i tx_hash receipt) (\<lambda>result.
     bind_act (lift (fee_quote_detail request (Some receipt))) (\<lambda>fees.
     give (put [(''fee_quote'', fees)] result))))"

text \<open>A recorded broadcast is observed, and its outcome recorded; nothing is signed.\<close>

definition observe_exit ::
  "'r defi_run \<Rightarrow> pydict \<Rightarrow> string \<Rightarrow> nat \<Rightarrow> step_row \<Rightarrow> (journal exec, pydict) action" where
  "observe_exit run entry i pid r =
     bind_act (recover_durable_broadcast journal_ops (dr_rpc run) (dr_url run) pid defi_step) (\<lambda>recovered.
     case recovered of
       None \<Rightarrow> throw AssertionError
     | Some h \<Rightarrow> bind_act (receipt_for run h) (\<lambda>receipt.
         settle_exit run entry i (s_id r) h receipt None))"

definition submit_exit ::
  "'r defi_run \<Rightarrow> pydict \<Rightarrow> string \<Rightarrow> wallet_row \<Rightarrow> nat \<Rightarrow> prepared_exit \<Rightarrow> (journal exec, pydict) action" where
  "submit_exit run entry i row pid prepared =
     bind_act (submit_durable run (pe_request prepared) row pid defi_step) (\<lambda>(h, submitted).
     bind_act (receipt_for run h) (\<lambda>receipt.
     bind_act (latest_of pid defi_step) (\<lambda>r. case r of
       None \<Rightarrow> throw AssertionError
     | Some saved \<Rightarrow> settle_exit run entry i (s_id saved) h receipt (Some submitted))))"

definition preview_exit :: "'r defi_run \<Rightarrow> plan_choice \<Rightarrow> int \<Rightarrow> ('r defi_world, pydict) action" where
  "preview_exit run ch max_gas =
     bind_act (prepare_defi_action run ch max_gas) (\<lambda>prepared.
     bind_act (lift (fee_quote_detail (Some (pe_request prepared)) None)) (\<lambda>fees.
     give [(''status'', PStr ''preview''), (''action_id'', PStr (pc_action ch)),
       (''approval_required'', PBool False), (''estimated_gas_wei'', PInt (pe_gas prepared)),
       (''fee_quote'', fees), (''contract'', PStr (ea_to (pe_action prepared)))]))"

definition exit_key :: "plan_choice \<Rightarrow> string" where
  "exit_key ch = ''defi:'' @ pc_wallet ch @ '':'' @ pc_action ch"

definition continue_exit ::
  "'r defi_run \<Rightarrow> plan_choice \<Rightarrow> wallet_row \<Rightarrow> int \<Rightarrow> pydict \<Rightarrow> nat \<Rightarrow> step_row option \<Rightarrow> ('r defi_world, pydict) action" where
  "continue_exit run ch row max_gas selected pid existing = (case existing of
       Some r \<Rightarrow>
         if \<not> tx_present r then throw unresolved_intent
         else on_exec (observe_exit run selected (pc_action ch) pid r)
     | None \<Rightarrow>
         bind_act (prepare_defi_action run ch max_gas) (\<lambda>prepared.
         bind_act (lift (item (PDict selected) ''chain_id'')) (\<lambda>chain.
         if \<not> py_eq chain (get (pe_entry prepared) ''chain_id'') then throw (ValueError ''DeFi chain changed'')
         else on_exec (submit_exit run selected (pc_action ch) row pid prepared))))"

definition run_exit ::
  "'r defi_run \<Rightarrow> plan_choice \<Rightarrow> wallet_row \<Rightarrow> int \<Rightarrow> pydict \<Rightarrow> ('r defi_world, pydict) action" where
  "run_exit run ch row max_gas selected =
     bind_act (on_exec (use_journal (get_or_create_position (exit_key ch) (pc_wallet ch) None None None))) (\<lambda>p.
     bind_act (on_exec (latest_of (p_id p) defi_step)) (\<lambda>existing.
     continue_exit run ch row max_gas selected (p_id p) existing))"

definition execute_defi_action ::
  "'r defi_run \<Rightarrow> plan_choice \<Rightarrow> wallet_row \<Rightarrow> int \<Rightarrow> bool \<Rightarrow> ('r defi_world, pydict) action" where
  "execute_defi_action run choice row max_gas execute =
     (let ch = choice\<lparr>pc_wallet := lower (wr_address row)\<rparr> in
      bind_act (lift (select_reviewed_action (dr_reader run) ch (df_now (dr_env run)) execute)) (\<lambda>selected.
      if \<not> execute then preview_exit run ch max_gas
      else if dr_locked run then throw (ValueError ''inventory database is in use by another writer'')
      else run_exit run ch row max_gas selected))"

end
