(* ===== verification/Action_Frames.thy ===== *)
theory Action_Frames
  imports Fee_Planner
begin

text \<open>
  What an operation leaves alone: a frame is a preorder of states that every combinator of
  actions keeps, so that a whole operation keeps it as soon as its parts do.
\<close>

named_theorems quiet \<open>actions that keep a relation\<close>

locale action_frame =
  fixes R :: "'s \<Rightarrow> 's \<Rightarrow> bool"
  assumes same: "R s s"
    and trans: "R s t \<Longrightarrow> R t u \<Longrightarrow> R s u"
begin

lemma keeps_pure_all [quiet]: "keeps R (lift x)" "keeps R (give y)" "keeps R (throw e)"
  by (rule keeps_pure, rule same)+

lemma keeps_bind_act [quiet]:
  "keeps R m \<Longrightarrow> (\<And>x. keeps R (f x)) \<Longrightarrow> keeps R (bind_act m f)"
  by (rule keeps_bind) (auto intro: trans)

lemma keeps_handled [quiet]: "keeps R m \<Longrightarrow> (\<And>e. keeps R (h e)) \<Longrightarrow> keeps R (handle m h)"
  by (rule keeps_handle) (auto intro: trans)

lemma keeps_guarded [quiet]: "keeps R m \<Longrightarrow> (\<And>e. keeps R (h e)) \<Longrightarrow> keeps R (guarded m h)"
  unfolding guarded_def by (intro keeps_handled) (auto intro: keeps_pure_all)

lemma keeps_if [quiet]: "keeps R m \<Longrightarrow> keeps R n \<Longrightarrow> keeps R (if b then m else n)"
  by simp

lemma keeps_option [quiet]:
  "keeps R m \<Longrightarrow> (\<And>x. keeps R (f x)) \<Longrightarrow> keeps R (case y of None \<Rightarrow> m | Some x \<Rightarrow> f x)"
  by (cases y) auto

lemma keeps_sum [quiet]:
  "(\<And>x. keeps R (f x)) \<Longrightarrow> (\<And>x. keeps R (g x)) \<Longrightarrow> keeps R (case y of Inl x \<Rightarrow> f x | Inr x \<Rightarrow> g x)"
  by (cases y) auto

lemma keeps_pair [quiet]: "(\<And>x y. keeps R (f x y)) \<Longrightarrow> keeps R (case p of (x, y) \<Rightarrow> f x y)"
  by (cases p) auto

lemma keeps_dict [quiet]:
  "(\<And>d. keeps R (f d)) \<Longrightarrow> keeps R m \<Longrightarrow> keeps R (case v of PDict d \<Rightarrow> f d | _ \<Rightarrow> m)"
  by (cases v) auto

lemma keeps_text [quiet]:
  "(\<And>d. keeps R (f d)) \<Longrightarrow> keeps R m \<Longrightarrow> keeps R (case v of PStr d \<Rightarrow> f d | _ \<Rightarrow> m)"
  by (cases v) auto

lemma keeps_items [quiet]:
  "(\<And>d. keeps R (f d)) \<Longrightarrow> keeps R m \<Longrightarrow> keeps R (case v of PList d \<Rightarrow> f d | _ \<Rightarrow> m)"
  by (cases v) auto

end

end
