(* ===== verification/Defi_Frames.thy ===== *)
theory Defi_Frames
  imports Defi_Execution Action_Frames
begin

text \<open>
  What the parts of an exit leave alone. Every call of the fee planner and of the executor's queries is a read: a
  relation of request logs that reads keep is kept by all of them, and they do not touch the
  journal. The relation \<open>same number of sends\<close> is an instance.
\<close>

section \<open>Reads\<close>

text \<open>The state of the executor and the world, as far as the log and the journal go.\<close>

definition same_journal :: "(request list \<Rightarrow> request list \<Rightarrow> bool) \<Rightarrow> journal exec \<Rightarrow> journal exec \<Rightarrow> bool" where
  "same_journal L s t \<longleftrightarrow> x_journal t = x_journal s \<and> L (x_sent s) (x_sent t)"

definition same_exec :: "(request list \<Rightarrow> request list \<Rightarrow> bool) \<Rightarrow> 'r defi_world \<Rightarrow> 'r defi_world \<Rightarrow> bool" where
  "same_exec L v w \<longleftrightarrow> same_journal L (dw_exec v) (dw_exec w)"

locale read_frame =
  fixes L :: "request list \<Rightarrow> request list \<Rightarrow> bool"
  assumes log_same: "L rs rs"
    and log_trans: "L rs ss \<Longrightarrow> L ss ts \<Longrightarrow> L rs ts"
    and log_read: "meth \<noteq> send_method \<Longrightarrow> L rs (rs @ [(url, meth, ps)])"

sublocale read_frame \<subseteq> lg: action_frame L
  by unfold_locales (auto intro: log_same log_trans)

sublocale read_frame \<subseteq> ex: action_frame "same_journal L"
  by unfold_locales (auto simp: same_journal_def intro: log_same log_trans)

sublocale read_frame \<subseteq> wo: action_frame "same_exec L"
  by unfold_locales (auto simp: same_exec_def intro: ex.same ex.trans)

context read_frame begin

lemma keeps_ask [quiet]: "meth \<noteq> send_method \<Longrightarrow> keeps L (ask fr url meth ps)"
  by (simp add: keeps_def ask_def log_read)

lemma keeps_prices [quiet]:
  "keeps L (legacy_price env fr url)" "keeps L (history_tip env fr pol url)"
  "keeps L (suggested_tip env fr pol url)"
  unfolding legacy_price_def history_tip_def suggested_tip_def
  by (intro quiet; simp add: send_method_def)+

lemma keeps_priority [quiet]: "keeps L (priority_fee env fr pol url)"
  unfolding priority_fee_def by (intro quiet)

lemma keeps_l1 [quiet]: "keeps L (op_stack_l1_fee env fr url t f)"
  unfolding op_stack_l1_fee_def op_l1_fee_def oracle_fee_def scroll_l1_fee_def
  by (intro quiet; simp add: send_method_def)

lemma keeps_gas [quiet]: "keeps L (estimate_gas env fr pol url t sender)"
  unfolding estimate_gas_def Let_def by (intro quiet; simp add: send_method_def)

lemma keeps_header [quiet]: "keeps L (latest_header fr url)"
  unfolding latest_header_def by (intro quiet; simp add: send_method_def)

lemma keeps_plan [quiet]: "keeps L (plan env fr pol url t sender cap old)"
  unfolding plan_def Let_def plan_legacy_def plan_market_def by (intro quiet)

text \<open>The executor's state\<close>

lemma keeps_call [quiet]: "meth \<noteq> send_method \<Longrightarrow> keeps (same_journal L) (call_rpc bc url meth ps)"
  by (simp add: keeps_def call_rpc_def same_journal_def log_read)

lemma keeps_rpc [quiet]: "meth \<noteq> send_method \<Longrightarrow> keeps (same_journal L) (rpc run meth ps)"
  unfolding rpc_def by (rule keeps_call)

lemma keeps_quantity [quiet]: "meth \<noteq> send_method \<Longrightarrow> keeps (same_journal L) (rpc_quantity_of run meth ps)"
  unfolding rpc_quantity_of_def by (intro quiet)

lemma keeps_on_log [quiet]: "keeps L m \<Longrightarrow> keeps (same_journal L) (on_log m)"
  by (auto simp: keeps_def on_log_def same_journal_def split: prod.split) (metis snd_conv)

lemma keeps_plan_fees [quiet]: "keeps (same_journal L) (plan_fees run t sender cap)"
  unfolding plan_fees_def by (intro quiet)

lemma keeps_probe [quiet]: "meth \<noteq> send_method \<Longrightarrow> keeps (same_journal L) (probe bc url meth e)"
  unfolding probe_def by (intro quiet)

lemma keeps_gas_guard [quiet]: "keeps (same_journal L) (require_ethereum_gas_below_limit bc env url t)"
  unfolding require_ethereum_gas_below_limit_def by (intro quiet; simp add: send_method_def)

lemma keeps_queries [quiet]:
  "keeps (same_journal L) (pending_nonce bc url wallet)"
  "keeps (same_journal L) (token_allowance bc url token owner spender)"
  "keeps (same_journal L) (native_balance_of run wallet)"
  "keeps (same_journal L) (latest_of pid key)"
  by (unfold pending_nonce_def token_allowance_def native_balance_of_def, (intro quiet; simp add: send_method_def)+)
    (simp add: keeps_def latest_of_def ex.same)

lemma keeps_recover [quiet]: "keeps (same_journal L) (recover_durable_broadcast ops bc url pid key)"
proof -
  have "keeps (same_journal L) (bind_act (call_rpc bc url ''eth_getTransactionByHash'' [PStr h])
      (\<lambda>v. if observed_hash v h then give (Some h) else throw (AmbiguousBroadcast h)))" for h
    by (intro quiet) (simp add: send_method_def)
  then show ?thesis
    by (auto simp: keeps_def recover_durable_broadcast_def Let_def ex.same split: option.split)
qed

lemma keeps_poll: "keeps (same_journal L) (poll_receipt bc took current url h)"
proof -
  have "L rs (rs @ [(url, ''eth_getTransactionReceipt'', [PStr h])])" for rs
    by (rule log_read) (simp add: send_method_def)
  then show ?thesis
    by (auto simp: keeps_def poll_receipt_def bind_act_def call_rpc_def same_journal_def log_same
        split: sum.split)
qed

lemma await_receipt_quiet:
  assumes "await_receipt bc took current url h limit gap s = Some y"
  shows "same_journal L s (snd y)"
  using assms
proof (induction rule: await_receipt.raw_induct [rotated, consumes 1, case_names 1])
  case (1 f bc took current url h limit gap s y)
  obtain r t where poll: "poll_receipt bc took current url h s = (r, t)" by fastforce
  then have st: "same_journal L s t" using keeps_poll unfolding keeps_def by (metis snd_conv)
  show ?case
  proof (cases "limit \<le> x_now s \<or> r \<noteq> Inr None")
    case True
    have "same_journal L s s" by (rule ex.same)
    then show ?thesis using True 1(2) poll st by (auto split: if_splits sum.splits option.splits)
  next
    case False
    then have open_wait: "\<not> limit \<le> x_now s" "r = Inr None" by auto
    from 1(2) [unfolded poll open_wait(2)] open_wait(1)
    have "f bc took current url h limit gap (t\<lparr>x_now := x_now t + gap\<rparr>) = Some y" by simp
    then have "same_journal L (t\<lparr>x_now := x_now t + gap\<rparr>) (snd y)" by (rule 1(1))
    then show ?thesis using st ex.trans [of s t "snd y"] by (simp add: same_journal_def)
  qed
qed

lemma keeps_await [quiet]: "keeps (same_journal L) (await run h)"
  using await_receipt_quiet
  by (auto simp: keeps_def await_def wait_for_receipt_def ex.same split: option.split)

lemma keeps_receipt_for [quiet]: "keeps (same_journal L) (receipt_for run h)"
  unfolding receipt_for_def by (intro quiet)

lemma keeps_preflight [quiet]: "keeps (same_journal L) (preflight run wallet chain gas current action)"
  unfolding preflight_def check_allowance_def Let_def by (intro quiet; simp add: send_method_def)

section \<open>Verification\<close>

lemma keeps_balance [quiet]: "keeps (same_journal L) (asset_balance run wallet token blk)"
  unfolding asset_balance_def by (intro quiet; simp add: send_method_def)

lemma keeps_metadata [quiet]: "keeps (same_journal L) (asset_metadata run token blk raw)"
  unfolding asset_metadata_def amount_metadata_def symbol_metadata_def
  by (intro quiet; simp add: send_method_def)

lemma keeps_check_output [quiet]: "keeps (same_journal L) (check_output run receipt wallet h blk token)"
  unfolding check_output_def spent_by_transaction_def by (intro quiet; simp add: send_method_def)

lemma keeps_check_outputs [quiet]:
  "keeps (same_journal L) (check_outputs run receipt wallet h blk result ts got)"
proof (induction ts arbitrary: got)
  case (Cons t ts)
  have "keeps (same_journal L) (case c of
      Unverified why detail \<Rightarrow> give (Inl (review_result run result why (dr_dumps run detail)))
    | Received asset \<Rightarrow> check_outputs run receipt wallet h blk result ts (got @ [asset]))" for c
    by (cases c) (auto intro: Cons quiet)
  then show ?case by (auto intro!: quiet)
qed (auto intro: quiet)

lemma keeps_result [quiet]: "keeps (same_journal L) (withdrawal_result run entry i h receipt)"
proof -
  have "keeps (same_journal L) (verify_outputs run entry h receipt result)" for result
    unfolding verify_outputs_def
    by (cases "get entry ''output_token_ids''"; cases "get entry ''wallet''") (auto intro!: quiet)
  then show ?thesis unfolding withdrawal_result_def Let_def by (intro quiet)
qed

section \<open>The world\<close>

lemma keeps_on_exec [quiet]: "keeps (same_journal L) m \<Longrightarrow> keeps (same_exec L) (on_exec m)"
  by (auto simp: keeps_def on_exec_def same_exec_def split: prod.split) (metis snd_conv)

lemma keeps_on_rabby [quiet]: "keeps (same_exec L) (on_rabby m)"
  by (auto simp: keeps_def on_rabby_def same_exec_def ex.same split: prod.split)

lemma keeps_prepare [quiet]: "keeps (same_exec L) (prepare_defi_action run ch gas)"
  unfolding prepare_defi_action_def by (intro quiet)

lemma keeps_preview [quiet]: "keeps (same_exec L) (preview_exit run ch gas)"
  unfolding preview_exit_def by (intro quiet)

end

section \<open>Nothing is sent\<close>

definition silent :: "request list \<Rightarrow> request list \<Rightarrow> bool" where
  "silent rs ss \<longleftrightarrow> sends ss = sends rs"

interpretation silently: read_frame silent
  by unfold_locales (simp_all add: silent_def sends_def)

end
