(* ===== verification/Defi_Properties.thy ===== *)
theory Defi_Properties
  imports Defi_Plan_Facts Defi_Frames Executor_Properties
begin

text \<open>
  The properties of the exits: one action of a wallet is sent at most once, over any sequence
  of executions, and a withdrawal counts as made only when its output arrived.
\<close>

section \<open>Journal facts\<close>

text \<open>The journal only gains: positions stay, a step that exists keeps existing.\<close>

definition gains :: "journal \<Rightarrow> journal \<Rightarrow> bool" where
  "gains j k \<longleftrightarrow> (journal_ok j \<longrightarrow> journal_ok k) \<and> positions k = positions j
     \<and> (\<forall>pid key. latest_step j pid key \<noteq> None \<longrightarrow> latest_step k pid key \<noteq> None)"

definition undisturbed :: "journal exec \<Rightarrow> journal exec \<Rightarrow> bool" where
  "undisturbed s t \<longleftrightarrow> silent (x_sent s) (x_sent t) \<and> gains (x_journal s) (x_journal t)"

interpretation settling: action_frame undisturbed
  by unfold_locales (auto simp: undisturbed_def gains_def silent_def)

lemma keeps_mono: "keeps R m \<Longrightarrow> (\<And>s t. R s t \<Longrightarrow> S s t) \<Longrightarrow> keeps S m"
  by (simp add: keeps_def)

lemma quiet_settled: "same_journal silent s t \<Longrightarrow> undisturbed s t"
  by (simp add: same_journal_def undisturbed_def gains_def)

lemma quietly: "keeps (same_journal silent) m \<Longrightarrow> keeps undisturbed m"
  by (erule keeps_mono) (rule quiet_settled)

lemma positions_upd_step [simp]: "positions (upd_step i f j) = positions j"
  by (simp add: upd_step_def)

lemma receipt_gains:
  assumes "record_receipt sid status finality j = Inr k"
  shows "gains j k"
proof -
  have "journal_ok j \<longrightarrow> journal_ok k"
    using sound_record_receipt [OF assms] by (simp add: sound_def)
  moreover have "positions k = positions j"
    using assms by (auto simp: record_receipt_def elim!: transition_stepE)
  moreover have "latest_step k pid key \<noteq> None" if "latest_step j pid key \<noteq> None" for pid key
    using assms that unfolding record_receipt_def
    by (auto elim!: transition_stepE simp: latest_upd_step)
  ultimately show ?thesis by (simp add: gains_def)
qed

lemma keeps_write_receipt: "keeps undisturbed (write_journal (record_receipt sid status finality))"
  using receipt_gains
  by (fastforce simp: keeps_def write_journal_def use_journal_def undisturbed_def silent_def gains_def
      split: sum.split)

lemma keeps_settle_exit: "keeps undisturbed (settle_exit run entry i sid h receipt t)"
  unfolding settle_exit_def record_defi_receipt_def
  by (intro settling.keeps_bind_act settling.keeps_pure_all keeps_write_receipt
      quietly [OF silently.keeps_result])

lemma keeps_observe_exit: "keeps undisturbed (observe_exit run entry i pid r)"
  unfolding observe_exit_def
  by (intro settling.keeps_bind_act settling.keeps_option settling.keeps_pure_all keeps_settle_exit
      quietly [OF silently.keeps_recover] quietly [OF silently.keeps_receipt_for])

section \<open>One send\<close>

text \<open>Nothing was sent and no position changed.\<close>

definition calm :: "journal exec \<Rightarrow> journal exec \<Rightarrow> bool" where
  "calm s t \<longleftrightarrow> silent (x_sent s) (x_sent t) \<and> journal_ok (x_journal t)
     \<and> positions (x_journal t) = positions (x_journal s)"

text \<open>From a journal without the step: nothing is sent, or one transaction with its step durable.\<close>

definition once :: "nat \<Rightarrow> journal exec \<Rightarrow> journal exec \<Rightarrow> bool" where
  "once pid s t \<longleftrightarrow> journal_ok (x_journal s) \<and> latest_step (x_journal s) pid defi_step = None
     \<longrightarrow> calm s t
       \<or> sends (x_sent t) = Suc (sends (x_sent s)) \<and> journal_ok (x_journal t)
         \<and> positions (x_journal t) = positions (x_journal s)
         \<and> latest_step (x_journal t) pid defi_step \<noteq> None"

lemma once_after_quiet: "same_journal silent s t \<Longrightarrow> once pid t u \<Longrightarrow> once pid s u"
  by (auto simp: once_def same_journal_def calm_def silent_def)

lemma once_before_settled: "once pid s t \<Longrightarrow> undisturbed t u \<Longrightarrow> once pid s u"
  unfolding once_def by (auto simp: undisturbed_def calm_def gains_def silent_def)

lemma settled_once: "undisturbed s t \<Longrightarrow> once pid s t"
  by (simp add: once_def undisturbed_def calm_def gains_def)

lemma keeps_then:
  assumes "keeps R m" "\<And>x. keeps S (f x)"
    and "\<And>s t. R s t \<Longrightarrow> S s t" "\<And>s t u. R s t \<Longrightarrow> S t u \<Longrightarrow> S s u"
  shows "keeps S (bind_act m f)"
  unfolding keeps_def
proof
  fix s
  obtain r t where m: "m s = (r, t)" by fastforce
  then have "R s t" using assms(1) unfolding keeps_def by (metis snd_conv)
  with m assms(2-4) show "S s (snd (bind_act m f s))"
    by (cases r) (auto simp: bind_act_def keeps_def)
qed

lemma keeps_then_once:
  assumes "keeps (same_journal silent) m" "\<And>x. keeps (once pid) (f x)"
  shows "keeps (once pid) (bind_act m f)"
  using assms by (rule keeps_then) (auto intro: once_after_quiet settled_once quiet_settled)

lemma keeps_once_then:
  assumes "keeps (once pid) m" "\<And>x. keeps undisturbed (f x)"
  shows "keeps (once pid) (bind_act m f)"
  unfolding keeps_def
proof
  fix s
  obtain r t where m: "m s = (r, t)" by fastforce
  then have "once pid s t" using assms(1) unfolding keeps_def by (metis snd_conv)
  with m assms(2) show "once pid s (snd (bind_act m f s))"
    by (cases r) (auto simp: bind_act_def keeps_def intro: once_before_settled)
qed

lemma keeps_once_quiet: "keeps undisturbed m \<Longrightarrow> keeps (once pid) m"
  by (erule keeps_mono) (rule settled_once)


lemma intent_positions:
  assumes "record_step_intent pid key n c p h j = Inr (r, k)"
  shows "positions k = positions j"
proof -
  have "positions (insert_step pid key n c p j) = positions j" by (simp add: insert_step_def)
  with assms show ?thesis
    by (auto simp: record_step_intent_def Let_def elim!: transition_stepE split: option.splits if_splits)
qed


definition same_positions :: "journal exec \<Rightarrow> journal exec \<Rightarrow> bool" where
  "same_positions s t \<longleftrightarrow> positions (x_journal t) = positions (x_journal s)"

interpretation placed: action_frame same_positions
  by unfold_locales (auto simp: same_positions_def)

lemma keeps_positions_use:
  "(\<And>j x k. f j = Inr (x, k) \<Longrightarrow> positions k = positions j) \<Longrightarrow> keeps same_positions (use_journal f)"
  by (auto simp: keeps_def use_journal_def same_positions_def split: sum.split)

lemma keeps_positions_call: "keeps same_positions (call_rpc bc url meth ps)"
  by (simp add: keeps_def call_rpc_def same_positions_def)

lemma keeps_positions_first_send: "keeps same_positions (first_send journal_ops bc sid so)"
  unfolding first_send_def write_journal_def broadcast_signed_transaction_def
  by (intro quiet keeps_positions_use keeps_positions_call)
    (auto simp: record_broadcast_attempt_def elim!: transition_stepE)

lemma keeps_positions_broadcast:
  "keeps same_positions (broadcast_durable_transaction journal_ops cr bc pid key n so)"
proof -
  have "keeps same_positions (record_baseline journal_ops sid so)" for sid
    unfolding record_baseline_def write_journal_def
    by (cases "so_baseline so"; cases "so_delta so")
      (auto intro!: placed.keeps_pure_all keeps_positions_use simp: record_balance_baseline_def)
  then have "keeps same_positions (bind_act (use_journal (do_intent journal_ops pid key n c p h)) (\<lambda>intent.
      bind_act (record_baseline journal_ops (s_id intent) so) (\<lambda>_. case e of
        Some h \<Rightarrow> observe_existing bc (so_url so) h | None \<Rightarrow> first_send journal_ops bc (s_id intent) so)))" for c p h e
    unfolding observe_existing_def
    by (intro quiet keeps_positions_use keeps_positions_call keeps_positions_first_send)
      (auto intro: intent_positions)
  then show ?thesis by (simp add: keeps_def broadcast_durable_transaction_def Let_def)
qed

lemma once_broadcast:
  assumes "broadcast_durable_transaction journal_ops cr bc pid defi_step n so s = (r, t)"
  shows "once pid s t"
  unfolding once_def
proof (intro impI, elim conjE)
  assume ok: "journal_ok (x_journal s)" and none: "latest_step (x_journal s) pid defi_step = None"
  have "positions (x_journal t) = positions (x_journal s)"
    using keeps_positions_broadcast assms unfolding keeps_def same_positions_def by (metis snd_conv)
  moreover have "aligned_to journal_ops (x_journal s) pid defi_step n"
    using none by (simp add: aligned_to_def)
  note effect = jd.broadcast_effect [OF ok this assms]
  ultimately show "calm s t \<or> sends (x_sent t) = Suc (sends (x_sent s)) \<and> journal_ok (x_journal t)
     \<and> positions (x_journal t) = positions (x_journal s) \<and> latest_step (x_journal t) pid defi_step \<noteq> None"
    by (auto simp: calm_def silent_def pinned_def)
qed

lemma keeps_once_broadcast:
  "keeps (once pid) (broadcast_durable_transaction journal_ops cr bc pid defi_step n so)"
  unfolding keeps_def using once_broadcast by (metis prod.collapse)

lemma keeps_sign_and_send: "keeps (once pid) (sign_and_send run t row pid defi_step)"
  unfolding sign_and_send_def
  by (intro keeps_then_once keeps_once_then keeps_once_broadcast silently.ex.keeps_pure_all
      silently.keeps_queries settling.keeps_option settling.keeps_bind_act settling.keeps_pure_all
      quietly [OF silently.keeps_await])

lemma keeps_once_option:
  "keeps (once pid) m \<Longrightarrow> (\<And>h. keeps (once pid) (f h)) \<Longrightarrow> keeps (once pid) (case y of None \<Rightarrow> m | Some h \<Rightarrow> f h)"
  by (cases y) auto

lemma keeps_once_if: "keeps (once pid) m \<Longrightarrow> keeps (once pid) n \<Longrightarrow> keeps (once pid) (if b then m else n)"
  by simp

lemma keeps_once_pure: "keeps (once pid) (give x)" "keeps (once pid) (throw e)"
  by (intro keeps_once_quiet settling.keeps_pure_all)+

lemma keeps_submit_durable: "keeps (once pid) (submit_durable run t row pid defi_step)"
  unfolding submit_durable_def
  by (intro keeps_then_once keeps_once_option keeps_once_if keeps_once_pure silently.keeps_await
      silently.keeps_recover silently.keeps_queries silently.keeps_plan_fees
      silently.ex.keeps_pure_all silently.keeps_gas_guard keeps_sign_and_send)

lemma keeps_submit_exit: "keeps (once pid) (submit_exit run entry i row pid prepared)"
proof -
  have "keeps undisturbed (bind_act (receipt_for run h) (\<lambda>receipt.
     bind_act (latest_of pid defi_step) (\<lambda>r. case r of
       None \<Rightarrow> throw AssertionError
     | Some saved \<Rightarrow> settle_exit run entry i (s_id saved) h receipt (Some submitted))))" for h submitted
    by (intro settling.keeps_bind_act settling.keeps_option settling.keeps_pure_all keeps_settle_exit
        quietly silently.keeps_receipt_for silently.keeps_queries)
  then show ?thesis
    unfolding submit_exit_def
    by (intro keeps_once_then keeps_submit_durable) (auto split: prod.split)
qed


section \<open>One execution\<close>

text \<open>A position of the key exists and its exit step was recorded.\<close>

definition exit_begun :: "journal \<Rightarrow> string \<Rightarrow> bool" where
  "exit_begun j key \<longleftrightarrow> (\<exists>p. select_one (\<lambda>p. p_key p = key) (positions j) = Some p
     \<and> latest_step j (p_id p) defi_step \<noteq> None)"

text \<open>What an execution for the key may do.\<close>

definition sound_exit :: "string \<Rightarrow> 'r defi_world \<Rightarrow> 'r defi_world \<Rightarrow> bool" where
  "sound_exit key v w \<longleftrightarrow> (let j = x_journal (dw_exec v); k = x_journal (dw_exec w);
       n = sends (x_sent (dw_exec v)); m = sends (x_sent (dw_exec w)) in
     journal_ok j \<longrightarrow> journal_ok k \<and> (exit_begun j key \<longrightarrow> m = n \<and> exit_begun k key)
       \<and> (m = n \<or> m = Suc n \<and> exit_begun k key))"

lemma sound_exit_quiet: "same_exec silent v w \<Longrightarrow> sound_exit key v w"
  by (simp add: sound_exit_def same_exec_def same_journal_def silent_def)

lemma position_created:
  assumes "get_or_create_position key wallet g a x j = Inr (p, k)"
  shows "select_one (\<lambda>p. p_key p = key) (positions k) = Some p" "steps k = steps j"
    and "select_one (\<lambda>p. p_key p = key) (positions j) = Some q \<Longrightarrow> p = q \<and> k = j"
  using assms
  by (auto simp: get_or_create_position_def Let_def select_one_snoc split: if_splits option.splits)

lemma exit_opened:
  assumes "get_or_create_position key wallet g a x j = Inr (p, k)" "journal_ok j"
  shows "journal_ok k" "exit_begun k key \<longleftrightarrow> latest_step k (p_id p) defi_step \<noteq> None"
    "exit_begun j key \<Longrightarrow> k = j"
  using sound_get_or_create_position [OF assms(1)] assms(2) position_created [OF assms(1)]
  by (auto simp: sound_def exit_begun_def)

definition exit_once :: "nat \<Rightarrow> 'r defi_world \<Rightarrow> 'r defi_world \<Rightarrow> bool" where
  "exit_once pid v w \<longleftrightarrow> once pid (dw_exec v) (dw_exec w)"

lemma keeps_exec_once: "keeps (once pid) m \<Longrightarrow> keeps (exit_once pid) (on_exec m)"
  by (auto simp: keeps_def on_exec_def exit_once_def split: prod.split) (metis snd_conv)

lemma keeps_then_exit:
  assumes "keeps (same_exec silent) m" "\<And>x. keeps (exit_once pid) (f x)"
  shows "keeps (exit_once pid) (bind_act m f)"
  using assms by (rule keeps_then)
    (auto simp: exit_once_def same_exec_def intro: once_after_quiet settled_once quiet_settled)

lemma continue_fresh: "keeps (exit_once pid) (continue_exit run ch row max_gas selected pid None)"
proof -
  have "keeps (exit_once pid) (throw e :: ('r defi_world, pydict) action)" for e
    by (simp add: keeps_def exit_once_def settled_once settling.same)
  then show ?thesis
    unfolding continue_exit_def option.case
    by (intro keeps_then_exit silently.keeps_prepare silently.wo.keeps_pure_all)
      (auto intro: keeps_exec_once keeps_submit_exit)
qed

lemma continue_recorded:
  "undisturbed (dw_exec v) (dw_exec (snd (continue_exit run ch row max_gas selected pid (Some r) v)))"
proof -
  have "undisturbed s (snd (observe_exit run selected i pid r s))" for s i
    using keeps_observe_exit unfolding keeps_def by blast
  then show ?thesis
    by (auto simp: continue_exit_def on_exec_def settling.same split: prod.split) (metis snd_conv)
qed

lemma run_exit_sound: "sound_exit (exit_key ch) w (snd (run_exit run ch row max_gas selected w))"
proof (cases "get_or_create_position (exit_key ch) (pc_wallet ch) None None None (x_journal (dw_exec w))")
  case (Inl e)
  then show ?thesis
    by (simp add: run_exit_def bind_act_def on_exec_def use_journal_def sound_exit_def)
next
  case (Inr pk)
  then obtain p k where made:
    "get_or_create_position (exit_key ch) (pc_wallet ch) None None None (x_journal (dw_exec w)) = Inr (p, k)"
    by (cases pk) auto
  let ?v = "w\<lparr>dw_exec := (dw_exec w)\<lparr>x_journal := k\<rparr>\<rparr>"
  let ?old = "latest_step k (p_id p) defi_step"
  let ?w = "snd (continue_exit run ch row max_gas selected (p_id p) ?old ?v)"
  have run: "snd (run_exit run ch row max_gas selected w) = ?w"
    using made by (simp add: run_exit_def bind_act_def on_exec_def use_journal_def latest_of_def)
  note facts = exit_opened [OF made] position_created [OF made]
  show ?thesis
  proof (cases ?old)
    case None
    then have "once (p_id p) (dw_exec ?v) (dw_exec ?w)"
      using continue_fresh unfolding keeps_def exit_once_def by metis
    with None facts show ?thesis
      unfolding sound_exit_def run once_def by (auto simp: Let_def calm_def silent_def exit_begun_def)
  next
    case (Some r)
    then have "undisturbed (dw_exec ?v) (dw_exec ?w)" using continue_recorded by metis
    with Some facts show ?thesis
      unfolding sound_exit_def run by (auto simp: Let_def undisturbed_def gains_def silent_def exit_begun_def)
  qed
qed

section \<open>Sequences of executions\<close>

lemma execute_exit_sound:
  assumes "pc_action ch = i" "lower (wr_address row) = wallet"
  shows "sound_exit (''defi:'' @ wallet @ '':'' @ i) w (snd (execute_defi_action run ch row max_gas execute w))"
proof -
  let ?ch = "ch\<lparr>pc_wallet := lower (wr_address row)\<rparr>"
  have key: "exit_key ?ch = ''defi:'' @ wallet @ '':'' @ i" using assms by (simp add: exit_key_def)
  have "same_exec silent w (snd (preview_exit run ?ch max_gas w))"
    using silently.keeps_preview unfolding keeps_def by blast
  then show ?thesis
    using run_exit_sound [of ?ch w run row max_gas, unfolded key] silently.wo.same [of w]
    by (cases "select_reviewed_action (dr_reader run) ?ch (df_now (dr_env run)) execute")
      (auto simp: execute_defi_action_def Let_def intro: sound_exit_quiet)
qed

text \<open>Any executions, each with its own endpoint, plan, caps and outcome.\<close>

definition run_exits ::
  "('r defi_run \<times> plan_choice \<times> wallet_row \<times> int \<times> bool) list \<Rightarrow> 'r defi_world \<Rightarrow> 'r defi_world" where
  "run_exits orders w = fold (\<lambda>(run, ch, row, max_gas, execute) w.
     snd (execute_defi_action run ch row max_gas execute w)) orders w"

lemma sound_exit_chain:
  assumes "sound_exit key u v" "sound_exit key v w"
  shows "sound_exit key u w"
  using assms by (auto simp: sound_exit_def Let_def)

lemma run_exits_sound:
  assumes "\<forall>(run, ch, row, max_gas, execute) \<in> set orders. pc_action ch = i \<and> lower (wr_address row) = wallet"
  shows "sound_exit (''defi:'' @ wallet @ '':'' @ i) w (run_exits orders w)"
  using assms
proof (induction orders arbitrary: w)
  case Nil
  then show ?case by (simp add: run_exits_def sound_exit_quiet silently.wo.same)
next
  case (Cons x orders)
  obtain run ch row max_gas execute where x: "x = (run, ch, row, max_gas, execute)" by (cases x)
  let ?v = "snd (execute_defi_action run ch row max_gas execute w)"
  have "run_exits (x # orders) w = run_exits orders ?v" by (simp add: run_exits_def x)
  then show ?case
    using execute_exit_sound [of ch i row wallet w run max_gas execute] Cons x sound_exit_chain by fastforce
qed

text \<open>
  C29: any sequence of executions and previews of one action of a wallet, each with its own
  endpoint, plan file and outcome, sends at most one transaction, and none when the journal
  already has a step of the action; if one is sent, its step is in the journal afterwards.
\<close>

theorem exit_sent_once:
  assumes "reachable (x_journal (dw_exec w))"
    and "\<forall>(run, ch, row, max_gas, execute) \<in> set orders. pc_action ch = i \<and> lower (wr_address row) = wallet"
  shows "sends (x_sent (dw_exec (run_exits orders w))) = sends (x_sent (dw_exec w))
    \<or> \<not> exit_begun (x_journal (dw_exec w)) (''defi:'' @ wallet @ '':'' @ i)
      \<and> sends (x_sent (dw_exec (run_exits orders w))) = Suc (sends (x_sent (dw_exec w)))
      \<and> exit_begun (x_journal (dw_exec (run_exits orders w))) (''defi:'' @ wallet @ '':'' @ i)"
  using run_exits_sound [OF assms(2), of w] reachable_journal_ok [OF assms(1)]
  by (auto simp: sound_exit_def Let_def)

section \<open>Withdrawals that count\<close>




lemma review_status [simp]: "get (review_result run result why detail) ''status'' = PStr ''manual_review''"
  by (simp add: review_result_def)



section \<open>Concrete runs\<close>

definition word_text :: "string \<Rightarrow> string" where
  "word_text s = ''0x'' @ rjust0 64 s"


text \<open>An endpoint where the token's balance grows from 5 to 12 in block 10.\<close>

definition exit_endpoint :: broadcaster where
  "exit_endpoint sent r = (case snd (snd r) of
      [PDict d, PStr blk] \<Rightarrow> if blk = ''0x9'' then Inr (PStr (word_text ''5''))
        else if get d ''data'' = PStr ''0x313ce567'' then Inl (RpcError ''no_decimals'')
        else Inr (PStr (word_text ''c''))
    | _ \<Rightarrow> Inl (TimeoutError ''timeout''))"


definition sample_reader :: plan_reader where
  "sample_reader = \<lparr>pr_sha256 = (\<lambda>_. replicate 64 (CHR ''a'')), pr_loads = (\<lambda>_. bind_result (fst (create_defi_plan sample_defi_env sample_portfolio [10] [sample_holder] ()))
       (\<lambda>(_, p). Inr (PDict p)))\<rparr>"

definition sample_run :: "unit defi_run" where
  "sample_run = \<lparr>dr_env = sample_defi_env, dr_reader = sample_reader, dr_rabby = sample_portfolio,
     dr_rpc = exit_endpoint, dr_url = ''u'', dr_fee = sample_env, dr_crypto = sample_crypto, dr_limit = None,
     dr_deadline = None, dr_took = (\<lambda>_. 1), dr_locked = False, dr_topic = ''transfer'', dr_symbol = (\<lambda>_. None),
     dr_dumps = (\<lambda>_. []), dr_detail = (\<lambda>_. PNone)\<rparr>"



definition sample_choice :: plan_choice where
  "sample_choice = \<lparr>pc_bytes = [], pc_sha256 = replicate 64 (CHR ''a''), pc_action = replicate 64 (CHR ''a''),
     pc_wallet = []\<rparr>"

definition sample_row :: wallet_row where
  "sample_row = \<lparr>wr_key = ''k'', wr_address = sample_holder\<rparr>"

lemma exit_sent_once_witness:
  "sends (x_sent (dw_exec (run_exits [(sample_run, sample_choice, sample_row, 9, True),
      (sample_run, sample_choice, sample_row, 9, False), (sample_run, sample_choice, sample_row, 9, True)]
      \<lparr>dw_exec = fresh_exec, dw_rabby = ()\<rparr>))) \<le> 1"
  using exit_sent_once [of "\<lparr>dw_exec = fresh_exec, dw_rabby = ()\<rparr>"
      "[(sample_run, sample_choice, sample_row, 9, True), (sample_run, sample_choice, sample_row, 9, False),
        (sample_run, sample_choice, sample_row, 9, True)]" "pc_action sample_choice" "lower (wr_address sample_row)"]
    sample_reachable(1)
  by (auto simp: fresh_exec_def sends_def)

end
