(* ===== verification/Quote_Cache.thy ===== *)
theory Quote_Cache
  imports Stages Group_Steps
begin

text \<open>
  Price evidence shared by the threads of a stage (\<open>quote_parallel.py\<close>): the first caller of an
  asset asks the client, the others wait for its event, and all read one outcome. The threads
  of \<open>CachedQuoteClient.token_price\<close> are a step relation: a step is what one thread does between
  two points where another may run. The client is any function of the calls made so far;
  a deadline may have passed at every check. \<open>complete_parallel\<close> is the all-or-nothing fanout
  over the worker pool of \<open>Stages\<close>.
\<close>

section \<open>The cache\<close>

datatype ('a, 'v) caller =
    Asking 'a | Owning 'a | Answered 'a "'v result" | Stored 'a | Waiting 'a | Reading 'a
  | Done 'a "'v result"

record ('a, 'v) quote_cache =
  qc_events :: "('a \<times> bool) list"
  qc_prices :: "('a \<times> 'v) list"
  qc_errors :: "('a \<times> exn) list"
  qc_calls :: "'a list"
  qc_callers :: "('a, 'v) caller list"

definition new_cache :: "'a list \<Rightarrow> ('a, 'v) quote_cache" where
  "new_cache assets = \<lparr>qc_events = [], qc_prices = [], qc_errors = [], qc_calls = [],
     qc_callers = map Asking assets\<rparr>"

text \<open>Under the lock: the first caller creates the event and owns the asset.\<close>

definition claim_asset :: "'a \<Rightarrow> ('a, 'v) quote_cache \<Rightarrow> bool \<times> ('a, 'v) quote_cache" where
  "claim_asset a c = (case map_of (qc_events c) a of
      None \<Rightarrow> (True, c\<lparr>qc_events := AList.update a False (qc_events c)\<rparr>)
    | Some _ \<Rightarrow> (False, c))"

definition store_outcome :: "'a \<Rightarrow> 'v result \<Rightarrow> ('a, 'v) quote_cache \<Rightarrow> ('a, 'v) quote_cache" where
  "store_outcome a r c = (case r of
      Inr v \<Rightarrow> c\<lparr>qc_prices := AList.update a v (qc_prices c)\<rparr>
    | Inl e \<Rightarrow> c\<lparr>qc_errors := AList.update a e (qc_errors c)\<rparr>)"

definition set_event :: "'a \<Rightarrow> ('a, 'v) quote_cache \<Rightarrow> ('a, 'v) quote_cache" where
  "set_event a c = c\<lparr>qc_events := AList.update a True (qc_events c)\<rparr>"

definition read_outcome :: "'a \<Rightarrow> ('a, 'v) quote_cache \<Rightarrow> 'v result" where
  "read_outcome a c = (case map_of (qc_errors c) a of
      Some e \<Rightarrow> Inl e
    | None \<Rightarrow> (case map_of (qc_prices c) a of None \<Rightarrow> Inl KeyError | Some v \<Rightarrow> Inr v))"

definition move :: "nat \<Rightarrow> ('a, 'v) caller \<Rightarrow> ('a, 'v) quote_cache \<Rightarrow> ('a, 'v) quote_cache" where
  "move i t c = c\<lparr>qc_callers := (qc_callers c)[i := t]\<rparr>"

definition at_point :: "('a, 'v) quote_cache \<Rightarrow> nat \<Rightarrow> ('a, 'v) caller \<Rightarrow> bool" where
  "at_point c i t \<longleftrightarrow> i < length (qc_callers c) \<and> qc_callers c ! i = t"

text \<open>\<open>routes\<close> of the client, between two checks of the deadline.\<close>

definition checked_routes :: "deadline option \<Rightarrow> rat \<Rightarrow> 'r result \<Rightarrow> rat \<Rightarrow> 'r result" where
  "checked_routes current before r after =
     bind_result (check_deadline current before) (\<lambda>_. bind_result r (\<lambda>x.
     bind_result (check_deadline current after) (\<lambda>_. Inr x)))"

text \<open>What the owner got: the client's answer, or a deadline that passed after it.\<close>

definition answer :: "('a list \<Rightarrow> 'a \<Rightarrow> 'v result) \<Rightarrow> 'a list \<Rightarrow> 'a \<Rightarrow> 'v result \<Rightarrow> bool" where
  "answer client calls a r \<longleftrightarrow>
     r = client calls a \<or> (\<exists>v e. client calls a = Inr v \<and> r = Inl e \<and> is_deadline e)"

inductive cache_step ::
  "('a list \<Rightarrow> 'a \<Rightarrow> 'v result) \<Rightarrow> ('a, 'v) quote_cache \<Rightarrow> ('a, 'v) quote_cache \<Rightarrow> bool"
  for client where
  late_start: "at_point c i (Asking a) \<Longrightarrow> is_deadline e \<Longrightarrow> cache_step client c (move i (Done a (Inl e)) c)"
| own: "at_point c i (Asking a) \<Longrightarrow> claim_asset a c = (True, d) \<Longrightarrow> cache_step client c (move i (Owning a) d)"
| wait: "at_point c i (Asking a) \<Longrightarrow> claim_asset a c = (False, d) \<Longrightarrow> cache_step client c (move i (Waiting a) d)"
| call: "at_point c i (Owning a) \<Longrightarrow> answer client (qc_calls c) a r
    \<Longrightarrow> cache_step client c (move i (Answered a r) (c\<lparr>qc_calls := qc_calls c @ [a]\<rparr>))"
| store: "at_point c i (Answered a r) \<Longrightarrow> cache_step client c (move i (Stored a) (store_outcome a r c))"
| signal: "at_point c i (Stored a) \<Longrightarrow> cache_step client c (move i (Reading a) (set_event a c))"
| wake: "at_point c i (Waiting a) \<Longrightarrow> map_of (qc_events c) a = Some True
    \<Longrightarrow> cache_step client c (move i (Reading a) c)"
| late_wait: "at_point c i (Waiting a) \<Longrightarrow> is_deadline e \<Longrightarrow> cache_step client c (move i (Done a (Inl e)) c)"
| late_read: "at_point c i (Reading a) \<Longrightarrow> is_deadline e \<Longrightarrow> cache_step client c (move i (Done a (Inl e)) c)"
| read: "at_point c i (Reading a) \<Longrightarrow> cache_step client c (move i (Done a (read_outcome a c)) c)"

section \<open>One call per asset\<close>

definition genuine :: "('a list \<Rightarrow> 'a \<Rightarrow> 'v result) \<Rightarrow> 'a \<Rightarrow> 'v result \<Rightarrow> bool" where
  "genuine client a r \<longleftrightarrow> (\<exists>h. r = client h a) \<or> (\<exists>e. r = Inl e \<and> is_deadline e)"

definition unstored :: "'a \<Rightarrow> ('a, 'v) quote_cache \<Rightarrow> bool" where
  "unstored a c \<longleftrightarrow> map_of (qc_prices c) a = None \<and> map_of (qc_errors c) a = None"

fun point_ok ::
  "('a list \<Rightarrow> 'a \<Rightarrow> 'v result) \<Rightarrow> ('a, 'v) quote_cache \<Rightarrow> ('a, 'v) caller \<Rightarrow> bool" where
  "point_ok client c (Asking a) = True"
| "point_ok client c (Owning a) =
     (map_of (qc_events c) a = Some False \<and> a \<notin> set (qc_calls c) \<and> unstored a c)"
| "point_ok client c (Answered a r) =
     (map_of (qc_events c) a = Some False \<and> genuine client a r \<and> unstored a c)"
| "point_ok client c (Stored a) =
     (map_of (qc_events c) a = Some False \<and> genuine client a (read_outcome a c))"
| "point_ok client c (Waiting a) = (map_of (qc_events c) a \<noteq> None)"
| "point_ok client c (Reading a) = (map_of (qc_events c) a = Some True)"
| "point_ok client c (Done a r) =
     ((\<exists>e. r = Inl e \<and> is_deadline e) \<or> map_of (qc_events c) a = Some True \<and> r = read_outcome a c)"

fun owner_of :: "('a, 'v) caller \<Rightarrow> 'a option" where
  "owner_of (Owning a) = Some a"
| "owner_of (Answered a r) = Some a"
| "owner_of (Stored a) = Some a"
| "owner_of t = None"

fun caller_asset :: "('a, 'v) caller \<Rightarrow> 'a" where
  "caller_asset (Asking a) = a"
| "caller_asset (Owning a) = a"
| "caller_asset (Answered a r) = a"
| "caller_asset (Stored a) = a"
| "caller_asset (Waiting a) = a"
| "caller_asset (Reading a) = a"
| "caller_asset (Done a r) = a"

definition cache_ok :: "('a list \<Rightarrow> 'a \<Rightarrow> 'v result) \<Rightarrow> ('a, 'v) quote_cache \<Rightarrow> bool" where
  "cache_ok client c \<longleftrightarrow>
     distinct (qc_calls c)
     \<and> (\<forall>a. map_of (qc_events c) a = None \<longrightarrow> a \<notin> set (qc_calls c) \<and> unstored a c)
     \<and> (\<forall>a. map_of (qc_events c) a = Some True \<longrightarrow> genuine client a (read_outcome a c))
     \<and> (\<forall>i < length (qc_callers c). point_ok client c (qc_callers c ! i))
     \<and> (\<forall>i < length (qc_callers c). \<forall>j < length (qc_callers c). \<forall>a.
          owner_of (qc_callers c ! i) = Some a \<and> owner_of (qc_callers c ! j) = Some a \<longrightarrow> i = j)
     \<and> (\<forall>a. map_of (qc_events c) a = Some False
          \<longrightarrow> (\<exists>i < length (qc_callers c). owner_of (qc_callers c ! i) = Some a))"

lemma new_cache_ok: "cache_ok client (new_cache assets)"
  by (simp add: cache_ok_def new_cache_def unstored_def)

lemma move_simps [simp]:
  "qc_events (move i t c) = qc_events c" "qc_prices (move i t c) = qc_prices c"
  "qc_errors (move i t c) = qc_errors c" "qc_calls (move i t c) = qc_calls c"
  "qc_callers (move i t c) = (qc_callers c)[i := t]"
  "unstored a (move i t c) = unstored a c" "read_outcome a (move i t c) = read_outcome a c"
  by (simp_all add: move_def unstored_def read_outcome_def split: option.split)

lemma point_ok_move [simp]: "point_ok client (move i t c) p = point_ok client c p"
  by (cases p) simp_all

text \<open>A step of one thread: what has to be shown of the tables and of the other threads.\<close>

lemma move_ok:
  assumes "cache_ok client c" "i < length (qc_callers c)" "qc_callers d = qc_callers c"
    and "distinct (qc_calls d)"
    and "\<And>a. map_of (qc_events d) a = None \<Longrightarrow> a \<notin> set (qc_calls d) \<and> unstored a d"
    and "\<And>a. map_of (qc_events d) a = Some True \<Longrightarrow> genuine client a (read_outcome a d)"
    and "point_ok client d t"
    and "\<And>j. j < length (qc_callers c) \<Longrightarrow> j \<noteq> i \<Longrightarrow> point_ok client c (qc_callers c ! j)
      \<Longrightarrow> point_ok client d (qc_callers c ! j)"
    and "\<And>a j. owner_of t = Some a \<Longrightarrow> j < length (qc_callers c) \<Longrightarrow> j \<noteq> i \<Longrightarrow> owner_of (qc_callers c ! j) \<noteq> Some a"
    and "\<And>a. map_of (qc_events d) a = Some False
      \<Longrightarrow> owner_of t = Some a \<or> (\<exists>j < length (qc_callers c). j \<noteq> i \<and> owner_of (qc_callers c ! j) = Some a)"
  shows "cache_ok client (move i t d)"
proof -
  have "\<exists>j < length (qc_callers c). owner_of ((qc_callers c)[i := t] ! j) = Some a"
    if "map_of (qc_events d) a = Some False" for a
    using assms(10) [OF that] assms(2) by (metis nth_list_update)
  then show ?thesis
    unfolding cache_ok_def using assms(1-9)
    by (auto simp: nth_list_update cache_ok_def)
qed

lemma cache_okD:
  assumes "cache_ok client c"
  shows "distinct (qc_calls c)"
    "map_of (qc_events c) a = None \<Longrightarrow> a \<notin> set (qc_calls c)" "map_of (qc_events c) a = None \<Longrightarrow> unstored a c"
    "map_of (qc_events c) a = Some True \<Longrightarrow> genuine client a (read_outcome a c)"
    "at_point c i t \<Longrightarrow> point_ok client c t"
    "at_point c i t \<Longrightarrow> owner_of t = Some a \<Longrightarrow> j < length (qc_callers c) \<Longrightarrow> j \<noteq> i
      \<Longrightarrow> owner_of (qc_callers c ! j) \<noteq> Some a"
    "map_of (qc_events c) a = Some False \<Longrightarrow> \<exists>j < length (qc_callers c). owner_of (qc_callers c ! j) = Some a"
  using assms by (auto simp: cache_ok_def at_point_def)

lemma stay_ok:
  assumes "cache_ok client c" "at_point c i t" "owner_of t = None" "point_ok client c u" "owner_of u = None"
  shows "cache_ok client (move i u c)"
proof -
  have "\<exists>j < length (qc_callers c). j \<noteq> i \<and> owner_of (qc_callers c ! j) = Some a"
    if "map_of (qc_events c) a = Some False" for a
    using cache_okD(7) [OF assms(1) that] assms(2,3) by (auto simp: at_point_def)
  then show ?thesis
    using assms(2-5) cache_okD(1-6) [OF assms(1)]
    by (intro move_ok [OF assms(1)]) (auto simp: at_point_def)
qed

lemma genuine_answer: "answer client calls a r \<Longrightarrow> genuine client a r"
  by (auto simp: answer_def genuine_def)

lemma read_stored: "unstored a c \<Longrightarrow> read_outcome a (store_outcome a r c) = r"
  by (auto simp: unstored_def read_outcome_def store_outcome_def update_conv' split: sum.split option.split)

lemma store_other:
  "b \<noteq> a \<Longrightarrow> read_outcome b (store_outcome a r c) = read_outcome b c"
  "b \<noteq> a \<Longrightarrow> unstored b (store_outcome a r c) = unstored b c"
  "qc_events (store_outcome a r c) = qc_events c" "qc_calls (store_outcome a r c) = qc_calls c"
  "qc_callers (store_outcome a r c) = qc_callers c"
  by (auto simp: read_outcome_def unstored_def store_outcome_def update_conv' split: sum.split option.split)

lemma owner_step_ok:
  assumes "cache_ok client c" "at_point c i t" "owner_of t = Some a"
    and "qc_callers d = qc_callers c" "owner_of u = Some a \<or> owner_of u = None" "point_ok client d u"
    and "distinct (qc_calls d)" "set (qc_calls d) \<subseteq> insert a (set (qc_calls c))"
    and "\<And>b. b \<noteq> a \<Longrightarrow> map_of (qc_events d) b = map_of (qc_events c) b" "map_of (qc_events d) a \<noteq> None"
    and "\<And>b. b \<noteq> a \<Longrightarrow> read_outcome b d = read_outcome b c \<and> unstored b d = unstored b c"
    and "map_of (qc_events d) a = Some True \<Longrightarrow> genuine client a (read_outcome a d)"
    and "map_of (qc_events d) a = Some False \<Longrightarrow> owner_of u = Some a"
  shows "cache_ok client (move i u d)"
proof -
  note old = cache_okD [OF assms(1)]
  have ev: "map_of (qc_events c) a = Some False"
    using old(5) [OF assms(2)] assms(3) by (cases t) auto
  show ?thesis
  proof (rule move_ok [OF assms(1)])
    fix j assume j: "j < length (qc_callers c)" "j \<noteq> i" "point_ok client c (qc_callers c ! j)"
    have other: "owner_of (qc_callers c ! j) \<noteq> Some a" using old(6) [OF assms(2,3) j(1,2)] .
    show "point_ok client d (qc_callers c ! j)"
    proof (cases "caller_asset (qc_callers c ! j) = a")
      case True
      with j(3) ev other assms(10) show ?thesis by (cases "qc_callers c ! j") auto
    next
      case False
      with j(3) assms(8,9,11) show ?thesis by (cases "qc_callers c ! j") auto
    qed
  next
    fix b j assume "owner_of u = Some b" "j < length (qc_callers c)" "j \<noteq> i"
    then show "owner_of (qc_callers c ! j) \<noteq> Some b"
      using assms(5) old(6) [OF assms(2,3)] by auto
  next
    fix b assume "map_of (qc_events d) b = None"
    then show "b \<notin> set (qc_calls d) \<and> unstored b d"
      using assms(8,9,10,11) old(2,3) by (cases "b = a") auto
  next
    fix b assume "map_of (qc_events d) b = Some True"
    then show "genuine client b (read_outcome b d)"
      using assms(9,11,12) old(4) by (cases "b = a") auto
  next
    fix b assume b: "map_of (qc_events d) b = Some False"
    show "owner_of u = Some b \<or> (\<exists>j < length (qc_callers c). j \<noteq> i \<and> owner_of (qc_callers c ! j) = Some b)"
    proof (cases "b = a")
      case False
      with b assms(9) old(7) obtain j where "j < length (qc_callers c)" "owner_of (qc_callers c ! j) = Some b"
        by auto
      with assms(2,3) False show ?thesis by (auto simp: at_point_def)
    qed (use b assms(13) in simp)
  qed (use assms in \<open>auto simp: at_point_def\<close>)
qed

lemma cache_step_ok:
  assumes "cache_step client c d" "cache_ok client c"
  shows "cache_ok client d"
  using assms(1)
proof cases
  case (own i a d')
  then have none: "map_of (qc_events c) a = None"
    and d': "d' = c\<lparr>qc_events := AList.update a False (qc_events c)\<rparr>"
    by (auto simp: claim_asset_def split: option.splits)
  note old = cache_okD [OF assms(2)]
  have keep: "unstored b d' = unstored b c" "read_outcome b d' = read_outcome b c" for b
    by (simp_all add: d' unstored_def read_outcome_def split: option.split)
  show ?thesis unfolding own(1)
  proof (rule move_ok [OF assms(2)])
    fix j assume j: "j < length (qc_callers c)" "j \<noteq> i" "point_ok client c (qc_callers c ! j)"
    with none keep show "point_ok client d' (qc_callers c ! j)"
      by (cases "qc_callers c ! j") (auto simp: d' update_conv')
  next
    fix b j assume "owner_of (Owning a) = Some b" "j < length (qc_callers c)" "j \<noteq> i"
    moreover have "owner_of t \<noteq> Some a" if "point_ok client c t" for t
      using that none by (cases t) auto
    ultimately show "owner_of (qc_callers c ! j) \<noteq> Some b"
      using assms(2) by (auto simp: cache_ok_def)
  next
    fix b assume b: "map_of (qc_events d') b = Some False"
    show "owner_of (Owning a) = Some b \<or> (\<exists>j < length (qc_callers c). j \<noteq> i \<and> owner_of (qc_callers c ! j) = Some b)"
    proof (cases "b = a")
      case False
      with b old(7) obtain j where "j < length (qc_callers c)" "owner_of (qc_callers c ! j) = Some b"
        by (auto simp: d' update_conv')
      with own(2) show ?thesis by (auto simp: at_point_def)
    qed simp
  qed (use own old none keep in \<open>auto simp: d' update_conv' at_point_def split: if_splits\<close>)
next
  case (call i a r)
  note old = cache_okD [OF assms(2)]
  have at: "map_of (qc_events c) a = Some False" "a \<notin> set (qc_calls c)" "unstored a c"
    using old(5) [OF call(2)] by auto
  show ?thesis unfolding call(1)
    by (rule owner_step_ok [OF assms(2) call(2), where a = a])
      (use at old(1) genuine_answer [OF call(3)] in
        \<open>auto simp: unstored_def read_outcome_def split: option.split\<close>)
next
  case (store i a r)
  note old = cache_okD [OF assms(2)]
  have at: "map_of (qc_events c) a = Some False" "genuine client a r" "unstored a c"
    using old(5) [OF store(2)] by auto
  show ?thesis unfolding store(1)
    by (rule owner_step_ok [OF assms(2) store(2), where a = a])
      (use at old(1) in \<open>auto simp: store_other read_stored\<close>)
next
  case (signal i a)
  note old = cache_okD [OF assms(2)]
  have at: "map_of (qc_events c) a = Some False" "genuine client a (read_outcome a c)"
    using old(5) [OF signal(2)] by auto
  show ?thesis unfolding signal(1)
    by (rule owner_step_ok [OF assms(2) signal(2), where a = a])
      (use at old(1) in \<open>auto simp: set_event_def update_conv' unstored_def read_outcome_def
        split: option.split\<close>)
next
  case (read i a)
  then show ?thesis using stay_ok [OF assms(2) read(2)] cache_okD(5) [OF assms(2) read(2)] by auto
next
  case (late_start i a e)
  then show ?thesis using stay_ok [OF assms(2) late_start(2)] by auto
next
  case (wait i a d')
  then show ?thesis using stay_ok [OF assms(2) wait(2)]
    by (auto simp: claim_asset_def split: option.splits)
next
  case (wake i a)
  then show ?thesis using stay_ok [OF assms(2) wake(2)] by auto
next
  case (late_wait i a e)
  then show ?thesis using stay_ok [OF assms(2) late_wait(2)] by auto
next
  case (late_read i a e)
  then show ?thesis using stay_ok [OF assms(2) late_read(2)] by auto
qed

lemma cache_steps_ok:
  "(cache_step client)\<^sup>*\<^sup>* (new_cache assets) c \<Longrightarrow> cache_ok client c"
  by (induction rule: rtranclp_induct) (auto intro: new_cache_ok cache_step_ok)

text \<open>Two threads ask for one asset; the client answers 7, both get it.\<close>

definition two_callers :: "(nat, nat) quote_cache" where
  "two_callers = \<lparr>qc_events = [(1, True)], qc_prices = [(1, 7)], qc_errors = [], qc_calls = [1],
     qc_callers = [Done 1 (Inr 7), Done 1 (Inr 7)]\<rparr>"

definition one_waits :: "(nat, nat) quote_cache" where
  "one_waits = \<lparr>qc_events = [(1, False)], qc_prices = [], qc_errors = [], qc_calls = [],
     qc_callers = [Owning 1, Waiting 1]\<rparr>"

lemma one_waits_reached:
  "(cache_step (\<lambda>_ _. Inr 7))\<^sup>*\<^sup>* (new_cache [1, 1]) one_waits"
proof -
  let ?step = "cache_step (\<lambda>_ (_ :: nat). Inr (7 :: nat))" and ?c0 = "new_cache [1 :: nat, 1]"
  let ?c1 = "?c0\<lparr>qc_events := [(1, False)], qc_callers := [Owning 1, Asking 1]\<rparr>"
  have "?step ?c0 ?c1"
    using cache_step.own [of ?c0 0 1 "?c0\<lparr>qc_events := [(1, False)]\<rparr>" "\<lambda>_ _. Inr 7"]
    by (simp add: new_cache_def at_point_def claim_asset_def move_def)
  moreover have "?step ?c1 one_waits"
    using cache_step.wait [of ?c1 1 1 ?c1]
    by (simp add: new_cache_def at_point_def claim_asset_def move_def one_waits_def)
  ultimately show ?thesis by (meson converse_rtranclp_into_rtranclp r_into_rtranclp)
qed

lemma two_callers_reached:
  "(cache_step (\<lambda>_ _. Inr 7))\<^sup>*\<^sup>* (new_cache [1, 1]) two_callers"
proof -
  let ?step = "cache_step (\<lambda>_ (_ :: nat). Inr (7 :: nat))"
  let ?c3 = "one_waits\<lparr>qc_calls := [1], qc_callers := [Answered 1 (Inr 7), Waiting 1]\<rparr>"
  let ?c4 = "?c3\<lparr>qc_prices := [(1, 7)], qc_callers := [Stored 1, Waiting 1]\<rparr>"
  let ?c5 = "?c4\<lparr>qc_events := [(1, True)], qc_callers := [Reading 1, Waiting 1]\<rparr>"
  let ?c6 = "?c5\<lparr>qc_callers := [Reading 1, Reading 1]\<rparr>"
  let ?c7 = "?c6\<lparr>qc_callers := [Done 1 (Inr 7), Reading 1]\<rparr>"
  have "?step one_waits ?c3"
    using cache_step.call [of one_waits 0 1] by (simp add: one_waits_def at_point_def move_def answer_def)
  moreover have "?step ?c3 ?c4"
    using cache_step.store [of ?c3 0 1 "Inr 7"]
    by (simp add: one_waits_def at_point_def move_def store_outcome_def)
  moreover have "?step ?c4 ?c5"
    using cache_step.signal [of ?c4 0 1] by (simp add: one_waits_def at_point_def move_def set_event_def)
  moreover have "?step ?c5 ?c6"
    using cache_step.wake [of ?c5 1 1] by (simp add: one_waits_def at_point_def move_def)
  moreover have "?step ?c6 ?c7"
    using cache_step.read [of ?c6 0 1] by (simp add: one_waits_def at_point_def move_def read_outcome_def)
  moreover have "?step ?c7 two_callers"
    using cache_step.read [of ?c7 1 1]
    by (simp add: one_waits_def two_callers_def at_point_def move_def read_outcome_def)
  ultimately show ?thesis using one_waits_reached by (meson rtranclp.rtrancl_into_rtrancl)
qed

text \<open>
  C35: under every interleaving of the threads the client is asked at most once for an asset;
  a call that ends without a deadline ends in what the client gave, the same for all callers.
\<close>

theorem one_price_per_asset:
  assumes "(cache_step client)\<^sup>*\<^sup>* (new_cache assets) c"
    and "at_point c i (Done a r)" "at_point c j (Done a s)"
  shows "distinct (qc_calls c)
    \<and> (\<not> (\<exists>e. r = Inl e \<and> is_deadline e) \<longrightarrow> (\<exists>h. r = client h a))
    \<and> (r = s \<or> (\<exists>e. r = Inl e \<and> is_deadline e) \<or> (\<exists>e. s = Inl e \<and> is_deadline e))"
proof -
  let ?late = "\<lambda>r. \<exists>e. r = Inl e \<and> is_deadline e"
  note ok = cache_okD [OF cache_steps_ok [OF assms(1)]]
  have r: "?late r \<or> map_of (qc_events c) a = Some True \<and> r = read_outcome a c"
    and s: "?late s \<or> map_of (qc_events c) a = Some True \<and> s = read_outcome a c"
    using ok(5) [OF assms(2)] ok(5) [OF assms(3)] by auto
  have "?late r \<or> genuine client a r" using r ok(4) [of a] by blast
  then have "\<not> ?late r \<longrightarrow> (\<exists>h. r = client h a)" unfolding genuine_def by blast
  with r s ok(1) show ?thesis by blast
qed

lemma one_price_per_asset_witness:
  "distinct (qc_calls two_callers) \<and> (\<exists>h :: nat list. Inr 7 = (\<lambda>_ _. Inr 7 :: nat result) h (1 :: nat))"
  using one_price_per_asset [OF two_callers_reached, of 0 1 "Inr 7" 1 "Inr 7"]
  by (simp add: two_callers_def at_point_def)

text \<open>
  No wake-up is lost: a thread that waits for an asset can go on, or the event is still the
  task of a thread that asks the client or stores its answer, which takes a step in any state.
\<close>

theorem waiter_is_woken:
  assumes "(cache_step client)\<^sup>*\<^sup>* (new_cache assets) c" "at_point c i (Waiting a)"
  shows "map_of (qc_events c) a = Some True
    \<or> (\<exists>j t d. at_point c j t \<and> owner_of t = Some a \<and> cache_step client c d \<and> \<not> at_point d j t)"
proof (cases "map_of (qc_events c) a")
  case None
  then show ?thesis using cache_okD(5) [OF cache_steps_ok [OF assms(1)] assms(2)] by simp
next
  case (Some b)
  show ?thesis
  proof (cases b)
    case False
    with Some cache_okD(7) [OF cache_steps_ok [OF assms(1)]]
    obtain j where j: "j < length (qc_callers c)" "owner_of (qc_callers c ! j) = Some a" by auto
    then have at: "at_point c j (qc_callers c ! j)" by (simp add: at_point_def)
    have "\<exists>d. cache_step client c d \<and> \<not> at_point d j (qc_callers c ! j)"
    proof (cases "qc_callers c ! j")
      case (Owning x)
      with at j cache_step.call [of c j x client "client (qc_calls c) x"] show ?thesis
        by (auto simp: answer_def at_point_def intro!: exI)
    next
      case (Answered x r)
      with at j cache_step.store [of c j x r client] show ?thesis
        by (auto simp: at_point_def store_other intro!: exI)
    next
      case (Stored x)
      with at j cache_step.signal [of c j x client] show ?thesis
        by (auto simp: at_point_def set_event_def intro!: exI)
    qed (use j in auto)
    with at j show ?thesis by blast
  qed (use Some in simp)
qed

lemma waiter_is_woken_witness:
  "\<exists>j t d. at_point one_waits j t \<and> owner_of t = Some 1
    \<and> cache_step (\<lambda>_ _. Inr 7) one_waits d \<and> \<not> at_point d j t"
  using waiter_is_woken [OF one_waits_reached, of 1 1] by (simp add: one_waits_def at_point_def)

section \<open>All-or-nothing fanout\<close>

text \<open>\<open>complete_parallel\<close>, from the state in which the pool stops.\<close>

definition complete_parallel :: "nat \<Rightarrow> 'r pool \<Rightarrow> 'r list result" where
  "complete_parallel n p =
     (if pending n p \<noteq> [] then Inl (StageDeadlineExceeded ''quote candidate deadline exceeded'')
      else if errors p \<noteq> [] then Inl (the (map_of (errors p) (Min (set (map fst (errors p))))))
      else Inr (map (\<lambda>i. the (map_of (completed p) i)) (sort (map fst (completed p)))))"

text \<open>The reference is \<open>map_results\<close>: one call after another, up to the first that raises.\<close>

lemma map_results_all:
  "(\<And>i. i < length items \<Longrightarrow> f (items ! i) = Inr (g i))
    \<Longrightarrow> map_results f items = Inr (map g [0..<length items])"
proof (induction items arbitrary: g)
  case (Cons x items)
  have "map_results f items = Inr (map (\<lambda>i. g (Suc i)) [0..<length items])"
    using Cons.prems [of "Suc i" for i] by (intro Cons.IH) auto
  moreover have "map g [0..<length (x # items)] = g 0 # map (\<lambda>i. g (Suc i)) [0..<length items]"
    by (simp add: map_upt_Suc del: upt_Suc)
  ultimately show ?case using Cons.prems [of 0] by simp
qed simp

lemma map_results_first:
  "i < length items \<Longrightarrow> f (items ! i) = Inl e \<Longrightarrow> (\<And>j. j < i \<Longrightarrow> \<exists>v. f (items ! j) = Inr v)
    \<Longrightarrow> map_results f items = Inl e"
proof (induction items arbitrary: i)
  case (Cons x items)
  show ?case
  proof (cases i)
    case (Suc k)
    have "map_results f items = Inl e"
      using Cons.prems Cons.prems(3) [of "Suc j" for j] by (intro Cons.IH [of k]) (auto simp: Suc)
    moreover obtain v where "f x = Inr v" using Cons.prems(3) [of 0] by (auto simp: Suc)
    ultimately show ?thesis by simp
  qed (use Cons.prems in simp)
qed simp

text \<open>
  C36: whatever the interleaving of the workers, the fanout ends as the calls one after
  another would, or in a deadline: the values of all inputs in their order, or the error of
  the first input that fails; never a part of the values.
\<close>

theorem fanout_is_sequential:
  assumes "(pool_step f d items workers)\<^sup>*\<^sup>* (start_pool (length items) now) p"
  shows "complete_parallel (length items) p = map_results f items
    \<or> (\<exists>e. complete_parallel (length items) p = Inl e \<and> is_deadline e)"
proof -
  let ?n = "length items" and ?C = "completed p" and ?E = "errors p"
  have ok: "pool_ok f d items workers p" by (rule pool_steps_ok [OF assms])
  have dist: "distinct (map fst ?C)" "distinct (map fst ?E)"
    and range: "fst ` set ?C \<union> fst ` set ?E \<subseteq> {0..<?n}"
    and good: "\<And>i v. (i, v) \<in> set ?C \<Longrightarrow> f (items ! i) = Inr v"
    and bad: "\<And>i e. (i, e) \<in> set ?E \<Longrightarrow> f (items ! i) = Inl e \<or> is_deadline e"
    using ok by (auto simp: pool_ok_def all_indexes_def)
  show ?thesis
  proof (cases "pending ?n p = []")
    case True
    then have all: "i < ?n \<Longrightarrow> i \<in> fst ` set ?C \<union> fst ` set ?E" for i
      by (auto simp: pending_def filter_empty_conv)
    show ?thesis
    proof (cases "?E = []")
      case no_errors: True
      have C: "i < ?n \<Longrightarrow> f (items ! i) = Inr (the (map_of ?C i))" for i
        using all [of i] no_errors dist(1) good by auto
      have "set (map fst ?C) = {0..<?n}" using all range no_errors by auto
      then have "sort (map fst ?C) = [0..<?n]"
        using dist(1) by (metis sorted_list_of_set_range sorted_list_of_set_sort_remdups distinct_remdups_id)
      with True no_errors map_results_all [of items f, OF C] show ?thesis
        by (simp add: complete_parallel_def)
    next
      case False
      let ?i = "Min (fst ` set ?E)"
      have i: "?i \<in> fst ` set ?E" using False by (intro Min_in) auto
      then obtain e where e: "(?i, e) \<in> set ?E" "map_of ?E ?i = Some e" using dist(2) by force
      have before: "j < ?i \<Longrightarrow> \<exists>v. f (items ! j) = Inr v" for j
      proof -
        assume j: "j < ?i"
        have "?i \<in> {0..<?n}" using range i by blast
        with j have "j \<in> fst ` set ?C \<union> fst ` set ?E" by (intro all) simp
        moreover have "j \<notin> fst ` set ?E" using j by (meson List.finite_set Min_le finite_imageI leD)
        ultimately show ?thesis using good by force
      qed
      have "complete_parallel ?n p = Inl e"
        using True False e(2) by (simp add: complete_parallel_def)
      moreover have "map_results f items = Inl e \<or> is_deadline e"
        using bad [OF e(1)] i range before map_results_first [of ?i items f e] by auto
      ultimately show ?thesis by auto
    qed
  qed (simp add: complete_parallel_def)
qed

lemma fanout_is_sequential_witness:
  "complete_parallel 2 (start_pool 2 0) = Inl (StageDeadlineExceeded ''quote candidate deadline exceeded'')
    \<and> (complete_parallel 2 (start_pool 2 0) = map_results (\<lambda>x. Inr x) [5, 6 :: nat]
      \<or> (\<exists>e. complete_parallel 2 (start_pool 2 0 :: nat pool) = Inl e \<and> is_deadline e))"
  using fanout_is_sequential [of "\<lambda>x. Inr x" sample_deadline "[5, 6 :: nat]" 1 0 "start_pool 2 0"]
  by (simp add: complete_parallel_def start_pool_def pending_def upt_rec)

end
