(* ===== verification/Defi_Batch.thy ===== *)
theory Defi_Batch
  imports Defi_Frames Route_Errors
begin

text \<open>
  The durable queue of a reviewed set of withdrawal wallets (\<open>defi_batch.py\<close>): its tables, the
  creation of a run, the end of a wallet, and the random deadlines that a broadcast transaction
  sets for the same wallet and for the next one. A \<open>now\<close> is an argument; the random generator is
  a parameter. Amounts of wei, which the tables keep as text, are integers. The columns that an older file lacks (\<open>ALTER TABLE\<close>) are present from the start.
\<close>

named_theorems batch_defs \<open>definitions of the queue's operations\<close>

section \<open>Tables\<close>

record batch_run =
  br_id :: string
  br_workbook :: string
  br_db :: string
  br_output :: string
  br_seed :: string
  br_cap :: int
  br_delay_min :: int
  br_delay_max :: int
  br_within_min :: int
  br_within_max :: int
  br_status :: string
  br_created :: rat
  br_completed :: "rat option"

record batch_wallet =
  bw_run :: string
  bw_ordinal :: int
  bw_wallet :: string
  bw_index :: "nat option"
  bw_status :: string
  bw_due :: "rat option"
  bw_attempts :: nat
  bw_expected :: nat
  bw_observed :: nat
  bw_error :: "string option"
  bw_started :: "rat option"
  bw_completed :: "rat option"

record batch_action =
  ba_run :: string
  ba_ordinal :: int
  ba_action :: string
  ba_plan :: string
  ba_path :: string
  ba_status :: string
  ba_hash :: pyval
  ba_reason :: pyval
  ba_updated :: rat

record batch_tx =
  bt_hash :: string
  bt_run :: string
  bt_ordinal :: int
  bt_action :: string
  bt_observed :: rat
  bt_next :: rat
  bt_same :: rat

record batch_outcome =
  bo_id :: nat
  bo_run :: string
  bo_ordinal :: int
  bo_action :: pyval
  bo_protocol :: pyval
  bo_chain :: pyval
  bo_size :: string
  bo_usd :: pyval
  bo_symbol :: "string option"
  bo_before :: "int option"
  bo_after :: "int option"
  bo_status :: string
  bo_reason :: pyval
  bo_error :: pyval
  bo_fee :: "string option"
  bo_hash :: pyval
  bo_observed :: rat

record batch_baseline =
  bb_run :: string
  bb_ordinal :: int
  bb_action :: string
  bb_symbol :: "string option"
  bb_before :: "int option"

text \<open>
  The database of the worker, with the journal and the stored plans that other parts of the
  program keep in it; the clock; and everything outside.
\<close>

record 'w outside =
  o_journal :: journal
  o_plans :: "(string \<times> string) list"
  o_time :: rat
  o_world :: 'w

record 'w batch =
  b_runs :: "batch_run list"
  b_wallets :: "batch_wallet list"
  b_actions :: "batch_action list"
  b_txs :: "batch_tx list"
  b_outcomes :: "batch_outcome list"
  b_baselines :: "batch_baseline list"
  b_out :: "'w outside"

text \<open>\<open>ORDER BY key LIMIT 1\<close>: of rows with equal keys the first one is taken.\<close>

definition least_row :: "('r \<Rightarrow> 'k :: linorder) \<Rightarrow> 'r list \<Rightarrow> 'r option" where
  "least_row key rows = (case rows of
      [] \<Rightarrow> None
    | r # rs \<Rightarrow> Some (fold (\<lambda>x best. if key x < key best then x else best) rs r))"

definition greatest_row :: "('r \<Rightarrow> rat) \<Rightarrow> 'r list \<Rightarrow> 'r option" where
  "greatest_row key rows = least_row (\<lambda>r. - key r) rows"

definition find_run :: "string \<Rightarrow> 'w batch \<Rightarrow> batch_run option" where
  "find_run run b = select_one (\<lambda>r. br_id r = run) (b_runs b)"

definition is_wallet :: "string \<Rightarrow> int \<Rightarrow> batch_wallet \<Rightarrow> bool" where
  "is_wallet run ordinal w \<longleftrightarrow> bw_run w = run \<and> bw_ordinal w = ordinal"

definition find_wallet :: "string \<Rightarrow> int \<Rightarrow> 'w batch \<Rightarrow> batch_wallet option" where
  "find_wallet run ordinal b = select_one (is_wallet run ordinal) (b_wallets b)"

definition upd_wallet :: "string \<Rightarrow> int \<Rightarrow> (batch_wallet \<Rightarrow> batch_wallet) \<Rightarrow> 'w batch \<Rightarrow> 'w batch" where
  "upd_wallet run ordinal f b = b\<lparr>b_wallets := update_where (is_wallet run ordinal) f (b_wallets b)\<rparr>"

section \<open>A new run\<close>

record batch_request =
  rq_run :: string
  rq_workbook :: string
  rq_db :: string
  rq_output :: string
  rq_count :: int
  rq_ordinals :: "string option"
  rq_cap :: int
  rq_delay_min :: int
  rq_delay_max :: int
  rq_within_min :: int
  rq_within_max :: int

definition valid_limits :: "batch_request \<Rightarrow> bool" where
  "valid_limits q \<longleftrightarrow> 0 < rq_count q \<and> 0 < rq_cap q
     \<and> 0 < rq_delay_min q \<and> rq_delay_min q \<le> rq_delay_max q
     \<and> 0 < rq_within_min q \<and> rq_within_min q \<le> rq_within_max q"

text \<open>The loop of \<open>any\<close>: a wallet that is a list or a dict is not hashable.\<close>

fun out_of_scope :: "string list \<Rightarrow> pyval list \<Rightarrow> bool result" where
  "out_of_scope selected [] = Inr False"
| "out_of_scope selected (e # es) = (case e of
      PDict d \<Rightarrow> (case get d ''wallet'' of
          PStr a \<Rightarrow> if a \<in> set selected then out_of_scope selected es else Inr True
        | PList _ \<Rightarrow> Inl TypeError
        | PDict _ \<Rightarrow> Inl TypeError
        | _ \<Rightarrow> Inr True)
    | _ \<Rightarrow> Inr True)"

definition check_entries :: "string list \<Rightarrow> pyval \<Rightarrow> unit result" where
  "check_entries selected entries = (case entries of
      PList es \<Rightarrow> bind_result (out_of_scope selected es) (\<lambda>outside.
        require (\<not> outside) (ValueError ''seed DeFi plan contains an out-of-scope wallet''))
    | _ \<Rightarrow> Inl (ValueError ''seed DeFi plan contains an out-of-scope wallet''))"

text \<open>\<open>ready\<close>: how many ready actions the seed plan has for a wallet.\<close>

definition is_ready :: "string \<Rightarrow> pyval \<Rightarrow> bool" where
  "is_ready a e = (case e of
      PDict d \<Rightarrow> get d ''status'' = PStr ''ready'' \<and> is_str (get d ''action_id'') \<and> get d ''wallet'' = PStr a
    | _ \<Rightarrow> False)"

definition ready_count :: "pyval \<Rightarrow> string \<Rightarrow> nat" where
  "ready_count entries a = (case entries of PList xs \<Rightarrow> length (filter (is_ready a) xs) | _ \<Rightarrow> 0)"

fun position_of :: "int \<Rightarrow> (int \<times> string) list \<Rightarrow> nat option" where
  "position_of k [] = None"
| "position_of k ((n, a) # rows) = (if n = k then Some 0 else map_option Suc (position_of k rows))"

definition new_wallet ::
  "string \<Rightarrow> rat \<Rightarrow> pyval \<Rightarrow> (int \<times> string) list \<Rightarrow> int \<times> string \<Rightarrow> batch_wallet" where
  "new_wallet run now entries queue row = (case row of (ordinal, a) \<Rightarrow>
     \<lparr>bw_run = run, bw_ordinal = ordinal, bw_wallet = a, bw_index = position_of ordinal queue,
      bw_status = (if position_of ordinal queue \<noteq> None then ''queued'' else ''no_ready''),
      bw_due = (if position_of ordinal queue = Some 0 then Some now else None), bw_attempts = 0,
      bw_expected = ready_count entries a, bw_observed = 0, bw_error = None, bw_started = None,
      bw_completed = None\<rparr>)"

definition new_run :: "batch_request \<Rightarrow> string \<Rightarrow> rat \<Rightarrow> batch_run" where
  "new_run q digest now =
     \<lparr>br_id = rq_run q, br_workbook = rq_workbook q, br_db = rq_db q, br_output = rq_output q,
      br_seed = digest, br_cap = rq_cap q, br_delay_min = rq_delay_min q,
      br_delay_max = rq_delay_max q, br_within_min = rq_within_min q,
      br_within_max = rq_within_max q, br_status = ''running'', br_created = now,
      br_completed = None\<rparr>"

text \<open>
  \<open>initialize_batch\<close>: the workbook rows (ordinal and address), the bytes of the seed plan with
  their digest and the plan stored under it, the decoded plan and the shuffle are arguments.
\<close>

definition initialize_batch ::
  "batch_request \<Rightarrow> (int \<times> string) list \<Rightarrow> string \<Rightarrow> string \<Rightarrow> (string \<Rightarrow> pyval result)
     \<Rightarrow> ((int \<times> string) list \<Rightarrow> (int \<times> string) list) \<Rightarrow> rat \<Rightarrow> ('w batch, pydict) action" where
  "initialize_batch q rows plan_bytes digest loads shuffle now b =
     (if \<not> valid_limits q then (Inl (ValueError ''invalid DeFi batch limits''), b)
      else if rows = [] \<or> rq_ordinals q = None \<and> int (length rows) \<noteq> rq_count q
      then (Inl (ValueError ''wallet workbook does not contain the requested ordinal range''), b)
      else if map_of (o_plans (b_out b)) digest \<noteq> Some plan_bytes
      then (Inl (ValueError ''seed DeFi plan is not stored in the project database''), b)
      else case bind_result (loads plan_bytes) as_dict of
        Inl e \<Rightarrow> (Inl e, b)
      | Inr decoded \<Rightarrow>
          let entries = get_default decoded ''entries'' (PList []);
              queue = shuffle (filter (\<lambda>row. 0 < ready_count entries (snd row)) rows) in
          if get decoded ''schema'' \<noteq> PStr ''rabby-defi-withdraw-v1''
          then (Inl (ValueError ''invalid seed DeFi plan''), b)
          else case check_entries (map snd rows) entries of
            Inl e \<Rightarrow> (Inl e, b)
          | Inr _ \<Rightarrow>
          if find_run (rq_run q) b \<noteq> None
          then (Inl (ValueError ''DeFi batch run already exists''), b)
          else if \<not> distinct (map fst rows)
            \<or> list_ex (\<lambda>w. bw_run w = rq_run q \<and> bw_ordinal w \<in> fst ` set rows) (b_wallets b)
          then (Inl (OtherError ''IntegrityError''), b)
          else (Inr [(''run_id'', PStr (rq_run q)), (''wallets'', PInt (int (length rows))),
                  (''queued'', PInt (int (length queue))),
                  (''no_ready'', PInt (int (length rows) - int (length queue))),
                  (''seed_plan_sha256'', PStr digest)],
                b\<lparr>b_runs := b_runs b @ [new_run q digest now],
                  b_wallets := b_wallets b @ map (new_wallet (rq_run q) now entries queue) rows\<rparr>))"

section \<open>The end of a wallet\<close>

definition final_statuses :: "string list" where
  "final_statuses = [''done'', ''no_ready'', ''manual_review'', ''failed'']"

definition unfinished :: "batch_wallet \<Rightarrow> bool" where
  "unfinished w \<longleftrightarrow> bw_status w \<in> {''queued'', ''active''}"

definition finish_wallet :: "string \<Rightarrow> rat \<Rightarrow> batch_wallet \<Rightarrow> batch_wallet" where
  "finish_wallet status now w = w\<lparr>bw_status := status, bw_completed := Some now\<rparr>"

text \<open>An index that is NULL sorts first.\<close>

definition index_key :: "batch_wallet \<Rightarrow> nat" where
  "index_key w = (case bw_index w of None \<Rightarrow> 0 | Some i \<Rightarrow> Suc i)"

definition queued_after :: "string \<Rightarrow> nat \<Rightarrow> 'w batch \<Rightarrow> batch_wallet option" where
  "queued_after run k b = least_row index_key
     (filter (\<lambda>w. bw_run w = run \<and> bw_status w = ''queued'' \<and> Suc k < index_key w) (b_wallets b))"

definition complete_run :: "string \<Rightarrow> rat \<Rightarrow> 'w batch \<Rightarrow> 'w batch" where
  "complete_run run now b = b\<lparr>b_runs := update_where (\<lambda>r. br_id r = run)
     (\<lambda>r. r\<lparr>br_status := ''completed'', br_completed := Some now\<rparr>) (b_runs b)\<rparr>"

text \<open>The result is the delay, 0 or nothing; the next wallet is due at once.\<close>

definition advance_wallet ::
  "string \<Rightarrow> int \<Rightarrow> string \<Rightarrow> rat \<Rightarrow> ('w batch, int option) action" where
  "advance_wallet run ordinal status now b =
     (if status \<notin> set final_statuses then (Inl (ValueError ''invalid final wallet status''), b)
      else case (find_run run b, find_wallet run ordinal b) of
        (Some _, Some w) \<Rightarrow>
          (case bw_index w of
             None \<Rightarrow> (Inl (ValueError ''unknown queued wallet''), b)
           | Some k \<Rightarrow>
               if \<not> unfinished w then (Inl (ValueError ''wallet is already finished''), b)
               else let done = upd_wallet run ordinal (finish_wallet status now) b in
                 (case queued_after run k done of
                    None \<Rightarrow> (Inr None, complete_run run now done)
                  | Some v \<Rightarrow> (Inr (Some 0), upd_wallet run (bw_ordinal v) (\<lambda>x. x\<lparr>bw_due := Some now\<rparr>) done)))
      | _ \<Rightarrow> (Inl (ValueError ''unknown queued wallet''), b))"

section \<open>Deadlines after a transaction\<close>

text \<open>
  \<open>randint(a, b)\<close> of the generator, which raises when the range is empty; the first draw is
  the delay to another wallet, the second one the delay within the wallet.
\<close>

type_synonym 'w draw = "int \<Rightarrow> int \<Rightarrow> 'w outside \<Rightarrow> int \<times> 'w outside"

definition randint :: "'w draw \<Rightarrow> int \<Rightarrow> int \<Rightarrow> ('w batch, int) action" where
  "randint draw lo hi b =
     (if hi < lo then (Inl (ValueError ''empty range for randrange()''), b)
      else case draw lo hi (b_out b) of (n, w) \<Rightarrow> (Inr n, b\<lparr>b_out := w\<rparr>))"

definition find_tx :: "string \<Rightarrow> 'w batch \<Rightarrow> batch_tx option" where
  "find_tx h b = select_one (\<lambda>t. bt_hash t = h) (b_txs b)"

definition record_batch_tx ::
  "'w draw \<Rightarrow> batch_run \<Rightarrow> int \<Rightarrow> string \<Rightarrow> string \<Rightarrow> rat \<Rightarrow> ('w batch, rat) action" where
  "record_batch_tx draw run ordinal action h now b = (case find_tx h b of
      Some t \<Rightarrow> (Inr (bt_next t), b)
    | None \<Rightarrow>
        bind_act (randint draw (br_delay_min run) (br_delay_max run)) (\<lambda>between.
        bind_act (randint draw (br_within_min run) (br_within_max run)) (\<lambda>inside c.
        let due = now + of_int between in
        (Inr due, c\<lparr>b_txs := b_txs c @
            [\<lparr>bt_hash = h, bt_run = br_id run, bt_ordinal = ordinal, bt_action = action,
              bt_observed = now, bt_next = due, bt_same = now + of_int inside\<rparr>]\<rparr>))) b)"

definition last_tx :: "string \<Rightarrow> 'w batch \<Rightarrow> batch_tx option" where
  "last_tx run b = greatest_row bt_observed (filter (\<lambda>t. bt_run t = run) (b_txs b))"

definition next_transaction_due :: "string \<Rightarrow> int \<Rightarrow> 'w batch \<Rightarrow> rat option" where
  "next_transaction_due run ordinal b = (case last_tx run b of
      None \<Rightarrow> None
    | Some t \<Rightarrow> Some (if bt_ordinal t = ordinal then bt_same t else bt_next t))"

text \<open>A due time that an older version set for another wallet becomes that of the same wallet.\<close>

definition reconcile_active_wallet_due :: "string \<Rightarrow> 'w batch \<Rightarrow> 'w batch" where
  "reconcile_active_wallet_due run b =
     (case (least_row index_key (filter (\<lambda>w. bw_run w = run \<and> bw_status w = ''active'') (b_wallets b)),
            last_tx run b) of
        (Some w, Some t) \<Rightarrow>
          (case bw_due w of
             Some due \<Rightarrow>
               if bw_ordinal w = bt_ordinal t \<and> \<bar>due - bt_next t\<bar> < 1 / 1000
               then upd_wallet run (bw_ordinal w) (\<lambda>x. x\<lparr>bw_due := Some (bt_same t)\<rparr>) b
               else b
           | None \<Rightarrow> b)
      | _ \<Rightarrow> b)"

section \<open>Status\<close>

record batch_snapshot =
  sn_status :: string
  sn_created :: rat
  sn_completed :: "rat option"
  sn_wallets :: "(string \<times> nat) list"
  sn_actions :: "(string \<times> nat) list"
  sn_next :: "(int \<times> string \<times> rat option \<times> nat) option"
  sn_recent :: "(int \<times> string \<times> rat option) list"

definition count_by :: "string list \<Rightarrow> (string \<times> nat) list" where
  "count_by labels = map (\<lambda>l. (l, length (filter (\<lambda>x. x = l) labels))) (sort (remdups labels))"

definition next_wallet :: "string \<Rightarrow> 'w batch \<Rightarrow> batch_wallet option" where
  "next_wallet run b =
     least_row index_key (filter (\<lambda>w. bw_run w = run \<and> unfinished w) (b_wallets b))"

definition batch_status :: "string \<Rightarrow> 'w batch \<Rightarrow> batch_snapshot result" where
  "batch_status run b = (case find_run run b of
      None \<Rightarrow> Inl (ValueError ''unknown DeFi batch run'')
    | Some r \<Rightarrow> Inr
        \<lparr>sn_status = br_status r, sn_created = br_created r, sn_completed = br_completed r,
         sn_wallets = count_by (map bw_status (filter (\<lambda>w. bw_run w = run) (b_wallets b))),
         sn_actions = count_by (map ba_status (filter (\<lambda>a. ba_run a = run) (b_actions b))),
         sn_next = map_option (\<lambda>w. (bw_ordinal w, bw_status w, bw_due w, bw_attempts w)) (next_wallet run b),
         sn_recent = map (\<lambda>w. (bw_ordinal w, bw_status w, bw_completed w)) (take 5
           (sort_key (\<lambda>w. - (case bw_completed w of None \<Rightarrow> 0 | Some t \<Rightarrow> t))
             (filter (\<lambda>w. bw_run w = run \<and> bw_completed w \<noteq> None) (b_wallets b))))\<rparr>)"

end
