(* ===== verification/Defi_Worker.thy ===== *)
theory Defi_Worker
  imports Defi_Batch
begin

text \<open>
  The worker of the withdrawal queue (\<open>defi_batch.py\<close>): what it does for one wallet, and the
  loop over the queue. The operation that quotes or executes (\<open>invoke\<close>) and the reader of a
  native balance are arguments of the code and parameters here, as are the files, SHA-256, JSON,
  the random generator and the texts of values. Logging is left out.
\<close>

section \<open>Environment\<close>

record command =
  cr_code :: int
  cr_payload :: pyval
  cr_reason :: string
  cr_detail :: "string option"

record batch_operation =
  po_kind :: string
  po_ordinal :: int
  po_workbook :: string
  po_db :: string
  po_wallets :: "string option"
  po_output :: "string option"
  po_plan :: "string option"
  po_digest :: "string option"
  po_action :: "string option"
  po_cap :: "int option"
  po_execute :: bool

record 'w worker_env =
  we_invoke :: "batch_operation \<Rightarrow> 'w outside \<Rightarrow> command \<times> 'w outside"
  we_native :: "pyval \<Rightarrow> string \<Rightarrow> 'w outside \<Rightarrow> (string option \<times> int option) result \<times> 'w outside"
  we_draw :: "'w draw"
  we_sha :: "string \<Rightarrow> string"
  we_loads :: "string \<Rightarrow> pyval result"
  we_dumps :: "pyval \<Rightarrow> string"
  we_detail :: "pyval \<Rightarrow> string"
  we_text :: "pyval \<Rightarrow> string"
  we_read :: "string \<Rightarrow> 'w outside \<Rightarrow> string result"
  we_write :: "string \<Rightarrow> string \<Rightarrow> 'w outside \<Rightarrow> unit result \<times> 'w outside"
  we_stamp :: "'w outside \<Rightarrow> string \<times> 'w outside"

definition on_out :: "('w outside \<Rightarrow> 'a result \<times> 'w outside) \<Rightarrow> ('w batch, 'a) action" where
  "on_out m b = (case m (b_out b) of (r, w) \<Rightarrow> (r, b\<lparr>b_out := w\<rparr>))"

definition call_op :: "'w worker_env \<Rightarrow> batch_operation \<Rightarrow> ('w batch, command) action" where
  "call_op env po = on_out (\<lambda>w. case we_invoke env po w of (r, v) \<Rightarrow> (Inr r, v))"

definition time_now :: "('w batch, rat) action" where
  "time_now b = (Inr (o_time (b_out b)), b)"

definition sleep_for :: "rat \<Rightarrow> ('w batch, unit) action" where
  "sleep_for s = on_out (\<lambda>w. (Inr (), w\<lparr>o_time := o_time w + s\<rparr>))"

definition change :: "('w batch \<Rightarrow> 'w batch) \<Rightarrow> ('w batch, unit) action" where
  "change f b = (Inr (), f b)"

definition look :: "('w batch \<Rightarrow> 'a) \<Rightarrow> ('w batch, 'a) action" where
  "look f b = (Inr (f b), b)"

definition native_of :: "'w worker_env \<Rightarrow> pydict \<Rightarrow> string \<Rightarrow> ('w batch, string option \<times> int option) action" where
  "native_of env entry a = bind_act (lift (item (PDict entry) ''chain_id'')) (\<lambda>c. on_out (we_native env c a))"

definition execute_operation :: "batch_run \<Rightarrow> int \<Rightarrow> string \<Rightarrow> string \<Rightarrow> string \<Rightarrow> bool \<Rightarrow> batch_operation" where
  "execute_operation run ordinal action digest file execute =
     \<lparr>po_kind = ''execute-defi'', po_ordinal = ordinal, po_workbook = br_workbook run,
      po_db = br_db run, po_wallets = None, po_output = None, po_plan = Some file,
      po_digest = Some digest, po_action = Some action, po_cap = Some (br_cap run),
      po_execute = execute\<rparr>"

definition quote_operation :: "batch_run \<Rightarrow> int \<Rightarrow> string \<Rightarrow> string \<Rightarrow> batch_operation" where
  "quote_operation run ordinal wallets file =
     \<lparr>po_kind = ''quote-defi'', po_ordinal = ordinal, po_workbook = br_workbook run,
      po_db = br_db run, po_wallets = Some wallets, po_output = Some file, po_plan = None,
      po_digest = None, po_action = None, po_cap = None, po_execute = False\<rparr>"

text \<open>\<open>_run_operation\<close>: what an exception of the operation becomes.\<close>

definition estimate_gas_error :: "string \<Rightarrow> bool" where
  "estimate_gas_error m \<longleftrightarrow> starts_with ''estimate_gas_'' m \<and> length m > 13
     \<and> list_all (\<lambda>c. is_digit c \<or> c = CHR ''_'' \<or> 65 \<le> code_of c \<and> code_of c \<le> 90
          \<or> 97 \<le> code_of c \<and> code_of c \<le> 122) (drop 13 m)"

definition failure_reason :: "exn_view \<Rightarrow> exn \<Rightarrow> string" where
  "failure_reason ev e =
     (let m = error_text ev e in
      if (case e of HttpStatusError s _ _ \<Rightarrow> s = 429 | _ \<Rightarrow> False) then ''http_429''
      else if starts_with ''DeFi plan is stale'' m then ''stale_plan''
      else if estimate_gas_error m then ''gas_estimate_rpc_error''
      else if starts_with ''ethereum_gas_deferred:'' m then ''ethereum_gas_deferred''
      else type_name e)"

definition failure_code :: "exn \<Rightarrow> int" where
  "failure_code e =
     (if (case e of HttpStatusError _ _ _ \<Rightarrow> True | TransportError _ \<Rightarrow> True | RpcError _ \<Rightarrow> True
          | AmbiguousBroadcast _ \<Rightarrow> True
          | OtherError t \<Rightarrow> t \<in> {''RequestError'', ''OperationalError''} | _ \<Rightarrow> False) then 4
      else if is_value_error e \<or> is_timeout_error e
        \<or> (case e of OtherError t \<Rightarrow> t \<in> {''OSError'', ''FileNotFoundError''} | _ \<Rightarrow> False) then 2
      else 1)"

definition operation_outcome :: "exn_view \<Rightarrow> (exn \<Rightarrow> string) \<Rightarrow> pyval result \<Rightarrow> command" where
  "operation_outcome ev detail r = (case r of
      Inr payload \<Rightarrow> \<lparr>cr_code = 0, cr_payload = payload, cr_reason = [], cr_detail = None\<rparr>
    | Inl e \<Rightarrow> \<lparr>cr_code = failure_code e, cr_payload = PNone, cr_reason = failure_reason ev e,
        cr_detail = Some (detail e)\<rparr>)"

section \<open>Rows\<close>

text \<open>Values that SQLite binds; a container raises.\<close>

definition bindable :: "pyval \<Rightarrow> unit result" where
  "bindable v = (case v of
      PNone \<Rightarrow> Inr () | PBool _ \<Rightarrow> Inr () | PInt _ \<Rightarrow> Inr () | PFloat _ \<Rightarrow> Inr () | PStr _ \<Rightarrow> Inr ()
    | _ \<Rightarrow> Inl (OtherError ''ProgrammingError''))"

definition is_action :: "string \<Rightarrow> int \<Rightarrow> string \<Rightarrow> batch_action \<Rightarrow> bool" where
  "is_action run ordinal action a \<longleftrightarrow> ba_run a = run \<and> ba_ordinal a = ordinal \<and> ba_action a = action"

definition put_action :: "batch_action \<Rightarrow> 'w batch \<Rightarrow> 'w batch" where
  "put_action a b =
     (let same = is_action (ba_run a) (ba_ordinal a) (ba_action a) in
      if list_ex same (b_actions b)
      then b\<lparr>b_actions := update_where same (\<lambda>_. a) (b_actions b)\<rparr>
      else b\<lparr>b_actions := b_actions b @ [a]\<rparr>)"

definition set_action ::
  "string \<Rightarrow> int \<Rightarrow> string \<times> string \<times> string \<Rightarrow> string \<Rightarrow> rat \<Rightarrow> pyval \<Rightarrow> pyval \<Rightarrow> ('w batch, unit) action" where
  "set_action run ordinal plan_action status now h why = (case plan_action of (action, digest, file) \<Rightarrow>
     bind_act (lift (bindable h)) (\<lambda>_. bind_act (lift (bindable why)) (\<lambda>_.
     change (put_action \<lparr>ba_run = run, ba_ordinal = ordinal, ba_action = action, ba_plan = digest,
       ba_path = file, ba_status = status, ba_hash = h, ba_reason = why, ba_updated = now\<rparr>))))"

definition find_action :: "string \<Rightarrow> int \<Rightarrow> string \<Rightarrow> 'w batch \<Rightarrow> batch_action option" where
  "find_action run ordinal action b = select_one (is_action run ordinal action) (b_actions b)"

definition is_baseline :: "string \<Rightarrow> int \<Rightarrow> string \<Rightarrow> batch_baseline \<Rightarrow> bool" where
  "is_baseline run ordinal action x \<longleftrightarrow> bb_run x = run \<and> bb_ordinal x = ordinal \<and> bb_action x = action"

text \<open>\<open>INSERT OR REPLACE\<close>: the row in the way is deleted.\<close>

definition put_baseline :: "batch_baseline \<Rightarrow> 'w batch \<Rightarrow> 'w batch" where
  "put_baseline x b = b\<lparr>b_baselines :=
     filter (\<lambda>y. \<not> is_baseline (bb_run x) (bb_ordinal x) (bb_action x) y) (b_baselines b) @ [x]\<rparr>"

definition value_text :: "'w worker_env \<Rightarrow> pyval \<Rightarrow> string" where
  "value_text env v = (case v of PStr s \<Rightarrow> s | _ \<Rightarrow> we_text env v)"

definition received_part :: "pyval \<Rightarrow> string list" where
  "received_part v = (case v of
      PDict d \<Rightarrow> (case (get d ''raw'', get d ''token_id'') of
          (PStr raw, PStr token) \<Rightarrow>
            (case (get d ''amount'', get d ''symbol'') of
               (PStr amount, PStr symbol) \<Rightarrow>
                 [amount @ '' '' @ symbol @ '' ('' @ raw @ '' raw units of '' @ token @ '')'']
             | _ \<Rightarrow> [raw @ '' raw units of '' @ token])
        | _ \<Rightarrow> [])
    | _ \<Rightarrow> [])"

definition parameter_size :: "'w worker_env \<Rightarrow> pydict \<Rightarrow> string result" where
  "parameter_size env entry =
     bind_result (as_dict (py_or (get entry ''action'') (PDict []))) (\<lambda>action.
     let params = py_or (get action ''str_params'') (PList []) in
     if \<not> py_truthy params then Inr ''amount unavailable''
     else bind_result (elements params) (\<lambda>ps. Inr
       (value_text env (get_default action ''func'' (PStr ''withdraw'')) @ '' raw parameters: ''
        @ join_texts '', '' (map (\<lambda>p. let t = value_text env p in
            if is_address t then ''[address]'' else t) ps))))"

definition size_description :: "'w worker_env \<Rightarrow> pydict \<Rightarrow> pydict \<Rightarrow> string result" where
  "size_description env entry result =
     (let parts = (case get result ''received_assets'' of PList xs \<Rightarrow> concat (map received_part xs) | _ \<Rightarrow> []) in
      if parts \<noteq> [] then Inr (''received '' @ join_texts '', '' parts)
      else case get result ''received_raw'' of
        PStr raw \<Rightarrow> Inr (''received '' @ raw @ '' raw units of ''
          @ value_text env (py_or (get result ''received_token_id'') (PStr ''unknown token'')))
      | _ \<Rightarrow> parameter_size env entry)"

text \<open>\<open>INSERT OR IGNORE\<close> with one row for a run, ordinal, action and status; NULL is no duplicate.\<close>

definition put_outcome :: "batch_outcome \<Rightarrow> 'w batch \<Rightarrow> 'w batch" where
  "put_outcome x b =
     (if bo_action x \<noteq> PNone \<and> list_ex (\<lambda>y. bo_run y = bo_run x \<and> bo_ordinal y = bo_ordinal x
        \<and> bo_action y = bo_action x \<and> bo_status y = bo_status x) (b_outcomes b)
      then b
      else b\<lparr>b_outcomes := b_outcomes b @ [x\<lparr>bo_id := next_rowid bo_id (b_outcomes b)\<rparr>]\<rparr>)"

text \<open>A result that is not given is the empty dict.\<close>

definition record_outcome ::
  "'w worker_env \<Rightarrow> string \<Rightarrow> int \<Rightarrow> pydict \<Rightarrow> string \<Rightarrow> pyval \<Rightarrow> pyval \<Rightarrow> string option \<Rightarrow> int option
     \<Rightarrow> int option \<Rightarrow> pydict \<Rightarrow> string option \<Rightarrow> ('w batch, unit) action" where
  "record_outcome env run ordinal entry status why h symbol before after result detail =
     bind_act time_now (\<lambda>now.
     bind_act (lift (size_description env entry result)) (\<lambda>size.
     let protocol = py_or (py_or (get entry ''protocol_name'') (get entry ''protocol_id'')) (PStr ''unknown'');
         err = (case detail of Some (c # t) \<Rightarrow> PStr (c # t) | _ \<Rightarrow> get result ''verification_detail'');
         fee = (case get result ''fee_quote'' of PDict d \<Rightarrow> Some (we_dumps env (PDict d)) | _ \<Rightarrow> None) in
     bind_act (lift (bindable (get entry ''action_id''))) (\<lambda>_.
     bind_act (lift (bindable protocol)) (\<lambda>_.
     bind_act (lift (bindable (get entry ''chain_id''))) (\<lambda>_.
     bind_act (lift (bindable (get entry ''net_usd_value''))) (\<lambda>_.
     bind_act (lift (bindable why)) (\<lambda>_.
     bind_act (lift (bindable err)) (\<lambda>_.
     bind_act (lift (bindable h)) (\<lambda>_.
     change (put_outcome
       \<lparr>bo_id = 0, bo_run = run, bo_ordinal = ordinal, bo_action = get entry ''action_id'',
        bo_protocol = protocol, bo_chain = get entry ''chain_id'', bo_size = size,
        bo_usd = get entry ''net_usd_value'', bo_symbol = symbol, bo_before = before,
        bo_after = after, bo_status = status, bo_reason = why, bo_error = err, bo_fee = fee,
        bo_hash = h, bo_observed = now\<rparr>))))))))))"

section \<open>Retries\<close>

definition retry_wallet :: "string \<Rightarrow> int \<Rightarrow> rat \<Rightarrow> string \<Rightarrow> bool \<Rightarrow> ('w batch, string) action" where
  "retry_wallet run ordinal now why unresolved b =
     (let c = upd_wallet run ordinal (\<lambda>w. w\<lparr>bw_attempts := Suc (bw_attempts w),
            bw_error := Some why, bw_due := Some (now + 1800)\<rparr>) b in
      case find_wallet run ordinal c of
        None \<Rightarrow> (Inl TypeError, c)
      | Some w \<Rightarrow> (Inr (if 3 \<le> bw_attempts w then (if unresolved then ''manual_review'' else ''failed'')
                      else ''retry''), c))"

text \<open>The list holds the sleeps between the attempts: three attempts for two sleeps.\<close>

fun reading :: "'w worker_env \<Rightarrow> batch_operation \<Rightarrow> rat list \<Rightarrow> ('w batch, command) action" where
  "reading env po [] = call_op env po"
| "reading env po (s # ss) = bind_act (call_op env po) (\<lambda>r.
     if cr_code r \<noteq> 4 \<or> cr_reason r = ''http_429'' then give r
     else bind_act (sleep_for s) (\<lambda>_. reading env po ss))"

definition invoke_read_only :: "'w worker_env \<Rightarrow> batch_operation \<Rightarrow> ('w batch, command) action" where
  "invoke_read_only env po = reading env po [1, 2]"

fun estimating :: "'w worker_env \<Rightarrow> batch_operation \<Rightarrow> rat list \<Rightarrow> ('w batch, command) action" where
  "estimating env po [] = call_op env po"
| "estimating env po (s # ss) = bind_act (call_op env po) (\<lambda>r.
     if cr_reason r \<noteq> ''gas_estimate_rpc_error'' then give r
     else bind_act (sleep_for s) (\<lambda>_. estimating env po ss))"

definition invoke_execute :: "'w worker_env \<Rightarrow> batch_operation \<Rightarrow> ('w batch, command) action" where
  "invoke_execute env po = estimating env po [1, 2]"

text \<open>The steps of the exit in the journal.\<close>

definition exit_steps :: "string \<Rightarrow> string \<Rightarrow> 'w batch \<Rightarrow> step_row list" where
  "exit_steps wallet action b =
     (let j = o_journal (b_out b); key = ''defi:'' @ wallet @ '':'' @ action in
      filter (\<lambda>s. list_ex (\<lambda>p. p_id p = s_position s \<and> p_key p = key) (positions j)) (steps j))"

definition journal_tx_hash :: "string \<Rightarrow> string \<Rightarrow> 'w batch \<Rightarrow> string option" where
  "journal_tx_hash wallet action b =
     (case greatest_row (\<lambda>s. of_nat (s_id s)) (filter (\<lambda>s. s_tx_hash s \<noteq> None) (exit_steps wallet action b)) of
        None \<Rightarrow> None | Some s \<Rightarrow> s_tx_hash s)"

definition journal_has_step :: "string \<Rightarrow> string \<Rightarrow> 'w batch \<Rightarrow> bool" where
  "journal_has_step wallet action b \<longleftrightarrow> exit_steps wallet action b \<noteq> []"

text \<open>The second loop: an execution that failed on the network is tried again only while the
  journal holds no step of it.\<close>

fun resending ::
  "'w worker_env \<Rightarrow> batch_operation \<Rightarrow> string \<Rightarrow> string \<Rightarrow> rat list \<Rightarrow> command \<Rightarrow> ('w batch, command) action" where
  "resending env po wallet action [] r = give r"
| "resending env po wallet action (s # ss) r = bind_act (look (journal_has_step wallet action)) (\<lambda>held.
     if cr_code r \<noteq> 4 \<or> cr_reason r \<in> {''gas_estimate_rpc_error'', ''http_429''} \<or> held then give r
     else bind_act (sleep_for s) (\<lambda>_.
          bind_act (invoke_execute env po) (\<lambda>r'. resending env po wallet action ss r')))"

definition execute_exit ::
  "'w worker_env \<Rightarrow> batch_operation \<Rightarrow> string \<Rightarrow> string \<Rightarrow> ('w batch, command) action" where
  "execute_exit env po wallet action =
     bind_act (invoke_execute env po) (\<lambda>r. resending env po wallet action [1, 2] r)"

section \<open>Recovery of an action that was being executed\<close>

definition status_in :: "pyval \<Rightarrow> string list \<Rightarrow> bool result" where
  "status_in v labels = (case v of
      PStr s \<Rightarrow> Inr (s \<in> set labels) | PList _ \<Rightarrow> Inl TypeError | PDict _ \<Rightarrow> Inl TypeError | _ \<Rightarrow> Inr False)"

definition text_or :: "string option \<Rightarrow> string option \<Rightarrow> string option" where
  "text_or a b = (case a of Some (c # t) \<Rightarrow> Some (c # t) | _ \<Rightarrow> b)"

definition record_if_sent ::
  "'w worker_env \<Rightarrow> batch_run \<Rightarrow> int \<Rightarrow> string \<Rightarrow> pyval \<Rightarrow> ('w batch, unit) action" where
  "record_if_sent env run ordinal action h = (case h of
      PStr t \<Rightarrow> bind_act time_now (\<lambda>now.
        bind_act (record_batch_tx (we_draw env) run ordinal action t now) (\<lambda>_. give ()))
    | _ \<Rightarrow> give ())"

text \<open>The first entry with the action id; an entry that is not a dict raises.\<close>

fun entry_of :: "string \<Rightarrow> pyval list \<Rightarrow> pydict option result" where
  "entry_of action [] = Inr None"
| "entry_of action (e # es) = bind_result (as_dict e) (\<lambda>d.
     if get d ''action_id'' = PStr action then Inr (Some d) else entry_of action es)"

definition old_entry :: "'w worker_env \<Rightarrow> batch_action \<Rightarrow> ('w batch, pydict option) action" where
  "old_entry env a =
     bind_act (on_out (\<lambda>w. (we_read env (ba_path a) w, w))) (\<lambda>text.
     lift (bind_result (we_loads env text) (\<lambda>v.
       bind_result (item v ''entries'') (\<lambda>es.
       bind_result (elements es) (entry_of (ba_action a))))))"

definition find_baseline :: "string \<Rightarrow> int \<Rightarrow> string \<Rightarrow> 'w batch \<Rightarrow> batch_baseline option" where
  "find_baseline run ordinal action b = select_one (is_baseline run ordinal action) (b_baselines b)"

definition recovered_outcome ::
  "'w worker_env \<Rightarrow> batch_run \<Rightarrow> batch_wallet \<Rightarrow> batch_action \<Rightarrow> pydict \<Rightarrow> string \<Rightarrow> pydict \<Rightarrow> ('w batch, unit) action" where
  "recovered_outcome env run w a payload status entry =
     bind_act (native_of env entry (bw_wallet w)) (\<lambda>(symbol, after).
     bind_act (look (find_baseline (br_id run) (bw_ordinal w) (ba_action a))) (\<lambda>base.
     record_outcome env (br_id run) (bw_ordinal w) entry status (get payload ''reason'')
       (get payload ''tx_hash'')
       (text_or (case base of None \<Rightarrow> None | Some x \<Rightarrow> bb_symbol x) symbol)
       (case base of None \<Rightarrow> None | Some x \<Rightarrow> bb_before x) after payload None))"

text \<open>\<open>Some outcome\<close> is a return of \<open>process_wallet\<close>, \<open>None\<close> goes on.\<close>

definition settle_recovered ::
  "'w worker_env \<Rightarrow> batch_run \<Rightarrow> batch_wallet \<Rightarrow> batch_action \<Rightarrow> rat \<Rightarrow> pydict \<Rightarrow> ('w batch, string option) action" where
  "settle_recovered env run w a now payload =
     bind_act (lift (status_in (get payload ''status'') [''withdrawn'', ''manual_review''])) (\<lambda>known.
     if \<not> known then give (Some ''manual_review'')
     else let status = py_str (get payload ''status'') in
       bind_act (record_if_sent env run (bw_ordinal w) (ba_action a) (get payload ''tx_hash'')) (\<lambda>_.
       bind_act (set_action (br_id run) (bw_ordinal w) (ba_action a, ba_plan a, ba_path a) status now
           (get payload ''tx_hash'') (get payload ''reason'')) (\<lambda>_.
       bind_act (old_entry env a) (\<lambda>found.
       bind_act (case found of None \<Rightarrow> give ()
           | Some entry \<Rightarrow> recovered_outcome env run w a payload status entry) (\<lambda>_.
       give None)))))"

definition recover_action ::
  "'w worker_env \<Rightarrow> batch_run \<Rightarrow> batch_wallet \<Rightarrow> rat \<Rightarrow> batch_action \<Rightarrow> ('w batch, string option) action" where
  "recover_action env run w now a =
     bind_act (call_op env (execute_operation run (bw_ordinal w) (ba_action a) (ba_plan a) (ba_path a) True)) (\<lambda>r.
     if cr_code r = 0 \<and> py_truthy (cr_payload r)
     then bind_act (lift (as_dict (cr_payload r))) (settle_recovered env run w a now)
     else if cr_reason r = ''stale_plan''
     then bind_act (set_action (br_id run) (bw_ordinal w) (ba_action a, ba_plan a, ba_path a) ''stale'' now
            PNone (PStr ''stale_plan'')) (\<lambda>_. give None)
     else if cr_code r = 4
     then bind_act (retry_wallet (br_id run) (bw_ordinal w) now (cr_reason r) True) (\<lambda>s. give (Some s))
     else give (Some ''manual_review''))"

definition unresolved_action :: "string \<Rightarrow> int \<Rightarrow> 'w batch \<Rightarrow> batch_action option" where
  "unresolved_action run ordinal b = least_row ba_updated
     (filter (\<lambda>a. ba_run a = run \<and> ba_ordinal a = ordinal \<and> ba_status a = ''executing'') (b_actions b))"

section \<open>A fresh plan\<close>

definition quoted_failure ::
  "'w worker_env \<Rightarrow> batch_run \<Rightarrow> batch_wallet \<Rightarrow> command \<Rightarrow> pyval \<Rightarrow> ('w batch, unit) action" where
  "quoted_failure env run w r e = bind_act (lift (as_dict e)) (\<lambda>entry.
     if get entry ''wallet'' \<noteq> PStr (bw_wallet w) \<or> get entry ''status'' \<noteq> PStr ''ready'' then give ()
     else bind_act (native_of env entry (bw_wallet w)) (\<lambda>(symbol, balance).
       record_outcome env (br_id run) (bw_ordinal w) entry ''quote_failed'' (PStr (cr_reason r)) PNone
         symbol balance balance [] (cr_detail r)))"

definition quote_failed ::
  "'w worker_env \<Rightarrow> batch_run \<Rightarrow> batch_wallet \<Rightarrow> rat \<Rightarrow> command \<Rightarrow> ('w batch, string) action" where
  "quote_failed env run w now r =
     bind_act (change (upd_wallet (br_id run) (bw_ordinal w) (\<lambda>x. x\<lparr>bw_error := Some (cr_reason r)\<rparr>))) (\<lambda>_.
     bind_act (if cr_reason r = ''http_429''
         then retry_wallet (br_id run) (bw_ordinal w) now (cr_reason r) False else give []) (\<lambda>s.
     if s = ''retry'' then give ''retry''
     else bind_act (look (\<lambda>b. map_of (o_plans (b_out b)) (br_seed run))) (\<lambda>seed.
       bind_act (case seed of None \<Rightarrow> give ()
           | Some text \<Rightarrow> bind_act (lift (bind_result (we_loads env text) (\<lambda>v.
               bind_result (get_item v ''entries'' (PList [])) elements))) (each (quoted_failure env run w r)))
         (\<lambda>_. give ''failed''))))"

definition plan_entries :: "batch_wallet \<Rightarrow> pyval \<Rightarrow> pydict list result" where
  "plan_entries w v = bind_result (get_item v ''entries'' (PList [])) (\<lambda>es.
     bind_result (elements es) (\<lambda>xs.
     bind_result (map_results as_dict xs) (\<lambda>ds.
     Inr (filter (\<lambda>d. get d ''status'' = PStr ''ready'' \<and> get d ''wallet'' = PStr (bw_wallet w)) ds))))"

section \<open>One action of the plan\<close>

definition settled_statuses :: "string list" where
  "settled_statuses = [''withdrawn'', ''manual_review'', ''skipped'']"

record exit_job =
  ej_run :: batch_run
  ej_wallet :: batch_wallet
  ej_entry :: pydict
  ej_action :: string
  ej_digest :: string
  ej_file :: string
  ej_now :: rat
  ej_symbol :: "string option"
  ej_before :: "int option"

definition job_action :: "exit_job \<Rightarrow> string \<times> string \<times> string" where
  "job_action job = (ej_action job, ej_digest job, ej_file job)"

definition job_operation :: "exit_job \<Rightarrow> bool \<Rightarrow> batch_operation" where
  "job_operation job execute = execute_operation (ej_run job) (bw_ordinal (ej_wallet job))
     (ej_action job) (ej_digest job) (ej_file job) execute"

text \<open>\<open>_set_action\<close>, the balance afterwards, \<open>_record_outcome\<close>: the end of most branches.\<close>

definition conclude ::
  "'w worker_env \<Rightarrow> exit_job \<Rightarrow> string \<Rightarrow> pyval \<Rightarrow> string option \<Rightarrow> ('w batch, unit) action" where
  "conclude env job status why detail =
     bind_act (set_action (br_id (ej_run job)) (bw_ordinal (ej_wallet job)) (job_action job) status
         (ej_now job) PNone why) (\<lambda>_.
     bind_act (native_of env (ej_entry job) (bw_wallet (ej_wallet job))) (\<lambda>(symbol, after).
     record_outcome env (br_id (ej_run job)) (bw_ordinal (ej_wallet job)) (ej_entry job) status why PNone
       (text_or (ej_symbol job) symbol) (ej_before job) after [] detail))"

definition review :: "'w worker_env \<Rightarrow> exit_job \<Rightarrow> string \<Rightarrow> string option \<Rightarrow> ('w batch, string option) action" where
  "review env job why detail =
     bind_act (conclude env job ''manual_review'' (PStr why) detail) (\<lambda>_. give (Some ''manual_review''))"

definition skip_exit :: "'w worker_env \<Rightarrow> exit_job \<Rightarrow> string \<Rightarrow> string option \<Rightarrow> ('w batch, string option) action" where
  "skip_exit env job why detail = bind_act (conclude env job ''skipped'' (PStr why) detail) (\<lambda>_. give None)"

definition failed_on_network ::
  "'w worker_env \<Rightarrow> exit_job \<Rightarrow> command \<Rightarrow> ('w batch, string option) action" where
  "failed_on_network env job r =
     (let wallet = bw_wallet (ej_wallet job); ordinal = bw_ordinal (ej_wallet job) in
      bind_act (look (journal_tx_hash wallet (ej_action job))) (\<lambda>sent. case sent of
        Some (c # h) \<Rightarrow>
          bind_act time_now (\<lambda>now.
          bind_act (record_batch_tx (we_draw env) (ej_run job) ordinal (ej_action job) (c # h) now) (\<lambda>_.
          bind_act (retry_wallet (br_id (ej_run job)) ordinal (ej_now job) (cr_reason r) True) (\<lambda>s. give (Some s))))
      | _ \<Rightarrow>
          bind_act (look (journal_has_step wallet (ej_action job))) (\<lambda>unresolved.
          let why = (if unresolved then ''unresolved_intent'' else cr_reason r) in
          if unresolved \<or> cr_reason r = ''http_429'' then review env job why (cr_detail r)
          else skip_exit env job why (cr_detail r))))"

definition executed ::
  "'w worker_env \<Rightarrow> exit_job \<Rightarrow> command \<Rightarrow> ('w batch, string option) action" where
  "executed env job r =
     (if cr_code r \<noteq> 0 then
        (if cr_reason r = ''gas_estimate_rpc_error'' then skip_exit env job (cr_reason r) (cr_detail r)
         else if cr_code r = 4 then failed_on_network env job r
         else if cr_reason r = ''stale_plan'' then skip_exit env job ''stale_plan'' (cr_detail r)
         else review env job (cr_reason r) (cr_detail r))
      else if \<not> py_truthy (cr_payload r) then review env job ''invalid_execution_result'' (Some (we_detail env (cr_payload r)))
      else bind_act (lift (as_dict (cr_payload r))) (\<lambda>payload.
        bind_act (lift (status_in (get payload ''status'') [''withdrawn'', ''manual_review''])) (\<lambda>known.
        if \<not> known then review env job ''invalid_execution_result'' (Some (we_detail env (cr_payload r)))
        else let status = py_str (get payload ''status''); h = get payload ''tx_hash'' in
          bind_act (set_action (br_id (ej_run job)) (bw_ordinal (ej_wallet job)) (job_action job) status
              (ej_now job) h (get payload ''reason'')) (\<lambda>_.
          bind_act (record_if_sent env (ej_run job) (bw_ordinal (ej_wallet job)) (ej_action job) h) (\<lambda>_.
          bind_act (native_of env (ej_entry job) (bw_wallet (ej_wallet job))) (\<lambda>(symbol, after).
          bind_act (record_outcome env (br_id (ej_run job)) (bw_ordinal (ej_wallet job)) (ej_entry job) status
              (get payload ''reason'') h (text_or (ej_symbol job) symbol) (ej_before job) after payload None) (\<lambda>_.
          give None)))))))"

text \<open>
  After the preview: the deadline of the last transaction holds the execution back, otherwise
  the baseline and the status \<open>executing\<close> are written before the operation is called.
\<close>

definition execute_when_due :: "'w worker_env \<Rightarrow> exit_job \<Rightarrow> ('w batch, string option) action" where
  "execute_when_due env job =
     (let run = br_id (ej_run job); ordinal = bw_ordinal (ej_wallet job) in
      bind_act (look (next_transaction_due run ordinal)) (\<lambda>due.
      bind_act time_now (\<lambda>now.
      if (case due of None \<Rightarrow> False | Some d \<Rightarrow> now < d)
      then bind_act (change (upd_wallet run ordinal (\<lambda>w. w\<lparr>bw_due := due\<rparr>))) (\<lambda>_. give (Some ''deferred''))
      else bind_act (change (put_baseline \<lparr>bb_run = run, bb_ordinal = ordinal, bb_action = ej_action job,
               bb_symbol = ej_symbol job, bb_before = ej_before job\<rparr>)) (\<lambda>_.
        bind_act (set_action run ordinal (job_action job) ''executing'' (ej_now job) PNone PNone) (\<lambda>_.
        bind_act (execute_exit env (job_operation job True) (bw_wallet (ej_wallet job)) (ej_action job))
          (executed env job))))))"

definition preview_action :: "'w worker_env \<Rightarrow> exit_job \<Rightarrow> ('w batch, string option) action" where
  "preview_action env job =
     bind_act (invoke_read_only env (job_operation job False)) (\<lambda>r.
     if cr_code r \<noteq> 0 then
       (if cr_reason r = ''http_429'' then review env job (cr_reason r) (cr_detail r)
        else skip_exit env job (cr_reason r) (cr_detail r))
     else if \<not> py_truthy (cr_payload r) then review env job ''invalid_preview'' (Some (we_detail env (cr_payload r)))
     else bind_act (lift (as_dict (cr_payload r))) (\<lambda>payload.
       if get payload ''status'' \<noteq> PStr ''preview''
       then review env job ''invalid_preview'' (Some (we_detail env (cr_payload r)))
       else execute_when_due env job))"

definition work_entry ::
  "'w worker_env \<Rightarrow> batch_run \<Rightarrow> batch_wallet \<Rightarrow> string \<Rightarrow> string \<Rightarrow> rat \<Rightarrow> pydict \<Rightarrow> ('w batch, string option) action" where
  "work_entry env run w digest file now entry = (case get entry ''action_id'' of
      PStr i \<Rightarrow>
        bind_act (look (find_action (br_id run) (bw_ordinal w) i)) (\<lambda>previous.
        if (case previous of None \<Rightarrow> False | Some a \<Rightarrow> ba_status a \<in> set settled_statuses) then give None
        else bind_act (native_of env entry (bw_wallet w)) (\<lambda>(symbol, before).
          preview_action env \<lparr>ej_run = run, ej_wallet = w, ej_entry = entry, ej_action = i,
            ej_digest = digest, ej_file = file, ej_now = now, ej_symbol = symbol, ej_before = before\<rparr>))
    | _ \<Rightarrow> give None)"

fun work_entries ::
  "'w worker_env \<Rightarrow> batch_run \<Rightarrow> batch_wallet \<Rightarrow> string \<Rightarrow> string \<Rightarrow> rat \<Rightarrow> pydict list \<Rightarrow> ('w batch, string) action" where
  "work_entries env run w digest file now [] = give ''done''"
| "work_entries env run w digest file now (e # es) =
     bind_act (work_entry env run w digest file now e) (\<lambda>r. case r of
       Some s \<Rightarrow> give s | None \<Rightarrow> work_entries env run w digest file now es)"

section \<open>One wallet\<close>

definition process_plan ::
  "'w worker_env \<Rightarrow> batch_run \<Rightarrow> batch_wallet \<Rightarrow> string \<Rightarrow> rat \<Rightarrow> string \<Rightarrow> ('w batch, string) action" where
  "process_plan env run w file now reported =
     bind_act (on_out (\<lambda>o'. (we_read env file o', o'))) (\<lambda>text.
     if we_sha env text \<noteq> reported then give ''manual_review''
     else bind_act (lift (bind_result (we_loads env text) (plan_entries w))) (\<lambda>ready.
       bind_act (change (upd_wallet (br_id run) (bw_ordinal w) (\<lambda>x. x\<lparr>bw_observed := length ready,
           bw_attempts := 0, bw_error := None\<rparr>))) (\<lambda>_.
       if ready = [] then give ''no_ready''
       else work_entries env run w (we_sha env text) file now ready)))"

definition wallet_path :: "batch_run \<Rightarrow> int \<Rightarrow> string" where
  "wallet_path run ordinal = br_output run @ ''/wallet-'' @ int_text ordinal @ ''.txt''"

definition plan_path_of :: "batch_run \<Rightarrow> int \<Rightarrow> string \<Rightarrow> string" where
  "plan_path_of run ordinal stamp = br_output run @ ''/plan-'' @ int_text ordinal @ ''-'' @ stamp @ ''.json''"

definition quote_and_process ::
  "'w worker_env \<Rightarrow> batch_run \<Rightarrow> batch_wallet \<Rightarrow> rat \<Rightarrow> ('w batch, string) action" where
  "quote_and_process env run w now =
     (let ordinal = bw_ordinal w in
      bind_act (on_out (we_write env (wallet_path run ordinal) (bw_wallet w @ [CHR 0x0A]))) (\<lambda>_.
      bind_act (on_out (\<lambda>o'. case we_stamp env o' of (s, v) \<Rightarrow> (Inr s, v))) (\<lambda>stamp.
      let file = plan_path_of run ordinal stamp in
      bind_act (invoke_read_only env (quote_operation run ordinal (wallet_path run ordinal) file)) (\<lambda>r.
      if cr_code r \<noteq> 0 then quote_failed env run w now r
      else if \<not> py_truthy (cr_payload r) then give ''failed''
      else bind_act (lift (as_dict (cr_payload r))) (\<lambda>payload.
        case get payload ''plan_sha256'' of
          PStr reported \<Rightarrow> process_plan env run w file now reported
        | _ \<Rightarrow> give ''failed'')))))"

definition activate :: "rat \<Rightarrow> batch_wallet \<Rightarrow> batch_wallet" where
  "activate now w = w\<lparr>bw_status := ''active'',
     bw_started := (case bw_started w of None \<Rightarrow> Some now | Some t \<Rightarrow> Some t)\<rparr>"

definition start_wallet :: "string \<Rightarrow> int \<Rightarrow> rat \<Rightarrow> 'w batch \<Rightarrow> 'w batch" where
  "start_wallet run ordinal now = upd_wallet run ordinal (activate now)"

definition process_wallet :: "'w worker_env \<Rightarrow> string \<Rightarrow> int \<Rightarrow> ('w batch, string) action" where
  "process_wallet env run_id ordinal =
     bind_act time_now (\<lambda>now.
     bind_act (look (\<lambda>b. (find_run run_id b, find_wallet run_id ordinal b))) (\<lambda>found. case found of
       (Some run, Some w) \<Rightarrow>
         if \<not> unfinished w then throw (ValueError ''wallet is not queued'')
         else bind_act (change (start_wallet run_id ordinal now)) (\<lambda>_.
           bind_act (look (unresolved_action run_id ordinal)) (\<lambda>unresolved.
           bind_act (case unresolved of None \<Rightarrow> give None | Some a \<Rightarrow> recover_action env run w now a) (\<lambda>stop.
           case stop of Some s \<Rightarrow> give s | None \<Rightarrow> quote_and_process env run w now)))
     | _ \<Rightarrow> throw (ValueError ''wallet is not queued'')))"

section \<open>The loop\<close>

text \<open>One pass of \<open>while True\<close>: \<open>Some code\<close> is a return.\<close>

definition worker_turn :: "'w worker_env \<Rightarrow> string \<Rightarrow> ('w batch, int option) action" where
  "worker_turn env run =
     bind_act (look (\<lambda>b. (find_run run b, next_wallet run b))) (\<lambda>(found, waiting). case found of
       None \<Rightarrow> throw (ValueError ''unknown DeFi batch run'')
     | Some r \<Rightarrow>
         if br_status r = ''completed'' then give (Some 0)
         else (case waiting of
             Some w \<Rightarrow> (case bw_due w of
                 Some due \<Rightarrow>
                   bind_act time_now (\<lambda>now.
                   if 0 < due - now then bind_act (sleep_for (min (due - now) 60)) (\<lambda>_. give None)
                   else bind_act (process_wallet env run (bw_ordinal w)) (\<lambda>outcome.
                     if outcome = ''retry'' \<or> outcome = ''deferred'' then give None
                     else bind_act time_now (\<lambda>later'.
                       bind_act (advance_wallet run (bw_ordinal w) outcome later') (\<lambda>_. give None))))
               | None \<Rightarrow> throw (ValueError ''DeFi batch queue is inconsistent''))
           | None \<Rightarrow> throw (ValueError ''DeFi batch queue is inconsistent'')))"

partial_function (option) worker_loop ::
  "'w worker_env \<Rightarrow> string \<Rightarrow> 'w batch \<Rightarrow> (int result \<times> 'w batch) option" where
  "worker_loop env run b = (case worker_turn env run b of
      (Inl e, c) \<Rightarrow> Some (Inl e, c)
    | (Inr (Some n), c) \<Rightarrow> Some (Inr n, c)
    | (Inr None, c) \<Rightarrow> worker_loop env run c)"

text \<open>\<open>run_worker\<close>: nothing is done when another process holds the lock.\<close>

definition run_worker :: "'w worker_env \<Rightarrow> bool \<Rightarrow> string \<Rightarrow> 'w batch \<Rightarrow> (int result \<times> 'w batch) option" where
  "run_worker env locked run b =
     (if locked then Some (Inr 0, b) else worker_loop env run (reconcile_active_wallet_due run b))"

end
