(* ===== verification/Defi_Batch_Frames.thy ===== *)
theory Defi_Batch_Frames
  imports Defi_Worker
begin

text \<open>
  What the parts of \<open>process_wallet\<close> leave alone: a preorder on the worker's database that the
  tables of transactions, outcomes and baselines and the outside do not matter to, that accepts
  a wallet row whose key, place and status stay and whose due time is not lost, and that accepts
  the row of an action it allows.
\<close>

definition row_kept :: "batch_wallet \<Rightarrow> batch_wallet \<Rightarrow> bool" where
  "row_kept w v \<longleftrightarrow> bw_run v = bw_run w \<and> bw_ordinal v = bw_ordinal w \<and> bw_index v = bw_index w
     \<and> bw_status v = bw_status w \<and> (bw_due w \<noteq> None \<longrightarrow> bw_due v \<noteq> None)"

locale batch_frame = action_frame R for R :: "'w batch \<Rightarrow> 'w batch \<Rightarrow> bool" +
  fixes may_set :: "string \<times> int \<times> string \<Rightarrow> bool"
  assumes outside: "R b (b\<lparr>b_out := w\<rparr>)"
    and txs: "R b (b\<lparr>b_txs := ts\<rparr>)"
    and outcomes: "R b (b\<lparr>b_outcomes := xs\<rparr>)"
    and baselines: "R b (b\<lparr>b_baselines := ys\<rparr>)"
    and wallets: "(\<And>w. row_kept w (f w)) \<Longrightarrow> R b (upd_wallet run n f b)"
    and actions: "may_set (ba_run a, ba_ordinal a, ba_action a) \<Longrightarrow> R b (put_action a b)"
begin

lemma keeps_wallet_fields [quiet]:
  "keeps R (change (upd_wallet run ordinal (\<lambda>w. w\<lparr>bw_error := e\<rparr>)))"
  "keeps R (change (upd_wallet run ordinal (\<lambda>w. w\<lparr>bw_observed := n, bw_attempts := k, bw_error := e\<rparr>)))"
  by (simp_all add: keeps_def change_def wallets row_kept_def)

lemma keeps_outside [quiet]: "keeps R (on_out m)"
  by (simp add: keeps_def on_out_def outside split: prod.split)

lemma keeps_looking [quiet]: "keeps R (look f)" "keeps R time_now"
  by (simp_all add: keeps_def look_def time_now_def same)

lemma keeps_rows [quiet]: "keeps R (change (put_outcome x))" "keeps R (change (put_baseline y))"
  by (simp_all add: keeps_def change_def put_outcome_def put_baseline_def same outcomes baselines)

lemma keeps_calls [quiet]:
  "keeps R (call_op env po)" "keeps R (sleep_for q)" "keeps R (native_of env entry a)"
  unfolding call_op_def sleep_for_def native_of_def by (intro quiet)+

lemma keeps_retry [quiet]: "keeps R (retry_wallet run ordinal now why u)"
  by (auto simp: keeps_def retry_wallet_def Let_def row_kept_def split: option.split intro!: wallets)

lemma keeps_reading [quiet]: "keeps R (reading env po ss)"
  by (induction ss) (simp; intro quiet; assumption?)+

lemma keeps_estimating [quiet]: "keeps R (estimating env po ss)"
  by (induction ss) (simp; intro quiet; assumption?)+

lemma keeps_invoking [quiet]: "keeps R (invoke_read_only env po)" "keeps R (invoke_execute env po)"
  unfolding invoke_read_only_def invoke_execute_def by (intro quiet)+

lemma keeps_resending [quiet]: "keeps R (resending env po wallet action ss r)"
  by (induction ss arbitrary: r) (simp; intro quiet; assumption?)+

lemma keeps_execute_exit [quiet]: "keeps R (execute_exit env po wallet action)"
  unfolding execute_exit_def by (intro quiet)

lemma keeps_randint [quiet]: "keeps R (randint draw lo hi)"
  by (simp add: keeps_def randint_def same outside split: prod.split)

lemma keeps_record_tx [quiet]: "keeps R (record_batch_tx draw run ordinal action h now)"
proof -
  have "keeps R (bind_act (randint draw (br_delay_min run) (br_delay_max run)) (\<lambda>between.
      bind_act (randint draw (br_within_min run) (br_within_max run)) (\<lambda>inside c.
        (Inr (now + of_int between), c\<lparr>b_txs := b_txs c @ [f between inside]\<rparr>))))" for f
    by (intro quiet) (simp add: keeps_def txs)
  then show ?thesis
    unfolding record_batch_tx_def keeps_def by (auto simp: Let_def same split: option.split)
qed

lemma keeps_record_if_sent [quiet]: "keeps R (record_if_sent env run ordinal action h)"
  unfolding record_if_sent_def by (intro quiet)

lemma keeps_set_action [quiet]:
  "may_set (run, ordinal, fst pa) \<Longrightarrow> keeps R (set_action run ordinal pa status now h why)"
proof -
  assume "may_set (run, ordinal, fst pa)"
  then have "keeps R (change (put_action \<lparr>ba_run = run, ba_ordinal = ordinal, ba_action = fst pa,
      ba_plan = d, ba_path = f, ba_status = status, ba_hash = h, ba_reason = why, ba_updated = now\<rparr>))" for d f
    by (simp add: keeps_def change_def actions)
  then show ?thesis
    unfolding set_action_def by (cases pa) (simp; intro quiet)
qed

lemma keeps_record_outcome [quiet]:
  "keeps R (record_outcome env run ordinal entry status why h symbol before after result detail)"
  unfolding record_outcome_def Let_def by (intro quiet)

lemma keeps_recovery [quiet]:
  "may_set (br_id run, bw_ordinal w, ba_action a) \<Longrightarrow> keeps R (recover_action env run w now a)"
  unfolding recover_action_def settle_recovered_def recovered_outcome_def old_entry_def Let_def
  by (intro quiet) simp_all

lemma keeps_each [quiet]: "(\<And>x. keeps R (f x)) \<Longrightarrow> keeps R (each f xs)"
  by (induction xs) (simp; intro quiet; assumption?)+

lemma keeps_quote_failed [quiet]: "keeps R (quote_failed env run w now r)"
  unfolding quote_failed_def quoted_failure_def by (intro quiet)

text \<open>The parts that set the row of their own action.\<close>

definition own :: "exit_job \<Rightarrow> bool" where
  "own job \<longleftrightarrow> may_set (br_id (ej_run job), bw_ordinal (ej_wallet job), ej_action job)"

lemma keeps_set_own [quiet]:
  "own job \<Longrightarrow> keeps R (set_action (br_id (ej_run job)) (bw_ordinal (ej_wallet job)) (job_action job) status now h why)"
  by (rule keeps_set_action) (simp add: own_def job_action_def)

lemma keeps_conclude [quiet]:
  "own job \<Longrightarrow> keeps R (conclude env job status why detail)"
  "own job \<Longrightarrow> keeps R (review env job m detail)" "own job \<Longrightarrow> keeps R (skip_exit env job m detail)"
  unfolding review_def skip_exit_def conclude_def by (intro quiet; assumption)+

lemma keeps_executed [quiet]: "own job \<Longrightarrow> keeps R (executed env job r)"
  unfolding executed_def failed_on_network_def Let_def
  by (intro quiet; (auto intro!: quiet split: option.split list.split)?)

lemma keeps_execute_when_due [quiet]: "own job \<Longrightarrow> keeps R (execute_when_due env job)"
proof -
  assume "own job"
  moreover have "keeps R (change (upd_wallet run ordinal (\<lambda>w. w\<lparr>bw_due := due\<rparr>)))"
    if "due \<noteq> None" for run ordinal due
    using that by (auto simp: keeps_def change_def row_kept_def intro!: wallets)
  ultimately show ?thesis
    unfolding execute_when_due_def Let_def
    by (intro keeps_bind_act [OF keeps_looking(1)] keeps_bind_act [OF keeps_looking(2)])
      (auto intro!: quiet split: option.split)
qed

lemma keeps_preview [quiet]: "own job \<Longrightarrow> keeps R (preview_action env job)"
  unfolding preview_action_def by (intro quiet)

lemma keeps_entry:
  "(\<And>i. may_set (br_id run, bw_ordinal w, i)) \<Longrightarrow> keeps R (work_entry env run w digest file now entry)"
  unfolding work_entry_def by (intro quiet) (simp add: own_def)

text \<open>The whole, as far as the entries of the plan do.\<close>

lemma keeps_entries:
  assumes "\<And>digest file now entry. keeps R (work_entry env run w digest file now entry)"
  shows "keeps R (work_entries env run w digest file now es)"
proof (induction es)
  case Nil
  show ?case unfolding work_entries.simps by (intro quiet)
next
  case (Cons e es)
  then show ?case unfolding work_entries.simps by (intro quiet assms)
qed

lemma keeps_quoting:
  assumes "\<And>digest file now entry. keeps R (work_entry env run w digest file now entry)"
  shows "keeps R (quote_and_process env run w now)"
  unfolding quote_and_process_def process_plan_def Let_def
  by (intro quiet keeps_entries assms)

end

end
