(* ===== verification/Defi_Queue.thy ===== *)
theory Defi_Queue
  imports Defi_Batch_Frames "HOL-Library.Multiset"
begin

text \<open>
  The queue of withdrawal wallets over the life of a run: the worker's turns, their exceptions
  and its restarts keep an order in which one wallet at a time is active and the next one has a
  due time; a settled action stays as it is; a transaction sets the deadlines of its run.
\<close>

section \<open>Least rows\<close>

lemma fold_least:
  "fold (\<lambda>x best. if key x < key best then x else best) rs r = m
    \<Longrightarrow> m \<in> set (r # rs) \<and> (\<forall>x \<in> set (r # rs). key m \<le> (key x :: 'k :: linorder))"
proof (induction rs arbitrary: r)
  case (Cons y rs)
  then show ?case by (cases "key y < key r") (fastforce dest: Cons.IH)+
qed simp

lemma least_row_Some:
  "least_row key rows = Some m \<Longrightarrow> m \<in> set rows \<and> (\<forall>x \<in> set rows. key m \<le> key x)"
  using fold_least [of key] by (cases rows) (auto simp: least_row_def)

lemma least_row_Nil [simp]: "least_row key [] = None"
  by (simp add: least_row_def)

lemma least_row_None [simp]: "least_row key rows = None \<longleftrightarrow> rows = []"
  by (cases rows) (auto simp: least_row_def)

lemma least_row_in: "x \<in> set rows \<Longrightarrow> \<exists>m. least_row key rows = Some m"
  by (cases "least_row key rows") auto

section \<open>The order of the queue\<close>

definition pending_rows :: "string \<Rightarrow> 'w batch \<Rightarrow> batch_wallet list" where
  "pending_rows run b = filter (\<lambda>w. bw_run w = run \<and> unfinished w) (b_wallets b)"

definition wallet_key :: "batch_wallet \<Rightarrow> string \<times> int" where
  "wallet_key w = (bw_run w, bw_ordinal w)"

text \<open>
  The first pending wallet has a due time, only it may be active, and the run is completed
  exactly when no wallet is pending.
\<close>

definition queue_order :: "string \<Rightarrow> 'w batch \<Rightarrow> bool" where
  "queue_order run b \<longleftrightarrow>
     distinct (map wallet_key (b_wallets b))
     \<and> (\<forall>w \<in> set (pending_rows run b). bw_index w \<noteq> None)
     \<and> distinct (map index_key (pending_rows run b))
     \<and> (\<forall>w \<in> set (pending_rows run b). bw_status w = ''active''
          \<longrightarrow> (\<forall>v \<in> set (pending_rows run b). index_key w \<le> index_key v))"

definition queue_ok :: "string \<Rightarrow> 'w batch \<Rightarrow> bool" where
  "queue_ok run b \<longleftrightarrow> queue_order run b
     \<and> (\<forall>w. next_wallet run b = Some w \<longrightarrow> bw_due w \<noteq> None)
     \<and> (\<exists>r. find_run run b = Some r \<and> (br_status r = ''completed'' \<longleftrightarrow> pending_rows run b = []))"

lemma next_wallet_pending: "next_wallet run b = least_row index_key (pending_rows run b)"
  by (simp add: next_wallet_def pending_rows_def)

text \<open>What the work on a wallet may change of the runs and the wallets.\<close>

definition rows_kept :: "'w batch \<Rightarrow> 'w batch \<Rightarrow> bool" where
  "rows_kept s t \<longleftrightarrow> b_runs t = b_runs s \<and> list_all2 row_kept (b_wallets s) (b_wallets t)"

lemma rows_kept_trans: "rows_kept s t \<Longrightarrow> rows_kept t u \<Longrightarrow> rows_kept s u"
  using list_all2_trans [of row_kept row_kept row_kept "b_wallets s" "b_wallets t" "b_wallets u"]
  by (auto simp: rows_kept_def row_kept_def)

lemma other_tables_kept:
  "b_runs t = b_runs s \<Longrightarrow> b_wallets t = b_wallets s \<Longrightarrow> rows_kept s t"
  by (simp add: rows_kept_def row_kept_def list_all2_same)

lemma upd_wallet_kept:
  assumes "\<And>w. row_kept w (f w)"
  shows "rows_kept b (upd_wallet run ordinal f b)"
  using assms by (auto simp: rows_kept_def upd_wallet_def update_where_def list_all2_conv_all_nth row_kept_def)

interpretation qu: batch_frame rows_kept "\<lambda>_. True"
  by unfold_locales
    (auto intro: other_tables_kept upd_wallet_kept rows_kept_trans simp: put_action_def Let_def)

lemmas work_kept [quiet] = qu.keeps_recovery [OF TrueI] qu.keeps_quoting [OF qu.keeps_entry [OF TrueI]]

section \<open>The end of a wallet\<close>

lemma kept_pending:
  assumes "rows_kept b c"
  shows "list_all2 row_kept (pending_rows run b) (pending_rows run c)"
proof -
  have "list_all2 row_kept (filter P xs) (filter P ys)"
    if "list_all2 row_kept xs ys" and "P = (\<lambda>w. bw_run w = run \<and> unfinished w)" for xs ys P
    using that by (induction rule: list_all2_induct) (auto simp: row_kept_def unfinished_def)
  with assms show ?thesis by (simp add: rows_kept_def pending_rows_def)
qed

lemma kept_keys:
  assumes "list_all2 row_kept xs ys"
  shows "map index_key ys = map index_key xs" "map wallet_key ys = map wallet_key xs"
    "map bw_status ys = map bw_status xs" "map bw_index ys = map bw_index xs"
  using assms by (induction rule: list_all2_induct) (auto simp: row_kept_def index_key_def wallet_key_def)

lemma kept_least:
  assumes "list_all2 row_kept xs ys" "least_row index_key ys = Some v"
  shows "\<exists>w. least_row index_key xs = Some w \<and> row_kept w v"
proof -
  have fold: "row_kept (fold (\<lambda>x best. if index_key x < index_key best then x else best) xs w)
      (fold (\<lambda>x best. if index_key x < index_key best then x else best) ys v)"
    if "list_all2 row_kept xs ys" "row_kept w v" for xs ys w v
    using that
    by (induction arbitrary: w v rule: list_all2_induct) (auto simp: row_kept_def index_key_def)
  from assms show ?thesis
    by (cases xs; cases ys) (auto simp: least_row_def intro: fold)
qed

lemma kept_origin: "list_all2 row_kept xs ys \<Longrightarrow> v \<in> set ys \<Longrightarrow> \<exists>w \<in> set xs. row_kept w v"
  by (induction rule: list_all2_induct) auto

lemma queue_kept:
  assumes "rows_kept b c" "queue_ok run b"
  shows "queue_ok run c"
proof -
  let ?P = "pending_rows run b" and ?Q = "pending_rows run c"
  have pend: "list_all2 row_kept ?P ?Q" by (rule kept_pending [OF assms(1)])
  have wal: "map wallet_key (b_wallets c) = map wallet_key (b_wallets b)"
    using assms(1) kept_keys(2) by (auto simp: rows_kept_def)
  note keys = kept_keys [OF pend]
  have index: "bw_index v \<noteq> None" if "v \<in> set ?Q" for v
    using that keys(4) assms(2) unfolding queue_ok_def queue_order_def by (metis imageE image_eqI list.set_map)
  have first: "index_key v \<le> index_key u"
    if v: "v \<in> set ?Q" and u: "u \<in> set ?Q" and active: "bw_status v = ''active''" for v u
  proof -
    obtain w where "w \<in> set ?P" "row_kept w v" using kept_origin [OF pend v] ..
    moreover obtain x where "x \<in> set ?P" "row_kept x u" using kept_origin [OF pend u] ..
    ultimately show ?thesis
      using assms(2) active by (auto simp: queue_ok_def queue_order_def row_kept_def index_key_def)
  qed
  have due: "bw_due v \<noteq> None" if "next_wallet run c = Some v" for v
    using kept_least [OF pend] that assms(2) unfolding next_wallet_pending queue_ok_def row_kept_def
    by metis
  have "?P = [] \<longleftrightarrow> ?Q = []" using pend by (cases ?P; cases ?Q) auto
  moreover have "find_run run c = find_run run b"
    using assms(1) by (simp add: find_run_def rows_kept_def)
  ultimately show ?thesis
    using assms(2) index first due keys(1) wal unfolding queue_ok_def queue_order_def by simp
qed

lemma find_wallet_unique:
  assumes "distinct (map wallet_key (b_wallets b))" "w \<in> set (b_wallets b)"
  shows "find_wallet (bw_run w) (bw_ordinal w) b = Some w"
proof (cases "find_wallet (bw_run w) (bw_ordinal w) b")
  case (Some v)
  then have "v \<in> set (b_wallets b)" "wallet_key v = wallet_key w"
    by (auto simp: find_wallet_def is_wallet_def wallet_key_def dest: select_one_SomeD)
  with assms have "v = w" by (meson distinct_map inj_onD)
  with Some show ?thesis by simp
next
  case None
  with assms(2) show ?thesis by (auto simp: find_wallet_def is_wallet_def select_one_def find_None_iff)
qed

lemma first_pending:
  assumes "next_wallet run b = Some w"
  shows "w \<in> set (pending_rows run b)" "w \<in> set (b_wallets b)" "bw_run w = run" "unfinished w"
    "\<And>v. v \<in> set (pending_rows run b) \<Longrightarrow> index_key w \<le> index_key v"
  using least_row_Some [of index_key "pending_rows run b" w] assms
  by (auto simp: next_wallet_pending) (auto simp: pending_rows_def)

lemma next_walletI:
  assumes "distinct (map index_key (pending_rows run b))" "w \<in> set (pending_rows run b)"
    and "\<And>v. v \<in> set (pending_rows run b) \<Longrightarrow> index_key w \<le> index_key v"
  shows "next_wallet run b = Some w"
proof -
  obtain m where m: "next_wallet run b = Some m"
    using least_row_in [OF assms(2)] by (auto simp: next_wallet_pending)
  then have "index_key m = index_key w"
    using first_pending [OF m] assms(2,3) by (meson le_antisym)
  then have "m = w"
    using assms(1,2) first_pending(1) [OF m] by (meson distinct_map inj_onD)
  with m show ?thesis by simp
qed

text \<open>A change of one row of the run that keeps its key and its index.\<close>

lemma one_row_changed:
  assumes "distinct (map wallet_key (b_wallets b))" "w \<in> set (b_wallets b)" "bw_run w = run"
  shows "b_wallets (upd_wallet run (bw_ordinal w) f b) = map (\<lambda>v. if v = w then f v else v) (b_wallets b)"
proof -
  have "is_wallet run (bw_ordinal w) v \<longleftrightarrow> v = w" if "v \<in> set (b_wallets b)" for v
  proof
    assume "is_wallet run (bw_ordinal w) v"
    then have "find_wallet (bw_run v) (bw_ordinal v) b = find_wallet (bw_run w) (bw_ordinal w) b"
      using assms(3) by (simp add: is_wallet_def)
    then show "v = w"
      using find_wallet_unique [OF assms(1) that] find_wallet_unique [OF assms(1,2)] by simp
  qed (use assms(3) in \<open>simp add: is_wallet_def\<close>)
  then show ?thesis by (auto simp: upd_wallet_def update_where_def)
qed

lemma changed_keys:
  assumes "\<And>v. wallet_key (f v) = wallet_key v \<and> index_key (f v) = index_key v \<and> bw_index (f v) = bw_index v"
  shows "map wallet_key (map (\<lambda>v. if v = w then f v else v) xs) = map wallet_key xs"
    "map index_key (map (\<lambda>v. if v = w then f v else v) xs) = map index_key xs"
    "map bw_index (map (\<lambda>v. if v = w then f v else v) xs) = map bw_index xs"
  using assms by (auto simp: index_key_def)

lemma first_row_changed:
  assumes "queue_order run b" "next_wallet run b = Some w"
    and keep: "\<And>v. wallet_key (f v) = wallet_key v \<and> index_key (f v) = index_key v \<and> bw_index (f v) = bw_index v"
    and on: "unfinished (f w)"
  shows "queue_order run (upd_wallet run (bw_ordinal w) f b)
    \<and> next_wallet run (upd_wallet run (bw_ordinal w) f b) = Some (f w)"
proof -
  let ?c = "upd_wallet run (bw_ordinal w) f b" and ?g = "\<lambda>v. if v = w then f v else v"
  have ok: "distinct (map wallet_key (b_wallets b))" "distinct (map index_key (pending_rows run b))"
    using assms(1) by (simp_all add: queue_order_def)
  note w = first_pending [OF assms(2)]
  have rows: "b_wallets ?c = map ?g (b_wallets b)" by (rule one_row_changed [OF ok(1) w(2,3)])
  have "bw_run (f w) = run" using keep [of w] w(3) by (simp add: wallet_key_def)
  then have same: "bw_run (?g v) = run \<and> unfinished (?g v) \<longleftrightarrow> bw_run v = run \<and> unfinished v" for v
    using w(3,4) on by auto
  have pend: "pending_rows run ?c = map ?g (pending_rows run b)"
    unfolding pending_rows_def rows filter_map o_def same ..
  note keys = changed_keys [where f = f, OF keep]
  have least: "index_key w \<le> index_key v" if "v \<in> set (pending_rows run ?c)" for v
    using that w(1,5) keep by (auto simp: pend)
  have "next_wallet run ?c = Some (f w)"
  proof (rule next_walletI)
    show "distinct (map index_key (pending_rows run ?c))" unfolding pend keys by (rule ok(2))
    show "f w \<in> set (pending_rows run ?c)" using w(1) by (auto simp: pend)
  qed (use least keep in simp)
  moreover have "index_key v \<le> index_key u"
    if "v \<in> set (pending_rows run ?c)" "u \<in> set (pending_rows run ?c)" "bw_status v = ''active''" for v u
  proof (cases "v = f w")
    case False
    with that(1) have "v \<in> set (pending_rows run b)" by (auto simp: pend split: if_splits)
    with that(3) assms(1) w(1) have "index_key v \<le> index_key w" by (auto simp: queue_order_def)
    with least [OF that(2)] show ?thesis by simp
  qed (use least that(2) keep in auto)
  moreover have "\<forall>v \<in> set (pending_rows run ?c). bw_index v \<noteq> None"
    using assms(1) keep w(1) by (auto simp: queue_order_def pend)
  moreover have "distinct (map wallet_key (b_wallets ?c))" "distinct (map index_key (pending_rows run ?c))"
    unfolding rows pend keys by (rule ok)+
  ultimately show ?thesis unfolding queue_order_def by auto
qed

text \<open>The wallet that is started is the first one.\<close>

lemma runs_kept [simp]: "find_run run (upd_wallet run' ordinal f b) = find_run run b"
  by (simp add: find_run_def upd_wallet_def)

lemma queue_started:
  assumes "queue_ok run b" "next_wallet run b = Some w"
  shows "queue_ok run (start_wallet run (bw_ordinal w) now b)
    \<and> next_wallet run (start_wallet run (bw_ordinal w) now b) = Some (activate now w)"
proof -
  have new: "queue_order run (start_wallet run (bw_ordinal w) now b)"
    "next_wallet run (start_wallet run (bw_ordinal w) now b) = Some (activate now w)"
    using assms first_row_changed [of run b w "activate now"]
    by (auto simp: queue_ok_def start_wallet_def activate_def unfinished_def wallet_key_def index_key_def)
  moreover have "pending_rows run (start_wallet run (bw_ordinal w) now b) \<noteq> []" "pending_rows run b \<noteq> []"
    using first_pending(1) [OF new(2)] first_pending(1) [OF assms(2)] by auto
  ultimately show ?thesis using assms by (auto simp: queue_ok_def start_wallet_def activate_def)
qed

text \<open>The first wallet is finished; the next one gets its due time, or the run is completed.\<close>

lemma filter_one_out:
  assumes "\<And>v. P (g v) \<longleftrightarrow> P v \<and> v \<noteq> w" "\<And>v. v \<noteq> w \<Longrightarrow> g v = v"
  shows "filter P (map g xs) = filter (\<lambda>v. v \<noteq> w) (filter P xs)"
  using assms by (induction xs) auto

lemma distinct_map_filtered: "distinct (map h xs) \<Longrightarrow> distinct (map h (filter P xs))"
  by (auto simp: distinct_map intro: inj_on_subset)

lemma row_finished:
  assumes "queue_order run b" "next_wallet run b = Some w" "status \<in> set final_statuses"
  shows "queue_order run (upd_wallet run (bw_ordinal w) (finish_wallet status now) b)
    \<and> (bw_index w = Some k \<longrightarrow> queued_after run k (upd_wallet run (bw_ordinal w) (finish_wallet status now) b)
        = next_wallet run (upd_wallet run (bw_ordinal w) (finish_wallet status now) b))"
proof -
  let ?f = "finish_wallet status now"
  let ?c = "upd_wallet run (bw_ordinal w) ?f b" and ?g = "\<lambda>v. if v = w then ?f v else v"
  have ok: "distinct (map wallet_key (b_wallets b))" "distinct (map index_key (pending_rows run b))"
    using assms(1) by (simp_all add: queue_order_def)
  note w = first_pending [OF assms(2)]
  have rows: "b_wallets ?c = map ?g (b_wallets b)" by (rule one_row_changed [OF ok(1) w(2,3)])
  have keep: "wallet_key (?f v) = wallet_key v \<and> index_key (?f v) = index_key v \<and> bw_index (?f v) = bw_index v" for v
    by (simp add: finish_wallet_def wallet_key_def index_key_def)
  have over: "bw_status (?f w) = status" "\<not> unfinished (?f w)" "status \<noteq> ''queued''"
    using assms(3) by (auto simp: finish_wallet_def unfinished_def final_statuses_def)
  have pend: "pending_rows run ?c = filter (\<lambda>v. v \<noteq> w) (pending_rows run b)"
    unfolding pending_rows_def rows by (rule filter_one_out) (use over in auto)
  have later: "bw_status v = ''queued''" "index_key w < index_key v" if "v \<in> set (pending_rows run ?c)" for v
  proof -
    have v: "v \<in> set (pending_rows run b)" "v \<noteq> w" using that by (auto simp: pend)
    then have "index_key v \<noteq> index_key w" using ok(2) w(1) by (meson distinct_map inj_onD)
    moreover have "index_key w \<le> index_key v" by (rule w(5) [OF v(1)])
    ultimately show less: "index_key w < index_key v" by simp
    show "bw_status v = ''queued''"
      using v(1) less assms(1) w(1) by (force simp: queue_order_def pending_rows_def unfinished_def)
  qed
  have "queued_after run k ?c = next_wallet run ?c" if "bw_index w = Some k"
  proof -
    have "index_key w = Suc k" using that by (simp add: index_key_def)
    then have "filter (\<lambda>v. bw_run v = run \<and> bw_status v = ''queued'' \<and> Suc k < index_key v) (b_wallets ?c)
        = pending_rows run ?c"
      using later unfolding pending_rows_def
      by (intro filter_cong) (auto simp: unfinished_def)
    then show ?thesis by (simp add: queued_after_def next_wallet_pending)
  qed
  moreover have "distinct (map wallet_key (b_wallets ?c))"
    unfolding rows changed_keys(1) [where f = ?f, OF keep] by (rule ok(1))
  moreover have "distinct (map index_key (pending_rows run ?c))"
    unfolding pend by (rule distinct_map_filtered [OF ok(2)])
  moreover have "\<forall>v \<in> set (pending_rows run ?c). bw_index v \<noteq> None"
    using assms(1) by (auto simp: queue_order_def pend)
  ultimately show ?thesis using later(1) unfolding queue_order_def by auto
qed

lemma run_completed:
  assumes "find_run run c = Some r"
  shows "find_run run (complete_run run now c) = Some (r\<lparr>br_status := ''completed'', br_completed := Some now\<rparr>)"
  using assms select_one_SomeD [OF assms [unfolded find_run_def]]
  by (simp add: find_run_def complete_run_def select_one_def update_where_def
      find_map_cond [where Q = "\<lambda>r. br_id r = run"])

lemma queue_finished:
  assumes "queue_ok run b" "next_wallet run b = Some w" "status \<in> set final_statuses"
  shows "queue_ok run (snd (advance_wallet run (bw_ordinal w) status now b))"
proof -
  let ?c = "upd_wallet run (bw_ordinal w) (finish_wallet status now) b"
  note w = first_pending [OF assms(2)]
  obtain k r where k: "bw_index w = Some k" and r: "find_run run b = Some r"
    using assms(1) w(1) by (auto simp: queue_ok_def queue_order_def)
  have order: "queue_order run ?c" "queued_after run k ?c = next_wallet run ?c"
    using row_finished [OF _ assms(2,3)] assms(1) k by (auto simp: queue_ok_def)
  have found: "find_wallet run (bw_ordinal w) b = Some w"
    using find_wallet_unique [OF _ w(2)] assms(1) w(3) by (simp add: queue_ok_def queue_order_def)
  show ?thesis
  proof (cases "next_wallet run ?c")
    case None
    then have res: "snd (advance_wallet run (bw_ordinal w) status now b) = complete_run run now ?c"
      using assms(3) r found k w(4) order(2) by (simp add: advance_wallet_def Let_def)
    have empty: "pending_rows run ?c = []" using None by (simp add: next_wallet_pending)
    have rows: "b_wallets (complete_run run now ?c) = b_wallets ?c" by (simp add: complete_run_def)
    have run: "find_run run (complete_run run now ?c) = Some (r\<lparr>br_status := ''completed'', br_completed := Some now\<rparr>)"
      using r by (intro run_completed) simp
    show ?thesis
      unfolding res using order(1) empty run rows
      by (simp add: queue_ok_def queue_order_def pending_rows_def next_wallet_def)
  next
    case (Some v)
    let ?d = "upd_wallet run (bw_ordinal v) (\<lambda>x. x\<lparr>bw_due := Some now\<rparr>) ?c"
    have res: "snd (advance_wallet run (bw_ordinal w) status now b) = ?d"
      using assms(3) r found k w(4) order(2) Some by (simp add: advance_wallet_def Let_def)
    have "unfinished (v\<lparr>bw_due := Some now\<rparr>)"
      using first_pending(4) [OF Some] by (simp add: unfinished_def)
    then have new: "queue_order run ?d" "next_wallet run ?d = Some (v\<lparr>bw_due := Some now\<rparr>)"
      using first_row_changed [OF order(1) Some, of "\<lambda>x. x\<lparr>bw_due := Some now\<rparr>"]
      by (auto simp: wallet_key_def index_key_def)
    have "pending_rows run ?d \<noteq> []" "pending_rows run b \<noteq> []"
      using first_pending(1) [OF new(2)] w(1) by auto
    with new assms(1) show ?thesis unfolding res by (auto simp: queue_ok_def)
  qed
qed

section \<open>Turns of the worker\<close>

lemma process_wallet_queue:
  assumes "queue_ok run b" "next_wallet run b = Some w"
  shows "queue_ok run (snd (process_wallet env run (bw_ordinal w) b))
    \<and> (\<exists>v. next_wallet run (snd (process_wallet env run (bw_ordinal w) b)) = Some v
         \<and> bw_ordinal v = bw_ordinal w)"
proof -
  note w = first_pending [OF assms(2)]
  let ?now = "o_time (b_out b)"
  let ?s = "start_wallet run (bw_ordinal w) ?now b"
  obtain r where r: "find_run run b = Some r" using assms(1) by (auto simp: queue_ok_def)
  have found: "find_wallet run (bw_ordinal w) b = Some w"
    using find_wallet_unique [OF _ w(2)] assms(1) w(3) by (simp add: queue_ok_def queue_order_def)
  define rest where "rest = bind_act (look (unresolved_action run (bw_ordinal w))) (\<lambda>unresolved.
      bind_act (case unresolved of None \<Rightarrow> give None | Some a \<Rightarrow> recover_action env r w ?now a) (\<lambda>stop.
      case stop of Some s \<Rightarrow> give s | None \<Rightarrow> quote_and_process env r w ?now))"
  have "keeps rows_kept rest" unfolding rest_def by (intro quiet)
  then have kept: "rows_kept ?s (snd (rest ?s))" by (simp add: keeps_def)
  have state: "snd (process_wallet env run (bw_ordinal w) b) = snd (rest ?s)"
    using r found w(4)
    by (simp add: process_wallet_def bind_act_def [of time_now] bind_act_def [of "look f" for f]
        bind_act_def [of "change f" for f] time_now_def look_def change_def rest_def)
  have start: "queue_ok run ?s" "next_wallet run ?s = Some (activate ?now w)"
    using queue_started [OF assms] by simp_all
  have "list_all2 row_kept (pending_rows run ?s) (pending_rows run (snd (rest ?s)))"
    by (rule kept_pending [OF kept])
  moreover have "pending_rows run ?s \<noteq> []" using first_pending(1) [OF start(2)] by auto
  ultimately obtain v where v: "next_wallet run (snd (rest ?s)) = Some v" "row_kept (activate ?now w) v"
    using kept_least [of "pending_rows run ?s" "pending_rows run (snd (rest ?s))"] start(2)
      least_row_None [of index_key "pending_rows run (snd (rest ?s))"]
    unfolding next_wallet_pending by (metis list_all2_Nil2 not_None_eq option.inject)
  then show ?thesis
    using queue_kept [OF kept start(1)] unfolding state by (auto simp: row_kept_def activate_def)
qed

lemma advance_invalid: "status \<notin> set final_statuses \<Longrightarrow> snd (advance_wallet run n status now b) = b"
  by (simp add: advance_wallet_def)

lemma worker_turn_queue:
  assumes "queue_ok run b"
  shows "queue_ok run (snd (worker_turn env run b))"
proof (cases "next_wallet run b")
  case None
  then show ?thesis using assms
    by (auto simp: worker_turn_def bind_act_def look_def split: option.splits)
next
  case (Some w)
  obtain r due where r: "find_run run b = Some r" and due: "bw_due w = Some due"
    using assms Some by (auto simp: queue_ok_def)
  obtain x c where p: "process_wallet env run (bw_ordinal w) b = (x, c)" by fastforce
  with process_wallet_queue [OF assms Some, of env] obtain v
    where c: "queue_ok run c" "next_wallet run c = Some v" "bw_ordinal v = bw_ordinal w" by auto
  have fin: "queue_ok run (snd (advance_wallet run (bw_ordinal w) status now c))" for status now
  proof (cases "status \<in> set final_statuses")
    case True
    with queue_finished [OF c(1,2) True, of now] c(3) show ?thesis by simp
  qed (simp add: advance_invalid c(1))
  have sleep: "queue_ok run (snd (sleep_for q b))" for q
    using queue_kept [OF _ assms] qu.keeps_calls(2) by (auto simp: keeps_def)
  let ?now = "o_time (b_out b)"
  have turn: "worker_turn env run b =
    (if br_status r = ''completed'' then (Inr (Some 0), b)
     else if 0 < due - ?now then bind_act (sleep_for (min (due - ?now) 60)) (\<lambda>_. give None) b
     else bind_act (process_wallet env run (bw_ordinal w)) (\<lambda>outcome.
       if outcome = ''retry'' \<or> outcome = ''deferred'' then give None
       else bind_act time_now (\<lambda>later'.
         bind_act (advance_wallet run (bw_ordinal w) outcome later') (\<lambda>_. give None))) b)"
    using r due Some by (simp add: worker_turn_def bind_act_def [of "look f" for f]
        bind_act_def [of time_now] time_now_def look_def)
  have sleeping: "snd (bind_act (sleep_for q) (\<lambda>_. give None) b) = snd (sleep_for q b)" for q
    by (simp add: bind_act_def split: prod.split sum.split)
  have "queue_ok run (snd (bind_act (process_wallet env run (bw_ordinal w)) (\<lambda>outcome.
       if outcome = ''retry'' \<or> outcome = ''deferred'' then give (None :: int option)
       else bind_act time_now (\<lambda>later'.
         bind_act (advance_wallet run (bw_ordinal w) outcome later') (\<lambda>_. give None))) b))"
  proof (cases x)
    case (Inl e)
    with p c(1) show ?thesis by (simp add: bind_act_def)
  next
    case (Inr outcome)
    have "snd (bind_act (advance_wallet run (bw_ordinal w) outcome now) (\<lambda>_. give (None :: int option)) c)
        = snd (advance_wallet run (bw_ordinal w) outcome now c)" for now
      by (simp add: bind_act_def split: prod.split sum.split)
    with Inr p c(1) fin show ?thesis by (simp add: bind_act_def [of "process_wallet e i j" for e i j]
        bind_act_def [of time_now] time_now_def)
  qed
  then show ?thesis using assms sleep by (simp add: turn sleeping)
qed

lemma reconciled_queue:
  assumes "queue_ok run b"
  shows "queue_ok run (reconcile_active_wallet_due run b)"
proof -
  have "queue_ok run (upd_wallet run n (\<lambda>w. w\<lparr>bw_due := Some d\<rparr>) b)" for n d
    by (rule queue_kept [OF _ assms]) (simp add: upd_wallet_kept row_kept_def)
  then show ?thesis
    using assms unfolding reconcile_active_wallet_due_def by (auto split: option.splits)
qed

text \<open>
  What a worker makes of a queue over its life: turns, also the ones an exception ends, and
  restarts, with any environment of its own each time.
\<close>

inductive worker_history :: "string \<Rightarrow> 'w batch \<Rightarrow> 'w batch \<Rightarrow> bool" for run b where
  initial: "worker_history run b b"
| turn: "worker_history run b c \<Longrightarrow> worker_history run b (snd (worker_turn env run c))"
| restart: "worker_history run b c \<Longrightarrow> worker_history run b (reconcile_active_wallet_due run c)"
| outer: "worker_history run b c \<Longrightarrow> worker_history run b (c\<lparr>b_out := w\<rparr>)"

lemma outside_changed [simp]: "queue_ok run (c\<lparr>b_out := w\<rparr>) = queue_ok run c"
  by (simp add: queue_ok_def queue_order_def pending_rows_def next_wallet_def find_run_def)

lemma history_queue:
  "worker_history run b c \<Longrightarrow> queue_ok run b \<Longrightarrow> queue_ok run c"
  by (induction rule: worker_history.induct) (auto intro: worker_turn_queue reconciled_queue)

text \<open>A new run with a ready wallet starts with such a queue.\<close>

lemma position_of_Some:
  "position_of k rows = Some i \<Longrightarrow> i < length rows \<and> fst (rows ! i) = k"
  by (induction rows arbitrary: i) (auto split: if_splits)

lemma position_of_None: "position_of k rows = None \<longleftrightarrow> k \<notin> fst ` set rows"
  by (induction rows) (auto split: if_splits)

lemma position_of_nth:
  assumes "distinct (map fst rows)" "i < length rows"
  shows "position_of (fst (rows ! i)) rows = Some i"
proof (cases "position_of (fst (rows ! i)) rows")
  case None
  then show ?thesis using assms(2) by (simp add: position_of_None)
next
  case (Some j)
  then show ?thesis
    using position_of_Some [OF Some] assms by (metis length_map nth_eq_iff_index_eq nth_map)
qed

lemma new_queue:
  assumes rows: "distinct (map fst rows)" and queue: "set queue \<subseteq> set rows" "distinct queue" "queue \<noteq> []"
    and wallets: "b_wallets b = old @ map (new_wallet run now entries queue) rows"
    and old: "\<And>w. w \<in> set old \<Longrightarrow> bw_run w \<noteq> run" "distinct (map wallet_key old)"
    and found: "find_run run b = Some r" "br_status r \<noteq> ''completed''"
  shows "queue_ok run b"
proof -
  let ?new = "new_wallet run now entries queue"
  have in_rows: "row \<in> set rows \<Longrightarrow> fst row = fst q \<Longrightarrow> q \<in> set queue \<Longrightarrow> row = q" for row q
    using rows queue(1) by (auto simp: distinct_map dest: inj_onD)
  have qdist: "distinct (map fst queue)"
    using queue(1,2) rows by (auto simp: distinct_map intro: inj_on_subset)
  have status: "unfinished (?new row) \<longleftrightarrow> fst row \<in> fst ` set queue" for row
    by (cases row) (simp add: new_wallet_def unfinished_def position_of_None)
  have key: "wallet_key (?new row) = (run, fst row)" "bw_run (?new row) = run" for row
    by (simp_all add: new_wallet_def wallet_key_def split: prod.split)
  have pend: "pending_rows run b = map ?new (filter (\<lambda>row. fst row \<in> fst ` set queue) rows)"
    using old(1) unfolding pending_rows_def wallets
    by (simp add: filter_map o_def key status filter_empty_conv)
  have index: "bw_index (?new row) = position_of (fst row) queue" for row
    by (simp add: new_wallet_def split: prod.split)
  have inj: "position_of k queue = position_of l queue \<Longrightarrow> k \<in> fst ` set queue \<Longrightarrow> k = l" for k l
    by (metis position_of_None position_of_Some not_None_eq)
  have order: "queue_order run b"
    unfolding queue_order_def
  proof (intro conjI ballI impI)
    have "distinct (map wallet_key (map ?new rows))"
      using rows by (simp add: o_def key distinct_map inj_on_def)
    moreover have "set (map wallet_key old) \<inter> set (map wallet_key (map ?new rows)) = {}"
      using old(1) by (auto simp: key) (auto simp: wallet_key_def)
    ultimately show "distinct (map wallet_key (b_wallets b))"
      unfolding wallets using old(2) by (auto simp: o_def)
    show "distinct (map index_key (pending_rows run b))"
    proof -
      have "inj_on (\<lambda>row. index_key (?new row)) (set (filter (\<lambda>row. fst row \<in> fst ` set queue) rows))"
      proof (rule inj_onI)
        fix x y assume x: "x \<in> set (filter (\<lambda>row. fst row \<in> fst ` set queue) rows)"
          and y: "y \<in> set (filter (\<lambda>row. fst row \<in> fst ` set queue) rows)"
          and eq: "index_key (?new x) = index_key (?new y)"
        have "position_of (fst x) queue \<noteq> None" "position_of (fst y) queue \<noteq> None"
          using x y by (auto simp: position_of_None)
        then have "position_of (fst x) queue = position_of (fst y) queue"
          using eq by (auto simp: index_key_def index)
        then have "fst x = fst y" using inj x by simp
        with x y rows show "x = y" by (auto simp: distinct_map dest: inj_onD)
      qed
      then show ?thesis
        using rows unfolding pend by (simp add: distinct_map o_def)
    qed
  next
    fix w assume "w \<in> set (pending_rows run b)"
    then obtain row where row: "w = ?new row" "fst row \<in> fst ` set queue" by (auto simp: pend)
    show "bw_index w \<noteq> None" using row by (simp add: index position_of_None)
    fix v assume "bw_status w = ''active''"
    with row show "index_key w \<le> index_key v" by (simp add: new_wallet_def split: prod.splits if_splits)
  qed
  obtain q rest where q: "queue = q # rest" using queue(3) by (cases queue) auto
  have first: "next_wallet run b = Some (?new q)"
  proof (rule next_walletI)
    show "distinct (map index_key (pending_rows run b))" using order by (simp add: queue_order_def)
    show "?new q \<in> set (pending_rows run b)" using queue(1) by (auto simp: pend q)
    have "bw_index (?new q) = Some 0" by (cases q) (simp add: new_wallet_def q)
    then have "index_key (?new q) = Suc 0" by (simp add: index_key_def)
    then show "index_key (?new q) \<le> index_key v" if "v \<in> set (pending_rows run b)" for v
      using that order by (auto simp: queue_order_def index_key_def split: option.splits)
  qed
  then have "pending_rows run b \<noteq> []" by (auto simp: next_wallet_pending)
  moreover have "bw_due (?new q) \<noteq> None" by (cases q) (simp add: new_wallet_def q)
  ultimately show ?thesis using order first found by (auto simp: queue_ok_def)
qed

lemma initialized:
  assumes "initialize_batch q rows plan_bytes digest loads shuffle now b0 = (Inr summary, b)"
  shows "\<exists>entries queue. queue = shuffle (filter (\<lambda>row. 0 < ready_count entries (snd row)) rows)
    \<and> b = b0\<lparr>b_runs := b_runs b0 @ [new_run q digest now],
          b_wallets := b_wallets b0 @ map (new_wallet (rq_run q) now entries queue) rows\<rparr>
    \<and> distinct (map fst rows) \<and> find_run (rq_run q) b0 = None
    \<and> get summary ''queued'' = PInt (int (length queue)) \<and> valid_limits q"
  using assms unfolding initialize_batch_def
  by (auto simp: Let_def get_def get_default_def split: if_splits sum.splits)

lemma find_run_new:
  "find_run (rq_run q) b0 = None \<Longrightarrow> b_runs b = b_runs b0 @ [new_run q digest now]
    \<Longrightarrow> find_run (rq_run q) b = Some (new_run q digest now)"
  by (simp add: find_run_def select_one_def find_append new_run_def)

lemma initial_queue:
  assumes "initialize_batch q rows plan_bytes digest loads shuffle now b0 = (Inr summary, b)"
    and "get summary ''queued'' \<noteq> PInt 0" "\<And>xs. mset (shuffle xs) = mset xs"
    and "distinct (map wallet_key (b_wallets b0))" "\<And>w. w \<in> set (b_wallets b0) \<Longrightarrow> bw_run w \<noteq> rq_run q"
  shows "queue_ok (rq_run q) b"
proof -
  obtain entries queue where i: "queue = shuffle (filter (\<lambda>row. 0 < ready_count entries (snd row)) rows)"
    "b = b0\<lparr>b_runs := b_runs b0 @ [new_run q digest now],
          b_wallets := b_wallets b0 @ map (new_wallet (rq_run q) now entries queue) rows\<rparr>"
    "distinct (map fst rows)" "find_run (rq_run q) b0 = None" "get summary ''queued'' = PInt (int (length queue))"
    using initialized [OF assms(1)] by auto
  have mset: "mset queue = mset (filter (\<lambda>row. 0 < ready_count entries (snd row)) rows)"
    unfolding i(1) by (rule assms(3))
  have "set queue \<subseteq> set rows" "distinct queue"
    using mset_eq_setD [OF mset] mset_eq_imp_distinct_iff [OF mset] i(3) by (auto simp: distinct_map)
  then show ?thesis
    using i assms find_run_new [OF i(4), of b digest now]
    by (intro new_queue [where rows = rows and queue = queue and entries = entries and now = now
          and old = "b_wallets b0" and r = "new_run q digest now"])
      (auto simp: new_run_def)
qed

end
