(* ===== verification/Defi_Batch_Properties.thy ===== *)
theory Defi_Batch_Properties
  imports Defi_Queue
begin

text \<open>
  What holds of the withdrawal queue: the order of a run over its whole life, the actions that
  are settled for good, the deadlines a transaction sets, and when an execution is not repeated.
\<close>

section \<open>The order of a run\<close>

text \<open>
  C31: in whatever way the worker's turns end and however often it restarts, a run with a ready
  wallet never finds its queue inconsistent: the run is completed and each of its wallets
  finished, or the first wallet has a due time; and at most one wallet is active.
\<close>

theorem queue_never_inconsistent:
  assumes "initialize_batch q rows plan_bytes digest loads shuffle now b0 = (Inr summary, b)"
    and "get summary ''queued'' \<noteq> PInt 0" "\<And>xs. mset (shuffle xs) = mset xs"
    and "distinct (map wallet_key (b_wallets b0))" "\<And>w. w \<in> set (b_wallets b0) \<Longrightarrow> bw_run w \<noteq> rq_run q"
    and "worker_history (rq_run q) b c"
  shows "(\<exists>r. find_run (rq_run q) c = Some r \<and>
      (if br_status r = ''completed''
       then \<forall>w \<in> set (b_wallets c). bw_run w = rq_run q \<longrightarrow> \<not> unfinished w
       else \<exists>w due. next_wallet (rq_run q) c = Some w \<and> bw_due w = Some due))
    \<and> (\<forall>v \<in> set (b_wallets c). \<forall>w \<in> set (b_wallets c). bw_run v = rq_run q \<and> bw_run w = rq_run q
         \<and> bw_status v = ''active'' \<and> bw_status w = ''active'' \<longrightarrow> v = w)"
proof -
  have ok: "queue_ok (rq_run q) c"
    using history_queue [OF assms(6)] initial_queue [OF assms(1-5)] by blast
  then obtain r where r: "find_run (rq_run q) c = Some r"
    "br_status r = ''completed'' \<longleftrightarrow> pending_rows (rq_run q) c = []" by (auto simp: queue_ok_def)
  have "v = w" if "v \<in> set (b_wallets c)" "w \<in> set (b_wallets c)" "bw_run v = rq_run q" "bw_run w = rq_run q"
    "bw_status v = ''active''" "bw_status w = ''active''" for v w
  proof -
    have p: "v \<in> set (pending_rows (rq_run q) c)" "w \<in> set (pending_rows (rq_run q) c)"
      using that by (auto simp: pending_rows_def unfinished_def)
    then have "index_key v = index_key w"
      using ok that(5,6) unfolding queue_ok_def queue_order_def by (metis le_antisym)
    with p ok show "v = w" unfolding queue_ok_def queue_order_def by (meson distinct_map inj_onD)
  qed
  moreover have "\<exists>w due. next_wallet (rq_run q) c = Some w \<and> bw_due w = Some due"
    if "pending_rows (rq_run q) c \<noteq> []"
    using ok that least_row_None [of index_key "pending_rows (rq_run q) c"]
    unfolding queue_ok_def next_wallet_pending by (metis not_None_eq)
  moreover have "\<forall>w \<in> set (b_wallets c). bw_run w = rq_run q \<longrightarrow> \<not> unfinished w"
    if "pending_rows (rq_run q) c = []"
    using that by (auto simp: pending_rows_def filter_empty_conv)
  ultimately show ?thesis using r by auto
qed

definition queue_request :: batch_request where
  "queue_request = \<lparr>rq_run = ''r'', rq_workbook = ''w.xlsx'', rq_db = ''d.sqlite'', rq_output = ''out'',
     rq_count = 2, rq_ordinals = None, rq_cap = 10 ^ 15, rq_delay_min = 1200, rq_delay_max = 6000,
     rq_within_min = 60, rq_within_max = 300\<rparr>"

definition queue_plan :: pyval where
  "queue_plan = PDict [(''schema'', PStr ''rabby-defi-withdraw-v1''),
     (''entries'', PList [PDict [(''wallet'', PStr ''b''), (''status'', PStr ''ready''),
        (''action_id'', PStr ''i''), (''chain_id'', PInt 10)]])]"

definition empty_batch :: "unit batch" where
  "empty_batch = \<lparr>b_runs = [], b_wallets = [], b_actions = [], b_txs = [], b_outcomes = [],
     b_baselines = [], b_out = \<lparr>o_journal = empty_journal, o_plans = [(''sha'', ''plan'')],
     o_time = 100, o_world = ()\<rparr>\<rparr>"

definition queue_sample :: "unit batch" where
  "queue_sample = snd (initialize_batch queue_request [(1, ''a''), (2, ''b'')] ''plan'' ''sha''
     (\<lambda>_. Inr queue_plan) (\<lambda>xs. xs) 100 empty_batch)"

lemmas queue_simps = initialize_batch_def queue_request_def queue_plan_def empty_batch_def
  valid_limits_def find_run_def select_one_def get_def get_default_def ready_count_def is_ready_def
  check_entries_def is_str_def as_dict_def Let_def

lemma queue_initialized:
  "\<exists>summary. initialize_batch queue_request [(1, ''a''), (2, ''b'')] ''plan'' ''sha''
     (\<lambda>_. Inr queue_plan) (\<lambda>xs. xs) 100 empty_batch = (Inr summary, queue_sample)
   \<and> get summary ''queued'' = PInt 1"
  unfolding queue_sample_def
  by (simp add: queue_simps)

lemma queue_never_inconsistent_witness:
  "\<exists>w due. next_wallet ''r'' queue_sample = Some w \<and> bw_due w = Some due"
proof -
  obtain summary where s: "initialize_batch queue_request [(1, ''a''), (2, ''b'')] ''plan'' ''sha''
     (\<lambda>_. Inr queue_plan) (\<lambda>xs. xs) 100 empty_batch = (Inr summary, queue_sample)"
    "get summary ''queued'' \<noteq> PInt 0"
    using queue_initialized by auto
  have r: "rq_run queue_request = ''r''" by (simp add: queue_request_def)
  have run: "find_run ''r'' queue_sample = Some r \<Longrightarrow> br_status r \<noteq> ''completed''" for r
    by (auto simp: queue_sample_def queue_simps new_run_def)
  show ?thesis
    using queue_never_inconsistent [OF s, of queue_sample] run worker_history.initial [of "''r''" queue_sample]
    by (auto simp: r empty_batch_def split: if_splits)
qed

text \<open>
  C34: a run in which no wallet has a ready action is not completed when it is created, and the
  first turn of its worker raises that the queue is inconsistent.
\<close>

theorem empty_queue_raises:
  assumes "initialize_batch q rows plan_bytes digest loads shuffle now b0 = (Inr summary, b)"
    and "get summary ''queued'' = PInt 0" "\<And>w. w \<in> set (b_wallets b0) \<Longrightarrow> bw_run w \<noteq> rq_run q"
  shows "worker_turn env (rq_run q) b = (Inl (ValueError ''DeFi batch queue is inconsistent''), b)"
proof -
  obtain entries queue where i: "b = b0\<lparr>b_runs := b_runs b0 @ [new_run q digest now],
          b_wallets := b_wallets b0 @ map (new_wallet (rq_run q) now entries queue) rows\<rparr>"
    "find_run (rq_run q) b0 = None" "queue = []"
    using initialized [OF assms(1)] assms(2) by auto
  have "find_run (rq_run q) b = Some (new_run q digest now)"
    by (rule find_run_new [OF i(2)]) (simp add: i(1))
  moreover have "next_wallet (rq_run q) b = None"
    using assms(3) by (auto simp: next_wallet_def i(1,3) filter_empty_conv new_wallet_def unfinished_def)
  ultimately show ?thesis
    by (simp add: worker_turn_def bind_act_def look_def new_run_def)
qed

lemma empty_queue_raises_witness:
  "\<exists>b :: unit batch. \<forall>env. worker_turn env ''r'' b = (Inl (ValueError ''DeFi batch queue is inconsistent''), b)"
proof -
  let ?plan = "PDict [(''schema'', PStr ''rabby-defi-withdraw-v1''), (''entries'', PList [])]"
  let ?init = "initialize_batch queue_request [(1, ''a''), (2, ''b'')] ''plan'' ''sha''
     (\<lambda>_. Inr ?plan) (\<lambda>xs. xs) 100 empty_batch"
  have "\<exists>summary b. ?init = (Inr summary, b) \<and> get summary ''queued'' = PInt 0"
    by (simp add: queue_simps)
  then obtain summary b where "?init = (Inr summary, b)" "get summary ''queued'' = PInt 0" by blast
  from empty_queue_raises [OF this] show ?thesis
    by (auto simp: empty_batch_def queue_request_def)
qed

section \<open>Settled actions\<close>

definition act_key :: "batch_action \<Rightarrow> string \<times> int \<times> string" where
  "act_key a = (ba_run a, ba_ordinal a, ba_action a)"

definition action_at :: "'w batch \<Rightarrow> string \<times> int \<times> string \<Rightarrow> batch_action option" where
  "action_at b k = find_action (fst k) (fst (snd k)) (snd (snd k)) b"

definition one_row_each :: "'w batch \<Rightarrow> bool" where
  "one_row_each b \<longleftrightarrow> distinct (map act_key (b_actions b))"

definition actions_kept :: "(string \<times> int \<times> string) set \<Rightarrow> 'w batch \<Rightarrow> 'w batch \<Rightarrow> bool" where
  "actions_kept K s t \<longleftrightarrow> (one_row_each s \<longrightarrow> one_row_each t)
     \<and> (\<forall>k. k \<notin> K \<longrightarrow> action_at t k = action_at s k)"

lemma is_action_key: "is_action (fst k) (fst (snd k)) (snd (snd k)) a \<longleftrightarrow> act_key a = k"
  by (auto simp: is_action_def act_key_def)

lemma action_at_find: "action_at b k = List.find (\<lambda>a. act_key a = k) (b_actions b)"
  unfolding action_at_def find_action_def select_one_def is_action_key ..

lemma put_action_kept:
  assumes "act_key a \<in> K"
  shows "actions_kept K b (put_action a b)"
proof -
  let ?P = "is_action (ba_run a) (ba_ordinal a) (ba_action a)"
  have P: "?P x \<longleftrightarrow> act_key x = act_key a" for x by (auto simp: is_action_def act_key_def)
  show ?thesis
  proof (cases "list_ex ?P (b_actions b)")
    case True
    then have acts: "b_actions (put_action a b) = map (\<lambda>x. if act_key x = act_key a then a else x) (b_actions b)"
      by (simp add: put_action_def Let_def update_where_def P)
    have "map act_key (b_actions (put_action a b)) = map act_key (b_actions b)"
      unfolding acts by auto
    moreover have "action_at (put_action a b) k = action_at b k" if "k \<notin> K" for k
    proof -
      have "k \<noteq> act_key a" using that assms by auto
      then have "List.find (\<lambda>x. act_key x = k) (map (\<lambda>x. if act_key x = act_key a then a else x) xs)
          = List.find (\<lambda>x. act_key x = k) xs" for xs
        by (induction xs) auto
      then show ?thesis unfolding action_at_find acts .
    qed
    ultimately show ?thesis by (simp add: actions_kept_def one_row_each_def)
  next
    case False
    then have acts: "b_actions (put_action a b) = b_actions b @ [a]"
      by (simp add: put_action_def Let_def)
    have "one_row_each b \<Longrightarrow> one_row_each (put_action a b)"
      using False unfolding one_row_each_def acts P by (auto simp: list_ex_iff)
    then show ?thesis
      using assms by (auto simp: actions_kept_def action_at_find acts find_append split: option.split)
  qed
qed

lemma same_actions_kept: "b_actions t = b_actions s \<Longrightarrow> actions_kept K s t"
  by (simp add: actions_kept_def one_row_each_def action_at_find)

interpretation ak: batch_frame "actions_kept K" "\<lambda>k. k \<in> K" for K
  by unfold_locales
    (simp_all add: put_action_kept act_key_def same_actions_kept upd_wallet_def, auto simp: actions_kept_def)

text \<open>A settled row stays; the work on an entry sets the row of its own action only, when open.\<close>

definition settled_row :: "'w batch \<Rightarrow> string \<times> int \<times> string \<Rightarrow> batch_action \<Rightarrow> bool" where
  "settled_row b k a \<longleftrightarrow> action_at b k = Some a \<and> ba_status a \<in> set settled_statuses"

definition settled_kept :: "'w batch \<Rightarrow> 'w batch \<Rightarrow> bool" where
  "settled_kept s t \<longleftrightarrow> (one_row_each s \<longrightarrow> one_row_each t) \<and> (\<forall>k a. settled_row s k a \<longrightarrow> settled_row t k a)"

interpretation sk: batch_frame settled_kept "\<lambda>_. False"
  by unfold_locales
    (auto simp: settled_kept_def settled_row_def upd_wallet_def action_at_find one_row_each_def)

lemma kept_but_open:
  assumes "actions_kept {k} s t" "\<And>a. \<not> settled_row s k a"
  shows "settled_kept s t"
  using assms unfolding actions_kept_def settled_kept_def settled_row_def
  by (metis singletonD)

lemma entry_settled: "keeps settled_kept (work_entry env run w digest file now entry)"
proof -
  have "settled_kept b (snd (work_entry env run w digest file now entry b))" for b
  proof (cases "get entry ''action_id''")
    case (PStr i)
    let ?k = "(br_id run, bw_ordinal w, i)"
    let ?work = "bind_act (native_of env entry (bw_wallet w)) (\<lambda>(symbol, before).
          preview_action env \<lparr>ej_run = run, ej_wallet = w, ej_entry = entry, ej_action = i,
            ej_digest = digest, ej_file = file, ej_now = now, ej_symbol = symbol, ej_before = before\<rparr>)"
    have step: "work_entry env run w digest file now entry b =
      (if \<exists>a. settled_row b ?k a then (Inr None, b) else ?work b)"
      by (auto simp: work_entry_def PStr bind_act_def [of "look f" for f] look_def settled_row_def
          action_at_def split: option.split)
    have "keeps (actions_kept {?k}) ?work"
      by (intro quiet) (unfold ak.own_def, simp)
    then have "actions_kept {?k} b (snd (?work b))" by (simp add: keeps_def)
    then show ?thesis
      using kept_but_open [of ?k b "snd (?work b)"] sk.same [of b]
      by (cases "\<exists>a. settled_row b ?k a") (simp_all add: step)
  qed (simp_all add: work_entry_def sk.same)
  then show ?thesis by (simp add: keeps_def)
qed

lemma recovery_settled:
  assumes "one_row_each b" "unresolved_action (br_id run) (bw_ordinal w) b = Some a"
  shows "settled_kept b (snd (recover_action env run w now a b))"
proof (rule kept_but_open)
  let ?k = "(br_id run, bw_ordinal w, ba_action a)"
  have "keeps (actions_kept {?k}) (recover_action env run w now a)" by (intro quiet) simp
  then show "actions_kept {?k} b (snd (recover_action env run w now a b))" by (simp add: keeps_def)
  have a: "a \<in> set (b_actions b)" "act_key a = ?k" "ba_status a = ''executing''"
    using least_row_Some [OF assms(2) [unfolded unresolved_action_def]] by (auto simp: act_key_def)
  show "\<not> settled_row b ?k x" for x
  proof
    assume "settled_row b ?k x"
    then have x: "x \<in> set (b_actions b)" "act_key x = ?k" "ba_status x \<in> set settled_statuses"
      by (auto simp: settled_row_def action_at_find find_Some_iff)
    then have "x = a" using a assms(1) unfolding one_row_each_def by (metis distinct_map inj_onD)
    with x(3) a(3) show False by (simp add: settled_statuses_def)
  qed
qed

text \<open>
  C32: working on a wallet never touches the row of an action that was withdrawn, skipped or left
  to a review, whatever the plan, the network and the exceptions do.
\<close>

theorem settled_actions_final:
  assumes "one_row_each b" "find_action r n i b = Some a" "ba_status a \<in> {''withdrawn'', ''skipped'', ''manual_review''}"
  shows "find_action r n i (snd (process_wallet env run ordinal b)) = Some a
    \<and> one_row_each (snd (process_wallet env run ordinal b))"
proof -
  have "settled_kept b (snd (process_wallet env run ordinal b))"
  proof (cases "\<exists>x w. find_run run b = Some x \<and> find_wallet run ordinal b = Some w \<and> unfinished w")
    case False
    then have "snd (process_wallet env run ordinal b) = b"
      by (auto simp: process_wallet_def bind_act_def [of time_now] bind_act_def [of "look f" for f]
          time_now_def look_def split: option.split)
    then show ?thesis by (simp add: sk.same)
  next
    case True
    then obtain x w where found: "find_run run b = Some x" "find_wallet run ordinal b = Some w" "unfinished w"
      by blast
    then have ids: "br_id x = run" "bw_ordinal w = ordinal"
      using select_one_SomeD [of "\<lambda>r. br_id r = run"] select_one_SomeD [of "is_wallet run ordinal"]
      by (auto simp: find_run_def find_wallet_def is_wallet_def)
    let ?now = "o_time (b_out b)" and ?s = "start_wallet run ordinal (o_time (b_out b)) b"
    let ?go = "\<lambda>stop. case stop of Some s \<Rightarrow> give s | None \<Rightarrow> quote_and_process env x w ?now"
    have go: "settled_kept c (snd (?go stop c))" for stop c
      using sk.keeps_quoting [of env x w ?now, OF entry_settled] sk.same by (cases stop) (auto simp: keeps_def)
    have same: "b_actions ?s = b_actions b" by (simp add: start_wallet_def upd_wallet_def)
    have start: "settled_kept b ?s" "one_row_each ?s"
      using assms(1) by (simp_all add: settled_kept_def settled_row_def one_row_each_def action_at_find same)
    have step: "process_wallet env run ordinal b = bind_act
        (case unresolved_action run ordinal ?s of None \<Rightarrow> give None | Some a \<Rightarrow> recover_action env x w ?now a) ?go ?s"
      using found by (simp add: process_wallet_def bind_act_def [of time_now] bind_act_def [of "look f" for f]
          bind_act_def [of "change f" for f] time_now_def look_def change_def)
    show ?thesis
    proof (cases "unresolved_action run ordinal ?s")
      case None
      then show ?thesis using sk.trans [OF start(1) go [of ?s None]] by (simp add: step)
    next
      case (Some y)
      obtain q c where q: "recover_action env x w ?now y ?s = (q, c)" by fastforce
      with recovery_settled [OF start(2), of x w y env ?now] Some ids have "settled_kept ?s c" by simp
      then have c: "settled_kept b c" by (rule sk.trans [OF start(1)])
      with q Some sk.trans [OF c go] show ?thesis
        by (cases q) (simp_all add: step bind_act_def)
    qed
  qed
  with assms show ?thesis
    by (auto simp: settled_kept_def settled_row_def action_at_def settled_statuses_def)
qed

definition quiet_env :: "unit worker_env" where
  "quiet_env = \<lparr>we_invoke = \<lambda>po w. (\<lparr>cr_code = 1, cr_payload = PNone, cr_reason = ''KeyError'', cr_detail = None\<rparr>, w),
     we_native = \<lambda>c a w. (Inr (None, None), w), we_draw = \<lambda>lo hi w. (lo, w), we_sha = \<lambda>t. t,
     we_loads = \<lambda>t. Inr queue_plan, we_dumps = \<lambda>v. ''{}'', we_detail = \<lambda>v. ''{}'', we_text = \<lambda>v. ''x'',
     we_read = \<lambda>f w. Inr ''plan'', we_write = \<lambda>f t w. (Inr (), w), we_stamp = \<lambda>w. (''s'', w)\<rparr>"

definition one_withdrawn :: "unit batch" where
  "one_withdrawn = queue_sample\<lparr>b_actions := [\<lparr>ba_run = ''r'', ba_ordinal = 2, ba_action = ''i'', ba_plan = ''sha'',
     ba_path = ''p'', ba_status = ''withdrawn'', ba_hash = PNone, ba_reason = PNone, ba_updated = 1\<rparr>]\<rparr>"

lemma settled_actions_final_witness:
  "\<exists>a. find_action ''r'' 2 ''i'' (snd (process_wallet quiet_env ''r'' 2 one_withdrawn)) = Some a
    \<and> ba_status a = ''withdrawn''"
proof -
  have "one_row_each one_withdrawn" by (simp add: one_withdrawn_def one_row_each_def)
  from settled_actions_final [OF this, of "''r''" 2 "''i''"] show ?thesis
    by (simp add: one_withdrawn_def find_action_def select_one_def is_action_def)
qed

section \<open>Deadlines\<close>

text \<open>
  An exit whose preview passed is held back until the deadline of the last transaction: the
  operation is not called, and only the due time of the wallet changes.
\<close>

lemma exit_waits_for_deadline:
  assumes "next_transaction_due (br_id (ej_run job)) (bw_ordinal (ej_wallet job)) b = Some due"
    and "o_time (b_out b) < due"
  shows "execute_when_due env job b = (Inr (Some ''deferred''),
    upd_wallet (br_id (ej_run job)) (bw_ordinal (ej_wallet job)) (\<lambda>w. w\<lparr>bw_due := Some due\<rparr>) b)"
  using assms by (simp add: execute_when_due_def Let_def bind_act_def look_def time_now_def change_def)

text \<open>A preview that was answered as one.\<close>

definition passed_preview :: "command \<Rightarrow> bool" where
  "passed_preview r \<longleftrightarrow> cr_code r = 0
     \<and> (case cr_payload r of PDict d \<Rightarrow> get d ''status'' = PStr ''preview'' | _ \<Rightarrow> False)"

lemma preview_waits:
  assumes "invoke_read_only env (job_operation job False) s = (Inr p, s')" "passed_preview p"
    and "next_transaction_due (br_id (ej_run job)) (bw_ordinal (ej_wallet job)) s' = Some due"
    and "o_time (b_out s') < due"
  shows "preview_action env job s = (Inr (Some ''deferred''),
    upd_wallet (br_id (ej_run job)) (bw_ordinal (ej_wallet job)) (\<lambda>w. w\<lparr>bw_due := Some due\<rparr>) s')"
proof -
  obtain d where d: "cr_payload p = PDict d" "get d ''status'' = PStr ''preview''" "cr_code p = 0"
    using assms(2) by (auto simp: passed_preview_def split: pyval.splits)
  then have "d \<noteq> []" by (auto simp: get_def get_default_def)
  with d exit_waits_for_deadline [OF assms(3,4), of env] show ?thesis
    by (simp add: preview_action_def bind_act_eq(1) [where m = "invoke_read_only _ _", OF assms(1)] as_dict_def)
qed

text \<open>A new transaction, observed after the others, is the last one of its run.\<close>

lemma recorded_tx:
  assumes "find_tx h b = None" "br_delay_min r \<le> br_delay_max r" "br_within_min r \<le> br_within_max r"
    and "\<And>lo hi w. lo \<le> hi \<Longrightarrow> lo \<le> fst (draw lo hi w) \<and> fst (draw lo hi w) \<le> hi"
    and "\<And>t. t \<in> set (b_txs b) \<Longrightarrow> bt_run t = br_id r \<Longrightarrow> bt_observed t < now"
  obtains x y t c where "record_batch_tx draw r ordinal action h now b = (Inr (now + of_int x), c)"
    "br_delay_min r \<le> x" "x \<le> br_delay_max r" "br_within_min r \<le> y" "y \<le> br_within_max r"
    "find_tx h c = Some t" "last_tx (br_id r) c = Some t"
    "bt_ordinal t = ordinal" "bt_next t = now + of_int x" "bt_same t = now + of_int y"
proof -
  obtain x u where x: "draw (br_delay_min r) (br_delay_max r) (b_out b) = (x, u)" by fastforce
  obtain y v where y: "draw (br_within_min r) (br_within_max r) u = (y, v)" by fastforce
  have bounds: "br_delay_min r \<le> x" "x \<le> br_delay_max r" "br_within_min r \<le> y" "y \<le> br_within_max r"
    using assms(4) [OF assms(2), of "b_out b"] assms(4) [OF assms(3), of u] x y by auto
  let ?t = "\<lparr>bt_hash = h, bt_run = br_id r, bt_ordinal = ordinal, bt_action = action,
    bt_observed = now, bt_next = now + of_int x, bt_same = now + of_int y\<rparr>"
  let ?c = "b\<lparr>b_out := v, b_txs := b_txs b @ [?t]\<rparr>"
  let ?rows = "filter (\<lambda>t. bt_run t = br_id r) (b_txs b) @ [?t]"
  have run: "record_batch_tx draw r ordinal action h now b = (Inr (now + of_int x), ?c)"
    using assms(1-3) x y by (simp add: record_batch_tx_def randint_def bind_act_def Let_def)
  obtain m where m: "last_tx (br_id r) ?c = Some m"
    using least_row_in [of ?t ?rows "\<lambda>t. - bt_observed t"] by (auto simp: last_tx_def greatest_row_def)
  then have "m \<in> set ?rows" "- bt_observed m \<le> - now"
    using least_row_Some [of "\<lambda>t. - bt_observed t" ?rows m] by (auto simp: last_tx_def greatest_row_def)
  then have "m = ?t" using assms(5) by fastforce
  moreover have "find_tx h ?c = Some ?t" using assms(1) by (simp add: find_tx_def select_one_def find_append)
  ultimately show thesis using m by (intro that [OF run bounds, of ?t]) simp_all
qed

text \<open>
  C33: a transaction observed after all others of the run holds back the next one. It fixes two
  deadlines, one for the other wallets and one for its own, each a delay later within the limits
  of the run; seen again, it changes nothing. As long as no further transaction is observed, an
  exit of the run whose preview passes before the deadline of its wallet is deferred: it is not
  executed, and only the due time of its wallet is set, to the deadline.
\<close>

theorem transaction_holds_back:
  fixes b :: "'w batch"
  assumes "find_tx h b = None" "br_delay_min r \<le> br_delay_max r" "br_within_min r \<le> br_within_max r"
    and "\<And>lo hi w. lo \<le> hi \<Longrightarrow> lo \<le> fst (draw lo hi w) \<and> fst (draw lo hi w) \<le> hi"
    and "\<And>t. t \<in> set (b_txs b) \<Longrightarrow> bt_run t = br_id r \<Longrightarrow> bt_observed t < now"
  shows "\<exists>others own c. record_batch_tx draw r ordinal action h now b = (Inr others, c)
    \<and> now + of_int (br_delay_min r) \<le> others \<and> others \<le> now + of_int (br_delay_max r)
    \<and> now + of_int (br_within_min r) \<le> own \<and> own \<le> now + of_int (br_within_max r)
    \<and> record_batch_tx draw r n' action' h now' c = (Inr others, c)
    \<and> (\<forall>(env :: 'w worker_env) job s p s' due. ej_run job = r \<longrightarrow> due = (if bw_ordinal (ej_wallet job) = ordinal then own else others)
        \<longrightarrow> invoke_read_only env (job_operation job False) s = (Inr p, s') \<longrightarrow> passed_preview p
        \<longrightarrow> b_txs s' = b_txs c \<longrightarrow> o_time (b_out s') < due
        \<longrightarrow> preview_action env job s = (Inr (Some ''deferred''),
              upd_wallet (br_id r) (bw_ordinal (ej_wallet job)) (\<lambda>w. w\<lparr>bw_due := Some due\<rparr>) s'))"
proof -
  obtain x y t c where run: "record_batch_tx draw r ordinal action h now b = (Inr (now + of_int x), c)"
    and bounds: "br_delay_min r \<le> x" "x \<le> br_delay_max r" "br_within_min r \<le> y" "y \<le> br_within_max r"
    and t: "find_tx h c = Some t" "last_tx (br_id r) c = Some t"
      "bt_ordinal t = ordinal" "bt_next t = now + of_int x" "bt_same t = now + of_int y"
    by (rule recorded_tx [OF assms])
  show ?thesis
  proof (rule exI [of _ "now + of_int x"], rule exI [of _ "now + of_int y"], rule exI [of _ c], intro conjI allI impI)
    fix env :: "'w worker_env" and job s p s' due
    assume job: "ej_run job = r" "due = (if bw_ordinal (ej_wallet job) = ordinal then now + of_int y else now + of_int x)"
      and passed: "invoke_read_only env (job_operation job False) s = (Inr p, s')" "passed_preview p"
      and early: "b_txs s' = b_txs c" "o_time (b_out s') < due"
    have "last_tx (br_id r) s' = Some t" using t(2) early(1) by (simp add: last_tx_def)
    then have "next_transaction_due (br_id (ej_run job)) (bw_ordinal (ej_wallet job)) s' = Some due"
      by (simp add: next_transaction_due_def job t(3-5))
    from preview_waits [OF passed this early(2)] job(1)
    show "preview_action env job s = (Inr (Some ''deferred''),
        upd_wallet (br_id r) (bw_ordinal (ej_wallet job)) (\<lambda>w. w\<lparr>bw_due := Some due\<rparr>) s')" by simp
  qed (use run t bounds in \<open>simp_all add: record_batch_tx_def\<close>)
qed

text \<open>The other wallet's exit passes its preview a second after the transaction.\<close>

definition previewing_env :: "unit worker_env" where
  "previewing_env = quiet_env\<lparr>we_invoke := \<lambda>po w.
     (\<lparr>cr_code = 0, cr_payload = PDict [(''status'', PStr ''preview'')], cr_reason = [], cr_detail = None\<rparr>, w)\<rparr>"

definition queue_run :: batch_run where
  "queue_run = new_run queue_request ''sha'' 0"

definition next_job :: exit_job where
  "next_job = \<lparr>ej_run = queue_run, ej_wallet = \<lparr>bw_run = ''r'', bw_ordinal = 1, bw_wallet = ''a'', bw_index = Some 1,
     bw_status = ''active'', bw_due = None, bw_attempts = 0, bw_expected = 1, bw_observed = 1, bw_error = None,
     bw_started = None, bw_completed = None\<rparr>,
     ej_entry = [], ej_action = ''j'', ej_digest = ''sha'', ej_file = ''p'', ej_now = 501, ej_symbol = None, ej_before = None\<rparr>"

lemma transaction_holds_back_witness:
  "\<exists>due c. record_batch_tx (\<lambda>lo hi w. (lo, w)) queue_run 2 ''i'' ''0xh'' 500 queue_sample = (Inr due, c)
     \<and> 1700 \<le> due \<and> fst (preview_action previewing_env next_job (c\<lparr>b_out := (b_out c)\<lparr>o_time := 501\<rparr>\<rparr>))
       = Inr (Some ''deferred'')"
proof -
  let ?p = "\<lparr>cr_code = 0, cr_payload = PDict [(''status'', PStr ''preview'')], cr_reason = [], cr_detail = None\<rparr>"
  have r: "br_delay_min queue_run = 1200" "br_delay_max queue_run = 6000" "br_within_min queue_run = 60"
    "br_within_max queue_run = 300" "br_id queue_run = ''r''"
    by (simp_all add: queue_run_def new_run_def queue_request_def)
  have none: "b_txs queue_sample = []" by (simp add: queue_sample_def queue_simps)
  have answered: "invoke_read_only previewing_env po s = (Inr ?p, s)" for po s
    by (simp add: invoke_read_only_def call_op_def on_out_def previewing_env_def bind_act_def)
  have passed: "passed_preview ?p" by (simp add: passed_preview_def get_def get_default_def)
  have job: "ej_run next_job = queue_run" "bw_ordinal (ej_wallet next_job) = 1" by (simp_all add: next_job_def)
  have "find_tx ''0xh'' queue_sample = None" by (simp add: find_tx_def select_one_def none)
  moreover have "br_delay_min queue_run \<le> br_delay_max queue_run" "br_within_min queue_run \<le> br_within_max queue_run"
    by (simp_all add: r)
  moreover have "\<And>(lo :: int) hi w. lo \<le> hi \<Longrightarrow> lo \<le> fst ((\<lambda>lo hi w. (lo, w)) lo hi w) \<and> fst ((\<lambda>lo hi w. (lo, w)) lo hi w) \<le> hi"
    and "\<And>t. t \<in> set (b_txs queue_sample) \<Longrightarrow> bt_run t = br_id queue_run \<Longrightarrow> bt_observed t < 500"
    by (simp_all add: none)
  ultimately obtain others own c where
    recorded: "record_batch_tx (\<lambda>lo hi w. (lo, w)) queue_run 2 ''i'' ''0xh'' 500 queue_sample = (Inr others, c)"
      "500 + of_int (br_delay_min queue_run) \<le> others"
    and held: "\<forall>(env :: unit worker_env) job s p s' due. ej_run job = queue_run \<longrightarrow> due = (if bw_ordinal (ej_wallet job) = 2 then own else others)
        \<longrightarrow> invoke_read_only env (job_operation job False) s = (Inr p, s') \<longrightarrow> passed_preview p
        \<longrightarrow> b_txs s' = b_txs c \<longrightarrow> o_time (b_out s') < due
        \<longrightarrow> preview_action env job s = (Inr (Some ''deferred''),
              upd_wallet (br_id queue_run) (bw_ordinal (ej_wallet job)) (\<lambda>w. w\<lparr>bw_due := Some due\<rparr>) s')"
    using transaction_holds_back [of "''0xh''" queue_sample queue_run "\<lambda>lo hi w. (lo, w)" 500 2 "''i''" 2 "''i''" 500]
    by blast
  have late: "1700 \<le> others" using recorded(2) by (simp add: r)
  let ?s = "c\<lparr>b_out := (b_out c)\<lparr>o_time := 501\<rparr>\<rparr>"
  have "fst (preview_action previewing_env next_job (c\<lparr>b_out := (b_out c)\<lparr>o_time := 501\<rparr>\<rparr>)) = Inr (Some ''deferred'')"
    using held [THEN spec [of _ previewing_env], THEN spec [of _ next_job], THEN spec [of _ ?s], THEN spec [of _ ?p],
        THEN spec [of _ ?s], THEN spec [of _ others]] answered passed job late by simp
  with recorded(1) late show ?thesis by blast
qed

section \<open>Executions\<close>

text \<open>
  As soon as the journal holds a step of the exit, an execution that failed on the network
  is not called again: its outcome is the one of the first round.
\<close>

theorem held_step_not_repeated:
  assumes "invoke_execute env po b = (Inr r, c)" "journal_has_step wallet action c"
  shows "execute_exit env po wallet action b = (Inr r, c)"
  using assms by (simp add: execute_exit_def bind_act_def look_def)

end
