(* ===== verification/Inventory_Store.thy ===== *)
theory Inventory_Store
  imports Defi_Plan Action_Frames
begin

text \<open>
  The inventory database (\<open>store.py\<close>): the schema with its versions and its validation, and the
  class \<open>Store\<close> on its tables. A JSON column holds the decoded value; SHA-256, the JSON reader
  and the current time are arguments. Each write is one transaction: an exception leaves
  the tables as they were.
\<close>

named_theorems store_defs \<open>definitions of the store's operations\<close>

section \<open>Schema\<close>

text \<open>
  What \<open>sqlite_master\<close> and the pragmas tell: the version, the columns of each table, the unique
  indexes, and the values stored as the database's UUID.
\<close>

record schema =
  sc_version :: nat
  sc_tables :: "(string \<times> string list) list"
  sc_unique :: "(string \<times> string list) list"
  sc_uuids :: "string list"

definition base_columns :: "(string \<times> string list) list" where
  "base_columns =
    [(''wallets'', [''id'', ''address'']),
     (''assets'', [''id'', ''wallet_id'', ''chain_id'', ''asset_id'', ''kind'', ''metadata'', ''status'',
        ''attempts'', ''retry_after'', ''result'', ''created_at'', ''modified_at'']),
     (''discovery_state'', [''wallet_id'', ''chain_id'', ''cursor'', ''cursor_history'', ''status'',
        ''retry_after'', ''result'', ''error'', ''created_at'', ''modified_at'']),
     (''passes'', [''wallet_id'', ''chain_id'', ''block'', ''created_at'', ''modified_at'']),
     (''metadata'', [''key'', ''value''])]"

definition defi_columns :: "(string \<times> string list) list" where
  "defi_columns =
    [(''defi_plans'', [''plan_sha256'', ''created_at'', ''plan_json'', ''stored_at'']),
     (''defi_positions'', [''plan_sha256'', ''ordinal'', ''wallet'', ''chain_id'', ''protocol_id'',
        ''pool_id'', ''status'', ''reason'', ''action_id'', ''entry_json'']),
     (''defi_execution_events'', [''id'', ''plan_sha256'', ''action_id'', ''wallet'', ''chain_id'',
        ''status'', ''result_json'', ''observed_at''])]"

definition artifact_columns :: "(string \<times> string list) list" where
  "artifact_columns = [(''run_artifacts'', [''kind'', ''sha256'', ''payload'', ''stored_at''])]"

definition base_keys :: "(string \<times> string list) list" where
  "base_keys = [(''wallets'', [''address'']), (''assets'', [''wallet_id'', ''chain_id'', ''asset_id'']),
     (''discovery_state'', [''wallet_id'', ''chain_id'']), (''passes'', [''wallet_id'', ''chain_id''])]"

definition defi_keys :: "(string \<times> string list) list" where
  "defi_keys = [(''defi_plans'', [''plan_sha256'']), (''defi_positions'', [''plan_sha256'', ''ordinal''])]"

definition artifact_keys :: "(string \<times> string list) list" where
  "artifact_keys = [(''run_artifacts'', [''kind'', ''sha256''])]"

definition key_error :: "string \<Rightarrow> exn" where
  "key_error t = ValueError
     (if t = ''wallets'' then ''schema v2 missing wallet address constraint''
      else if t = ''discovery_state'' then ''schema v2 missing discovery state identity constraint''
      else if t = ''run_artifacts'' then ''schema missing run artifact identity constraint''
      else if t \<in> {''assets'', ''passes''} then ''schema v2 missing '' @ t @ '' identity constraint''
      else ''schema missing '' @ t @ '' identity constraint'')"

text \<open>The names of the missing tables, in order.\<close>

definition missing_tables :: "schema \<Rightarrow> (string \<times> string list) list \<Rightarrow> string list" where
  "missing_tables sc columns = sort (filter (\<lambda>t. map_of (sc_tables sc) t = None) (map fst columns))"

definition check_columns :: "schema \<Rightarrow> string \<times> string list \<Rightarrow> unit result" where
  "check_columns sc tc = (case map_of (sc_tables sc) (fst tc) of
      None \<Rightarrow> Inl KeyError
    | Some columns \<Rightarrow> require (set (snd tc) \<subseteq> set columns)
        (ValueError (''schema has incomplete table: '' @ fst tc)))"

text \<open>\<open>uuid.UUID(text)\<close> in its normal form: hex digits in groups of 8, 4, 4, 4 and 12.\<close>

definition normal_uuid :: "string \<Rightarrow> bool" where
  "normal_uuid s \<longleftrightarrow> length s = 36
     \<and> (\<forall>i < 36. if i \<in> {8, 13, 18, 23} then s ! i = CHR ''-''
          else is_hex (s ! i) \<and> lower_char (s ! i) = s ! i)"

definition has_unique_key :: "schema \<Rightarrow> string \<times> string list \<Rightarrow> bool" where
  "has_unique_key sc k \<longleftrightarrow> k \<in> set (sc_unique sc)"

definition validate_schema :: "bool \<Rightarrow> bool \<Rightarrow> schema \<Rightarrow> unit result" where
  "validate_schema with_defi with_artifacts sc =
     (let columns = base_columns @ (if with_defi then defi_columns else [])
            @ (if with_artifacts then artifact_columns else []);
          keys = base_keys @ (if with_defi then defi_keys else [])
            @ (if with_artifacts then artifact_keys else []) in
      bind_result (require (missing_tables sc columns = [])
        (ValueError (''schema missing required tables: '' @ join_texts '', '' (missing_tables sc columns)))) (\<lambda>_.
      bind_result (check_each (check_columns sc) columns) (\<lambda>_.
      bind_result (check_each (\<lambda>k. require (has_unique_key sc k) (key_error (fst k))) keys) (\<lambda>_.
      case sc_uuids sc of
        [u] \<Rightarrow> require (normal_uuid u) (ValueError ''schema v2 has no usable database UUID'')
      | _ \<Rightarrow> Inl (ValueError ''schema v2 has no usable database UUID'')))))"

text \<open>The statements that create tables fail when a table of that name is there.\<close>

definition create_tables ::
  "(string \<times> string list) list \<Rightarrow> (string \<times> string list) list \<Rightarrow> nat \<Rightarrow> schema \<Rightarrow> schema result" where
  "create_tables columns keys version sc =
     (if list_ex (\<lambda>tc. map_of (sc_tables sc) (fst tc) \<noteq> None) columns
      then Inl (OtherError ''OperationalError'')
      else Inr (sc\<lparr>sc_version := version, sc_tables := sc_tables sc @ columns,
        sc_unique := sc_unique sc @ keys\<rparr>))"

definition setup_schema :: "string \<Rightarrow> schema \<Rightarrow> schema result" where
  "setup_schema uuid sc = bind_result
     (create_tables (base_columns @ defi_columns @ artifact_columns)
       (base_keys @ [(''metadata'', [''key''])] @ defi_keys @ artifact_keys) 4 sc)
     (\<lambda>t. Inr (t\<lparr>sc_uuids := sc_uuids t @ [uuid]\<rparr>))"

definition migrate_v2_to_v3 :: "schema \<Rightarrow> schema result" where
  "migrate_v2_to_v3 = create_tables defi_columns defi_keys 3"

definition migrate_v3_to_v4 :: "schema \<Rightarrow> schema result" where
  "migrate_v3_to_v4 = create_tables artifact_columns artifact_keys 4"

text \<open>
  \<open>Store.__init__\<close>: the lock, an empty file that is set up, the migrations, the versions that are
  read. A migration that is committed stays when a later check raises.
\<close>

definition migrate_from_2 :: "schema \<Rightarrow> unit result \<times> schema" where
  "migrate_from_2 sc =
     (if sc_version sc = 2 then
        (case bind_result (validate_schema False False sc) (\<lambda>_. migrate_v2_to_v3 sc) of
           Inl e \<Rightarrow> (Inl e, sc) | Inr t \<Rightarrow> (Inr (), t))
      else (Inr (), sc))"

definition migrate_from_3 :: "schema \<Rightarrow> unit result \<times> schema" where
  "migrate_from_3 sc =
     (if sc_version sc = 3 then
        (case bind_result (validate_schema True False sc) (\<lambda>_. migrate_v3_to_v4 sc) of
           Inl e \<Rightarrow> (Inl e, sc) | Inr t \<Rightarrow> (Inr (), t))
      else (Inr (), sc))"

definition start_schema :: "string \<Rightarrow> schema \<Rightarrow> unit result \<times> schema" where
  "start_schema uuid sc =
     (if sc_version sc = 0 \<and> sc_tables sc = [] then
        (case setup_schema uuid sc of Inl e \<Rightarrow> (Inl e, sc) | Inr t \<Rightarrow> (Inr (), t))
      else (Inr (), sc))"

definition check_version :: "nat list \<Rightarrow> schema \<Rightarrow> unit result" where
  "check_version known sc =
     (if sc_version sc \<notin> set known
      then Inl (ValueError (''unsupported schema version: '' @ nat_text (sc_version sc)))
      else validate_schema (3 \<le> sc_version sc) (4 \<le> sc_version sc) sc)"

definition open_store :: "bool \<Rightarrow> bool \<Rightarrow> string \<Rightarrow> (schema, unit) action" where
  "open_store readonly locked uuid sc =
     (if readonly then (check_version [2, 3, 4] sc, sc)
      else if locked then (Inl (OtherError ''OperationalError''), sc)
      else bind_act (start_schema uuid) (\<lambda>_. bind_act migrate_from_2 (\<lambda>_. bind_act migrate_from_3
        (\<lambda>_ t. (check_version [4] t, t)))) sc)"

section \<open>Tables\<close>

record address_row =
  iw_id :: nat
  iw_address :: string

record asset_row =
  ia_id :: nat
  ia_wallet :: nat
  ia_chain :: int
  ia_asset :: string
  ia_kind :: string
  ia_metadata :: pyval
  ia_status :: string
  ia_attempts :: nat
  ia_retry :: "rat option"
  ia_result :: "pyval option"
  ia_created :: rat
  ia_modified :: rat

record discovery_row =
  id_wallet :: nat
  id_chain :: int
  id_cursor :: "string option"
  id_history :: pyval
  id_status :: string
  id_retry :: "rat option"
  id_result :: "pyval option"
  id_error :: "pyval option"
  id_created :: rat
  id_modified :: rat

record pass_row =
  ip_wallet :: nat
  ip_chain :: int
  ip_block :: pyval
  ip_created :: rat
  ip_modified :: rat

record plan_row =
  il_sha256 :: string
  il_created :: int
  il_json :: string
  il_stored :: rat

record stored_position =
  iq_plan :: string
  iq_ordinal :: nat
  iq_wallet :: string
  iq_chain :: pyval
  iq_protocol :: string
  iq_pool :: string
  iq_status :: string
  iq_reason :: pyval
  iq_action :: pyval
  iq_entry :: pyval

record execution_event =
  ie_id :: nat
  ie_plan :: string
  ie_action :: string
  ie_wallet :: string
  ie_chain :: pyval
  ie_status :: string
  ie_result :: pyval
  ie_observed :: rat

record artifact_row =
  ir_kind :: string
  ir_sha256 :: string
  ir_payload :: string
  ir_stored :: rat

record inventory =
  iv_version :: nat
  iv_readonly :: bool
  iv_wallets :: "address_row list"
  iv_assets :: "asset_row list"
  iv_states :: "discovery_row list"
  iv_passes :: "pass_row list"
  iv_plans :: "plan_row list"
  iv_positions :: "stored_position list"
  iv_events :: "execution_event list"
  iv_artifacts :: "artifact_row list"

section \<open>Writing\<close>

definition write_guard :: "inventory \<Rightarrow> unit result" where
  "write_guard v = require (\<not> iv_readonly v) (OtherError ''OperationalError'')"

definition asset_name :: "string \<Rightarrow> string" where
  "asset_name a = lower a"

text \<open>The id of a wallet, which is added when it is new.\<close>

definition address_row_of :: "string \<Rightarrow> inventory \<Rightarrow> address_row option" where
  "address_row_of wallet v = select_one (\<lambda>r. iw_address r = lower wallet) (iv_wallets v)"

definition wallet_id :: "string \<Rightarrow> inventory \<Rightarrow> nat \<times> inventory" where
  "wallet_id wallet v = (case address_row_of wallet v of
      Some r \<Rightarrow> (iw_id r, v)
    | None \<Rightarrow> let i = next_rowid iw_id (iv_wallets v) in
        (i, v\<lparr>iv_wallets := iv_wallets v @ [\<lparr>iw_id = i, iw_address = lower wallet\<rparr>]\<rparr>))"

definition is_asset :: "nat \<Rightarrow> int \<Rightarrow> string \<Rightarrow> asset_row \<Rightarrow> bool" where
  "is_asset w c a r \<longleftrightarrow> ia_wallet r = w \<and> ia_chain r = c \<and> ia_asset r = a"

definition put_asset :: "nat \<Rightarrow> int \<Rightarrow> string \<Rightarrow> string \<Rightarrow> pyval \<Rightarrow> rat \<Rightarrow> asset_row list \<Rightarrow> asset_row list" where
  "put_asset w c a kind metadata now rows =
     (if list_ex (is_asset w c a) rows
      then update_where (is_asset w c a)
        (\<lambda>r. r\<lparr>ia_kind := kind, ia_metadata := metadata, ia_modified := now\<rparr>) rows
      else rows @ [\<lparr>ia_id = next_rowid ia_id rows, ia_wallet = w, ia_chain = c, ia_asset = a, ia_kind = kind,
        ia_metadata = metadata, ia_status = ''pending'', ia_attempts = 0, ia_retry = None,
        ia_result = None, ia_created = now, ia_modified = now\<rparr>])"

definition upsert_asset ::
  "string \<Rightarrow> int \<Rightarrow> string \<Rightarrow> string \<Rightarrow> pydict option \<Rightarrow> rat \<Rightarrow> (inventory, nat) action" where
  "upsert_asset wallet c asset kind metadata now v =
     (case bind_result (write_guard v) (\<lambda>_.
        json_value (PDict (case metadata of None \<Rightarrow> [] | Some d \<Rightarrow> d))) of
        Inl e \<Rightarrow> (Inl e, v)
      | Inr m \<Rightarrow> (case wallet_id wallet v of (w, u) \<Rightarrow>
          let t = u\<lparr>iv_assets := put_asset w c (asset_name asset) kind m now (iv_assets u)\<rparr> in
          (case select_one (is_asset w c (asset_name asset)) (iv_assets t) of
             None \<Rightarrow> (Inl TypeError, v) | Some r \<Rightarrow> (Inr (ia_id r), t))))"

definition record_asset ::
  "nat \<Rightarrow> pyval \<Rightarrow> string \<Rightarrow> rat option \<Rightarrow> rat \<Rightarrow> (inventory, unit) action" where
  "record_asset i result status retry now v =
     (case bind_result (write_guard v) (\<lambda>_. json_value result) of
        Inl e \<Rightarrow> (Inl e, v)
      | Inr m \<Rightarrow>
          if list_ex (\<lambda>r. ia_id r = i) (iv_assets v)
          then (Inr (), v\<lparr>iv_assets := update_where (\<lambda>r. ia_id r = i)
            (\<lambda>r. r\<lparr>ia_result := Some m, ia_status := status, ia_attempts := Suc (ia_attempts r),
               ia_retry := retry, ia_modified := now\<rparr>) (iv_assets v)\<rparr>)
          else (Inl (ValueError (''unknown asset: '' @ nat_text i)), v))"

definition is_state :: "nat \<Rightarrow> int \<Rightarrow> discovery_row \<Rightarrow> bool" where
  "is_state w c r \<longleftrightarrow> id_wallet r = w \<and> id_chain r = c"

definition optional_json :: "pyval option \<Rightarrow> pyval option result" where
  "optional_json v = (case v of None \<Rightarrow> Inr None | Some x \<Rightarrow> bind_result (json_value x) (\<lambda>y. Inr (Some y)))"

text \<open>\<open>ON CONFLICT DO UPDATE\<close> keeps the time of creation.\<close>

definition put_state :: "discovery_row \<Rightarrow> discovery_row list \<Rightarrow> discovery_row list" where
  "put_state x rows =
     (if list_ex (is_state (id_wallet x) (id_chain x)) rows
      then update_where (is_state (id_wallet x) (id_chain x)) (\<lambda>r. x\<lparr>id_created := id_created r\<rparr>) rows
      else rows @ [x])"

definition write_discovery_state ::
  "string \<Rightarrow> int \<Rightarrow> string option \<Rightarrow> pyval list \<Rightarrow> string \<Rightarrow> rat option \<Rightarrow> pyval option \<Rightarrow> pyval option
     \<Rightarrow> rat \<Rightarrow> (inventory, unit) action" where
  "write_discovery_state wallet c cursor history status retry result err now v =
     (case bind_result (write_guard v) (\<lambda>_. bind_result (json_value (PList history)) (\<lambda>h.
          bind_result (optional_json result) (\<lambda>r. bind_result (optional_json err) (\<lambda>e. Inr (h, r, e))))) of
        Inl e \<Rightarrow> (Inl e, v)
      | Inr (h, r, e) \<Rightarrow> (case wallet_id wallet v of (w, u) \<Rightarrow>
          (Inr (), u\<lparr>iv_states := put_state \<lparr>id_wallet = w, id_chain = c, id_cursor = cursor, id_history = h,
             id_status = status, id_retry = retry, id_result = r, id_error = e, id_created = now,
             id_modified = now\<rparr> (iv_states u)\<rparr>)))"

definition is_pass :: "nat \<Rightarrow> int \<Rightarrow> pass_row \<Rightarrow> bool" where
  "is_pass w c r \<longleftrightarrow> ip_wallet r = w \<and> ip_chain r = c"

definition put_pass :: "pass_row \<Rightarrow> pass_row list \<Rightarrow> pass_row list" where
  "put_pass x rows =
     (if list_ex (is_pass (ip_wallet x) (ip_chain x)) rows
      then update_where (is_pass (ip_wallet x) (ip_chain x)) (\<lambda>r. x\<lparr>ip_created := ip_created r\<rparr>) rows
      else rows @ [x])"

definition save_pass :: "string \<Rightarrow> int \<Rightarrow> pydict \<Rightarrow> rat \<Rightarrow> (inventory, unit) action" where
  "save_pass wallet c block now v =
     (case bind_result (write_guard v) (\<lambda>_. json_value (PDict block)) of
        Inl e \<Rightarrow> (Inl e, v)
      | Inr b \<Rightarrow> (case wallet_id wallet v of (w, u) \<Rightarrow>
          (Inr (), u\<lparr>iv_passes := put_pass \<lparr>ip_wallet = w, ip_chain = c, ip_block = b, ip_created = now,
             ip_modified = now\<rparr> (iv_passes u)\<rparr>)))"

section \<open>Reading\<close>

definition address_of :: "nat \<Rightarrow> inventory \<Rightarrow> string option" where
  "address_of w v = map_option iw_address (select_one (\<lambda>r. iw_id r = w) (iv_wallets v))"

text \<open>A join with the wallets, \<open>ORDER BY\<close> the address and further columns.\<close>

definition joined :: "(inventory \<Rightarrow> 'r list) \<Rightarrow> ('r \<Rightarrow> nat) \<Rightarrow> ('r \<Rightarrow> 'k :: linorder) \<Rightarrow> inventory \<Rightarrow> (string \<times> 'r) list" where
  "joined rows w key v = sort_key (\<lambda>(a, r). (a, key r))
     (concat (map (\<lambda>r. case address_of (w r) v of None \<Rightarrow> [] | Some a \<Rightarrow> [(a, r)]) (rows v)))"

definition assets_of :: "string option \<Rightarrow> int option \<Rightarrow> inventory \<Rightarrow> (string \<times> asset_row) list" where
  "assets_of wallet c v =
     filter (\<lambda>(a, r). (wallet = None \<or> map_option lower wallet = Some a) \<and> (c = None \<or> c = Some (ia_chain r)))
       (joined iv_assets ia_wallet (\<lambda>r. (ia_chain r, ia_asset r)) v)"

definition discovery_state :: "string \<Rightarrow> int \<Rightarrow> inventory \<Rightarrow> discovery_row option" where
  "discovery_state wallet c v = (case address_row_of wallet v of
      None \<Rightarrow> None | Some r \<Rightarrow> select_one (is_state (iw_id r) c) (iv_states v))"

definition discovery_states :: "inventory \<Rightarrow> (string \<times> discovery_row) list" where
  "discovery_states v = joined iv_states id_wallet id_chain v"

definition get_pass :: "string \<Rightarrow> int \<Rightarrow> inventory \<Rightarrow> pyval option" where
  "get_pass wallet c v = (case address_row_of wallet v of
      None \<Rightarrow> None | Some r \<Rightarrow> map_option ip_block (select_one (is_pass (iw_id r) c) (iv_passes v)))"

definition passes_of :: "inventory \<Rightarrow> (string \<times> pass_row) list" where
  "passes_of v = joined iv_passes ip_wallet ip_chain v"

section \<open>Artifacts of a run\<close>

definition save_run_artifact ::
  "plan_reader \<Rightarrow> string \<Rightarrow> string \<Rightarrow> rat \<Rightarrow> (inventory, string) action" where
  "save_run_artifact rd kind payload now v =
     (case bind_result (write_guard v) (\<lambda>_.
        bind_result (require (kind \<in> {''route_plan'', ''route_quote''}) (ValueError ''invalid run artifact kind'')) (\<lambda>_.
        bind_result (pr_loads rd payload) (\<lambda>x. require (is_dict x) (ValueError ''invalid run artifact'')))) of
        Inl e \<Rightarrow> (Inl e, v)
      | Inr _ \<Rightarrow> let digest = pr_sha256 rd payload in
          (Inr digest,
           if list_ex (\<lambda>r. ir_kind r = kind \<and> ir_sha256 r = digest) (iv_artifacts v) then v
           else v\<lparr>iv_artifacts := iv_artifacts v @ [\<lparr>ir_kind = kind, ir_sha256 = digest,
             ir_payload = payload, ir_stored = now\<rparr>]\<rparr>))"

definition run_artifact_bytes :: "string \<Rightarrow> string \<Rightarrow> inventory \<Rightarrow> string option" where
  "run_artifact_bytes kind digest v =
     (if iv_version v < 4 then None
      else map_option ir_payload (select_one (\<lambda>r. ir_kind r = kind \<and> ir_sha256 r = digest) (iv_artifacts v)))"

definition run_artifact :: "plan_reader \<Rightarrow> string \<Rightarrow> string \<Rightarrow> inventory \<Rightarrow> string option" where
  "run_artifact rd kind payload v =
     (if run_artifact_bytes kind (pr_sha256 rd payload) v = Some payload then Some (pr_sha256 rd payload) else None)"

section \<open>Reviewed plans\<close>

definition plan_of :: "string \<Rightarrow> inventory \<Rightarrow> string option" where
  "plan_of sha v = map_option il_json (select_one (\<lambda>r. il_sha256 r = sha) (iv_plans v))"

definition defi_plan :: "string \<Rightarrow> inventory \<Rightarrow> string option" where
  "defi_plan sha v = (if iv_version v < 3 then None else plan_of sha v)"

definition plan_contents :: "plan_reader \<Rightarrow> string \<Rightarrow> string \<Rightarrow> (int \<times> pydict list) result" where
  "plan_contents rd sha text =
     (if pr_sha256 rd text \<noteq> sha then Inl (ValueError ''DeFi plan digest does not match content'')
      else bind_result (pr_loads rd text) (\<lambda>x. case x of
        PDict d \<Rightarrow>
          if get d ''schema'' \<noteq> PStr plan_schema then Inl (ValueError ''invalid DeFi plan'')
          else (case get d ''entries'' of
              PList es \<Rightarrow>
                if \<not> list_all is_dict es then Inl (ValueError ''invalid DeFi plan positions'')
                else (case get d ''created_at'' of
                    PInt t \<Rightarrow> Inr (t, map (\<lambda>e. case e of PDict x \<Rightarrow> x | _ \<Rightarrow> []) es)
                  | _ \<Rightarrow> Inl (ValueError ''invalid DeFi plan timestamp''))
            | _ \<Rightarrow> Inl (ValueError ''invalid DeFi plan positions''))
      | _ \<Rightarrow> Inl (ValueError ''invalid DeFi plan'')))"

definition bound :: "pyval \<Rightarrow> pyval result" where
  "bound v = (case v of PList _ \<Rightarrow> Inl (OtherError ''ProgrammingError'')
    | PDict _ \<Rightarrow> Inl (OtherError ''ProgrammingError'') | _ \<Rightarrow> Inr v)"

definition position_row_of :: "string \<Rightarrow> nat \<times> pydict \<Rightarrow> stored_position result" where
  "position_row_of sha x = (case x of (n, e) \<Rightarrow>
     bind_result (bound (get e ''chain_id'')) (\<lambda>c.
     bind_result (bound (get e ''reason'')) (\<lambda>r.
     bind_result (bound (get e ''action_id'')) (\<lambda>a. Inr
       \<lparr>iq_plan = sha, iq_ordinal = n, iq_wallet = lower (py_str (get_default e ''wallet'' (PStr []))),
        iq_chain = c, iq_protocol = py_str (get_default e ''protocol_id'' (PStr [])),
        iq_pool = py_str (get_default e ''pool_id'' (PStr [])),
        iq_status = py_str (get_default e ''status'' (PStr [])), iq_reason = r, iq_action = a,
        iq_entry = PDict e\<rparr>))))"

fun position_rows :: "string \<Rightarrow> (nat \<times> pydict) list \<Rightarrow> stored_position list result" where
  "position_rows sha [] = Inr []"
| "position_rows sha (x # xs) =
     bind_result (position_row_of sha x) (\<lambda>p. bind_result (position_rows sha xs) (\<lambda>ps. Inr (p # ps)))"

definition save_defi_plan :: "plan_reader \<Rightarrow> string \<Rightarrow> string \<Rightarrow> rat \<Rightarrow> (inventory, unit) action" where
  "save_defi_plan rd sha text now v =
     (case bind_result (write_guard v) (\<lambda>_. plan_contents rd sha text) of
        Inl e \<Rightarrow> (Inl e, v)
      | Inr (created, entries) \<Rightarrow>
          (case plan_of sha v of
             Some old \<Rightarrow> (if old \<noteq> text then Inl (ValueError ''conflicting stored DeFi plan'') else Inr (), v)
           | None \<Rightarrow>
               (case position_rows sha (enumerate 0 entries) of
                  Inl e \<Rightarrow> (Inl e, v)
                | Inr rows \<Rightarrow> (Inr (), v\<lparr>
                    iv_plans := iv_plans v @ [\<lparr>il_sha256 = sha, il_created = created, il_json = text, il_stored = now\<rparr>],
                    iv_positions := iv_positions v @ rows\<rparr>))))"

definition defi_positions :: "string \<Rightarrow> inventory \<Rightarrow> pyval list" where
  "defi_positions sha v = (if iv_version v < 3 then []
     else map iq_entry (sort_key iq_ordinal (filter (\<lambda>p. iq_plan p = sha) (iv_positions v))))"

definition record_defi_execution ::
  "string \<Rightarrow> string \<Rightarrow> pydict \<Rightarrow> rat \<Rightarrow> (inventory, unit) action" where
  "record_defi_execution sha action result now v =
     (case write_guard v of
        Inl e \<Rightarrow> (Inl e, v)
      | Inr _ \<Rightarrow>
          (case filter (\<lambda>p. iq_plan p = sha \<and> iq_action p = PStr action \<and> iq_status p = ''ready'') (iv_positions v) of
             [p] \<Rightarrow>
               if get result ''action_id'' \<noteq> PStr action
               then (Inl (ValueError ''DeFi execution does not match a stored ready action''), v)
               else (case get result ''status'' of
                   PStr status \<Rightarrow>
                     if status \<notin> {''preview'', ''withdrawn'', ''manual_review''}
                     then (Inl (ValueError ''invalid DeFi execution status''), v)
                     else (case json_value (PDict result) of
                         Inl e \<Rightarrow> (Inl e, v)
                       | Inr r \<Rightarrow> (if iq_chain p = PNone then (Inl (OtherError ''IntegrityError''), v) else
                           (Inr (), v\<lparr>iv_events := iv_events v @ [\<lparr>ie_id = next_rowid ie_id (iv_events v), ie_plan = sha,
                             ie_action = action, ie_wallet = iq_wallet p, ie_chain = iq_chain p,
                             ie_status = status, ie_result = r, ie_observed = now\<rparr>]\<rparr>)))
                 | PList _ \<Rightarrow> (Inl TypeError, v)
                 | PDict _ \<Rightarrow> (Inl TypeError, v)
                 | _ \<Rightarrow> (Inl (ValueError ''invalid DeFi execution status''), v))
           | _ \<Rightarrow> (Inl (ValueError ''DeFi execution does not match a stored ready action''), v)))"

definition defi_execution_events :: "string \<Rightarrow> inventory \<Rightarrow> execution_event list" where
  "defi_execution_events sha v = (if iv_version v < 3 then []
     else sort_key ie_id (filter (\<lambda>e. ie_plan e = sha) (iv_events v)))"

end
