(* ===== verification/Inventory_Properties.thy ===== *)
theory Inventory_Properties
  imports Inventory_Store
begin

text \<open>
  What the inventory database keeps: unique rows and references over any sequence of operations,
  plans, artifacts and execution events that are only added, the progress of an asset when it is
  listed again, and the schema that every successful opening leaves.
\<close>

section \<open>Integrity\<close>

definition asset_key :: "asset_row \<Rightarrow> nat \<times> int \<times> string" where
  "asset_key r = (ia_wallet r, ia_chain r, ia_asset r)"

definition store_ok :: "inventory \<Rightarrow> bool" where
  "store_ok v \<longleftrightarrow> distinct (map iw_id (iv_wallets v)) \<and> distinct (map iw_address (iv_wallets v))
     \<and> distinct (map ia_id (iv_assets v)) \<and> distinct (map asset_key (iv_assets v))
     \<and> distinct (map (\<lambda>r. (id_wallet r, id_chain r)) (iv_states v))
     \<and> distinct (map (\<lambda>r. (ip_wallet r, ip_chain r)) (iv_passes v))
     \<and> ia_wallet ` set (iv_assets v) \<union> id_wallet ` set (iv_states v) \<union> ip_wallet ` set (iv_passes v)
         \<subseteq> iw_id ` set (iv_wallets v)
     \<and> distinct (map il_sha256 (iv_plans v))
     \<and> distinct (map (\<lambda>p. (iq_plan p, iq_ordinal p)) (iv_positions v))
     \<and> iq_plan ` set (iv_positions v) \<subseteq> il_sha256 ` set (iv_plans v)
     \<and> ie_plan ` set (iv_events v) \<subseteq> il_sha256 ` set (iv_plans v)
     \<and> distinct (map ie_id (iv_events v))
     \<and> distinct (map (\<lambda>r. (ir_kind r, ir_sha256 r)) (iv_artifacts v))"

definition grows :: "'a list \<Rightarrow> 'a list \<Rightarrow> bool" where
  "grows xs ys \<longleftrightarrow> (\<exists>zs. ys = xs @ zs)"

lemma grows_simps [simp]: "grows xs xs" "grows xs (xs @ ys)"
  by (auto simp: grows_def)

lemma grows_trans: "grows xs ys \<Longrightarrow> grows ys zs \<Longrightarrow> grows xs zs"
  by (auto simp: grows_def)

text \<open>What one operation may do: nothing to a read-only store, no harm and no loss to another.\<close>

definition store_step :: "inventory \<Rightarrow> inventory \<Rightarrow> bool" where
  "store_step s t \<longleftrightarrow> (iv_readonly s \<longrightarrow> t = s) \<and> iv_readonly t = iv_readonly s \<and> iv_version t = iv_version s
     \<and> (store_ok s \<longrightarrow> store_ok t) \<and> grows (iv_plans s) (iv_plans t) \<and> grows (iv_positions s) (iv_positions t)
     \<and> grows (iv_events s) (iv_events t) \<and> grows (iv_artifacts s) (iv_artifacts t)"

interpretation inv: action_frame store_step
  by unfold_locales (auto simp: store_step_def intro: grows_trans)

lemma wallet_id_step:
  assumes "wallet_id wallet v = (w, u)"
  shows "\<exists>xs. u = v\<lparr>iv_wallets := iv_wallets v @ xs\<rparr> \<and> w \<in> iw_id ` set (iv_wallets u)
    \<and> (store_ok v \<longrightarrow> store_ok u)"
proof (cases "address_row_of wallet v")
  case None
  let ?r = "\<lparr>iw_id = next_rowid iw_id (iv_wallets v), iw_address = lower wallet\<rparr>"
  have u: "u = v\<lparr>iv_wallets := iv_wallets v @ [?r]\<rparr>" "w = iw_id ?r"
    using assms None by (auto simp: wallet_id_def Let_def)
  have "lower wallet \<notin> iw_address ` set (iv_wallets v)"
    using None by (auto simp: address_row_of_def table_simps)
  then have "store_ok v \<Longrightarrow> store_ok u"
    using next_rowid_new [of iw_id "iv_wallets v"] by (auto simp: store_ok_def u)
  then show ?thesis using u by auto
next
  case (Some r)
  then have "u = v" "w = iw_id r" "r \<in> set (iv_wallets v)"
    using assms by (auto simp: wallet_id_def address_row_of_def dest: select_one_SomeD)
  then show ?thesis by (auto intro: exI [of _ "[]"])
qed

lemma keyed_update:
  assumes "\<And>r. P r \<Longrightarrow> key (f r) = key r"
  shows "map key (update_where P f rows) = map key rows"
  using assms by (simp add: update_where_def)

text \<open>An upsert: a row of the key is rewritten, or the row is added.\<close>

lemma upsert_keys:
  assumes "distinct (map key rows)" "\<And>r. P r \<longleftrightarrow> key r = k" "\<And>r. key r = k \<Longrightarrow> key (f r) = k" "key x = k"
  shows "distinct (map key (if list_ex P rows then update_where P f rows else rows @ [x]))"
  using assms keyed_update [of P key f rows] by (auto simp: list_ex_iff)

lemma update_image:
  "(\<And>r. P r \<Longrightarrow> key (f r) = key r) \<Longrightarrow> key ` set (update_where P f rows) = key ` set rows"
  using keyed_update [of P key f rows] by (metis list.set_map)

lemma put_asset_step:
  assumes "store_ok u" "w \<in> iw_id ` set (iv_wallets u)"
  shows "store_ok (u\<lparr>iv_assets := put_asset w c a kind m now (iv_assets u)\<rparr>)"
proof -
  let ?P = "is_asset w c a" and ?f = "\<lambda>r. r\<lparr>ia_kind := kind, ia_metadata := m, ia_modified := now\<rparr>"
  have key: "?P r \<longleftrightarrow> asset_key r = (w, c, a)" for r by (simp add: is_asset_def asset_key_def)
  have keys: "distinct (map asset_key (put_asset w c a kind m now (iv_assets u)))"
    unfolding put_asset_def
    by (rule upsert_keys) (use assms(1) key in \<open>auto simp: store_ok_def asset_key_def\<close>)
  have ids: "distinct (map ia_id (put_asset w c a kind m now (iv_assets u)))"
    using assms(1) keyed_update [of ?P ia_id ?f] next_rowid_new [of ia_id "iv_assets u"]
    by (auto simp: put_asset_def store_ok_def)
  have "ia_wallet ` set (put_asset w c a kind m now (iv_assets u)) \<subseteq> insert w (ia_wallet ` set (iv_assets u))"
    using update_image [of ?P ia_wallet ?f] by (auto simp: put_asset_def)
  then show ?thesis using assms keys ids by (auto simp: store_ok_def)
qed

lemma put_state_step:
  assumes "store_ok u" "id_wallet x \<in> iw_id ` set (iv_wallets u)"
  shows "store_ok (u\<lparr>iv_states := put_state x (iv_states u)\<rparr>)"
proof -
  let ?P = "is_state (id_wallet x) (id_chain x)" and ?f = "\<lambda>r. x\<lparr>id_created := id_created r\<rparr>"
  have keys: "distinct (map (\<lambda>r. (id_wallet r, id_chain r)) (put_state x (iv_states u)))"
    unfolding put_state_def
    by (rule upsert_keys [where k = "(id_wallet x, id_chain x)"])
      (use assms(1) in \<open>auto simp: store_ok_def is_state_def\<close>)
  have "id_wallet ` set (put_state x (iv_states u)) \<subseteq> insert (id_wallet x) (id_wallet ` set (iv_states u))"
    using update_image [of ?P id_wallet ?f] by (auto simp: put_state_def is_state_def)
  also have "\<dots> \<subseteq> iw_id ` set (iv_wallets u)" using assms by (simp add: store_ok_def)
  finally show ?thesis using assms keys by (simp add: store_ok_def)
qed

lemma put_pass_step:
  assumes "store_ok u" "ip_wallet x \<in> iw_id ` set (iv_wallets u)"
  shows "store_ok (u\<lparr>iv_passes := put_pass x (iv_passes u)\<rparr>)"
proof -
  let ?P = "is_pass (ip_wallet x) (ip_chain x)" and ?f = "\<lambda>r. x\<lparr>ip_created := ip_created r\<rparr>"
  have keys: "distinct (map (\<lambda>r. (ip_wallet r, ip_chain r)) (put_pass x (iv_passes u)))"
    unfolding put_pass_def
    by (rule upsert_keys [where k = "(ip_wallet x, ip_chain x)"])
      (use assms(1) in \<open>auto simp: store_ok_def is_pass_def\<close>)
  have "ip_wallet ` set (put_pass x (iv_passes u)) \<subseteq> insert (ip_wallet x) (ip_wallet ` set (iv_passes u))"
    using update_image [of ?P ip_wallet ?f] by (auto simp: put_pass_def is_pass_def)
  also have "\<dots> \<subseteq> iw_id ` set (iv_wallets u)" using assms by (simp add: store_ok_def)
  finally show ?thesis using assms keys by (simp add: store_ok_def)
qed

lemma position_rows_keys:
  "position_rows sha xs = Inr rows \<Longrightarrow> map iq_ordinal rows = map fst xs \<and> (\<forall>p \<in> set rows. iq_plan p = sha)"
  by (induction xs arbitrary: rows) (auto simp: position_row_of_def split: prod.splits)

lemma positions_step:
  assumes "store_ok v" "plan_of sha v = None" "position_rows sha (enumerate 0 entries) = Inr rows"
  shows "store_ok (v\<lparr>iv_plans := iv_plans v @ [\<lparr>il_sha256 = sha, il_created = t, il_json = text, il_stored = now\<rparr>],
    iv_positions := iv_positions v @ rows\<rparr>)"
proof -
  have new: "sha \<notin> il_sha256 ` set (iv_plans v)"
    using assms(2) by (auto simp: plan_of_def table_simps)
  have rows: "map iq_ordinal rows = [0..<length entries]" "\<And>p. p \<in> set rows \<Longrightarrow> iq_plan p = sha"
    using position_rows_keys [OF assms(3)] by (simp_all add: enumerate_eq_zip)
  have "distinct (map iq_ordinal rows)" unfolding rows(1) by simp
  then have "distinct (map (\<lambda>p. (iq_plan p, iq_ordinal p)) rows)"
    by (auto simp: distinct_map inj_on_def)
  moreover have "sha \<notin> iq_plan ` set (iv_positions v)" using assms(1) new by (auto simp: store_ok_def)
  ultimately show ?thesis
    using assms(1) new rows(2) by (fastforce simp: store_ok_def image_iff)
qed

section \<open>Every operation is a step\<close>

lemma guarded_write:
  "write_guard v = Inr () \<longleftrightarrow> \<not> iv_readonly v" "write_guard v = Inl e \<Longrightarrow> iv_readonly v"
  by (auto simp: write_guard_def require_def split: if_splits)

lemma step_of_tables:
  assumes "\<not> iv_readonly v" "store_ok v \<Longrightarrow> store_ok t" "iv_readonly t = iv_readonly v" "iv_version t = iv_version v"
    and "grows (iv_plans v) (iv_plans t)" "grows (iv_positions v) (iv_positions t)"
    and "grows (iv_events v) (iv_events t)" "grows (iv_artifacts v) (iv_artifacts t)"
  shows "store_step v t"
  using assms by (simp add: store_step_def)

lemma keeps_upsert_asset: "keeps store_step (upsert_asset wallet c asset kind metadata now)"
proof -
  have "store_step v (snd (upsert_asset wallet c asset kind metadata now v))" for v
  proof (cases "bind_result (write_guard v) (\<lambda>_. json_value (PDict (case metadata of None \<Rightarrow> [] | Some d \<Rightarrow> d)))")
    case (Inr m)
    then have rw: "\<not> iv_readonly v" by (simp add: guarded_write)
    obtain w u where wu: "wallet_id wallet v = (w, u)" by fastforce
    from wallet_id_step [OF wu] obtain xs where u: "u = v\<lparr>iv_wallets := iv_wallets v @ xs\<rparr>"
      "w \<in> iw_id ` set (iv_wallets u)" "store_ok v \<longrightarrow> store_ok u" by auto
    let ?t = "u\<lparr>iv_assets := put_asset w c (asset_name asset) kind m now (iv_assets u)\<rparr>"
    have ok: "store_ok v \<Longrightarrow> store_ok ?t" using u(2,3) put_asset_step by blast
    have "store_step v ?t" by (rule step_of_tables [OF rw ok]) (simp_all add: u(1))
    then show ?thesis
      using Inr by (auto simp: upsert_asset_def wu Let_def inv.same split: option.split)
  qed (simp add: upsert_asset_def inv.same)
  then show ?thesis by (simp add: keeps_def)
qed

lemma keeps_record_asset: "keeps store_step (record_asset i result status retry now)"
proof -
  have "store_ok (v\<lparr>iv_assets := update_where P f (iv_assets v)\<rparr>)"
    if "store_ok v" "\<And>r. ia_id (f r) = ia_id r \<and> asset_key (f r) = asset_key r \<and> ia_wallet (f r) = ia_wallet r"
    for v P f
    using that keyed_update [of P ia_id f] keyed_update [of P asset_key f] update_image [of P ia_wallet f]
    by (simp add: store_ok_def)
  then show ?thesis
    unfolding keeps_def record_asset_def
    by (auto simp: inv.same guarded_write asset_key_def split: sum.split intro!: step_of_tables)
qed

lemma keeps_write_state:
  "keeps store_step (write_discovery_state wallet c cursor history status retry result err now)"
proof -
  have "store_step v (snd (write_discovery_state wallet c cursor history status retry result err now v))" for v
  proof (cases "bind_result (write_guard v) (\<lambda>_. bind_result (json_value (PList history)) (\<lambda>h.
          bind_result (optional_json result) (\<lambda>r. bind_result (optional_json err) (\<lambda>e. Inr (h, r, e)))))")
    case (Inr x)
    then have rw: "\<not> iv_readonly v" by (auto simp: guarded_write)
    obtain w u where wu: "wallet_id wallet v = (w, u)" by fastforce
    from wallet_id_step [OF wu] obtain xs where u: "u = v\<lparr>iv_wallets := iv_wallets v @ xs\<rparr>"
      "w \<in> iw_id ` set (iv_wallets u)" "store_ok v \<longrightarrow> store_ok u" by auto
    have "store_step v (u\<lparr>iv_states := put_state r (iv_states u)\<rparr>)" if "id_wallet r = w" for r
    proof -
      have ok: "store_ok v \<Longrightarrow> store_ok (u\<lparr>iv_states := put_state r (iv_states u)\<rparr>)"
        using u(2,3) put_state_step [of u r] that by blast
      show ?thesis by (rule step_of_tables [OF rw ok]) (simp_all add: u(1))
    qed
    then show ?thesis unfolding write_discovery_state_def Inr by (cases x) (simp add: wu)
  qed (simp add: write_discovery_state_def inv.same)
  then show ?thesis by (simp add: keeps_def)
qed

lemma keeps_save_pass: "keeps store_step (save_pass wallet c block now)"
proof -
  have "store_step v (snd (save_pass wallet c block now v))" for v
  proof (cases "bind_result (write_guard v) (\<lambda>_. json_value (PDict block))")
    case (Inr x)
    then have rw: "\<not> iv_readonly v" by (auto simp: guarded_write)
    obtain w u where wu: "wallet_id wallet v = (w, u)" by fastforce
    from wallet_id_step [OF wu] obtain xs where u: "u = v\<lparr>iv_wallets := iv_wallets v @ xs\<rparr>"
      "w \<in> iw_id ` set (iv_wallets u)" "store_ok v \<longrightarrow> store_ok u" by auto
    have "store_step v (u\<lparr>iv_passes := put_pass r (iv_passes u)\<rparr>)" if "ip_wallet r = w" for r
    proof -
      have ok: "store_ok v \<Longrightarrow> store_ok (u\<lparr>iv_passes := put_pass r (iv_passes u)\<rparr>)"
        using u(2,3) put_pass_step [of u r] that by blast
      show ?thesis by (rule step_of_tables [OF rw ok]) (simp_all add: u(1))
    qed
    then show ?thesis unfolding save_pass_def Inr by (simp add: wu)
  qed (simp add: save_pass_def inv.same)
  then show ?thesis by (simp add: keeps_def)
qed

lemma keeps_save_artifact: "keeps store_step (save_run_artifact rd kind payload now)"
  unfolding keeps_def save_run_artifact_def
  by (auto simp: inv.same guarded_write Let_def store_ok_def list_ex_iff image_iff split: sum.split intro!: step_of_tables)
    blast+

lemma keeps_save_plan: "keeps store_step (save_defi_plan rd sha text now)"
  unfolding keeps_def save_defi_plan_def
  by (auto simp: inv.same guarded_write split: sum.split option.split intro!: step_of_tables positions_step)

lemma keeps_record_execution: "keeps store_step (record_defi_execution sha action result now)"
proof -
  have "store_step v (snd (record_defi_execution sha action result now v))" for v
  proof (cases "filter (\<lambda>p. iq_plan p = sha \<and> iq_action p = PStr action \<and> iq_status p = ''ready'') (iv_positions v)")
    case (Cons p ps)
    then have "p \<in> set (iv_positions v)" "iq_plan p = sha" by (auto simp: filter_eq_Cons_iff)
    then have "sha \<in> iq_plan ` set (iv_positions v)" by auto
    then have "store_ok v \<Longrightarrow> sha \<in> il_sha256 ` set (iv_plans v)" by (auto simp: store_ok_def)
    then have new: "store_ok v \<Longrightarrow> ie_plan e = sha \<Longrightarrow> ie_id e = next_rowid ie_id (iv_events v)
        \<Longrightarrow> store_ok (v\<lparr>iv_events := iv_events v @ [e]\<rparr>)" for e
      using next_rowid_new [of ie_id "iv_events v"] by (auto simp: store_ok_def)
    show ?thesis
      unfolding record_defi_execution_def Cons
      by (auto simp: inv.same guarded_write intro!: step_of_tables new split: sum.split list.split pyval.split)
  qed (simp add: record_defi_execution_def inv.same split: sum.split)
  then show ?thesis by (simp add: keeps_def)
qed

section \<open>Histories\<close>

inductive store_history :: "inventory \<Rightarrow> inventory \<Rightarrow> bool" for v where
  initial: "store_history v v"
| asset: "store_history v u \<Longrightarrow> store_history v (snd (upsert_asset wallet c a kind metadata now u))"
| result: "store_history v u \<Longrightarrow> store_history v (snd (record_asset i x status retry now u))"
| state: "store_history v u
    \<Longrightarrow> store_history v (snd (write_discovery_state wallet c cursor history status retry result err now u))"
| save: "store_history v u \<Longrightarrow> store_history v (snd (save_pass wallet c block now u))"
| artifact: "store_history v u \<Longrightarrow> store_history v (snd (save_run_artifact rd kind payload now u))"
| reviewed: "store_history v u \<Longrightarrow> store_history v (snd (save_defi_plan rd sha text now u))"
| execution: "store_history v u \<Longrightarrow> store_history v (snd (record_defi_execution sha action x now u))"

lemma step_then: "store_step v u \<Longrightarrow> keeps store_step m \<Longrightarrow> store_step v (snd (m u))"
  by (auto simp: keeps_def intro: inv.trans)

lemma history_step: "store_history v u \<Longrightarrow> store_step v u"
proof (induction rule: store_history.induct)
  case initial
  show ?case by (rule inv.same)
qed (rule step_then; (assumption | rule keeps_upsert_asset keeps_record_asset keeps_write_state
    keeps_save_pass keeps_save_artifact keeps_save_plan keeps_record_execution))+

text \<open>
  C37: over any sequence of operations, failing ones included, the database keeps its rows unique
  and its references valid, and a reviewed plan that is stored keeps its exact bytes; the plans,
  positions, execution events and artifacts are only added to.
\<close>

theorem store_keeps_plans:
  assumes "store_history v u" "store_ok v"
  shows "store_ok u \<and> (plan_of sha v = Some text \<longrightarrow> plan_of sha u = Some text)
    \<and> (\<exists>plans positions events artifacts. iv_plans u = iv_plans v @ plans
        \<and> iv_positions u = iv_positions v @ positions \<and> iv_events u = iv_events v @ events
        \<and> iv_artifacts u = iv_artifacts v @ artifacts)"
proof -
  have s: "store_step v u" by (rule history_step [OF assms(1)])
  then obtain plans where "iv_plans u = iv_plans v @ plans" by (auto simp: store_step_def grows_def)
  then have "plan_of sha v = Some text \<Longrightarrow> plan_of sha u = Some text"
    by (auto simp: plan_of_def select_one_def find_append)
  with s assms(2) show ?thesis by (auto simp: store_step_def grows_def)
qed

definition empty_inventory :: inventory where
  "empty_inventory = \<lparr>iv_version = 4, iv_readonly = False, iv_wallets = [], iv_assets = [], iv_states = [],
     iv_passes = [], iv_plans = [], iv_positions = [], iv_events = [], iv_artifacts = []\<rparr>"

lemma empty_store_ok: "store_ok empty_inventory"
  by (simp add: store_ok_def empty_inventory_def)

lemma store_keeps_plans_witness:
  "store_ok (snd (upsert_asset ''0xA'' 10 ''native'' ''mandatory'' None 1 empty_inventory))"
  using store_keeps_plans [OF store_history.asset [OF store_history.initial] empty_store_ok] by blast

section \<open>Assets\<close>

text \<open>
  Listing an asset again, under whatever spelling of its address, finds its row: the id, the
  status, the attempts and the last result stay, so a scan that starts again repeats nothing.
\<close>

theorem upsert_keeps_progress:
  assumes "store_ok v" "\<not> iv_readonly v" "address_row_of wallet v = Some w"
    and "r \<in> set (iv_assets v)" "is_asset (iw_id w) c (lower asset) r" "json_value (PDict d) = Inr m"
  shows "\<exists>u r'. upsert_asset wallet c asset kind (Some d) now v = (Inr (ia_id r), u)
    \<and> iv_assets u = map (\<lambda>x. if x = r then r' else x) (iv_assets v)
    \<and> r' = r\<lparr>ia_kind := kind, ia_metadata := m, ia_modified := now\<rparr>"
proof -
  let ?P = "is_asset (iw_id w) c (lower asset)" and ?f = "\<lambda>r. r\<lparr>ia_kind := kind, ia_metadata := m, ia_modified := now\<rparr>"
  let ?rows = "update_where ?P ?f (iv_assets v)"
  have only: "?P x \<longleftrightarrow> x = r" if "x \<in> set (iv_assets v)" for x
    using that assms(1,4,5) unfolding store_ok_def
    by (auto simp: is_asset_def asset_key_def distinct_map inj_on_def)
  have rows: "?rows = map (\<lambda>x. if x = r then ?f r else x) (iv_assets v)"
    unfolding update_where_def by (rule map_cong [OF refl]) (simp add: only)
  have "list_ex ?P (iv_assets v)" using assms(4,5) by (auto simp: list_ex_iff)
  then have put: "put_asset (iw_id w) c (asset_name asset) kind m now (iv_assets v) = ?rows"
    by (simp add: put_asset_def asset_name_def)
  have fr: "?f r \<in> set ?rows" "?P (?f r)" unfolding rows using assms(4,5) by (auto simp: is_asset_def)
  then have "select_one ?P ?rows \<noteq> None" unfolding select_one_None_iff by blast
  then obtain s where s: "select_one ?P ?rows = Some s" by blast
  from s have s_in: "s \<in> set ?rows" "?P s" by (blast dest: select_one_SomeD)+
  then obtain x where x: "x \<in> set (iv_assets v)" "s = (if x = r then ?f r else x)" unfolding rows by auto
  have "ia_id s = ia_id r"
    using x only [OF x(1)] s_in(2) by (cases "x = r") simp_all
  moreover have guard: "bind_result (write_guard v) (\<lambda>_. json_value (PDict d)) = Inr m"
    using assms(2,6) guarded_write(1) [of v] unfolding bind_result_Inr by auto
  have "upsert_asset wallet c asset kind (Some d) now v = (Inr (ia_id s), v\<lparr>iv_assets := ?rows\<rparr>)"
    unfolding upsert_asset_def option.case guard using assms(3) put s
    by (simp add: wallet_id_def Let_def asset_name_def)
  ultimately show ?thesis using rows by simp
qed

definition listed_asset :: asset_row where
  "listed_asset = \<lparr>ia_id = 1, ia_wallet = 1, ia_chain = 10, ia_asset = ''0xab'', ia_kind = ''token'',
     ia_metadata = PDict [], ia_status = ''success'', ia_attempts = 3, ia_retry = None,
     ia_result = Some (PInt 5), ia_created = 1, ia_modified = 2\<rparr>"

definition listed_inventory :: inventory where
  "listed_inventory = empty_inventory\<lparr>iv_wallets := [\<lparr>iw_id = 1, iw_address = ''0xcd''\<rparr>], iv_assets := [listed_asset]\<rparr>"

lemma upsert_keeps_progress_witness:
  "\<exists>u r'. upsert_asset ''0xCD'' 10 ''0xAB'' ''mandatory'' (Some []) 9 listed_inventory = (Inr 1, u)
    \<and> iv_assets u = [r'] \<and> ia_attempts r' = 3"
proof -
  have ok: "store_ok listed_inventory"
    by (simp add: listed_inventory_def store_ok_def empty_inventory_def listed_asset_def)
  have rw: "\<not> iv_readonly listed_inventory" by (simp add: listed_inventory_def empty_inventory_def)
  have low: "lower ''0xCD'' = ''0xcd''" "lower ''0xAB'' = ''0xab''" by code_simp+
  have w: "address_row_of ''0xCD'' listed_inventory = Some \<lparr>iw_id = 1, iw_address = ''0xcd''\<rparr>"
    by (simp add: listed_inventory_def address_row_of_def select_one_def low del: lower_Cons)
  have r: "listed_asset \<in> set (iv_assets listed_inventory)"
    "is_asset (iw_id \<lparr>iw_id = 1, iw_address = ''0xcd''\<rparr>) 10 (lower ''0xAB'') listed_asset"
    by (simp_all add: listed_inventory_def is_asset_def listed_asset_def low del: lower_Cons)
  have "json_value (PDict []) = Inr (PDict [])" by simp
  from upsert_keeps_progress [OF ok rw w r this, where kind = "''mandatory''" and now = 9] show ?thesis
    by (auto simp: listed_asset_def listed_inventory_def)
qed

section \<open>The schema\<close>

lemma validated:
  "validate_schema d a sc = Inr () \<longleftrightarrow>
     (\<forall>tc \<in> set (base_columns @ (if d then defi_columns else []) @ (if a then artifact_columns else [])).
        \<exists>columns. map_of (sc_tables sc) (fst tc) = Some columns \<and> set (snd tc) \<subseteq> set columns)
     \<and> set (base_keys @ (if d then defi_keys else []) @ (if a then artifact_keys else [])) \<subseteq> set (sc_unique sc)
     \<and> (\<exists>u. sc_uuids sc = [u] \<and> normal_uuid u)"
  (is "?V \<longleftrightarrow> ?T \<and> ?K \<and> ?U")
proof -
  have "sort xs = [] \<longleftrightarrow> xs = []" for xs :: "string list" by (metis length_0_conv length_sort)
  then have none: "missing_tables sc columns = [] \<longleftrightarrow> (\<forall>tc \<in> set columns. map_of (sc_tables sc) (fst tc) \<noteq> None)"
    for columns
    by (auto simp: missing_tables_def filter_empty_conv)
  have checked: "check_columns sc tc = Inr u \<longleftrightarrow>
      (\<exists>columns. map_of (sc_tables sc) (fst tc) = Some columns \<and> set (snd tc) \<subseteq> set columns)" for tc u
    by (auto simp: check_columns_def split: option.split)
  have "(case sc_uuids sc of [u] \<Rightarrow> require (normal_uuid u) e | _ \<Rightarrow> Inl e) = Inr () \<longleftrightarrow> ?U" for e
    by (auto split: list.split)
  then show ?thesis
    unfolding validate_schema_def Let_def bind_result_Inr none require_simps check_each_Inr checked has_unique_key_def
    by (auto split: list.splits)
qed

lemma tables_created:
  assumes "create_tables columns keys n sc = Inr t"
  shows "sc_version t = n" "sc_uuids t = sc_uuids sc"
    "map_of (sc_tables sc) k = Some xs \<Longrightarrow> map_of (sc_tables t) k = Some xs"
    "map_of (sc_tables t) k = (case map_of (sc_tables sc) k of None \<Rightarrow> map_of columns k | Some x \<Rightarrow> Some x)"
    "set (sc_unique t) = set (sc_unique sc) \<union> set keys"
  using assms by (auto simp: create_tables_def map_add_def split: if_splits option.splits)

definition old_tables :: "schema \<Rightarrow> schema \<Rightarrow> bool" where
  "old_tables s t \<longleftrightarrow> (\<forall>k xs. map_of (sc_tables s) k = Some xs \<longrightarrow> map_of (sc_tables t) k = Some xs)
     \<and> set (sc_unique s) \<subseteq> set (sc_unique t)"

lemma created_old: "create_tables columns keys n sc = Inr t \<Longrightarrow> old_tables sc t"
  using tables_created(3,5) [of columns keys n sc t] by (auto simp: old_tables_def)

lemma old_simps [simp]: "old_tables s s" "old_tables s (t\<lparr>sc_uuids := us\<rparr>) = old_tables s t"
  by (simp_all add: old_tables_def)

lemma opening_keeps:
  "keeps old_tables (start_schema uuid)" "keeps old_tables migrate_from_2" "keeps old_tables migrate_from_3"
  unfolding keeps_def start_schema_def migrate_from_2_def migrate_from_3_def setup_schema_def
    migrate_v2_to_v3_def migrate_v3_to_v4_def
  by (auto dest: created_old split: sum.splits)

interpretation sch: action_frame old_tables
  by unfold_locales (auto simp: old_tables_def)

text \<open>
  An inventory file that opens for writing, whatever its version was, has the newest version
  and passes every check of the schema; each table it had is there with its columns; and it
  opens again, to read or to write, without a change.
\<close>

theorem opened_schema:
  assumes "open_store False False uuid sc = (Inr (), t)"
  shows "sc_version t = 4 \<and> validate_schema True True t = Inr () \<and> old_tables sc t
    \<and> open_store False False uuid' t = (Inr (), t) \<and> open_store True locked uuid' t = (Inr (), t)"
proof -
  have ok: "check_version [4] t = Inr ()"
    using assms by (auto simp: open_store_def)
  then have v: "sc_version t = 4" "validate_schema True True t = Inr ()"
    by (auto simp: check_version_def split: if_splits)
  have "keeps old_tables (bind_act (start_schema uuid) (\<lambda>_. bind_act migrate_from_2 (\<lambda>_. bind_act migrate_from_3
        (\<lambda>_ t. (check_version [4] t, t)))))"
    by (intro quiet opening_keeps) (simp add: keeps_def sch.same)
  then have "old_tables sc (snd (open_store False False uuid sc))" by (simp add: keeps_def open_store_def)
  then have "old_tables sc t" using assms by simp
  moreover have "open_store False False uuid' t = (Inr (), t)"
    using v by (simp add: open_store_def start_schema_def migrate_from_2_def migrate_from_3_def
        bind_act_def check_version_def)
  ultimately show ?thesis using v by (simp add: open_store_def check_version_def)
qed

definition sample_uuid :: string where
  "sample_uuid = ''00000000-0000-4000-8000-0000000000ab''"

definition no_schema :: schema where
  "no_schema = \<lparr>sc_version = 0, sc_tables = [], sc_unique = [], sc_uuids = []\<rparr>"

definition second_schema :: schema where
  "second_schema = \<lparr>sc_version = 2, sc_tables = base_columns, sc_unique = base_keys, sc_uuids = [sample_uuid]\<rparr>"

lemma sample_uuid_normal: "normal_uuid sample_uuid"
  by code_simp

lemma opened_schema_witness:
  "\<exists>t. open_store False False sample_uuid no_schema = (Inr (), t) \<and> sc_version t = 4
    \<and> open_store False False [] t = (Inr (), t)"
proof -
  have "fst (open_store False False sample_uuid no_schema) = Inr ()"
    by code_simp
  then obtain t where "open_store False False sample_uuid no_schema = (Inr (), t)"
    by (metis prod.collapse)
  from opened_schema [OF this, of "[]" False] this show ?thesis by blast
qed

text \<open>
  A file of the second version that passes its checks, and has no table of the later ones,
  opens: both migrations run, and only the tables of the later versions are new.
\<close>

theorem second_version_migrates:
  assumes "sc_version sc = 2" "validate_schema False False sc = Inr ()"
    and "\<And>k. k \<in> fst ` set (defi_columns @ artifact_columns) \<Longrightarrow> map_of (sc_tables sc) k = None"
  shows "\<exists>t. open_store False False uuid sc = (Inr (), t)
    \<and> sc_tables t = sc_tables sc @ defi_columns @ artifact_columns \<and> sc_uuids t = sc_uuids sc"
proof -
  let ?s = "sc\<lparr>sc_version := 3, sc_tables := sc_tables sc @ defi_columns, sc_unique := sc_unique sc @ defi_keys\<rparr>"
  let ?t = "?s\<lparr>sc_version := 4, sc_tables := sc_tables ?s @ artifact_columns, sc_unique := sc_unique ?s @ artifact_keys\<rparr>"
  have second: "migrate_v2_to_v3 sc = Inr ?s"
    using assms(3) by (auto simp: migrate_v2_to_v3_def create_tables_def list_ex_iff)
  have third: "migrate_v3_to_v4 ?s = Inr ?t"
    using assms(3) by (auto simp: migrate_v3_to_v4_def create_tables_def list_ex_iff artifact_columns_def
        defi_columns_def)
  have later: "map_of (sc_tables sc @ xs) (fst tc) = map_of xs (fst tc)"
    if "tc \<in> set defi_columns \<union> set artifact_columns" for tc xs
    using assms(3) [of "fst tc"] that by (auto simp: map_add_def split: option.split)
  have base: "\<exists>columns. map_of (sc_tables sc @ xs) (fst tc) = Some columns \<and> set (snd tc) \<subseteq> set columns"
    if "tc \<in> set base_columns" for tc xs
    using assms(2) that unfolding validated by (fastforce simp: map_add_def split: option.split)
  have "distinct (map fst (defi_columns @ artifact_columns))"
    by (simp add: defi_columns_def artifact_columns_def)
  then have own: "map_of (defi_columns @ artifact_columns) (fst tc) = Some (snd tc)"
    if "tc \<in> set defi_columns \<union> set artifact_columns" for tc
    using that by (simp del: map_of_append map_append)
  have own': "map_of defi_columns (fst tc) = Some (snd tc)" if "tc \<in> set defi_columns" for tc
    using that by (auto simp: defi_columns_def)
  have "validate_schema True False ?s = Inr ()"
    using assms(2) base [of _ defi_columns] later [of _ defi_columns] own' unfolding validated
    by (auto simp: ball_Un simp del: map_of_append)
  moreover have "validate_schema True True ?t = Inr ()"
    using assms(2) base [of _ "defi_columns @ artifact_columns"] later [of _ "defi_columns @ artifact_columns"] own
    unfolding validated by (auto simp: ball_Un simp del: map_of_append)
  ultimately have "open_store False False uuid sc = (Inr (), ?t)"
    using assms(1,2) second third
    by (simp add: open_store_def start_schema_def migrate_from_2_def migrate_from_3_def bind_act_def check_version_def)
  then show ?thesis by auto
qed

lemma second_version_migrates_witness:
  "\<exists>t. open_store False False [] second_schema = (Inr (), t) \<and> length (sc_tables t) = 9"
proof -
  have "sc_version second_schema = 2" "validate_schema False False second_schema = Inr ()"
    by code_simp+
  moreover have "list_all (\<lambda>tc. map_of (sc_tables second_schema) (fst tc) = None) (defi_columns @ artifact_columns)"
    by code_simp
  then have "map_of (sc_tables second_schema) k = None" if "k \<in> fst ` set (defi_columns @ artifact_columns)" for k
    using that by (auto simp: list_all_iff simp del: map_of_eq_None_iff)
  ultimately obtain t where "open_store False False [] second_schema = (Inr (), t)"
    "sc_tables t = sc_tables second_schema @ defi_columns @ artifact_columns"
    using second_version_migrates [of second_schema "[]"] by blast
  then show ?thesis
    by (simp add: second_schema_def base_columns_def defi_columns_def artifact_columns_def)
qed

end
