(* ===== verification/Defi_Operations.thy ===== *)
theory Defi_Operations
  imports Defi_Execution Inventory_Properties
begin

text \<open>
  Planning and execution as the command line and the batch worker call them
  (\<open>defi_operations.py\<close>): the wallets and their proxies come from the workbook, a plan is stored
  before its digest is given out, and an action is executed only from the stored bytes of its
  plan. The workbook, the files, the JSON writer and the portfolio are parameters.
\<close>

record workbook_row =
  wk_number :: int
  wk_proxy :: "string option"
  wk_wallet :: wallet_row

record 'r operation_world =
  ow_store :: inventory
  ow_defi :: "'r defi_world"

definition on_store :: "(inventory, 'a) action \<Rightarrow> ('r operation_world, 'a) action" where
  "on_store m w = (case m (ow_store w) of (r, v) \<Rightarrow> (r, w\<lparr>ow_store := v\<rparr>))"

definition on_defi :: "('r defi_world, 'a) action \<Rightarrow> ('r operation_world, 'a) action" where
  "on_defi m w = (case m (ow_defi w) of (r, v) \<Rightarrow> (r, w\<lparr>ow_defi := v\<rparr>))"

definition on_portfolio :: "('r, 'a) action \<Rightarrow> ('r operation_world, 'a) action" where
  "on_portfolio m = on_defi (on_rabby m)"

text \<open>\<open>{row.public_address: row ...}\<close>: of two rows of an address the later one stays.\<close>

definition workbook_entry :: "workbook_row list \<Rightarrow> string \<Rightarrow> workbook_row option" where
  "workbook_entry rows a = select_last (\<lambda>r. wr_address (wk_wallet r) = a) rows"

definition require_proxy :: "workbook_row \<Rightarrow> unit result" where
  "require_proxy r = require (case wk_proxy r of Some (_ # _) \<Rightarrow> True | _ \<Rightarrow> False)
     (ConfigError (''row '' @ int_text (wk_number r) @ '': Rabby proxy is required''))"

definition check_wallet :: "workbook_row list \<Rightarrow> string \<Rightarrow> unit result" where
  "check_wallet rows a = (case workbook_entry rows a of
      None \<Rightarrow> Inl (ConfigError ''DeFi wallet is not in workbook'')
    | Some r \<Rightarrow> require_proxy r)"

section \<open>Planning\<close>

definition quote_defi ::
  "defi_env \<Rightarrow> 'r portfolio \<Rightarrow> plan_reader \<Rightarrow> (pyval \<Rightarrow> string) \<Rightarrow> int list \<Rightarrow> workbook_row list
     \<Rightarrow> string list \<Rightarrow> string \<Rightarrow> rat \<Rightarrow> ('r operation_world, pydict) action" where
  "quote_defi env rabby rd dumps supported rows wallets output now =
     bind_act (lift (check_each (check_wallet rows) wallets)) (\<lambda>_.
     bind_act (on_portfolio (create_defi_plan env rabby supported wallets)) (\<lambda>(entries, document).
     let text = dumps (PDict document) @ [CHR 0x0A]; sha = pr_sha256 rd text in
     bind_act (on_store (save_defi_plan rd sha text now)) (\<lambda>_.
     give ([(''status'', PStr ''planned''), (''output'', PStr output), (''plan_sha256'', PStr sha)]
       @ (case get document ''summary'' of PDict d \<Rightarrow> d | _ \<Rightarrow> [])))))"

section \<open>Execution\<close>

text \<open>The entry and the workbook row of the action; entries that are no dict are passed over.\<close>

definition selected_entry ::
  "plan_reader \<Rightarrow> inventory \<Rightarrow> string \<Rightarrow> string \<Rightarrow> string \<Rightarrow> pydict result" where
  "selected_entry rd v text sha action =
     (if pr_sha256 rd text \<noteq> sha then Inl (ValueError ''reviewed plan digest does not match file'')
      else if defi_plan sha v \<noteq> Some text
      then Inl (ValueError ''reviewed DeFi plan is not stored in the inventory database'')
      else bind_result (pr_loads rd text) (\<lambda>x. bind_result (get_item x ''entries'' (PList [])) (\<lambda>es.
        bind_result (elements es) (\<lambda>items. case chosen_entries action items of
          [e] \<Rightarrow> Inr e | _ \<Rightarrow> Inl (ValueError ''DeFi action ID does not select one position'')))))"

definition selected_wallet :: "workbook_row list \<Rightarrow> pydict \<Rightarrow> workbook_row result" where
  "selected_wallet rows entry = (case workbook_entry rows (py_str (get_default entry ''wallet'' (PStr []))) of
      None \<Rightarrow> Inl (ValueError ''selected DeFi wallet is not in workbook'')
    | Some r \<Rightarrow> bind_result (require_proxy r) (\<lambda>_. Inr r))"

definition selected_url :: "(int \<times> string) list \<Rightarrow> pydict \<Rightarrow> string result" where
  "selected_url urls entry = (case get entry ''chain_id'' of
      PInt c \<Rightarrow> (case map_of urls c of
          None \<Rightarrow> Inl (ValueError ''selected DeFi chain is not configured'') | Some u \<Rightarrow> Inr u)
    | PList _ \<Rightarrow> Inl TypeError | PDict _ \<Rightarrow> Inl TypeError
    | _ \<Rightarrow> Inl (ValueError ''selected DeFi chain is not configured''))"

definition execute_defi ::
  "'r defi_run \<Rightarrow> (int \<times> string) list \<Rightarrow> workbook_row list \<Rightarrow> string \<Rightarrow> string \<Rightarrow> string \<Rightarrow> int \<Rightarrow> bool \<Rightarrow> rat
     \<Rightarrow> ('r operation_world, pydict) action" where
  "execute_defi run urls rows text sha action max_gas execute now w =
     bind_act (lift (bind_result (selected_entry (dr_reader run) (ow_store w) text sha action) (\<lambda>entry.
       bind_result (selected_wallet rows entry) (\<lambda>row.
       bind_result (selected_url urls entry) (\<lambda>url. Inr (row, url)))))) (\<lambda>(row, url).
     bind_act (on_defi (execute_defi_action (run\<lparr>dr_url := url\<rparr>)
       \<lparr>pc_bytes = text, pc_sha256 = sha, pc_action = action, pc_wallet = []\<rparr> (wk_wallet row) max_gas execute)) (\<lambda>result.
     bind_act (on_store (record_defi_execution sha action result now)) (\<lambda>_. give result))) w"

section \<open>Properties\<close>

lemma on_world_simps [simp]:
  "ow_store (snd (on_defi m w)) = ow_store w" "ow_defi (snd (on_store n w)) = ow_defi w"
  by (simp_all add: on_defi_def on_store_def split: prod.split)

lemma on_store_Inr: "on_store m w = (Inr x, w') \<longleftrightarrow> (\<exists>v. m (ow_store w) = (Inr x, v) \<and> w' = w\<lparr>ow_store := v\<rparr>)"
  by (auto simp: on_store_def split: prod.split)

lemma recorded:
  assumes "record_defi_execution sha action result now v = (Inr (), u)"
  shows "\<exists>e. iv_events u = iv_events v @ [e] \<and> ie_plan e = sha \<and> ie_action e = action
    \<and> get result ''status'' = PStr (ie_status e) \<and> get result ''action_id'' = PStr action"
  using assms unfolding record_defi_execution_def
  by (auto split: sum.splits list.splits if_splits pyval.splits)

text \<open>
  C38: an execution that returns ran on the bytes that the database holds under the reviewed
  digest, and left one event of that plan and action with the status it returned; from a plan
  that is not stored nothing is executed: neither a request is sent nor a row written.
\<close>

theorem executed_from_stored_plan:
  shows "(\<forall>result w'. execute_defi run urls rows text sha action max_gas execute now w = (Inr result, w') \<longrightarrow>
      defi_plan sha (ow_store w) = Some text \<and> pr_sha256 (dr_reader run) text = sha
      \<and> (\<exists>e. iv_events (ow_store w') = iv_events (ow_store w) @ [e] \<and> ie_plan e = sha \<and> ie_action e = action
           \<and> get result ''status'' = PStr (ie_status e)))
    \<and> (defi_plan sha (ow_store w) \<noteq> Some text \<longrightarrow>
      snd (execute_defi run urls rows text sha action max_gas execute now w) = w)"
proof -
  let ?chosen = "bind_result (selected_entry (dr_reader run) (ow_store w) text sha action) (\<lambda>entry.
       bind_result (selected_wallet rows entry) (\<lambda>row.
       bind_result (selected_url urls entry) (\<lambda>url. Inr (row, url))))"
  have stored: "defi_plan sha (ow_store w) = Some text \<and> pr_sha256 (dr_reader run) text = sha"
    if "?chosen = Inr x" for x
    using that by (auto simp: selected_entry_def split: if_splits)
  show ?thesis
  proof (cases ?chosen)
    case (Inl e)
    then show ?thesis by (simp add: execute_defi_def bind_act_def)
  next
    case (Inr x)
    obtain row url where x: "x = (row, url)" by fastforce
    let ?run = "on_defi (execute_defi_action (run\<lparr>dr_url := url\<rparr>)
       \<lparr>pc_bytes = text, pc_sha256 = sha, pc_action = action, pc_wallet = []\<rparr> (wk_wallet row) max_gas execute)"
    have step: "execute_defi run urls rows text sha action max_gas execute now w
      = bind_act ?run (\<lambda>result. bind_act (on_store (record_defi_execution sha action result now)) (\<lambda>_. give result)) w"
      unfolding execute_defi_def Inr x by simp
    have "\<exists>e. iv_events (ow_store w') = iv_events (ow_store w) @ [e] \<and> ie_plan e = sha \<and> ie_action e = action
           \<and> get result ''status'' = PStr (ie_status e)"
      if returned: "execute_defi run urls rows text sha action max_gas execute now w = (Inr result, w')" for result w'
    proof -
      from returned obtain u v where u: "?run w = (Inr result, u)"
        "record_defi_execution sha action result now (ow_store u) = (Inr (), v)" "ow_store w' = v"
        unfolding step by (auto simp: on_store_Inr)
      have "ow_store u = ow_store w" using u(1) by (metis on_world_simps(1) snd_conv)
      with recorded [OF u(2)] u(3) show ?thesis by auto
    qed
    with stored [OF Inr] show ?thesis by blast
  qed
qed

lemma executed_from_stored_plan_witness:
  "\<forall>run :: unit defi_run. \<forall>w. snd (execute_defi run [(10, ''u'')] [] ''plan'' ''sha'' ''i'' 1 True 0
      (w\<lparr>ow_store := empty_inventory\<rparr>)) = w\<lparr>ow_store := empty_inventory\<rparr>"
proof (intro allI)
  fix run :: "unit defi_run" and w :: "unit operation_world"
  have "defi_plan ''sha'' (ow_store (w\<lparr>ow_store := empty_inventory\<rparr>)) \<noteq> Some ''plan''"
    by (simp add: defi_plan_def plan_of_def select_one_def empty_inventory_def)
  then show "snd (execute_defi run [(10, ''u'')] [] ''plan'' ''sha'' ''i'' 1 True 0
      (w\<lparr>ow_store := empty_inventory\<rparr>)) = w\<lparr>ow_store := empty_inventory\<rparr>"
    using executed_from_stored_plan [of run "[(10, ''u'')]" "[]" "''plan''" "''sha''" "''i''" 1 True 0
        "w\<lparr>ow_store := empty_inventory\<rparr>"] by blast
qed

end
