(* ===== verification/Route_Options.thy ===== *)
theory Route_Options
  imports Route_Errors Effects
begin

text \<open>
  Recovery of an unsigned route with another option of the same quote
  (\<open>unsigned_route_options.py\<close>): which failures are deterministic, the order in which options are
  tried, and the time after which a fresh quote can be had. The callbacks of the function
  (\<open>alternatives\<close>, \<open>validate\<close>, \<open>prepare\<close>, \<open>now\<close>) are arguments, as in the code; a route is its id and the
  time its quote was made, when that time can be read. Credentials are not redacted here.
\<close>

section \<open>Deterministic failures\<close>

text \<open>What a request error of a node carries: its \<open>diagnostic\<close>.\<close>

record option_view =
  ov_view :: exn_view
  ov_diagnostic :: "exn \<Rightarrow> pyval"

definition is_word_char :: "char \<Rightarrow> bool" where
  "is_word_char c \<longleftrightarrow> is_digit c \<or> c = CHR ''_'' \<or> 65 \<le> code_of c \<and> code_of c \<le> 90
     \<or> 97 \<le> code_of c \<and> code_of c \<le> 122"

text \<open>The words of a text, as \<open>\b\<close> separates them.\<close>

fun words_of :: "string \<Rightarrow> string \<Rightarrow> string list" where
  "words_of w [] = (if w = [] then [] else [w])"
| "words_of w (c # s) =
     (if is_word_char c then words_of (w @ [c]) s else (if w = [] then [] else [w]) @ words_of [] s)"

definition revert_message :: "string \<Rightarrow> bool" where
  "revert_message m \<longleftrightarrow> contains ''execution reverted'' m
     \<or> contains ''vm exception'' m \<and> list_ex (\<lambda>w. w = ''revert'' \<or> w = ''reverted'') (words_of [] m)"

definition structured_revert :: "pyval \<Rightarrow> bool" where
  "structured_revert provider = (case provider of
      PDict d \<Rightarrow>
        get d ''method'' = PStr ''eth_estimateGas''
        \<and> (case get d ''provider_error'' of
            PDict e \<Rightarrow>
              (case get e ''code'' of
                 PInt _ \<Rightarrow> revert_message (lower (py_str (get_default e ''message'' (PStr []))))
               | _ \<Rightarrow> False)
          | _ \<Rightarrow> False)
    | _ \<Rightarrow> False)"

text \<open>
  The exceptions of a recorded diagnostic: only the root and the causes after it explain the
  failure, one that was handled before it does not.
\<close>

fun explained :: "string \<Rightarrow> pyval list \<Rightarrow> bool result" where
  "explained link [] = Inr False"
| "explained link (x # xs) = bind_result (as_dict x) (\<lambda>d.
     if get d ''chain_link'' \<noteq> PStr link then Inr False
     else if get d ''type'' = PStr ''RpcError'' \<and> structured_revert (get d ''provider'') then Inr True
     else explained ''cause'' xs)"

fun diagnosed :: "pyval list \<Rightarrow> bool result" where
  "diagnosed [] = Inr False"
| "diagnosed (x # xs) = bind_result (get_item x ''diagnostic'' (PDict [])) (\<lambda>d.
     bind_result (get_item d ''exceptions'' (PList [])) (\<lambda>es. bind_result (elements es) (\<lambda>items.
     bind_result (explained ''root'' items) (\<lambda>found. if found then Inr True else diagnosed xs))))"

definition deterministic_failure :: "option_view \<Rightarrow> exn \<Rightarrow> pyval list \<Rightarrow> bool result" where
  "deterministic_failure ov e diagnostics =
     (if is_route_preparation_rejected e then Inr True
      else if list_ex (\<lambda>x. is_rpc_error x \<and> structured_revert (ov_diagnostic ov x)) (e # ev_causes (ov_view ov) e)
      then Inr True
      else if \<not> (is_value_error e \<and> error_text (ov_view ov) e = ''requote_required:missing_gas_estimate'')
      then Inr False
      else diagnosed diagnostics)"

section \<open>The options in order\<close>

record route_option =
  ro_id :: string
  ro_quoted :: "rat option"

text \<open>
  The world and the list of diagnostics that the callbacks share with the caller; the failures
  of this run and the routes attempted, which they do not see.
\<close>

record 'w shared =
  sh_world :: 'w
  sh_diagnostics :: "pyval list"

record 'w option_run =
  or_shared :: "'w shared"
  or_failures :: "pyval list"
  or_attempted :: "route_option list"

type_synonym ('w, 'a) prepare = "route_option \<Rightarrow> ('w shared, 'a option) action"

definition on_shared :: "('w shared, 'a) action \<Rightarrow> ('w option_run, 'a) action" where
  "on_shared m s = (case m (or_shared s) of (r, v) \<Rightarrow> (r, s\<lparr>or_shared := v\<rparr>))"

definition failure_of :: "option_view \<Rightarrow> string \<Rightarrow> string \<Rightarrow> exn \<Rightarrow> pyval" where
  "failure_of ov i phase e = PDict [(''route_id'', PStr i), (''phase'', PStr phase),
     (''diagnostic'', ev_diagnostic (ov_view ov) e)]"

definition add_failure :: "pyval \<Rightarrow> 'w option_run \<Rightarrow> 'w option_run" where
  "add_failure f s = s\<lparr>or_failures := or_failures s @ [f],
     or_shared := (or_shared s)\<lparr>sh_diagnostics := sh_diagnostics (or_shared s) @ [f]\<rparr>\<rparr>"

definition is_candidate_error :: "exn \<Rightarrow> bool" where
  "is_candidate_error e = (case e of InvalidUnsignedRouteCandidate _ \<Rightarrow> True | _ \<Rightarrow> False)"

text \<open>The diagnostics of the route that \<open>prepare\<close> added; an entry that is not a dict raises.\<close>

fun of_route :: "string \<Rightarrow> pyval list \<Rightarrow> pyval list result" where
  "of_route i [] = Inr []"
| "of_route i (x # xs) = bind_result (as_dict x) (\<lambda>d. bind_result (of_route i xs) (\<lambda>ys.
     Inr (if get d ''route_id'' = PStr i then x # ys else ys)))"

definition attempt_option ::
  "option_view \<Rightarrow> ('w, 'a) prepare \<Rightarrow> route_option \<Rightarrow> ('w option_run, 'a option) action" where
  "attempt_option ov prepare route s =
     (let start = length (sh_diagnostics (or_shared s)) in
      case on_shared (prepare route) (s\<lparr>or_attempted := or_attempted s @ [route]\<rparr>) of
        (Inr x, t) \<Rightarrow> (Inr x, t)
      | (Inl e, t) \<Rightarrow>
          (case bind_result (of_route (ro_id route) (drop start (sh_diagnostics (or_shared t)))) (deterministic_failure ov e) of
             Inl e' \<Rightarrow> (Inl e', t)
           | Inr deterministic \<Rightarrow>
               if \<not> deterministic \<and> \<not> (or_failures t \<noteq> [] \<and> is_candidate_error e) then (Inl e, t)
               else (Inr None, add_failure (failure_of ov (ro_id route) ''unsigned_route_preparation'' e) t)))"

fun try_options ::
  "option_view \<Rightarrow> ('w, 'a) prepare \<Rightarrow> (route_option \<Rightarrow> ('w shared, unit) action) \<Rightarrow> string
     \<Rightarrow> route_option list \<Rightarrow> ('w option_run, 'a option) action" where
  "try_options ov prepare validate chosen [] = give None"
| "try_options ov prepare validate chosen (r # rs) = (\<lambda>s.
     if ro_id r = chosen then try_options ov prepare validate chosen rs s
     else case on_shared (validate r) s of
       (Inl e, t) \<Rightarrow>
         if is_value_error e
         then try_options ov prepare validate chosen rs
           (add_failure (failure_of ov (ro_id r) ''unsigned_route_identity'' e) t)
         else (Inl e, t)
     | (Inr _, t) \<Rightarrow>
         (case attempt_option ov prepare r t of
            (Inl e, u) \<Rightarrow> (Inl e, u)
          | (Inr (Some x), u) \<Rightarrow> (Inr (Some x), u)
          | (Inr None, u) \<Rightarrow> try_options ov prepare validate chosen rs u))"

definition quote_ttl :: rat where
  "quote_ttl = 240"

definition exhausted_until :: "rat \<Rightarrow> route_option list \<Rightarrow> rat" where
  "exhausted_until now attempted = fold (\<lambda>r t. case ro_quoted r of
     None \<Rightarrow> t | Some q \<Rightarrow> max t (q + quote_ttl)) attempted (now + quote_ttl)"

definition prepare_unsigned_route_options ::
  "option_view \<Rightarrow> route_option \<Rightarrow> ('w shared, route_option list) action
     \<Rightarrow> (route_option \<Rightarrow> ('w shared, unit) action) \<Rightarrow> ('w, 'a) prepare \<Rightarrow> rat \<Rightarrow> ('w option_run, 'a) action" where
  "prepare_unsigned_route_options ov chosen alternatives validate prepare now =
     bind_act (attempt_option ov prepare chosen) (\<lambda>first. case first of
       Some x \<Rightarrow> give x
     | None \<Rightarrow> bind_act (on_shared alternatives) (\<lambda>routes.
         bind_act (try_options ov prepare validate (ro_id chosen) routes) (\<lambda>found s. case found of
           Some x \<Rightarrow> (Inr x, s)
         | None \<Rightarrow> (Inl (UnsignedRoutePreparationExhausted (exhausted_until now (or_attempted s))), s))))"

section \<open>The first option that is admitted\<close>

text \<open>
  Callbacks whose answers are given: \<open>p\<close> and \<open>v\<close> for each route, \<open>d\<close> the diagnostics it adds, \<open>alts\<close>
  the options. The world is whatever the callbacks make of it.
\<close>

definition scripted_prepare ::
  "(route_option \<Rightarrow> 'a result) \<Rightarrow> (route_option \<Rightarrow> pyval list) \<Rightarrow> ('w \<Rightarrow> 'w) \<Rightarrow> ('w, 'a) prepare" where
  "scripted_prepare p d f r s = (case p r of Inl e \<Rightarrow> Inl e | Inr x \<Rightarrow> Inr (Some x),
     s\<lparr>sh_world := f (sh_world s), sh_diagnostics := sh_diagnostics s @ d r\<rparr>)"

definition scripted_validate :: "(route_option \<Rightarrow> unit result) \<Rightarrow> route_option \<Rightarrow> ('w shared, unit) action" where
  "scripted_validate v r s = (v r, s)"

definition passed_over ::
  "(route_option \<Rightarrow> unit result) \<Rightarrow> (route_option \<Rightarrow> 'a result) \<Rightarrow> (route_option \<Rightarrow> bool) \<Rightarrow> route_option \<Rightarrow> bool" where
  "passed_over v p det r \<longleftrightarrow> (case v r of
      Inl e \<Rightarrow> is_value_error e
    | Inr _ \<Rightarrow> (case p r of Inl e \<Rightarrow> det r \<or> is_candidate_error e | Inr _ \<Rightarrow> False))"

definition settles :: "(route_option \<Rightarrow> unit result) \<Rightarrow> (route_option \<Rightarrow> 'a result) \<Rightarrow> route_option \<Rightarrow> 'a result" where
  "settles v p r = (case v r of Inl e \<Rightarrow> Inl e | Inr _ \<Rightarrow> p r)"

text \<open>The reference: the outcome of the first option that is not passed over.\<close>

definition first_outcome ::
  "(route_option \<Rightarrow> unit result) \<Rightarrow> (route_option \<Rightarrow> 'a result) \<Rightarrow> (route_option \<Rightarrow> bool) \<Rightarrow> string
     \<Rightarrow> route_option list \<Rightarrow> 'a result option" where
  "first_outcome v p det chosen routes =
     map_option (settles v p) (List.find (\<lambda>r. ro_id r \<noteq> chosen \<and> \<not> passed_over v p det r) routes)"

lemma attempt_scripted:
  assumes "\<And>e. p r = Inl e \<Longrightarrow> bind_result (of_route (ro_id r) (d r)) (deterministic_failure ov e) = Inr (det r)"
  shows "\<exists>t. attempt_option ov (scripted_prepare p d f) r s =
      (case p r of Inr x \<Rightarrow> Inr (Some x)
       | Inl e \<Rightarrow> if det r \<or> or_failures s \<noteq> [] \<and> is_candidate_error e then Inr None else Inl e, t)
    \<and> or_attempted t = or_attempted s @ [r] \<and> (or_failures s \<noteq> [] \<longrightarrow> or_failures t \<noteq> [])
    \<and> (\<forall>e. p r = Inl e \<and> det r \<longrightarrow> or_failures t \<noteq> [])"
  using assms
  by (cases "p r")
    (auto simp: attempt_option_def scripted_prepare_def on_shared_def add_failure_def Let_def)

lemma try_scripted:
  assumes det: "\<And>r e. p r = Inl e \<Longrightarrow> bind_result (of_route (ro_id r) (d r)) (deterministic_failure ov e) = Inr (det r)"
    and "or_failures s \<noteq> []"
  shows "\<exists>t. try_options ov (scripted_prepare p d f) (scripted_validate v) chosen routes s =
      (case first_outcome v p det chosen routes of
         None \<Rightarrow> Inr None | Some (Inr x) \<Rightarrow> Inr (Some x) | Some (Inl e) \<Rightarrow> Inl e, t)
    \<and> (\<exists>rs. or_attempted t = or_attempted s @ rs \<and> set rs \<subseteq> {r \<in> set routes. ro_id r \<noteq> chosen \<and> v r = Inr ()})"
  using assms(2)
proof (induction routes arbitrary: s)
  case Nil
  show ?case by (rule exI [of _ s]) (simp add: first_outcome_def)
next
  case (Cons r routes)
  show ?case
  proof (cases "ro_id r = chosen")
    case True
    then have same: "first_outcome v p det chosen (r # routes) = first_outcome v p det chosen routes"
      by (simp add: first_outcome_def)
    from Cons.IH [OF Cons.prems] show ?thesis unfolding same using True by fastforce
  next
    case other: False
    show ?thesis
    proof (cases "v r")
      case (Inl e)
      show ?thesis
      proof (cases "is_value_error e")
        case True
        have same: "first_outcome v p det chosen (r # routes) = first_outcome v p det chosen routes"
          using Inl True by (simp add: first_outcome_def passed_over_def)
        let ?s = "add_failure (failure_of ov (ro_id r) ''unsigned_route_identity'' e) s"
        have "or_failures ?s \<noteq> []" by (simp add: add_failure_def)
        from Cons.IH [OF this] show ?thesis unfolding same
          using other Inl True by (fastforce simp: scripted_validate_def on_shared_def add_failure_def)
      qed (use other Inl in \<open>auto simp: first_outcome_def passed_over_def settles_def scripted_validate_def on_shared_def\<close>)
    next
      case (Inr u)
      obtain t where t: "attempt_option ov (scripted_prepare p d f) r s =
          (case p r of Inr x \<Rightarrow> Inr (Some x)
           | Inl e \<Rightarrow> if det r \<or> or_failures s \<noteq> [] \<and> is_candidate_error e then Inr None else Inl e, t)"
        "or_attempted t = or_attempted s @ [r]" "or_failures t \<noteq> []"
        using attempt_scripted [of p r d ov det f s] det Cons.prems by blast
      have valid: "on_shared (scripted_validate v r) s = (Inr (), s)"
        using Inr by (simp add: scripted_validate_def on_shared_def)
      show ?thesis
      proof (cases "passed_over v p det r")
        case True
        then obtain e where e: "p r = Inl e" "det r \<or> is_candidate_error e"
          using Inr by (auto simp: passed_over_def split: sum.splits)
        have same: "first_outcome v p det chosen (r # routes) = first_outcome v p det chosen routes"
          using True by (simp add: first_outcome_def)
        have "attempt_option ov (scripted_prepare p d f) r s = (Inr None, t)"
          using t(1) e Cons.prems by auto
        with Cons.IH [OF t(3)] show ?thesis unfolding same
          using other valid t(2) Inr by fastforce
      next
        case False
        then have "first_outcome v p det chosen (r # routes) = Some (p r)"
          using other Inr by (simp add: first_outcome_def settles_def)
        moreover have "attempt_option ov (scripted_prepare p d f) r s
            = (case p r of Inr x \<Rightarrow> Inr (Some x) | Inl e \<Rightarrow> Inl e, t)"
          using t(1) False Inr by (auto simp: passed_over_def split: sum.splits)
        ultimately show ?thesis
          using other valid t(2) Inr by (cases "p r") auto
      qed
    qed
  qed
qed

lemma exhausted_until_bounds:
  "now + quote_ttl \<le> exhausted_until now routes
    \<and> (\<forall>r t. r \<in> set routes \<and> ro_quoted r = Some t \<longrightarrow> t + quote_ttl \<le> exhausted_until now routes)"
proof -
  let ?f = "\<lambda>r t. case ro_quoted r of None \<Rightarrow> t | Some q \<Rightarrow> max t (q + quote_ttl)"
  have "s \<le> fold ?f routes s
      \<and> (\<forall>r t. r \<in> set routes \<and> ro_quoted r = Some t \<longrightarrow> t + quote_ttl \<le> fold ?f routes s)" for s
  proof (induction routes arbitrary: s)
    case (Cons r routes)
    from Cons.IH [of "?f r s"] show ?case
      by (auto split: option.splits intro: order_trans [OF max.cobounded1] order_trans [OF max.cobounded2])
  qed simp
  then show ?thesis by (simp add: exhausted_until_def)
qed

definition fresh_run :: "'w shared \<Rightarrow> 'w option_run" where
  "fresh_run s = \<lparr>or_shared = s, or_failures = [], or_attempted = []\<rparr>"

text \<open>
  C39: the outcome is that of the first route, in the order given, that is not passed over: an
  operational error of the chosen route or of an option stops at once and stays intact; an
  option is tried only after the chosen route failed deterministically, only when it has another
  id and its identity holds; when all are used up, the retry is not before a fresh quote.
\<close>

theorem first_option_admitted:
  assumes det: "\<And>r e. p r = Inl e \<Longrightarrow> bind_result (of_route (ro_id r) (d r)) (deterministic_failure ov e) = Inr (det r)"
  shows "\<exists>q t rs. prepare_unsigned_route_options ov chosen (\<lambda>s. (Inr routes, s)) (scripted_validate v)
        (scripted_prepare p d f) now (fresh_run s) =
      (case p chosen of
         Inr x \<Rightarrow> Inr x
       | Inl e \<Rightarrow> if \<not> det chosen then Inl e
           else (case first_outcome v p det (ro_id chosen) routes of
               Some r \<Rightarrow> r | None \<Rightarrow> Inl (UnsignedRoutePreparationExhausted q)), t)
    \<and> or_attempted t = chosen # rs \<and> set rs \<subseteq> {r \<in> set routes. ro_id r \<noteq> ro_id chosen \<and> v r = Inr ()}
    \<and> now + quote_ttl \<le> q
    \<and> (\<forall>r \<in> insert chosen (set rs). \<forall>m. ro_quoted r = Some m \<longrightarrow> m + quote_ttl \<le> q)"
proof -
  let ?run = "prepare_unsigned_route_options ov chosen (\<lambda>s. (Inr routes, s)) (scripted_validate v)
        (scripted_prepare p d f) now (fresh_run s)"
  obtain t where t: "attempt_option ov (scripted_prepare p d f) chosen (fresh_run s) =
      (case p chosen of Inr x \<Rightarrow> Inr (Some x) | Inl e \<Rightarrow> if det chosen then Inr None else Inl e, t)"
    "or_attempted t = [chosen]" "\<And>e. p chosen = Inl e \<Longrightarrow> det chosen \<Longrightarrow> or_failures t \<noteq> []"
  proof -
    have init: "or_failures (fresh_run s) = []" "or_attempted (fresh_run s) = []" by (simp_all add: fresh_run_def)
    from attempt_scripted [of p chosen d ov det f "fresh_run s", OF det] that show ?thesis
      unfolding init append_Nil by (metis (no_types, lifting))
  qed
  define q where "q = (\<lambda>rs. exhausted_until now (chosen # rs))"
  have q: "now + quote_ttl \<le> q rs" "r \<in> insert chosen (set rs) \<Longrightarrow> ro_quoted r = Some m \<Longrightarrow> m + quote_ttl \<le> q rs"
    for rs r m
    using exhausted_until_bounds [of now "chosen # rs"] by (auto simp: q_def)
  show ?thesis
  proof (cases "\<exists>e. p chosen = Inl e \<and> det chosen")
    case False
    then have "?run = (case p chosen of Inr x \<Rightarrow> Inr x | Inl e \<Rightarrow> Inl e, t)"
      using t(1) by (cases "p chosen") (auto simp: prepare_unsigned_route_options_def bind_act_def)
    with False t(2) q [where rs = "[]"] show ?thesis by (cases "p chosen") (fastforce intro: exI [of _ "[]"])+
  next
    case True
    then obtain e where e: "p chosen = Inl e" "det chosen" by blast
    obtain u rs where u: "try_options ov (scripted_prepare p d f) (scripted_validate v) (ro_id chosen) routes
        (t\<lparr>or_shared := or_shared t\<rparr>) =
      (case first_outcome v p det (ro_id chosen) routes of
         None \<Rightarrow> Inr None | Some (Inr x) \<Rightarrow> Inr (Some x) | Some (Inl e) \<Rightarrow> Inl e, u)"
      "or_attempted u = chosen # rs" "set rs \<subseteq> {r \<in> set routes. ro_id r \<noteq> ro_id chosen \<and> v r = Inr ()}"
      using try_scripted [of p d ov det "t\<lparr>or_shared := or_shared t\<rparr>" f v "ro_id chosen" routes] det t(2,3) e by auto
    have "?run = (case first_outcome v p det (ro_id chosen) routes of
        Some r \<Rightarrow> r | None \<Rightarrow> Inl (UnsignedRoutePreparationExhausted (q rs)), u)"
      using t(1) e u(1,2)
      by (auto simp: prepare_unsigned_route_options_def bind_act_def on_shared_def q_def split: option.split sum.split)
    with e u(2,3) q [where rs = rs] show ?thesis by (intro exI [of _ "q rs"] exI [of _ u] exI [of _ rs]) auto
  qed
qed

definition plain_view :: option_view where
  "plain_view = \<lparr>ov_view = \<lparr>ev_text = \<lambda>_. ''error'', ev_causes = \<lambda>_. [], ev_diagnostic = \<lambda>_. PNone,
     ev_infinity = PNone\<rparr>, ov_diagnostic = \<lambda>_. PNone\<rparr>"

definition rejected_then_taken :: "route_option \<Rightarrow> string result" where
  "rejected_then_taken r = (if ro_id r = ''a'' then Inl (HttpStatusError 422 ''POST'' step_transaction_url)
     else Inr (ro_id r))"

lemma first_option_admitted_witness:
  "\<exists>t. prepare_unsigned_route_options plain_view \<lparr>ro_id = ''a'', ro_quoted = Some 100\<rparr>
      (\<lambda>s. (Inr [\<lparr>ro_id = ''a'', ro_quoted = None\<rparr>, \<lparr>ro_id = ''b'', ro_quoted = None\<rparr>], s))
      (scripted_validate (\<lambda>_. Inr ())) (scripted_prepare rejected_then_taken (\<lambda>_. []) id) 120
      (fresh_run \<lparr>sh_world = (), sh_diagnostics = []\<rparr>) = (Inr ''b'', t)"
proof -
  have det: "bind_result (of_route (ro_id r) ((\<lambda>_. []) r)) (deterministic_failure plain_view e) = Inr True"
    if "rejected_then_taken r = Inl e" for r e
    using that by (auto simp: rejected_then_taken_def deterministic_failure_def is_route_preparation_rejected_def
        split: if_splits)
  have "first_outcome (\<lambda>_. Inr ()) rejected_then_taken (\<lambda>_. True) ''a''
      [\<lparr>ro_id = ''a'', ro_quoted = None\<rparr>, \<lparr>ro_id = ''b'', ro_quoted = None\<rparr>] = Some (Inr ''b'')"
    by (simp add: first_outcome_def passed_over_def settles_def rejected_then_taken_def)
  then show ?thesis
    using first_option_admitted [where p = rejected_then_taken and d = "\<lambda>_. []" and ov = plain_view
        and det = "\<lambda>_. True" and chosen = "\<lparr>ro_id = ''a'', ro_quoted = Some 100\<rparr>" and now = 120
        and routes = "[\<lparr>ro_id = ''a'', ro_quoted = None\<rparr>, \<lparr>ro_id = ''b'', ro_quoted = None\<rparr>]"
        and v = "\<lambda>_. Inr ()" and f = id and s = "\<lparr>sh_world = (), sh_diagnostics = []\<rparr>", OF det]
    by (auto simp: rejected_then_taken_def)
qed

end
