(* ===== verification/Legacy_Fee_Cap.thy ===== *)
theory Legacy_Fee_Cap
  imports Weth Defi_Frames Route_Errors
begin

text \<open>
  Diagnosis of a legacy native route whose error was cut off (\<open>unsigned_recovery.py\<close>): under the
  conditions of the code the fee of its prepared request is planned again, with reads only, and
  a fee above the cap is written down as the cause. The RPC and the planner's environment are
  those of \<open>Defi_Execution\<close>.
\<close>

section \<open>The prepared request\<close>

definition int_or_none :: "pyval \<Rightarrow> int option" where
  "int_or_none v = (case v of PInt i \<Rightarrow> Some i | _ \<Rightarrow> None)"

definition str_or_none :: "pyval \<Rightarrow> string option" where
  "str_or_none v = (case v of PStr s \<Rightarrow> Some s | _ \<Rightarrow> None)"

text \<open>\<open>isinstance(request, TransactionRequest)\<close>, and its fields.\<close>

definition request_of :: "pyval \<Rightarrow> tx_request option" where
  "request_of v = (case v of
      PData name d \<Rightarrow>
        if name \<noteq> ''TransactionRequest'' then None
        else (case (get d ''chain_id'', get d ''to'', get d ''data'', get d ''value'', get d ''gas_limit'') of
          (PInt c, PStr to, PStr data, PInt value, PInt gas) \<Rightarrow> Some
            \<lparr>t_chain = c, t_to = to, t_data = data, t_value = value, t_gas = gas,
             t_gas_price = int_or_none (get d ''gas_price_wei''),
             t_max_fee = int_or_none (get d ''max_fee_per_gas_wei''),
             t_priority = int_or_none (get d ''max_priority_fee_per_gas_wei''),
             t_additional = (case get d ''additional_fee_wei'' of PInt n \<Rightarrow> n | _ \<Rightarrow> 0),
             t_method = str_or_none (get d ''fee_quote_method''),
             t_fallback = str_or_none (get d ''fee_quote_fallback_reason''),
             t_cap = int_or_none (get d ''max_total_fee_cap_wei''),
             t_estimate = int_or_none (get d ''gas_estimate''),
             t_block = int_or_none (get d ''fee_quote_block_number''),
             t_base_fee = int_or_none (get d ''base_fee_per_gas_wei'')\<rparr>
        | _ \<Rightarrow> None)
    | _ \<Rightarrow> None)"

section \<open>The conditions\<close>

definition group_unfit :: "group_row \<Rightarrow> pydict list \<Rightarrow> bool" where
  "group_unfit g entries \<longleftrightarrow> g_state g \<noteq> ''manual_review_group_halted''
     \<or> g_reason g \<noteq> Some ''execution_error:ValueError'' \<or> length entries \<noteq> 1"

definition entry_unfit :: "pydict \<Rightarrow> position_row list \<Rightarrow> bool" where
  "entry_unfit entry rows \<longleftrightarrow> length rows \<noteq> 1 \<or> get entry ''asset_id'' \<noteq> PStr ''native''
     \<or> get entry ''status'' \<noteq> PStr ''route_ready'' \<or> \<not> py_truthy (get entry ''automatic_requote'')"

definition position_tests :: "journal \<Rightarrow> group_row \<Rightarrow> pydict \<Rightarrow> position_row \<Rightarrow> bool result list" where
  "position_tests j g entry p =
     [Inr (p_state p \<noteq> ''manual_review''), Inr (p_reason p \<noteq> g_reason g),
      Inr (p_source_asset p \<noteq> Some ''native''),
      bind_result (item (PDict entry) ''wallet'') (\<lambda>a. Inr (p_wallet p \<noteq> lower (py_str a))),
      bind_result (item (PDict entry) ''raw_balance'') (\<lambda>n. Inr (p_source_amount p \<noteq> Some (py_str n))),
      bind_result (int_item (PDict entry) ''chain_id'') (\<lambda>c. Inr (c \<noteq> g_chain g)),
      Inr (list_ex (\<lambda>s. s_position s = p_id p) (steps j))]"

definition prepared_request :: "journal \<Rightarrow> nat \<Rightarrow> pyval result" where
  "prepared_request j pid = bind_result (checkpoint_dict j pid ''prepared'') (\<lambda>prepared.
     bind_result (elements (get_default prepared ''steps'' (PList []))) (\<lambda>items. case items of
       [x] \<Rightarrow> get_item x ''_prepared_request'' PNone
     | _ \<Rightarrow> Inr PNone))"

definition request_unfit :: "int \<Rightarrow> (int \<times> string) list \<Rightarrow> tx_request \<Rightarrow> bool result" where
  "request_unfit chain urls t =
     (if t_chain t \<noteq> chain \<or> t_cap t \<in> {None, Some 0} then Inr True
      else bind_result (max_total_fee t) (\<lambda>n. Inr
        ((case t_cap t of None \<Rightarrow> True | Some cap \<Rightarrow> cap < n) \<or> map_of urls (t_chain t) = None)))"

section \<open>The diagnosis\<close>

definition fee_cap_failure :: "exn_view \<Rightarrow> exn \<Rightarrow> pyval" where
  "fee_cap_failure ev e = PDict [(''phase'', PStr ''legacy_fee_cap_revalidation''),
     (''reason'', PStr ''requote_required:fee_cap_changed''), (''diagnostic'', ev_diagnostic ev e)]"

definition revalidate ::
  "exn_view \<Rightarrow> fee_env \<Rightarrow> broadcaster \<Rightarrow> string \<Rightarrow> position_row \<Rightarrow> tx_request \<Rightarrow> (journal exec, unit) action" where
  "revalidate ev env node url p t =
     handle
       (bind_act (bind_act (call_rpc node url ''eth_chainId'' []) (\<lambda>v. lift (quantity v))) (\<lambda>chain.
        if chain \<noteq> t_chain t then give ()
        else bind_act (on_log (plan env node default_fee_policy url t (p_wallet p) None None)) (\<lambda>_. give ())))
       (\<lambda>e. if is_deadline e then throw e
         else if is_fee_cap_changed ev e
         then use_journal (\<lambda>j. bind_result (save_checkpoint (p_id p) ''execution_failure'' (fee_cap_failure ev e) j)
           (\<lambda>k. Inr ((), k)))
         else give ())"

definition diagnose_legacy_fee_cap ::
  "exn_view \<Rightarrow> fee_env \<Rightarrow> broadcaster \<Rightarrow> nat \<Rightarrow> pydict list \<Rightarrow> (int \<times> string) list \<Rightarrow> (journal exec, unit) action" where
  "diagnose_legacy_fee_cap ev env node gid entries urls s =
     (let j = x_journal s; rows = group_rows j gid in
      case group j gid of
        Inl e \<Rightarrow> (Inl e, s)
      | Inr g \<Rightarrow>
          if group_unfit g entries \<or> entry_unfit (hd entries) rows then (Inr (), s)
          else let p = hd rows in
            (case bind_result (Weth.any_result (position_tests j g (hd entries) p)) (\<lambda>bad.
                if bad then Inr None
                else bind_result (prepared_request j (p_id p)) (\<lambda>v. case request_of v of
                    None \<Rightarrow> Inr None
                  | Some t \<Rightarrow> bind_result (request_unfit (g_chain g) urls t) (\<lambda>unfit.
                      Inr (if unfit then None else map_option (\<lambda>url. (url, t)) (map_of urls (t_chain t)))))) of
               Inl e \<Rightarrow> (Inl e, s)
             | Inr None \<Rightarrow> (Inr (), s)
             | Inr (Some (url, t)) \<Rightarrow> revalidate ev env node url p t s))"

section \<open>What it may do\<close>

lemma revalidate_reads:
  fixes ev env node url p t s
  defines "u \<equiv> snd (revalidate ev env node url p t s)"
  shows "sends (x_sent u) = sends (x_sent s)
    \<and> (x_journal u = x_journal s
      \<or> (\<exists>e x. is_fee_cap_changed ev e \<and> encode (fee_cap_failure ev e) = Inr x
          \<and> x_journal u = put_checkpoint (p_id p) ''execution_failure'' x (x_journal s)))"
proof -
  let ?m = "bind_act (bind_act (call_rpc node url ''eth_chainId'' []) (\<lambda>v. lift (quantity v))) (\<lambda>chain.
        if chain \<noteq> t_chain t then give ()
        else bind_act (on_log (plan env node default_fee_policy url t (p_wallet p) None None)) (\<lambda>_. give ()))"
  have log: "keeps (same_journal silent) (on_log (plan env node default_fee_policy url t (p_wallet p) None None))"
    using silently.keeps_plan [of env node default_fee_policy url t "p_wallet p" None None]
    by (auto simp: keeps_def on_log_def same_journal_def split: prod.split) (metis snd_conv)
  have "keeps (same_journal silent) ?m"
    by (intro silently.ex.keeps_bind_act silently.keeps_call silently.ex.keeps_pure_all silently.ex.keeps_if log)
      (simp add: send_method_def)
  moreover obtain r v where m: "?m s = (r, v)" by fastforce
  ultimately have v: "x_journal v = x_journal s" "sends (x_sent v) = sends (x_sent s)"
    unfolding keeps_def same_journal_def silent_def by (metis snd_conv)+
  show ?thesis
  proof (cases r)
    case (Inr x)
    then show ?thesis using v m unfolding u_def revalidate_def handle_def m by simp
  next
    case (Inl e)
    then show ?thesis using v unfolding u_def revalidate_def handle_def m
      by (auto simp: use_journal_def save_checkpoint_def split: sum.split)
  qed
qed

text \<open>
  The diagnosis sends nothing and changes nothing but one checkpoint, and that only of
  the one position of a halted group which is itself in review, has no step, and whose
  request, planned again, failed because its fee is above the cap.
\<close>

theorem diagnosis_writes_cause_only:
  fixes ev env node gid entries urls s
  defines "u \<equiv> snd (diagnose_legacy_fee_cap ev env node gid entries urls s)"
  shows "sends (x_sent u) = sends (x_sent s)
    \<and> (x_journal u = x_journal s
      \<or> (\<exists>g p e x. group (x_journal s) gid = Inr g \<and> g_state g = ''manual_review_group_halted''
          \<and> group_rows (x_journal s) gid = [p] \<and> p_state p = ''manual_review''
          \<and> \<not> list_ex (\<lambda>r. s_position r = p_id p) (steps (x_journal s))
          \<and> is_fee_cap_changed ev e \<and> encode (fee_cap_failure ev e) = Inr x
          \<and> x_journal u = put_checkpoint (p_id p) ''execution_failure'' x (x_journal s)))"
proof (cases "group (x_journal s) gid")
  case (Inl e)
  then show ?thesis by (simp add: u_def diagnose_legacy_fee_cap_def)
next
  case (Inr g)
  let ?j = "x_journal s" and ?rows = "group_rows (x_journal s) gid"
  show ?thesis
  proof (cases "group_unfit g entries \<or> entry_unfit (hd entries) ?rows")
    case True
    then show ?thesis using Inr by (simp add: u_def diagnose_legacy_fee_cap_def Let_def)
  next
    case False
    then have g: "g_state g = ''manual_review_group_halted''" "length ?rows = 1"
      by (auto simp: group_unfit_def entry_unfit_def)
    then obtain p where p: "?rows = [p]" by (cases ?rows) auto
    let ?c = "bind_result (Weth.any_result (position_tests ?j g (hd entries) p)) (\<lambda>bad.
                if bad then Inr None
                else bind_result (prepared_request ?j (p_id p)) (\<lambda>v. case request_of v of
                    None \<Rightarrow> Inr None
                  | Some t \<Rightarrow> bind_result (request_unfit (g_chain g) urls t) (\<lambda>unfit.
                      Inr (if unfit then None else map_option (\<lambda>url. (url, t)) (map_of urls (t_chain t))))))"
    have run: "u = snd (case ?c of Inl e \<Rightarrow> (Inl e, s) | Inr None \<Rightarrow> (Inr (), s)
        | Inr (Some (url, t)) \<Rightarrow> revalidate ev env node url p t s)"
      unfolding u_def diagnose_legacy_fee_cap_def using Inr False p by (simp add: Let_def)
    show ?thesis
    proof (cases "\<exists>url t. ?c = Inr (Some (url, t))")
      case True
      then obtain url t where c: "?c = Inr (Some (url, t))" by blast
      then have "Weth.any_result (position_tests ?j g (hd entries) p) = Inr False"
        by (auto split: if_splits)
      then have "p_state p = ''manual_review''" "\<not> list_ex (\<lambda>r. s_position r = p_id p) (steps ?j)"
        unfolding Weth.any_result_False by (simp_all add: position_tests_def)
      moreover have "u = snd (revalidate ev env node url p t s)" by (simp only: run c sum.case option.case prod.case)
      ultimately show ?thesis
        using revalidate_reads [of ev env node url p t s] Inr g(1) p by blast
    next
      case False
      have "u = s"
      proof (cases ?c)
        case (Inl e)
        then show ?thesis by (simp only: run sum.case snd_conv)
      next
        case (Inr x)
        with False have "x = None" by (cases x) auto
        with Inr show ?thesis by (simp only: run sum.case option.case snd_conv)
      qed
      then show ?thesis by simp
    qed
  qed
qed

end
