(* ===== verification/Lifi_Parse.thy ===== *)
theory Lifi_Parse
  imports Consolidation Route_Policy
begin

text \<open>
  The parser of LI.FI responses (\<open>lifi.py\<close>): amounts, addresses, token identities, the costs of a
  step and of the steps nested in it, the normalized evidence of every step, and the route made
  of them. The JSON reader and writer, SHA-256, the parser of ISO timestamps and the text of an
  exception are parameters; a document is its decoded value.
\<close>

section \<open>Parameters\<close>

record lifi_codec =
  lc_dumps :: "pyval \<Rightarrow> string"
  lc_loads :: "string \<Rightarrow> pyval result"
  lc_sha :: "string \<Rightarrow> string"
  lc_time :: "string \<Rightarrow> rat option"
  lc_describe :: "exn \<Rightarrow> string"

section \<open>Scalars\<close>

text \<open>\<open>except (KeyError, TypeError, ValueError)\<close>.\<close>

definition is_malformed :: "exn \<Rightarrow> bool" where
  "is_malformed e \<longleftrightarrow> e = KeyError \<or> e = TypeError \<or> is_value_error e"

definition required_integer :: "string \<Rightarrow> pyval \<Rightarrow> int result" where
  "required_integer field v =
     (let wrong = Inl (LifiError (''LI.FI '' @ field @ '' must be an integer'')) in
      case v of
        PInt i \<Rightarrow> Inr i
      | PStr s \<Rightarrow> (case parse_int s of None \<Rightarrow> wrong | Some i \<Rightarrow> Inr i)
      | _ \<Rightarrow> wrong)"

definition required_nonnegative :: "string \<Rightarrow> pyval \<Rightarrow> int result" where
  "required_nonnegative field v = bind_result (required_integer field v) (\<lambda>i.
     if i < 0 then Inl (LifiError (''LI.FI '' @ field @ '' must be non-negative'')) else Inr i)"

definition lifi_address :: "pyval \<Rightarrow> string result" where
  "lifi_address v = (case v of
      PStr s \<Rightarrow> if valid_address s then Inr (lower s) else Inl (ValueError ''invalid address'')
    | _ \<Rightarrow> Inl (ValueError ''invalid address''))"

text \<open>\<open>int(value[2:] or "0", 16)\<close>: the digits after the prefix, or nothing.\<close>

definition hex_data :: "pyval \<Rightarrow> string result" where
  "hex_data v = (case v of
      PStr s \<Rightarrow> if starts_with ''0x'' s \<and> (drop 2 s = [] \<or> int16_accepts (drop 2 s)) then Inr (lower s)
        else Inl (ValueError ''invalid calldata'')
    | _ \<Rightarrow> Inl (ValueError ''invalid calldata''))"

definition optional_price :: "pyval \<Rightarrow> string option result" where
  "optional_price v = (case v of
      PNone \<Rightarrow> Inr None | PStr s \<Rightarrow> Inr (Some s) | _ \<Rightarrow> Inl (ValueError ''LI.FI price value is malformed''))"

definition price_timestamp :: "pydict \<Rightarrow> string option result" where
  "price_timestamp d = optional_price (get_default d ''priceTimestamp'' (get d ''timestamp''))"

definition parse_timestamp :: "lifi_codec \<Rightarrow> string \<Rightarrow> rat result" where
  "parse_timestamp c t = (case lc_time c t of
      None \<Rightarrow> Inl (ValueError ''LI.FI price timestamp is invalid'') | Some x \<Rightarrow> Inr x)"

text \<open>\<open>a or b\<close> of texts: an empty text counts as nothing.\<close>

definition either_text :: "string option \<Rightarrow> string \<Rightarrow> string" where
  "either_text a b = (case a of Some (x # t) \<Rightarrow> x # t | _ \<Rightarrow> b)"

section \<open>Tokens and costs\<close>

definition token_address :: "int \<Rightarrow> pyval \<Rightarrow> pyval" where
  "token_address chain address = (case address of
      PStr s \<Rightarrow>
        let t = (if chain = 42220 then lifi_token_address 42220 s else s) in
        PStr (if lower t = zero_address then ''native'' else t)
    | v \<Rightarrow> v)"

definition identity_from_token :: "pyval \<Rightarrow> pyval \<Rightarrow> asset result" where
  "identity_from_token chain token = (case token of
      PDict t \<Rightarrow>
        bind_result (required_integer ''chain ID'' chain) (\<lambda>n.
        new_asset (PInt n) (token_address n (get t ''address'')) (get t ''decimals''))
    | _ \<Rightarrow> Inl (ValueError ''LI.FI token is malformed''))"

definition list_of :: "string \<Rightarrow> pyval \<Rightarrow> pyval list result" where
  "list_of why v = (case v of PList xs \<Rightarrow> Inr xs | _ \<Rightarrow> Inl (ValueError why))"

definition dict_of :: "exn \<Rightarrow> pyval \<Rightarrow> pydict result" where
  "dict_of why v = (case v of PDict d \<Rightarrow> Inr d | _ \<Rightarrow> Inl why)"

lemma dict_of_Inr [simp]: "dict_of why v = Inr d \<longleftrightarrow> v = PDict d"
  by (simp add: dict_of_def split: pyval.split)

definition gas_cost_of :: "pyval \<Rightarrow> gas_cost result" where
  "gas_cost_of v =
     bind_result (dict_of (ValueError ''LI.FI gas cost is malformed'') v) (\<lambda>cost.
     bind_result (dict_of (ValueError ''LI.FI gas cost token identity is missing'') (get cost ''token'')) (\<lambda>token.
     bind_result (bind_result (item v ''amount'') (required_nonnegative ''gas amount'')) (\<lambda>amount.
     bind_result (optional_price (get cost ''amountUSD'')) (\<lambda>usd.
     bind_result (identity_from_token (get token ''chainId'') (PDict token)) (\<lambda>asset.
     bind_result (optional_price (get cost ''priceUSD'')) (\<lambda>price.
     bind_result (price_timestamp cost) (\<lambda>time. Inr
       \<lparr>gc_amount = amount, gc_amount_usd = usd, gc_token = Some asset, gc_price_usd = price,
        gc_timestamp = time\<rparr>)))))))"

definition gas_costs_of :: "pyval \<Rightarrow> gas_cost list result" where
  "gas_costs_of v = bind_result (list_of ''LI.FI gas costs are malformed'' v) (map_results gas_cost_of)"

record fee_cost =
  lf_amount :: int
  lf_token :: asset
  lf_amount_usd :: "string option"
  lf_price_usd :: "string option"
  lf_timestamp :: "string option"
  lf_included :: "bool option"

definition included_flag :: "pyval \<Rightarrow> bool option result" where
  "included_flag v = (case v of
      PNone \<Rightarrow> Inr None | PBool b \<Rightarrow> Inr (Some b)
    | _ \<Rightarrow> Inl (LifiError ''LI.FI fee included flag is malformed''))"

definition fee_cost_of :: "pyval \<Rightarrow> fee_cost result" where
  "fee_cost_of v =
     bind_result (dict_of (ValueError ''LI.FI fee cost is malformed'') v) (\<lambda>cost.
     bind_result (dict_of (LifiError ''LI.FI fee cost token identity is malformed'') (get cost ''token'')) (\<lambda>token.
     bind_result (included_flag (get cost ''included'')) (\<lambda>included.
     bind_result (bind_result (item v ''amount'') (required_nonnegative ''fee amount'')) (\<lambda>amount.
     bind_result (identity_from_token (get token ''chainId'') (PDict token)) (\<lambda>asset.
     bind_result (optional_price (get cost ''amountUSD'')) (\<lambda>usd.
     bind_result (optional_price (get cost ''priceUSD'')) (\<lambda>price.
     bind_result (price_timestamp cost) (\<lambda>time. Inr
       \<lparr>lf_amount = amount, lf_token = asset, lf_amount_usd = usd, lf_price_usd = price,
        lf_timestamp = time, lf_included = included\<rparr>))))))))"

definition fee_costs_of :: "pyval \<Rightarrow> fee_cost list result" where
  "fee_costs_of v = bind_result (list_of ''LI.FI fee costs are malformed'' v) (map_results fee_cost_of)"

section \<open>Nested steps\<close>

definition nested_keys :: "string list" where
  "nested_keys = [''includedSteps'', ''steps'', ''substeps'']"

lemma entry_sizes:
  fixes d :: pydict
  shows "finite K \<Longrightarrow> (\<Sum>k\<in>K. case map_of d k of None \<Rightarrow> 0 | Some v \<Rightarrow> size v) \<le> size_list (size_prod (\<lambda>_. 0) size) d"
proof (induction d arbitrary: K)
  case (Cons x d)
  obtain k0 v0 where x: "x = (k0, v0)" by fastforce
  let ?f = "\<lambda>d k. case map_of d k of None \<Rightarrow> 0 | Some v \<Rightarrow> size (v :: pyval)"
  have "(\<Sum>k\<in>K. ?f (x # d) k) \<le> size v0 + (\<Sum>k\<in>K - {k0}. ?f d k)"
  proof (cases "k0 \<in> K")
    case True
    then have "(\<Sum>k\<in>K. ?f (x # d) k) = ?f (x # d) k0 + (\<Sum>k\<in>K - {k0}. ?f (x # d) k)"
      using Cons.prems by (simp add: sum.remove)
    also have "(\<Sum>k\<in>K - {k0}. ?f (x # d) k) = (\<Sum>k\<in>K - {k0}. ?f d k)"
      by (rule sum.cong) (auto simp: x)
    finally show ?thesis by (simp add: x)
  next
    case False
    then have "(\<Sum>k\<in>K. ?f (x # d) k) = (\<Sum>k\<in>K. ?f d k)" by (intro sum.cong) (auto simp: x)
    with False show ?thesis by simp
  qed
  also have "\<dots> \<le> size v0 + size_list (size_prod (\<lambda>_. 0) size) d"
    using Cons.IH [of "K - {k0}"] Cons.prems by simp
  finally show ?case by (simp add: x)
qed simp

text \<open>What a visit finds below a value: nested steps, and what stands in the place of a list.\<close>

datatype nested_item = Visit pyval | Malformed pyval

definition nested_group :: "pydict \<Rightarrow> string \<Rightarrow> nested_item list" where
  "nested_group s key = (case get s key of
      PNone \<Rightarrow> [] | PList xs \<Rightarrow> map Visit xs | v \<Rightarrow> [Malformed v])"

definition nested_items :: "pyval \<Rightarrow> nested_item list" where
  "nested_items v = (case v of PDict s \<Rightarrow> concat (map (nested_group s) nested_keys) | _ \<Rightarrow> [])"

fun item_size :: "nested_item \<Rightarrow> nat" where
  "item_size (Visit v) = Suc (size v)"
| "item_size (Malformed v) = 0"

definition items_size :: "nested_item list \<Rightarrow> nat" where
  "items_size items = sum_list (map item_size items)"

lemma group_sizes:
  "items_size (nested_group s key) \<le> (case map_of s key of None \<Rightarrow> 0 | Some v \<Rightarrow> size v)"
proof -
  have "sum_list (map (item_size \<circ> Visit) xs) = size_list size xs" for xs :: "pyval list"
    by (induction xs) simp_all
  then show ?thesis
    by (auto simp: items_size_def nested_group_def get_def get_default_def split: option.split pyval.split)
qed

lemma nested_size: "items_size (nested_items v) \<le> size v"
proof (cases "\<exists>s. v = PDict s")
  case True
  then obtain s where v: "v = PDict s" by blast
  have "items_size (nested_items v) = (\<Sum>k\<in>set nested_keys. items_size (nested_group s k))"
    by (simp add: items_size_def nested_items_def nested_keys_def v)
  also have "\<dots> \<le> (\<Sum>k\<in>set nested_keys. case map_of s k of None \<Rightarrow> 0 | Some v \<Rightarrow> size v)"
    by (rule sum_mono) (rule group_sizes)
  also have "\<dots> \<le> size_list (size_prod (\<lambda>_. 0) size) s" by (rule entry_sizes) simp
  finally show ?thesis by (simp add: v)
next
  case False
  then have "nested_items v = []" by (cases v) (simp_all add: nested_items_def)
  then show ?thesis by (simp add: items_size_def)
qed

text \<open>Every step in the order of the visits, with a list that is none as one item.\<close>

function flatten :: "nested_item list \<Rightarrow> nested_item list" where
  "flatten [] = []"
| "flatten (Malformed v # items) = Malformed v # flatten items"
| "flatten (Visit v # items) = Visit v # flatten (nested_items v) @ flatten items"
  by pat_completeness auto
termination
  by (relation "measures [items_size, length]") (use nested_size in \<open>auto simp: items_size_def le_imp_less_Suc trans_le_add1\<close>)

definition walk_steps :: "pydict list \<Rightarrow> pydict list" where
  "walk_steps tree = concat (map (\<lambda>i. case i of Visit (PDict d) \<Rightarrow> [d] | _ \<Rightarrow> [])
     (flatten (map (\<lambda>s. Visit (PDict s)) tree)))"

section \<open>Costs of a step and of the steps below it\<close>

definition estimate_of :: "pydict \<Rightarrow> pydict result" where
  "estimate_of s = dict_of (ValueError ''LI.FI route estimate is malformed'')
     (get_default s ''estimate'' (PDict []))"

definition costs_at :: "(pyval \<Rightarrow> 'c list result) \<Rightarrow> string \<Rightarrow> pydict \<Rightarrow> 'c list result" where
  "costs_at parser field s = bind_result (estimate_of s) (\<lambda>d. parser (get_default d field (PList [])))"

text \<open>\<open>_step_estimate_costs\<close>, with the steps nested at any depth.\<close>

definition step_estimate_costs :: "pydict list \<Rightarrow> (gas_cost list \<times> fee_cost list) result" where
  "step_estimate_costs tree =
     bind_result (map_results (\<lambda>s. bind_result (costs_at gas_costs_of ''gasCosts'' s) (\<lambda>g.
         bind_result (costs_at fee_costs_of ''feeCosts'' s) (\<lambda>f. Inr (g, f)))) (walk_steps tree))
       (\<lambda>costs. Inr (concat (map fst costs), concat (map snd costs)))"

definition total_of :: "('k \<times> int) list \<Rightarrow> 'k \<Rightarrow> int" where
  "total_of costs k = sum_list (map snd (filter (\<lambda>c. fst c = k) costs))"

text \<open>An aggregate covers its parts, token by token.\<close>

definition costs_cover :: "('k \<times> int) list \<Rightarrow> ('k \<times> int) list \<Rightarrow> bool" where
  "costs_cover parent children \<longleftrightarrow>
     list_all (\<lambda>k. total_of children k \<le> total_of parent k) (map fst children)"

definition dict_group :: "pydict \<Rightarrow> string \<Rightarrow> pydict list result" where
  "dict_group s key = (case get_default s key (PList []) of
      PList xs \<Rightarrow> map_results (dict_of (ValueError ''LI.FI nested cost steps are malformed'')) xs
    | _ \<Rightarrow> Inl (ValueError ''LI.FI nested cost steps are malformed''))"

fun cost_children :: "pydict \<Rightarrow> string list \<Rightarrow> pydict list \<Rightarrow> pydict list result" where
  "cost_children s [] found = Inr found"
| "cost_children s (k # ks) found = bind_result (dict_group s k) (\<lambda>g.
     if found \<noteq> [] \<and> g \<noteq> [] then Inl (ValueError ''LI.FI nested cost groups are ambiguous'')
     else cost_children s ks (found @ g))"

lemma map_results_dicts: "map_results (dict_of e) xs = Inr ds \<Longrightarrow> xs = map PDict ds"
  by (induction xs arbitrary: ds) (auto simp: dict_of_def split: pyval.splits)

definition dicts_size :: "pydict list \<Rightarrow> nat" where
  "dicts_size ds = size_list size (map PDict ds)"

lemma dicts_size_simps [simp]: "dicts_size [] = 0" "dicts_size (d # ds) = Suc (size (PDict d) + dicts_size ds)"
  by (simp_all add: dicts_size_def)

lemma member_size: "map_of s k = Some v \<Longrightarrow> size v \<le> size_list (size_prod (\<lambda>_. 0) size) s" for s :: pydict
  using entry_sizes [of "{k}" s] by simp

lemma dict_group_size: "dict_group s k = Inr ds \<Longrightarrow> dicts_size ds < size (PDict s)"
  using member_size [of s k]
  by (auto simp: dict_group_def get_default_def dicts_size_def dest!: map_results_dicts
      split: option.splits pyval.splits)

lemma cost_children_cases:
  "cost_children s ks found = Inr ds \<Longrightarrow> ds = found \<or> found = [] \<and> (\<exists>k \<in> set ks. dict_group s k = Inr ds)"
proof (induction ks arbitrary: found)
  case (Cons k ks)
  then obtain g where g: "dict_group s k = Inr g" "found = [] \<or> g = []" "cost_children s ks (found @ g) = Inr ds"
    by (auto split: if_splits)
  with Cons.IH [OF g(3)] show ?case by auto
qed simp

lemma cost_children_size: "cost_children s ks [] = Inr ds \<Longrightarrow> dicts_size ds < size (PDict s)"
  using cost_children_cases [of s ks "[]" ds] dict_group_size [of s _ ds] by auto

lemma bind_result_cong [fundef_cong]:
  "r = r' \<Longrightarrow> (\<And>x. r' = Inr x \<Longrightarrow> f x = g x) \<Longrightarrow> bind_result r f = bind_result r' g"
  by (cases r') simp_all

text \<open>The costs, and what is wrong with an aggregate that leaves nested costs out.\<close>

function hierarchical_costs ::
  "(pyval \<Rightarrow> 'c list result) \<Rightarrow> ('c \<Rightarrow> 'k \<times> int) \<Rightarrow> string \<Rightarrow> pydict list \<Rightarrow> ('c list \<times> string list) result" where
  "hierarchical_costs parser key field [] = Inr ([], [])"
| "hierarchical_costs parser key field (s # tree) =
     bind_result (costs_at parser field s) (\<lambda>parent.
     bind_result (cost_children s nested_keys []) (\<lambda>children.
     bind_result (hierarchical_costs parser key field children) (\<lambda>(below, why).
     bind_result (hierarchical_costs parser key field tree) (\<lambda>(costs, reasons). Inr
       ((if parent \<noteq> [] then parent else below) @ costs,
        why @ (if parent \<noteq> [] \<and> \<not> costs_cover (map key parent) (map key below)
               then [''step '' @ py_str (get_default s ''id'' (PStr ''?'')) @ '' '' @ field
                 @ '' aggregate omits nested costs''] else [])
          @ reasons)))))"
  by pat_completeness auto
termination
  by (relation "measure (\<lambda>(parser, key, field, tree). dicts_size tree)")
    (use cost_children_size in \<open>force simp: less_Suc_eq_le trans_less_add1\<close>)+

section \<open>Evidence of the steps\<close>

definition payload_sha :: "lifi_codec \<Rightarrow> pyval \<Rightarrow> string" where
  "payload_sha c v = lc_sha c (lc_dumps c v)"

definition invalid_step :: "lifi_codec \<Rightarrow> pyval \<Rightarrow> bool \<Rightarrow> string \<Rightarrow> step_evidence" where
  "invalid_step c v substep why =
     \<lparr>se_type = None, se_provider = None, se_source = None, se_destination = None, se_from = None,
      se_to = None, se_recipient = None, se_sha = payload_sha c v, se_source_price = None,
      se_destination_price = None, se_source_time = None, se_destination_time = None,
      se_substep = substep, se_error = Some why\<rparr>"

definition present_text :: "string \<Rightarrow> pyval \<Rightarrow> string result" where
  "present_text why v = (case v of
      PStr t \<Rightarrow> if strip t \<noteq> [] then Inr (lower (strip t)) else Inl (ValueError why)
    | _ \<Rightarrow> Inl (ValueError why))"

definition optional_of :: "(pyval \<Rightarrow> 'a result) \<Rightarrow> pyval \<Rightarrow> 'a option result" where
  "optional_of f v = (case v of PNone \<Rightarrow> Inr None | _ \<Rightarrow> bind_result (f v) (\<lambda>x. Inr (Some x)))"

text \<open>The identity at one end of an action: its chain and its token.\<close>

definition action_asset :: "pydict \<Rightarrow> string \<Rightarrow> string \<Rightarrow> asset result" where
  "action_asset action chain token =
     bind_result (item (PDict action) chain) (\<lambda>n. bind_result (item (PDict action) token) (identity_from_token n))"

definition token_dict :: "pydict \<Rightarrow> string \<Rightarrow> pydict result" where
  "token_dict action token = bind_result (item (PDict action) token) as_dict"

definition normalized_step :: "lifi_codec \<Rightarrow> bool \<Rightarrow> pydict \<Rightarrow> step_evidence result" where
  "normalized_step c substep s =
     bind_result (dict_of (ValueError ''action is missing'') (get s ''action'')) (\<lambda>action.
     bind_result (action_asset action ''fromChainId'' ''fromToken'') (\<lambda>source.
     bind_result (action_asset action ''toChainId'' ''toToken'') (\<lambda>destination.
     bind_result (bind_result (item (PDict action) ''fromAmount'') (required_nonnegative ''step input amount'')) (\<lambda>amount.
     bind_result (present_text ''step type is missing'' (get s ''type'')) (\<lambda>kind.
     bind_result (present_text ''provider is missing'' (get s ''tool'')) (\<lambda>provider.
     bind_result (dict_of (ValueError ''estimate is malformed'') (get_default s ''estimate'' (PDict []))) (\<lambda>estimate.
     bind_result (optional_of (required_nonnegative ''step output amount'') (get estimate ''toAmount'')) (\<lambda>output.
     bind_result (optional_of lifi_address (get action ''toAddress'')) (\<lambda>recipient.
     bind_result (token_dict action ''fromToken'') (\<lambda>from_token.
     bind_result (optional_price (get from_token ''priceUSD'')) (\<lambda>source_price.
     bind_result (token_dict action ''toToken'') (\<lambda>to_token.
     bind_result (optional_price (get to_token ''priceUSD'')) (\<lambda>destination_price.
     bind_result (price_timestamp from_token) (\<lambda>source_time.
     bind_result (price_timestamp to_token) (\<lambda>destination_time. Inr
       \<lparr>se_type = Some kind, se_provider = Some provider, se_source = Some source,
        se_destination = Some destination, se_from = Some amount, se_to = output,
        se_recipient = recipient, se_sha = payload_sha c (PDict s), se_source_price = source_price,
        se_destination_price = destination_price, se_source_time = source_time,
        se_destination_time = destination_time, se_substep = substep, se_error = None\<rparr>)))))))))))))))"

definition visited :: "lifi_codec \<Rightarrow> bool \<Rightarrow> nested_item \<Rightarrow> step_evidence result" where
  "visited c substep i = (case i of
      Visit (PDict s) \<Rightarrow> (case normalized_step c substep s of
          Inr e \<Rightarrow> Inr e
        | Inl e \<Rightarrow> if is_malformed e then Inr (invalid_step c (PDict s) substep (lc_describe c e)) else Inl e)
    | Visit v \<Rightarrow> Inr (invalid_step c v substep ''step is malformed'')
    | Malformed v \<Rightarrow> Inr (invalid_step c v True ''substeps are malformed''))"

text \<open>A step of the route, then everything below it as substeps.\<close>

definition visits_of :: "pydict \<Rightarrow> (bool \<times> nested_item) list" where
  "visits_of s = (False, Visit (PDict s)) # map (Pair True) (flatten (nested_items (PDict s)))"

definition normalize_steps :: "lifi_codec \<Rightarrow> pydict list \<Rightarrow> step_evidence list result" where
  "normalize_steps c tree = map_results (\<lambda>(substep, i). visited c substep i) (concat (map visits_of tree))"

section \<open>Prices\<close>

definition new_price :: "lifi_codec \<Rightarrow> asset \<Rightarrow> string option \<Rightarrow> string \<Rightarrow> price_evidence result" where
  "new_price c a price time = bind_result (parse_timestamp c time) (\<lambda>_. Inr
     \<lparr>pe_asset = a, pe_price = price, pe_timestamp = time, pe_source = ''lifi'', pe_reported = None\<rparr>)"

definition priced_end ::
  "lifi_codec \<Rightarrow> string \<Rightarrow> asset option \<Rightarrow> string option \<Rightarrow> string option \<Rightarrow> price_evidence list result" where
  "priced_end c now a price time = (case (a, price) of
      (Some x, Some p) \<Rightarrow> bind_result (new_price c x (Some p) (either_text time now)) (\<lambda>e. Inr [e])
    | _ \<Rightarrow> Inr [])"

definition step_prices :: "lifi_codec \<Rightarrow> string \<Rightarrow> step_evidence \<Rightarrow> price_evidence list result" where
  "step_prices c now e =
     bind_result (priced_end c now (se_source e) (se_source_price e) (se_source_time e)) (\<lambda>a.
     bind_result (priced_end c now (se_destination e) (se_destination_price e) (se_destination_time e)) (\<lambda>b.
     Inr (a @ b)))"

definition endpoint_price ::
  "lifi_codec \<Rightarrow> string \<Rightarrow> pydict \<Rightarrow> asset option \<Rightarrow> string \<Rightarrow> price_evidence list result" where
  "endpoint_price c now route a key = (case a of
      None \<Rightarrow> Inr []
    | Some x \<Rightarrow>
        bind_result (optional_price (get route key)) (\<lambda>p.
        bind_result (price_timestamp route) (\<lambda>t.
        bind_result (new_price c x p (either_text t now)) (\<lambda>e. Inr [e]))))"

definition cost_price ::
  "lifi_codec \<Rightarrow> string \<Rightarrow> asset option \<times> string option \<times> string option \<Rightarrow> price_evidence list result" where
  "cost_price c now x = (case x of (token, price, time) \<Rightarrow> (case token of
      None \<Rightarrow> Inr []
    | Some a \<Rightarrow> bind_result (new_price c a price (either_text time now)) (\<lambda>e. Inr [e])))"

definition gas_quote :: "gas_cost \<Rightarrow> asset option \<times> string option \<times> string option" where
  "gas_quote g = (gc_token g, gc_price_usd g, gc_timestamp g)"

definition fee_quoted :: "fee_cost \<Rightarrow> asset option \<times> string option \<times> string option" where
  "fee_quoted f = (Some (lf_token f), lf_price_usd f, lf_timestamp f)"

definition route_prices ::
  "lifi_codec \<Rightarrow> string \<Rightarrow> pydict \<Rightarrow> step_evidence list \<Rightarrow> step_evidence list \<Rightarrow> gas_cost list \<Rightarrow> fee_cost list
     \<Rightarrow> price_evidence list result" where
  "route_prices c now route normal main gas fees =
     bind_result (map_results (step_prices c now) normal) (\<lambda>a.
     bind_result (endpoint_price c now route (se_source (hd main)) ''fromTokenPriceUSD'') (\<lambda>b.
     bind_result (endpoint_price c now route (se_destination (last main)) ''toTokenPriceUSD'') (\<lambda>d.
     bind_result (map_results (cost_price c now) (map gas_quote gas @ map fee_quoted fees)) (\<lambda>e.
     Inr (concat a @ b @ d @ concat e)))))"

section \<open>The route\<close>

record bridge_action =
  la_provider :: string
  la_source :: asset
  la_destination :: asset
  la_from :: int
  la_recipient :: "string option"
  la_raw :: pydict

record bridge_route = lifi_route +
  lx_fees :: "fee_cost list"
  lx_tools :: "string list"
  lx_action :: "bridge_action option"
  lx_raw :: "pydict list"
  lx_source_price :: "string option"
  lx_destination_price :: "string option"
  lx_time :: "string option"

text \<open>\<open>first_step\<close> is the first of the raw steps.\<close>

definition first_step :: "bridge_route \<Rightarrow> pydict" where
  "first_step r = hd (lx_raw r)"

definition action_of_step :: "pydict \<Rightarrow> bridge_action result" where
  "action_of_step s =
     bind_result (dict_of (ValueError ''LI.FI route action is malformed'') (get s ''action'')) (\<lambda>action.
     bind_result (present_text ''LI.FI route provider is missing'' (get s ''tool'')) (\<lambda>provider.
     case bind_result (action_asset action ''fromChainId'' ''fromToken'') (\<lambda>source.
       bind_result (action_asset action ''toChainId'' ''toToken'') (\<lambda>destination.
       bind_result (bind_result (item (PDict action) ''fromAmount'') (required_integer ''step amount'')) (\<lambda>amount.
       bind_result (optional_of lifi_address (get action ''toAddress'')) (\<lambda>recipient. Inr
         \<lparr>la_provider = provider, la_source = source, la_destination = destination, la_from = amount,
          la_recipient = recipient, la_raw = s\<rparr>)))) of
       Inr a \<Rightarrow> Inr a
     | Inl e \<Rightarrow> Inl (if is_malformed e then ValueError ''LI.FI route action is malformed'' else e)))"

text \<open>\<open>except ValueError: action = None\<close>.\<close>

definition optional_action :: "pydict \<Rightarrow> bridge_action option result" where
  "optional_action s = (case action_of_step s of
      Inr a \<Rightarrow> Inr (Some a) | Inl e \<Rightarrow> if is_value_error e then Inr None else Inl e)"

definition steps_of_route :: "pydict \<Rightarrow> pydict list result" where
  "steps_of_route route = (case get_default route ''steps'' (PList []) of
      PList (x # xs) \<Rightarrow> map_results (dict_of (ValueError ''LI.FI route has no executable step'')) (x # xs)
    | _ \<Rightarrow> Inl (ValueError ''LI.FI route has no executable step''))"

definition given_costs :: "(pyval \<Rightarrow> 'c list result) \<Rightarrow> pydict \<Rightarrow> string \<Rightarrow> 'c list result" where
  "given_costs parser route key = (case map_of route key of None \<Rightarrow> Inr [] | Some v \<Rightarrow> parser v)"

definition gas_key :: "gas_cost \<Rightarrow> asset option \<times> int" where
  "gas_key g = (gc_token g, gc_amount g)"

definition fee_key :: "fee_cost \<Rightarrow> asset option \<times> int" where
  "fee_key f = (Some (lf_token f), lf_amount f)"

definition aggregate_gap ::
  "('c \<Rightarrow> asset option \<times> int) \<Rightarrow> 'c list \<Rightarrow> 'c list \<Rightarrow> string \<Rightarrow> string list" where
  "aggregate_gap key whole parts label =
     (if whole \<noteq> [] \<and> \<not> costs_cover (map key whole) (map key parts)
      then [''route '' @ label @ '' aggregate omits step costs''] else [])"

record route_costs =
  lk_gas :: "gas_cost list"
  lk_fees :: "fee_cost list"
  lk_gaps :: "string list"
  lk_all_gas :: "gas_cost list"
  lk_all_fees :: "fee_cost list"

text \<open>The costs that count, what their aggregates omit, and all costs that carry a price.\<close>

definition costs_of_route :: "pydict \<Rightarrow> pydict list \<Rightarrow> route_costs result" where
  "costs_of_route route tree =
     bind_result (step_estimate_costs tree) (\<lambda>(step_gas, step_fees).
     bind_result (given_costs gas_costs_of route ''gasCosts'') (\<lambda>root_gas.
     bind_result (given_costs fee_costs_of route ''feeCosts'') (\<lambda>root_fees.
     bind_result (hierarchical_costs gas_costs_of gas_key ''gasCosts'' tree) (\<lambda>(gas, gas_why).
     bind_result (hierarchical_costs fee_costs_of fee_key ''feeCosts'' tree) (\<lambda>(fees, fee_why). Inr
       \<lparr>lk_gas = (if root_gas \<noteq> [] then root_gas else gas),
        lk_fees = (if root_fees \<noteq> [] then root_fees else fees),
        lk_gaps = gas_why @ fee_why @ aggregate_gap gas_key root_gas gas ''gas''
          @ aggregate_gap fee_key root_fees fees ''fee'',
        lk_all_gas = step_gas @ root_gas, lk_all_fees = step_fees @ root_fees\<rparr>)))))"

definition amounts_of_route :: "pydict \<Rightarrow> (string \<times> int \<times> int \<times> int) result" where
  "amounts_of_route route =
     bind_result (item (PDict route) ''id'') (\<lambda>i.
     bind_result (case i of PStr t \<Rightarrow> if strip t \<noteq> [] then Inr t else Inl (ValueError ''LI.FI route ID is required'')
         | _ \<Rightarrow> Inl (ValueError ''LI.FI route ID is required'')) (\<lambda>rid.
     bind_result (bind_result (item (PDict route) ''fromAmount'') (required_integer ''route amount'')) (\<lambda>from.
     bind_result (bind_result (item (PDict route) ''toAmount'') (required_nonnegative ''route output amount'')) (\<lambda>out.
     bind_result (bind_result (item (PDict route) ''toAmountMin'') (required_nonnegative ''route minimum output'')) (\<lambda>least.
     if out < least then Inl (LifiError ''LI.FI route minimum output cannot exceed quoted output'')
     else Inr (rid, from, out, least))))))"

definition has_error :: "step_evidence \<Rightarrow> bool" where
  "has_error e \<longleftrightarrow> (case se_error e of Some (_ # _) \<Rightarrow> True | _ \<Rightarrow> False)"

definition top_level_steps :: "step_evidence list \<Rightarrow> step_evidence list" where
  "top_level_steps es = filter (\<lambda>e. \<not> se_substep e) es"

text \<open>The evidence of the steps, and of those at the top that have an identity.\<close>

definition evidence_of_steps ::
  "lifi_codec \<Rightarrow> pydict list \<Rightarrow> (step_evidence list \<times> step_evidence list \<times> step_evidence list) result" where
  "evidence_of_steps c tree =
     bind_result (normalize_steps c tree) (\<lambda>es.
     let normal = filter (\<lambda>e. se_source e \<noteq> None) es; main = top_level_steps normal;
         wrong = filter has_error (top_level_steps es) in
     if top_level_steps es = [] \<or> wrong \<noteq> []
     then Inl (LifiError (''LI.FI route has an unnormalizable executable step: ''
       @ (case wrong of [] \<Rightarrow> ''step is malformed'' | e # _ \<Rightarrow> the (se_error e))))
     else if main = [] \<or> se_destination (last main) = None
     then Inl (ValueError ''LI.FI route endpoints are missing'')
     else Inr (es, normal, main))"

definition stamp_gas :: "string \<Rightarrow> gas_cost \<Rightarrow> gas_cost" where
  "stamp_gas now g = g\<lparr>gc_timestamp := Some (either_text (gc_timestamp g) now)\<rparr>"

definition stamp_fee :: "string \<Rightarrow> fee_cost \<Rightarrow> fee_cost" where
  "stamp_fee now f = f\<lparr>lf_timestamp := Some (either_text (lf_timestamp f) now)\<rparr>"

text \<open>\<open>LifiRouteEvidence\<close> checks its time when it is made.\<close>

definition new_evidence :: "lifi_codec \<Rightarrow> route_evidence \<Rightarrow> route_evidence result" where
  "new_evidence c e = bind_result (parse_timestamp c (re_timestamp e)) (\<lambda>_. Inr e)"

definition read_route :: "lifi_codec \<Rightarrow> string \<Rightarrow> pydict \<Rightarrow> bridge_route result" where
  "read_route c now route =
     bind_result (steps_of_route route) (\<lambda>tree.
     bind_result (optional_action (hd tree)) (\<lambda>action.
     bind_result (costs_of_route route tree) (\<lambda>k.
     bind_result (amounts_of_route route) (\<lambda>(rid, from, out, least).
     bind_result (evidence_of_steps c tree) (\<lambda>(es, normal, main).
     bind_result (price_timestamp route) (\<lambda>time.
     bind_result (route_prices c now route normal main (lk_all_gas k) (lk_all_fees k)) (\<lambda>prices.
     let text = lc_dumps c (PDict route) in
     bind_result (new_evidence c
       \<lparr>re_route_id = rid, re_steps = es, re_source = the (se_source (hd main)),
        re_destination = the (se_destination (last main)), re_input = from, re_output = out,
        re_min_output = least, re_recipient = se_recipient (last main), re_timestamp = now,
        re_prices = prices, re_sha = lc_sha c text, re_payload = text,
        re_costs_complete = (lk_gaps k = []),
        re_costs_reason = (case join_texts ''; '' (lk_gaps k) of [] \<Rightarrow> None | t \<Rightarrow> Some t)\<rparr>) (\<lambda>evidence.
     bind_result (optional_price (get route ''fromTokenPriceUSD'')) (\<lambda>source_price.
     bind_result (optional_price (get route ''toTokenPriceUSD'')) (\<lambda>destination_price. Inr
       \<lparr>lr_id = rid, lr_from = from, lr_to = out, lr_to_min = least,
        lr_gas = map (stamp_gas now) (lk_gas k), lr_evidence = Some evidence,
        lx_fees = map (stamp_fee now) (lk_fees k),
        lx_tools = concat (map (\<lambda>s. case get s ''tool'' of PStr t \<Rightarrow> [t] | _ \<Rightarrow> []) tree),
        lx_action = action, lx_raw = tree, lx_source_price = source_price,
        lx_destination_price = destination_price, lx_time = Some (either_text time now)\<rparr>))))))))))"

text \<open>\<open>quote_timestamp or _utc_timestamp()\<close>: the time of the clock is an argument.\<close>

definition route_from_dict :: "lifi_codec \<Rightarrow> string option \<Rightarrow> string \<Rightarrow> pyval \<Rightarrow> bridge_route result" where
  "route_from_dict c quoted clock v = (case v of
      PDict route \<Rightarrow> (case read_route c (either_text quoted clock) route of
          Inr r \<Rightarrow> Inr r
        | Inl e \<Rightarrow> Inl (if is_malformed e then LifiError (''LI.FI route is malformed: '' @ lc_describe c e) else e))
    | _ \<Rightarrow> Inl (LifiError ''LI.FI route is invalid''))"

end
