(* ===== verification/Lifi_Validation.thy ===== *)
theory Lifi_Validation
  imports Lifi_Parse
begin

text \<open>
  The check of a saved route right before it is used (\<open>validate_bridge_route\<close> of \<open>lifi.py\<close>): its
  evidence must be what its own canonical payload gives, prices of gas apart that were missing
  there; its steps must lead from the approved source and amount to the approved destination
  and recipient, and the steps nested in a step must do so for that step.
\<close>

section \<open>The tree of nested steps\<close>

text \<open>Source, destination, input and output of a nested step.\<close>

type_synonym step_facts = "asset \<times> asset \<times> int \<times> int option"

definition facts_of :: "pydict \<Rightarrow> step_facts result" where
  "facts_of s =
     (case (get s ''action'', get_default s ''estimate'' (PDict [])) of
        (PDict action, PDict estimate) \<Rightarrow>
          bind_result (action_asset action ''fromChainId'' ''fromToken'') (\<lambda>source.
          bind_result (action_asset action ''toChainId'' ''toToken'') (\<lambda>destination.
          bind_result (bind_result (item (PDict action) ''fromAmount'') (required_nonnegative ''nested step input amount'')) (\<lambda>amount.
          bind_result (optional_of (required_nonnegative ''nested step output amount'') (get estimate ''toAmount'')) (\<lambda>out.
          Inr (source, destination, amount, out)))))
      | _ \<Rightarrow> Inl (ValueError ''LI.FI nested step cannot be normalized''))"

definition tree_group :: "pydict \<Rightarrow> string \<Rightarrow> pyval list result" where
  "tree_group s key = (case get s key of
      PNone \<Rightarrow> Inr [] | PList xs \<Rightarrow> Inr xs | _ \<Rightarrow> Inl (ValueError ''LI.FI nested step list is malformed''))"

definition tree_children :: "pydict \<Rightarrow> pydict list result" where
  "tree_children s =
     bind_result (map_results (tree_group s) nested_keys) (\<lambda>groups.
     case filter (\<lambda>g. g \<noteq> []) groups of
       [] \<Rightarrow> Inr []
     | [g] \<Rightarrow> map_results (dict_of (ValueError ''LI.FI nested step cannot be normalized'')) g
     | _ \<Rightarrow> Inl (ValueError ''LI.FI nested step groups are ambiguous''))"

fun check_links :: "step_facts list \<Rightarrow> unit result" where
  "check_links ((_, d, _, out) # (s, d', i, out') # fs) =
     (if d \<noteq> s then Inl (ValueError ''LI.FI nested step identity continuity does not match'')
      else if out = None \<or> Some i \<noteq> out then Inl (ValueError ''LI.FI nested step amount continuity does not match'')
      else check_links ((s, d', i, out') # fs))"
| "check_links _ = Inr ()"

definition check_children :: "step_facts \<Rightarrow> step_facts list \<Rightarrow> unit result" where
  "check_children parent fs = (case (parent, fs) of
      (_, []) \<Rightarrow> Inr ()
    | ((source, destination, amount, out), (s, _, i, _) # _) \<Rightarrow>
        if s \<noteq> source \<or> i \<noteq> amount then Inl (ValueError ''LI.FI nested step input does not match parent'')
        else bind_result (check_links fs) (\<lambda>_. case last fs of (_, d, _, o') \<Rightarrow>
          if d \<noteq> destination then Inl (ValueError ''LI.FI nested step endpoint does not match parent'')
          else if out \<noteq> None \<and> o' \<noteq> out then Inl (ValueError ''LI.FI nested step output does not match parent'')
          else Inr ()))"

lemma tree_children_size: "tree_children s = Inr ds \<Longrightarrow> dicts_size ds < size (PDict s)"
proof -
  assume a: "tree_children s = Inr ds"
  then obtain groups where g: "map_results (tree_group s) nested_keys = Inr groups"
    and c: "(case filter (\<lambda>g. g \<noteq> []) groups of
       [] \<Rightarrow> Inr []
     | [g] \<Rightarrow> map_results (dict_of (ValueError ''LI.FI nested step cannot be normalized'')) g
     | _ \<Rightarrow> Inl (ValueError ''LI.FI nested step groups are ambiguous'')) = Inr ds"
    by (auto simp: tree_children_def)
  have small: "size_list size g < size (PDict s)" if "g \<in> set groups" for g
  proof -
    from g that obtain k where "tree_group s k = Inr g" by (auto simp: nested_keys_def)
    then show ?thesis using member_size [of s k]
      by (auto simp: tree_group_def get_def get_default_def split: option.splits pyval.splits)
  qed
  show ?thesis
  proof (cases "ds = []")
    case False
    then obtain g where "filter (\<lambda>g. g \<noteq> []) groups = [g]" "g = map PDict ds"
      using c by (auto split: list.splits dest!: map_results_dicts)
    then have "g \<in> set (filter (\<lambda>g. g \<noteq> []) groups)" by (metis list.set_intros(1))
    then have "g \<in> set groups" by simp
    then show ?thesis using small [of "map PDict ds"] \<open>g = map PDict ds\<close> by (simp add: dicts_size_def)
  qed simp
qed

function validate_tree :: "pydict list \<Rightarrow> unit result" where
  "validate_tree [] = Inr ()"
| "validate_tree (s # tree) =
     bind_result (facts_of s) (\<lambda>parent.
     bind_result (tree_children s) (\<lambda>children.
     bind_result (bind_result (map_results facts_of children) (check_children parent)) (\<lambda>_.
     bind_result (validate_tree children) (\<lambda>_. validate_tree tree))))"
  by pat_completeness auto
termination
  by (relation "measure dicts_size") (use tree_children_size in \<open>force simp: less_Suc_eq_le trans_less_add1\<close>)+

section \<open>Integrity of the evidence\<close>

definition broken :: "string \<Rightarrow> exn" where
  "broken why = LifiError (''LI.FI route evidence integrity failed: '' @ why)"

text \<open>\<open>payload\<close> is the decoded text, when it is the canonical one and has the recorded digest.\<close>

definition canonical_payload :: "lifi_codec \<Rightarrow> route_evidence \<Rightarrow> pydict result" where
  "canonical_payload c e =
     bind_result (lc_loads c (re_payload e)) (\<lambda>v.
     bind_result (dict_of (ValueError ''canonical payload is not an object'') v) (\<lambda>payload.
     if lc_dumps c (PDict payload) \<noteq> re_payload e then Inl (ValueError ''canonical payload encoding changed'')
     else if lc_sha c (re_payload e) \<noteq> re_sha e
     then Inl (ValueError ''payload fingerprint does not match canonical payload'')
     else Inr payload))"

definition expected_route :: "lifi_codec \<Rightarrow> string \<Rightarrow> route_evidence \<Rightarrow> bridge_route result" where
  "expected_route c clock e =
     (case bind_result (canonical_payload c e) (\<lambda>p. route_from_dict c (Some (re_timestamp e)) clock (PDict p)) of
        Inr x \<Rightarrow> Inr x
      | Inl x \<Rightarrow> Inl (if is_malformed x then broken (lc_describe c x) else x))"

definition same_action :: "bridge_action option \<Rightarrow> bridge_action option \<Rightarrow> bool" where
  "same_action a b = (case (a, b) of
      (None, None) \<Rightarrow> True
    | (Some x, Some y) \<Rightarrow> x\<lparr>la_raw := []\<rparr> = y\<lparr>la_raw := []\<rparr> \<and> py_eq (PDict (la_raw x)) (PDict (la_raw y))
    | _ \<Rightarrow> False)"

definition same_raw :: "pydict list \<Rightarrow> pydict list \<Rightarrow> bool" where
  "same_raw a b \<longleftrightarrow> py_eq (PTuple (map PDict a)) (PTuple (map PDict b))"

definition same_fields :: "bridge_route \<Rightarrow> bridge_route \<Rightarrow> bool" where
  "same_fields r x \<longleftrightarrow> lr_id r = lr_id x \<and> lr_from r = lr_from x \<and> lr_to r = lr_to x
     \<and> lr_to_min r = lr_to_min x \<and> same_raw (lx_raw r) (lx_raw x) \<and> lx_tools r = lx_tools x
     \<and> same_action (lx_action r) (lx_action x) \<and> lx_fees r = lx_fees x
     \<and> lx_source_price r = lx_source_price x \<and> lx_destination_price r = lx_destination_price x
     \<and> lx_time r = lx_time x"

definition same_evidence :: "route_evidence \<Rightarrow> route_evidence \<Rightarrow> bool" where
  "same_evidence e x \<longleftrightarrow> e\<lparr>re_prices := [], re_timestamp := []\<rparr> = x\<lparr>re_prices := [], re_timestamp := []\<rparr>"

definition same_cost :: "gas_cost \<Rightarrow> gas_cost \<Rightarrow> bool" where
  "same_cost a x \<longleftrightarrow> gc_amount a = gc_amount x \<and> gc_amount_usd a = gc_amount_usd x \<and> gc_token a = gc_token x"

text \<open>A price that was added belongs to a gas cost whose price was missing.\<close>

definition allowed_price :: "gas_cost list \<Rightarrow> gas_cost list \<Rightarrow> price_evidence \<Rightarrow> bool" where
  "allowed_price expected actual p \<longleftrightarrow> list_ex (\<lambda>(x, a). gc_token x = Some (pe_asset p) \<and> gc_price_usd x = None
     \<and> gc_price_usd a = pe_price p \<and> gc_timestamp a = Some (pe_timestamp p)) (zip expected actual)"

definition proven_price :: "price_evidence list \<Rightarrow> gas_cost \<Rightarrow> bool" where
  "proven_price prices a \<longleftrightarrow> list_ex (\<lambda>p. Some (pe_asset p) = gc_token a \<and> pe_price p = gc_price_usd a
     \<and> Some (pe_timestamp p) = gc_timestamp a) prices"

definition check_gas :: "price_evidence list \<Rightarrow> gas_cost \<times> gas_cost \<Rightarrow> unit result" where
  "check_gas prices xa = (case xa of (x, a) \<Rightarrow>
     if \<not> same_cost a x then Inl (broken ''gas cost identity changed'')
     else if gc_price_usd x \<noteq> None then
       require (gc_price_usd a = gc_price_usd x \<and> gc_timestamp a = gc_timestamp x) (broken ''gas quote changed'')
     else if gc_price_usd a = None then
       require (gc_timestamp a = gc_timestamp x) (broken ''gas timestamp changed'')
     else require (proven_price prices a) (broken ''gas price is unproven''))"

definition route_integrity :: "lifi_codec \<Rightarrow> string \<Rightarrow> bridge_route \<Rightarrow> unit result" where
  "route_integrity c clock r = (case lr_evidence r of
      None \<Rightarrow> Inl (broken ''evidence is missing'')
    | Some e \<Rightarrow> bind_result (expected_route c clock e) (\<lambda>x. case lr_evidence x of
          None \<Rightarrow> Inl (broken ''parsed evidence is missing'')
        | Some xe \<Rightarrow>
            let known = length (re_prices xe) in
            if \<not> same_fields r x \<or> \<not> py_eq (PDict (first_step r)) (PDict (first_step x))
            then Inl (broken ''route fields changed'')
            else if \<not> same_evidence e xe then Inl (broken ''normalized evidence changed'')
            else if length (lr_gas r) \<noteq> length (lr_gas x) then Inl (broken ''gas costs changed'')
            else if take known (re_prices e) \<noteq> re_prices xe then Inl (broken ''quote prices changed'')
            else if \<not> list_all (allowed_price (lr_gas x) (lr_gas r)) (drop known (re_prices e))
            then Inl (broken ''unexpected price added'')
            else check_each (check_gas (re_prices e)) (zip (lr_gas x) (lr_gas r))))"

section \<open>The route against the approved transfer\<close>

fun check_flow :: "step_evidence list \<Rightarrow> unit result" where
  "check_flow (a # b # es) =
     (if se_destination a \<noteq> se_source b then Inl (ValueError ''LI.FI route step identity continuity does not match'')
      else if se_to a = None \<or> se_from b \<noteq> se_to a
      then Inl (ValueError ''LI.FI route step amount continuity does not match'')
      else check_flow (b # es))"
| "check_flow _ = Inr ()"

text \<open>The steps of the payload, which the integrity check has found to be dicts.\<close>

definition payload_tree :: "lifi_codec \<Rightarrow> route_evidence \<Rightarrow> pydict list result" where
  "payload_tree c e = bind_result (lc_loads c (re_payload e)) (\<lambda>v.
     bind_result (item v ''steps'') (\<lambda>s. bind_result (elements s) (map_results as_dict)))"

definition check_ends ::
  "bridge_route \<Rightarrow> route_evidence \<Rightarrow> step_evidence list \<Rightarrow> asset \<Rightarrow> asset \<Rightarrow> string \<Rightarrow> int \<Rightarrow> unit result" where
  "check_ends r e main source destination recipient amount =
     (let final = last main in
      if se_destination final \<noteq> Some (re_destination e)
      then Inl (ValueError ''LI.FI route final endpoint does not match top-level step'')
      else if se_recipient final \<noteq> re_recipient e
      then Inl (ValueError ''LI.FI route final recipient does not match top-level step'')
      else if se_to final \<noteq> None \<and> se_to final \<noteq> Some (re_output e)
      then Inl (ValueError ''LI.FI route output amount does not match final top-level step'')
      else if re_source e \<noteq> source \<or> re_destination e \<noteq> destination
      then Inl (ValueError ''LI.FI route source identity or destination identity does not match expectation'')
      else if re_input e \<noteq> amount \<or> lr_from r \<noteq> amount \<or> se_from (hd main) \<noteq> Some amount
      then Inl (ValueError ''LI.FI route amount does not match persisted input amount'')
      else (case re_recipient e of
          None \<Rightarrow> Inl (ValueError ''LI.FI route final transfer recipient is missing'')
        | Some a \<Rightarrow> bind_result (lifi_address (PStr recipient)) (\<lambda>expected.
            require (a = expected) (ValueError ''LI.FI route final transfer recipient does not match recipient''))))"

definition validate_bridge_route ::
  "lifi_codec \<Rightarrow> string \<Rightarrow> asset \<Rightarrow> asset \<Rightarrow> string \<Rightarrow> int \<Rightarrow> string option \<Rightarrow> bridge_route \<Rightarrow> unit result" where
  "validate_bridge_route c clock source destination recipient amount rid r =
     (if rid \<noteq> None \<and> rid \<noteq> Some (lr_id r) then Inl (ValueError ''LI.FI route ID does not match persisted route'')
      else bind_result (route_integrity c clock r) (\<lambda>_. case lr_evidence r of
        None \<Rightarrow> Inl (ValueError ''LI.FI route evidence is missing'')
      | Some e \<Rightarrow>
          let es = re_steps e; main = top_level_steps es in
          if es = [] then Inl (ValueError ''LI.FI route evidence is missing'')
          else if list_ex has_error es then Inl (ValueError
            (if list_ex (\<lambda>x. se_substep x \<and> has_error x) es then ''LI.FI route contains unnormalizable substeps''
             else ''LI.FI route contains an unnormalizable executable step''))
          else if main = [] then Inl (ValueError ''LI.FI route has no top-level executable steps'')
          else bind_result (bind_result (payload_tree c e) validate_tree) (\<lambda>_.
            bind_result (check_flow main) (\<lambda>_. check_ends r e main source destination recipient amount))))"

end
