(* ===== verification/Lifi_Properties.thy ===== *)
theory Lifi_Properties
  imports Lifi_Validation
begin

text \<open>
  What a validated route promises: it is the one of its canonical payload, its steps lead from
  the approved source to the approved recipient, and so do the steps nested at any depth.
\<close>

section \<open>Evidence read from a payload\<close>

definition well_read :: "step_evidence \<Rightarrow> bool" where
  "well_read s \<longleftrightarrow>
     (case se_error s of
        None \<Rightarrow> se_source s \<noteq> None \<and> se_destination s \<noteq> None \<and> se_from s \<noteq> None
      | Some _ \<Rightarrow> se_source s = None \<and> se_destination s = None \<and> se_from s = None \<and> se_to s = None)"

lemma visited_well_read: "visited c sub i = Inr s \<Longrightarrow> well_read s"
  by (auto simp: visited_def well_read_def invalid_step_def normalized_step_def Let_def
      split: nested_item.splits pyval.splits sum.splits if_splits)

lemma normalize_well_read: "normalize_steps c tree = Inr es \<Longrightarrow> s \<in> set es \<Longrightarrow> well_read s"
  unfolding normalize_steps_def by (drule (1) map_results_set) (auto dest: visited_well_read)

text \<open>What \<open>read_route\<close> puts into a route, by parts.\<close>

lemma read_route_parts:
  assumes "read_route c now route = Inr x"
  obtains tree es normal main e where
    "steps_of_route route = Inr tree" "evidence_of_steps c tree = Inr (es, normal, main)"
    "amounts_of_route route = Inr (lr_id x, lr_from x, lr_to x, lr_to_min x)"
    "lr_evidence x = Some e" "re_steps e = es" "re_source e = the (se_source (hd main))"
    "re_destination e = the (se_destination (last main))" "re_input e = lr_from x" "re_output e = lr_to x"
    "re_min_output e = lr_to_min x" "re_recipient e = se_recipient (last main)"
    "re_payload e = lc_dumps c (PDict route)" "re_timestamp e = now" "lx_raw x = tree"
  using assms unfolding read_route_def
  by (auto simp: Let_def new_evidence_def split: prod.splits)

lemma evidence_of_steps_parts:
  "evidence_of_steps c tree = Inr (es, normal, main) \<Longrightarrow>
    normalize_steps c tree = Inr es \<and> main = filter (\<lambda>e. se_source e \<noteq> None) (top_level_steps es) \<and> main \<noteq> []"
  unfolding evidence_of_steps_def top_level_steps_def
  by (auto simp: Let_def conj_commute split: if_splits)

section \<open>Steps that lead to their end\<close>

fun leads :: "asset \<Rightarrow> int \<Rightarrow> step_evidence list \<Rightarrow> asset \<Rightarrow> int \<Rightarrow> bool" where
  "leads a n [] b out = False"
| "leads a n [s] b out = (se_source s = Some a \<and> se_from s = Some n \<and> se_destination s = Some b
     \<and> (se_to s = None \<or> se_to s = Some out))"
| "leads a n (s # t # ss) b out = (se_source s = Some a \<and> se_from s = Some n
     \<and> (\<exists>d m. se_destination s = Some d \<and> se_to s = Some m \<and> leads d m (t # ss) b out))"

lemma flow_leads:
  assumes "main \<noteq> []" "\<And>s. s \<in> set main \<Longrightarrow> well_read s" "check_flow main = Inr ()"
    and "se_source (hd main) = Some a" "se_from (hd main) = Some n"
    and "se_destination (last main) = Some b" "se_to (last main) = None \<or> se_to (last main) = Some out"
  shows "leads a n main b out"
  using assms
proof (induction main arbitrary: a n rule: check_flow.induct)
  case (1 s t ss)
  then have flow: "se_destination s = se_source t" "se_to s \<noteq> None" "se_from t = se_to s" "check_flow (t # ss) = Inr ()"
    by (auto split: if_splits)
  then obtain m where m: "se_to s = Some m" by auto
  have "well_read s" "se_from s \<noteq> None" using "1.prems"(2,5) by auto
  then obtain d where d: "se_destination s = Some d" by (auto simp: well_read_def split: option.splits)
  have "leads d m (t # ss) b out"
    by (rule "1.IH") (use flow m d "1.prems" in auto)
  with "1.prems"(4,5) d m show ?case by auto
qed auto

section \<open>The nested steps\<close>

fun facts_lead :: "asset \<Rightarrow> int \<Rightarrow> step_facts list \<Rightarrow> asset \<Rightarrow> int option \<Rightarrow> bool" where
  "facts_lead a n [] b out = False"
| "facts_lead a n [(s, d, i, o')] b out = (s = a \<and> i = n \<and> d = b \<and> (out = None \<or> o' = out))"
| "facts_lead a n ((s, d, i, o') # f # fs) b out =
     (s = a \<and> i = n \<and> (\<exists>m. o' = Some m \<and> facts_lead d m (f # fs) b out))"

lemma links_lead:
  "check_links fs = Inr () \<Longrightarrow> fs = (a, d, n, o1) # rest \<Longrightarrow> last fs = (s, b, i, o2)
    \<Longrightarrow> out = None \<or> o2 = out \<Longrightarrow> facts_lead a n fs b out"
proof (induction fs arbitrary: a d n o1 rest rule: check_links.induct)
  case (1 a' d' n' o' s' e' i' p' fs)
  from "1.prems"(1) have "d' = s'" "o' = Some i'" "check_links ((s', e', i', p') # fs) = Inr ()"
    by (simp_all split: if_splits)
  moreover from this have "facts_lead s' i' ((s', e', i', p') # fs) b out"
    using "1.IH" [of s' e' i' p' fs] "1.prems"(3,4) by simp
  moreover have "a' = a" "n' = n" "o' = o1" using "1.prems"(2) by simp_all
  ultimately show ?case by (auto simp: "1.prems"(2) [symmetric])
qed auto

lemma check_children_lead:
  assumes "check_children (a, b, n, out) fs = Inr ()"
  shows "fs = [] \<or> facts_lead a n fs b out"
proof (cases fs)
  case (Cons f rest)
  obtain s d i o1 where f: "f = (s, d, i, o1)" by (cases f) auto
  obtain s2 b2 i2 o2 where l: "last fs = (s2, b2, i2, o2)" by (cases "last fs") auto
  from assms have "s = a" "i = n" "check_links fs = Inr ()" "b2 = b" "out = None \<or> o2 = out"
    using l by (auto simp: check_children_def Cons f split: if_splits)
  with links_lead [of fs a d n o1 rest] l show ?thesis by (auto simp: Cons f)
qed simp

definition nested_lead :: "pydict \<Rightarrow> bool" where
  "nested_lead s \<longleftrightarrow> (\<exists>a b n out children fs. facts_of s = Inr (a, b, n, out) \<and> tree_children s = Inr children
     \<and> map_results facts_of children = Inr fs \<and> (fs = [] \<or> facts_lead a n fs b out))"

lemma validate_tree_here:
  "validate_tree tree = Inr () \<Longrightarrow> s \<in> set tree \<Longrightarrow> nested_lead s
    \<and> (\<forall>children. tree_children s = Inr children \<longrightarrow> validate_tree children = Inr ())"
proof (induction tree)
  case (Cons t tree)
  then obtain a b n out children fs where t: "facts_of t = Inr (a, b, n, out)" "tree_children t = Inr children"
    "map_results facts_of children = Inr fs" "check_children (a, b, n, out) fs = Inr ()"
    "validate_tree children = Inr ()" "validate_tree tree = Inr ()"
    by auto
  then have "nested_lead t" using check_children_lead unfolding nested_lead_def by blast
  with t Cons show ?case by auto
qed simp

text \<open>The steps below one are those of its only list that is not empty.\<close>

lemma concat_filled: "concat gs = concat (filter (\<lambda>g. g \<noteq> []) gs)"
  by (induction gs) auto

lemma tree_groups_items:
  "map_results (tree_group s) ks = Inr gs \<Longrightarrow> concat (map (nested_group s) ks) = map Visit (concat gs)"
  by (induction ks arbitrary: gs) (auto simp: tree_group_def nested_group_def split: pyval.splits)

lemma tree_children_items:
  assumes "tree_children s = Inr children"
  shows "nested_items (PDict s) = map (\<lambda>d. Visit (PDict d)) children"
proof -
  from assms obtain gs where gs: "map_results (tree_group s) nested_keys = Inr gs"
    by (auto simp: tree_children_def)
  have "concat gs = map PDict children"
    using assms gs concat_filled [of gs] by (auto simp: tree_children_def dest: map_results_dicts split: list.splits)
  with tree_groups_items [OF gs] show ?thesis by (simp add: nested_items_def)
qed

lemma flatten_append: "flatten (xs @ ys) = flatten xs @ flatten ys"
  by (induction xs rule: flatten.induct) simp_all

lemma walk_simps:
  "walk_steps [] = []"
  "tree_children s = Inr children \<Longrightarrow> walk_steps (s # tree) = s # walk_steps children @ walk_steps tree"
  by (simp_all add: walk_steps_def tree_children_items)

lemma validate_tree_walk:
  "validate_tree tree = Inr () \<Longrightarrow> s \<in> set (walk_steps tree) \<Longrightarrow> nested_lead s"
proof (induction tree rule: validate_tree.induct)
  case (2 t tree)
  then obtain p children fs where t: "facts_of t = Inr p" "tree_children t = Inr children"
    "map_results facts_of children = Inr fs" "check_children p fs = Inr ()"
    "validate_tree children = Inr ()" "validate_tree tree = Inr ()"
    by auto
  have "nested_lead t" using validate_tree_here [OF "2.prems"(1)] by simp
  moreover have "nested_lead s" if "s \<in> set (walk_steps children)"
    using "2.IH"(1) t that by auto
  moreover have "nested_lead s" if "s \<in> set (walk_steps tree)"
    using "2.IH"(2) t that by auto
  ultimately show ?case using "2.prems"(2) walk_simps(2) [OF t(2)] by auto
qed (simp add: walk_simps)

section \<open>A validated route\<close>

lemma evidence_main:
  assumes "evidence_of_steps c tree = Inr (es, normal, main)" "check_flow (top_level_steps es) = Inr ()"
    and "se_destination (last (top_level_steps es)) \<noteq> None"
  shows "main = top_level_steps es" "main \<noteq> []" "\<And>s. s \<in> set main \<Longrightarrow> well_read s"
proof -
  note parts = evidence_of_steps_parts [OF assms(1)]
  then have read: "well_read s" if "s \<in> set (top_level_steps es)" for s
    using normalize_well_read that by (auto simp: top_level_steps_def)
  have linked: "se_to s \<noteq> None" if "check_flow ss = Inr ()" "s \<in> set (butlast ss)" for s ss
    using that by (induction ss rule: check_flow.induct) (auto split: if_splits)
  have "se_source s \<noteq> None" if s: "s \<in> set (top_level_steps es)" for s
  proof -
    have "s \<in> set (butlast (top_level_steps es)) \<or> s = last (top_level_steps es)"
      using s by (cases "top_level_steps es" rule: rev_cases) auto
    then have "se_to s \<noteq> None \<or> se_destination s \<noteq> None" using linked [OF assms(2)] assms(3) by blast
    with read [OF s] show ?thesis by (auto simp: well_read_def split: option.splits)
  qed
  with parts show "main = top_level_steps es" by (simp add: filter_True)
  with parts read show "main \<noteq> []" "\<And>s. s \<in> set main \<Longrightarrow> well_read s" by auto
qed

lemma integrity_parts:
  assumes "route_integrity c clock r = Inr ()" "lr_evidence r = Some e"
  obtains payload x xe where "lc_loads c (re_payload e) = Inr (PDict payload)"
    "lc_dumps c (PDict payload) = re_payload e" "lc_sha c (re_payload e) = re_sha e"
    "route_from_dict c (Some (re_timestamp e)) clock (PDict payload) = Inr x" "lr_evidence x = Some xe"
    "same_fields r x" "same_evidence e xe" "list_all2 same_cost (lr_gas r) (lr_gas x)"
proof -
  from assms obtain x xe where x: "expected_route c clock e = Inr x" "lr_evidence x = Some xe"
    "same_fields r x" "same_evidence e xe" "length (lr_gas r) = length (lr_gas x)"
    "check_each (check_gas (re_prices e)) (zip (lr_gas x) (lr_gas r)) = Inr ()"
    by (auto simp: route_integrity_def Let_def split: option.splits if_splits)
  from x(1) obtain payload where "canonical_payload c e = Inr payload"
    "route_from_dict c (Some (re_timestamp e)) clock (PDict payload) = Inr x"
    by (auto simp: expected_route_def split: sum.splits)
  moreover from this have "lc_loads c (re_payload e) = Inr (PDict payload)"
    "lc_dumps c (PDict payload) = re_payload e" "lc_sha c (re_payload e) = re_sha e"
    by (auto simp: canonical_payload_def split: if_splits)
  moreover have "list_all2 same_cost (lr_gas r) (lr_gas x)"
  proof -
    have "same_cost a y" if "(y, a) \<in> set (zip (lr_gas x) (lr_gas r))" for y a
      using x(6) bspec [of _ "\<lambda>p. check_gas (re_prices e) p = Inr ()", OF _ that]
      by (auto simp: check_each_Inr check_gas_def split: if_splits)
    then show ?thesis using x(5) by (auto simp: list_all2_conv_all_nth set_zip)
  qed
  ultimately show thesis using that x by blast
qed

lemma rebuilt_parts:
  assumes "route_from_dict c (Some t) clock (PDict payload) = Inr x" and "lr_evidence x = Some e"
  obtains tree normal main where "evidence_of_steps c tree = Inr (re_steps e, normal, main)"
    "re_source e = the (se_source (hd main))" "re_output e = lr_to x" "re_min_output e = lr_to_min x"
    "lr_to_min x \<le> lr_to x"
proof -
  from assms(1) have "read_route c (either_text (Some t) clock) payload = Inr x"
    by (auto simp: route_from_dict_def split: sum.splits)
  then obtain tree es normal main e' where read: "evidence_of_steps c tree = Inr (es, normal, main)"
    "amounts_of_route payload = Inr (lr_id x, lr_from x, lr_to x, lr_to_min x)"
    "lr_evidence x = Some e'" "re_steps e' = es" "re_source e' = the (se_source (hd main))"
    "re_output e' = lr_to x" "re_min_output e' = lr_to_min x"
    by (rule read_route_parts)
  moreover from read(2) have "lr_to_min x \<le> lr_to x"
    by (auto simp: amounts_of_route_def split: if_splits)
  moreover from read(3) assms(2) have "e' = e" by simp
  ultimately show ?thesis using that by blast
qed

text \<open>
  C40: a route that passes the check is the one its own canonical payload gives, with the
  recorded digest: every amount, step and fee is read from there, and the gas costs but for
  prices. Its steps lead, each from where and with what the one before it ended, from the
  approved asset and amount to the approved asset at the approved recipient, and the steps
  nested in one, at any depth, do so for that one.
\<close>

theorem validated_route_leads:
  assumes "validate_bridge_route c clock source destination recipient amount rid r = Inr ()"
  shows "\<exists>e payload tree x. lr_evidence r = Some e \<and> lc_loads c (re_payload e) = Inr (PDict payload)
    \<and> lc_dumps c (PDict payload) = re_payload e \<and> lc_sha c (re_payload e) = re_sha e
    \<and> route_from_dict c (Some (re_timestamp e)) clock (PDict payload) = Inr x \<and> same_fields r x
    \<and> list_all2 same_cost (lr_gas r) (lr_gas x)
    \<and> lr_from r = amount \<and> lr_to r = re_output e \<and> re_min_output e = lr_to_min r \<and> lr_to_min r \<le> lr_to r
    \<and> leads source amount (top_level_steps (re_steps e)) destination (lr_to r)
    \<and> valid_address recipient \<and> se_recipient (last (top_level_steps (re_steps e))) = Some (lower recipient)
    \<and> payload_tree c e = Inr tree \<and> (\<forall>s \<in> set (walk_steps tree). nested_lead s)"
proof -
  from assms have integrity: "route_integrity c clock r = Inr ()"
    by (auto simp: validate_bridge_route_def split: if_splits)
  from assms obtain e where e: "lr_evidence r = Some e"
    by (auto simp: validate_bridge_route_def split: if_splits option.splits)
  let ?main = "top_level_steps (re_steps e)"
  from assms e obtain tree where tree: "payload_tree c e = Inr tree" "validate_tree tree = Inr ()"
    and flow: "check_flow ?main = Inr ()" and ends: "check_ends r e ?main source destination recipient amount = Inr ()"
    by (auto simp: validate_bridge_route_def Let_def split: if_splits)
  from ends have last: "se_destination (last ?main) = Some destination" "re_source e = source"
    "se_recipient (last ?main) = re_recipient e" "se_to (last ?main) = None \<or> se_to (last ?main) = Some (re_output e)"
    "re_input e = amount" "lr_from r = amount" "se_from (hd ?main) = Some amount"
    by (auto simp: check_ends_def Let_def split: if_splits option.splits)
  from ends have recipient: "re_recipient e = Some (lower recipient)" "valid_address recipient"
    by (auto simp: check_ends_def Let_def lifi_address_def split: if_splits option.splits)
  from integrity_parts [OF integrity e] obtain payload x xe where p: "lc_loads c (re_payload e) = Inr (PDict payload)"
    "lc_dumps c (PDict payload) = re_payload e" "lc_sha c (re_payload e) = re_sha e"
    "route_from_dict c (Some (re_timestamp e)) clock (PDict payload) = Inr x" "lr_evidence x = Some xe"
    "same_fields r x" "same_evidence e xe" "list_all2 same_cost (lr_gas r) (lr_gas x)" .
  from p(4,5) obtain tree' normal main where read: "evidence_of_steps c tree' = Inr (re_steps xe, normal, main)"
    "re_source xe = the (se_source (hd main))" "re_output xe = lr_to x" "re_min_output xe = lr_to_min x"
    "lr_to_min x \<le> lr_to x"
    by (rule rebuilt_parts)
  have same: "re_steps e = re_steps xe" "re_source e = re_source xe" "re_output e = re_output xe" "re_min_output e = re_min_output xe"
    using p(7) unfolding same_evidence_def by (cases e; cases xe; simp)+
  have fields: "lr_to r = lr_to x" "lr_to_min r = lr_to_min x" using p(6) by (simp_all add: same_fields_def)
  note main = evidence_main [OF read(1) [folded same(1)] flow]
  have main': "main = ?main" "?main \<noteq> []" "\<And>s. s \<in> set ?main \<Longrightarrow> well_read s"
    using main last(1) by auto
  have "well_read (hd ?main)" using main'(2,3) by simp
  then obtain a where a: "se_source (hd ?main) = Some a"
    using last(7) by (auto simp: well_read_def split: option.splits)
  then have "a = source" using read(2) same(2) main'(1) last(2) by simp
  with flow_leads [OF main'(2,3) flow a last(7) last(1)] last(4)
  have "leads source amount ?main destination (re_output e)" by blast
  moreover have "\<forall>s \<in> set (walk_steps tree). nested_lead s" using validate_tree_walk [OF tree(2)] by blast
  ultimately show ?thesis
    using e p last recipient tree(1) read same fields by auto
qed

text \<open>A transfer of ether from chain 10 to chain 42161 with one nested step.\<close>

definition sample_recipient :: string where
  "sample_recipient = ''0x'' @ replicate 40 (CHR ''A'')"

definition sample_ether :: "int \<Rightarrow> pyval" where
  "sample_ether chain = PDict [(''chainId'', PInt chain), (''address'', PStr ''native''),
     (''decimals'', PInt 18), (''priceUSD'', PStr ''3000'')]"

definition sample_lifi_step :: pydict where
  "sample_lifi_step = [(''type'', PStr ''lifi''), (''tool'', PStr ''across''),
     (''action'', PDict [(''fromChainId'', PInt 10), (''toChainId'', PInt 42161), (''fromToken'', sample_ether 10),
        (''toToken'', sample_ether 42161), (''fromAmount'', PStr ''100''), (''toAddress'', PStr sample_recipient)]),
     (''estimate'', PDict [(''toAmount'', PStr ''98''), (''gasCosts'', PList [PDict [(''amount'', PStr ''5''),
        (''token'', sample_ether 10)]])])]"

definition sample_lifi_payload :: pydict where
  "sample_lifi_payload = [(''id'', PStr ''r''), (''fromAmount'', PStr ''100''), (''toAmount'', PStr ''98''),
     (''toAmountMin'', PStr ''97''),
     (''steps'', PList [PDict ((''includedSteps'', PList [PDict sample_lifi_step]) # sample_lifi_step)])]"

definition sample_codec :: lifi_codec where
  "sample_codec = \<lparr>lc_dumps = (\<lambda>_. ''json''), lc_loads = (\<lambda>_. Inr (PDict sample_lifi_payload)),
     lc_sha = (\<lambda>_. ''sha''), lc_time = (\<lambda>t. if t = [] then None else Some 0), lc_describe = (\<lambda>_. ''error'')\<rparr>"

definition sample_end :: "int \<Rightarrow> asset" where
  "sample_end chain = \<lparr>a_chain = chain, a_contract = ''native'', a_decimals = 18\<rparr>"

lemma lifi_ids: "identity_from_token (PInt 10) (sample_ether 10) = Inr (sample_end 10)"
  "identity_from_token (PInt 42161) (sample_ether 42161) = Inr (sample_end 42161)"
  by code_simp+

lemma lifi_numbers: "parse_int ''100'' = Some 100" "parse_int ''98'' = Some 98" "parse_int ''97'' = Some 97"
  "parse_int ''5'' = Some 5"
  by code_simp+

lemma lifi_recipient: "lifi_address (PStr sample_recipient) = Inr (lower sample_recipient)"
proof -
  have "valid_address sample_recipient" by code_simp
  then show ?thesis by (simp add: lifi_address_def)
qed

lemma lifi_texts:
  "lower_char CHR ''l'' = CHR ''l''" "lower_char CHR ''i'' = CHR ''i''" "lower_char CHR ''f'' = CHR ''f''" "lower_char CHR ''a'' = CHR ''a''"
  "lower_char CHR ''c'' = CHR ''c''" "lower_char CHR ''r'' = CHR ''r''" "lower_char CHR ''o'' = CHR ''o''" "lower_char CHR ''s'' = CHR ''s''"
  "strip ''lifi'' = ''lifi''" "lower ''lifi'' = ''lifi''" "strip ''across'' = ''across''" "lower ''across'' = ''across''" "strip ''r'' = ''r''"
  by code_simp+

definition lifi_evidence_of :: "bool \<Rightarrow> step_evidence" where
  "lifi_evidence_of b = \<lparr>se_type = Some ''lifi'', se_provider = Some ''across'',
     se_source = Some (sample_end 10), se_destination = Some (sample_end 42161), se_from = Some 100,
     se_to = Some 98, se_recipient = Some (lower sample_recipient), se_sha = ''sha'',
     se_source_price = Some ''3000'', se_destination_price = Some ''3000'', se_source_time = None,
     se_destination_time = None, se_substep = b, se_error = None\<rparr>"

lemmas lifi_reading = get_def get_default_def item_def as_dict_def dict_of_def optional_of_def optional_price_def
  price_timestamp_def present_text_def token_dict_def action_asset_def required_nonnegative_def required_integer_def
  lifi_ids [unfolded sample_ether_def] lifi_numbers lifi_recipient lifi_texts


lemma lifi_normalized:
  "normalized_step sample_codec b sample_lifi_step = Inr (lifi_evidence_of b)"
  "normalized_step sample_codec b ((''includedSteps'', PList [PDict sample_lifi_step]) # sample_lifi_step) = Inr (lifi_evidence_of b)"
  by (simp_all add: normalized_step_def sample_lifi_step_def lifi_reading payload_sha_def sample_codec_def
     sample_ether_def lifi_evidence_of_def Let_def)

abbreviation lifi_tree :: "pydict list" where
  "lifi_tree \<equiv> [(''includedSteps'', PList [PDict sample_lifi_step]) # sample_lifi_step]"

lemma lifi_nested:
  "nested_items (PDict ((''includedSteps'', PList [PDict sample_lifi_step]) # sample_lifi_step)) = [Visit (PDict sample_lifi_step)]"
  "nested_items (PDict sample_lifi_step) = []"
  by (simp_all add: nested_items_def nested_keys_def nested_group_def sample_lifi_step_def get_def get_default_def)

lemma lifi_evidence: "evidence_of_steps sample_codec lifi_tree
  = Inr ([lifi_evidence_of False, lifi_evidence_of True], [lifi_evidence_of False, lifi_evidence_of True], [lifi_evidence_of False])"
  by (simp add: evidence_of_steps_def normalize_steps_def visits_of_def lifi_nested visited_def lifi_normalized
    top_level_steps_def has_error_def Let_def lifi_evidence_of_def)

definition lifi_gas :: "string option \<Rightarrow> gas_cost" where
  "lifi_gas t = \<lparr>gc_amount = 5, gc_amount_usd = None, gc_token = Some (sample_end 10), gc_price_usd = None, gc_timestamp = t\<rparr>"

lemma lifi_costs: "costs_of_route sample_lifi_payload lifi_tree = Inr
  \<lparr>lk_gas = [lifi_gas None], lk_fees = [], lk_gaps = [], lk_all_gas = [lifi_gas None, lifi_gas None], lk_all_fees = []\<rparr>"
proof -
  have walk: "walk_steps lifi_tree = lifi_tree @ [sample_lifi_step]"
    by (simp add: walk_steps_def lifi_nested)
  have gas: "costs_at gas_costs_of ''gasCosts'' s = Inr [lifi_gas None]" "costs_at fee_costs_of ''feeCosts'' s = Inr []"
    if "s \<in> {sample_lifi_step, (''includedSteps'', PList [PDict sample_lifi_step]) # sample_lifi_step}" for s
    using that
    by (auto simp: costs_at_def estimate_of_def sample_lifi_step_def gas_costs_of_def fee_costs_of_def list_of_def gas_cost_of_def
      lifi_reading sample_ether_def lifi_gas_def)
  have below: "cost_children sample_lifi_step nested_keys [] = Inr []"
    "cost_children ((''includedSteps'', PList [PDict sample_lifi_step]) # sample_lifi_step) nested_keys [] = Inr [sample_lifi_step]"
    by (simp_all add: nested_keys_def dict_group_def sample_lifi_step_def get_default_def dict_of_def)
  show ?thesis
    by (simp add: costs_of_route_def step_estimate_costs_def walk gas below given_costs_def sample_lifi_payload_def
      aggregate_gap_def costs_cover_def gas_key_def lifi_gas_def)
qed

definition lifi_price :: "int \<Rightarrow> string option \<Rightarrow> price_evidence" where
  "lifi_price chain p = \<lparr>pe_asset = sample_end chain, pe_price = p, pe_timestamp = ''t'', pe_source = ''lifi'', pe_reported = None\<rparr>"

definition sample_route_evidence :: route_evidence where
  "sample_route_evidence = \<lparr>re_route_id = ''r'', re_steps = [lifi_evidence_of False, lifi_evidence_of True],
     re_source = sample_end 10, re_destination = sample_end 42161, re_input = 100, re_output = 98,
     re_min_output = 97, re_recipient = Some (lower sample_recipient), re_timestamp = ''t'',
     re_prices = [lifi_price 10 (Some ''3000''), lifi_price 42161 (Some ''3000''),
       lifi_price 10 (Some ''3000''), lifi_price 42161 (Some ''3000''), lifi_price 10 None,
       lifi_price 42161 None, lifi_price 10 None, lifi_price 10 None],
     re_sha = ''sha'', re_payload = ''json'', re_costs_complete = True, re_costs_reason = None\<rparr>"

definition sample_lifi_route :: bridge_route where
  "sample_lifi_route = \<lparr>lr_id = ''r'', lr_from = 100, lr_to = 98, lr_to_min = 97,
     lr_gas = [lifi_gas (Some ''t'')], lr_evidence = Some sample_route_evidence, lx_fees = [],
     lx_tools = [''across''],
     lx_action = Some \<lparr>la_provider = ''across'', la_source = sample_end 10, la_destination = sample_end 42161,
       la_from = 100, la_recipient = Some (lower sample_recipient), la_raw = hd lifi_tree\<rparr>,
     lx_raw = lifi_tree, lx_source_price = None, lx_destination_price = None, lx_time = Some ''t''\<rparr>"

lemma lifi_read: "route_from_dict sample_codec (Some ''t'') now (PDict sample_lifi_payload) = Inr sample_lifi_route"
proof -
  have tree: "steps_of_route sample_lifi_payload = Inr lifi_tree"
    by (simp add: steps_of_route_def sample_lifi_payload_def get_default_def dict_of_def)
  have action: "optional_action (hd lifi_tree) = Inr (lx_action sample_lifi_route)"
    by (simp add: optional_action_def action_of_step_def sample_lifi_step_def lifi_reading sample_ether_def sample_lifi_route_def)
  have amounts: "amounts_of_route sample_lifi_payload = Inr (''r'', 100, 98, 97)"
    by (simp add: amounts_of_route_def sample_lifi_payload_def lifi_reading)
  have prices: "route_prices sample_codec ''t'' sample_lifi_payload [lifi_evidence_of False, lifi_evidence_of True]
      [lifi_evidence_of False] [lifi_gas None, lifi_gas None] [] = Inr (re_prices sample_route_evidence)"
    by (simp add: route_prices_def step_prices_def priced_end_def endpoint_price_def cost_price_def new_price_def
      parse_timestamp_def sample_codec_def lifi_evidence_of_def either_text_def gas_quote_def lifi_gas_def
      lifi_price_def sample_route_evidence_def price_timestamp_def sample_lifi_payload_def get_def get_default_def optional_price_def)
  have rest: "price_timestamp sample_lifi_payload = Inr None" "optional_price (get sample_lifi_payload ''fromTokenPriceUSD'') = Inr None"
    "optional_price (get sample_lifi_payload ''toTokenPriceUSD'') = Inr None"
    by (simp_all add: sample_lifi_payload_def lifi_reading)
  have tools: "get (hd lifi_tree) ''tool'' = PStr ''across''" by (simp add: sample_lifi_step_def get_def get_default_def)
  have codec: "lc_dumps sample_codec v = ''json''" "lc_sha sample_codec t = ''sha''"
    "parse_timestamp sample_codec ''t'' = Inr 0" for v t
    by (simp_all add: sample_codec_def parse_timestamp_def)
  have parts: "stamp_gas ''t'' (lifi_gas None) = lifi_gas (Some ''t'')" "se_source (lifi_evidence_of b) = Some (sample_end 10)"
    "se_destination (lifi_evidence_of b) = Some (sample_end 42161)"
    "se_recipient (lifi_evidence_of b) = Some (lower sample_recipient)" for b
    by (simp_all add: stamp_gas_def lifi_gas_def either_text_def lifi_evidence_of_def)
  show ?thesis
    using action tools
    by (simp add: route_from_dict_def read_route_def either_text_def tree lifi_costs amounts lifi_evidence rest prices Let_def
      new_evidence_def codec parts sample_lifi_route_def sample_route_evidence_def)
qed

lemma lifi_codec_parts: "lc_dumps sample_codec v = ''json''" "lc_sha sample_codec t = ''sha''"
  "lc_loads sample_codec t = Inr (PDict sample_lifi_payload)"
  by (simp_all add: sample_codec_def)

lemma lifi_integrity: "route_integrity sample_codec now sample_lifi_route = Inr ()"
proof -
  have raw: "py_eq (PDict (hd lifi_tree)) (PDict (hd lifi_tree))" by code_simp
  have expected: "expected_route sample_codec now sample_route_evidence = Inr sample_lifi_route"
    using lifi_read by (simp add: expected_route_def canonical_payload_def lifi_codec_parts sample_route_evidence_def dict_of_def)
  show ?thesis
    using raw
    by (simp add: route_integrity_def expected sample_lifi_route_def same_fields_def same_raw_def same_action_def first_step_def
      same_evidence_def check_gas_def same_cost_def lifi_gas_def)
qed

lemma lifi_valid: "validate_bridge_route sample_codec now (sample_end 10) (sample_end 42161) sample_recipient 100 None
  sample_lifi_route = Inr ()"
proof -
  have facts: "facts_of s = Inr (sample_end 10, sample_end 42161, 100, Some 98)"
    if "s \<in> {sample_lifi_step, hd lifi_tree}" for s
    using that by (auto simp: facts_of_def sample_lifi_step_def lifi_reading sample_ether_def)
  have children: "tree_children sample_lifi_step = Inr []" "tree_children (hd lifi_tree) = Inr [sample_lifi_step]"
    by (simp_all add: tree_children_def nested_keys_def tree_group_def sample_lifi_step_def get_def get_default_def dict_of_def)
  have tree: "payload_tree sample_codec sample_route_evidence = Inr lifi_tree"
    by (simp add: payload_tree_def lifi_codec_parts sample_lifi_payload_def item_def elements_def as_dict_def)
  have ok: "validate_tree lifi_tree = Inr ()"
    using facts children by (simp add: check_children_def)
  have evidence: "lr_evidence sample_lifi_route = Some sample_route_evidence" "lr_from sample_lifi_route = 100"
    by (simp_all add: sample_lifi_route_def)
  have fields: "re_steps sample_route_evidence = [lifi_evidence_of False, lifi_evidence_of True]"
    "re_source sample_route_evidence = sample_end 10" "re_destination sample_route_evidence = sample_end 42161"
    "re_input sample_route_evidence = 100" "re_output sample_route_evidence = 98"
    "re_recipient sample_route_evidence = Some (lower sample_recipient)"
    by (simp_all add: sample_route_evidence_def)
  have parts: "se_substep (lifi_evidence_of b) = b" "se_error (lifi_evidence_of b) = None"
    "se_destination (lifi_evidence_of b) = Some (sample_end 42161)" "se_from (lifi_evidence_of b) = Some 100"
    "se_recipient (lifi_evidence_of b) = Some (lower sample_recipient)" "se_to (lifi_evidence_of b) = Some 98" for b
    by (simp_all add: lifi_evidence_of_def)
  show ?thesis
    using ok by (simp add: validate_bridge_route_def lifi_integrity evidence Let_def tree parts top_level_steps_def
      has_error_def check_ends_def lifi_recipient fields del: validate_tree.simps)
qed

theorem validated_route_leads_witness:
  "\<exists>e tree. lr_evidence sample_lifi_route = Some e
     \<and> leads (sample_end 10) 100 (top_level_steps (re_steps e)) (sample_end 42161) 98
     \<and> se_recipient (last (top_level_steps (re_steps e))) = Some (lower sample_recipient)
     \<and> payload_tree sample_codec e = Inr tree \<and> (\<forall>s \<in> set (walk_steps tree). nested_lead s)"
proof -
  have "lr_to sample_lifi_route = 98" by (simp add: sample_lifi_route_def)
  with validated_route_leads [OF lifi_valid] show ?thesis by metis
qed

end
