(* ===== verification/Spec2Isabelle.thy ===== *)
theory Spec2Isabelle
  imports Journal_Properties Executor_Properties Lifi_Quota Quote_Jobs Fee_Planner Consolidation Route_Policy
    Planner_Gas Pool_Properties Group_Properties Defi_Properties Quote_Cache Defi_Batch_Properties
    Defi_Operations Route_Options Legacy_Fee_Cap Lifi_Properties
begin

text \<open>
  \<^bold>\<open>evm-inventory\<close>, a command line that takes inventory of EVM wallets, plans routes of their
  assets to deposit addresses of an exchange and executes the routes. This library models the
  code that decides about money and about what may be signed and sent, and proves what makes
  it correct. Source files are those of \<open>src/evm_inventory/\<close>.

  \<^bold>\<open>The program.\<close> A scan writes balances to a database. Planning asks quote providers (LI.FI,
  Relay) for routes through a quota, values each route exactly and admits groups of routes
  whose loss is within a limit. Execution takes the groups one after another: a preflight
  refreshes a route, the group's loss is projected against its budget, and each step is signed
  and broadcast. Everything that must survive a crash is in one SQLite journal: groups,
  positions, steps (the transactions), events and key-free checkpoints.

  \<^bold>\<open>How the model is built.\<close> A Python value is a \<open>pyval\<close>, a dict an association list, a \<open>Decimal\<close> an
  \<open>fdec\<close> with its own sign, coefficient and exponent. An operation that may raise returns
  \<open>exn + 'a\<close>; one that changes state is an action, a function from a state to such a result
  and the next state, and an exception keeps what was written before it (\<open>Effects\<close>). A table is
  the list of its rows. Definitions follow the order of the code and carry its names.

  \<^bold>\<open>The theories.\<close>
  \<^item> \<open>Prelude\<close>, \<open>Py_Decimal\<close>, \<open>Decimal_Division\<close>, \<open>Py_Values\<close>, \<open>Effects\<close>: exceptions, text, tables;
    decimal arithmetic with rounding in a context, and how far a rounded quotient is off; the object protocol; actions, relations that a whole action keeps
    (\<open>keeps\<close>) and conditions before and after it (\<open>ensures\<close>).
  \<^item> \<open>Checkpoints\<close> (\<open>route_checkpoints.py\<close>): key-free snapshots; encoding and decoding lose nothing.
  \<^item> \<open>Journal_Tables\<close>, \<open>Journal\<close>, \<open>Source_Cost\<close>, \<open>Weth\<close>, \<open>Weth_Continuation\<close> (\<open>journal.py\<close>,
    \<open>source_cost_provenance.py\<close>, \<open>weth.py\<close>, \<open>weth_continuation.py\<close>): the rows, every operation of the
    class \<open>Journal\<close>, the accounting of losses and the reactivation of halted groups.
    \<open>Journal_Facts\<close> proves for each operation that the tables stay well-formed and that rows only
    evolve; \<open>Journal_Machine\<close> makes the operations the rules of a step relation \<open>jstep\<close> with the
    reachable journals; \<open>Journal_Properties\<close> states what holds of every run.
  \<^item> \<open>Rpc\<close>, \<open>Executor\<close>, \<open>Executor_Facts\<close>, \<open>Executor_Properties\<close> (\<open>rpc.py\<close>, \<open>executor.py\<close>): the RPC client
    with its allowed methods, signing, the durable broadcast, gas guards, approvals and receipts.
    The journal is an interface there, the locale \<open>durable_journal\<close>, interpreted on the tables.
  \<^item> \<open>Stages\<close> (\<open>stages.py\<close>): time budgets, and the pool of workers as a step relation.
  \<^item> \<open>Lifi_Quota\<close>, \<open>Quote_Jobs\<close>, \<open>Quote_Http\<close>, \<open>Quote_Ledger\<close>, \<open>Proxy_Pool\<close>, \<open>Pool_Properties\<close>
    (\<open>lifi_quota.py\<close>, \<open>quote_jobs.py\<close>, \<open>lifi_http.py\<close>, \<open>proxy_pool.py\<close>): rolling windows and cooldowns of the
    providers, leases of quote jobs, the paced HTTP client, and the failover over proxies.
  \<^item> \<open>Fee_Planner\<close> (\<open>fee_planner.py\<close>): gas limits and fees; \<open>Valuation\<close>, \<open>Consolidation\<close> (\<open>valuation.py\<close>,
    \<open>consolidation.py\<close>): exact values of routes, candidates, the admission of groups.
  \<^item> \<open>Lifi_Parse\<close>, \<open>Lifi_Validation\<close>, \<open>Lifi_Properties\<close> (\<open>lifi.py\<close>): the parser of LI.FI's routes with
    the nested steps and their costs, the check of a saved route against its own payload and the
    approved transfer, and what a route that passes it promises.
  \<^item> \<open>Bitget_Catalog\<close>, \<open>Route_Policy\<close> (\<open>bitget_catalog.py\<close>, \<open>planner.py\<close>, \<open>route_plan.py\<close>, \<open>route_batch.py\<close>,
    \<open>asset_policy.py\<close>, \<open>network_policy.py\<close>, \<open>execution_policy.py\<close>, \<open>routing_settings.py\<close>, \<open>route_targets.py\<close>,
    \<open>celo.py\<close>): deposit targets and the policies of planning.
  \<^item> \<open>Relay_Protocol\<close> (\<open>relay_protocol.py\<close>): the validation of a Relay order before its signature.
  \<^item> \<open>Planner_Gas\<close> (\<open>planner_gas.py\<close>): gas evidence of planned routes and the fee of a Relay order, over
    the fee planner, the order's validation and the executor's approvals.
  \<^item> \<open>Route_Errors\<close>, \<open>Group_Steps\<close>, \<open>Group_Execution\<close>, \<open>Group_Frames\<close>, \<open>Deposit_Background\<close>,
    \<open>Group_Properties\<close> (\<open>route_preparation.py\<close>, \<open>transport.py\<close>, \<open>route_execution.py\<close>): how an exception is read, and
    \<open>execute_group_entries\<close> with every branch and handler. The injected functions (preflight, the
    submission of a step, the requote) are a record of arbitrary actions on the journal and the
    rest of the world. \<open>Group_Frames\<close> proves once, in locales, that a relation which the elementary
    actions keep is kept by every branch; its instances say that no step is submitted, and that
    the journal only takes steps of \<open>jstep\<close>. \<open>Deposit_Background\<close> has the deposits that are watched
    meanwhile (\<open>_DepositBackground\<close>), over a pool of futures; the hook before every entry is its
    \<open>raise_if_failed\<close>, which either raises or leaves the journal as it was.

  \<^item> \<open>Defi_Actions\<close>, \<open>Defi_Call_Data\<close>, \<open>Defi_Plan\<close>, \<open>Defi_Plan_Facts\<close>, \<open>Defi_Execution\<close>, \<open>Action_Frames\<close>,
    \<open>Defi_Frames\<close>, \<open>Defi_Properties\<close> (\<open>rabby.py\<close>, \<open>defi_plan.py\<close>, \<open>defi_execution.py\<close>): the calls of a
    withdrawal that are accepted from a provider, the reviewed plan, and the execution of one
    action: its preflight, the durable send, the receipt and the check of the balances.
    \<open>Action_Frames\<close> is the rule for relations that every part of an action keeps.
  \<^item> \<open>Quote_Cache\<close> (\<open>quote_parallel.py\<close>): the price cache of a stage as a step relation over its threads,
    and the all-or-nothing fanout, which ends as the calls one after another would.
  \<^item> \<open>Defi_Batch\<close>, \<open>Defi_Worker\<close>, \<open>Defi_Batch_Frames\<close>, \<open>Defi_Queue\<close>, \<open>Defi_Batch_Properties\<close>
    (\<open>defi_batch.py\<close>): the tables of a batch of withdrawals, the worker's handling of one wallet with
    every branch, its loop, and what its queue keeps over any run of turns.
  \<^item> \<open>Inventory_Store\<close>, \<open>Inventory_Properties\<close> (\<open>store.py\<close>): the schema of the inventory database with
    its migrations, every operation, and what they keep; \<open>Defi_Operations\<close> (\<open>defi_operations.py\<close>)
    plans and executes withdrawals over it.
  \<^item> \<open>Route_Options\<close>, \<open>Legacy_Fee_Cap\<close> (\<open>unsigned_route_options.py\<close>, \<open>unsigned_recovery.py\<close>): the other options
    of a quote after a deterministic failure, and the diagnosis of one legacy error.

  \<^bold>\<open>How the parts meet.\<close> The executor writes through the journal's operations, so its guarantees
  (one send per nonce, a hash durable before the send) are those of the tables. The execution
  of a group writes through the same operations: \<open>execution_keeps_journal\<close> carries every property
  of reachable journals over to it. The HTTP client and the proxy pool reserve through the
  quota, so the windows hold for every mix of clients on one database. The valuation's exact
  sums are the ones the admission of a group and the projection of its execution compare. A withdrawal writes its
  step through the same durable broadcast, and the batch worker reads the journal to decide
  whether it may be repeated. An action is executed only from the plan that the store holds.

  \<^bold>\<open>Bounds and termination.\<close> The default decimal context has 28 digits, the journal's sums 80;
  percentages add 50 digits to those of their operands, as the code does. Loops are structural
  or have a measure; waiting for a receipt is a \<open>partial_function\<close> that is proved to end when
  the pause is positive; a pause within a deadline, a wait for a dispatch and the paced starts
  end by the clock's progress, their \<open>termination\<close> proofs say how. The rounds of
  \<open>finish\<close> over the watched deposits have fuel: as many rounds as there are watches are enough when the
  pool is fair, that is, a wait for several futures ends with one of them done. The executor of withdrawals
  waits ten minutes for a receipt in polls of ten seconds and asks four times for a portfolio;
  the batch worker reads three times, resends twice and puts a wallet off three times by half an
  hour: these counts are lists of pauses in the definitions. Its loop over the queue is a
  \<open>partial_function\<close>; what is proved of it holds after any number of turns. An exhausted route is
  tried again 240 seconds after its newest quote.

  \<^bold>\<open>Parameters.\<close> Third-party code and I/O: SHA-256, Keccak, key derivation and signatures, RLP and
  ABI encoding, the EIP-712 hash, the HTTP library, readers and writers of JSON, parsers of HTTP and
  ISO dates, the decoder of token symbols, locks of other threads and processes, random numbers
  and fresh ids, workbooks and files. Of this repository: the redaction of diagnostics
  (\<open>diagnostics.py\<close>), whose results only end up in messages, the check of a route against its own
  payload where \<open>Consolidation\<close> uses it (it can only refuse a route there; the
  check itself is \<open>Lifi_Validation\<close>), and the native balance that the batch worker notes beside an outcome (\<open>_native_snapshot\<close>).

  \<^bold>\<open>Not modelled.\<close> HTTP transport, SQLite and JSON text themselves, the command line, workbooks,
  reports, logging and configuration are input and output. The scanner and discovery are
  concurrent requests whose results the store holds. Live planning and collection drive the
  modelled parts (quotes, valuation, admission, the journal) over files and endpoints; the
  LI.FI, Relay and Bitget clients parse responses of their providers; the functions of
  \<open>route_execution.py\<close> that build the injected functions are covered by the arbitrary actions that
  \<open>execute_group_entries\<close> is proved for. The upgrade of batch and quota tables of older versions, the
  text of a float and of a container, exponent limits of decimals, and time stamps of the
  journal's rows are left out. Integers of the tables are unbounded, where SQLite refuses those of
  more than 63 bits. A turn of the batch worker ends or raises; a process that is killed in the middle
  of one is not a step of its history.
\<close>

end
